(* ===== verification/Prelude.thy ===== *)
theory Prelude
  imports Complex_Main
begin

text \<open>
  Shared vocabulary of the development: how JavaScript strings, dates and JSON values are
  represented, the generic facts about lists of rows that the repositories share, and the
  collections of simplification rules the component theories extend.

  A JavaScript string is a \<^typ>\<open>string\<close>, a list of characters; one character stands for one
  UTF-16 code unit below 256, which covers every character the code inspects. A JavaScript
  \<open>Date\<close> is its time value in whole milliseconds, or the invalid date. Columns that Postgres
  fills with its own clock keep microseconds, which is finer than a \<open>Date\<close> can hold.
\<close>

section \<open>Collections of rules\<close>

named_theorems row_simps \<open>what one statement does to the rows of a table\<close>
named_theorems step_simps \<open>unfolding of the atomic steps of the services\<close>
named_theorems safe_intros \<open>introduction rules for predicates on programs\<close>

section \<open>Names of the types\<close>

type_synonym uuid = string
type_synonym millis = int        \<comment> \<open>a valid \<open>Date\<close>: milliseconds since the epoch\<close>
type_synonym micros = int        \<comment> \<open>a \<open>timestamptz\<close> filled by Postgres: microseconds\<close>

section \<open>JavaScript dates\<close>

text \<open>
  \<open>new Date(x)\<close> truncates a finite number towards zero and is invalid beyond 8.64e15
  milliseconds; comparing the time value of an invalid date with anything is false, and
  formatting it raises a RangeError.
\<close>

datatype js_date = Date millis | InvalidDate

definition max_time_value :: int where
  "max_time_value = 8640000000000000"

definition trunc_rat :: "rat \<Rightarrow> int" where
  "trunc_rat x = (if x < 0 then \<lceil>x\<rceil> else \<lfloor>x\<rfloor>)"

definition new_date :: "rat \<Rightarrow> js_date" where
  "new_date x = (if \<bar>x\<bar> \<le> of_int max_time_value then Date (trunc_rat x) else InvalidDate)"

fun later_than :: "js_date \<Rightarrow> millis \<Rightarrow> bool" where
  "later_than (Date t) now = (now < t)"
| "later_than InvalidDate now = False"

definition to_date :: "micros \<Rightarrow> millis" where
  "to_date us = us div 1000"

definition of_date :: "millis \<Rightarrow> micros" where
  "of_date ms = ms * 1000"

lemma to_date_of_date [simp]: "to_date (of_date t) = t"
  by (simp add: to_date_def of_date_def)

lemma of_date_mono [simp]: "of_date s \<le> of_date t \<longleftrightarrow> s \<le> t"
  by (simp add: of_date_def)

lemma new_date_of_int: "\<bar>t\<bar> \<le> max_time_value \<Longrightarrow> new_date (of_int t) = Date t"
  by (simp add: new_date_def trunc_rat_def flip: of_int_abs)

lemma new_date_Date_ge:
  assumes "new_date x = Date t" and "of_int a \<le> x"
  shows "a \<le> t"
proof (cases "x < 0")
  case True
  with assms have "t = \<lceil>x\<rceil>"
    by (auto simp: new_date_def trunc_rat_def split: if_splits)
  moreover have "(of_int a :: rat) \<le> of_int \<lceil>x\<rceil>"
    using assms(2) le_of_int_ceiling [of x] by linarith
  ultimately show ?thesis by simp
next
  case False
  with assms have "t = \<lfloor>x\<rfloor>"
    by (auto simp: new_date_def trunc_rat_def split: if_splits)
  with assms(2) show ?thesis by (simp add: le_floor_iff)
qed

lemma new_date_Date_le:
  assumes "new_date x = Date t" and "x \<le> of_int b"
  shows "t \<le> b"
proof (cases "x < 0")
  case True
  with assms have "t = \<lceil>x\<rceil>"
    by (auto simp: new_date_def trunc_rat_def split: if_splits)
  with assms(2) show ?thesis by (simp add: ceiling_le_iff)
next
  case False
  with assms have "t = \<lfloor>x\<rfloor>"
    by (auto simp: new_date_def trunc_rat_def split: if_splits)
  moreover have "(of_int \<lfloor>x\<rfloor> :: rat) \<le> of_int b"
    using assms(2) of_int_floor_le [of x] by linarith
  ultimately show ?thesis by simp
qed

section \<open>JSON values\<close>

text \<open>
  What \<open>JSON.parse\<close> can produce. A number is kept exactly; an object keeps its members in
  order, the last of two members with one name being the one that counts.
\<close>

datatype json =
    JNull
  | JBool bool
  | JNum rat
  | JStr string
  | JArr "json list"
  | JObj "(string \<times> json) list"

definition json_field :: "string \<Rightarrow> (string \<times> json) list \<Rightarrow> json option" where
  "json_field name members = map_of (rev members) name"

section \<open>JavaScript strings\<close>

text \<open>The characters below 256 that \<open>trim\<close> and the class \<open>\s\<close> count as white space.\<close>

definition char_code :: "char \<Rightarrow> nat" where
  "char_code c = of_char c"

definition is_space :: "char \<Rightarrow> bool" where
  "is_space c = (char_code c \<in> {9, 10, 11, 12, 13, 32, 160})"

definition is_digit :: "char \<Rightarrow> bool" where
  "is_digit c = (48 \<le> char_code c \<and> char_code c \<le> 57)"

definition is_letter :: "char \<Rightarrow> bool" where
  "is_letter c = ((65 \<le> char_code c \<and> char_code c \<le> 90)
     \<or> (97 \<le> char_code c \<and> char_code c \<le> 122))"

definition is_alphanumeric :: "char \<Rightarrow> bool" where
  "is_alphanumeric c = (is_letter c \<or> is_digit c)"

definition to_lower :: "char \<Rightarrow> char" where
  "to_lower c = (if 65 \<le> char_code c \<and> char_code c \<le> 90 then char_of (char_code c + 32) else c)"

definition js_trim :: "string \<Rightarrow> string" where
  "js_trim s = rev (dropWhile is_space (rev (dropWhile is_space s)))"

fun starts_with :: "string \<Rightarrow> string \<Rightarrow> bool" where
  "starts_with s [] = True"
| "starts_with [] (p # ps) = False"
| "starts_with (c # cs) (p # ps) = (c = p \<and> starts_with cs ps)"

fun index_of :: "string \<Rightarrow> string \<Rightarrow> nat option" where
  "index_of [] p = (if p = [] then Some 0 else None)"
| "index_of (c # cs) p =
     (if starts_with (c # cs) p then Some 0 else map_option Suc (index_of cs p))"

fun includes_text :: "string \<Rightarrow> string \<Rightarrow> bool" where
  "includes_text s p = (index_of s p \<noteq> None)"

text \<open>\<open>s.split(c)\<close> for a separator of one character: never empty.\<close>

fun split_on :: "char \<Rightarrow> string \<Rightarrow> string list" where
  "split_on sep [] = [[]]"
| "split_on sep (c # cs) =
     (if c = sep then [] # split_on sep cs
      else (case split_on sep cs of [] \<Rightarrow> [[c]] | s # ss \<Rightarrow> (c # s) # ss))"

text \<open>\<open>xs.join(separator)\<close>\<close>

fun join :: "string \<Rightarrow> string list \<Rightarrow> string" where
  "join separator [] = []"
| "join separator [x] = x"
| "join separator (x # xs) = x @ separator @ join separator xs"

definition slice_last :: "nat \<Rightarrow> string \<Rightarrow> string" where
  "slice_last n s = drop (length s - n) s"

text \<open>The order of text and of identifiers: by the first character that differs.\<close>

fun text_less :: "string \<Rightarrow> string \<Rightarrow> bool" where
  "text_less s [] = False"
| "text_less [] (d # ds) = True"
| "text_less (c # cs) (d # ds) =
     (char_code c < char_code d \<or> (c = d \<and> text_less cs ds))"

lemma char_code_inject [simp]: "char_code c = char_code d \<longleftrightarrow> c = d"
  by (simp add: char_code_def)

lemma text_less_irrefl [simp]: "\<not> text_less s s"
  by (induction s) simp_all

lemma text_less_trans: "text_less s t \<Longrightarrow> text_less t u \<Longrightarrow> text_less s u"
proof (induction s t arbitrary: u rule: text_less.induct)
  case (2 d ds)
  then show ?case by (cases u) simp_all
next
  case (3 c cs d ds)
  then show ?case by (cases u) auto
qed simp

lemma text_less_total: "s \<noteq> t \<Longrightarrow> text_less s t \<or> text_less t s"
proof (induction s t rule: text_less.induct)
  case (1 s)
  then show ?case by (cases s) simp_all
next
  case (3 c cs d ds)
  then show ?case
    using linorder_less_linear [of "char_code c" "char_code d"] by auto
qed simp

lemma split_on_not_Nil [simp]: "split_on sep s \<noteq> []"
  by (induction s) (auto split: list.splits)

lemma split_on_absent: "sep \<notin> set s \<Longrightarrow> split_on sep s = [s]"
  by (induction s) auto

lemma split_on_append:
  "sep \<notin> set s \<Longrightarrow> split_on sep (s @ sep # t) = s # split_on sep t"
  by (induction s) auto

lemma join_split_on [simp]: "join [sep] (split_on sep s) = s"
proof (induction s)
  case Nil
  then show ?case by simp
next
  case (Cons c s)
  obtain x xs where "split_on sep s = x # xs"
    by (cases "split_on sep s") auto
  with Cons show ?case by (cases xs) auto
qed

lemma split_on_pieces: "piece \<in> set (split_on sep s) \<Longrightarrow> sep \<notin> set piece"
proof (induction s arbitrary: piece)
  case Nil
  then show ?case by simp
next
  case (Cons c s)
  obtain x xs where sp: "split_on sep s = x # xs"
    by (cases "split_on sep s") auto
  with Cons.IH have x: "sep \<notin> set x" and xs: "\<And>y. y \<in> set xs \<Longrightarrow> sep \<notin> set y"
    by auto
  from Cons.prems sp x xs show ?case
    by (auto split: if_splits)
qed

lemma starts_with_take: "starts_with s p \<longleftrightarrow> take (length p) s = p"
  by (induction s p rule: starts_with.induct) auto

lemma starts_with_append [simp]: "starts_with (p @ s) p"
  by (simp add: starts_with_take)

lemma index_of_bound: "index_of s p = Some i \<Longrightarrow> i + length p \<le> length s"
proof (induction s p arbitrary: i rule: index_of.induct)
  case (1 p)
  then show ?case by (simp split: if_splits)
next
  case (2 c cs p)
  show ?case
  proof (cases "starts_with (c # cs) p")
    case True
    then have "take (length p) (c # cs) = p" by (simp add: starts_with_take)
    then have "length p \<le> length (c # cs)" by (metis length_take min.cobounded1)
    with True 2 show ?thesis by simp
  next
    case False
    with 2 show ?thesis by fastforce
  qed
qed

lemma index_of_Some: "index_of s p = Some i \<Longrightarrow> starts_with (drop i s) p"
proof (induction s p arbitrary: i rule: index_of.induct)
  case (1 p)
  then show ?case by (simp split: if_splits)
next
  case (2 c cs p)
  then show ?case by (auto split: if_splits)
qed

lemma is_space_codes:
  "is_space CHR '' ''" "\<not> is_space CHR ''a''" "\<not> is_space CHR ''+''"
  by (simp_all add: is_space_def char_code_def)

lemma is_digit_not_space: "is_digit c \<Longrightarrow> \<not> is_space c"
  by (auto simp: is_digit_def is_space_def)

lemma alphanumeric_not_underscore: "is_alphanumeric c \<Longrightarrow> c \<noteq> CHR ''_''"
  by (auto simp: is_alphanumeric_def is_letter_def is_digit_def char_code_def)

lemma js_trim_unchanged:
  assumes "s = [] \<or> \<not> is_space (hd s) \<and> \<not> is_space (last s)"
  shows "js_trim s = s"
proof (cases "s = []")
  case True
  then show ?thesis by (simp add: js_trim_def)
next
  case False
  with assms have "dropWhile is_space s = s"
    by (cases s) auto
  moreover from assms False have "dropWhile is_space (rev s) = rev s"
    by (cases s rule: rev_cases) auto
  ultimately show ?thesis by (simp add: js_trim_def)
qed

section \<open>Numbers and dates as text\<close>

definition digit_char :: "nat \<Rightarrow> char" where
  "digit_char d = char_of (48 + d)"

fun string_of_nat :: "nat \<Rightarrow> string" where
  "string_of_nat n =
     (if n < 10 then [digit_char n] else string_of_nat (n div 10) @ [digit_char (n mod 10)])"

declare string_of_nat.simps [simp del]

definition string_of_int :: "int \<Rightarrow> string" where
  "string_of_int i = (if i < 0 then CHR ''-'' # string_of_nat (nat (- i)) else string_of_nat (nat i))"

definition pad_left :: "nat \<Rightarrow> string \<Rightarrow> string" where
  "pad_left width s = replicate (width - length s) CHR ''0'' @ s"

text \<open>
  \<open>toISOString\<close> of a valid date, in the proleptic Gregorian calendar. The civil date of a day
  number counted from 1970-01-01 is found by shifting the year to start in March.
\<close>

definition civil_from_days :: "int \<Rightarrow> int \<times> int \<times> int" where
  "civil_from_days z0 =
     (let z = z0 + 719468;
          era = z div 146097;
          doe = z mod 146097;
          yoe = (doe - doe div 1460 + doe div 36524 - doe div 146096) div 365;
          doy = doe - (365 * yoe + yoe div 4 - yoe div 100);
          mp = (5 * doy + 2) div 153;
          d = doy - (153 * mp + 2) div 5 + 1;
          m = (if mp < 10 then mp + 3 else mp - 9);
          y = yoe + era * 400 + (if m \<le> 2 then 1 else 0)
      in (y, m, d))"

definition iso_year :: "int \<Rightarrow> string" where
  "iso_year y =
     (if 0 \<le> y \<and> y \<le> 9999 then pad_left 4 (string_of_int y)
      else (if y < 0 then CHR ''-'' else CHR ''+'') # pad_left 6 (string_of_nat (nat \<bar>y\<bar>)))"

definition to_iso_string :: "millis \<Rightarrow> string" where
  "to_iso_string t =
     (let (y, m, d) = civil_from_days (t div 86400000);
          r = t mod 86400000
      in iso_year y @ ''-'' @ pad_left 2 (string_of_int m) @ ''-'' @ pad_left 2 (string_of_int d)
         @ ''T'' @ pad_left 2 (string_of_int (r div 3600000))
         @ '':'' @ pad_left 2 (string_of_int (r div 60000 mod 60))
         @ '':'' @ pad_left 2 (string_of_int (r div 1000 mod 60))
         @ ''.'' @ pad_left 3 (string_of_int (r mod 1000)) @ ''Z'')"

section \<open>\<open>Number(text)\<close>\<close>

text \<open>
  The value of a string as a number: surrounding white space is ignored, nothing left is zero, a
  prefix \<open>0x\<close>, \<open>0o\<close> or \<open>0b\<close> gives the base, and anything else is a decimal literal with an optional
  sign, fraction and exponent. The result is exact; \<^term>\<open>None\<close> stands for NaN and for a value that
  is not finite.
\<close>

definition digit_value :: "char \<Rightarrow> nat option" where
  "digit_value c =
     (let k = char_code (to_lower c)
      in if is_digit c then Some (k - 48)
         else if 97 \<le> k \<and> k \<le> 122 then Some (k - 87) else None)"

fun read_digits :: "nat \<Rightarrow> nat \<Rightarrow> string \<Rightarrow> nat option" where
  "read_digits base acc [] = Some acc"
| "read_digits base acc (c # cs) =
     (case digit_value c of
        None \<Rightarrow> None
      | Some d \<Rightarrow> if d < base then read_digits base (acc * base + d) cs else None)"

definition read_base :: "nat \<Rightarrow> string \<Rightarrow> rat option" where
  "read_base base s = (if s = [] then None else map_option of_nat (read_digits base 0 s))"

definition signed_part :: "string \<Rightarrow> int \<times> string" where
  "signed_part s =
     (case s of
        c # cs \<Rightarrow> if c = CHR ''-'' then (-1, cs) else if c = CHR ''+'' then (1, cs) else (1, s)
      | [] \<Rightarrow> (1, []))"

definition read_exponent :: "string \<Rightarrow> int option" where
  "read_exponent s =
     (case s of
        [] \<Rightarrow> Some 0
      | c # cs \<Rightarrow>
          if to_lower c \<noteq> CHR ''e'' then None
          else let (sign, ds) = signed_part cs
               in if ds = [] then None
                  else map_option (\<lambda>n. sign * int n) (read_digits 10 0 ds))"

definition power_of_ten :: "int \<Rightarrow> rat" where
  "power_of_ten e = (if 0 \<le> e then 10 ^ nat e else 1 / 10 ^ nat (- e))"

definition read_decimal :: "string \<Rightarrow> rat option" where
  "read_decimal s =
     (let (sign, t) = signed_part s;
          whole = takeWhile is_digit t;
          t1 = dropWhile is_digit t;
          (fraction, t2) = (case t1 of
             c # cs \<Rightarrow> if c = CHR ''.'' then (takeWhile is_digit cs, dropWhile is_digit cs) else ([], t1)
           | [] \<Rightarrow> ([], []))
      in if whole = [] \<and> fraction = [] then None
         else (case (read_digits 10 0 (whole @ fraction), read_exponent t2) of
                 (Some digits, Some e) \<Rightarrow>
                   Some (of_int sign * of_nat digits * power_of_ten (e - int (length fraction)))
               | _ \<Rightarrow> None))"

definition js_number :: "string \<Rightarrow> rat option" where
  "js_number text =
     (let s = js_trim text;
          value = (if s = [] then Some 0
            else if starts_with s ''0x'' \<or> starts_with s ''0X'' then read_base 16 (drop 2 s)
            else if starts_with s ''0o'' \<or> starts_with s ''0O'' then read_base 8 (drop 2 s)
            else if starts_with s ''0b'' \<or> starts_with s ''0B'' then read_base 2 (drop 2 s)
            else read_decimal s)
      in case value of
           None \<Rightarrow> None
         | Some x \<Rightarrow> if \<bar>x\<bar> < 2 ^ 1024 then Some x else None)"

section \<open>Tables of rows\<close>

text \<open>
  A table is the list of its rows. These are the statements the query builder produces:
  \<open>UPDATE ... SET ... WHERE ... RETURNING\<close>, \<open>SELECT ... WHERE ... LIMIT 1\<close> and
  \<open>ORDER BY ... LIMIT\<close>; the first returned row is \<^term>\<open>None\<close> when there is none.
\<close>

definition sql_update :: "('r \<Rightarrow> bool) \<Rightarrow> ('r \<Rightarrow> 'r) \<Rightarrow> 'r list \<Rightarrow> 'r list" where
  "sql_update p f rows = map (\<lambda>r. if p r then f r else r) rows"

definition sql_returning :: "('r \<Rightarrow> bool) \<Rightarrow> ('r \<Rightarrow> 'r) \<Rightarrow> 'r list \<Rightarrow> 'r option" where
  "sql_returning p f rows = map_option f (find p rows)"

definition sql_first :: "('r \<Rightarrow> bool) \<Rightarrow> 'r list \<Rightarrow> 'r option" where
  "sql_first p rows = find p rows"

fun sql_insert_sorted :: "('r \<Rightarrow> 'r \<Rightarrow> bool) \<Rightarrow> 'r \<Rightarrow> 'r list \<Rightarrow> 'r list" where
  "sql_insert_sorted precedes x [] = [x]"
| "sql_insert_sorted precedes x (y # ys) =
     (if precedes y x then y # sql_insert_sorted precedes x ys else x # y # ys)"

definition sql_order_by :: "('r \<Rightarrow> 'r \<Rightarrow> bool) \<Rightarrow> 'r list \<Rightarrow> 'r list" where
  "sql_order_by precedes rows = fold (sql_insert_sorted precedes) rows []"

lemma set_sql_insert_sorted [simp]: "set (sql_insert_sorted b x ys) = insert x (set ys)"
  by (induction ys) auto

lemma set_fold_insert_sorted:
  "set (fold (sql_insert_sorted b) rows acc) = set rows \<union> set acc"
  by (induction rows arbitrary: acc) auto

lemma set_sql_order_by [simp]: "set (sql_order_by b rows) = set rows"
  by (simp add: sql_order_by_def set_fold_insert_sorted)

lemma length_sql_insert_sorted [simp]: "length (sql_insert_sorted b x ys) = Suc (length ys)"
  by (induction ys) simp_all

lemma length_sql_order_by [simp]: "length (sql_order_by b rows) = length rows"
proof -
  have "length (fold (sql_insert_sorted b) rows acc) = length rows + length acc" for acc
    by (induction rows arbitrary: acc) simp_all
  then show ?thesis by (simp add: sql_order_by_def)
qed

lemma distinct_sql_order_by:
  assumes "distinct (map key rows)"
  shows "distinct (map key (sql_order_by before rows))"
proof -
  have "card (set (map key (sql_order_by before rows))) = length (map key rows)"
    using distinct_card [OF assms] by simp
  then show ?thesis by (intro card_distinct) simp
qed

lemma length_sql_update [simp]: "length (sql_update p f rows) = length rows"
  by (simp add: sql_update_def)

lemma in_set_sql_updateE:
  assumes "r \<in> set (sql_update p f rows)"
  obtains s where "s \<in> set rows" and "r = (if p s then f s else s)"
  using assms by (auto simp: sql_update_def)

lemma sql_update_image: "r \<in> set rows \<Longrightarrow> (if p r then f r else r) \<in> set (sql_update p f rows)"
  by (auto simp: sql_update_def)

lemma Ball_sql_update:
  "(\<forall>r \<in> set (sql_update p f rows). P r)
     \<longleftrightarrow> (\<forall>r \<in> set rows. P (if p r then f r else r))"
  by (auto simp: sql_update_def)

lemma sql_returning_None: "sql_returning p f rows = None \<longleftrightarrow> (\<forall>r \<in> set rows. \<not> p r)"
  by (auto simp: sql_returning_def find_None_iff)

lemma sql_returning_SomeE:
  assumes "sql_returning p f rows = Some s"
  obtains r where "r \<in> set rows" and "p r" and "s = f r"
proof -
  from assms obtain r where r: "find p rows = Some r" and s: "s = f r"
    by (auto simp: sql_returning_def)
  from r have "r \<in> set rows" and "p r"
    by (auto simp: find_Some_iff)
  with s that show thesis by blast
qed

lemma sql_first_SomeD: "sql_first p rows = Some r \<Longrightarrow> r \<in> set rows \<and> p r"
  by (auto simp: sql_first_def find_Some_iff)

lemma sql_first_only:
  assumes "x \<in> set rows" and "p x" and "\<And>y. y \<in> set rows \<Longrightarrow> p y \<Longrightarrow> y = x"
  shows "sql_first p rows = Some x"
proof (cases "sql_first p rows")
  case None
  with assms(1,2) show ?thesis by (simp add: sql_first_def find_None_iff)
next
  case (Some y)
  with assms(3) sql_first_SomeD [OF Some] show ?thesis by simp
qed

lemma row_by_key:
  "distinct (map key rows) \<Longrightarrow> x \<in> set rows \<Longrightarrow> y \<in> set rows \<Longrightarrow> key x = key y \<Longrightarrow> x = y"
  by (auto simp: distinct_map dest: inj_onD)

lemma sql_first_None: "sql_first p rows = None \<longleftrightarrow> (\<forall>r \<in> set rows. \<not> p r)"
  by (auto simp: sql_first_def find_None_iff)

lemma sql_update_none [row_simps]: "(\<forall>r \<in> set rows. \<not> p r) \<Longrightarrow> sql_update p f rows = rows"
  by (simp add: sql_update_def map_idI)

text \<open>
  The contract of a table with a primary key: whatever an update leaves of the key is what
  makes looking a row up by its key after the statement predictable.
\<close>

locale keyed_rows =
  fixes key :: "'r \<Rightarrow> 'k"
    and f :: "'r \<Rightarrow> 'r"
  assumes key_kept: "key (f r) = key r"
begin

lemma keys_update: "map key (sql_update p f rows) = map key rows"
  by (simp add: sql_update_def key_kept)

lemma distinct_update: "distinct (map key rows) \<Longrightarrow> distinct (map key (sql_update p f rows))"
  by (simp add: keys_update)

lemma lookup_update:
  "find (\<lambda>r. key r = k) (sql_update p f rows)
     = map_option (\<lambda>r. if p r then f r else r) (find (\<lambda>r. key r = k) rows)"
  by (induction rows) (simp_all add: sql_update_def key_kept)

lemma unique_row:
  assumes "distinct (map key rows)" and "r \<in> set rows" and "s \<in> set rows" and "key r = key s"
  shows "r = s"
  using assms by (metis (no_types, lifting) distinct_map inj_on_contraD)

lemma returning_by_key:
  assumes "\<And>r. p r \<Longrightarrow> key r = k" and "distinct (map key rows)"
  shows "sql_returning p f rows
    = (case find (\<lambda>r. key r = k) rows of None \<Rightarrow> None
       | Some r \<Rightarrow> if p r then Some (f r) else None)"
  using assms
proof (induction rows)
  case Nil
  then show ?case by (simp add: sql_returning_def)
next
  case (Cons r rows)
  show ?case
  proof (cases "key r = k")
    case True
    with Cons.prems have "k \<notin> key ` set rows" by auto
    with Cons.prems(1) have "find p rows = None" by (auto simp: find_None_iff)
    with True show ?thesis by (simp add: sql_returning_def)
  next
    case False
    with Cons.prems(1) have "\<not> p r" by auto
    with False Cons show ?thesis by (simp add: sql_returning_def)
  qed
qed

end

section \<open>Ordered results\<close>

text \<open>
  The contract of an \<open>ORDER BY\<close>: comparing two rows is total and transitive. Then the result is in
  that order, and ordering commutes with \<open>WHERE\<close>. When rows that compare equal have the same key,
  everything after a row is exactly what a keyset cursor at that row selects.
\<close>

locale row_order =
  fixes before :: "'r \<Rightarrow> 'r \<Rightarrow> bool"
  assumes total: "before x y \<or> before y x"
    and transitive: "before x y \<Longrightarrow> before y z \<Longrightarrow> before x z"
begin

lemma sorted_insert:
  "sorted_wrt before ys \<Longrightarrow> sorted_wrt before (sql_insert_sorted before x ys)"
proof (induction ys)
  case (Cons y ys)
  then show ?case using total [of x y] transitive by auto
qed simp

lemma sorted_order_by: "sorted_wrt before (sql_order_by before rows)"
proof -
  have "sorted_wrt before acc \<Longrightarrow> sorted_wrt before (fold (sql_insert_sorted before) rows acc)" for acc
    by (induction rows arbitrary: acc) (simp_all add: sorted_insert)
  then show ?thesis by (simp add: sql_order_by_def)
qed

lemma insert_before_all:
  "\<forall>y \<in> set ys. \<not> before y x \<Longrightarrow> sql_insert_sorted before x ys = x # ys"
  by (cases ys) simp_all

lemma filter_insert:
  "sorted_wrt before ys \<Longrightarrow>
     filter p (sql_insert_sorted before x ys)
       = (if p x then sql_insert_sorted before x (filter p ys) else filter p ys)"
proof (induction ys)
  case (Cons y ys)
  show ?case
  proof (cases "before y x")
    case True
    with Cons show ?thesis by simp
  next
    case False
    with Cons.prems transitive have "\<forall>z \<in> set (filter p (y # ys)). \<not> before z x" by auto
    from insert_before_all [OF this] False show ?thesis by simp
  qed
qed simp

lemma order_by_filter: "sql_order_by before (filter p rows) = filter p (sql_order_by before rows)"
proof -
  have "sorted_wrt before acc \<Longrightarrow>
      fold (sql_insert_sorted before) (filter p rows) (filter p acc)
        = filter p (fold (sql_insert_sorted before) rows acc)" for acc
  proof (induction rows arbitrary: acc)
    case (Cons r rows)
    from Cons.IH [OF sorted_insert [OF Cons.prems, of r]] show ?case
      by (simp add: filter_insert [OF Cons.prems] split: if_splits)
  qed simp
  from this [of "[]"] show ?thesis by (simp add: sql_order_by_def)
qed

end

locale keyed_order = row_order +
  fixes key :: "'a \<Rightarrow> 'k"
  assumes antisymmetric: "before x y \<Longrightarrow> before y x \<Longrightarrow> key x = key y"
begin

lemma after_row:
  assumes "distinct (map key rows)" and "sql_order_by before rows = xs @ r # ys"
  shows "filter (\<lambda>s. before r s \<and> \<not> before s r) (sql_order_by before rows) = ys"
proof -
  have sorted: "sorted_wrt before (xs @ r # ys)" and keys: "distinct (map key (xs @ r # ys))"
    using sorted_order_by [of rows] distinct_sql_order_by [OF assms(1), of before] by (simp_all only: assms(2))
  then have "filter (\<lambda>s. before r s \<and> \<not> before s r) xs = []"
    by (auto simp: filter_empty_conv sorted_wrt_append)
  moreover have "before r s \<and> \<not> before s r" if "s \<in> set ys" for s
    using sorted keys that antisymmetric [of r s]
    by (auto simp: sorted_wrt_append)
  then have "filter (\<lambda>s. before r s \<and> \<not> before s r) ys = ys"
    by (simp add: filter_id_conv)
  ultimately show ?thesis unfolding assms(2) by simp
qed

end

end
