(* ===== verification/Notification_Status.thy ===== *)
theory Notification_Status
  imports Prelude
begin

text \<open>
  \<open>packages/domain/src/notification/notification-status.ts\<close>: the statuses of a notification, the
  table of legal transitions and the functions derived from it. The database trigger of the
  second migration reads the same table; \<open>Store\<close> uses it for that trigger.
\<close>

section \<open>Statuses and transitions\<close>

datatype notification_status =
  SCHEDULED | QUEUED | PROCESSING | SENT | DELIVERED | RETRYING | FAILED | CANCELLED

definition notification_statuses :: "notification_status list" where
  "notification_statuses =
     [SCHEDULED, QUEUED, PROCESSING, SENT, DELIVERED, RETRYING, FAILED, CANCELLED]"

fun notification_status_transitions :: "notification_status \<Rightarrow> notification_status list" where
  "notification_status_transitions SCHEDULED = [QUEUED, CANCELLED]"
| "notification_status_transitions QUEUED = [PROCESSING, CANCELLED]"
| "notification_status_transitions PROCESSING = [SENT, RETRYING, FAILED]"
| "notification_status_transitions SENT = [DELIVERED, FAILED]"
| "notification_status_transitions DELIVERED = []"
| "notification_status_transitions RETRYING = [PROCESSING, CANCELLED, FAILED]"
| "notification_status_transitions FAILED = []"
| "notification_status_transitions CANCELLED = []"

definition terminal_notification_statuses :: "notification_status list" where
  "terminal_notification_statuses = [DELIVERED, FAILED, CANCELLED]"

definition is_terminal_notification_status :: "notification_status \<Rightarrow> bool" where
  "is_terminal_notification_status status = (status \<in> set terminal_notification_statuses)"

definition can_transition :: "notification_status \<Rightarrow> notification_status \<Rightarrow> bool" where
  "can_transition from to = (to \<in> set (notification_status_transitions from))"

definition cancellable_notification_statuses :: "notification_status list" where
  "cancellable_notification_statuses =
     filter (\<lambda>status. can_transition status CANCELLED) notification_statuses"

definition is_cancellable_notification_status :: "notification_status \<Rightarrow> bool" where
  "is_cancellable_notification_status status = can_transition status CANCELLED"

fun status_name :: "notification_status \<Rightarrow> string" where
  "status_name SCHEDULED = ''SCHEDULED''"
| "status_name QUEUED = ''QUEUED''"
| "status_name PROCESSING = ''PROCESSING''"
| "status_name SENT = ''SENT''"
| "status_name DELIVERED = ''DELIVERED''"
| "status_name RETRYING = ''RETRYING''"
| "status_name FAILED = ''FAILED''"
| "status_name CANCELLED = ''CANCELLED''"

definition is_notification_status :: "string \<Rightarrow> bool" where
  "is_notification_status candidate = (candidate \<in> status_name ` set notification_statuses)"

datatype illegal_transition = IllegalNotificationStatusTransition notification_status notification_status

definition assert_transition ::
  "notification_status \<Rightarrow> notification_status \<Rightarrow> illegal_transition + unit" where
  "assert_transition from to =
     (if can_transition from to then Inr () else Inl (IllegalNotificationStatusTransition from to))"

section \<open>A lifecycle as an interface\<close>

text \<open>
  What the rest of the platform relies on: a status that is terminal has no way out, and every
  other status can still be brought to an end. A run is a list of statuses each reached from
  the one before by a legal transition.
\<close>

locale lifecycle =
  fixes can :: "'s \<Rightarrow> 's \<Rightarrow> bool"
    and terminal :: "'s \<Rightarrow> bool"
  assumes terminal_stuck: "terminal s \<Longrightarrow> \<not> can s t"
    and live_can_end: "\<not> terminal s \<Longrightarrow> \<exists>t u. (t = s \<or> can s t) \<and> can t u \<and> terminal u"
begin

fun run_from :: "'s \<Rightarrow> 's list \<Rightarrow> bool" where
  "run_from s [] = True"
| "run_from s (t # ts) = (can s t \<and> run_from t ts)"

lemma run_from_terminal: "terminal s \<Longrightarrow> run_from s ts \<Longrightarrow> ts = []"
  by (cases ts) (auto dest: terminal_stuck)

lemma run_from_append: "run_from s (ts @ us) \<longleftrightarrow> run_from s ts \<and> run_from (last (s # ts)) us"
  by (induction ts arbitrary: s) auto

lemma terminal_only_last:
  assumes "run_from s (ts @ t # us)" and "terminal t"
  shows "us = []"
  using assms run_from_terminal by (auto simp: run_from_append)

end

lemma can_transition_simps [simp]:
  "can_transition SCHEDULED t \<longleftrightarrow> t = QUEUED \<or> t = CANCELLED"
  "can_transition QUEUED t \<longleftrightarrow> t = PROCESSING \<or> t = CANCELLED"
  "can_transition PROCESSING t \<longleftrightarrow> t = SENT \<or> t = RETRYING \<or> t = FAILED"
  "can_transition SENT t \<longleftrightarrow> t = DELIVERED \<or> t = FAILED"
  "\<not> can_transition DELIVERED t"
  "can_transition RETRYING t \<longleftrightarrow> t = PROCESSING \<or> t = CANCELLED \<or> t = FAILED"
  "\<not> can_transition FAILED t"
  "\<not> can_transition CANCELLED t"
  by (auto simp: can_transition_def)

lemma is_terminal_simps [simp]:
  "is_terminal_notification_status DELIVERED"
  "is_terminal_notification_status FAILED"
  "is_terminal_notification_status CANCELLED"
  "\<not> is_terminal_notification_status SCHEDULED"
  "\<not> is_terminal_notification_status QUEUED"
  "\<not> is_terminal_notification_status PROCESSING"
  "\<not> is_terminal_notification_status SENT"
  "\<not> is_terminal_notification_status RETRYING"
  by (simp_all add: is_terminal_notification_status_def terminal_notification_statuses_def)

lemma terminal_iff_no_transition:
  "is_terminal_notification_status s \<longleftrightarrow> (\<forall>t. \<not> can_transition s t)"
  by (cases s) auto

lemma live_status_can_end:
  assumes "\<not> is_terminal_notification_status s"
  shows "\<exists>t u. (t = s \<or> can_transition s t) \<and> can_transition t u \<and> is_terminal_notification_status u"
proof -
  have "can_transition s (if s = PROCESSING \<or> s = SENT then FAILED else CANCELLED)"
    using assms by (cases s) simp_all
  then show ?thesis
    by (intro exI [of _ s] exI [of _ "if s = PROCESSING \<or> s = SENT then FAILED else CANCELLED"]) simp
qed

interpretation notification_lifecycle: lifecycle can_transition is_terminal_notification_status
  by unfold_locales (use terminal_iff_no_transition live_status_can_end in blast)+

lemma all_statuses_listed: "s \<in> set notification_statuses"
  by (cases s) (simp_all add: notification_statuses_def)

lemma is_notification_status_name: "is_notification_status (status_name s)"
  using all_statuses_listed by (auto simp: is_notification_status_def)

lemma cancellable_statuses:
  "set cancellable_notification_statuses = {SCHEDULED, QUEUED, RETRYING}"
  by (simp add: cancellable_notification_statuses_def notification_statuses_def)

lemma is_cancellable_iff:
  "is_cancellable_notification_status s \<longleftrightarrow> s \<in> {SCHEDULED, QUEUED, RETRYING}"
  by (cases s) (simp_all add: is_cancellable_notification_status_def)

end
