(* ===== verification/Acknowledgement.thy ===== *)
theory Acknowledgement
  imports Prelude
begin

text \<open>
  \<open>packages/domain/src/notification/delivery-acknowledgement.ts\<close>: WhatsApp's delivery
  acknowledgements and how the platform merges them. They arrive out of order and repeat; the
  lemmas show that the merged value depends only on which ones arrived.
\<close>

section \<open>Acknowledgements\<close>

datatype delivery_ack = AckError | AckPending | AckServer | AckDevice | AckRead | AckPlayed

fun ack_value :: "delivery_ack \<Rightarrow> int" where
  "ack_value AckError = -1"
| "ack_value AckPending = 0"
| "ack_value AckServer = 1"
| "ack_value AckDevice = 2"
| "ack_value AckRead = 3"
| "ack_value AckPlayed = 4"

fun describe_acknowledgement :: "delivery_ack \<Rightarrow> string" where
  "describe_acknowledgement AckError = ''ERROR''"
| "describe_acknowledgement AckPending = ''PENDING''"
| "describe_acknowledgement AckServer = ''SERVER''"
| "describe_acknowledgement AckDevice = ''DEVICE''"
| "describe_acknowledgement AckRead = ''READ''"
| "describe_acknowledgement AckPlayed = ''PLAYED''"

definition all_acks :: "delivery_ack list" where
  "all_acks = [AckError, AckPending, AckServer, AckDevice, AckRead, AckPlayed]"

definition is_delivery_acknowledgement :: "rat \<Rightarrow> bool" where
  "is_delivery_acknowledgement value = (value \<in> (\<lambda>a. of_int (ack_value a)) ` set all_acks)"

definition to_delivery_acknowledgement :: "rat \<Rightarrow> delivery_ack option" where
  "to_delivery_acknowledgement value =
     (if is_delivery_acknowledgement value
      then find (\<lambda>a. of_int (ack_value a) = value) all_acks else None)"

lemma ack_value_inj [simp]: "ack_value a = ack_value b \<longleftrightarrow> a = b"
  by (cases a; cases b) simp_all

lemma ack_value_bounds: "-1 \<le> ack_value a \<and> ack_value a \<le> 4"
  by (cases a) simp_all

lemma all_acks_complete [simp]: "a \<in> set all_acks"
  by (cases a) (simp_all add: all_acks_def)

lemma to_delivery_acknowledgement_of_value [simp]:
  "to_delivery_acknowledgement (of_int (ack_value a)) = Some a"
  by (cases a)
    (simp_all add: to_delivery_acknowledgement_def is_delivery_acknowledgement_def all_acks_def)

lemma to_delivery_acknowledgement_SomeD:
  "to_delivery_acknowledgement v = Some a \<Longrightarrow> v = of_int (ack_value a)"
  by (auto simp: to_delivery_acknowledgement_def find_Some_iff split: if_splits)

text \<open>The numbers order them: \<open>Math.max\<close> on acknowledgements is the library's \<^const>\<open>max\<close>.\<close>

instantiation delivery_ack :: linorder
begin

definition less_eq_delivery_ack :: "delivery_ack \<Rightarrow> delivery_ack \<Rightarrow> bool" where
  "less_eq_delivery_ack a b = (ack_value a \<le> ack_value b)"

definition less_delivery_ack :: "delivery_ack \<Rightarrow> delivery_ack \<Rightarrow> bool" where
  "less_delivery_ack a b = (ack_value a < ack_value b)"

instance
  by standard (auto simp: less_eq_delivery_ack_def less_delivery_ack_def)

end

section \<open>Merging and reading\<close>

definition merge_acknowledgements :: "delivery_ack \<Rightarrow> delivery_ack \<Rightarrow> delivery_ack" where
  "merge_acknowledgements current incoming =
     (if incoming = AckError then AckError
      else if current = AckError then AckError
      else max current incoming)"

definition is_delivered_acknowledgement :: "delivery_ack \<Rightarrow> bool" where
  "is_delivered_acknowledgement acknowledgement = (ack_value acknowledgement \<ge> ack_value AckDevice)"

definition is_read_acknowledgement :: "delivery_ack \<Rightarrow> bool" where
  "is_read_acknowledgement acknowledgement =
     (acknowledgement = AckRead \<or> acknowledgement = AckPlayed)"

definition is_failure_acknowledgement :: "delivery_ack \<Rightarrow> bool" where
  "is_failure_acknowledgement acknowledgement = (acknowledgement = AckError)"

lemma ack_predicates [simp]:
  "is_delivered_acknowledgement a \<longleftrightarrow> a \<in> {AckDevice, AckRead, AckPlayed}"
  "is_read_acknowledgement a \<longleftrightarrow> a \<in> {AckRead, AckPlayed}"
  "is_failure_acknowledgement a \<longleftrightarrow> a = AckError"
  by (cases a; simp add: is_delivered_acknowledgement_def is_read_acknowledgement_def
      is_failure_acknowledgement_def)+

section \<open>Order of arrival\<close>

text \<open>
  The contract that makes order and repetition harmless: merging is associative, commutative
  and idempotent. Folding any two lists with the same elements then agrees.
\<close>

locale arrival_merge =
  fixes merge :: "'a \<Rightarrow> 'a \<Rightarrow> 'a"
  assumes merge_assoc: "merge (merge a b) c = merge a (merge b c)"
    and merge_commute: "merge a b = merge b a"
    and merge_idem: "merge a a = a"
begin

definition merge_all :: "'a \<Rightarrow> 'a list \<Rightarrow> 'a" where
  "merge_all start arrivals = foldl merge start arrivals"

lemma merge_all_simps [simp]:
  "merge_all a [] = a"
  "merge_all a (x # xs) = merge_all (merge a x) xs"
  by (simp_all add: merge_all_def)

lemma merge_left_commute: "merge (merge a b) c = merge (merge a c) b"
  by (metis merge_assoc merge_commute)

lemma merge_all_shift: "merge_all (merge a x) xs = merge (merge_all a xs) x"
  by (induction xs arbitrary: a) (simp_all add: merge_left_commute)

lemma merge_absorb: "x \<in> set xs \<Longrightarrow> merge (merge_all a xs) x = merge_all a xs"
proof (induction xs arbitrary: a)
  case Nil
  then show ?case by simp
next
  case (Cons y ys)
  show ?case
  proof (cases "x = y")
    case True
    then show ?thesis
      by (simp add: merge_all_shift merge_assoc merge_idem)
  next
    case False
    with Cons show ?thesis by simp
  qed
qed

lemma merge_all_same_elements:
  assumes "set xs = set ys"
  shows "merge_all a xs = merge_all a ys"
proof -
  have absorb: "merge_all (merge_all a xs) zs = merge_all a xs" if "set zs \<subseteq> set xs" for xs zs
    using that by (induction zs) (simp_all add: merge_absorb)
  have shift: "merge_all (merge_all a xs) ys = merge_all (merge_all a ys) xs" for xs ys
  proof (induction ys arbitrary: xs)
    case Nil
    then show ?case by simp
  next
    case (Cons y ys)
    have "merge_all (merge_all a xs) (y # ys) = merge_all (merge_all a (xs @ [y])) ys"
      by (simp add: merge_all_def)
    also have "\<dots> = merge_all (merge_all a ys) (xs @ [y])"
      by (rule Cons)
    also have "\<dots> = merge (merge_all (merge_all a ys) xs) y"
      by (simp add: merge_all_def)
    also have "\<dots> = merge_all (merge_all a (y # ys)) xs"
      by (simp add: merge_all_shift)
    finally show ?case .
  qed
  from assms have "merge_all (merge_all a xs) ys = merge_all a xs"
    by (intro absorb) simp
  moreover from assms have "merge_all (merge_all a ys) xs = merge_all a ys"
    by (intro absorb) simp
  ultimately show ?thesis by (simp add: shift)
qed

end

lemma merge_acknowledgements_assoc:
  "merge_acknowledgements (merge_acknowledgements a b) c
     = merge_acknowledgements a (merge_acknowledgements b c)"
  by (cases a; cases b; cases c)
    (simp_all add: merge_acknowledgements_def max_def less_eq_delivery_ack_def)

lemma merge_acknowledgements_commute:
  "merge_acknowledgements a b = merge_acknowledgements b a"
  by (cases a; cases b) (simp_all add: merge_acknowledgements_def max_def less_eq_delivery_ack_def)

interpretation ack: arrival_merge merge_acknowledgements
proof
  show "merge_acknowledgements a a = a" for a
    by (simp add: merge_acknowledgements_def)
qed (rule merge_acknowledgements_assoc merge_acknowledgements_commute)+

lemma merge_acknowledgements_not_below:
  "incoming \<noteq> AckError \<Longrightarrow> current \<noteq> AckError \<Longrightarrow> current \<le> merge_acknowledgements current incoming"
  by (simp add: merge_acknowledgements_def)

text \<open>The merged value in closed form: an error wins, otherwise the highest one does.\<close>

lemma merged_value:
  "foldl merge_acknowledgements current arrivals
     = (if AckError \<in> insert current (set arrivals) then AckError
        else Max (insert current (set arrivals)))"
proof (induction arrivals arbitrary: current)
  case Nil
  then show ?case by simp
next
  case (Cons a arrivals)
  show ?case
  proof (cases "AckError \<in> insert current (set (a # arrivals))")
    case True
    then have "AckError \<in> insert (merge_acknowledgements current a) (set arrivals)"
      by (auto simp: merge_acknowledgements_def)
    with True show ?thesis by (simp add: Cons)
  next
    case False
    then have "merge_acknowledgements current a = max current a"
      by (auto simp: merge_acknowledgements_def)
    moreover from False have "max current a \<noteq> AckError"
      by (auto simp: max_def)
    moreover have "Max (insert (max current a) (set arrivals))
        = Max (insert current (insert a (set arrivals)))"
    proof (cases "arrivals = []")
      case True
      then show ?thesis by simp
    next
      case False
      then show ?thesis by (simp add: max.assoc)
    qed
    ultimately show ?thesis using False by (simp add: Cons)
  qed
qed

section \<open>Properties\<close>

text \<open>
  C29: What a notification ends up acknowledged as depends only on which acknowledgements arrived,
  not on their order and not on how often each was repeated.
\<close>

theorem acknowledgement_order_irrelevant:
  assumes "set arrivals = set arrivals'"
  shows "foldl merge_acknowledgements current arrivals = foldl merge_acknowledgements current arrivals'"
  using ack.merge_all_same_elements [OF assms] by (simp add: ack.merge_all_def)

theorem acknowledgement_order_irrelevant_witness:
  "foldl merge_acknowledgements AckPending [AckRead, AckDevice, AckServer]
     = foldl merge_acknowledgements AckPending [AckServer, AckDevice, AckDevice, AckRead]"
  by (rule acknowledgement_order_irrelevant) auto

text \<open>
  The merged value in closed form: an error acknowledgement wins over everything and is never
  undone, and otherwise the highest acknowledgement seen so far stands, so a DEVICE receipt that
  arrives after a READ receipt does not undo the read.
\<close>

theorem acknowledgement_is_error_or_highest:
  "foldl merge_acknowledgements current arrivals
     = (if AckError \<in> insert current (set arrivals) then AckError
        else Max (insert current (set arrivals)))"
  by (rule merged_value)

end
