(* ===== verification/Provider_Failure.thy ===== *)
theory Provider_Failure
  imports Prelude
begin

text \<open>
  \<open>packages/domain/src/notification/provider-failure.ts\<close>: the failures a send can end in, what the
  platform does about each, and which of them leave the outcome of the send unknown.
\<close>

section \<open>Failure codes\<close>

datatype failure_classification = RETRYABLE | PERMANENT

datatype provider_failure_code =
    ProviderUnreachable
  | ProviderConnectionLost
  | ProviderTimeout
  | ProviderAborted
  | ProviderRateLimited
  | ProviderServerError
  | ProviderUnauthorized
  | ProviderInvalidRequest
  | ProviderUnknownError
  | ProviderResponseUnreadable
  | SessionMissing
  | SessionNotReady
  | RecipientNotOnWhatsapp
  | RecipientCheckFailed
  | ProviderAcknowledgementError
  | ProviderOutcomeUnknown
  | UnknownOutcomeFailClosed
  | MaximumAttemptsExhausted
  | DeliveryWindowExpired
  | ConnectionUnavailable
  | ConnectionPaused
  | ConnectionRestricted
  | NewChatQuotaExceeded

definition provider_failure_codes :: "provider_failure_code list" where
  "provider_failure_codes =
     [ProviderUnreachable, ProviderConnectionLost, ProviderTimeout, ProviderAborted,
      ProviderRateLimited, ProviderServerError, ProviderUnauthorized, ProviderInvalidRequest,
      ProviderUnknownError, ProviderResponseUnreadable, SessionMissing, SessionNotReady,
      RecipientNotOnWhatsapp, RecipientCheckFailed, ProviderAcknowledgementError,
      ProviderOutcomeUnknown, UnknownOutcomeFailClosed, MaximumAttemptsExhausted,
      DeliveryWindowExpired, ConnectionUnavailable, ConnectionPaused, ConnectionRestricted,
      NewChatQuotaExceeded]"

fun failure_code_name :: "provider_failure_code \<Rightarrow> string" where
  "failure_code_name ProviderUnreachable = ''provider_unreachable''"
| "failure_code_name ProviderConnectionLost = ''provider_connection_lost''"
| "failure_code_name ProviderTimeout = ''provider_timeout''"
| "failure_code_name ProviderAborted = ''provider_aborted''"
| "failure_code_name ProviderRateLimited = ''provider_rate_limited''"
| "failure_code_name ProviderServerError = ''provider_server_error''"
| "failure_code_name ProviderUnauthorized = ''provider_unauthorized''"
| "failure_code_name ProviderInvalidRequest = ''provider_invalid_request''"
| "failure_code_name ProviderUnknownError = ''provider_unknown_error''"
| "failure_code_name ProviderResponseUnreadable = ''provider_response_unreadable''"
| "failure_code_name SessionMissing = ''session_missing''"
| "failure_code_name SessionNotReady = ''session_not_ready''"
| "failure_code_name RecipientNotOnWhatsapp = ''recipient_not_on_whatsapp''"
| "failure_code_name RecipientCheckFailed = ''recipient_check_failed''"
| "failure_code_name ProviderAcknowledgementError = ''provider_acknowledgement_error''"
| "failure_code_name ProviderOutcomeUnknown = ''provider_outcome_unknown''"
| "failure_code_name UnknownOutcomeFailClosed = ''unknown_outcome_fail_closed''"
| "failure_code_name MaximumAttemptsExhausted = ''maximum_attempts_exhausted''"
| "failure_code_name DeliveryWindowExpired = ''delivery_window_expired''"
| "failure_code_name ConnectionUnavailable = ''connection_unavailable''"
| "failure_code_name ConnectionPaused = ''connection_paused''"
| "failure_code_name ConnectionRestricted = ''connection_restricted''"
| "failure_code_name NewChatQuotaExceeded = ''new_chat_quota_exceeded''"

fun classify_failure_code :: "provider_failure_code \<Rightarrow> failure_classification" where
  "classify_failure_code ProviderUnreachable = RETRYABLE"
| "classify_failure_code ProviderConnectionLost = RETRYABLE"
| "classify_failure_code ProviderTimeout = RETRYABLE"
| "classify_failure_code ProviderAborted = RETRYABLE"
| "classify_failure_code ProviderRateLimited = RETRYABLE"
| "classify_failure_code ProviderServerError = RETRYABLE"
| "classify_failure_code ProviderUnknownError = RETRYABLE"
| "classify_failure_code ProviderResponseUnreadable = RETRYABLE"
| "classify_failure_code ProviderOutcomeUnknown = RETRYABLE"
| "classify_failure_code SessionNotReady = RETRYABLE"
| "classify_failure_code RecipientCheckFailed = RETRYABLE"
| "classify_failure_code ProviderUnauthorized = PERMANENT"
| "classify_failure_code ProviderInvalidRequest = PERMANENT"
| "classify_failure_code SessionMissing = PERMANENT"
| "classify_failure_code RecipientNotOnWhatsapp = PERMANENT"
| "classify_failure_code ProviderAcknowledgementError = PERMANENT"
| "classify_failure_code UnknownOutcomeFailClosed = PERMANENT"
| "classify_failure_code MaximumAttemptsExhausted = PERMANENT"
| "classify_failure_code DeliveryWindowExpired = PERMANENT"
| "classify_failure_code ConnectionUnavailable = PERMANENT"
| "classify_failure_code ConnectionPaused = RETRYABLE"
| "classify_failure_code ConnectionRestricted = PERMANENT"
| "classify_failure_code NewChatQuotaExceeded = PERMANENT"

fun classification_name :: "failure_classification \<Rightarrow> string" where
  "classification_name RETRYABLE = ''RETRYABLE''"
| "classification_name PERMANENT = ''PERMANENT''"

definition unknown_outcome_codes :: "provider_failure_code list" where
  "unknown_outcome_codes =
     [ProviderConnectionLost, ProviderTimeout, ProviderAborted, ProviderOutcomeUnknown,
      ProviderResponseUnreadable]"

section \<open>Failures\<close>

record provider_failure =
  f_code :: provider_failure_code
  f_classification :: failure_classification
  f_message :: string
  f_retry_after_seconds :: "rat option"
  f_provider_status_code :: "int option"

definition is_retryable :: "provider_failure \<Rightarrow> bool" where
  "is_retryable failure = (f_classification failure = RETRYABLE)"

definition has_unknown_outcome :: "provider_failure \<Rightarrow> bool" where
  "has_unknown_outcome failure = (f_code failure \<in> set unknown_outcome_codes)"

definition create_provider_failure ::
  "provider_failure_code \<Rightarrow> string \<Rightarrow> rat option \<Rightarrow> int option \<Rightarrow> provider_failure" where
  "create_provider_failure code message retry_after status_code =
     \<lparr>f_code = code, f_classification = classify_failure_code code, f_message = message,
      f_retry_after_seconds = retry_after, f_provider_status_code = status_code\<rparr>"

text \<open>
  A failure is well formed when its classification is the table's: everything that builds one
  through \<^const>\<open>create_provider_failure\<close> does that.
\<close>

definition well_classified :: "provider_failure \<Rightarrow> bool" where
  "well_classified failure = (f_classification failure = classify_failure_code (f_code failure))"

lemma create_provider_failure_simps [simp]:
  "f_code (create_provider_failure c m r s) = c"
  "f_classification (create_provider_failure c m r s) = classify_failure_code c"
  "f_message (create_provider_failure c m r s) = m"
  "f_retry_after_seconds (create_provider_failure c m r s) = r"
  "f_provider_status_code (create_provider_failure c m r s) = s"
  "well_classified (create_provider_failure c m r s)"
  by (simp_all add: create_provider_failure_def well_classified_def)

lemma every_code_listed: "c \<in> set provider_failure_codes"
  by (cases c) (simp_all add: provider_failure_codes_def)

lemma failure_code_name_inject [simp]: "failure_code_name a = failure_code_name b \<longleftrightarrow> a = b"
  by (cases a; cases b) simp_all

lemma provider_failure_codes_distinct: "distinct provider_failure_codes"
  by (simp add: provider_failure_codes_def)

text \<open>
  The default answer to an ambiguous send is to try again: every code that leaves the outcome
  unknown is classified as retryable.
\<close>

lemma unknown_outcome_is_retryable:
  "well_classified f \<Longrightarrow> has_unknown_outcome f \<Longrightarrow> is_retryable f"
  by (auto simp: well_classified_def has_unknown_outcome_def is_retryable_def
      unknown_outcome_codes_def)

end
