(* ===== verification/Account_Limits.thy ===== *)
theory Account_Limits
  imports Prelude
begin

text \<open>
  What WhatsApp reports about how far an account may reach out, read out of the provider's JSON
  (\<open>packages/provider-whatsapp/src/account-limits.ts\<close>), and the pause on sending it calls for
  (\<open>packages/domain/src/provider/account-limits.ts\<close>).
\<close>

section \<open>Limits\<close>

record reachout_timelock =
  tl_is_active :: bool
  tl_ends_at :: "js_date option"
  tl_enforcement_type :: "string option"

record new_chat_quota =
  q_status :: string
  q_total :: rat
  q_used :: rat
  q_cycle_ends_at :: "js_date option"

record account_limits =
  al_reachout_timelock :: "reachout_timelock option"
  al_new_chat_quota :: "new_chat_quota option"

section \<open>The sending pause\<close>

datatype sending_pause_reason = REACHOUT_TIMELOCK

record sending_pause =
  sp_paused_until :: millis
  sp_reason :: sending_pause_reason

record sending_pause_input =
  pi_limits :: "account_limits option"
  pi_restriction_observed :: bool
  pi_current_paused_until :: "millis option"
  pi_now :: millis
  pi_fallback_pause_milliseconds :: int

fun date_after :: "js_date option \<Rightarrow> millis \<Rightarrow> millis option" where
  "date_after (Some (Date t)) now = (if now < t then Some t else None)"
| "date_after _ now = None"

definition find_pause_end :: "sending_pause_input \<Rightarrow> millis option" where
  "find_pause_end i =
     (let fallback = pi_now i + pi_fallback_pause_milliseconds i;
          observed = (if pi_restriction_observed i then Some fallback else None)
      in case Option.bind (pi_limits i) al_reachout_timelock of
           Some timelock \<Rightarrow>
             if tl_is_active timelock then
               (case date_after (tl_ends_at timelock) (pi_now i) of
                  Some ends_at \<Rightarrow> Some ends_at
                | None \<Rightarrow> Some fallback)
             else observed
         | None \<Rightarrow> observed)"

definition resolve_sending_pause :: "sending_pause_input \<Rightarrow> sending_pause option" where
  "resolve_sending_pause i =
     (case find_pause_end i of
        None \<Rightarrow> None
      | Some candidate \<Rightarrow>
          Some \<lparr>sp_paused_until =
                  (case pi_current_paused_until i of
                     Some current \<Rightarrow> if candidate < current then current else candidate
                   | None \<Rightarrow> candidate),
                sp_reason = REACHOUT_TIMELOCK\<rparr>)"

definition is_sending_paused :: "millis option \<Rightarrow> millis \<Rightarrow> bool" where
  "is_sending_paused paused_until now =
     (case paused_until of None \<Rightarrow> False | Some t \<Rightarrow> now < t)"

definition is_new_chat_quota_under_pressure :: "new_chat_quota option \<Rightarrow> bool" where
  "is_new_chat_quota_under_pressure quota =
     (case quota of None \<Rightarrow> False | Some q \<Rightarrow> q_status q \<noteq> ''NONE'')"

section \<open>Reading the provider's report\<close>

text \<open>A member that is missing or null reads as nothing; one of another type fails the parse.\<close>

datatype 'a parsed = Absent | Present 'a | Malformed

fun nullish_number :: "json option \<Rightarrow> rat parsed" where
  "nullish_number None = Absent"
| "nullish_number (Some JNull) = Absent"
| "nullish_number (Some (JNum x)) = Present x"
| "nullish_number (Some _) = Malformed"

fun nullish_string :: "json option \<Rightarrow> string parsed" where
  "nullish_string None = Absent"
| "nullish_string (Some JNull) = Absent"
| "nullish_string (Some (JStr s)) = Present s"
| "nullish_string (Some _) = Malformed"

definition from_unix_seconds :: "rat option \<Rightarrow> js_date option" where
  "from_unix_seconds seconds =
     (case seconds of
        None \<Rightarrow> None
      | Some s \<Rightarrow> if s \<le> 0 then None else Some (new_date (s * 1000)))"

fun parsed_option :: "'a parsed \<Rightarrow> 'a option" where
  "parsed_option (Present x) = Some x"
| "parsed_option _ = None"

fun read_reachout_timelock :: "json option \<Rightarrow> reachout_timelock option" where
  "read_reachout_timelock (Some (JObj members)) =
     (case (json_field ''isActive'' members,
            nullish_number (json_field ''timeEnforcementEnds'' members),
            nullish_string (json_field ''enforcementType'' members)) of
        (Some (JBool active), ends, enforcement) \<Rightarrow>
          if ends = Malformed \<or> enforcement = Malformed then None
          else Some \<lparr>tl_is_active = active, tl_ends_at = from_unix_seconds (parsed_option ends),
                     tl_enforcement_type = parsed_option enforcement\<rparr>
      | _ \<Rightarrow> None)"
| "read_reachout_timelock _ = None"

fun read_new_chat_quota :: "json option \<Rightarrow> new_chat_quota option" where
  "read_new_chat_quota (Some (JObj members)) =
     (case (json_field ''cappingStatus'' members, json_field ''totalQuota'' members,
            json_field ''usedQuota'' members, nullish_number (json_field ''cycleEnd'' members)) of
        (Some (JStr status), Some (JNum total_quota), Some (JNum used_quota), cycle) \<Rightarrow>
          if status = [] \<or> cycle = Malformed then None
          else Some \<lparr>q_status = status, q_total = total_quota, q_used = used_quota,
                     q_cycle_ends_at = from_unix_seconds (parsed_option cycle)\<rparr>
      | _ \<Rightarrow> None)"
| "read_new_chat_quota _ = None"

text \<open>\<open>container ?? {}\<close>: undefined and null read as an empty object.\<close>

definition read_account_limits :: "json option \<Rightarrow> account_limits" where
  "read_account_limits container =
     (case container of
        Some (JObj members) \<Rightarrow>
          \<lparr>al_reachout_timelock = read_reachout_timelock (json_field ''reachoutTimelock'' members),
           al_new_chat_quota = read_new_chat_quota (json_field ''messageCapping'' members)\<rparr>
      | _ \<Rightarrow> \<lparr>al_reachout_timelock = None, al_new_chat_quota = None\<rparr>)"

section \<open>What a pause guarantees\<close>

lemma date_after_Some: "date_after d now = Some t \<Longrightarrow> now < t"
  by (cases "(d, now)" rule: date_after.cases) (auto split: if_splits)

lemma pause_end_in_future:
  assumes "find_pause_end i = Some t" and "0 < pi_fallback_pause_milliseconds i"
  shows "pi_now i < t"
  using assms by (auto simp: find_pause_end_def Let_def dest: date_after_Some
      split: option.splits if_splits)

text \<open>
  A pause only grows: as a function from the pause in force to the pause after a report, the
  decision is extensive, whatever the report says.
\<close>

definition paused_after :: "sending_pause_input \<Rightarrow> millis option" where
  "paused_after i =
     (case resolve_sending_pause i of
        None \<Rightarrow> pi_current_paused_until i
      | Some pause \<Rightarrow> Some (sp_paused_until pause))"

fun pause_le :: "millis option \<Rightarrow> millis option \<Rightarrow> bool" where
  "pause_le None _ = True"
| "pause_le (Some s) (Some t) = (s \<le> t)"
| "pause_le (Some s) None = False"

lemma pause_le_refl [simp]: "pause_le p p"
  by (cases p) simp_all

lemma pause_le_trans: "pause_le p q \<Longrightarrow> pause_le q r \<Longrightarrow> pause_le p r"
  by (cases p; cases q; cases r) simp_all

lemma pause_never_shortened: "pause_le (pi_current_paused_until i) (paused_after i)"
  by (auto simp: paused_after_def resolve_sending_pause_def split: option.splits)

lemma paused_stays_paused:
  "is_sending_paused p now \<Longrightarrow> pause_le p q \<Longrightarrow> is_sending_paused q now"
  by (cases p; cases q) (simp_all add: is_sending_paused_def)

lemma observed_restriction_pauses:
  assumes "pi_restriction_observed i" and "0 < pi_fallback_pause_milliseconds i"
  shows "is_sending_paused (paused_after i) (pi_now i)"
proof -
  have "find_pause_end i \<noteq> None"
    using assms(1) by (simp add: find_pause_end_def Let_def split: option.splits)
  then obtain t where t: "find_pause_end i = Some t" by blast
  from pause_end_in_future [OF this assms(2)] t show ?thesis
    by (auto simp: paused_after_def resolve_sending_pause_def is_sending_paused_def
        split: option.splits)
qed

section \<open>Properties\<close>

text \<open>
  The decision about a pause: it never ends one earlier than it was going to end, a refusal
  WhatsApp was seen to make always leaves the connection paused, whatever the report says, and
  without a refusal and without an active timelock in the report nothing is decided at all.
\<close>

theorem sending_pause_decision:
  assumes "0 < pi_fallback_pause_milliseconds i"
  shows "pause_le (pi_current_paused_until i) (paused_after i)
    \<and> (pi_restriction_observed i \<longrightarrow> is_sending_paused (paused_after i) (pi_now i))
    \<and> (\<not> pi_restriction_observed i \<longrightarrow>
         (\<forall>l. pi_limits i = Some l \<longrightarrow> (\<forall>t. al_reachout_timelock l = Some t \<longrightarrow> \<not> tl_is_active t)) \<longrightarrow>
         resolve_sending_pause i = None)"
  using assms pause_never_shortened observed_restriction_pauses
  by (auto simp: resolve_sending_pause_def find_pause_end_def Let_def bind_eq_Some_conv
      split: option.splits)

theorem sending_pause_decision_witness:
  "pause_le (Some 5000) (paused_after \<lparr>pi_limits = None, pi_restriction_observed = True,
     pi_current_paused_until = Some 5000, pi_now = 1000, pi_fallback_pause_milliseconds = 100\<rparr>)
   \<and> is_sending_paused (paused_after \<lparr>pi_limits = None, pi_restriction_observed = True,
     pi_current_paused_until = Some 5000, pi_now = 1000, pi_fallback_pause_milliseconds = 100\<rparr>) 1000"
  using sending_pause_decision [of "\<lparr>pi_limits = None, pi_restriction_observed = True,
     pi_current_paused_until = Some 5000, pi_now = 1000, pi_fallback_pause_milliseconds = 100\<rparr>"]
  by simp

end
