(* ===== verification/Store.thy ===== *)
theory Store
  imports Notification_Status Acknowledgement Provider_Failure Account_Limits
begin

text \<open>
  The database as the services see it: one record per table of \<open>packages/database/src/schema\<close>,
  the state of the whole system (tables, clocks, the log of jobs handed to the queue, the messages
  handed to the provider), transactions that either commit or leave no trace, and the constraints
  Postgres enforces on the notifications table: its CHECKs, its unique indexes, its foreign keys
  and the status trigger of the second migration.
\<close>

section \<open>Rows\<close>

datatype provider_session_status = STOPPED | STARTING | SCAN_QR_CODE | WORKING | SESSION_FAILED | UNKNOWN

record notification =
  n_id :: uuid
  n_application_id :: uuid
  n_session_id :: uuid
  n_template_id :: "uuid option"
  n_status :: notification_status
  n_recipient_phone_number :: string
  n_recipient_chat_identifier :: "string option"
  n_rendered_body :: string
  n_template_variables :: "(string \<times> string) list option"
  n_priority :: int
  n_scheduled_at :: "millis option"
  n_attempt_count :: int
  n_maximum_attempts :: int
  n_next_attempt_at :: "millis option"
  n_claim_token :: "uuid option"
  n_claimed_at :: "millis option"
  n_provider_message_id :: "string option"
  n_provider_acknowledgement :: int
  n_sent_at :: "millis option"
  n_delivered_at :: "millis option"
  n_read_at :: "millis option"
  n_failed_at :: "millis option"
  n_cancelled_at :: "millis option"
  n_dead_lettered_at :: "millis option"
  n_failure_code :: "provider_failure_code option"
  n_failure_reason :: "string option"
  n_failure_classification :: "failure_classification option"
  n_retry_of_notification_id :: "uuid option"
  n_idempotency_key_id :: "uuid option"
  n_correlation_id :: "string option"
  n_metadata :: "(string \<times> string) list"
  n_created_at :: micros
  n_updated_at :: micros

record event =
  e_id :: uuid
  e_application_id :: uuid
  e_notification_id :: uuid
  e_event_type :: string
  e_from_status :: "notification_status option"
  e_to_status :: "notification_status option"
  e_attempt_number :: "int option"
  e_payload :: "(string \<times> json) list"
  e_correlation_id :: "string option"
  e_occurred_at :: micros

datatype send_attempt_outcome = SUCCEEDED | ATTEMPT_FAILED | OUTCOME_UNKNOWN

record attempt =
  a_id :: uuid
  a_application_id :: uuid
  a_notification_id :: uuid
  a_attempt_number :: int
  a_request_started_at :: millis
  a_request_finished_at :: "millis option"
  a_outcome :: "send_attempt_outcome option"
  a_provider_message_id :: "string option"
  a_failure_code :: "provider_failure_code option"

text \<open>The limits as the dashboard column keeps them: instants are ISO strings.\<close>

record stored_timelock =
  st_is_active :: bool
  st_ends_at :: "string option"
  st_enforcement_type :: "string option"

record stored_quota =
  sq_status :: string
  sq_total :: rat
  sq_used :: rat
  sq_cycle_ends_at :: "string option"

record stored_account_limits =
  sl_reachout_timelock :: "stored_timelock option"
  sl_new_chat_quota :: "stored_quota option"

record session =
  s_id :: uuid
  s_application_id :: uuid
  s_provider_session_name :: string
  s_display_name :: string
  s_status :: provider_session_status
  s_phone_number :: "string option"
  s_push_name :: "string option"
  s_webhook_signing_key_ciphertext :: string
  s_send_pacing_minimum_seconds :: int
  s_send_pacing_maximum_seconds :: int
  s_next_send_allowed_at :: micros
  s_sending_paused_until :: "millis option"
  s_sending_paused_reason :: "sending_pause_reason option"
  s_account_limits :: "stored_account_limits option"
  s_account_limits_checked_at :: "millis option"
  s_last_status_at :: micros
  s_last_error :: "string option"
  s_created_at :: micros
  s_updated_at :: micros

datatype unknown_outcome_policy = POLICY_RETRY | POLICY_FAIL_CLOSED

datatype application_status = ACTIVE | SUSPENDED

record application =
  ap_id :: uuid
  ap_organization_id :: uuid
  ap_name :: string
  ap_slug :: string
  ap_status :: application_status
  ap_rate_limit_per_minute :: int
  ap_rate_limit_burst :: int
  ap_daily_send_limit :: "int option"
  ap_default_maximum_attempts :: int
  ap_unknown_outcome_policy :: unknown_outcome_policy
  ap_archived_at :: "millis option"
  ap_created_at :: micros
  ap_updated_at :: micros

record organization =
  o_id :: uuid
  o_name :: string
  o_slug :: string
  o_created_at :: micros
  o_updated_at :: micros

datatype user_role = OWNER | ADMIN | MEMBER

datatype user_status = USER_ACTIVE | USER_DISABLED

record user =
  u_id :: uuid
  u_organization_id :: uuid
  u_email :: string
  u_password_hash :: string
  u_name :: string
  u_role :: user_role
  u_status :: user_status
  u_failed_login_count :: int
  u_locked_until :: "millis option"
  u_last_login_at :: "millis option"
  u_created_at :: micros
  u_updated_at :: micros

record user_session =
  us_id :: uuid
  us_user_id :: uuid
  us_token_hash :: string
  us_absolute_expires_at :: millis
  us_idle_expires_at :: millis
  us_ip_address :: "string option"
  us_user_agent :: "string option"
  us_created_at :: micros
  us_last_used_at :: micros
  us_revoked_at :: "millis option"

text \<open>The scopes are a text array without a constraint on its values.\<close>

record api_key =
  ak_id :: uuid
  ak_application_id :: uuid
  ak_name :: string
  ak_key_identifier :: string
  ak_key_prefix :: string
  ak_key_hash :: string
  ak_last_four :: string
  ak_scopes :: "string list"
  ak_created_by_user_id :: "uuid option"
  ak_expires_at :: "millis option"
  ak_last_used_at :: "millis option"
  ak_revoked_at :: "millis option"
  ak_created_at :: micros

datatype idempotency_state = IN_FLIGHT | COMPLETED

record idempotency_key =
  k_id :: uuid
  k_application_id :: uuid
  k_key :: string
  k_request_method :: string
  k_request_path :: string
  k_request_fingerprint :: string
  k_state :: idempotency_state
  k_lock_token :: uuid
  k_response_status :: "int option"
  k_response_body :: "(string \<times> json) list option"
  k_resource_id :: "uuid option"
  k_created_at :: micros
  k_completed_at :: "millis option"
  k_expires_at :: millis

datatype webhook_outcome = APPLIED | IGNORED | UNMATCHED

record delivery =
  d_id :: uuid
  d_application_id :: uuid
  d_session_id :: uuid
  d_provider_event_id :: string
  d_event_type :: string
  d_provider_session_name :: string
  d_payload :: "(string \<times> json) list"
  d_received_at :: millis
  d_processed_at :: "millis option"
  d_processing_attempts :: int
  d_outcome :: "webhook_outcome option"
  d_outcome_detail :: "string option"

record bucket =
  b_subject :: string
  b_theoretical_arrival_at :: micros
  b_updated_at :: micros

datatype queue_name = NOTIFICATION_DISPATCH | NOTIFICATION_DEAD_LETTER | WEBHOOK_PROCESS | MAINTENANCE_RECONCILE

record job =
  j_queue :: queue_name
  j_correlation_id :: string
  j_application_id :: "uuid option"
  j_subject_id :: uuid
  j_singleton_key :: "uuid option"
  j_start_after :: "millis option"

text \<open>A message handed to WhatsApp, with the notification it was sent for.\<close>

record sent_text =
  x_notification_id :: uuid
  x_session_name :: string
  x_chat_identifier :: string
  x_text :: string

section \<open>The system's state\<close>

record world =
  w_clock :: millis
  w_db_clock :: micros
  w_next_identifier :: nat
  w_provider_calls :: nat
  w_notifications :: "notification list"
  w_events :: "event list"
  w_attempts :: "attempt list"
  w_sessions :: "session list"
  w_applications :: "application list"
  w_idempotency_keys :: "idempotency_key list"
  w_deliveries :: "delivery list"
  w_buckets :: "bucket list"
  w_jobs :: "job list"
  w_sends :: "sent_text list"
  w_organizations :: "organization list"
  w_users :: "user list"
  w_user_sessions :: "user_session list"
  w_api_keys :: "api_key list"

text \<open>
  The configuration the services are given, and what stands behind two ports that are not part of
  the repository: the identifiers handed out, and whether pg-boss accepts a job (it answers with
  the job's identifier, or null when the queue's policy refuses it). Transactions run whole, one after the
  other; which rows of the notifications another one holds locked at a moment is given here as well.
\<close>

record config =
  c_maximum_lifetime_hours :: int
  c_maximum_connection_wait_minutes :: int
  c_stuck_claim_timeout_seconds :: int
  c_restriction_fallback_pause_hours :: int
  c_simulate_typing :: bool
  c_webhook_tolerance_seconds :: int
  c_identifier :: "nat \<Rightarrow> uuid"
  c_boss_send :: "world \<Rightarrow> job \<Rightarrow> uuid option"
  c_locked_elsewhere :: "world \<Rightarrow> uuid \<Rightarrow> bool"

section \<open>Errors and transactions\<close>

datatype exn =
    ThrownError string
  | RangeError
  | ConstraintViolation string
  | DomainError string string
  | InvalidPhoneNumberError string
  | HttpException int string string       \<comment> \<open>status, title, message\<close>

type_synonym 'r tx = "world \<Rightarrow> exn + ('r \<times> world)"

definition tx_return :: "'r \<Rightarrow> 'r tx" where
  "tx_return r w = Inr (r, w)"

definition tx_throw :: "exn \<Rightarrow> 'r tx" where
  "tx_throw e w = Inl e"

definition tx_bind :: "'r tx \<Rightarrow> ('r \<Rightarrow> 's tx) \<Rightarrow> 's tx" where
  "tx_bind t k w = (case t w of Inl e \<Rightarrow> Inl e | Inr (r, w') \<Rightarrow> k r w')"

fun tx_for_each :: "('a \<Rightarrow> 'r tx) \<Rightarrow> 'a list \<Rightarrow> 'r list tx" where
  "tx_for_each f [] = tx_return []"
| "tx_for_each f (x # xs) =
     tx_bind (f x) (\<lambda>r. tx_bind (tx_for_each f xs) (\<lambda>rs. tx_return (r # rs)))"

definition tx_read :: "(world \<Rightarrow> 'r) \<Rightarrow> 'r tx" where
  "tx_read f w = Inr (f w, w)"

definition new_identifier :: "config \<Rightarrow> uuid tx" where
  "new_identifier c w =
     Inr (c_identifier c (w_next_identifier w),
          w\<lparr>w_next_identifier := Suc (w_next_identifier w)\<rparr>)"

text \<open>
  \<open>packages/queue/src/enqueue-in-transaction.ts\<close>: the job row is part of the transaction. When pg-boss
  refuses the job it answers null and there is no row.
\<close>

definition enqueue_in_transaction :: "config \<Rightarrow> job \<Rightarrow> uuid option tx" where
  "enqueue_in_transaction c job w =
     Inr (c_boss_send c w job,
          if c_boss_send c w job = None then w else w\<lparr>w_jobs := w_jobs w @ [job]\<rparr>)"

text \<open>
  What pg-boss documents of its queues: a job is refused only for a singleton key, and only while the
  queue holds a job with that key. The jobs on file are all that were ever accepted, so this is the
  weakest form of it, and it is a hypothesis of the properties that need it.
\<close>

definition refuses_duplicates_only :: "config \<Rightarrow> bool" where
  "refuses_duplicates_only c =
     (\<forall>w job. c_boss_send c w job = None \<longrightarrow> j_singleton_key job \<noteq> None
        \<and> (\<exists>held \<in> set (w_jobs w). j_queue held = j_queue job
              \<and> j_singleton_key held = j_singleton_key job))"

lemma refuses_duplicates_onlyD:
  assumes "refuses_duplicates_only c" and "c_boss_send c w job = None"
  shows "\<exists>held \<in> set (w_jobs w). j_queue held = j_queue job \<and> j_singleton_key held = j_singleton_key job"
    and "j_singleton_key job \<noteq> None"
  using assms by (auto simp: refuses_duplicates_only_def)

lemma tx_bind_simps [simp]:
  "tx_bind (tx_return r) k = k r"
  "tx_bind (tx_throw e) k = tx_throw e"
  by (simp_all add: tx_bind_def tx_return_def tx_throw_def fun_eq_iff)

lemma tx_bind_InrE:
  assumes "tx_bind t k w = Inr (s, w'')"
  obtains r w' where "t w = Inr (r, w')" and "k r w' = Inr (s, w'')"
  using assms by (auto simp: tx_bind_def split: sum.splits)

section \<open>Constraints on the notifications table\<close>

definition check_notification :: "notification \<Rightarrow> bool" where
  "check_notification r =
     ((n_status r = SCHEDULED \<longrightarrow> n_scheduled_at r \<noteq> None)
      \<and> (n_status r = RETRYING \<longrightarrow> n_next_attempt_at r \<noteq> None)
      \<and> (n_status r \<in> {SENT, DELIVERED} \<longrightarrow> n_provider_message_id r \<noteq> None)
      \<and> 0 \<le> n_attempt_count r
      \<and> 1 \<le> n_maximum_attempts r \<and> n_maximum_attempts r \<le> 10
      \<and> -1 \<le> n_provider_acknowledgement r \<and> n_provider_acknowledgement r \<le> 4
      \<and> 1 \<le> length (n_rendered_body r) \<and> length (n_rendered_body r) \<le> 4096)"

text \<open>The function of the trigger \<open>notifications_enforce_status_transition\<close>.\<close>

definition enforce_status_transition :: "notification_status \<Rightarrow> notification_status \<Rightarrow> bool" where
  "enforce_status_transition old new = (new = old \<or> can_transition old new)"

text \<open>The partial unique index \<open>notifications_provider_message_id_unique\<close>.\<close>

fun message_keys :: "notification list \<Rightarrow> (uuid \<times> string) list" where
  "message_keys [] = []"
| "message_keys (r # rs) =
     (case n_provider_message_id r of
        None \<Rightarrow> message_keys rs
      | Some m \<Rightarrow> (n_session_id r, m) # message_keys rs)"

definition unique_message_ids :: "notification list \<Rightarrow> bool" where
  "unique_message_ids rows = distinct (message_keys rows)"

definition update_notifications ::
  "(notification \<Rightarrow> bool) \<Rightarrow> (notification \<Rightarrow> notification) \<Rightarrow> notification list tx" where
  "update_notifications p f w =
     (let rows = w_notifications w; hits = filter p rows; rows' = sql_update p f rows
      in if \<not> list_all (\<lambda>r. enforce_status_transition (n_status r) (n_status (f r))) hits
         then Inl (ConstraintViolation ''notification_status_transitions'')
         else if \<not> list_all (\<lambda>r. check_notification (f r)) hits
         then Inl (ConstraintViolation ''notifications_check'')
         else if \<not> unique_message_ids rows'
         then Inl (ConstraintViolation ''notifications_provider_message_id_unique'')
         else Inr (map f hits, w\<lparr>w_notifications := rows'\<rparr>))"

text \<open>\<open>const [row] = ... returning()\<close>\<close>

definition first_row :: "'r list \<Rightarrow> 'r option" where
  "first_row rows = (case rows of [] \<Rightarrow> None | r # _ \<Rightarrow> Some r)"

definition session_exists :: "uuid \<Rightarrow> uuid \<Rightarrow> world \<Rightarrow> bool" where
  "session_exists application_id session_id w =
     list_ex (\<lambda>s. s_application_id s = application_id \<and> s_id s = session_id) (w_sessions w)"

definition notification_exists :: "uuid \<Rightarrow> uuid \<Rightarrow> world \<Rightarrow> bool" where
  "notification_exists application_id notification_id w =
     list_ex (\<lambda>r. n_application_id r = application_id \<and> n_id r = notification_id)
       (w_notifications w)"

definition idempotency_key_exists :: "uuid \<Rightarrow> uuid option \<Rightarrow> world \<Rightarrow> bool" where
  "idempotency_key_exists application_id key_id w =
     (case key_id of
        None \<Rightarrow> True
      | Some i \<Rightarrow> list_ex (\<lambda>k. k_application_id k = application_id \<and> k_id k = i)
                    (w_idempotency_keys w))"

section \<open>Facts about rows\<close>

lemma in_message_keys:
  "(s, m) \<in> set (message_keys rows)
     \<longleftrightarrow> (\<exists>r \<in> set rows. n_session_id r = s \<and> n_provider_message_id r = Some m)"
  by (induction rows) (auto split: option.splits)

lemma message_keys_update_same:
  assumes "\<And>r. p r \<Longrightarrow> n_session_id (f r) = n_session_id r"
    and "\<And>r. p r \<Longrightarrow> n_provider_message_id (f r) = n_provider_message_id r"
  shows "message_keys (sql_update p f rows) = message_keys rows"
  using assms by (induction rows) (auto simp: sql_update_def split: option.splits)

lemma first_row_map: "first_row (map f (filter p rows)) = sql_returning p f rows"
  by (induction rows) (auto simp: first_row_def sql_returning_def)

lemma update_notifications_Inr:
  assumes "update_notifications p f w = Inr (rs, w')"
  shows "rs = map f (filter p (w_notifications w))"
    and "w' = w\<lparr>w_notifications := sql_update p f (w_notifications w)\<rparr>"
    and "\<And>r. r \<in> set (w_notifications w) \<Longrightarrow> p r \<Longrightarrow>
           enforce_status_transition (n_status r) (n_status (f r)) \<and> check_notification (f r)"
  using assms
  by (auto simp: update_notifications_def Let_def list_all_iff split: if_splits)

end
