(* ===== verification/Session_Repository.thy ===== *)
theory Session_Repository
  imports Store
begin

text \<open>
  \<open>packages/database/src/repositories/whatsapp-session.repository.ts\<close>: what the platform records
  about a WhatsApp connection. The lemmas show that the statement recording a report never
  shortens a pause, that only one caller gets a send slot, and that the slot after it is at least
  the configured minimum away. \<open>application.repository.ts\<close> contributes the one read the dispatcher
  needs.
\<close>

section \<open>Applications\<close>

definition find_delivery_settings :: "uuid \<Rightarrow> world \<Rightarrow> application option" where
  "find_delivery_settings application_id w =
     sql_first (\<lambda>a. ap_id a = application_id \<and> ap_archived_at a = None) (w_applications w)"

section \<open>Stored limits\<close>

fun date_to_iso :: "js_date option \<Rightarrow> exn + string option" where
  "date_to_iso None = Inr None"
| "date_to_iso (Some (Date t)) = Inr (Some (to_iso_string t))"
| "date_to_iso (Some InvalidDate) = Inl RangeError"

definition to_stored_timelock :: "reachout_timelock \<Rightarrow> exn + stored_timelock" where
  "to_stored_timelock timelock =
     (case date_to_iso (tl_ends_at timelock) of
        Inl e \<Rightarrow> Inl e
      | Inr ends_at \<Rightarrow>
          Inr \<lparr>st_is_active = tl_is_active timelock, st_ends_at = ends_at,
               st_enforcement_type = tl_enforcement_type timelock\<rparr>)"

definition to_stored_quota :: "new_chat_quota \<Rightarrow> exn + stored_quota" where
  "to_stored_quota quota =
     (case date_to_iso (q_cycle_ends_at quota) of
        Inl e \<Rightarrow> Inl e
      | Inr cycle_ends_at \<Rightarrow>
          Inr \<lparr>sq_status = q_status quota, sq_total = q_total quota, sq_used = q_used quota,
               sq_cycle_ends_at = cycle_ends_at\<rparr>)"

fun optionally :: "('a \<Rightarrow> 'e + 'b) \<Rightarrow> 'a option \<Rightarrow> 'e + 'b option" where
  "optionally f None = Inr None"
| "optionally f (Some x) = map_sum id Some (f x)"

definition to_stored_account_limits :: "account_limits \<Rightarrow> exn + stored_account_limits" where
  "to_stored_account_limits limits =
     (case optionally to_stored_timelock (al_reachout_timelock limits) of
        Inl e \<Rightarrow> Inl e
      | Inr timelock \<Rightarrow>
          (case optionally to_stored_quota (al_new_chat_quota limits) of
             Inl e \<Rightarrow> Inl e
           | Inr quota \<Rightarrow>
               Inr \<lparr>sl_reachout_timelock = timelock, sl_new_chat_quota = quota\<rparr>))"

section \<open>Statements\<close>

definition is_session :: "uuid \<Rightarrow> session \<Rightarrow> bool" where
  "is_session session_id s = (s_id s = session_id)"

definition find_session :: "uuid \<Rightarrow> uuid \<Rightarrow> world \<Rightarrow> session option" where
  "find_session application_id session_id w =
     sql_first (\<lambda>s. s_id s = session_id \<and> s_application_id s = application_id) (w_sessions w)"

definition find_session_without_tenant_scope :: "uuid \<Rightarrow> world \<Rightarrow> session option" where
  "find_session_without_tenant_scope session_id w =
     sql_first (is_session session_id) (w_sessions w)"

definition find_session_by_provider_name :: "string \<Rightarrow> world \<Rightarrow> session option" where
  "find_session_by_provider_name name w =
     sql_first (\<lambda>s. s_provider_session_name s = name) (w_sessions w)"

definition session_created_before :: "session \<Rightarrow> session \<Rightarrow> bool" where
  "session_created_before a b = (s_created_at a \<le> s_created_at b)"

definition list_sessions_for_application :: "uuid \<Rightarrow> world \<Rightarrow> session list" where
  "list_sessions_for_application application_id w =
     sql_order_by session_created_before
       (filter (\<lambda>s. s_application_id s = application_id) (w_sessions w))"

definition update_sessions :: "(session \<Rightarrow> bool) \<Rightarrow> (session \<Rightarrow> session) \<Rightarrow> world \<Rightarrow> world" where
  "update_sessions p f w = w\<lparr>w_sessions := sql_update p f (w_sessions w)\<rparr>"

text \<open>
  The database fills the columns the caller does not name; the unique index on the provider's
  session name refuses a second row with it, and the foreign key a row of an application that does not exist.
\<close>

definition insert_session ::
  "uuid \<Rightarrow> uuid \<Rightarrow> string \<Rightarrow> string \<Rightarrow> string \<Rightarrow> session tx" where
  "insert_session session_id application_id provider_session_name display_name ciphertext w =
     (if list_ex (\<lambda>s. s_id s = session_id) (w_sessions w)
      then Inl (ConstraintViolation ''whatsapp_sessions_pkey'')
      else if list_ex (\<lambda>s. s_provider_session_name s = provider_session_name) (w_sessions w)
      then Inl (ConstraintViolation ''whatsapp_sessions_provider_name_unique'')
      else if \<not> list_ex (\<lambda>a. ap_id a = application_id) (w_applications w)
      then Inl (ConstraintViolation ''whatsapp_sessions_application_id_applications_id_fk'')
      else let s = \<lparr>s_id = session_id, s_application_id = application_id,
             s_provider_session_name = provider_session_name, s_display_name = display_name,
             s_status = STOPPED, s_phone_number = None, s_push_name = None,
             s_webhook_signing_key_ciphertext = ciphertext, s_send_pacing_minimum_seconds = 30,
             s_send_pacing_maximum_seconds = 60, s_next_send_allowed_at = w_db_clock w,
             s_sending_paused_until = None, s_sending_paused_reason = None,
             s_account_limits = None, s_account_limits_checked_at = None,
             s_last_status_at = w_db_clock w, s_last_error = None,
             s_created_at = w_db_clock w, s_updated_at = w_db_clock w\<rparr>
           in Inr (s, w\<lparr>w_sessions := w_sessions w @ [s]\<rparr>))"

text \<open>The foreign key of the notifications is \<open>ON DELETE RESTRICT\<close>.\<close>

definition delete_session :: "uuid \<Rightarrow> uuid \<Rightarrow> bool tx" where
  "delete_session application_id session_id w =
     (let p = (\<lambda>s. s_id s = session_id \<and> s_application_id s = application_id)
      in if list_ex (\<lambda>r. list_ex (\<lambda>s. p s \<and> n_session_id r = s_id s
                                    \<and> n_application_id r = s_application_id s) (w_sessions w))
              (w_notifications w)
         then Inl (ConstraintViolation ''notifications_session_fkey'')
         else Inr (list_ex p (w_sessions w),
                   w\<lparr>w_sessions := filter (\<lambda>s. \<not> p s) (w_sessions w),
                     w_deliveries := filter (\<lambda>d. \<not> list_ex (\<lambda>s. p s \<and> d_session_id d = s_id s)
                                               (w_sessions w)) (w_deliveries w)\<rparr>))"

definition record_status ::
  "uuid \<Rightarrow> provider_session_status \<Rightarrow> string option \<Rightarrow> string option \<Rightarrow> string option \<Rightarrow> millis
     \<Rightarrow> world \<Rightarrow> world" where
  "record_status session_id status phone_number push_name last_error now =
     update_sessions (is_session session_id)
       (\<lambda>s. s\<lparr>s_status := status, s_phone_number := phone_number, s_push_name := push_name,
              s_last_error := last_error, s_last_status_at := of_date now,
              s_updated_at := of_date now\<rparr>)"

definition limits_are_stale :: "millis \<Rightarrow> session \<Rightarrow> bool" where
  "limits_are_stale stale_before s =
     (case s_account_limits_checked_at s of None \<Rightarrow> True | Some t \<Rightarrow> t < stale_before)"

definition claim_account_limits_refresh :: "uuid \<Rightarrow> millis \<Rightarrow> millis \<Rightarrow> bool tx" where
  "claim_account_limits_refresh session_id now stale_before w =
     (let p = (\<lambda>s. is_session session_id s \<and> limits_are_stale stale_before s)
      in Inr (list_ex p (w_sessions w),
              update_sessions p (\<lambda>s. s\<lparr>s_account_limits_checked_at := Some now\<rparr>) w))"

definition invalidate_account_limits :: "uuid \<Rightarrow> world \<Rightarrow> world" where
  "invalidate_account_limits session_id =
     update_sessions (is_session session_id) (\<lambda>s. s\<lparr>s_account_limits_checked_at := None\<rparr>)"

text \<open>\<open>greatest(coalesce(column, pause), pause)\<close>\<close>

definition record_pause :: "sending_pause option \<Rightarrow> session \<Rightarrow> session" where
  "record_pause pause s =
     (case pause of
        None \<Rightarrow> s
      | Some p \<Rightarrow>
          s\<lparr>s_sending_paused_until :=
              Some (max (case s_sending_paused_until s of None \<Rightarrow> sp_paused_until p
                         | Some t \<Rightarrow> t) (sp_paused_until p)),
            s_sending_paused_reason := Some (sp_reason p)\<rparr>)"

definition record_account_limits ::
  "uuid \<Rightarrow> account_limits option \<Rightarrow> sending_pause option \<Rightarrow> millis \<Rightarrow> unit tx" where
  "record_account_limits session_id limits pause now w =
     (case optionally to_stored_account_limits limits of
        Inl e \<Rightarrow> Inl e
      | Inr stored \<Rightarrow>
          Inr ((), update_sessions (is_session session_id)
            (\<lambda>s. (record_pause pause
                    (case stored of None \<Rightarrow> s
                     | Some l \<Rightarrow> s\<lparr>s_account_limits := Some l,
                                  s_account_limits_checked_at := Some now\<rparr>))
                 \<lparr>s_updated_at := of_date now\<rparr>) w))"

definition end_sending_pause :: "uuid \<Rightarrow> millis \<Rightarrow> world \<Rightarrow> world" where
  "end_sending_pause session_id observed =
     update_sessions (\<lambda>s. is_session session_id s \<and> s_sending_paused_until s = Some observed)
       (\<lambda>s. s\<lparr>s_sending_paused_until := None, s_sending_paused_reason := None\<rparr>)"

text \<open>
  \<open>reserveSendSlot\<close>: \<open>floor(random() * n)\<close> is one of \<open>0, ..., n - 1\<close>; the entropy Postgres draws is
  the argument \<open>u\<close>.
\<close>

definition pacing_seconds :: "int \<Rightarrow> session \<Rightarrow> int" where
  "pacing_seconds u s =
     s_send_pacing_minimum_seconds s
     + u mod (s_send_pacing_maximum_seconds s - s_send_pacing_minimum_seconds s + 1)"

datatype send_slot = Reserved micros | NotReserved micros

fun slot_reserved :: "send_slot \<Rightarrow> bool" where
  "slot_reserved (Reserved t) = True"
| "slot_reserved (NotReserved t) = False"

fun slot_next_send_allowed_at :: "send_slot \<Rightarrow> micros" where
  "slot_next_send_allowed_at (Reserved t) = t"
| "slot_next_send_allowed_at (NotReserved t) = t"

definition reserve_send_slot :: "uuid \<Rightarrow> millis \<Rightarrow> int \<Rightarrow> send_slot tx" where
  "reserve_send_slot session_id now u w =
     (let p = (\<lambda>s. is_session session_id s \<and> s_next_send_allowed_at s \<le> of_date now);
          next = (\<lambda>s. w_db_clock w + pacing_seconds u s * 1000000);
          f = (\<lambda>s. s\<lparr>s_next_send_allowed_at := next s, s_updated_at := of_date now\<rparr>)
      in case sql_returning p f (w_sessions w) of
           Some s \<Rightarrow> Inr (Reserved (s_next_send_allowed_at s), update_sessions p f w)
         | None \<Rightarrow>
             Inr (NotReserved
                    (case sql_first (is_session session_id) (w_sessions w) of
                       Some s \<Rightarrow> s_next_send_allowed_at s
                     | None \<Rightarrow> of_date now), w))"

section \<open>Lemmas\<close>

definition valid_pacing :: "session \<Rightarrow> bool" where
  "valid_pacing s =
     (0 \<le> s_send_pacing_minimum_seconds s
      \<and> s_send_pacing_minimum_seconds s \<le> s_send_pacing_maximum_seconds s)"

lemma pacing_seconds_bounds:
  assumes "valid_pacing s"
  shows "s_send_pacing_minimum_seconds s \<le> pacing_seconds u s"
    and "pacing_seconds u s \<le> s_send_pacing_maximum_seconds s"
proof -
  let ?n = "s_send_pacing_maximum_seconds s - s_send_pacing_minimum_seconds s + 1"
  have "0 < ?n" using assms by (simp add: valid_pacing_def)
  then have "0 \<le> u mod ?n" and "u mod ?n < ?n"
    by (rule pos_mod_sign, rule pos_mod_bound)
  then show "s_send_pacing_minimum_seconds s \<le> pacing_seconds u s"
    and "pacing_seconds u s \<le> s_send_pacing_maximum_seconds s"
    unfolding pacing_seconds_def by linarith+
qed

lemma record_pause_extends:
  "pause_le (s_sending_paused_until s) (s_sending_paused_until (record_pause pause s))"
  by (cases "s_sending_paused_until s") (auto simp: record_pause_def split: option.splits)

lemma record_pause_covers:
  "pause_le (Some (sp_paused_until p)) (s_sending_paused_until (record_pause (Some p) s))"
  by (cases "s_sending_paused_until s") (auto simp: record_pause_def)

lemma record_pause_commute:
  "s_sending_paused_until (record_pause (Some p) (record_pause (Some q) s))
     = s_sending_paused_until (record_pause (Some q) (record_pause (Some p) s))"
  by (auto simp: record_pause_def split: option.splits)

lemma record_pause_kept [simp]:
  "s_id (record_pause p s) = s_id s"
  "s_application_id (record_pause p s) = s_application_id s"
  "s_status (record_pause p s) = s_status s"
  "s_next_send_allowed_at (record_pause p s) = s_next_send_allowed_at s"
  "s_account_limits_checked_at (record_pause p s) = s_account_limits_checked_at s"
  by (simp_all add: record_pause_def split: option.splits)

text \<open>An update that leaves the key alone and never shortens a pause.\<close>

definition pause_safe :: "(session \<Rightarrow> session) \<Rightarrow> bool" where
  "pause_safe f =
     (\<forall>s. s_id (f s) = s_id s \<and> s_application_id (f s) = s_application_id s
          \<and> pause_le (s_sending_paused_until s) (s_sending_paused_until (f s)))"

lemma pause_safe_updates [simp]:
  "pause_safe (\<lambda>s. s\<lparr>s_account_limits_checked_at := x\<rparr>)"
  "pause_safe (\<lambda>s. s\<lparr>s_next_send_allowed_at := y s, s_updated_at := u\<rparr>)"
  "pause_safe (\<lambda>s. s\<lparr>s_status := st, s_phone_number := ph, s_push_name := pn, s_last_error := le,
     s_last_status_at := ls, s_updated_at := u\<rparr>)"
  by (simp_all add: pause_safe_def)

lemma record_account_limits_pause_safe:
  assumes "record_account_limits sid limits pause now w = Inr (u, w')"
  obtains f where "pause_safe f" and "w' = update_sessions (is_session sid) f w"
    and "\<And>s. s_sending_paused_until (f s) = s_sending_paused_until (record_pause pause s)"
proof -
  from assms obtain stored where w': "w' = update_sessions (is_session sid)
      (\<lambda>s. (record_pause pause (case stored of None \<Rightarrow> s
              | Some l \<Rightarrow> s\<lparr>s_account_limits := Some l, s_account_limits_checked_at := Some now\<rparr>))
           \<lparr>s_updated_at := of_date now\<rparr>) w"
    by (auto simp: record_account_limits_def split: sum.splits)
  show thesis
  proof (rule that [OF _ w'])
    show "s_sending_paused_until ((record_pause pause (case stored of None \<Rightarrow> s
              | Some l \<Rightarrow> s\<lparr>s_account_limits := Some l, s_account_limits_checked_at := Some now\<rparr>))
           \<lparr>s_updated_at := of_date now\<rparr>)
        = s_sending_paused_until (record_pause pause s)" for s
      by (cases stored) (simp_all add: record_pause_def split: option.splits)
    then show "pause_safe (\<lambda>s. (record_pause pause (case stored of None \<Rightarrow> s
              | Some l \<Rightarrow> s\<lparr>s_account_limits := Some l, s_account_limits_checked_at := Some now\<rparr>))
           \<lparr>s_updated_at := of_date now\<rparr>)"
      by (simp add: pause_safe_def record_pause_extends split: option.splits)
  qed
qed

end
