(* ===== verification/Notification_Repository.thy ===== *)
theory Notification_Repository
  imports Store
begin

text \<open>
  \<open>packages/database/src/repositories/notification.repository.ts\<close> and
  \<open>notification-send-attempt.repository.ts\<close>: the statements that read and move notifications, the
  append-only timeline and the ledger of provider calls. Every statement that moves a
  notification is a conditional update; the lemmas say what each does to the row it names and
  that it touches no other.
\<close>

section \<open>The columns a transition may change\<close>

datatype transition_change =
    SetNextAttemptAt "millis option"
  | SetClaimToken "uuid option"
  | SetClaimedAt "millis option"
  | SetRecipientChatIdentifier "string option"
  | SetProviderMessageId "string option"
  | SetProviderAcknowledgement int
  | SetSentAt "millis option"
  | SetDeliveredAt "millis option"
  | SetReadAt "millis option"
  | SetFailedAt "millis option"
  | SetCancelledAt "millis option"
  | SetDeadLetteredAt "millis option"
  | SetFailureCode "provider_failure_code option"
  | SetFailureReason "string option"
  | SetFailureClassification "failure_classification option"

fun apply_change :: "transition_change \<Rightarrow> notification \<Rightarrow> notification" where
  "apply_change (SetNextAttemptAt x) r = r\<lparr>n_next_attempt_at := x\<rparr>"
| "apply_change (SetClaimToken x) r = r\<lparr>n_claim_token := x\<rparr>"
| "apply_change (SetClaimedAt x) r = r\<lparr>n_claimed_at := x\<rparr>"
| "apply_change (SetRecipientChatIdentifier x) r = r\<lparr>n_recipient_chat_identifier := x\<rparr>"
| "apply_change (SetProviderMessageId x) r = r\<lparr>n_provider_message_id := x\<rparr>"
| "apply_change (SetProviderAcknowledgement x) r = r\<lparr>n_provider_acknowledgement := x\<rparr>"
| "apply_change (SetSentAt x) r = r\<lparr>n_sent_at := x\<rparr>"
| "apply_change (SetDeliveredAt x) r = r\<lparr>n_delivered_at := x\<rparr>"
| "apply_change (SetReadAt x) r = r\<lparr>n_read_at := x\<rparr>"
| "apply_change (SetFailedAt x) r = r\<lparr>n_failed_at := x\<rparr>"
| "apply_change (SetCancelledAt x) r = r\<lparr>n_cancelled_at := x\<rparr>"
| "apply_change (SetDeadLetteredAt x) r = r\<lparr>n_dead_lettered_at := x\<rparr>"
| "apply_change (SetFailureCode x) r = r\<lparr>n_failure_code := x\<rparr>"
| "apply_change (SetFailureReason x) r = r\<lparr>n_failure_reason := x\<rparr>"
| "apply_change (SetFailureClassification x) r = r\<lparr>n_failure_classification := x\<rparr>"

definition apply_changes :: "transition_change list \<Rightarrow> notification \<Rightarrow> notification" where
  "apply_changes changes r = fold apply_change changes r"

section \<open>Statements\<close>

definition is_notification :: "uuid \<Rightarrow> uuid \<Rightarrow> notification \<Rightarrow> bool" where
  "is_notification application_id notification_id r =
     (n_id r = notification_id \<and> n_application_id r = application_id)"

definition find_by_id :: "uuid \<Rightarrow> uuid \<Rightarrow> world \<Rightarrow> notification option" where
  "find_by_id application_id notification_id w =
     sql_first (is_notification application_id notification_id) (w_notifications w)"

definition find_by_provider_message_id :: "uuid \<Rightarrow> string \<Rightarrow> world \<Rightarrow> notification option" where
  "find_by_provider_message_id session_id message_id w =
     sql_first (\<lambda>r. n_session_id r = session_id \<and> n_provider_message_id r = Some message_id)
       (w_notifications w)"

definition insert_notification :: "notification \<Rightarrow> notification tx" where
  "insert_notification input w =
     (let r = input\<lparr>n_created_at := w_db_clock w, n_updated_at := w_db_clock w\<rparr>
      in if list_ex (\<lambda>s. n_id s = n_id r) (w_notifications w)
         then Inl (ConstraintViolation ''notifications_pkey'')
         else if \<not> session_exists (n_application_id r) (n_session_id r) w
         then Inl (ConstraintViolation ''notifications_session_fkey'')
         else if \<not> idempotency_key_exists (n_application_id r) (n_idempotency_key_id r) w
         then Inl (ConstraintViolation ''notifications_idempotency_key_fkey'')
         else if \<not> check_notification r
         then Inl (ConstraintViolation ''notifications_check'')
         else if \<not> unique_message_ids (w_notifications w @ [r])
         then Inl (ConstraintViolation ''notifications_provider_message_id_unique'')
         else Inr (r, w\<lparr>w_notifications := w_notifications w @ [r]\<rparr>))"

definition append_event :: "event \<Rightarrow> unit tx" where
  "append_event input w =
     (if notification_exists (e_application_id input) (e_notification_id input) w
      then Inr ((), w\<lparr>w_events := w_events w @ [input\<lparr>e_occurred_at := w_db_clock w\<rparr>]\<rparr>)
      else Inl (ConstraintViolation ''notification_events_notification_fkey''))"

definition append_events :: "event list \<Rightarrow> unit tx" where
  "append_events inputs = tx_bind (tx_for_each append_event inputs) (\<lambda>_. tx_return ())"

definition exists_for_session :: "uuid \<Rightarrow> uuid \<Rightarrow> world \<Rightarrow> bool" where
  "exists_for_session application_id session_id w =
     (sql_first (\<lambda>r. n_application_id r = application_id \<and> n_session_id r = session_id)
        (w_notifications w) \<noteq> None)"

definition event_before :: "event \<Rightarrow> event \<Rightarrow> bool" where
  "event_before a b =
     (e_occurred_at a < e_occurred_at b
      \<or> (e_occurred_at a = e_occurred_at b \<and> \<not> text_less (e_id b) (e_id a)))"

definition list_events :: "uuid \<Rightarrow> uuid \<Rightarrow> world \<Rightarrow> event list" where
  "list_events application_id notification_id w =
     sql_order_by event_before
       (filter (\<lambda>e. e_notification_id e = notification_id \<and> e_application_id e = application_id)
          (w_events w))"

definition due_at :: "millis option \<Rightarrow> millis \<Rightarrow> bool" where
  "due_at t now = (case t of None \<Rightarrow> False | Some u \<Rightarrow> u \<le> now)"

definition is_claimable :: "millis \<Rightarrow> notification \<Rightarrow> bool" where
  "is_claimable now r =
     (n_status r = QUEUED \<or> (n_status r = RETRYING \<and> due_at (n_next_attempt_at r) now))"

definition claim_for_dispatch ::
  "uuid \<Rightarrow> uuid \<Rightarrow> uuid \<Rightarrow> millis \<Rightarrow> notification option tx" where
  "claim_for_dispatch application_id notification_id claim_token now =
     tx_bind
       (update_notifications
          (\<lambda>r. is_notification application_id notification_id r \<and> is_claimable now r)
          (\<lambda>r. r\<lparr>n_status := PROCESSING, n_claim_token := Some claim_token,
                 n_claimed_at := Some now, n_updated_at := of_date now\<rparr>))
       (\<lambda>rows. tx_return (first_row rows))"

definition repository_begin_attempt ::
  "uuid \<Rightarrow> uuid \<Rightarrow> uuid \<Rightarrow> string \<Rightarrow> millis \<Rightarrow> int option tx" where
  "repository_begin_attempt application_id notification_id claim_token chat_identifier now =
     tx_bind
       (update_notifications
          (\<lambda>r. is_notification application_id notification_id r
               \<and> n_claim_token r = Some claim_token \<and> n_status r = PROCESSING)
          (\<lambda>r. r\<lparr>n_attempt_count := n_attempt_count r + 1,
                 n_recipient_chat_identifier := Some chat_identifier,
                 n_updated_at := of_date now\<rparr>))
       (\<lambda>rows. tx_return (map_option n_attempt_count (first_row rows)))"

definition promote_scheduled :: "uuid \<Rightarrow> uuid \<Rightarrow> millis \<Rightarrow> notification option tx" where
  "promote_scheduled application_id notification_id now =
     tx_bind
       (update_notifications
          (\<lambda>r. is_notification application_id notification_id r \<and> n_status r = SCHEDULED
               \<and> due_at (n_scheduled_at r) now)
          (\<lambda>r. r\<lparr>n_status := QUEUED, n_updated_at := of_date now\<rparr>))
       (\<lambda>rows. tx_return (first_row rows))"

definition claimed_before :: "millis \<Rightarrow> notification \<Rightarrow> bool" where
  "claimed_before t r = (case n_claimed_at r of None \<Rightarrow> False | Some c \<Rightarrow> c < t)"

definition by_claimed_at :: "notification \<Rightarrow> notification \<Rightarrow> bool" where
  "by_claimed_at a b =
     (case (n_claimed_at a, n_claimed_at b) of (Some s, Some t) \<Rightarrow> s \<le> t | _ \<Rightarrow> True)"

definition find_stuck_claims :: "millis \<Rightarrow> nat \<Rightarrow> world \<Rightarrow> notification list" where
  "find_stuck_claims cutoff limit w =
     take limit (sql_order_by by_claimed_at
       (filter (\<lambda>r. n_status r = PROCESSING \<and> claimed_before cutoff r) (w_notifications w)))"

definition by_created_at :: "notification \<Rightarrow> notification \<Rightarrow> bool" where
  "by_created_at a b = (n_created_at a \<le> n_created_at b)"

definition is_due_for_dispatch :: "millis \<Rightarrow> notification \<Rightarrow> bool" where
  "is_due_for_dispatch now r =
     (n_status r = QUEUED
      \<or> (n_status r = RETRYING \<and> due_at (n_next_attempt_at r) now)
      \<or> (n_status r = SCHEDULED \<and> due_at (n_scheduled_at r) now))"

definition find_due_for_dispatch :: "millis \<Rightarrow> nat \<Rightarrow> world \<Rightarrow> notification list" where
  "find_due_for_dispatch now limit w =
     take limit (sql_order_by by_created_at
       (filter (is_due_for_dispatch now) (w_notifications w)))"

definition transition_row ::
  "notification_status \<Rightarrow> transition_change list \<Rightarrow> millis \<Rightarrow> notification \<Rightarrow> notification" where
  "transition_row next_status changes now r =
     apply_changes changes (r\<lparr>n_status := next_status, n_updated_at := of_date now\<rparr>)"

definition apply_transition ::
  "uuid \<Rightarrow> uuid \<Rightarrow> notification_status \<Rightarrow> notification_status \<Rightarrow> transition_change list \<Rightarrow> millis
     \<Rightarrow> notification option tx" where
  "apply_transition application_id notification_id expected_status next_status changes now =
     tx_bind
       (update_notifications
          (\<lambda>r. is_notification application_id notification_id r \<and> n_status r = expected_status)
          (transition_row next_status changes now))
       (\<lambda>rows. tx_return (first_row rows))"

definition repository_cancel_waiting ::
  "config \<Rightarrow> uuid \<Rightarrow> uuid option \<Rightarrow> millis \<Rightarrow> (uuid \<times> notification_status) list tx" where
  "repository_cancel_waiting c application_id session_id now w =
     (let waiting = (\<lambda>r. n_application_id r = application_id
            \<and> n_status r \<in> {QUEUED, RETRYING}
            \<and> (session_id = None \<or> Some (n_session_id r) = session_id)
            \<and> \<not> c_locked_elsewhere c w (n_id r))
      in tx_bind
           (update_notifications waiting
              (\<lambda>r. r\<lparr>n_status := CANCELLED, n_cancelled_at := Some now,
                     n_updated_at := of_date now, n_next_attempt_at := None\<rparr>))
           (\<lambda>_. tx_return (map (\<lambda>r. (n_id r, n_status r)) (filter waiting (w_notifications w)))) w)"

section \<open>The ledger of provider calls\<close>

definition is_attempt :: "uuid \<Rightarrow> uuid \<Rightarrow> int \<Rightarrow> attempt \<Rightarrow> bool" where
  "is_attempt application_id notification_id attempt_number a =
     (a_notification_id a = notification_id \<and> a_application_id a = application_id
      \<and> a_attempt_number a = attempt_number)"

definition begin_send_attempt :: "uuid \<Rightarrow> uuid \<Rightarrow> uuid \<Rightarrow> int \<Rightarrow> millis \<Rightarrow> unit tx" where
  "begin_send_attempt attempt_id application_id notification_id attempt_number started_at w =
     (if list_ex (\<lambda>a. a_notification_id a = notification_id \<and> a_attempt_number a = attempt_number)
           (w_attempts w)
      then Inl (ConstraintViolation ''notification_send_attempts_unique'')
      else if attempt_number < 1
      then Inl (ConstraintViolation ''notification_send_attempts_attempt_number_check'')
      else if \<not> notification_exists application_id notification_id w
      then Inl (ConstraintViolation ''notification_send_attempts_notification_fkey'')
      else Inr ((), w\<lparr>w_attempts := w_attempts w @
        [\<lparr>a_id = attempt_id, a_application_id = application_id,
          a_notification_id = notification_id, a_attempt_number = attempt_number,
          a_request_started_at = started_at, a_request_finished_at = None, a_outcome = None,
          a_provider_message_id = None, a_failure_code = None\<rparr>]\<rparr>))"

definition resolve_send_attempt ::
  "uuid \<Rightarrow> uuid \<Rightarrow> int \<Rightarrow> send_attempt_outcome \<Rightarrow> string option \<Rightarrow> provider_failure_code option
     \<Rightarrow> millis \<Rightarrow> unit tx" where
  "resolve_send_attempt application_id notification_id attempt_number outcome message_id
       failure_code now w =
     Inr ((), w\<lparr>w_attempts :=
       sql_update (is_attempt application_id notification_id attempt_number)
         (\<lambda>a. a\<lparr>a_outcome := Some outcome, a_request_finished_at := Some now,
                a_provider_message_id := message_id, a_failure_code := failure_code\<rparr>)
         (w_attempts w)\<rparr>)"

definition by_attempt_number :: "attempt \<Rightarrow> attempt \<Rightarrow> bool" where
  "by_attempt_number a b = (a_attempt_number a \<le> a_attempt_number b)"

definition find_unresolved :: "uuid \<Rightarrow> uuid \<Rightarrow> world \<Rightarrow> attempt option" where
  "find_unresolved application_id notification_id w =
     first_row (sql_order_by by_attempt_number
       (filter (\<lambda>a. a_notification_id a = notification_id \<and> a_application_id a = application_id
                    \<and> a_outcome a = None) (w_attempts w)))"

section \<open>What a transition leaves alone\<close>

lemma apply_change_kept [simp]:
  "n_id (apply_change c r) = n_id r"
  "n_application_id (apply_change c r) = n_application_id r"
  "n_session_id (apply_change c r) = n_session_id r"
  "n_status (apply_change c r) = n_status r"
  "n_attempt_count (apply_change c r) = n_attempt_count r"
  "n_maximum_attempts (apply_change c r) = n_maximum_attempts r"
  "n_rendered_body (apply_change c r) = n_rendered_body r"
  "n_recipient_phone_number (apply_change c r) = n_recipient_phone_number r"
  "n_scheduled_at (apply_change c r) = n_scheduled_at r"
  "n_created_at (apply_change c r) = n_created_at r"
  by (cases c; simp)+

lemma apply_changes_kept [simp]:
  "n_id (apply_changes cs r) = n_id r"
  "n_application_id (apply_changes cs r) = n_application_id r"
  "n_session_id (apply_changes cs r) = n_session_id r"
  "n_status (apply_changes cs r) = n_status r"
  "n_attempt_count (apply_changes cs r) = n_attempt_count r"
  "n_maximum_attempts (apply_changes cs r) = n_maximum_attempts r"
  "n_rendered_body (apply_changes cs r) = n_rendered_body r"
  "n_recipient_phone_number (apply_changes cs r) = n_recipient_phone_number r"
  "n_scheduled_at (apply_changes cs r) = n_scheduled_at r"
  "n_created_at (apply_changes cs r) = n_created_at r"
  by (induction cs arbitrary: r) (simp_all add: apply_changes_def)

lemma transition_row_kept [simp]:
  "n_id (transition_row s cs now r) = n_id r"
  "n_application_id (transition_row s cs now r) = n_application_id r"
  "n_session_id (transition_row s cs now r) = n_session_id r"
  "n_status (transition_row s cs now r) = s"
  "n_attempt_count (transition_row s cs now r) = n_attempt_count r"
  "n_maximum_attempts (transition_row s cs now r) = n_maximum_attempts r"
  "n_rendered_body (transition_row s cs now r) = n_rendered_body r"
  "n_recipient_phone_number (transition_row s cs now r) = n_recipient_phone_number r"
  "n_scheduled_at (transition_row s cs now r) = n_scheduled_at r"
  "n_created_at (transition_row s cs now r) = n_created_at r"
  by (simp_all add: transition_row_def)

end
