(* ===== verification/Retry_Policy.thy ===== *)
theory Retry_Policy
  imports Prelude
begin

text \<open>
  \<open>packages/domain/src/notification/retry-policy.ts\<close>,
  \<open>packages/domain/src/provider/typing-duration.ts\<close> and the random port they draw from
  (\<open>packages/domain/src/ports/random.ts\<close>, \<open>packages/security/src/runtime.ts\<close>): when a failed send
  is tried again and for how long the typing indicator is shown.
\<close>

section \<open>The random port\<close>

text \<open>
  \<open>integerBetween\<close> draws from the inclusive range. The system's one asks Node's \<open>randomInt\<close> for a
  number below \<open>maximum + 1\<close>; the entropy it consumes is the argument \<open>u\<close>.
\<close>

definition system_integer_between :: "int \<Rightarrow> int \<Rightarrow> int \<Rightarrow> int" where
  "system_integer_between u minimum maximum =
     (if maximum \<le> minimum then minimum else minimum + u mod (maximum + 1 - minimum))"

section \<open>Retry delays\<close>

record retry_policy =
  p_base_delay_seconds :: int
  p_backoff_factor :: int
  p_maximum_delay_seconds :: int
  p_maximum_attempts :: int

definition default_retry_policy :: retry_policy where
  "default_retry_policy =
     \<lparr>p_base_delay_seconds = 60, p_backoff_factor = 3, p_maximum_delay_seconds = 3600,
      p_maximum_attempts = 5\<rparr>"

definition session_not_ready_minimum_delay_seconds :: int where
  "session_not_ready_minimum_delay_seconds = 300"

definition capped_delay :: "retry_policy \<Rightarrow> nat \<Rightarrow> int" where
  "capped_delay policy attempt_number =
     min (p_base_delay_seconds policy * p_backoff_factor policy ^ (attempt_number - 1))
       (p_maximum_delay_seconds policy)"

definition compute_retry_delay_seconds ::
  "retry_policy \<Rightarrow> nat \<Rightarrow> (int \<Rightarrow> int \<Rightarrow> int) \<Rightarrow> int" where
  "compute_retry_delay_seconds policy attempt_number integer_between =
     (let capped = capped_delay policy attempt_number;
          half = capped div 2
      in half + integer_between 0 (capped - half))"

definition compute_next_attempt_at ::
  "retry_policy \<Rightarrow> nat \<Rightarrow> (int \<Rightarrow> int \<Rightarrow> int) \<Rightarrow> millis \<Rightarrow> rat \<Rightarrow> js_date" where
  "compute_next_attempt_at policy attempt_number integer_between now minimum_delay_seconds =
     (let computed = compute_retry_delay_seconds policy attempt_number integer_between;
          delay = max (of_int computed) minimum_delay_seconds
      in new_date (of_int now + delay * 1000))"

section \<open>The typing indicator\<close>

definition milliseconds_per_character :: int where
  "milliseconds_per_character = 40"

definition minimum_typing_milliseconds :: int where
  "minimum_typing_milliseconds = 2000"

definition maximum_typing_milliseconds :: int where
  "maximum_typing_milliseconds = 8000"

definition compute_typing_milliseconds :: "int \<Rightarrow> (int \<Rightarrow> int \<Rightarrow> int) \<Rightarrow> int" where
  "compute_typing_milliseconds character_count integer_between =
     (let proportional = max 0 character_count * milliseconds_per_character;
          spread = proportional div 4;
          jittered = proportional - spread + integer_between 0 (spread * 2)
      in min (max jittered minimum_typing_milliseconds) maximum_typing_milliseconds)"

section \<open>What any random port gives\<close>

text \<open>A policy whose delays make sense; the configuration only ever builds such a one.\<close>

definition sane_policy :: "retry_policy \<Rightarrow> bool" where
  "sane_policy policy =
     (1 \<le> p_base_delay_seconds policy \<and> 1 \<le> p_backoff_factor policy
      \<and> p_base_delay_seconds policy \<le> p_maximum_delay_seconds policy)"

lemma capped_delay_bounds:
  assumes "sane_policy policy"
  shows "p_base_delay_seconds policy \<le> capped_delay policy n"
    and "capped_delay policy n \<le> p_maximum_delay_seconds policy"
proof -
  from assms have b: "1 \<le> p_base_delay_seconds policy" and f: "1 \<le> p_backoff_factor policy"
    and m: "p_base_delay_seconds policy \<le> p_maximum_delay_seconds policy"
    by (simp_all add: sane_policy_def)
  from f have "1 \<le> p_backoff_factor policy ^ (n - 1)" by (rule one_le_power)
  with b have "p_base_delay_seconds policy * 1
      \<le> p_base_delay_seconds policy * p_backoff_factor policy ^ (n - 1)"
    by (intro mult_left_mono) simp_all
  with m show "p_base_delay_seconds policy \<le> capped_delay policy n"
    by (simp add: capped_delay_def)
  show "capped_delay policy n \<le> p_maximum_delay_seconds policy"
    by (simp add: capped_delay_def)
qed

lemma capped_delay_mono:
  assumes "sane_policy policy" and "m \<le> n"
  shows "capped_delay policy m \<le> capped_delay policy n"
proof -
  from assms(1) have b: "1 \<le> p_base_delay_seconds policy" and f: "1 \<le> p_backoff_factor policy"
    by (simp_all add: sane_policy_def)
  have "p_backoff_factor policy ^ (m - 1) \<le> p_backoff_factor policy ^ (n - 1)"
    using f assms(2) by (intro power_increasing) auto
  with b have "p_base_delay_seconds policy * p_backoff_factor policy ^ (m - 1)
      \<le> p_base_delay_seconds policy * p_backoff_factor policy ^ (n - 1)"
    by (intro mult_left_mono) simp_all
  then show ?thesis
    by (simp add: capped_delay_def)
qed

locale random_port =
  fixes integer_between :: "int \<Rightarrow> int \<Rightarrow> int"
  assumes at_least: "minimum \<le> integer_between minimum maximum"
    and at_most: "minimum \<le> maximum \<Longrightarrow> integer_between minimum maximum \<le> maximum"
begin

lemma retry_delay_bounds:
  assumes "0 \<le> capped_delay policy n"
  shows "capped_delay policy n div 2 \<le> compute_retry_delay_seconds policy n integer_between"
    and "compute_retry_delay_seconds policy n integer_between \<le> capped_delay policy n"
proof -
  have half: "capped_delay policy n div 2 \<le> capped_delay policy n"
    using assms by linarith
  from at_least [of 0 "capped_delay policy n - capped_delay policy n div 2"]
  show "capped_delay policy n div 2 \<le> compute_retry_delay_seconds policy n integer_between"
    by (simp add: compute_retry_delay_seconds_def Let_def)
  from half at_most [of 0 "capped_delay policy n - capped_delay policy n div 2"]
  show "compute_retry_delay_seconds policy n integer_between \<le> capped_delay policy n"
    by (simp add: compute_retry_delay_seconds_def Let_def)
qed

lemma next_attempt_not_before:
  assumes "compute_next_attempt_at policy n integer_between now minimum_delay = Date t"
    and "0 \<le> capped_delay policy n"
  shows "now + 1000 * (capped_delay policy n div 2) \<le> t"
    and "of_int d \<le> minimum_delay \<Longrightarrow> now + 1000 * d \<le> t"
proof -
  let ?x = "of_int now + max (of_int (compute_retry_delay_seconds policy n integer_between))
      minimum_delay * 1000 :: rat"
  from assms(1) have d: "new_date ?x = Date t"
    by (simp add: compute_next_attempt_at_def Let_def)
  have "(of_int (capped_delay policy n div 2) :: rat)
      \<le> of_int (compute_retry_delay_seconds policy n integer_between)"
    using retry_delay_bounds(1) [OF assms(2)] by (simp only: of_int_le_iff)
  then have "of_int (now + 1000 * (capped_delay policy n div 2)) \<le> ?x"
    by (simp add: max_def)
  then show "now + 1000 * (capped_delay policy n div 2) \<le> t"
    by (rule new_date_Date_ge [OF d])
  show "now + 1000 * d \<le> t" if "of_int d \<le> minimum_delay"
  proof (rule new_date_Date_ge [OF d])
    from that show "of_int (now + 1000 * d) \<le> ?x"
      by (simp add: max_def)
  qed
qed

lemma typing_bounds:
  "minimum_typing_milliseconds \<le> compute_typing_milliseconds n integer_between"
  "compute_typing_milliseconds n integer_between \<le> maximum_typing_milliseconds"
  by (simp_all add: compute_typing_milliseconds_def Let_def minimum_typing_milliseconds_def
      maximum_typing_milliseconds_def)

end

lemma system_integer_between_range:
  "minimum \<le> system_integer_between u minimum maximum"
  "minimum \<le> maximum \<Longrightarrow> system_integer_between u minimum maximum \<le> maximum"
proof -
  have "u mod (maximum + 1 - minimum) \<le> maximum - minimum" if "minimum < maximum"
    using pos_mod_bound [of "maximum + 1 - minimum" u] that by linarith
  then show "minimum \<le> maximum \<Longrightarrow> system_integer_between u minimum maximum \<le> maximum"
    by (fastforce simp: system_integer_between_def)
qed (simp add: system_integer_between_def)

interpretation system_random: random_port "system_integer_between u" for u
  by unfold_locales (rule system_integer_between_range | assumption)+

section \<open>Properties\<close>

text \<open>
  With the policy the dispatcher uses, a failed send is tried again no sooner than thirty
  seconds and no later than an hour after it failed, whatever the attempt number and whatever the
  random numbers, and the delay of every attempt is at least half of its place on the exponential
  curve.
\<close>

theorem default_retry_delay_window:
  "30 \<le> compute_retry_delay_seconds default_retry_policy n (system_integer_between u)
   \<and> compute_retry_delay_seconds default_retry_policy n (system_integer_between u) \<le> 3600
   \<and> capped_delay default_retry_policy n div 2
       \<le> compute_retry_delay_seconds default_retry_policy n (system_integer_between u)"
proof -
  have sane: "sane_policy default_retry_policy"
    by (simp add: sane_policy_def default_retry_policy_def)
  have cap: "60 \<le> capped_delay default_retry_policy n" "capped_delay default_retry_policy n \<le> 3600"
    using capped_delay_bounds [OF sane, of n] by (simp_all add: default_retry_policy_def)
  then have "0 \<le> capped_delay default_retry_policy n" by simp
  from system_random.retry_delay_bounds [OF this, of u] cap show ?thesis by linarith
qed

end
