(* ===== verification/Effects.thy ===== *)
theory Effects
  imports Session_Repository Notification_Repository Retry_Policy
begin

text \<open>
  What a service does, as data: a program is a tree of effects. One node is one thing the code
  awaits that another worker can observe or interleave with: a statement or transaction that
  commits, a read of the clock, a draw of randomness, a call of the provider
  (\<open>packages/domain/src/provider/whatsapp-provider.port.ts\<close>), a look at the abort signal. The
  services are translated into programs once. A program is run alone against a provider
  (\<open>run\<close>), and any number of them are interleaved in \<open>Interleaving\<close>.
\<close>

section \<open>The provider port\<close>

record provider_session =
  ps_name :: string
  ps_status :: provider_session_status
  ps_phone_number :: "string option"
  ps_push_name :: "string option"
  ps_account_limits :: "account_limits option"

record provider_qr_code =
  qr_mime_type :: string
  qr_data :: string

record resolved_recipient =
  rr_is_registered :: bool
  rr_chat_identifier :: "string option"

record sent_message =
  sm_provider_message_id :: string

datatype 'v provider_result = Succeeded 'v | Failed provider_failure

definition can_session_send :: "provider_session_status \<Rightarrow> bool" where
  "can_session_send status = (status = WORKING)"

definition is_session_connecting :: "provider_session_status \<Rightarrow> bool" where
  "is_session_connecting status = (status = STARTING \<or> status = SCAN_QR_CODE)"

fun session_status_name :: "provider_session_status \<Rightarrow> string" where
  "session_status_name STOPPED = ''STOPPED''"
| "session_status_name STARTING = ''STARTING''"
| "session_status_name SCAN_QR_CODE = ''SCAN_QR_CODE''"
| "session_status_name WORKING = ''WORKING''"
| "session_status_name SESSION_FAILED = ''FAILED''"
| "session_status_name UNKNOWN = ''UNKNOWN''"

definition provider_session_statuses :: "provider_session_status list" where
  "provider_session_statuses =
     [STOPPED, STARTING, SCAN_QR_CODE, WORKING, SESSION_FAILED, UNKNOWN]"

definition to_provider_session_status :: "string \<Rightarrow> provider_session_status" where
  "to_provider_session_status candidate =
     (case find (\<lambda>s. session_status_name s = candidate) provider_session_statuses of
        Some s \<Rightarrow> s
      | None \<Rightarrow> UNKNOWN)"

record create_session_input =
  ci_session_name :: string
  ci_webhook_url :: string
  ci_webhook_signing_key :: string
  ci_start :: bool

section \<open>Programs\<close>

datatype 'a prog =
    Done 'a
  | Raise exn
  | Act "world \<Rightarrow> world" "world \<Rightarrow> 'a prog"
  | Entropy "int \<Rightarrow> 'a prog"
  | ReadAborted "bool \<Rightarrow> 'a prog"
  | GetSession string "provider_session option provider_result \<Rightarrow> 'a prog"
  | ResolveRecipient string string "resolved_recipient provider_result \<Rightarrow> 'a prog"
  | SendTextMessage sent_text "sent_message provider_result \<Rightarrow> 'a prog"
  | FetchAccountLimits string "account_limits provider_result \<Rightarrow> 'a prog"
  | ShowTyping string string int "unit provider_result \<Rightarrow> 'a prog"
  | CreateSession create_session_input "provider_session provider_result \<Rightarrow> 'a prog"
  | StartSession string "provider_session provider_result \<Rightarrow> 'a prog"
  | StopSession string "provider_session provider_result \<Rightarrow> 'a prog"
  | LogoutSession string "provider_session provider_result \<Rightarrow> 'a prog"
  | DeleteSession string "unit provider_result \<Rightarrow> 'a prog"
  | GetQrCode string "provider_qr_code provider_result \<Rightarrow> 'a prog"

primrec bind :: "'a prog \<Rightarrow> ('a \<Rightarrow> 'b prog) \<Rightarrow> 'b prog" where
  "bind (Done x) k = k x"
| "bind (Raise e) k = Raise e"
| "bind (Act f g) k = Act f (\<lambda>w. bind (g w) k)"
| "bind (Entropy g) k = Entropy (\<lambda>u. bind (g u) k)"
| "bind (ReadAborted g) k = ReadAborted (\<lambda>b. bind (g b) k)"
| "bind (GetSession s g) k = GetSession s (\<lambda>r. bind (g r) k)"
| "bind (ResolveRecipient s n g) k = ResolveRecipient s n (\<lambda>r. bind (g r) k)"
| "bind (SendTextMessage t g) k = SendTextMessage t (\<lambda>r. bind (g r) k)"
| "bind (FetchAccountLimits s g) k = FetchAccountLimits s (\<lambda>r. bind (g r) k)"
| "bind (ShowTyping s c d g) k = ShowTyping s c d (\<lambda>r. bind (g r) k)"
| "bind (CreateSession i g) k = CreateSession i (\<lambda>r. bind (g r) k)"
| "bind (StartSession s g) k = StartSession s (\<lambda>r. bind (g r) k)"
| "bind (StopSession s g) k = StopSession s (\<lambda>r. bind (g r) k)"
| "bind (LogoutSession s g) k = LogoutSession s (\<lambda>r. bind (g r) k)"
| "bind (DeleteSession s g) k = DeleteSession s (\<lambda>r. bind (g r) k)"
| "bind (GetQrCode s g) k = GetQrCode s (\<lambda>r. bind (g r) k)"

text \<open>
  A transaction commits as a whole or leaves the state as it was and throws. A statement outside
  a transaction is a transaction of its own. A read that cannot fail and a write that returns
  nothing are the simple cases.
\<close>

definition atomically :: "'r tx \<Rightarrow> ('r \<Rightarrow> 'a prog) \<Rightarrow> 'a prog" where
  "atomically t k =
     Act (\<lambda>w. case t w of Inl e \<Rightarrow> w | Inr (r, w') \<Rightarrow> w')
       (\<lambda>w. case t w of Inl e \<Rightarrow> Raise e | Inr (r, w') \<Rightarrow> k r)"

definition reading :: "(world \<Rightarrow> 'r) \<Rightarrow> ('r \<Rightarrow> 'a prog) \<Rightarrow> 'a prog" where
  "reading f k = Act (\<lambda>w. w) (\<lambda>w. k (f w))"

definition writing :: "(world \<Rightarrow> world) \<Rightarrow> 'a prog \<Rightarrow> 'a prog" where
  "writing f p = Act f (\<lambda>w. p)"

definition clock_now :: "(millis \<Rightarrow> 'a prog) \<Rightarrow> 'a prog" where
  "clock_now = reading w_clock"

definition next_identifier :: "config \<Rightarrow> (uuid \<Rightarrow> 'a prog) \<Rightarrow> 'a prog" where
  "next_identifier c = atomically (new_identifier c)"

section \<open>Running one program\<close>

text \<open>
  The environment of a run: what the provider answers to its \<open>n\<close>-th call, how long that call
  takes, the \<open>n\<close>-th draw of randomness and whether the worker is being shut down.
\<close>

record env =
  env_elapse :: "nat \<Rightarrow> nat"
  env_entropy :: "nat \<Rightarrow> int"
  env_aborted :: "nat \<Rightarrow> bool"
  env_get_session :: "nat \<Rightarrow> string \<Rightarrow> provider_session option provider_result"
  env_resolve_recipient :: "nat \<Rightarrow> string \<Rightarrow> string \<Rightarrow> resolved_recipient provider_result"
  env_send_text :: "nat \<Rightarrow> sent_text \<Rightarrow> sent_message provider_result"
  env_fetch_limits :: "nat \<Rightarrow> string \<Rightarrow> account_limits provider_result"
  env_show_typing :: "nat \<Rightarrow> string \<Rightarrow> string \<Rightarrow> int \<Rightarrow> unit provider_result"
  env_create_session :: "nat \<Rightarrow> create_session_input \<Rightarrow> provider_session provider_result"
  env_start_session :: "nat \<Rightarrow> string \<Rightarrow> provider_session provider_result"
  env_stop_session :: "nat \<Rightarrow> string \<Rightarrow> provider_session provider_result"
  env_logout_session :: "nat \<Rightarrow> string \<Rightarrow> provider_session provider_result"
  env_delete_session :: "nat \<Rightarrow> string \<Rightarrow> unit provider_result"
  env_get_qr_code :: "nat \<Rightarrow> string \<Rightarrow> provider_qr_code provider_result"

datatype 'a outcome = Returned 'a | Threw exn

definition after_call :: "env \<Rightarrow> world \<Rightarrow> world" where
  "after_call env w =
     w\<lparr>w_clock := w_clock w + int (env_elapse env (w_provider_calls w)),
       w_db_clock := w_db_clock w + 1000 * int (env_elapse env (w_provider_calls w)),
       w_provider_calls := Suc (w_provider_calls w)\<rparr>"

definition log_send :: "sent_text \<Rightarrow> world \<Rightarrow> world" where
  "log_send t w = w\<lparr>w_sends := w_sends w @ [t]\<rparr>"

primrec run :: "'a prog \<Rightarrow> env \<Rightarrow> world \<Rightarrow> 'a outcome \<times> world" where
  "run (Done x) = (\<lambda>env w. (Returned x, w))"
| "run (Raise e) = (\<lambda>env w. (Threw e, w))"
| "run (Act f g) = (\<lambda>env w. run (g w) env (f w))"
| "run (Entropy g) = (\<lambda>env w. run (g (env_entropy env (w_provider_calls w))) env (after_call env w))"
| "run (ReadAborted g) = (\<lambda>env w. run (g (env_aborted env (w_provider_calls w))) env w)"
| "run (GetSession s g) =
     (\<lambda>env w. run (g (env_get_session env (w_provider_calls w) s)) env (after_call env w))"
| "run (ResolveRecipient s n g) =
     (\<lambda>env w. run (g (env_resolve_recipient env (w_provider_calls w) s n)) env (after_call env w))"
| "run (SendTextMessage t g) =
     (\<lambda>env w. run (g (env_send_text env (w_provider_calls w) t)) env (log_send t (after_call env w)))"
| "run (FetchAccountLimits s g) =
     (\<lambda>env w. run (g (env_fetch_limits env (w_provider_calls w) s)) env (after_call env w))"
| "run (ShowTyping s c d g) =
     (\<lambda>env w. run (g (env_show_typing env (w_provider_calls w) s c d)) env (after_call env w))"
| "run (CreateSession i g) =
     (\<lambda>env w. run (g (env_create_session env (w_provider_calls w) i)) env (after_call env w))"
| "run (StartSession s g) =
     (\<lambda>env w. run (g (env_start_session env (w_provider_calls w) s)) env (after_call env w))"
| "run (StopSession s g) =
     (\<lambda>env w. run (g (env_stop_session env (w_provider_calls w) s)) env (after_call env w))"
| "run (LogoutSession s g) =
     (\<lambda>env w. run (g (env_logout_session env (w_provider_calls w) s)) env (after_call env w))"
| "run (DeleteSession s g) =
     (\<lambda>env w. run (g (env_delete_session env (w_provider_calls w) s)) env (after_call env w))"
| "run (GetQrCode s g) =
     (\<lambda>env w. run (g (env_get_qr_code env (w_provider_calls w) s)) env (after_call env w))"

lemma run_bind:
  "run (bind p k) env w =
     (case run p env w of
        (Returned x, w') \<Rightarrow> run (k x) env w'
      | (Threw e, w') \<Rightarrow> (Threw e, w'))"
  by (induction p arbitrary: w) simp_all

lemma bind_done [simp]: "bind p Done = p"
  by (induction p) (simp_all add: fun_eq_iff)

lemma bind_assoc: "bind (bind p f) g = bind p (\<lambda>x. bind (f x) g)"
  by (induction p) (simp_all add: fun_eq_iff)

lemma bind_steps [simp, step_simps]:
  "bind (atomically t k) h = atomically t (\<lambda>r. bind (k r) h)"
  "bind (reading f k') h = reading f (\<lambda>r. bind (k' r) h)"
  "bind (writing f' p) h = writing f' (bind p h)"
  "bind (clock_now k'') h = clock_now (\<lambda>r. bind (k'' r) h)"
  "bind (next_identifier c k''') h = next_identifier c (\<lambda>r. bind (k''' r) h)"
  by (auto simp: atomically_def reading_def writing_def clock_now_def next_identifier_def
      fun_eq_iff split: sum.splits prod.splits)

lemma run_steps [step_simps]:
  "run (atomically t k) env w =
     (case t w of Inl e \<Rightarrow> (Threw e, w) | Inr (r, w') \<Rightarrow> run (k r) env w')"
  "run (reading f k') env w = run (k' (f w)) env w"
  "run (writing f' p) env w = run p env (f' w)"
  "run (clock_now k'') env w = run (k'' (w_clock w)) env w"
  "run (next_identifier c k''') env w =
     run (k''' (c_identifier c (w_next_identifier w))) env
       (w\<lparr>w_next_identifier := Suc (w_next_identifier w)\<rparr>)"
  by (auto simp: atomically_def reading_def writing_def clock_now_def next_identifier_def
      new_identifier_def split: sum.splits prod.splits)

section \<open>Safety of programs\<close>

text \<open>
  \<open>safe I G E Q p\<close>: whatever the provider answers, and whatever others do between two effects of
  \<open>p\<close> as long as they keep the invariant \<open>I\<close>, every effect of \<open>p\<close> keeps \<open>I\<close> and moves the state only
  as the guarantee \<open>G\<close> allows, an exception satisfies \<open>E\<close> and a result satisfies \<open>Q\<close>. The state each
  effect sees is quantified afresh, so it is a statement about every interleaving.
\<close>

primrec safe ::
  "(world \<Rightarrow> bool) \<Rightarrow> (world \<Rightarrow> world \<Rightarrow> bool) \<Rightarrow> (exn \<Rightarrow> bool) \<Rightarrow> ('a \<Rightarrow> bool) \<Rightarrow> 'a prog \<Rightarrow> bool"
where
  "safe I G E Q (Done x) = Q x"
| "safe I G E Q (Raise e) = E e"
| "safe I G E Q (Act f g) = (\<forall>w. I w \<longrightarrow> I (f w) \<and> G w (f w) \<and> safe I G E Q (g w))"
| "safe I G E Q (Entropy g) = (\<forall>u. safe I G E Q (g u))"
| "safe I G E Q (ReadAborted g) = (\<forall>b. safe I G E Q (g b))"
| "safe I G E Q (GetSession s g) = (\<forall>r. safe I G E Q (g r))"
| "safe I G E Q (ResolveRecipient s n g) = (\<forall>r. safe I G E Q (g r))"
| "safe I G E Q (SendTextMessage t g) = (\<forall>r. safe I G E Q (g r))"
| "safe I G E Q (FetchAccountLimits s g) = (\<forall>r. safe I G E Q (g r))"
| "safe I G E Q (ShowTyping s c d g) = (\<forall>r. safe I G E Q (g r))"
| "safe I G E Q (CreateSession i g) = (\<forall>r. safe I G E Q (g r))"
| "safe I G E Q (StartSession s g) = (\<forall>r. safe I G E Q (g r))"
| "safe I G E Q (StopSession s g) = (\<forall>r. safe I G E Q (g r))"
| "safe I G E Q (LogoutSession s g) = (\<forall>r. safe I G E Q (g r))"
| "safe I G E Q (DeleteSession s g) = (\<forall>r. safe I G E Q (g r))"
| "safe I G E Q (GetQrCode s g) = (\<forall>r. safe I G E Q (g r))"

lemma safe_bind [safe_intros]:
  "safe I G E Q p \<Longrightarrow> (\<And>x. Q x \<Longrightarrow> safe I G E R (k x)) \<Longrightarrow> safe I G E R (bind p k)"
  by (induction p) auto

lemma safe_weaken: "safe I G E Q p \<Longrightarrow> (\<And>x. Q x \<Longrightarrow> R x) \<Longrightarrow> safe I G E R p"
  by (induction p) auto

lemma safe_atomically [safe_intros]:
  assumes "\<And>w r w'. I w \<Longrightarrow> t w = Inr (r, w') \<Longrightarrow> I w' \<and> G w w' \<and> safe I G E Q (k r)"
    and "\<And>w e. I w \<Longrightarrow> t w = Inl e \<Longrightarrow> E e"
    and "\<And>w. I w \<Longrightarrow> G w w"
  shows "safe I G E Q (atomically t k)"
  using assms by (auto simp: atomically_def split: sum.splits)

lemma safe_reading [safe_intros]:
  assumes "\<And>w. I w \<Longrightarrow> safe I G E Q (k (f w))" and "\<And>w. I w \<Longrightarrow> G w w"
  shows "safe I G E Q (reading f k)"
  using assms by (simp add: reading_def)

lemma safe_writing [safe_intros]:
  "(\<And>w. I w \<Longrightarrow> I (f w) \<and> G w (f w)) \<Longrightarrow> safe I G E Q p \<Longrightarrow> safe I G E Q (writing f p)"
  by (simp add: writing_def)

lemma safe_clock_now [safe_intros]:
  "(\<And>t. safe I G E Q (k t)) \<Longrightarrow> (\<And>w. I w \<Longrightarrow> G w w) \<Longrightarrow> safe I G E Q (clock_now k)"
  by (simp add: clock_now_def reading_def)

text \<open>
  What is proved for every interleaving holds in particular for a program that runs alone. The
  invariant and the guarantee may not look at the clocks, the call counter or the log of sends,
  which move while the provider answers.
\<close>

definition blind_to_calls :: "(world \<Rightarrow> bool) \<Rightarrow> (world \<Rightarrow> world \<Rightarrow> bool) \<Rightarrow> bool" where
  "blind_to_calls I G =
     (\<forall>w c d n xs. I w \<longrightarrow>
        (let w' = w\<lparr>w_clock := c, w_db_clock := d, w_provider_calls := n, w_sends := xs\<rparr>
         in I w' \<and> G w w'))"

lemma blind_to_calls_after:
  assumes "blind_to_calls I G" and "I w"
  shows "I (after_call env w)" and "I (log_send t (after_call env w))"
    and "G w (after_call env w)" and "G w (log_send t (after_call env w))"
proof -
  have "I (w\<lparr>w_clock := c, w_db_clock := d, w_provider_calls := n, w_sends := xs\<rparr>)
      \<and> G w (w\<lparr>w_clock := c, w_db_clock := d, w_provider_calls := n, w_sends := xs\<rparr>)" for c d n xs
    using assms by (simp add: blind_to_calls_def Let_def)
  from this [where xs = "w_sends w"] this [where xs = "w_sends w @ [t]"]
  show "I (after_call env w)" and "I (log_send t (after_call env w))"
    and "G w (after_call env w)" and "G w (log_send t (after_call env w))"
    by (simp_all add: after_call_def log_send_def)
qed

lemma safe_run:
  assumes "blind_to_calls I G" and "safe I G E Q p" and "I w"
  shows safe_run_state: "I (snd (run p env w))"
    and safe_run_result: "fst (run p env w) = Returned x \<Longrightarrow> Q x"
    and safe_run_exn: "fst (run p env w) = Threw e \<Longrightarrow> E e"
proof -
  note kept = blind_to_calls_after [OF assms(1)]
  show "I (snd (run p env w))"
    using assms(2,3) by (induction p arbitrary: w) (simp_all add: kept)
  show "fst (run p env w) = Returned x \<Longrightarrow> Q x"
    using assms(2,3) by (induction p arbitrary: w) (simp_all, (use kept in blast)+)
  show "fst (run p env w) = Threw e \<Longrightarrow> E e"
    using assms(2,3) by (induction p arbitrary: w) (simp_all, (use kept in blast)+)
qed

lemma safe_run_guarantee:
  assumes "blind_to_calls I G" and "safe I G E Q p" and "I w"
    and refl: "\<And>w. G w w" and trans: "\<And>u v w. G u v \<Longrightarrow> G v w \<Longrightarrow> G u w"
  shows "G w (snd (run p env w))"
proof -
  note kept = blind_to_calls_after [OF assms(1)]
  have later: "G w0 (after_call env v)" "G w0 (log_send t (after_call env v))"
    if "G w0 v" and "I v" for w0 v t
    using trans [OF that(1)] kept(3,4) [OF that(2)] by simp_all
  have "G w0 (snd (run p env w))" if "G w0 w" for w0
    using assms(2,3) that
  proof (induction p arbitrary: w)
    case (Act f g)
    then have "safe I G E Q (g w)" and "I (f w)" and "G w0 (f w)"
      using trans by simp_all
    with Act.IH [OF rangeI] show ?case by simp
  qed (simp_all add: kept later)
  from this [OF refl] show ?thesis .
qed

section \<open>Transactions inside a frame\<close>

text \<open>
  \<open>commits I G E t\<close>: from a state satisfying \<open>I\<close> the transaction commits to one that does and that
  \<open>G\<close> allows, or it fails with an exception \<open>E\<close> allows.
\<close>

definition commits ::
  "(world \<Rightarrow> bool) \<Rightarrow> (world \<Rightarrow> world \<Rightarrow> bool) \<Rightarrow> (exn \<Rightarrow> bool) \<Rightarrow> 'r tx \<Rightarrow> bool" where
  "commits I G E t =
     (\<forall>w. I w \<longrightarrow> (case t w of Inl e \<Rightarrow> E e | Inr (r, w') \<Rightarrow> I w' \<and> G w w'))"

lemma commitsI:
  assumes "\<And>w r w'. I w \<Longrightarrow> t w = Inr (r, w') \<Longrightarrow> I w' \<and> G w w'"
    and "\<And>w e. I w \<Longrightarrow> t w = Inl e \<Longrightarrow> E e"
  shows "commits I G E t"
  unfolding commits_def
proof (intro allI impI)
  fix w assume w: "I w"
  show "case t w of Inl e \<Rightarrow> E e | Inr (r, w') \<Rightarrow> I w' \<and> G w w'"
    using assms(1) [OF w] assms(2) [OF w] by (cases "t w") auto
qed

lemma commitsD:
  "commits I G E t \<Longrightarrow> I w \<Longrightarrow> t w = Inr (r, w') \<Longrightarrow> I w' \<and> G w w'"
  "commits I G E t \<Longrightarrow> I w \<Longrightarrow> t w = Inl e \<Longrightarrow> E e"
  by (auto simp: commits_def)

locale effect_frame =
  fixes I :: "world \<Rightarrow> bool"
    and G :: "world \<Rightarrow> world \<Rightarrow> bool"
    and E :: "exn \<Rightarrow> bool"
  assumes still: "G w w"
    and further: "G u v \<Longrightarrow> G v w \<Longrightarrow> G u w"
begin

lemma commits_return [simp]: "commits I G E (tx_return r)"
  by (simp add: commits_def tx_return_def still)

lemma commits_read [simp]: "commits I G E (tx_read f)"
  by (simp add: commits_def tx_read_def still)

lemma commits_bind:
  assumes "commits I G E t" and "\<And>r. commits I G E (k r)"
  shows "commits I G E (tx_bind t k)"
proof (rule commitsI)
  fix w r w' assume w: "I w" and "tx_bind t k w = Inr (r, w')"
  then obtain q v where qv: "t w = Inr (q, v)" "k q v = Inr (r, w')"
    by (elim tx_bind_InrE)
  with commitsD(1) [OF assms(1) w] have v: "I v" "G w v" by auto
  from commitsD(1) [OF assms(2) v(1) qv(2)] v(2) show "I w' \<and> G w w'"
    using further by blast
next
  fix w e assume w: "I w" and e: "tx_bind t k w = Inl e"
  show "E e"
  proof (cases "t w")
    case (Inl e')
    with e commitsD(2) [OF assms(1) w] show ?thesis by (simp add: tx_bind_def)
  next
    case (Inr p)
    then obtain q v where qv: "t w = Inr (q, v)" by (cases p) auto
    with commitsD(1) [OF assms(1) w] have "I v" by auto
    with e qv commitsD(2) [OF assms(2)] show ?thesis by (simp add: tx_bind_def)
  qed
qed

lemma safe_commits:
  assumes "commits I G E t" and "\<And>r. safe I G E Q (k r)"
  shows "safe I G E Q (atomically t k)"
  by (rule safe_atomically) (use assms still in \<open>auto dest: commitsD\<close>)

lemma safe_clock: "(\<And>t. safe I G E Q (k t)) \<Longrightarrow> safe I G E Q (clock_now k)"
  by (simp add: safe_clock_now still)

lemma safe_read: "(\<And>x. safe I G E Q (k x)) \<Longrightarrow> safe I G E Q (reading f k)"
  by (rule safe_reading) (simp_all add: still)

end

end
