(* ===== verification/Integrity.thy ===== *)
theory Integrity
  imports Effects
begin

text \<open>
  What is always true of the tables (\<open>sound\<close>) and how any effect may change them (\<open>evolves\<close>): the
  invariant and the guarantee that the services are proved to keep. The ledger of provider calls
  holds exactly one row for every attempt counted on a notification, and a notification has a
  claim token exactly while it is PROCESSING.
\<close>

section \<open>The invariant\<close>

definition claim_matches_status :: "notification \<Rightarrow> bool" where
  "claim_matches_status r = ((n_claim_token r \<noteq> None) = (n_status r = PROCESSING))"

definition ledger_numbers :: "uuid \<Rightarrow> attempt list \<Rightarrow> int list" where
  "ledger_numbers notification_id attempts =
     map a_attempt_number (filter (\<lambda>a. a_notification_id a = notification_id) attempts)"

definition ledger_matches :: "attempt list \<Rightarrow> notification \<Rightarrow> bool" where
  "ledger_matches attempts r =
     (ledger_numbers (n_id r) attempts = [1..n_attempt_count r])"

definition sound :: "world \<Rightarrow> bool" where
  "sound w =
     (distinct (map n_id (w_notifications w))
      \<and> unique_message_ids (w_notifications w)
      \<and> (\<forall>r \<in> set (w_notifications w).
           check_notification r \<and> claim_matches_status r \<and> ledger_matches (w_attempts w) r)
      \<and> (\<forall>a \<in> set (w_attempts w). \<exists>r \<in> set (w_notifications w). n_id r = a_notification_id a))"

section \<open>The guarantee\<close>

definition reaches :: "notification_status \<Rightarrow> notification_status \<Rightarrow> bool" where
  "reaches = can_transition\<^sup>*\<^sup>*"

definition row_evolves :: "notification \<Rightarrow> notification \<Rightarrow> bool" where
  "row_evolves r r' =
     (n_id r' = n_id r \<and> n_application_id r' = n_application_id r
      \<and> n_session_id r' = n_session_id r
      \<and> n_recipient_phone_number r' = n_recipient_phone_number r
      \<and> n_rendered_body r' = n_rendered_body r
      \<and> n_scheduled_at r' = n_scheduled_at r
      \<and> n_created_at r' = n_created_at r
      \<and> n_maximum_attempts r' = n_maximum_attempts r
      \<and> n_attempt_count r \<le> n_attempt_count r'
      \<and> reaches (n_status r) (n_status r'))"

definition evolves :: "world \<Rightarrow> world \<Rightarrow> bool" where
  "evolves w w' =
     ((\<forall>r \<in> set (w_notifications w). \<exists>r' \<in> set (w_notifications w'). row_evolves r r')
      \<and> take (length (w_events w)) (w_events w') = w_events w
      \<and> take (length (w_jobs w)) (w_jobs w') = w_jobs w)"

lemma reaches_refl [simp]: "reaches s s"
  by (simp add: reaches_def)

lemma reaches_step: "enforce_status_transition s t \<Longrightarrow> reaches s t"
  by (auto simp: enforce_status_transition_def reaches_def)

lemma reaches_trans: "reaches s t \<Longrightarrow> reaches t u \<Longrightarrow> reaches s u"
  by (simp add: reaches_def)

lemma reaches_terminal: "reaches s t \<Longrightarrow> is_terminal_notification_status s \<Longrightarrow> t = s"
  unfolding reaches_def
  by (induction rule: rtranclp_induct) (auto simp: notification_lifecycle.terminal_stuck)

lemma row_evolves_refl [simp]: "row_evolves r r"
  by (simp add: row_evolves_def)

lemma row_evolves_trans: "row_evolves r s \<Longrightarrow> row_evolves s t \<Longrightarrow> row_evolves r t"
  by (auto simp: row_evolves_def intro: reaches_trans)

lemma take_prefix_trans:
  assumes "take (length xs) ys = xs" and "take (length ys) zs = ys"
  shows "take (length xs) zs = xs"
proof -
  have "length xs \<le> length ys"
    by (metis assms(1) length_take min.cobounded1)
  then show ?thesis
    by (metis assms min.absorb1 take_take)
qed

lemma evolves_refl [simp]: "evolves w w"
  by (auto simp: evolves_def intro!: bexI [of _ r for r])

lemma evolves_trans: "evolves u v \<Longrightarrow> evolves v w \<Longrightarrow> evolves u w"
  unfolding evolves_def
  by (auto intro: take_prefix_trans) (meson row_evolves_trans)

lemma evolves_exists:
  assumes "evolves w w'" and "notification_exists a i w"
  shows "notification_exists a i w'"
  using assms unfolding evolves_def notification_exists_def list_ex_iff row_evolves_def by metis

lemma sound_unique:
  assumes "sound w" and "r \<in> set (w_notifications w)" and "s \<in> set (w_notifications w)"
    and "n_id r = n_id s"
  shows "r = s"
  using assms by (auto simp: sound_def distinct_map inj_on_def)

section \<open>Updates of notifications\<close>

text \<open>A row update whose key, ledger and identity columns stay.\<close>

definition orderly :: "notification \<Rightarrow> notification \<Rightarrow> bool" where
  "orderly r r' = (row_evolves r r' \<and> n_attempt_count r' = n_attempt_count r
     \<and> claim_matches_status r')"

lemma update_keeps_rows:
  assumes "update_notifications p f w = Inr (rs, w')"
    and "\<And>r. r \<in> set (w_notifications w) \<Longrightarrow> p r \<Longrightarrow> orderly r (f r)"
  shows "evolves w w'"
proof -
  have "w' = w\<lparr>w_notifications := sql_update p f (w_notifications w)\<rparr>"
    by (rule update_notifications_Inr(2) [OF assms(1)])
  moreover have "\<exists>r' \<in> set (sql_update p f (w_notifications w)). row_evolves r r'"
    if "r \<in> set (w_notifications w)" for r
    using sql_update_image [OF that, of p f] assms(2) [OF that]
    by (auto simp: orderly_def split: if_splits intro: row_evolves_refl)
  ultimately show ?thesis
    by (simp add: evolves_def)
qed

lemma update_keeps_sound:
  assumes "sound w" and "update_notifications p f w = Inr (rs, w')"
    and ord: "\<And>r. r \<in> set (w_notifications w) \<Longrightarrow> p r \<Longrightarrow> orderly r (f r)"
  shows "sound w'"
proof -
  let ?rows = "w_notifications w"
  have w': "w' = w\<lparr>w_notifications := sql_update p f ?rows\<rparr>"
    and ok: "\<And>r. r \<in> set ?rows \<Longrightarrow> p r \<Longrightarrow> check_notification (f r)"
    using update_notifications_Inr [OF assms(2)] by blast+
  from assms(2) have uniq: "unique_message_ids (sql_update p f ?rows)"
    by (auto simp: update_notifications_def Let_def split: if_splits)
  have ids: "n_id (f r) = n_id r" "n_attempt_count (f r) = n_attempt_count r"
    "claim_matches_status (f r)" if "r \<in> set ?rows" "p r" for r
    using ord [OF that] by (auto simp: orderly_def row_evolves_def)
  have "map n_id (sql_update p f ?rows) = map n_id ?rows"
    using ids by (simp add: sql_update_def)
  moreover have "check_notification r \<and> claim_matches_status r \<and> ledger_matches (w_attempts w) r"
    if "r \<in> set (sql_update p f ?rows)" for r
  proof -
    from that obtain s where s: "s \<in> set ?rows" "r = (if p s then f s else s)"
      by (rule in_set_sql_updateE)
    with assms(1) ok ids show ?thesis
      by (auto simp: sound_def ledger_matches_def)
  qed
  moreover have "\<exists>r \<in> set (sql_update p f ?rows). n_id r = n_id s" if "s \<in> set ?rows" for s
    using sql_update_image [OF that, of p f] ids(1) [OF that] by (auto split: if_splits)
  ultimately show ?thesis
    using assms(1) uniq unfolding sound_def w' by simp metis
qed

text \<open>An update that respects trigger and checks can only fail on the message identifier's index.\<close>

lemma update_only_unique_fails:
  assumes "update_notifications p f w = Inl e"
    and "\<And>r. r \<in> set (w_notifications w) \<Longrightarrow> p r \<Longrightarrow>
           enforce_status_transition (n_status r) (n_status (f r)) \<and> check_notification (f r)"
  shows "e = ConstraintViolation ''notifications_provider_message_id_unique''"
  using assms by (auto simp: update_notifications_def Let_def list_all_iff split: if_splits)

lemma update_cannot_fail:
  assumes "sound w"
    and "\<And>r. r \<in> set (w_notifications w) \<Longrightarrow> p r \<Longrightarrow>
           enforce_status_transition (n_status r) (n_status (f r)) \<and> check_notification (f r)"
    and "\<And>r. p r \<Longrightarrow> n_session_id (f r) = n_session_id r"
    and "\<And>r. p r \<Longrightarrow> n_provider_message_id (f r) = n_provider_message_id r"
  shows "update_notifications p f w
    = Inr (map f (filter p (w_notifications w)),
           w\<lparr>w_notifications := sql_update p f (w_notifications w)\<rparr>)"
proof -
  have "unique_message_ids (sql_update p f (w_notifications w))"
    using assms(1) message_keys_update_same [of p f, OF assms(3,4)]
    by (simp add: sound_def unique_message_ids_def)
  with assms(2) show ?thesis
    by (auto simp: update_notifications_def Let_def list_all_iff)
qed

section \<open>A transition that must succeed\<close>

lemma apply_transition_effect:
  assumes "sound w" and n: "n \<in> set (w_notifications w)" and "n_status n = s"
    and legal: "enforce_status_transition s s'" and check: "check_notification (transition_row s' cs now n)"
    and message: "\<And>r. n_provider_message_id (transition_row s' cs now r) = n_provider_message_id r"
  shows "apply_transition (n_application_id n) (n_id n) s s' cs now w
    = Inr (Some (transition_row s' cs now n),
        w\<lparr>w_notifications := sql_update (\<lambda>x. n_id x = n_id n) (transition_row s' cs now) (w_notifications w)\<rparr>)"
proof -
  let ?p = "\<lambda>x. is_notification (n_application_id n) (n_id n) x \<and> n_status x = s"
  have only: "?p x \<longleftrightarrow> x = n" and only': "n_id x = n_id n \<longleftrightarrow> x = n" if "x \<in> set (w_notifications w)" for x
    using sound_unique [OF assms(1) that n] assms(3) by (auto simp: is_notification_def)
  have rows: "sql_update ?p f (w_notifications w) = sql_update (\<lambda>x. n_id x = n_id n) f (w_notifications w)" for f
    using only only' by (simp add: sql_update_def)
  have "update_notifications ?p (transition_row s' cs now) w
      = Inr (map (transition_row s' cs now) (filter ?p (w_notifications w)),
          w\<lparr>w_notifications := sql_update ?p (transition_row s' cs now) (w_notifications w)\<rparr>)"
    by (rule update_cannot_fail [OF assms(1)]) (use only assms(3) legal check message in auto)
  moreover have "first_row (map g (filter ?p (w_notifications w))) = Some (g n)" for g :: "notification \<Rightarrow> notification"
  proof -
    have "n \<in> set (filter ?p (w_notifications w))"
      using n only by simp
    then obtain y ys where y: "filter ?p (w_notifications w) = y # ys"
      by (cases "filter ?p (w_notifications w)") auto
    then have "y \<in> set (filter ?p (w_notifications w))" by simp
    then have "y = n" using only [of y] unfolding set_filter mem_Collect_eq by blast
    with y show ?thesis by (simp add: first_row_def)
  qed
  ultimately show ?thesis
    by (simp add: apply_transition_def tx_bind_def tx_return_def rows)
qed

section \<open>Effects outside the notifications table\<close>

lemma sound_ignores [simp]:
  "sound (w\<lparr>w_sessions := ss\<rparr>) = sound w"
  "sound (w\<lparr>w_events := es\<rparr>) = sound w"
  "sound (w\<lparr>w_jobs := js\<rparr>) = sound w"
  "sound (w\<lparr>w_next_identifier := i\<rparr>) = sound w"
  "sound (w\<lparr>w_deliveries := ds\<rparr>) = sound w"
  "sound (w\<lparr>w_idempotency_keys := ks\<rparr>) = sound w"
  "sound (w\<lparr>w_buckets := bs\<rparr>) = sound w"
  "sound (w\<lparr>w_clock := t\<rparr>) = sound w"
  "sound (w\<lparr>w_db_clock := u\<rparr>) = sound w"
  "sound (w\<lparr>w_provider_calls := n\<rparr>) = sound w"
  "sound (w\<lparr>w_sends := xs\<rparr>) = sound w"
  by (simp_all add: sound_def)

lemma evolves_ignores [simp]:
  "evolves w (w\<lparr>w_sessions := ss\<rparr>)"
  "evolves w (w\<lparr>w_events := w_events w @ es\<rparr>)"
  "evolves w (w\<lparr>w_jobs := w_jobs w @ js\<rparr>)"
  "evolves w (w\<lparr>w_next_identifier := i\<rparr>)"
  "evolves w (w\<lparr>w_attempts := as\<rparr>)"
  "evolves w (w\<lparr>w_deliveries := ds\<rparr>)"
  "evolves w (w\<lparr>w_idempotency_keys := ks\<rparr>)"
  "evolves w (w\<lparr>w_buckets := bs\<rparr>)"
  by (auto simp: evolves_def intro!: bexI [of _ r for r])

lemma blind_sound: "blind_to_calls sound evolves"
  by (auto simp: blind_to_calls_def Let_def evolves_def intro!: bexI [of _ r for r])

lemma resolve_keeps_ledger:
  "ledger_numbers i (sql_update (is_attempt a n k) (\<lambda>x. x\<lparr>a_outcome := u, a_request_finished_at := v,
      a_provider_message_id := m, a_failure_code := fc\<rparr>) as) = ledger_numbers i as"
  by (induction as) (simp_all add: ledger_numbers_def sql_update_def)

lemma sound_resolve:
  assumes "sound w" and "resolve_send_attempt a n k u m fc now w = Inr (r, w')"
  shows "sound w' \<and> evolves w w'"
proof -
  have "w' = w\<lparr>w_attempts := sql_update (is_attempt a n k) (\<lambda>x. x\<lparr>a_outcome := Some u,
      a_request_finished_at := Some now, a_provider_message_id := m, a_failure_code := fc\<rparr>)
      (w_attempts w)\<rparr>"
    using assms(2) by (simp add: resolve_send_attempt_def)
  with assms(1) show ?thesis
    by (auto simp: sound_def ledger_matches_def resolve_keeps_ledger elim!: in_set_sql_updateE
        split: if_splits)
qed

end
