(* ===== verification/Examples.thy ===== *)
theory Examples
  imports Integrity
begin

text \<open>
  One concrete deployment the witnesses of the properties are evaluated on: an application with
  one connected WhatsApp number and one notification queued on it, a provider that answers, and a
  queue that refuses a second job with the same key.
\<close>

definition example_queue :: "world \<Rightarrow> job \<Rightarrow> uuid option" where
  "example_queue w job =
     (if j_singleton_key job \<noteq> None
         \<and> list_ex (\<lambda>held. j_queue held = j_queue job \<and> j_singleton_key held = j_singleton_key job) (w_jobs w)
      then None else Some ''job'')"

definition example_config :: config where
  "example_config =
     \<lparr>c_maximum_lifetime_hours = 24, c_maximum_connection_wait_minutes = 60,
      c_stuck_claim_timeout_seconds = 300, c_restriction_fallback_pause_hours = 6,
      c_simulate_typing = True, c_webhook_tolerance_seconds = 300, c_identifier = (\<lambda>n. ''id-'' @ replicate n CHR ''i''),
      c_boss_send = example_queue, c_locked_elsewhere = (\<lambda>w i. False)\<rparr>"

lemma example_queue_keeps_the_rule: "refuses_duplicates_only example_config"
  by (auto simp: refuses_duplicates_only_def example_config_def example_queue_def list_ex_iff split: if_splits)

definition example_notification :: notification where
  "example_notification =
     \<lparr>n_id = ''n1'', n_application_id = ''app'', n_session_id = ''s1'', n_template_id = None,
      n_status = QUEUED, n_recipient_phone_number = ''+5511999998888'',
      n_recipient_chat_identifier = None, n_rendered_body = ''Hello'',
      n_template_variables = None, n_priority = 0, n_scheduled_at = None, n_attempt_count = 0,
      n_maximum_attempts = 5, n_next_attempt_at = None, n_claim_token = None,
      n_claimed_at = None, n_provider_message_id = None, n_provider_acknowledgement = 0,
      n_sent_at = None, n_delivered_at = None, n_read_at = None, n_failed_at = None,
      n_cancelled_at = None, n_dead_lettered_at = None, n_failure_code = None,
      n_failure_reason = None, n_failure_classification = None,
      n_retry_of_notification_id = None, n_idempotency_key_id = None,
      n_correlation_id = Some ''corr'', n_metadata = [], n_created_at = 1000000000,
      n_updated_at = 1000000000\<rparr>"

definition example_session :: session where
  "example_session =
     \<lparr>s_id = ''s1'', s_application_id = ''app'', s_provider_session_name = ''wnp-s1'',
      s_display_name = ''Support'', s_status = WORKING, s_phone_number = Some ''+5511988887777'',
      s_push_name = None, s_webhook_signing_key_ciphertext = ''sealed'',
      s_send_pacing_minimum_seconds = 30, s_send_pacing_maximum_seconds = 60,
      s_next_send_allowed_at = 0, s_sending_paused_until = None, s_sending_paused_reason = None,
      s_account_limits = None, s_account_limits_checked_at = Some 1000000,
      s_last_status_at = 0, s_last_error = None, s_created_at = 0, s_updated_at = 0\<rparr>"

definition example_application :: application where
  "example_application =
     \<lparr>ap_id = ''app'', ap_organization_id = ''org'', ap_name = ''Shop'', ap_slug = ''shop'',
      ap_status = ACTIVE, ap_rate_limit_per_minute = 60, ap_rate_limit_burst = 10,
      ap_daily_send_limit = None, ap_default_maximum_attempts = 5,
      ap_unknown_outcome_policy = POLICY_RETRY, ap_archived_at = None, ap_created_at = 0,
      ap_updated_at = 0\<rparr>"

definition example_world :: world where
  "example_world =
     \<lparr>w_clock = 1000000, w_db_clock = 1000000000, w_next_identifier = 0, w_provider_calls = 0,
      w_notifications = [example_notification], w_events = [], w_attempts = [],
      w_sessions = [example_session], w_applications = [example_application],
      w_idempotency_keys = [], w_deliveries = [], w_buckets = [], w_jobs = [], w_sends = [],
      w_organizations = [], w_users = [], w_user_sessions = [], w_api_keys = []\<rparr>"

definition example_provider_session :: provider_session where
  "example_provider_session =
     \<lparr>ps_name = ''wnp-s1'', ps_status = WORKING, ps_phone_number = Some ''+5511988887777'',
      ps_push_name = None, ps_account_limits = None\<rparr>"

definition example_env :: env where
  "example_env =
     \<lparr>env_elapse = (\<lambda>n. 10), env_entropy = (\<lambda>n. 7), env_aborted = (\<lambda>n. False),
      env_get_session = (\<lambda>n s. Succeeded (Some example_provider_session)),
      env_resolve_recipient = (\<lambda>n s p. Succeeded \<lparr>rr_is_registered = True,
         rr_chat_identifier = Some ''5511999998888@c.us''\<rparr>),
      env_send_text = (\<lambda>n t. Succeeded \<lparr>sm_provider_message_id = ''msg-1''\<rparr>),
      env_fetch_limits = (\<lambda>n s. Succeeded \<lparr>al_reachout_timelock = None,
         al_new_chat_quota = None\<rparr>),
      env_show_typing = (\<lambda>n s ch d. Succeeded ()),
      env_create_session = (\<lambda>n i. Succeeded example_provider_session),
      env_start_session = (\<lambda>n s. Succeeded example_provider_session),
      env_stop_session = (\<lambda>n s. Succeeded example_provider_session),
      env_logout_session = (\<lambda>n s. Succeeded example_provider_session),
      env_delete_session = (\<lambda>n s. Succeeded ()),
      env_get_qr_code = (\<lambda>n s. Succeeded \<lparr>qr_mime_type = ''image/png'', qr_data = ''''\<rparr>)\<rparr>"

lemma example_rows [simp]:
  "w_notifications example_world = [example_notification]"
  "w_attempts example_world = []"
  "w_sessions example_world = [example_session]"
  "w_sends example_world = []"
  "n_id example_notification = ''n1''"
  "n_application_id example_notification = ''app''"
  "n_status example_notification = QUEUED"
  "n_attempt_count example_notification = 0"
  "n_maximum_attempts example_notification = 5"
  "n_claim_token example_notification = None"
  by (simp_all add: example_world_def example_notification_def)

lemma example_sound [simp]: "sound example_world"
  by (simp add: sound_def unique_message_ids_def check_notification_def
      claim_matches_status_def ledger_matches_def ledger_numbers_def example_notification_def)

lemma example_exists [simp]: "notification_exists ''app'' ''n1'' example_world"
  by (simp add: notification_exists_def)

end
