(* ===== verification/Api_Key.thy ===== *)
theory Api_Key
  imports Examples "HOL-Library.Word"
begin

text \<open>
  API keys: their format (\<open>packages/domain/src/tenant/api-key-format.ts\<close>), scopes and roles, their
  generation from random bytes (\<open>packages/security/src/api-key.ts\<close>), the table's statements
  (\<open>packages/database/src/repositories/api-key.repository.ts\<close>) and the service that issues, revokes
  and authenticates them (\<open>packages/composition/src/tenancy/api-key.service.ts\<close>). The keyed hash and
  the operating system's random bytes are parameters.
\<close>

section \<open>The format\<close>

datatype api_key_environment = LIVE | TEST

fun environment_name :: "api_key_environment \<Rightarrow> string" where
  "environment_name LIVE = ''live''"
| "environment_name TEST = ''test''"

definition api_key_environments :: "api_key_environment list" where
  "api_key_environments = [LIVE, TEST]"

definition api_key_identifier_length :: nat where
  "api_key_identifier_length = 12"

definition api_key_secret_length :: nat where
  "api_key_secret_length = 32"

record parsed_api_key =
  pk_environment :: api_key_environment
  pk_identifier :: string
  pk_secret :: string

definition api_key_prefix :: "api_key_environment \<Rightarrow> string" where
  "api_key_prefix e = ''wnp_'' @ environment_name e @ ''_''"

definition format_api_key :: "api_key_environment \<Rightarrow> string \<Rightarrow> string \<Rightarrow> string" where
  "format_api_key e key_identifier secret = api_key_prefix e @ key_identifier @ secret"

definition api_key_display_prefix :: "api_key_environment \<Rightarrow> string \<Rightarrow> string" where
  "api_key_display_prefix e key_identifier = api_key_prefix e @ key_identifier"

definition api_key_last_four :: "string \<Rightarrow> string" where
  "api_key_last_four secret = slice_last 4 secret"

definition to_environment :: "string \<Rightarrow> api_key_environment option" where
  "to_environment candidate = find (\<lambda>e. environment_name e = candidate) api_key_environments"

definition token_alphabet_pattern :: "string \<Rightarrow> bool" where
  "token_alphabet_pattern s = (s \<noteq> [] \<and> list_all is_alphanumeric s)"

definition try_parse_api_key :: "string \<Rightarrow> parsed_api_key option" where
  "try_parse_api_key token =
     (case split_on CHR ''_'' token of
        [namespace, environment_candidate, body] \<Rightarrow>
          if namespace \<noteq> ''wnp'' then None
          else (case to_environment environment_candidate of
             None \<Rightarrow> None
           | Some e \<Rightarrow>
               if length body \<noteq> api_key_identifier_length + api_key_secret_length then None
               else if \<not> token_alphabet_pattern body then None
               else Some \<lparr>pk_environment = e,
                      pk_identifier = take api_key_identifier_length body,
                      pk_secret = drop api_key_identifier_length body\<rparr>)
      | _ \<Rightarrow> None)"

definition parse_api_key :: "string \<Rightarrow> string + parsed_api_key" where
  "parse_api_key token =
     (case try_parse_api_key token of
        None \<Rightarrow> Inl ''The API key is not in the expected format.''
      | Some p \<Rightarrow> Inr p)"

section \<open>Scopes and roles\<close>

datatype api_key_scope =
    NOTIFICATIONS_WRITE | NOTIFICATIONS_READ | TEMPLATES_WRITE | TEMPLATES_READ | SESSIONS_READ

fun scope_name :: "api_key_scope \<Rightarrow> string" where
  "scope_name NOTIFICATIONS_WRITE = ''notifications:write''"
| "scope_name NOTIFICATIONS_READ = ''notifications:read''"
| "scope_name TEMPLATES_WRITE = ''templates:write''"
| "scope_name TEMPLATES_READ = ''templates:read''"
| "scope_name SESSIONS_READ = ''sessions:read''"

definition api_key_scopes :: "api_key_scope list" where
  "api_key_scopes =
     [NOTIFICATIONS_WRITE, NOTIFICATIONS_READ, TEMPLATES_WRITE, TEMPLATES_READ, SESSIONS_READ]"

definition default_api_key_scopes :: "api_key_scope list" where
  "default_api_key_scopes = [NOTIFICATIONS_WRITE, NOTIFICATIONS_READ]"

definition read_scope :: "string \<Rightarrow> api_key_scope option" where
  "read_scope candidate = find (\<lambda>s. scope_name s = candidate) api_key_scopes"

definition is_api_key_scope :: "string \<Rightarrow> bool" where
  "is_api_key_scope candidate = (candidate \<in> set (map scope_name api_key_scopes))"

definition has_scope :: "string list \<Rightarrow> api_key_scope \<Rightarrow> bool" where
  "has_scope granted required = (scope_name required \<in> set granted)"

fun role_privilege_order :: "user_role \<Rightarrow> int" where
  "role_privilege_order MEMBER = 0"
| "role_privilege_order ADMIN = 1"
| "role_privilege_order OWNER = 2"

definition has_at_least_role :: "user_role \<Rightarrow> user_role \<Rightarrow> bool" where
  "has_at_least_role actual required = (role_privilege_order actual \<ge> role_privilege_order required)"

definition can_application_accept_notifications :: "application_status \<Rightarrow> bool" where
  "can_application_accept_notifications status = (status = ACTIVE)"

section \<open>Generating a key\<close>

definition token_alphabet :: string where
  "token_alphabet = ''ABCDEFGHIJKLMNOPQRSTUVWXYZabcdefghijklmnopqrstuvwxyz0123456789''"

definition rejection_limit :: nat where
  "rejection_limit = 256 div length token_alphabet * length token_alphabet"

fun collect_from :: "8 word list \<Rightarrow> nat \<Rightarrow> string \<Rightarrow> string" where
  "collect_from [] wanted collected = collected"
| "collect_from (byte # source) wanted collected =
     (if length collected = wanted then collected
      else if unat byte < rejection_limit
      then collect_from source wanted
             (collected @ [token_alphabet ! (unat byte mod length token_alphabet)])
      else collect_from source wanted collected)"

definition collect_usable_characters :: "8 word list \<Rightarrow> nat \<Rightarrow> string" where
  "collect_usable_characters source wanted = collect_from source wanted []"

text \<open>
  The bytes the operating system hands out: \<open>src n k\<close> are the \<open>k\<close> bytes of the \<open>n\<close>-th request. The loop
  draws until it has enough characters, so it need not end, and says how many draws it made.
\<close>

partial_function (option) random_loop ::
  "(nat \<Rightarrow> nat \<Rightarrow> 8 word list) \<Rightarrow> nat \<Rightarrow> nat \<Rightarrow> string \<Rightarrow> (string \<times> nat) option" where
  "random_loop src wanted n result =
     (if length result < wanted
      then random_loop src wanted (n + 1)
             (result @ collect_usable_characters (src n (wanted * 2)) (wanted - length result))
      else Some (result, n))"

definition random_alphanumeric ::
  "(nat \<Rightarrow> nat \<Rightarrow> 8 word list) \<Rightarrow> nat \<Rightarrow> nat \<Rightarrow> (string \<times> nat) option" where
  "random_alphanumeric src wanted n = random_loop src wanted n []"

record generated_api_key =
  g_token :: string
  g_identifier :: string
  g_display_prefix :: string
  g_last_four :: string
  g_key_hash :: string

definition is_api_key_secret_valid :: "(string \<Rightarrow> string) \<Rightarrow> string \<Rightarrow> string \<Rightarrow> bool" where
  "is_api_key_secret_valid hash stored_hash supplied_secret =
     (let supplied_hash = hash supplied_secret
      in if length stored_hash \<noteq> length supplied_hash then False
         else stored_hash = supplied_hash)"

definition generate_api_key ::
  "(string \<Rightarrow> string) \<Rightarrow> api_key_environment \<Rightarrow> (nat \<Rightarrow> nat \<Rightarrow> 8 word list)
     \<Rightarrow> generated_api_key option" where
  "generate_api_key hash e src =
     Option.bind (random_alphanumeric src api_key_identifier_length 0) (\<lambda>(key_identifier, n).
     Option.bind (random_alphanumeric src api_key_secret_length n) (\<lambda>(secret, m).
     Some \<lparr>g_token = format_api_key e key_identifier secret, g_identifier = key_identifier,
           g_display_prefix = api_key_display_prefix e key_identifier,
           g_last_four = api_key_last_four secret, g_key_hash = hash secret\<rparr>))"

section \<open>Statements\<close>

record api_key_values =
  av_application_id :: uuid
  av_name :: string
  av_key_identifier :: string
  av_key_prefix :: string
  av_key_hash :: string
  av_last_four :: string
  av_scopes :: "string list"
  av_created_by_user_id :: "uuid option"
  av_expires_at :: "millis option"

definition insert_api_key :: "config \<Rightarrow> api_key_values \<Rightarrow> api_key tx" where
  "insert_api_key c input =
     tx_bind (new_identifier c) (\<lambda>key_id w.
     if length (av_last_four input) \<noteq> 4
     then Inl (ConstraintViolation ''api_keys_last_four_check'')
     else if av_scopes input = []
     then Inl (ConstraintViolation ''api_keys_scopes_not_empty_check'')
     else if list_ex (\<lambda>k. ak_key_identifier k = av_key_identifier input) (w_api_keys w)
     then Inl (ConstraintViolation ''api_keys_key_identifier_unique'')
     else if list_ex (\<lambda>k. ak_key_hash k = av_key_hash input) (w_api_keys w)
     then Inl (ConstraintViolation ''api_keys_key_hash_unique'')
     else if \<not> list_ex (\<lambda>a. ap_id a = av_application_id input) (w_applications w)
     then Inl (ConstraintViolation ''api_keys_application_id_applications_id_fk'')
     else if (case av_created_by_user_id input of
                None \<Rightarrow> False | Some u \<Rightarrow> \<not> list_ex (\<lambda>x. u_id x = u) (w_users w))
     then Inl (ConstraintViolation ''api_keys_created_by_user_id_users_id_fk'')
     else let k = \<lparr>ak_id = key_id, ak_application_id = av_application_id input,
            ak_name = av_name input, ak_key_identifier = av_key_identifier input,
            ak_key_prefix = av_key_prefix input, ak_key_hash = av_key_hash input,
            ak_last_four = av_last_four input, ak_scopes = av_scopes input,
            ak_created_by_user_id = av_created_by_user_id input,
            ak_expires_at = av_expires_at input, ak_last_used_at = None, ak_revoked_at = None,
            ak_created_at = w_db_clock w\<rparr>
          in Inr (k, w\<lparr>w_api_keys := w_api_keys w @ [k]\<rparr>))"

definition list_api_keys :: "uuid \<Rightarrow> world \<Rightarrow> api_key list" where
  "list_api_keys application_id w =
     sql_order_by (\<lambda>a b. ak_created_at b \<le> ak_created_at a)
       (filter (\<lambda>k. ak_application_id k = application_id) (w_api_keys w))"

record authentication_record =
  ar_id :: uuid
  ar_application_id :: uuid
  ar_organization_id :: uuid
  ar_key_hash :: string
  ar_scopes :: "string list"
  ar_application_status :: application_status

definition is_usable_key :: "string \<Rightarrow> millis \<Rightarrow> api_key \<Rightarrow> bool" where
  "is_usable_key key_identifier now k =
     (ak_key_identifier k = key_identifier \<and> ak_revoked_at k = None
      \<and> (case ak_expires_at k of None \<Rightarrow> True | Some t \<Rightarrow> t > now))"

definition find_active_by_identifier ::
  "string \<Rightarrow> millis \<Rightarrow> world \<Rightarrow> authentication_record option" where
  "find_active_by_identifier key_identifier now w =
     (case sql_first (\<lambda>(k, a). ap_id a = ak_application_id k \<and> is_usable_key key_identifier now k
                        \<and> ap_archived_at a = None)
             (List.product (w_api_keys w) (w_applications w)) of
        None \<Rightarrow> None
      | Some (k, a) \<Rightarrow>
          Some \<lparr>ar_id = ak_id k, ar_application_id = ak_application_id k,
                ar_organization_id = ap_organization_id a, ar_key_hash = ak_key_hash k,
                ar_scopes = ak_scopes k, ar_application_status = ap_status a\<rparr>)"

definition is_revocable_key :: "uuid \<Rightarrow> uuid \<Rightarrow> api_key \<Rightarrow> bool" where
  "is_revocable_key application_id key_id k =
     (ak_id k = key_id \<and> ak_application_id k = application_id \<and> ak_revoked_at k = None)"

definition repository_revoke_key :: "uuid \<Rightarrow> uuid \<Rightarrow> millis \<Rightarrow> bool tx" where
  "repository_revoke_key application_id key_id now w =
     Inr (list_ex (is_revocable_key application_id key_id) (w_api_keys w),
          w\<lparr>w_api_keys := sql_update (is_revocable_key application_id key_id)
              (\<lambda>k. k\<lparr>ak_revoked_at := Some now\<rparr>) (w_api_keys w)\<rparr>)"

definition touch_last_used :: "uuid \<Rightarrow> millis \<Rightarrow> world \<Rightarrow> world" where
  "touch_last_used key_id now w =
     w\<lparr>w_api_keys := sql_update
        (\<lambda>k. ak_id k = key_id
             \<and> (case ak_last_used_at k of None \<Rightarrow> True | Some t \<Rightarrow> t < now - 60000))
        (\<lambda>k. k\<lparr>ak_last_used_at := Some now\<rparr>) (w_api_keys w)\<rparr>"

section \<open>The service\<close>

record key_runtime =
  kr_production :: bool
  kr_hash :: "string \<Rightarrow> string"   \<comment> \<open>HMAC-SHA256 under the configured pepper\<close>

record create_key_input =
  ck_application_id :: uuid
  ck_name :: string
  ck_scopes :: "api_key_scope list"
  ck_created_by_user_id :: "uuid option"
  ck_expires_at :: "millis option"

text \<open>The key is generated before the first effect; a generation that never ends never gets here.\<close>

definition issue_key :: "config \<Rightarrow> create_key_input \<Rightarrow> generated_api_key \<Rightarrow> (api_key \<times> string) prog" where
  "issue_key c input generated =
     atomically (insert_api_key c
       \<lparr>av_application_id = ck_application_id input, av_name = ck_name input,
        av_key_identifier = g_identifier generated, av_key_prefix = g_display_prefix generated,
        av_key_hash = g_key_hash generated, av_last_four = g_last_four generated,
        av_scopes = map scope_name (ck_scopes input),
        av_created_by_user_id = ck_created_by_user_id input,
        av_expires_at = ck_expires_at input\<rparr>)
       (\<lambda>k. Done (k, g_token generated))"

definition create_key ::
  "config \<Rightarrow> key_runtime \<Rightarrow> (nat \<Rightarrow> nat \<Rightarrow> 8 word list) \<Rightarrow> create_key_input
     \<Rightarrow> (api_key \<times> string) prog option" where
  "create_key c kr src input =
     map_option (issue_key c input)
       (generate_api_key (kr_hash kr) (if kr_production kr then LIVE else TEST) src)"

definition revoke_key :: "uuid \<Rightarrow> uuid \<Rightarrow> unit prog" where
  "revoke_key application_id key_id =
     clock_now (\<lambda>now.
     atomically (repository_revoke_key application_id key_id now) (\<lambda>was_revoked.
     if was_revoked then Done ()
     else Raise (DomainError ''api_key_not_found'' ''That API key does not exist.'')))"

definition list_keys :: "uuid \<Rightarrow> api_key list prog" where
  "list_keys application_id = reading (list_api_keys application_id) Done"

record api_key_principal =
  kp_api_key_id :: uuid
  kp_application_id :: uuid
  kp_organization_id :: uuid
  kp_scopes :: "string list"

text \<open>
  Recording the use is not awaited: it is the effect that follows, and whether it has happened when
  the caller goes on cannot be observed through the result.
\<close>

definition authenticate_key :: "key_runtime \<Rightarrow> string \<Rightarrow> api_key_principal option prog" where
  "authenticate_key kr token =
     (case try_parse_api_key token of
        None \<Rightarrow> Done None
      | Some parsed \<Rightarrow>
          clock_now (\<lambda>now.
          reading (find_active_by_identifier (pk_identifier parsed) now) (\<lambda>found.
          case found of
            None \<Rightarrow> Done None
          | Some r \<Rightarrow>
              if \<not> can_application_accept_notifications (ar_application_status r) then Done None
              else if \<not> is_api_key_secret_valid (kr_hash kr) (ar_key_hash r) (pk_secret parsed)
              then Done None
              else writing (touch_last_used (ar_id r) now)
                (Done (Some \<lparr>kp_api_key_id = ar_id r, kp_application_id = ar_application_id r,
                  kp_organization_id = ar_organization_id r,
                  kp_scopes = filter is_api_key_scope (ar_scopes r)\<rparr>)))))"

section \<open>The format is unambiguous\<close>

lemma alphanumeric_no_underscore: "list_all is_alphanumeric s \<Longrightarrow> CHR ''_'' \<notin> set s"
  using alphanumeric_not_underscore by (auto simp: list_all_iff)

lemma to_environment_name: "to_environment s = Some e \<longleftrightarrow> s = environment_name e"
  by (cases e) (auto simp: to_environment_def api_key_environments_def)

lemma to_environment_of_name [simp]: "to_environment (environment_name e) = Some e"
  by (simp add: to_environment_name)

lemma split_formatted:
  assumes "list_all is_alphanumeric (i @ s)"
  shows "split_on CHR ''_'' (format_api_key e i s) = [''wnp'', environment_name e, i @ s]"
proof -
  have e: "CHR ''_'' \<notin> set (environment_name e)"
    by (cases e) simp_all
  have "format_api_key e i s = ''wnp'' @ CHR ''_'' # environment_name e @ CHR ''_'' # i @ s"
    by (simp add: format_api_key_def api_key_prefix_def)
  moreover have "split_on CHR ''_'' (''wnp'' @ CHR ''_'' # environment_name e @ CHR ''_'' # i @ s)
      = ''wnp'' # split_on CHR ''_'' (environment_name e @ CHR ''_'' # i @ s)"
    by (rule split_on_append) simp
  ultimately show ?thesis
    using split_on_append [OF e, of "i @ s"] split_on_absent [OF alphanumeric_no_underscore [OF assms]]
    by simp
qed

lemma api_key_format_reads:
  "length i = 12 \<Longrightarrow> length s = 32 \<Longrightarrow> list_all is_alphanumeric i \<Longrightarrow> list_all is_alphanumeric s \<Longrightarrow>
     try_parse_api_key (format_api_key e i s)
       = Some \<lparr>pk_environment = e, pk_identifier = i, pk_secret = s\<rparr>"
  using split_formatted [of i s e]
  by (auto simp: try_parse_api_key_def api_key_identifier_length_def api_key_secret_length_def
      token_alphabet_pattern_def)

text \<open>
  The format of a key is unambiguous. A text is read as a key exactly when it is the formatting
  of the parts it is read as, the identifier has twelve and the secret thirty-two characters, and
  all of them are letters or digits.
\<close>

theorem api_key_format_is_unambiguous:
  "try_parse_api_key token = Some p \<longleftrightarrow>
     token = format_api_key (pk_environment p) (pk_identifier p) (pk_secret p)
     \<and> length (pk_identifier p) = 12 \<and> length (pk_secret p) = 32
     \<and> list_all is_alphanumeric (pk_identifier p @ pk_secret p)"
proof
  assume parse: "try_parse_api_key token = Some p"
  then obtain candidate body e where split: "split_on CHR ''_'' token = [''wnp'', candidate, body]"
    and e: "to_environment candidate = Some e" and len: "length body = 44"
    and alpha: "list_all is_alphanumeric body"
    and p: "p = \<lparr>pk_environment = e, pk_identifier = take 12 body, pk_secret = drop 12 body\<rparr>"
    by (auto simp: try_parse_api_key_def api_key_identifier_length_def api_key_secret_length_def
        token_alphabet_pattern_def split: list.splits option.splits if_splits)
  have "token = join ''_'' [''wnp'', candidate, body]"
    using join_split_on [of "CHR ''_''" token] split by simp
  then have "token = format_api_key e (take 12 body) (drop 12 body)"
    using e by (simp add: format_api_key_def api_key_prefix_def to_environment_name)
  with len alpha p show "token = format_api_key (pk_environment p) (pk_identifier p) (pk_secret p)
     \<and> length (pk_identifier p) = 12 \<and> length (pk_secret p) = 32
     \<and> list_all is_alphanumeric (pk_identifier p @ pk_secret p)"
    by simp
next
  assume p: "token = format_api_key (pk_environment p) (pk_identifier p) (pk_secret p)
     \<and> length (pk_identifier p) = 12 \<and> length (pk_secret p) = 32
     \<and> list_all is_alphanumeric (pk_identifier p @ pk_secret p)"
  then show "try_parse_api_key token = Some p"
    by (cases p) (auto simp: api_key_format_reads)
qed

section \<open>Generation\<close>

lemma rejection_limit_value: "rejection_limit = 248"
  by (simp add: rejection_limit_def token_alphabet_def)

lemma token_alphabet_facts:
  "length token_alphabet = 62" "distinct token_alphabet" "list_all is_alphanumeric token_alphabet"
  by (simp_all add: token_alphabet_def is_alphanumeric_def is_letter_def is_digit_def char_code_def)

lemma token_alphabet_nth: "is_alphanumeric (token_alphabet ! (k mod 62))"
  using token_alphabet_facts by (simp add: list_all_length)

lemma collect_from_properties:
  assumes "length collected \<le> wanted" and "list_all is_alphanumeric collected"
  shows "length (collect_from source wanted collected) \<le> wanted
    \<and> length collected \<le> length (collect_from source wanted collected)
    \<and> list_all is_alphanumeric (collect_from source wanted collected)
    \<and> (length collected < wanted \<and> (\<exists>b \<in> set source. unat b < rejection_limit) \<longrightarrow>
         length collected < length (collect_from source wanted collected))"
  using assms
proof (induction source wanted collected rule: collect_from.induct)
  case (1 wanted collected)
  then show ?case by simp
next
  case (2 byte source wanted collected)
  then show ?case
    using token_alphabet_nth token_alphabet_facts(1) by fastforce
qed

lemma collect_usable_properties:
  "length (collect_usable_characters source wanted) \<le> wanted"
  "list_all is_alphanumeric (collect_usable_characters source wanted)"
  "0 < wanted \<Longrightarrow> \<exists>b \<in> set source. unat b < rejection_limit \<Longrightarrow>
     0 < length (collect_usable_characters source wanted)"
  using collect_from_properties [of "[]" wanted source]
  by (auto simp: collect_usable_characters_def)

lemma random_loop_result:
  assumes "random_loop src wanted n result = Some y"
  shows "length result \<le> wanted \<longrightarrow> list_all is_alphanumeric result \<longrightarrow>
    length (fst y) = wanted \<and> list_all is_alphanumeric (fst y)"
proof (rule random_loop.raw_induct [OF _ assms, where P = "\<lambda>src wanted n result y.
    length result \<le> wanted \<longrightarrow> list_all is_alphanumeric result \<longrightarrow>
      length (fst y) = wanted \<and> list_all is_alphanumeric (fst y)"], intro impI)
  fix loop src and wanted n :: nat and result :: string and y :: "string \<times> nat"
  let ?more = "collect_usable_characters (src n (wanted * 2)) (wanted - length result)"
  assume IH: "\<And>src wanted n result y. loop src wanted n result = Some y \<Longrightarrow>
      length result \<le> wanted \<longrightarrow> list_all is_alphanumeric result \<longrightarrow>
        length (fst y) = wanted \<and> list_all is_alphanumeric (fst y)"
    and y: "(if length result < wanted then loop src wanted (n + 1) (result @ ?more)
             else Some (result, n)) = Some y"
    and "length result \<le> wanted" and "list_all is_alphanumeric result"
  then show "length (fst y) = wanted \<and> list_all is_alphanumeric (fst y)"
    using IH [of src wanted "n + 1" "result @ ?more" y]
      collect_usable_properties(1,2) [of "src n (wanted * 2)" "wanted - length result"]
    by (cases "length result < wanted") auto
qed

text \<open>Enough usable bytes: from any draw on, some later draw has a byte below the limit.\<close>

definition usable_source :: "(nat \<Rightarrow> nat \<Rightarrow> 8 word list) \<Rightarrow> bool" where
  "usable_source src =
     (\<forall>n k. 0 < k \<longrightarrow> (\<exists>m \<ge> n. \<exists>b \<in> set (src m k). unat b < rejection_limit))"

lemma random_loop_next_usable:
  assumes "length result < wanted" and "n \<le> m" and "\<exists>b \<in> set (src m (wanted * 2)). unat b < rejection_limit"
    and IH: "\<And>n' result'. length result < length result' \<Longrightarrow> length result' \<le> wanted \<Longrightarrow>
      \<exists>r. random_loop src wanted n' result' = Some r"
  shows "\<exists>r. random_loop src wanted n result = Some r"
  using assms(2)
proof (induction "m - n" arbitrary: n)
  case 0
  let ?more = "collect_usable_characters (src n (wanted * 2)) (wanted - length result)"
  have "0 < length ?more" and "length ?more \<le> wanted - length result"
    using 0 assms collect_usable_properties(1,3) by simp_all
  then show ?case
    using IH [of "result @ ?more" "n + 1"] assms(1) by (subst random_loop.simps) simp
next
  case (Suc d)
  let ?more = "collect_usable_characters (src n (wanted * 2)) (wanted - length result)"
  have le: "length ?more \<le> wanted - length result"
    using collect_usable_properties(1) by simp
  show ?case
  proof (cases "?more = []")
    case True
    then have "random_loop src wanted n result = random_loop src wanted (n + 1) result"
      using assms(1) by (subst random_loop.simps) simp
    with Suc show ?thesis by auto
  next
    case False
    then show ?thesis
      using IH [of "result @ ?more" "n + 1"] assms(1) le by (subst random_loop.simps) simp
  qed
qed

lemma random_loop_ends:
  assumes "usable_source src"
  shows "length result \<le> wanted \<Longrightarrow> \<exists>r. random_loop src wanted n result = Some r"
proof (induction "wanted - length result" arbitrary: n result rule: less_induct)
  case less
  show ?case
  proof (cases "length result < wanted")
    case True
    then have "0 < wanted * 2" by simp
    then obtain m where "n \<le> m" "\<exists>b \<in> set (src m (wanted * 2)). unat b < rejection_limit"
      using assms unfolding usable_source_def by blast
    then show ?thesis
      using True less by (intro random_loop_next_usable [where m = m and n = n]) auto
  next
    case False
    then show ?thesis by (subst random_loop.simps) simp
  qed
qed

text \<open>
  C26: Issuing a key ends. Whenever the operating system keeps handing out usable bytes, a key is
  generated, it reads back as the parts it was built from, its display half is the beginning of the
  token, and the stored digest is the digest of the secret it was shown with.
\<close>

theorem generation_ends_with_a_key:
  assumes "usable_source src"
  shows "\<exists>g secret. generate_api_key hash e src = Some g
    \<and> try_parse_api_key (g_token g)
        = Some \<lparr>pk_environment = e, pk_identifier = g_identifier g, pk_secret = secret\<rparr>
    \<and> g_token g = g_display_prefix g @ secret
    \<and> g_key_hash g = hash secret \<and> length (g_last_four g) = 4"
proof -
  obtain i n where i: "random_alphanumeric src api_key_identifier_length 0 = Some (i, n)"
    using random_loop_ends [OF assms, of "[]"] by (fastforce simp: random_alphanumeric_def)
  obtain s m where s: "random_alphanumeric src api_key_secret_length n = Some (s, m)"
    using random_loop_ends [OF assms, of "[]"] by (fastforce simp: random_alphanumeric_def)
  have "length i = 12 \<and> list_all is_alphanumeric i" "length s = 32 \<and> list_all is_alphanumeric s"
    using random_loop_result [OF i [unfolded random_alphanumeric_def]]
      random_loop_result [OF s [unfolded random_alphanumeric_def]]
    by (simp_all add: api_key_identifier_length_def api_key_secret_length_def)
  then have "try_parse_api_key (format_api_key e i s)
      = Some \<lparr>pk_environment = e, pk_identifier = i, pk_secret = s\<rparr>"
    by (simp add: api_key_format_reads)
  with i s \<open>length s = 32 \<and> _\<close> show ?thesis
    by (simp add: generate_api_key_def format_api_key_def api_key_display_prefix_def
        api_key_last_four_def slice_last_def)
qed

theorem generation_ends_with_a_key_witness:
  "\<exists>g. generate_api_key (\<lambda>s. s) TEST (\<lambda>n k. replicate k 0) = Some g \<and> length (g_last_four g) = 4"
proof -
  have "usable_source (\<lambda>n k. replicate k 0)"
    by (auto simp: usable_source_def rejection_limit_value)
  from generation_ends_with_a_key [OF this, of "\<lambda>s. s" TEST] show ?thesis by auto
qed

lemma word_nat_inverse: "word_of_nat (unat b) = b"
  by simp

text \<open>
  No character of a key is more likely than another. Of the 256 values of a byte, exactly four
  stand for each character of the alphabet; the remaining eight are discarded.
\<close>

theorem key_characters_are_unbiased:
  "c \<in> set token_alphabet \<longrightarrow>
     card {b :: 8 word. collect_usable_characters [b] 1 = [c]} = 4"
proof
  assume "c \<in> set token_alphabet"
  then obtain i where i: "i < 62" "token_alphabet ! i = c"
    using token_alphabet_facts(1) by (auto simp: in_set_conv_nth)
  have nth: "token_alphabet ! (k mod 62) = c \<longleftrightarrow> k mod 62 = i" for k
    using i token_alphabet_facts(1,2) nth_eq_iff_index_eq [of token_alphabet "k mod 62" i] by auto
  have "{b :: 8 word. collect_usable_characters [b] 1 = [c]} = {b. unat b < 248 \<and> unat b mod 62 = i}"
    by (auto simp: collect_usable_characters_def rejection_limit_value token_alphabet_facts(1) nth)
  also have "\<dots> = word_of_nat ` {i, i + 62, i + 124, i + 186}"
  proof (intro equalityI subsetI)
    fix b :: "8 word" assume "b \<in> {b. unat b < 248 \<and> unat b mod 62 = i}"
    then have "unat b = unat b div 62 * 62 + i" and "unat b div 62 < 4"
      using div_mult_mod_eq [of "unat b" 62] by (auto simp: div_less_iff_less_mult)
    moreover from \<open>unat b div 62 < 4\<close> have "unat b div 62 \<in> {0, 1, 2, 3}" by auto
    ultimately have "unat b \<in> {i, i + 62, i + 124, i + 186}" by auto
    then show "b \<in> word_of_nat ` {i, i + 62, i + 124, i + 186}"
      by (intro image_eqI [of b word_of_nat "unat b"]) (simp_all only: word_nat_inverse)
  next
    fix b :: "8 word" assume "b \<in> word_of_nat ` {i, i + 62, i + 124, i + 186}"
    then obtain k where k: "k \<in> {i, i + 62, i + 124, i + 186}" and "b = word_of_nat k" by blast
    then have "unat b = k"
      using i(1) by (auto simp only: unat_of_nat insert_iff empty_iff) simp_all
    moreover obtain j where "k = i + 62 * j" and "j < 4"
      using k by (elim insertE emptyE) (auto intro: that [of 0] that [of 1] that [of 2] that [of 3])
    ultimately show "b \<in> {b. unat b < 248 \<and> unat b mod 62 = i}"
      using i(1) by simp
  qed
  also have "card \<dots> = card {i, i + 62, i + 124, i + 186}"
  proof (rule card_image)
    have "inj_on (word_of_nat :: nat \<Rightarrow> 8 word) {..<256}"
      by (rule inj_on_inverseI [where g = unat]) (simp add: unat_of_nat)
    then show "inj_on (word_of_nat :: nat \<Rightarrow> 8 word) {i, i + 62, i + 124, i + 186}"
      by (rule inj_on_subset) (use i(1) in auto)
  qed
  finally show "card {b :: 8 word. collect_usable_characters [b] 1 = [c]} = 4" by simp
qed

section \<open>Authentication\<close>

text \<open>What makes a token good: every condition of the documentation of the service.\<close>

definition opens :: "key_runtime \<Rightarrow> world \<Rightarrow> string \<Rightarrow> api_key \<Rightarrow> application \<Rightarrow> bool" where
  "opens kr w token k a =
     (k \<in> set (w_api_keys w) \<and> a \<in> set (w_applications w) \<and> ap_id a = ak_application_id k
      \<and> ap_status a = ACTIVE \<and> ap_archived_at a = None \<and> ak_revoked_at k = None
      \<and> (\<forall>t. ak_expires_at k = Some t \<longrightarrow> w_clock w < t)
      \<and> (\<exists>p. try_parse_api_key token = Some p \<and> pk_identifier p = ak_key_identifier k
            \<and> kr_hash kr (pk_secret p) = ak_key_hash k))"

lemma find_active_opens:
  assumes "find_active_by_identifier i now w = Some r"
  obtains k a where "k \<in> set (w_api_keys w)" "a \<in> set (w_applications w)" "ap_id a = ak_application_id k"
    "is_usable_key i now k" "ap_archived_at a = None"
    "r = \<lparr>ar_id = ak_id k, ar_application_id = ak_application_id k,
          ar_organization_id = ap_organization_id a, ar_key_hash = ak_key_hash k,
          ar_scopes = ak_scopes k, ar_application_status = ap_status a\<rparr>"
proof -
  let ?P = "\<lambda>(k, a). ap_id a = ak_application_id k \<and> is_usable_key i now k \<and> ap_archived_at a = None"
  from assms obtain k a where f: "sql_first ?P (List.product (w_api_keys w) (w_applications w)) = Some (k, a)"
    and r: "r = \<lparr>ar_id = ak_id k, ar_application_id = ak_application_id k,
          ar_organization_id = ap_organization_id a, ar_key_hash = ak_key_hash k,
          ar_scopes = ak_scopes k, ar_application_status = ap_status a\<rparr>"
    by (auto simp: find_active_by_identifier_def split: option.splits)
  show ?thesis
    by (rule that [of k a]) (use sql_first_SomeD [OF f] r in simp_all)
qed

lemma find_active_only:
  assumes "distinct (map ak_key_identifier (w_api_keys w))" and "distinct (map ap_id (w_applications w))"
    and "k \<in> set (w_api_keys w)" and "a \<in> set (w_applications w)" and "ap_id a = ak_application_id k"
    and "is_usable_key i now k" and "ap_archived_at a = None"
  shows "find_active_by_identifier i now w
    = Some \<lparr>ar_id = ak_id k, ar_application_id = ak_application_id k,
        ar_organization_id = ap_organization_id a, ar_key_hash = ak_key_hash k,
        ar_scopes = ak_scopes k, ar_application_status = ap_status a\<rparr>"
proof -
  have "sql_first (\<lambda>(k, a). ap_id a = ak_application_id k \<and> is_usable_key i now k \<and> ap_archived_at a = None)
      (List.product (w_api_keys w) (w_applications w)) = Some (k, a)"
  proof (rule sql_first_only)
    fix y assume y: "y \<in> set (List.product (w_api_keys w) (w_applications w))"
      "case y of (k, a) \<Rightarrow> ap_id a = ak_application_id k \<and> is_usable_key i now k \<and> ap_archived_at a = None"
    have "fst y = k"
      by (rule row_by_key [OF assms(1)]) (use y assms(3,6) in \<open>auto simp: is_usable_key_def\<close>)
    moreover from this have "snd y = a"
      by (intro row_by_key [OF assms(2)]) (use y assms(4,5) in auto)
    ultimately show "y = (k, a)" by (simp add: prod_eq_iff)
  qed (use assms in simp_all)
  then show ?thesis by (simp add: find_active_by_identifier_def)
qed

definition key_principal :: "api_key \<Rightarrow> application \<Rightarrow> api_key_principal" where
  "key_principal k a =
     \<lparr>kp_api_key_id = ak_id k, kp_application_id = ap_id a, kp_organization_id = ap_organization_id a,
      kp_scopes = filter is_api_key_scope (ak_scopes k)\<rparr>"

lemma authenticate_good:
  assumes "distinct (map ak_key_identifier (w_api_keys w))" and "distinct (map ap_id (w_applications w))"
    and good: "opens kr w token k a"
  shows "run (authenticate_key kr token) env w
    = (Returned (Some (key_principal k a)), touch_last_used (ak_id k) (w_clock w) w)"
proof -
  obtain p where p: "try_parse_api_key token = Some p" "pk_identifier p = ak_key_identifier k"
    "kr_hash kr (pk_secret p) = ak_key_hash k"
    using good by (auto simp: opens_def)
  have usable: "is_usable_key (pk_identifier p) (w_clock w) k"
    using good p by (auto simp: opens_def is_usable_key_def split: option.splits)
  have "find_active_by_identifier (pk_identifier p) (w_clock w) w
    = Some \<lparr>ar_id = ak_id k, ar_application_id = ak_application_id k,
        ar_organization_id = ap_organization_id a, ar_key_hash = ak_key_hash k,
        ar_scopes = ak_scopes k, ar_application_status = ap_status a\<rparr>"
    by (rule find_active_only [OF assms(1,2)]) (use good usable in \<open>simp_all add: opens_def\<close>)
  then show ?thesis
    using good p by (simp add: authenticate_key_def step_simps opens_def key_principal_def
        can_application_accept_notifications_def is_api_key_secret_valid_def)
qed

lemma authenticate_bad:
  assumes bad: "\<And>k a. \<not> opens kr w token k a"
  shows "run (authenticate_key kr token) env w = (Returned None, w)"
proof (cases "try_parse_api_key token")
  case None
  then show ?thesis by (simp add: authenticate_key_def)
next
  case p: (Some p)
  show ?thesis
  proof (cases "find_active_by_identifier (pk_identifier p) (w_clock w) w")
    case None
    with p show ?thesis by (simp add: authenticate_key_def step_simps)
  next
    case (Some r)
    then obtain k a where "k \<in> set (w_api_keys w)" "a \<in> set (w_applications w)" "ap_id a = ak_application_id k"
      "is_usable_key (pk_identifier p) (w_clock w) k" "ap_archived_at a = None"
      "r = \<lparr>ar_id = ak_id k, ar_application_id = ak_application_id k,
          ar_organization_id = ap_organization_id a, ar_key_hash = ak_key_hash k,
          ar_scopes = ak_scopes k, ar_application_status = ap_status a\<rparr>"
      by (rule find_active_opens)
    with bad [of k a] p have "ar_application_status r \<noteq> ACTIVE \<or> kr_hash kr (pk_secret p) \<noteq> ar_key_hash r"
      by (fastforce simp: opens_def is_usable_key_def)
    with p Some show ?thesis
      by (auto simp: authenticate_key_def step_simps can_application_accept_notifications_def
          is_api_key_secret_valid_def Let_def)
  qed
qed

lemma opens_only:
  assumes "distinct (map ak_key_identifier (w_api_keys w))" and "distinct (map ap_id (w_applications w))"
    and "opens kr w token k a" and "opens kr w token k' a'"
  shows "k' = k \<and> a' = a"
proof -
  have "k' = k"
    by (rule row_by_key [OF assms(1)]) (use assms(3,4) in \<open>auto simp: opens_def\<close>)
  moreover from this have "a' = a"
    by (intro row_by_key [OF assms(2)]) (use assms(3,4) in \<open>auto simp: opens_def\<close>)
  ultimately show ?thesis ..
qed

text \<open>
  A token is accepted exactly when it is good. Given unique identifiers, authentication answers
  with a principal if and only if the token reads as a key on file that is not revoked and not
  expired, whose application is active and not archived, and whose digest is the secret's; the
  principal is that application, with the scopes the platform knows. It never throws.
\<close>

theorem good_tokens_authenticate:
  assumes "distinct (map ak_key_identifier (w_api_keys w))" and "distinct (map ap_id (w_applications w))"
  shows "\<exists>result w'. run (authenticate_key kr token) env w = (Returned result, w')
    \<and> (\<forall>principal. result = Some principal \<longleftrightarrow> (\<exists>k a. opens kr w token k a
        \<and> principal = \<lparr>kp_api_key_id = ak_id k, kp_application_id = ap_id a,
            kp_organization_id = ap_organization_id a,
            kp_scopes = filter is_api_key_scope (ak_scopes k)\<rparr>))"
proof (cases "\<exists>k a. opens kr w token k a")
  case True
  then obtain k a where good: "opens kr w token k a" by blast
  have "Some (key_principal k a) = Some principal \<longleftrightarrow> (\<exists>k a. opens kr w token k a
      \<and> principal = \<lparr>kp_api_key_id = ak_id k, kp_application_id = ap_id a,
          kp_organization_id = ap_organization_id a, kp_scopes = filter is_api_key_scope (ak_scopes k)\<rparr>)"
    for principal
    unfolding option.inject key_principal_def using good opens_only [OF assms good] by blast
  then show ?thesis
    using authenticate_good [OF assms good] by blast
next
  case False
  then show ?thesis
    using authenticate_bad [of kr w token env] by auto
qed

section \<open>Revocation\<close>

text \<open>
  The identifier is taken and every key with it is revoked: an invariant of every service of this
  theory, in every interleaving.
\<close>

definition withdrawn :: "string \<Rightarrow> world \<Rightarrow> bool" where
  "withdrawn i w =
     ((\<exists>k \<in> set (w_api_keys w). ak_key_identifier k = i)
      \<and> (\<forall>k \<in> set (w_api_keys w). ak_key_identifier k = i \<longrightarrow> ak_revoked_at k \<noteq> None))"

interpretation withdrawal: effect_frame "withdrawn i" "\<lambda>v w. True" "\<lambda>e. True" for i
  by unfold_locales simp_all

lemma withdrawn_update:
  assumes "withdrawn i w" and "\<And>k. ak_key_identifier (f k) = ak_key_identifier k"
    and "\<And>k. ak_revoked_at k \<noteq> None \<Longrightarrow> ak_revoked_at (f k) \<noteq> None"
  shows "withdrawn i (w\<lparr>w_api_keys := sql_update p f (w_api_keys w)\<rparr>)"
proof -
  obtain k where "k \<in> set (w_api_keys w)" "ak_key_identifier k = i"
    using assms(1) by (auto simp: withdrawn_def)
  then have "\<exists>k \<in> set (sql_update p f (w_api_keys w)). ak_key_identifier k = i"
    using sql_update_image [of k "w_api_keys w" p f] assms(2)
    by (intro bexI [of _ "if p k then f k else k"]) simp_all
  then show ?thesis
    using assms by (simp add: withdrawn_def Ball_sql_update)
qed

lemma withdrawn_insert: "commits (withdrawn i) (\<lambda>v w. True) (\<lambda>e. True) (insert_api_key c input)"
  by (rule commitsI)
    (auto simp: insert_api_key_def tx_bind_def new_identifier_def withdrawn_def list_ex_iff Let_def
      split: if_splits option.splits)

lemma withdrawn_revoke: "commits (withdrawn i) (\<lambda>v w. True) (\<lambda>e. True) (repository_revoke_key a k now)"
  by (rule commitsI) (auto simp: repository_revoke_key_def intro!: withdrawn_update)

lemma withdrawn_touch: "withdrawn i w \<Longrightarrow> withdrawn i (touch_last_used k now w)"
  by (auto simp: touch_last_used_def intro!: withdrawn_update)

lemma withdrawn_not_found: "withdrawn i w \<Longrightarrow> find_active_by_identifier i now w = None"
proof (cases "find_active_by_identifier i now w")
  case (Some r)
  assume "withdrawn i w"
  with Some show ?thesis
    by (elim find_active_opens) (auto simp: withdrawn_def is_usable_key_def)
qed

text \<open>
  C24: A revoked key stays revoked. Revoking puts the key's identifier out of use; every service on
  keys keeps it out of use, whatever else happens between two of its effects as long as that does;
  and in every such interleaving authentication with a token of that identifier answers with no
  principal.
\<close>

theorem revoked_keys_never_open_again:
  assumes "run (revoke_key application_id (ak_id k)) env w = (Returned (), w')"
    and "k \<in> set (w_api_keys w)" and "distinct (map ak_id (w_api_keys w))"
    and "distinct (map ak_key_identifier (w_api_keys w))"
    and "try_parse_api_key token = Some p" and "pk_identifier p = ak_key_identifier k"
  shows "withdrawn (ak_key_identifier k) w'
    \<and> safe (withdrawn (ak_key_identifier k)) (\<lambda>u v. True) (\<lambda>e. True) (\<lambda>r. r = None) (authenticate_key kr token)
    \<and> safe (withdrawn (ak_key_identifier k)) (\<lambda>u v. True) (\<lambda>e. True) (\<lambda>r. True) (authenticate_key kr other)
    \<and> safe (withdrawn (ak_key_identifier k)) (\<lambda>u v. True) (\<lambda>e. True) (\<lambda>r. True) (issue_key c input g)
    \<and> safe (withdrawn (ak_key_identifier k)) (\<lambda>u v. True) (\<lambda>e. True) (\<lambda>r. True) (revoke_key a i)"
proof (intro conjI)
  have was: "list_ex (is_revocable_key application_id (ak_id k)) (w_api_keys w)"
    and w': "w' = w\<lparr>w_api_keys := sql_update (is_revocable_key application_id (ak_id k))
        (\<lambda>k. k\<lparr>ak_revoked_at := Some (w_clock w)\<rparr>) (w_api_keys w)\<rparr>"
    using assms(1) by (auto simp: revoke_key_def step_simps repository_revoke_key_def split: if_splits)
  then have "is_revocable_key application_id (ak_id k) k"
    using assms(2) row_by_key [OF assms(3)] by (auto simp: list_ex_iff is_revocable_key_def)
  then have "ak_key_identifier x = ak_key_identifier k \<longrightarrow> is_revocable_key application_id (ak_id k) x"
      if "x \<in> set (w_api_keys w)" for x
    using row_by_key [OF assms(4) that assms(2)] by auto
  moreover have "\<exists>x \<in> set (w_api_keys w'). ak_key_identifier x = ak_key_identifier k"
    using sql_update_image [OF assms(2), of "is_revocable_key application_id (ak_id k)"
        "\<lambda>k. k\<lparr>ak_revoked_at := Some (w_clock w)\<rparr>"]
    unfolding w' by (intro bexI [of _ "if is_revocable_key application_id (ak_id k) k
      then k\<lparr>ak_revoked_at := Some (w_clock w)\<rparr> else k"]) simp_all
  ultimately show "withdrawn (ak_key_identifier k) w'"
    by (auto simp: withdrawn_def w' Ball_sql_update)
  show "safe (withdrawn (ak_key_identifier k)) (\<lambda>u v. True) (\<lambda>e. True) (\<lambda>r. r = None) (authenticate_key kr token)"
    using assms(5,6) withdrawn_not_found
    by (auto simp: authenticate_key_def intro!: withdrawal.safe_clock safe_reading)
  show "safe (withdrawn (ak_key_identifier k)) (\<lambda>u v. True) (\<lambda>e. True) (\<lambda>r. True) (authenticate_key kr other)"
    by (auto simp: authenticate_key_def withdrawn_touch split: option.splits
        intro!: withdrawal.safe_clock safe_reading safe_writing)
  show "safe (withdrawn (ak_key_identifier k)) (\<lambda>u v. True) (\<lambda>e. True) (\<lambda>r. True) (issue_key c input g)"
    by (auto simp: issue_key_def intro!: withdrawal.safe_commits withdrawn_insert)
  show "safe (withdrawn (ak_key_identifier k)) (\<lambda>u v. True) (\<lambda>e. True) (\<lambda>r. True) (revoke_key a i)"
    by (auto simp: revoke_key_def intro!: withdrawal.safe_clock withdrawal.safe_commits withdrawn_revoke)
qed

section \<open>Examples\<close>

definition example_key :: api_key where
  "example_key =
     \<lparr>ak_id = ''k1'', ak_application_id = ''app'', ak_name = ''Server'',
      ak_key_identifier = ''aaaaaaaaaaaa'', ak_key_prefix = ''wnp_live_aaaaaaaaaaaa'',
      ak_key_hash = replicate 32 CHR ''b'', ak_last_four = ''bbbb'',
      ak_scopes = [''notifications:write'', ''admin''], ak_created_by_user_id = None,
      ak_expires_at = None, ak_last_used_at = None, ak_revoked_at = None, ak_created_at = 0\<rparr>"

definition example_token :: string where
  "example_token = format_api_key LIVE (replicate 12 CHR ''a'') (replicate 32 CHR ''b'')"

definition example_key_runtime :: key_runtime where
  "example_key_runtime = \<lparr>kr_production = True, kr_hash = (\<lambda>s. s)\<rparr>"

definition keys_world :: world where
  "keys_world = example_world\<lparr>w_api_keys := [example_key]\<rparr>"

lemma example_token_parses:
  "try_parse_api_key example_token
    = Some \<lparr>pk_environment = LIVE, pk_identifier = replicate 12 CHR ''a'', pk_secret = replicate 32 CHR ''b''\<rparr>"
  unfolding example_token_def
  by (rule api_key_format_reads) (simp_all add: list_all_iff is_alphanumeric_def is_letter_def char_code_def)

theorem good_tokens_authenticate_witness:
  "\<exists>w'. run (authenticate_key example_key_runtime example_token) example_env keys_world
     = (Returned (Some \<lparr>kp_api_key_id = ''k1'', kp_application_id = ''app'',
         kp_organization_id = ''org'', kp_scopes = [''notifications:write'']\<rparr>), w')"
proof -
  have "opens example_key_runtime keys_world example_token example_key example_application"
    by (simp add: opens_def keys_world_def example_world_def example_application_def example_key_def
        example_key_runtime_def example_token_parses eval_nat_numeral)
  moreover have "filter is_api_key_scope (ak_scopes example_key) = [''notifications:write'']"
    by (simp add: example_key_def is_api_key_scope_def api_key_scopes_def)
  moreover have "distinct (map ak_key_identifier (w_api_keys keys_world))"
    "distinct (map ap_id (w_applications keys_world))"
    by (simp_all add: keys_world_def example_world_def)
  moreover obtain result w' where r: "run (authenticate_key example_key_runtime example_token) example_env keys_world
      = (Returned result, w')" and principals: "\<And>principal. result = Some principal \<longleftrightarrow>
        (\<exists>k a. opens example_key_runtime keys_world example_token k a
          \<and> principal = \<lparr>kp_api_key_id = ak_id k, kp_application_id = ap_id a,
              kp_organization_id = ap_organization_id a,
              kp_scopes = filter is_api_key_scope (ak_scopes k)\<rparr>)"
    using good_tokens_authenticate [of keys_world example_key_runtime example_token example_env]
      calculation(3,4) by blast
  ultimately have "result = Some \<lparr>kp_api_key_id = ak_id example_key,
      kp_application_id = ap_id example_application,
      kp_organization_id = ap_organization_id example_application,
      kp_scopes = filter is_api_key_scope (ak_scopes example_key)\<rparr>"
    unfolding principals by blast
  then show ?thesis
    using r by (simp add: example_key_def example_application_def is_api_key_scope_def api_key_scopes_def)
qed

theorem revoked_keys_never_open_again_witness:
  "withdrawn ''aaaaaaaaaaaa'' (snd (run (revoke_key ''app'' ''k1'') example_env keys_world))"
proof -
  let ?w = "snd (run (revoke_key ''app'' ''k1'') example_env keys_world)"
  have "run (revoke_key ''app'' (ak_id example_key)) example_env keys_world = (Returned (), ?w)"
    by (simp add: revoke_key_def step_simps repository_revoke_key_def keys_world_def example_key_def
        is_revocable_key_def)
  from revoked_keys_never_open_again [OF this _ _ _ example_token_parses]
  show ?thesis by (auto simp: keys_world_def example_key_def eval_nat_numeral)
qed

end
