(* ===== verification/Tenancy.thy ===== *)
theory Tenancy
  imports Examples
begin

text \<open>
  Applications, the tenants of the platform:
  \<open>packages/composition/src/tenancy/application.service.ts\<close> over the statements of
  \<open>packages/database/src/repositories/application.repository.ts\<close>, with the constraints of the table
  \<open>applications\<close>. Every operation names the organization it acts for.
\<close>

section \<open>The table's constraints\<close>

text \<open>The CHECKs of the table, and the width of the one column they leave open above.\<close>

definition check_application :: "application \<Rightarrow> bool" where
  "check_application a =
     (1 \<le> ap_rate_limit_per_minute a \<and> ap_rate_limit_per_minute a \<le> 6000
      \<and> 1 \<le> ap_rate_limit_burst a \<and> ap_rate_limit_burst a \<le> 1000
      \<and> (case ap_daily_send_limit a of None \<Rightarrow> True | Some l \<Rightarrow> 0 < l \<and> l \<le> 2147483647)
      \<and> 1 \<le> ap_default_maximum_attempts a \<and> ap_default_maximum_attempts a \<le> 10)"

section \<open>Statements\<close>

record application_values =
  nv_organization_id :: uuid
  nv_name :: string
  nv_slug :: string

definition insert_application :: "config \<Rightarrow> application_values \<Rightarrow> application tx" where
  "insert_application c input =
     tx_bind (new_identifier c) (\<lambda>i w.
     if list_ex (\<lambda>a. ap_organization_id a = nv_organization_id input \<and> ap_slug a = nv_slug input)
          (w_applications w)
     then Inl (ConstraintViolation ''applications_organization_slug_unique'')
     else if \<not> list_ex (\<lambda>g. o_id g = nv_organization_id input) (w_organizations w)
     then Inl (ConstraintViolation ''applications_organization_id_organizations_id_fk'')
     else let a = \<lparr>ap_id = i, ap_organization_id = nv_organization_id input,
            ap_name = nv_name input, ap_slug = nv_slug input, ap_status = ACTIVE,
            ap_rate_limit_per_minute = 60, ap_rate_limit_burst = 10, ap_daily_send_limit = None,
            ap_default_maximum_attempts = 5, ap_unknown_outcome_policy = POLICY_RETRY,
            ap_archived_at = None, ap_created_at = w_db_clock w, ap_updated_at = w_db_clock w\<rparr>
          in Inr (a, w\<lparr>w_applications := w_applications w @ [a]\<rparr>))"

definition list_for_organization :: "uuid \<Rightarrow> world \<Rightarrow> application list" where
  "list_for_organization organization_id w =
     sql_order_by (\<lambda>a b. ap_created_at b \<le> ap_created_at a)
       (filter (\<lambda>a. ap_organization_id a = organization_id \<and> ap_archived_at a = None)
          (w_applications w))"

definition is_own_application :: "uuid \<Rightarrow> uuid \<Rightarrow> application \<Rightarrow> bool" where
  "is_own_application organization_id application_id a =
     (ap_id a = application_id \<and> ap_organization_id a = organization_id \<and> ap_archived_at a = None)"

definition find_application :: "uuid \<Rightarrow> uuid \<Rightarrow> world \<Rightarrow> application option" where
  "find_application organization_id application_id w =
     sql_first (is_own_application organization_id application_id) (w_applications w)"

text \<open>A member that is absent leaves its column as it is.\<close>

record update_application_input =
  ua_name :: "string option"
  ua_rate_limit_per_minute :: "int option"
  ua_rate_limit_burst :: "int option"
  ua_daily_send_limit :: "int option option"
  ua_default_maximum_attempts :: "int option"
  ua_unknown_outcome_policy :: "unknown_outcome_policy option"

definition given :: "'a option \<Rightarrow> 'a \<Rightarrow> 'a" where
  "given new_value old_value = (case new_value of None \<Rightarrow> old_value | Some v \<Rightarrow> v)"

definition set_application :: "update_application_input \<Rightarrow> millis \<Rightarrow> application \<Rightarrow> application" where
  "set_application input now a =
     a\<lparr>ap_name := given (ua_name input) (ap_name a),
       ap_rate_limit_per_minute := given (ua_rate_limit_per_minute input) (ap_rate_limit_per_minute a),
       ap_rate_limit_burst := given (ua_rate_limit_burst input) (ap_rate_limit_burst a),
       ap_daily_send_limit := given (ua_daily_send_limit input) (ap_daily_send_limit a),
       ap_default_maximum_attempts :=
         given (ua_default_maximum_attempts input) (ap_default_maximum_attempts a),
       ap_unknown_outcome_policy := given (ua_unknown_outcome_policy input) (ap_unknown_outcome_policy a),
       ap_updated_at := of_date now\<rparr>"

definition repository_update_application ::
  "uuid \<Rightarrow> uuid \<Rightarrow> update_application_input \<Rightarrow> application option tx" where
  "repository_update_application organization_id application_id input w =
     (let p = is_own_application organization_id application_id;
          f = set_application input (w_clock w)
      in if \<not> list_all (\<lambda>a. check_application (f a)) (filter p (w_applications w))
         then Inl (ConstraintViolation ''applications_check'')
         else Inr (sql_returning p f (w_applications w),
                   w\<lparr>w_applications := sql_update p f (w_applications w)\<rparr>))"

definition repository_archive_application :: "uuid \<Rightarrow> uuid \<Rightarrow> millis \<Rightarrow> bool tx" where
  "repository_archive_application organization_id application_id now w =
     (let p = is_own_application organization_id application_id
      in Inr (list_ex p (w_applications w),
              w\<lparr>w_applications := sql_update p
                 (\<lambda>a. a\<lparr>ap_archived_at := Some now, ap_updated_at := of_date now\<rparr>) (w_applications w)\<rparr>))"

section \<open>The service\<close>

text \<open>\<open>try ... catch\<close> around one statement.\<close>

definition tx_catch :: "(exn \<Rightarrow> exn) \<Rightarrow> 'r tx \<Rightarrow> 'r tx" where
  "tx_catch h t w = (case t w of Inl e \<Rightarrow> Inl (h e) | Inr x \<Rightarrow> Inr x)"

definition slug_taken :: "exn \<Rightarrow> exn" where
  "slug_taken e =
     (if e = ConstraintViolation ''applications_organization_slug_unique''
      then DomainError ''application_slug_taken'' ''An application with that identifier already exists.''
      else e)"

definition application_not_found :: exn where
  "application_not_found = DomainError ''application_not_found'' ''That application does not exist.''"

definition create_application :: "config \<Rightarrow> application_values \<Rightarrow> application prog" where
  "create_application c input = atomically (tx_catch slug_taken (insert_application c input)) Done"

definition list_applications :: "uuid \<Rightarrow> application list prog" where
  "list_applications organization_id = reading (list_for_organization organization_id) Done"

definition get_application_or_fail :: "uuid \<Rightarrow> uuid \<Rightarrow> application prog" where
  "get_application_or_fail organization_id application_id =
     reading (find_application organization_id application_id) (\<lambda>found.
     case found of None \<Rightarrow> Raise application_not_found | Some a \<Rightarrow> Done a)"

definition update_application ::
  "uuid \<Rightarrow> uuid \<Rightarrow> update_application_input \<Rightarrow> application prog" where
  "update_application organization_id application_id input =
     atomically (repository_update_application organization_id application_id input) (\<lambda>updated.
     case updated of None \<Rightarrow> Raise application_not_found | Some a \<Rightarrow> Done a)"

definition archive_application :: "uuid \<Rightarrow> uuid \<Rightarrow> unit prog" where
  "archive_application organization_id application_id =
     clock_now (\<lambda>now.
     atomically (repository_archive_application organization_id application_id now) (\<lambda>was_archived.
     if was_archived then Done () else Raise application_not_found))"

section \<open>Tenants are separate\<close>

text \<open>The applications another organization owns.\<close>

definition others :: "uuid \<Rightarrow> world \<Rightarrow> application list" where
  "others organization_id w = filter (\<lambda>a. ap_organization_id a \<noteq> organization_id) (w_applications w)"

lemma others_update:
  assumes "\<And>a. p a \<Longrightarrow> ap_organization_id a = organization_id \<and> ap_organization_id (f a) = organization_id"
  shows "filter (\<lambda>a. ap_organization_id a \<noteq> organization_id) (sql_update p f rows)
    = filter (\<lambda>a. ap_organization_id a \<noteq> organization_id) rows"
  using assms by (induction rows) (auto simp: sql_update_def)

lemma set_application_kept [simp]:
  "ap_organization_id (set_application input now a) = ap_organization_id a"
  "ap_id (set_application input now a) = ap_id a"
  "ap_archived_at (set_application input now a) = ap_archived_at a"
  by (simp_all add: set_application_def)

text \<open>
  One organization cannot touch or see another's application. Naming an application of another
  organization is answered as if it did not exist and changes nothing, whether it is read, updated
  or archived; and what an organization lists is its own and not archived.
\<close>

theorem tenants_are_separate:
  assumes "\<forall>a \<in> set (w_applications w). ap_id a = application_id \<longrightarrow> ap_organization_id a \<noteq> organization_id"
  shows "run (get_application_or_fail organization_id application_id) env w = (Threw application_not_found, w)
    \<and> run (update_application organization_id application_id input) env w = (Threw application_not_found, w)
    \<and> run (archive_application organization_id application_id) env w = (Threw application_not_found, w)
    \<and> (\<exists>own. run (list_applications organization_id) env w = (Returned own, w)
         \<and> (\<forall>a \<in> set own. ap_organization_id a = organization_id \<and> ap_archived_at a = None))"
proof -
  have none: "\<forall>a \<in> set (w_applications w). \<not> is_own_application organization_id application_id a"
    using assms by (auto simp: is_own_application_def)
  then have hits: "filter (is_own_application organization_id application_id) (w_applications w) = []"
    by (simp add: filter_empty_conv)
  have "run (get_application_or_fail organization_id application_id) env w = (Threw application_not_found, w)"
    using none by (simp add: get_application_or_fail_def find_application_def step_simps
        sql_first_None [THEN iffD2])
  moreover have "run (update_application organization_id application_id input) env w
      = (Threw application_not_found, w)"
    using none hits by (simp add: update_application_def repository_update_application_def step_simps Let_def
        sql_returning_None [THEN iffD2] sql_update_none)
  moreover have "run (archive_application organization_id application_id) env w
      = (Threw application_not_found, w)"
    using none by (auto simp: archive_application_def repository_archive_application_def step_simps Let_def
        list_ex_iff sql_update_none)
  moreover have "run (list_applications organization_id) env w = (Returned (list_for_organization organization_id w), w)"
    by (simp add: list_applications_def step_simps)
  ultimately show ?thesis
    by (simp add: list_for_organization_def)
qed

theorem tenants_are_separate_witness:
  "run (archive_application ''other'' ''app'') example_env example_world
     = (Threw application_not_found, example_world)"
  using tenants_are_separate [of example_world "''app''" "''other''" example_env]
  by (auto simp: example_world_def example_application_def)

section \<open>The limits of an application\<close>

text \<open>
  What the table keeps of its rows, and what every service keeps of the table: each row's limits are
  in their ranges, identifiers of an organization are unique, and no row changes its owner.
\<close>

definition sound_applications :: "world \<Rightarrow> bool" where
  "sound_applications w =
     (list_all check_application (w_applications w)
      \<and> distinct (map (\<lambda>a. (ap_organization_id a, ap_slug a)) (w_applications w)))"

definition owners :: "world \<Rightarrow> (uuid \<times> uuid) list" where
  "owners w = map (\<lambda>a. (ap_id a, ap_organization_id a)) (w_applications w)"

definition keeps_owners :: "world \<Rightarrow> world \<Rightarrow> bool" where
  "keeps_owners w w' = (take (length (owners w)) (owners w') = owners w)"

definition tenancy_error :: "exn \<Rightarrow> bool" where
  "tenancy_error e =
     (e \<in> {application_not_found,
           DomainError ''application_slug_taken'' ''An application with that identifier already exists.'',
           ConstraintViolation ''applications_check'',
           ConstraintViolation ''applications_organization_id_organizations_id_fk''})"

interpretation applications: effect_frame sound_applications keeps_owners tenancy_error
proof
  show "keeps_owners w w" for w by (simp add: keeps_owners_def)
  show "keeps_owners u w" if "keeps_owners u v" and "keeps_owners v w" for u v w
    using that unfolding keeps_owners_def by (rule take_prefix_trans)
qed

lemma application_update_keeps:
  assumes "sound_applications w" and "\<And>a. ap_id (f a) = ap_id a" and "\<And>a. ap_slug (f a) = ap_slug a"
    and "\<And>a. ap_organization_id (f a) = ap_organization_id a"
    and "\<And>a. a \<in> set (w_applications w) \<Longrightarrow> p a \<Longrightarrow> check_application a \<Longrightarrow> check_application (f a)"
  shows "sound_applications (w\<lparr>w_applications := sql_update p f (w_applications w)\<rparr>)
    \<and> keeps_owners w (w\<lparr>w_applications := sql_update p f (w_applications w)\<rparr>)"
proof -
  have "map (\<lambda>a. (ap_organization_id a, ap_slug a)) (sql_update p f rows)
      = map (\<lambda>a. (ap_organization_id a, ap_slug a)) rows" for rows
    using assms(3,4) by (simp add: sql_update_def)
  moreover have "owners (w\<lparr>w_applications := sql_update p f (w_applications w)\<rparr>) = owners w"
    using assms(2,4) by (simp add: owners_def sql_update_def)
  ultimately show ?thesis
    using assms(1,5) by (auto simp: sound_applications_def keeps_owners_def list_all_iff Ball_sql_update)
qed

lemma commits_insert_application:
  "commits sound_applications keeps_owners tenancy_error (tx_catch slug_taken (insert_application c input))"
  by (rule commitsI)
    (auto simp: tx_catch_def insert_application_def tx_bind_def new_identifier_def Let_def
      sound_applications_def keeps_owners_def owners_def check_application_def tenancy_error_def
      slug_taken_def list_ex_iff split: if_splits)

lemma commits_update_application:
  "commits sound_applications keeps_owners tenancy_error (repository_update_application g i input)"
proof (rule commitsI)
  fix w r w'
  assume w: "sound_applications w" and u: "repository_update_application g i input w = Inr (r, w')"
  then have w': "w' = w\<lparr>w_applications := sql_update (is_own_application g i)
        (set_application input (w_clock w)) (w_applications w)\<rparr>"
    and ok: "\<And>a. a \<in> set (w_applications w) \<Longrightarrow> is_own_application g i a \<Longrightarrow>
        check_application (set_application input (w_clock w) a)"
    by (auto simp: repository_update_application_def Let_def list_all_iff split: if_splits)
  show "sound_applications w' \<and> keeps_owners w w'"
    unfolding w' by (rule application_update_keeps [OF w]) (use ok in \<open>auto simp: set_application_def\<close>)
qed (auto simp: repository_update_application_def Let_def tenancy_error_def split: if_splits)

lemma commits_archive_application:
  "commits sound_applications keeps_owners tenancy_error (repository_archive_application g i now)"
proof (rule commitsI)
  fix w r w'
  assume w: "sound_applications w" and u: "repository_archive_application g i now w = Inr (r, w')"
  then have w': "w' = w\<lparr>w_applications := sql_update (is_own_application g i)
        (\<lambda>a. a\<lparr>ap_archived_at := Some now, ap_updated_at := of_date now\<rparr>) (w_applications w)\<rparr>"
    by (simp add: repository_archive_application_def Let_def)
  show "sound_applications w' \<and> keeps_owners w w'"
    unfolding w' by (rule application_update_keeps [OF w]) (auto simp: check_application_def)
qed (simp add: repository_archive_application_def Let_def)

text \<open>
  Applications stay within their limits. In every interleaving, every operation on applications
  keeps the rates, the burst, the daily limit and the attempts of every application in their ranges
  and the identifiers within an organization unique, gives no application another owner, and fails
  only with the errors the service declares: a race for an identifier ends as a refusal.
\<close>

theorem applications_stay_within_limits:
  "safe sound_applications keeps_owners tenancy_error check_application (create_application c application_input)
   \<and> safe sound_applications keeps_owners tenancy_error (\<lambda>r. True) (update_application g i input)
   \<and> safe sound_applications keeps_owners tenancy_error (\<lambda>r. True) (archive_application g i)
   \<and> safe sound_applications keeps_owners tenancy_error (list_all check_application) (list_applications g)
   \<and> safe sound_applications keeps_owners tenancy_error check_application (get_application_or_fail g i)"
proof (intro conjI)
  have made: "check_application a" if "tx_catch slug_taken (insert_application c application_input) w = Inr (a, w')" for a w w'
    using that by (auto simp: tx_catch_def insert_application_def tx_bind_def new_identifier_def Let_def
        check_application_def split: if_splits sum.splits)
  show "safe sound_applications keeps_owners tenancy_error check_application (create_application c application_input)"
    unfolding create_application_def
    by (rule safe_atomically)
      (use commitsD [OF commits_insert_application] made applications.still in \<open>auto\<close>)
  show "safe sound_applications keeps_owners tenancy_error (\<lambda>r. True) (update_application g i input)"
    by (auto simp: update_application_def tenancy_error_def split: option.splits
        intro!: applications.safe_commits commits_update_application)
  show "safe sound_applications keeps_owners tenancy_error (\<lambda>r. True) (archive_application g i)"
    by (auto simp: archive_application_def tenancy_error_def
        intro!: applications.safe_clock applications.safe_commits commits_archive_application)
  show "safe sound_applications keeps_owners tenancy_error (list_all check_application) (list_applications g)"
    unfolding list_applications_def
    by (rule safe_reading) (auto simp: sound_applications_def list_for_organization_def list_all_iff applications.still)
  show "safe sound_applications keeps_owners tenancy_error check_application (get_application_or_fail g i)"
    unfolding get_application_or_fail_def
    by (rule safe_reading) (auto simp: sound_applications_def find_application_def list_all_iff tenancy_error_def
        applications.still split: option.splits dest!: sql_first_SomeD)
qed

end
