(* ===== verification/Authentication.thy ===== *)
theory Authentication
  imports Examples
begin

text \<open>
  Signing in to the dashboard: \<open>packages/composition/src/authentication/authentication.service.ts\<close>
  over the statements of \<open>user.repository.ts\<close>, \<open>user-session.repository.ts\<close> and
  \<open>organization.repository.ts\<close>. The password hash, the digest and the encoding of a session token and
  Postgres's \<open>lower\<close> are parameters.
\<close>

section \<open>Statements\<close>

record auth_runtime =
  au_registration_enabled :: bool
  au_absolute_lifetime_seconds :: int
  au_idle_lifetime_seconds :: int
  au_lower :: "string \<Rightarrow> string"
  au_hash_password :: "int \<Rightarrow> string \<Rightarrow> string"           \<comment> \<open>salt, password\<close>
  au_verify_password :: "string \<Rightarrow> string \<Rightarrow> bool option"   \<comment> \<open>\<^term>\<open>None\<close>: it throws\<close>
  au_session_token :: "int \<Rightarrow> string"                        \<comment> \<open>random bytes in base64url\<close>
  au_digest :: "string \<Rightarrow> string"

definition insert_organization :: "config \<Rightarrow> auth_runtime \<Rightarrow> string \<Rightarrow> string \<Rightarrow> organization tx" where
  "insert_organization c au name slug =
     tx_bind (new_identifier c) (\<lambda>i w.
     if list_ex (\<lambda>g. au_lower au (o_slug g) = au_lower au slug) (w_organizations w)
     then Inl (ConstraintViolation ''organizations_slug_unique'')
     else let g = \<lparr>o_id = i, o_name = name, o_slug = slug, o_created_at = w_db_clock w,
                   o_updated_at = w_db_clock w\<rparr>
          in Inr (g, w\<lparr>w_organizations := w_organizations w @ [g]\<rparr>))"

definition find_organization :: "uuid \<Rightarrow> world \<Rightarrow> organization option" where
  "find_organization organization_id w = sql_first (\<lambda>g. o_id g = organization_id) (w_organizations w)"

record user_values =
  uv_organization_id :: uuid
  uv_email :: string
  uv_password_hash :: string
  uv_name :: string
  uv_role :: user_role

definition insert_user :: "config \<Rightarrow> auth_runtime \<Rightarrow> user_values \<Rightarrow> user tx" where
  "insert_user c au input =
     tx_bind (new_identifier c) (\<lambda>i w.
     if list_ex (\<lambda>u. au_lower au (u_email u) = au_lower au (uv_email input)) (w_users w)
     then Inl (ConstraintViolation ''users_email_unique'')
     else if \<not> list_ex (\<lambda>g. o_id g = uv_organization_id input) (w_organizations w)
     then Inl (ConstraintViolation ''users_organization_id_organizations_id_fk'')
     else let u = \<lparr>u_id = i, u_organization_id = uv_organization_id input, u_email = uv_email input,
            u_password_hash = uv_password_hash input, u_name = uv_name input, u_role = uv_role input,
            u_status = USER_ACTIVE, u_failed_login_count = 0, u_locked_until = None,
            u_last_login_at = None, u_created_at = w_db_clock w, u_updated_at = w_db_clock w\<rparr>
          in Inr (u, w\<lparr>w_users := w_users w @ [u]\<rparr>))"

definition find_by_email :: "auth_runtime \<Rightarrow> string \<Rightarrow> world \<Rightarrow> user option" where
  "find_by_email au email w =
     sql_first (\<lambda>u. au_lower au (u_email u) = au_lower au email) (w_users w)"

definition find_user :: "uuid \<Rightarrow> world \<Rightarrow> user option" where
  "find_user user_id w = sql_first (\<lambda>u. u_id u = user_id) (w_users w)"

definition record_successful_login :: "uuid \<Rightarrow> millis \<Rightarrow> world \<Rightarrow> world" where
  "record_successful_login user_id login_at w =
     w\<lparr>w_users := sql_update (\<lambda>u. u_id u = user_id)
        (\<lambda>u. u\<lparr>u_last_login_at := Some login_at, u_failed_login_count := 0, u_locked_until := None,
               u_updated_at := of_date login_at\<rparr>) (w_users w)\<rparr>"

definition record_failed_login :: "uuid \<Rightarrow> millis option \<Rightarrow> world \<Rightarrow> world" where
  "record_failed_login user_id lock_until w =
     w\<lparr>w_users := sql_update (\<lambda>u. u_id u = user_id)
        (\<lambda>u. u\<lparr>u_failed_login_count := u_failed_login_count u + 1, u_locked_until := lock_until,
               u_updated_at := of_date (w_clock w)\<rparr>) (w_users w)\<rparr>"

record session_values =
  sv_user_id :: uuid
  sv_token_hash :: string
  sv_absolute_expires_at :: millis
  sv_idle_expires_at :: millis
  sv_ip_address :: "string option"
  sv_user_agent :: "string option"

definition insert_user_session :: "config \<Rightarrow> session_values \<Rightarrow> uuid tx" where
  "insert_user_session c input =
     tx_bind (new_identifier c) (\<lambda>i w.
     if list_ex (\<lambda>s. us_id s = i) (w_user_sessions w)
     then Inl (ConstraintViolation ''user_sessions_pkey'')
     else if list_ex (\<lambda>s. us_token_hash s = sv_token_hash input) (w_user_sessions w)
     then Inl (ConstraintViolation ''user_sessions_token_hash_unique'')
     else if \<not> list_ex (\<lambda>u. u_id u = sv_user_id input) (w_users w)
     then Inl (ConstraintViolation ''user_sessions_user_id_users_id_fk'')
     else Inr (i, w\<lparr>w_user_sessions := w_user_sessions w @
       [\<lparr>us_id = i, us_user_id = sv_user_id input, us_token_hash = sv_token_hash input,
         us_absolute_expires_at = sv_absolute_expires_at input,
         us_idle_expires_at = sv_idle_expires_at input, us_ip_address = sv_ip_address input,
         us_user_agent = sv_user_agent input, us_created_at = w_db_clock w,
         us_last_used_at = w_db_clock w, us_revoked_at = None\<rparr>]\<rparr>))"

definition is_live_session :: "string \<Rightarrow> millis \<Rightarrow> user_session \<Rightarrow> bool" where
  "is_live_session token_hash now s =
     (us_token_hash s = token_hash \<and> us_revoked_at s = None \<and> us_idle_expires_at s > now
      \<and> us_absolute_expires_at s > now)"

text \<open>The inner joins: a session whose user or organization is missing is not found.\<close>

definition find_active_by_token_hash ::
  "string \<Rightarrow> millis \<Rightarrow> world \<Rightarrow> (user_session \<times> user \<times> organization) option" where
  "find_active_by_token_hash token_hash now w =
     sql_first (\<lambda>(s, u, g). u_id u = us_user_id s \<and> o_id g = u_organization_id u
                  \<and> is_live_session token_hash now s)
       (List.product (w_user_sessions w) (List.product (w_users w) (w_organizations w)))"

definition touch_session :: "uuid \<Rightarrow> millis \<Rightarrow> millis \<Rightarrow> world \<Rightarrow> world" where
  "touch_session session_id idle_expires_at now w =
     w\<lparr>w_user_sessions := sql_update (\<lambda>s. us_id s = session_id)
        (\<lambda>s. s\<lparr>us_idle_expires_at := idle_expires_at, us_last_used_at := of_date now\<rparr>)
        (w_user_sessions w)\<rparr>"

definition revoke_session :: "uuid \<Rightarrow> millis \<Rightarrow> world \<Rightarrow> world" where
  "revoke_session session_id now w =
     w\<lparr>w_user_sessions := sql_update (\<lambda>s. us_id s = session_id \<and> us_revoked_at s = None)
        (\<lambda>s. s\<lparr>us_revoked_at := Some now\<rparr>) (w_user_sessions w)\<rparr>"

definition revoke_all_for_user :: "uuid \<Rightarrow> millis \<Rightarrow> int tx" where
  "revoke_all_for_user user_id now w =
     (let p = (\<lambda>s. us_user_id s = user_id \<and> us_revoked_at s = None)
      in Inr (int (length (filter p (w_user_sessions w))),
              w\<lparr>w_user_sessions := sql_update p (\<lambda>s. s\<lparr>us_revoked_at := Some now\<rparr>)
                 (w_user_sessions w)\<rparr>))"

definition delete_expired_sessions :: "millis \<Rightarrow> int tx" where
  "delete_expired_sessions now w =
     Inr (int (length (filter (\<lambda>s. us_absolute_expires_at s < now) (w_user_sessions w))),
          w\<lparr>w_user_sessions := filter (\<lambda>s. \<not> us_absolute_expires_at s < now) (w_user_sessions w)\<rparr>)"

section \<open>Names in addresses\<close>

text \<open>
  \<open>toSlug\<close>: every run of characters that are not letters or digits becomes one hyphen, hyphens at the
  ends go, and sixty characters stay. Letters outside a-z never survive, whatever their lower case.
\<close>

definition is_slug_character :: "char \<Rightarrow> bool" where
  "is_slug_character c = (is_digit c \<or> 97 \<le> char_code c \<and> char_code c \<le> 122)"

fun hyphenate :: "bool \<Rightarrow> string \<Rightarrow> string" where
  "hyphenate in_run [] = []"
| "hyphenate in_run (c # cs) =
     (if is_slug_character c then c # hyphenate False cs
      else if in_run then hyphenate True cs else CHR ''-'' # hyphenate True cs)"

definition strip_hyphens :: "string \<Rightarrow> string" where
  "strip_hyphens s =
     rev (dropWhile (\<lambda>c. c = CHR ''-'') (rev (dropWhile (\<lambda>c. c = CHR ''-'') s)))"

definition to_slug :: "string \<Rightarrow> string" where
  "to_slug v = take 60 (strip_hyphens (hyphenate False (map to_lower v)))"

definition base36_digit :: "nat \<Rightarrow> char" where
  "base36_digit d = (if d < 10 then char_of (48 + d) else char_of (87 + d))"

fun to_base36 :: "nat \<Rightarrow> string" where
  "to_base36 n = (if n < 36 then [base36_digit n] else to_base36 (n div 36) @ [base36_digit (n mod 36)])"

declare to_base36.simps [simp del]

definition base36_of_int :: "int \<Rightarrow> string" where
  "base36_of_int i = (if i < 0 then CHR ''-'' # to_base36 (nat (- i)) else to_base36 (nat i))"

section \<open>The service\<close>

definition maximum_failed_logins :: int where
  "maximum_failed_logins = 10"

definition lockout_minutes :: int where
  "lockout_minutes = 15"

record authenticated_principal =
  pr_user_id :: uuid
  pr_organization_id :: uuid
  pr_organization_name :: string
  pr_organization_slug :: string
  pr_email :: string
  pr_name :: string
  pr_role :: user_role
  pr_session_id :: uuid

record established_session =
  es_token :: string
  es_expires_at :: millis
  es_principal :: authenticated_principal

definition principal_of :: "user \<Rightarrow> organization \<Rightarrow> uuid \<Rightarrow> authenticated_principal" where
  "principal_of u g session_id =
     \<lparr>pr_user_id = u_id u, pr_organization_id = o_id g, pr_organization_name = o_name g,
      pr_organization_slug = o_slug g, pr_email = u_email u, pr_name = u_name u, pr_role = u_role u,
      pr_session_id = session_id\<rparr>"

definition establish_session ::
  "config \<Rightarrow> auth_runtime \<Rightarrow> user \<Rightarrow> organization \<Rightarrow> string option \<Rightarrow> string option
     \<Rightarrow> established_session prog" where
  "establish_session c au u g ip_address user_agent =
     clock_now (\<lambda>now.
     Entropy (\<lambda>bytes.
     let token = au_session_token au bytes;
         absolute_expires_at = now + au_absolute_lifetime_seconds au * 1000;
         idle_expires_at = now + au_idle_lifetime_seconds au * 1000
     in atomically (insert_user_session c
          \<lparr>sv_user_id = u_id u, sv_token_hash = au_digest au token,
           sv_absolute_expires_at = absolute_expires_at,
           sv_idle_expires_at =
             (if idle_expires_at > absolute_expires_at then absolute_expires_at else idle_expires_at),
           sv_ip_address = ip_address, sv_user_agent = user_agent\<rparr>) (\<lambda>session_id.
        Done \<lparr>es_token = token, es_expires_at = absolute_expires_at,
              es_principal = principal_of u g session_id\<rparr>)))"

definition logout :: "uuid \<Rightarrow> unit prog" where
  "logout session_id = clock_now (\<lambda>now. writing (revoke_session session_id now) (Done ()))"

record register_input =
  ri_organization_name :: string
  ri_name :: string
  ri_email :: string
  ri_password :: string

definition register :: "config \<Rightarrow> auth_runtime \<Rightarrow> register_input \<Rightarrow> established_session prog" where
  "register c au input =
     (if \<not> au_registration_enabled au
      then Raise (DomainError ''registration_disabled'' ''Registration is disabled on this instance.'')
      else reading (find_by_email au (ri_email input)) (\<lambda>existing.
        if existing \<noteq> None
        then Raise (DomainError ''email_already_registered'' ''That email address is already in use.'')
        else clock_now (\<lambda>date_now.
          atomically (insert_organization c au (ri_organization_name input)
              (to_slug (ri_organization_name input) @ ''-'' @ base36_of_int date_now)) (\<lambda>g.
          Entropy (\<lambda>salt.
          atomically (insert_user c au
            \<lparr>uv_organization_id = o_id g, uv_email = ri_email input,
             uv_password_hash = au_hash_password au salt (ri_password input),
             uv_name = ri_name input, uv_role = OWNER\<rparr>) (\<lambda>u.
          establish_session c au u g None None))))))"

record login_input =
  li_email :: string
  li_password :: string
  li_ip_address :: "string option"
  li_user_agent :: "string option"

definition invalid_credentials :: exn where
  "invalid_credentials =
     DomainError ''invalid_credentials'' ''The email address or password is incorrect.''"

definition account_disabled :: exn where
  "account_disabled = DomainError ''account_disabled'' ''This account has been disabled.''"

definition account_locked :: exn where
  "account_locked = DomainError ''account_locked'' ''Too many failed attempts. Try again later.''"

text \<open>\<open>isPasswordValid\<close>: a stored hash that cannot be read denies.\<close>

definition is_password_valid :: "auth_runtime \<Rightarrow> string \<Rightarrow> string \<Rightarrow> bool" where
  "is_password_valid au stored_hash plain_text_password =
     (case au_verify_password au stored_hash plain_text_password of None \<Rightarrow> False | Some b \<Rightarrow> b)"

definition login :: "config \<Rightarrow> auth_runtime \<Rightarrow> login_input \<Rightarrow> established_session prog" where
  "login c au input =
     reading (find_by_email au (li_email input)) (\<lambda>found.
     clock_now (\<lambda>now.
     case found of
       None \<Rightarrow> Entropy (\<lambda>salt. Raise invalid_credentials)
     | Some u \<Rightarrow>
         if u_status u \<noteq> USER_ACTIVE then Raise account_disabled
         else if (case u_locked_until u of None \<Rightarrow> False | Some t \<Rightarrow> t > now) then Raise account_locked
         else if \<not> is_password_valid au (u_password_hash u) (li_password input)
         then let attempts = u_failed_login_count u + 1;
                  lock_until = (if attempts \<ge> maximum_failed_logins
                                then Some (now + lockout_minutes * 60000) else None)
              in writing (record_failed_login (u_id u) lock_until) (Raise invalid_credentials)
         else writing (record_successful_login (u_id u) now)
           (reading (find_organization (u_organization_id u)) (\<lambda>organization.
            case organization of
              None \<Rightarrow> Raise invalid_credentials
            | Some g \<Rightarrow> establish_session c au u g (li_ip_address input) (li_user_agent input)))))"

definition resolve_user_session :: "auth_runtime \<Rightarrow> string \<Rightarrow> authenticated_principal option prog" where
  "resolve_user_session au token =
     clock_now (\<lambda>now.
     reading (find_active_by_token_hash (au_digest au token) now) (\<lambda>found.
     case found of
       None \<Rightarrow> Done None
     | Some (s, u, g) \<Rightarrow>
         if u_status u \<noteq> USER_ACTIVE then Done None
         else let next_idle_expiry = now + au_idle_lifetime_seconds au * 1000;
                  capped_idle_expiry = (if next_idle_expiry > us_absolute_expires_at s
                    then us_absolute_expires_at s else next_idle_expiry)
              in writing (touch_session (us_id s) capped_idle_expiry now)
                   (Done (Some \<lparr>pr_user_id = u_id u, pr_organization_id = u_organization_id u,
                     pr_organization_name = o_name g, pr_organization_slug = o_slug g,
                     pr_email = u_email u, pr_name = u_name u, pr_role = u_role u,
                     pr_session_id = us_id s\<rparr>))))"

section \<open>Failed attempts\<close>

lemma sql_first_update_same:
  assumes "sql_first q rows = Some r" and "\<And>x. q (f x) = q x" and "p r"
  shows "sql_first q (sql_update p f rows) = Some (f r)"
  using assms by (induction rows) (auto simp: sql_first_def sql_update_def split: if_splits)

lemma find_by_email_failed:
  "find_by_email au email w = Some u \<Longrightarrow>
     find_by_email au email (record_failed_login (u_id u) lock w)
       = Some (u\<lparr>u_failed_login_count := u_failed_login_count u + 1, u_locked_until := lock,
                 u_updated_at := of_date (w_clock w)\<rparr>)"
  unfolding find_by_email_def record_failed_login_def
  by (simp add: sql_first_update_same)

lemma clock_failed [simp]: "w_clock (record_failed_login i lock w) = w_clock w"
  by (simp add: record_failed_login_def)

definition may_try :: "user \<Rightarrow> millis \<Rightarrow> bool" where
  "may_try u now = (u_status u = USER_ACTIVE \<and> (\<forall>t. u_locked_until u = Some t \<longrightarrow> t \<le> now))"

lemma wrong_password:
  assumes "find_by_email au (li_email input) w = Some u" and "may_try u (w_clock w)"
    and "\<not> is_password_valid au (u_password_hash u) (li_password input)"
  shows "run (login c au input) env w = (Threw invalid_credentials,
    record_failed_login (u_id u)
      (if u_failed_login_count u + 1 \<ge> 10 then Some (w_clock w + 900000) else None) w)"
  using assms by (auto simp: login_def step_simps may_try_def maximum_failed_logins_def
      lockout_minutes_def Let_def split: option.splits)

text \<open>The same wrong sign-in, again and again.\<close>

definition retried :: "config \<Rightarrow> auth_runtime \<Rightarrow> login_input \<Rightarrow> env \<Rightarrow> nat \<Rightarrow> world \<Rightarrow> world" where
  "retried c au input env n w = ((\<lambda>v. snd (run (login c au input) env v)) ^^ n) w"

lemma retried_Suc: "retried c au input env (Suc n) w = snd (run (login c au input) env (retried c au input env n w))"
  by (simp add: retried_def)

lemma after_wrong_passwords:
  assumes u: "find_by_email au (li_email input) w = Some u" "u_status u = USER_ACTIVE"
    "u_locked_until u = None" "u_failed_login_count u = 0"
    and wrong: "\<not> is_password_valid au (u_password_hash u) (li_password input)"
  shows "n \<le> 10 \<Longrightarrow> \<exists>v. find_by_email au (li_email input) (retried c au input env n w) = Some v
    \<and> u_status v = USER_ACTIVE \<and> u_password_hash v = u_password_hash u \<and> u_failed_login_count v = int n
    \<and> u_locked_until v = (if n = 10 then Some (w_clock w + 900000) else None)
    \<and> w_clock (retried c au input env n w) = w_clock w"
proof (induction n)
  case 0
  with u show ?case by (simp add: retried_def)
next
  case (Suc n)
  then obtain v where v: "find_by_email au (li_email input) (retried c au input env n w) = Some v"
    "u_status v = USER_ACTIVE" "u_password_hash v = u_password_hash u" "u_failed_login_count v = int n"
    "u_locked_until v = None" "w_clock (retried c au input env n w) = w_clock w"
    by auto
  have "run (login c au input) env (retried c au input env n w) = (Threw invalid_credentials,
      record_failed_login (u_id v)
        (if int n + 1 \<ge> 10 then Some (w_clock w + 900000) else None) (retried c au input env n w))"
    using wrong_password [OF v(1)] v wrong by (simp add: may_try_def)
  then show ?case
    using find_by_email_failed [OF v(1)] v Suc.prems by (auto simp: retried_Suc)
qed

text \<open>
  Ten wrong passwords in a row lock the account. Starting from an account without failures, the
  tenth wrong password locks it for fifteen minutes, none of the first nine does, and while it is
  locked every further attempt is refused and changes nothing, even one with the right password.
\<close>

theorem ten_wrong_passwords_lock:
  assumes "find_by_email au (li_email input) w = Some u" and "u_status u = USER_ACTIVE"
    and "u_locked_until u = None" and "u_failed_login_count u = 0"
    and "\<not> is_password_valid au (u_password_hash u) (li_password input)"
    and "li_email right = li_email input"
  shows "(\<forall>n < 10. \<exists>v. find_by_email au (li_email input) (retried c au input env n w) = Some v
      \<and> u_locked_until v = None \<and> u_failed_login_count v = int n)
    \<and> run (login c au right) env' (retried c au input env 10 w)
        = (Threw account_locked, retried c au input env 10 w)"
proof
  show "\<forall>n < 10. \<exists>v. find_by_email au (li_email input) (retried c au input env n w) = Some v
      \<and> u_locked_until v = None \<and> u_failed_login_count v = int n"
  proof (intro allI impI)
    fix n :: nat assume "n < 10"
    with after_wrong_passwords [OF assms(1-5), of n c env]
    show "\<exists>v. find_by_email au (li_email input) (retried c au input env n w) = Some v
        \<and> u_locked_until v = None \<and> u_failed_login_count v = int n" by auto
  qed
  from after_wrong_passwords [OF assms(1-5), of 10 c env] assms(6)
  show "run (login c au right) env' (retried c au input env 10 w)
        = (Threw account_locked, retried c au input env 10 w)"
    by (auto simp: login_def step_simps)
qed

text \<open>What a program does after its first effect, which it has made in the state \<open>w\<close>.\<close>

fun after_first_effect :: "'a prog \<Rightarrow> world \<Rightarrow> 'a prog" where
  "after_first_effect (Act f g) w = g w"
| "after_first_effect p w = p"

text \<open>
  C31: A slow attempt lifts the lock. The count is incremented in the database, but whether to lock is
  decided from the row read before the password was checked: an attempt that read fewer than nine
  failures and finishes after others have locked the account clears the lock, so the limit of ten
  does not hold for attempts made at the same time.
\<close>

theorem slow_attempt_lifts_the_lock:
  assumes "find_by_email au (li_email input) w = Some u" and "may_try u (w_clock w)"
    and "u_failed_login_count u < 9"
    and "\<not> is_password_valid au (u_password_hash u) (li_password input)"
    and "find_by_email au (li_email input) v = Some locked" and "u_id locked = u_id u"
    and "u_locked_until locked = Some t" and "w_clock w \<le> w_clock v"
  shows "\<exists>v' u'. run (after_first_effect (login c au input) w) env v = (Threw invalid_credentials, v')
    \<and> find_by_email au (li_email input) v' = Some u' \<and> u_locked_until u' = None"
proof -
  have "run (after_first_effect (login c au input) w) env v
      = (Threw invalid_credentials, record_failed_login (u_id u) None v)"
    using assms(1-4,8)
    by (auto simp: login_def reading_def step_simps may_try_def maximum_failed_logins_def Let_def
        split: option.splits)
  with find_by_email_failed [OF assms(5)] assms(6) show ?thesis by simp
qed

text \<open>
  A wrong password and an unknown address are answered alike, as long as the account may try: the
  caller gets the same error, and no session is made.
\<close>

theorem unknown_address_answers_like_wrong_password:
  assumes "find_by_email au (li_email unknown) w = None"
    and "find_by_email au (li_email wrong) w = Some u" and "may_try u (w_clock w)"
    and "\<not> is_password_valid au (u_password_hash u) (li_password wrong)"
  shows "fst (run (login c au unknown) env w) = fst (run (login c au wrong) env w)
    \<and> w_user_sessions (snd (run (login c au unknown) env w)) = w_user_sessions w
    \<and> w_user_sessions (snd (run (login c au wrong) env w)) = w_user_sessions w"
  using assms wrong_password [OF assms(2-4), of c env]
  by (simp add: login_def step_simps after_call_def record_failed_login_def)

section \<open>Sessions\<close>

lemma find_active_live:
  assumes "find_active_by_token_hash h now w = Some (s, u, g)"
  shows "s \<in> set (w_user_sessions w) \<and> u \<in> set (w_users w) \<and> g \<in> set (w_organizations w)
    \<and> u_id u = us_user_id s \<and> o_id g = u_organization_id u \<and> is_live_session h now s"
  using sql_first_SomeD [OF assms [unfolded find_active_by_token_hash_def]] by simp

lemma find_active_session_only:
  assumes "distinct (map us_token_hash (w_user_sessions w))" and "distinct (map u_id (w_users w))"
    and "distinct (map o_id (w_organizations w))"
    and "s \<in> set (w_user_sessions w)" and "u \<in> set (w_users w)" and "g \<in> set (w_organizations w)"
    and "u_id u = us_user_id s" and "o_id g = u_organization_id u" and "is_live_session h now s"
  shows "find_active_by_token_hash h now w = Some (s, u, g)"
  unfolding find_active_by_token_hash_def
proof (rule sql_first_only)
  fix y assume y: "y \<in> set (List.product (w_user_sessions w) (List.product (w_users w) (w_organizations w)))"
    "case y of (s, u, g) \<Rightarrow> u_id u = us_user_id s \<and> o_id g = u_organization_id u \<and> is_live_session h now s"
  obtain s' u' g' where y': "y = (s', u', g')" by (cases y)
  have "s' = s"
    by (rule row_by_key [OF assms(1)]) (use y y' assms in \<open>auto simp: is_live_session_def\<close>)
  moreover from this have "u' = u"
    by (intro row_by_key [OF assms(2)]) (use y y' assms in auto)
  moreover from this have "g' = g"
    by (intro row_by_key [OF assms(3)]) (use y y' assms in auto)
  ultimately show "y = (s, u, g)" using y' by simp
qed (use assms in simp_all)

lemma login_succeeds:
  assumes "run (login c au input) env w = (Returned es, w')"
  obtains u g v where "find_by_email au (li_email input) w = Some u"
    and "find_organization (u_organization_id u) w = Some g"
    and "run (establish_session c au u g (li_ip_address input) (li_user_agent input)) env
      (record_successful_login (u_id u) (w_clock w) w) = (Returned es, w')"
  using assms
  by (auto simp: login_def step_simps find_organization_def record_successful_login_def Let_def
      split: option.splits if_splits)

lemma establish_session_result:
  assumes "run (establish_session c au u g ip agent) env w = (Returned es, w')"
  shows "\<exists>s. w_user_sessions w' = w_user_sessions w @ [s] \<and> us_user_id s = u_id u
    \<and> us_token_hash s = au_digest au (es_token es) \<and> us_revoked_at s = None
    \<and> (\<forall>x \<in> set (w_user_sessions w). us_token_hash x \<noteq> us_token_hash s)
    \<and> us_absolute_expires_at s = w_clock w + au_absolute_lifetime_seconds au * 1000
    \<and> us_idle_expires_at s = w_clock w + min (au_absolute_lifetime_seconds au) (au_idle_lifetime_seconds au) * 1000
    \<and> es_principal es = principal_of u g (us_id s)
    \<and> w_users w' = w_users w \<and> w_organizations w' = w_organizations w"
  using assms
  by (auto simp: establish_session_def step_simps insert_user_session_def tx_bind_def
      new_identifier_def after_call_def Let_def list_ex_iff split: if_splits sum.splits)

lemma find_by_email_member:
  "find_by_email au email w = Some u \<Longrightarrow> u \<in> set (w_users w)"
  by (auto simp: find_by_email_def dest: sql_first_SomeD)

lemma user_ids_after_login [simp]:
  "map u_id (w_users (record_successful_login i t w)) = map u_id (w_users w)"
  "w_organizations (record_successful_login i t w) = w_organizations w"
  "w_user_sessions (record_successful_login i t w) = w_user_sessions w"
  "w_clock (record_successful_login i t w) = w_clock w"
  by (simp_all add: record_successful_login_def sql_update_def)

text \<open>
  Signing in opens a session. The token a successful sign-in returns resolves to the same
  principal until the idle or the absolute lifetime is over, in whatever later state the tables are
  still as they were left.
\<close>

theorem sign_in_opens_a_session:
  assumes "run (login c au input) env w = (Returned es, w')"
    and "distinct (map u_id (w_users w))" and "distinct (map o_id (w_organizations w))"
    and "distinct (map us_token_hash (w_user_sessions w))"
    and "w_clock w' < w_clock w + min (au_absolute_lifetime_seconds au) (au_idle_lifetime_seconds au) * 1000"
  shows "\<exists>v. run (resolve_user_session au (es_token es)) env' w' = (Returned (Some (es_principal es)), v)"
proof -
  obtain u g where u: "find_by_email au (li_email input) w = Some u"
    and g: "find_organization (u_organization_id u) w = Some g"
    and e: "run (establish_session c au u g (li_ip_address input) (li_user_agent input)) env
      (record_successful_login (u_id u) (w_clock w) w) = (Returned es, w')"
    by (rule login_succeeds [OF assms(1)])
  obtain s where s: "w_user_sessions w' = w_user_sessions w @ [s]" "us_user_id s = u_id u"
    "us_token_hash s = au_digest au (es_token es)" "us_revoked_at s = None"
    "\<forall>x \<in> set (w_user_sessions w). us_token_hash x \<noteq> us_token_hash s"
    "us_absolute_expires_at s = w_clock w + au_absolute_lifetime_seconds au * 1000"
    "us_idle_expires_at s = w_clock w + min (au_absolute_lifetime_seconds au) (au_idle_lifetime_seconds au) * 1000"
    "es_principal es = principal_of u g (us_id s)"
    "w_users w' = w_users (record_successful_login (u_id u) (w_clock w) w)"
    "w_organizations w' = w_organizations w"
    using establish_session_result [OF e] by auto
  let ?u = "u\<lparr>u_last_login_at := Some (w_clock w), u_failed_login_count := 0, u_locked_until := None,
      u_updated_at := of_date (w_clock w)\<rparr>"
  have "?u \<in> set (w_users w')"
    using sql_update_image [OF find_by_email_member [OF u], of "\<lambda>x. u_id x = u_id u"
        "\<lambda>u. u\<lparr>u_last_login_at := Some (w_clock w), u_failed_login_count := 0, u_locked_until := None,
          u_updated_at := of_date (w_clock w)\<rparr>"]
    by (simp add: s(9) record_successful_login_def)
  moreover have "g \<in> set (w_organizations w')" "o_id g = u_organization_id u"
    using g s(10) by (auto simp: find_organization_def dest: sql_first_SomeD)
  moreover have "u_status u = USER_ACTIVE"
    using assms(1) u by (auto simp: login_def step_simps split: if_splits)
  ultimately have "find_active_by_token_hash (au_digest au (es_token es)) (w_clock w') w' = Some (s, ?u, g)"
    using assms(2-5) s by (intro find_active_session_only) (auto simp: is_live_session_def min_def split: if_splits)
  with s(8) \<open>u_status u = USER_ACTIVE\<close> \<open>o_id g = _\<close> show ?thesis
    by (simp add: resolve_user_session_def step_simps principal_of_def Let_def)
qed

section \<open>Staying signed in\<close>

text \<open>The session of a sign-in is on file, with these two expiries, and so are its person and organization.\<close>

definition session_stands :: "auth_runtime \<Rightarrow> established_session \<Rightarrow> millis \<Rightarrow> millis \<Rightarrow> world \<Rightarrow> bool" where
  "session_stands au es idle absolute w =
     (\<exists>s u g. filter (\<lambda>s. us_token_hash s = au_digest au (es_token es)) (w_user_sessions w) = [s]
        \<and> filter (\<lambda>u. u_id u = pr_user_id (es_principal es)) (w_users w) = [u]
        \<and> filter (\<lambda>g. o_id g = pr_organization_id (es_principal es)) (w_organizations w) = [g]
        \<and> us_user_id s = u_id u \<and> us_revoked_at s = None
        \<and> us_idle_expires_at s = idle \<and> us_absolute_expires_at s = absolute
        \<and> u_organization_id u = o_id g \<and> u_status u = USER_ACTIVE
        \<and> es_principal es = principal_of u g (us_id s))"

text \<open>What others may do meanwhile: anything that leaves that session, person and organization alone.\<close>

definition account_kept :: "auth_runtime \<Rightarrow> established_session \<Rightarrow> world \<Rightarrow> world \<Rightarrow> bool" where
  "account_kept au es w w' =
     (filter (\<lambda>s. us_token_hash s = au_digest au (es_token es)) (w_user_sessions w')
        = filter (\<lambda>s. us_token_hash s = au_digest au (es_token es)) (w_user_sessions w)
      \<and> filter (\<lambda>u. u_id u = pr_user_id (es_principal es)) (w_users w')
        = filter (\<lambda>u. u_id u = pr_user_id (es_principal es)) (w_users w)
      \<and> filter (\<lambda>g. o_id g = pr_organization_id (es_principal es)) (w_organizations w')
        = filter (\<lambda>g. o_id g = pr_organization_id (es_principal es)) (w_organizations w))"

lemma signed_in_kept: "session_stands au es idle absolute w \<Longrightarrow> account_kept au es w w' \<Longrightarrow> session_stands au es idle absolute w'"
  by (simp add: session_stands_def account_kept_def)

lemma filter_only:
  assumes "distinct (map key rows)" and "r \<in> set rows"
  shows "filter (\<lambda>x. key x = key r) rows = [r]"
  using assms
proof (induction rows)
  case (Cons x rows)
  show ?case
  proof (cases "x = r")
    case True
    with Cons.prems(1) have "filter (\<lambda>x. key x = key r) rows = []"
      by (force simp: filter_empty_conv image_iff)
    with True show ?thesis by simp
  next
    case False
    with Cons show ?thesis by (force simp: image_iff)
  qed
qed simp

lemma signed_in_after_login:
  assumes "run (login c au input) env w = (Returned es, w')"
    and "distinct (map u_id (w_users w))" and "distinct (map o_id (w_organizations w))"
  shows "session_stands au es (w_clock w + min (au_absolute_lifetime_seconds au) (au_idle_lifetime_seconds au) * 1000)
    (w_clock w + au_absolute_lifetime_seconds au * 1000) w'"
proof -
  obtain u g where u: "find_by_email au (li_email input) w = Some u"
    and g: "find_organization (u_organization_id u) w = Some g"
    and e: "run (establish_session c au u g (li_ip_address input) (li_user_agent input)) env
      (record_successful_login (u_id u) (w_clock w) w) = (Returned es, w')"
    by (rule login_succeeds [OF assms(1)])
  let ?u = "u\<lparr>u_last_login_at := Some (w_clock w), u_failed_login_count := 0, u_locked_until := None,
      u_updated_at := of_date (w_clock w)\<rparr>"
  obtain s where s: "w_user_sessions w' = w_user_sessions w @ [s]" "us_user_id s = u_id u"
    "us_token_hash s = au_digest au (es_token es)" "us_revoked_at s = None"
    "\<forall>x \<in> set (w_user_sessions w). us_token_hash x \<noteq> us_token_hash s"
    "us_absolute_expires_at s = w_clock w + au_absolute_lifetime_seconds au * 1000"
    "us_idle_expires_at s = w_clock w + min (au_absolute_lifetime_seconds au) (au_idle_lifetime_seconds au) * 1000"
    "es_principal es = principal_of u g (us_id s)"
    "w_users w' = w_users (record_successful_login (u_id u) (w_clock w) w)"
    "w_organizations w' = w_organizations w"
    using establish_session_result [OF e] by auto
  have active: "u_status u = USER_ACTIVE"
    using assms(1) u by (auto simp: login_def step_simps split: if_splits)
  have g': "g \<in> set (w_organizations w')" "o_id g = u_organization_id u"
    using g s(10) by (auto simp: find_organization_def dest: sql_first_SomeD)
  have "?u \<in> set (w_users w')"
    using sql_update_image [OF find_by_email_member [OF u], of "\<lambda>x. u_id x = u_id u"
        "\<lambda>u. u\<lparr>u_last_login_at := Some (w_clock w), u_failed_login_count := 0, u_locked_until := None,
          u_updated_at := of_date (w_clock w)\<rparr>"]
    by (simp add: s(9) record_successful_login_def)
  from filter_only [where key = u_id, OF _ this] assms(2)
  have users: "filter (\<lambda>x. u_id x = u_id u) (w_users w') = [?u]"
    by (simp add: s(9))
  have "filter (\<lambda>x. us_token_hash x = us_token_hash s) (w_user_sessions w) = []"
    using s(5) by (simp add: filter_empty_conv)
  then have sessions: "filter (\<lambda>x. us_token_hash x = au_digest au (es_token es)) (w_user_sessions w') = [s]"
    by (simp add: s(1) flip: s(3))
  have organizations: "filter (\<lambda>x. o_id x = o_id g) (w_organizations w') = [g]"
    using filter_only [where key = o_id, OF _ g'(1)] assms(3) s(10) by simp
  show ?thesis
    unfolding session_stands_def
    by (intro exI [of _ s] exI [of _ ?u] exI [of _ g])
      (use s sessions users organizations active g'(2) in \<open>simp add: principal_of_def\<close>)
qed

lemma only_row:
  assumes "filter p rows = [r]"
  shows "x \<in> set rows \<and> p x \<longleftrightarrow> x = r"
proof -
  have "x \<in> set (filter p rows) \<longleftrightarrow> x = r" by (simp only: assms) simp
  then show ?thesis by simp
qed

lemma touch_session_own:
  assumes "filter (\<lambda>s. us_token_hash s = h) (w_user_sessions w) = [s]"
  shows "filter (\<lambda>s. us_token_hash s = h) (w_user_sessions (touch_session (us_id s) t now w))
    = [s\<lparr>us_idle_expires_at := t, us_last_used_at := of_date now\<rparr>]"
proof -
  let ?f = "\<lambda>r. if us_id r = us_id s then r\<lparr>us_idle_expires_at := t, us_last_used_at := of_date now\<rparr> else r"
  have "filter (\<lambda>s. us_token_hash s = h) (map ?f rows) = map ?f (filter (\<lambda>s. us_token_hash s = h) rows)" for rows
    by (induction rows) simp_all
  from this [of "w_user_sessions w"] assms show ?thesis
    by (simp add: touch_session_def sql_update_def)
qed

text \<open>Every use within the two expiries is granted and moves the idle one on, to the absolute one at most.\<close>

lemma resolve_signed_in:
  assumes "session_stands au es idle absolute w" and "w_clock w < idle" and "w_clock w < absolute"
  obtains v where "run (resolve_user_session au (es_token es)) env w = (Returned (Some (es_principal es)), v)"
    and "session_stands au es (min (w_clock w + au_idle_lifetime_seconds au * 1000) absolute) absolute v"
    and "w_clock v = w_clock w"
proof -
  obtain s u g where s: "filter (\<lambda>s. us_token_hash s = au_digest au (es_token es)) (w_user_sessions w) = [s]"
    and u: "filter (\<lambda>u. u_id u = pr_user_id (es_principal es)) (w_users w) = [u]"
    and g: "filter (\<lambda>g. o_id g = pr_organization_id (es_principal es)) (w_organizations w) = [g]"
    and row: "us_user_id s = u_id u" "us_revoked_at s = None" "us_idle_expires_at s = idle"
      "us_absolute_expires_at s = absolute" "u_organization_id u = o_id g" "u_status u = USER_ACTIVE"
    and es: "es_principal es = principal_of u g (us_id s)"
    using assms(1) unfolding session_stands_def by blast
  note one = only_row [OF s] only_row [OF u] only_row [OF g]
  have "find_active_by_token_hash (au_digest au (es_token es)) (w_clock w) w = Some (s, u, g)"
    unfolding find_active_by_token_hash_def
  proof (rule sql_first_only)
    show "(s, u, g) \<in> set (List.product (w_user_sessions w) (List.product (w_users w) (w_organizations w)))"
      using one by auto
    show "case (s, u, g) of (s, u, g) \<Rightarrow> u_id u = us_user_id s \<and> o_id g = u_organization_id u
        \<and> is_live_session (au_digest au (es_token es)) (w_clock w) s"
      using one row assms(2,3) by (auto simp: is_live_session_def)
  next
    fix y assume y: "y \<in> set (List.product (w_user_sessions w) (List.product (w_users w) (w_organizations w)))"
      "case y of (s, u, g) \<Rightarrow> u_id u = us_user_id s \<and> o_id g = u_organization_id u
        \<and> is_live_session (au_digest au (es_token es)) (w_clock w) s"
    obtain s' u' g' where y': "y = (s', u', g')" by (cases y)
    have "s' = s" using one(1) y y' by (auto simp: is_live_session_def)
    moreover from this have "u' = u" using one(2) y y' row(1) es by (auto simp: principal_of_def)
    moreover from this have "g' = g" using one(3) y y' row(5) es by (auto simp: principal_of_def)
    ultimately show "y = (s, u, g)" using y' by simp
  qed
  then have r: "run (resolve_user_session au (es_token es)) env w = (Returned (Some (es_principal es)),
      touch_session (us_id s) (min (w_clock w + au_idle_lifetime_seconds au * 1000) absolute) (w_clock w) w)"
    using row es by (simp add: resolve_user_session_def step_simps principal_of_def Let_def min_def)
  have "w_users (touch_session i t now w) = w_users w" "w_organizations (touch_session i t now w) = w_organizations w"
    "w_clock (touch_session i t now w) = w_clock w" for i t now
    by (simp_all add: touch_session_def)
  with that [OF r] touch_session_own [OF s] u g row es show thesis
    by (simp add: session_stands_def)
qed

section \<open>The hard limit\<close>

text \<open>A session is over: its identifier was handed out, and the clock is past its absolute expiry.\<close>

definition over :: "config \<Rightarrow> uuid \<Rightarrow> millis \<Rightarrow> world \<Rightarrow> bool" where
  "over c i limit w =
     (limit \<le> w_clock w \<and> (\<exists>k < w_next_identifier w. i = c_identifier c k)
      \<and> (\<forall>s \<in> set (w_user_sessions w). us_id s = i \<longrightarrow> us_absolute_expires_at s \<le> limit))"

interpretation past: effect_frame "over c i limit" "\<lambda>v w. True" "\<lambda>e. True" for c i limit
  by unfold_locales simp_all

lemma over_sessions_update:
  assumes "over c i limit w" and "\<And>s. us_id (f s) = us_id s"
    and "\<And>s. us_absolute_expires_at (f s) = us_absolute_expires_at s"
  shows "over c i limit (w\<lparr>w_user_sessions := sql_update p f (w_user_sessions w)\<rparr>)"
  using assms by (auto simp: over_def Ball_sql_update)

lemma over_users [simp]:
  "over c i limit (record_successful_login j t w) = over c i limit w"
  "over c i limit (record_failed_login j l w) = over c i limit w"
  by (simp_all add: over_def record_successful_login_def record_failed_login_def)

lemma over_next_identifier:
  "over c i limit w \<Longrightarrow> over c i limit (w\<lparr>w_next_identifier := Suc (w_next_identifier w)\<rparr>)"
  by (auto simp: over_def less_Suc_eq)

lemma over_insert_session:
  assumes "inj (c_identifier c)"
  shows "commits (over c i limit) (\<lambda>v w. True) (\<lambda>e. True) (insert_user_session c input)"
  using assms
  by (intro commitsI)
    (auto simp: insert_user_session_def tx_bind_def new_identifier_def over_def less_Suc_eq
      dest: injD split: if_splits)

lemma over_insert_organization:
  "commits (over c i limit) (\<lambda>v w. True) (\<lambda>e. True) (insert_organization c au n slug)"
  by (rule commitsI) (auto simp: insert_organization_def tx_bind_def new_identifier_def over_def
      less_Suc_eq Let_def split: if_splits)

lemma over_insert_user:
  "commits (over c i limit) (\<lambda>v w. True) (\<lambda>e. True) (insert_user c au input)"
  by (rule commitsI) (auto simp: insert_user_def tx_bind_def new_identifier_def over_def
      less_Suc_eq Let_def split: if_splits)

lemma over_establish_session:
  "inj (c_identifier c) \<Longrightarrow>
     safe (over c i limit) (\<lambda>v w. True) (\<lambda>e. True) (\<lambda>r. True) (establish_session c au u g ip agent)"
  by (auto simp: establish_session_def Let_def
      intro!: past.safe_clock past.safe_commits over_insert_session)

lemma over_touch: "over c i limit w \<Longrightarrow> over c i limit (touch_session j t now w)"
  by (auto simp: touch_session_def intro!: over_sessions_update)

lemma over_not_found:
  assumes "over c i limit w" and "limit \<le> now" and "find_active_by_token_hash h now w = Some (s, u, g)"
  shows "us_id s \<noteq> i"
  using assms(1,2) find_active_live [OF assms(3)] by (fastforce simp: over_def is_live_session_def)

lemma over_resolve:
  "safe (over c i limit) (\<lambda>v w. True) (\<lambda>e. True) (\<lambda>r. \<forall>p. r = Some p \<longrightarrow> pr_session_id p \<noteq> i)
     (resolve_user_session au token)"
  unfolding resolve_user_session_def clock_now_def
proof (intro safe_reading)
  fix v w assume v: "over c i limit v" and w: "over c i limit w"
  have "limit \<le> w_clock v" using v by (simp add: over_def)
  then show "safe (over c i limit) (\<lambda>v w. True) (\<lambda>e. True) (\<lambda>r. \<forall>p. r = Some p \<longrightarrow> pr_session_id p \<noteq> i)
      (case find_active_by_token_hash (au_digest au token) (w_clock v) w of
         None \<Rightarrow> Done None
       | Some (s, u, g) \<Rightarrow>
           if u_status u \<noteq> USER_ACTIVE then Done None
           else let next_idle_expiry = w_clock v + au_idle_lifetime_seconds au * 1000;
                    capped_idle_expiry = (if next_idle_expiry > us_absolute_expires_at s
                      then us_absolute_expires_at s else next_idle_expiry)
                in writing (touch_session (us_id s) capped_idle_expiry (w_clock v))
                     (Done (Some \<lparr>pr_user_id = u_id u, pr_organization_id = u_organization_id u,
                       pr_organization_name = o_name g, pr_organization_slug = o_slug g,
                       pr_email = u_email u, pr_name = u_name u, pr_role = u_role u,
                       pr_session_id = us_id s\<rparr>)))"
    using over_not_found [OF w] by (auto simp: Let_def over_touch split: option.splits intro!: safe_writing)
qed simp_all

text \<open>
  C25: A session is closed at its hard limit for good. Once the clock is past the absolute expiry of a
  session, resolving any token never answers with that session again, and no operation - using it,
  signing in or out, registering - moves that limit: in every interleaving.
\<close>

theorem sessions_end_at_their_limit:
  assumes "inj (c_identifier c)"
  shows "safe (over c i limit) (\<lambda>v w. True) (\<lambda>e. True) (\<lambda>r. \<forall>p. r = Some p \<longrightarrow> pr_session_id p \<noteq> i)
      (resolve_user_session au token)
    \<and> safe (over c i limit) (\<lambda>v w. True) (\<lambda>e. True) (\<lambda>r. True) (login c au login_request)
    \<and> safe (over c i limit) (\<lambda>v w. True) (\<lambda>e. True) (\<lambda>r. True) (register c au registration)
    \<and> safe (over c i limit) (\<lambda>v w. True) (\<lambda>e. True) (\<lambda>r. True) (logout session_id)"
proof (intro conjI)
  show "safe (over c i limit) (\<lambda>v w. True) (\<lambda>e. True) (\<lambda>r. True) (login c au login_request)"
    using assms
    by (auto simp: login_def Let_def split: option.splits
        intro!: past.safe_clock past.safe_read safe_writing over_establish_session)
  show "safe (over c i limit) (\<lambda>v w. True) (\<lambda>e. True) (\<lambda>r. True) (register c au registration)"
    using assms
    by (auto simp: register_def intro!: past.safe_clock past.safe_read past.safe_commits
        over_insert_organization over_insert_user over_establish_session)
  show "safe (over c i limit) (\<lambda>v w. True) (\<lambda>e. True) (\<lambda>r. True) (logout session_id)"
    by (auto simp: logout_def revoke_session_def intro!: past.safe_clock safe_writing over_sessions_update)
qed (rule over_resolve)

section \<open>Examples\<close>

definition example_auth :: auth_runtime where
  "example_auth =
     \<lparr>au_registration_enabled = True, au_absolute_lifetime_seconds = 3600,
      au_idle_lifetime_seconds = 600, au_lower = map to_lower,
      au_hash_password = (\<lambda>salt p. p), au_verify_password = (\<lambda>stored p. Some (stored = p)),
      au_session_token = (\<lambda>bytes. ''token''), au_digest = (\<lambda>t. t)\<rparr>"

definition example_user :: user where
  "example_user =
     \<lparr>u_id = ''u1'', u_organization_id = ''org'', u_email = ''ana@shop'', u_password_hash = ''right'',
      u_name = ''Ana'', u_role = OWNER, u_status = USER_ACTIVE, u_failed_login_count = 0,
      u_locked_until = None, u_last_login_at = None, u_created_at = 0, u_updated_at = 0\<rparr>"

definition users_world :: "user list \<Rightarrow> world" where
  "users_world us = example_world\<lparr>w_users := us,
     w_organizations := [\<lparr>o_id = ''org'', o_name = ''Shop'', o_slug = ''shop'', o_created_at = 0, o_updated_at = 0\<rparr>]\<rparr>"

definition sign_in :: "string \<Rightarrow> login_input" where
  "sign_in password = \<lparr>li_email = ''ana@shop'', li_password = password, li_ip_address = None, li_user_agent = None\<rparr>"

lemma example_user_found:
  "u_email u = ''ana@shop'' \<Longrightarrow> find_by_email au (li_email (sign_in p)) (users_world [u]) = Some u"
  by (simp add: find_by_email_def sql_first_def users_world_def sign_in_def)

lemma wrong_example: "p \<noteq> ''right'' \<Longrightarrow> \<not> is_password_valid example_auth (u_password_hash example_user) (li_password (sign_in p))"
  by (simp add: is_password_valid_def example_auth_def example_user_def sign_in_def)

theorem ten_wrong_passwords_lock_witness:
  "fst (run (login example_config example_auth (sign_in ''right'')) example_env
     (retried example_config example_auth (sign_in ''guess'') example_env 10 (users_world [example_user])))
   = Threw account_locked"
proof -
  have "find_by_email example_auth (li_email (sign_in ''guess'')) (users_world [example_user]) = Some example_user"
    by (rule example_user_found) (simp add: example_user_def)
  from ten_wrong_passwords_lock [OF this, of "sign_in ''right''" example_config example_env example_env] wrong_example
  show ?thesis by (simp add: example_user_def sign_in_def)
qed

theorem slow_attempt_lifts_the_lock_witness:
  "\<exists>v' u'. run (after_first_effect (login example_config example_auth (sign_in ''guess''))
        (users_world [example_user\<lparr>u_failed_login_count := 8\<rparr>])) example_env
        (users_world [example_user\<lparr>u_failed_login_count := 10, u_locked_until := Some 9999999\<rparr>])
      = (Threw invalid_credentials, v')
     \<and> find_by_email example_auth ''ana@shop'' v' = Some u' \<and> u_locked_until u' = None"
proof -
  let ?u = "example_user\<lparr>u_failed_login_count := 8\<rparr>"
  let ?l = "example_user\<lparr>u_failed_login_count := 10, u_locked_until := Some 9999999\<rparr>"
  have "find_by_email example_auth (li_email (sign_in ''guess'')) (users_world [?u]) = Some ?u"
    "find_by_email example_auth (li_email (sign_in ''guess'')) (users_world [?l]) = Some ?l"
    by (simp_all add: example_user_found example_user_def)
  then show ?thesis
    using slow_attempt_lifts_the_lock [of example_auth "sign_in ''guess''" "users_world [?u]" ?u
        "users_world [?l]" ?l 9999999 example_config example_env] wrong_example [of "''guess''"]
    by (simp add: may_try_def example_user_def users_world_def example_world_def sign_in_def)
qed

theorem unknown_address_answers_like_wrong_password_witness:
  "fst (run (login example_config example_auth ((sign_in ''guess'')\<lparr>li_email := ''bob''\<rparr>)) example_env
     (users_world [example_user]))
   = fst (run (login example_config example_auth (sign_in ''guess'')) example_env (users_world [example_user]))"
proof -
  have "find_by_email example_auth (li_email (sign_in ''guess'')) (users_world [example_user]) = Some example_user"
    by (rule example_user_found) (simp add: example_user_def)
  moreover have "find_by_email example_auth (li_email ((sign_in ''guess'')\<lparr>li_email := ''bob''\<rparr>))
      (users_world [example_user]) = None"
    by (simp add: find_by_email_def sql_first_def users_world_def example_user_def example_auth_def
        to_lower_def char_code_def)
  ultimately show ?thesis
    using unknown_address_answers_like_wrong_password [of example_auth
        "(sign_in ''guess'')\<lparr>li_email := ''bob''\<rparr>" "users_world [example_user]" "sign_in ''guess''"
        example_user example_config example_env] wrong_example
    by (simp add: may_try_def example_user_def)
qed

theorem sign_in_opens_a_session_witness:
  "\<exists>es w'. run (login example_config example_auth (sign_in ''right'')) example_env (users_world [example_user])
      = (Returned es, w')
    \<and> (\<exists>v. run (resolve_user_session example_auth (es_token es)) example_env w'
          = (Returned (Some (es_principal es)), v))"
proof -
  obtain es w' where r: "run (login example_config example_auth (sign_in ''right'')) example_env
      (users_world [example_user]) = (Returned es, w')" and clock: "w_clock w' = 1000010"
    by (simp add: login_def step_simps example_user_found example_user_def is_password_valid_def
        example_auth_def sign_in_def find_organization_def users_world_def sql_first_def
        record_successful_login_def establish_session_def insert_user_session_def tx_bind_def
        new_identifier_def after_call_def example_env_def example_world_def find_by_email_def
        sql_update_def Let_def)
  have "\<exists>v. run (resolve_user_session example_auth (es_token es)) example_env w'
      = (Returned (Some (es_principal es)), v)"
    by (rule sign_in_opens_a_session [OF r])
      (simp_all add: clock users_world_def example_auth_def example_world_def)
  with r show ?thesis by blast
qed

theorem sessions_end_at_their_limit_witness:
  "safe (over example_config ''id-'' 0) (\<lambda>v w. True) (\<lambda>e. True)
     (\<lambda>r. \<forall>p. r = Some p \<longrightarrow> pr_session_id p \<noteq> ''id-'') (resolve_user_session example_auth ''token'')"
proof -
  have "inj (c_identifier example_config)"
    by (rule injI) (simp add: example_config_def)
  from sessions_end_at_their_limit [OF this] show ?thesis by blast
qed

end
