(* ===== verification/Connection.thy ===== *)
theory Connection
  imports Effects
begin

text \<open>
  \<open>packages/composition/src/whatsapp/connection-limits.service.ts\<close> and
  \<open>connection-state.service.ts\<close>: how the platform learns what WhatsApp enforces on a connection, when
  it pauses it and when a pause ends. Log lines are not modelled.
\<close>

section \<open>Recording limits\<close>

definition pause_for ::
  "config \<Rightarrow> millis option \<Rightarrow> account_limits option \<Rightarrow> bool \<Rightarrow> millis \<Rightarrow> sending_pause option" where
  "pause_for c current limits restriction_observed now =
     resolve_sending_pause
       \<lparr>pi_limits = limits, pi_restriction_observed = restriction_observed,
        pi_current_paused_until = current, pi_now = now,
        pi_fallback_pause_milliseconds = c_restriction_fallback_pause_hours c * 3600000\<rparr>"

definition record_limits ::
  "config \<Rightarrow> uuid \<Rightarrow> millis option \<Rightarrow> account_limits option \<Rightarrow> bool \<Rightarrow> unit prog" where
  "record_limits c session_id current limits restriction_observed =
     clock_now (\<lambda>now.
     atomically
       (record_account_limits session_id limits
          (pause_for c current limits restriction_observed now) now) Done)"

definition doubt_reported_limits :: "uuid \<Rightarrow> unit prog" where
  "doubt_reported_limits session_id = writing (invalidate_account_limits session_id) (Done ())"

section \<open>The connection's state\<close>

definition forgotten_by_provider :: string where
  "forgotten_by_provider =
     ''The WhatsApp provider no longer has this connection. Start it to pair it again.''"

definition account_limits_maximum_age_milliseconds :: int where
  "account_limits_maximum_age_milliseconds = 10 * 60000"

datatype reach_refusal = REFUSED_RESTRICTED | REFUSED_QUOTA

definition reread :: "session \<Rightarrow> session prog" where
  "reread record =
     reading (find_session (s_application_id record) (s_id record))
       (\<lambda>found. Done (case found of Some s \<Rightarrow> s | None \<Rightarrow> record))"

definition read_reported_limits :: "session \<Rightarrow> account_limits option prog" where
  "read_reported_limits record =
     GetSession (s_provider_session_name record)
       (\<lambda>live. Done (case live of
          Failed _ \<Rightarrow> None
        | Succeeded None \<Rightarrow> None
        | Succeeded (Some s) \<Rightarrow> ps_account_limits s))"

definition fetch_limits :: "session \<Rightarrow> account_limits option prog" where
  "fetch_limits record =
     FetchAccountLimits (s_provider_session_name record)
       (\<lambda>fresh. case fresh of
          Succeeded limits \<Rightarrow> Done (Some limits)
        | Failed _ \<Rightarrow> read_reported_limits record)"

definition timelock_active :: "account_limits option \<Rightarrow> bool" where
  "timelock_active limits =
     (case Option.bind limits al_reachout_timelock of
        Some timelock \<Rightarrow> tl_is_active timelock
      | None \<Rightarrow> False)"

definition settle_expired_pause :: "config \<Rightarrow> session \<Rightarrow> session prog" where
  "settle_expired_pause c record =
     (case s_sending_paused_until record of
        None \<Rightarrow> Done record
      | Some paused_until \<Rightarrow>
          clock_now (\<lambda>now.
          if now < paused_until then Done record
          else bind (fetch_limits record) (\<lambda>limits.
            if timelock_active limits then
              bind (record_limits c (s_id record) None limits False) (\<lambda>_. reread record)
            else
              writing (end_sending_pause (s_id record) paused_until)
                (case limits of
                   None \<Rightarrow> reread record
                 | Some l \<Rightarrow>
                     clock_now (\<lambda>later.
                     atomically (record_account_limits (s_id record) (Some l) None later)
                       (\<lambda>_. reread record))))))"

definition refresh_status :: "config \<Rightarrow> session \<Rightarrow> session prog" where
  "refresh_status c record =
     GetSession (s_provider_session_name record) (\<lambda>live. case live of
       Failed _ \<Rightarrow> Done record
     | Succeeded None \<Rightarrow>
         clock_now (\<lambda>now.
         if s_status record \<noteq> STOPPED then
           writing (record_status (s_id record) STOPPED (s_phone_number record)
                      (s_push_name record) (Some forgotten_by_provider) now)
             (reread record)
         else reread record)
     | Succeeded (Some s) \<Rightarrow>
         clock_now (\<lambda>now.
         writing (record_status (s_id record) (ps_status s) (ps_phone_number s)
                    (ps_push_name s) None now)
           (case ps_account_limits s of
              None \<Rightarrow> reread record
            | Some limits \<Rightarrow>
                bind (record_limits c (s_id record) (s_sending_paused_until record)
                        (Some limits) False)
                  (\<lambda>_. reread record))))"

definition prepare_to_send :: "config \<Rightarrow> session \<Rightarrow> session prog" where
  "prepare_to_send c record =
     bind (settle_expired_pause c record) (\<lambda>settled.
     clock_now (\<lambda>now.
     atomically (claim_account_limits_refresh (s_id settled) now
                   (now - account_limits_maximum_age_milliseconds)) (\<lambda>is_refresh_claimed.
     if \<not> is_refresh_claimed then Done settled
     else bind (if s_account_limits_checked_at settled = None then fetch_limits settled
                else read_reported_limits settled) (\<lambda>limits.
       case limits of
         None \<Rightarrow> reread settled
       | Some l \<Rightarrow>
           bind (record_limits c (s_id settled) (s_sending_paused_until settled) (Some l) False)
             (\<lambda>_. reread settled)))))"

definition record_refusal :: "config \<Rightarrow> session \<Rightarrow> reach_refusal \<Rightarrow> unit prog" where
  "record_refusal c record refusal =
     bind (fetch_limits record) (\<lambda>limits.
     record_limits c (s_id record) (s_sending_paused_until record) limits
       (refusal = REFUSED_RESTRICTED))"

section \<open>What the connection services promise\<close>

text \<open>
  Everything the connection services write is in the sessions table, and every write but one only
  ever extends a pause. The exception is the end of a pause, which they record only for a pause
  whose time had run out by the clock they read. The one exception they can throw is the
  RangeError of an instant WhatsApp reported that no \<open>Date\<close> can hold.
\<close>

locale session_contract = effect_frame +
  assumes extending: "pause_safe f \<Longrightarrow> I w \<Longrightarrow> I (update_sessions p f w) \<and> G w (update_sessions p f w)"
    and ending: "I w0 \<Longrightarrow> t \<le> w_clock w0 \<Longrightarrow> I w \<Longrightarrow>
      I (end_sending_pause sid t w) \<and> G w (end_sending_pause sid t w)"
    and range_error: "E RangeError"
begin

lemma safe_reread: "(\<And>s. Q s) \<Longrightarrow> safe I G E Q (reread record)"
  by (simp add: reread_def reading_def still)

lemma safe_read_reported_limits: "(\<And>l. Q l) \<Longrightarrow> safe I G E Q (read_reported_limits record)"
  by (simp add: read_reported_limits_def)

lemma safe_fetch_limits: "(\<And>l. Q l) \<Longrightarrow> safe I G E Q (fetch_limits record)"
  by (simp add: fetch_limits_def safe_read_reported_limits split: provider_result.splits)

lemma to_stored_RangeError: "to_stored_account_limits l = Inl e \<Longrightarrow> e = RangeError"
proof -
  have iso: "date_to_iso d = Inl e \<Longrightarrow> e = RangeError" for d
    by (cases d rule: date_to_iso.cases) simp_all
  show "to_stored_account_limits l = Inl e \<Longrightarrow> e = RangeError"
    by (cases "al_reachout_timelock l"; cases "al_new_chat_quota l")
      (auto simp: to_stored_account_limits_def to_stored_timelock_def to_stored_quota_def
        dest: iso split: sum.splits)
qed

lemma stored_limits_RangeError:
  "optionally to_stored_account_limits limits = Inl e \<Longrightarrow> e = RangeError"
  by (cases limits; cases "to_stored_account_limits (the limits)")
    (auto dest: to_stored_RangeError)

lemma commits_record_account_limits:
  "commits I G E (record_account_limits session_id limits pause now)"
proof (rule commitsI)
  show "E e" if "record_account_limits session_id limits pause now w = Inl e" for w e
    using that stored_limits_RangeError range_error
    by (auto simp: record_account_limits_def split: sum.splits)
  show "I w' \<and> G w w'"
    if w: "I w" and r: "record_account_limits session_id limits pause now w = Inr (r, w')" for w r w'
  proof -
    obtain f where "pause_safe f" and "w' = update_sessions (is_session session_id) f w"
      by (rule record_account_limits_pause_safe [OF r])
    with w show ?thesis by (simp add: extending)
  qed
qed

lemma safe_record_account_limits:
  "safe I G E Q (k ()) \<Longrightarrow>
     safe I G E Q (atomically (record_account_limits session_id limits pause now) k)"
  by (rule safe_commits [OF commits_record_account_limits]) simp

lemma safe_record_limits: "safe I G E (\<lambda>_. True) (record_limits c sid current limits observed)"
  by (simp add: record_limits_def safe_clock safe_record_account_limits)

lemma safe_extending:
  "pause_safe f \<Longrightarrow> safe I G E Q q \<Longrightarrow> safe I G E Q (writing (update_sessions p f) q)"
  by (rule safe_writing) (simp_all add: extending)

lemma safe_record_status:
  "safe I G E Q q \<Longrightarrow> safe I G E Q (writing (record_status sid st ph pn le t) q)"
  by (simp add: record_status_def safe_extending)

lemma safe_doubt_reported_limits: "safe I G E (\<lambda>_. True) (doubt_reported_limits sid)"
  by (simp add: doubt_reported_limits_def invalidate_account_limits_def safe_extending)

lemma safe_claim_refresh:
  assumes "\<And>b. safe I G E Q (k b)"
  shows "safe I G E Q (atomically (claim_account_limits_refresh sid now t) k)"
  by (rule safe_commits [OF _ assms], rule commitsI)
    (auto simp: claim_account_limits_refresh_def Let_def extending)

lemmas safe_connection =
  safe_reread safe_read_reported_limits safe_fetch_limits safe_record_account_limits
  safe_record_limits

lemma safe_settle_expired_pause: "safe I G E (\<lambda>_. True) (settle_expired_pause c record)"
proof (cases "s_sending_paused_until record")
  case None
  then show ?thesis by (simp add: settle_expired_pause_def)
next
  case (Some paused_until)
  have expired: "safe I G E (\<lambda>_. True) (writing (end_sending_pause sid paused_until) q)"
    if "I w0" "\<not> w_clock w0 < paused_until" "safe I G E (\<lambda>_. True) q" for sid q w0
    using that ending [OF that(1)] by (intro safe_writing) simp_all
  show ?thesis
    unfolding settle_expired_pause_def clock_now_def Some option.case
    by (rule safe_reading)
      (auto simp: safe_connection still intro!: safe_bind [where Q = "\<lambda>_. True"] safe_clock expired
        split: option.splits simp flip: clock_now_def)
qed

lemma safe_refresh_status: "safe I G E (\<lambda>_. True) (refresh_status c record)"
  by (auto simp: refresh_status_def safe_connection
      split: option.splits provider_result.splits
      intro!: safe_clock safe_record_status safe_bind [where Q = "\<lambda>_. True"])

lemma safe_record_refusal: "safe I G E (\<lambda>_. True) (record_refusal c record refusal)"
  by (auto simp: record_refusal_def safe_connection intro!: safe_bind [where Q = "\<lambda>_. True"])

lemma safe_prepare_to_send: "safe I G E (\<lambda>_. True) (prepare_to_send c record)"
  by (auto simp: prepare_to_send_def safe_connection safe_settle_expired_pause
      split: option.splits
      intro!: safe_clock safe_claim_refresh safe_bind [where Q = "\<lambda>_. True"])

lemma safe_reserve_send_slot:
  assumes "\<And>slot. safe I G E Q (k slot)"
  shows "safe I G E Q (atomically (reserve_send_slot sid now u) k)"
  by (rule safe_commits [OF _ assms], rule commitsI)
    (auto simp: reserve_send_slot_def Let_def extending still split: option.splits)

end

text \<open>An invariant and a guarantee that do not look at the sessions at all satisfy the contract.\<close>

locale session_frame = effect_frame +
  assumes frame: "I w \<Longrightarrow> I (w\<lparr>w_sessions := ss\<rparr>) \<and> G w (w\<lparr>w_sessions := ss\<rparr>)"
    and range_error': "E RangeError"

sublocale session_frame \<subseteq> session_contract
  by unfold_locales (simp_all add: update_sessions_def end_sending_pause_def frame range_error')

end
