(* ===== verification/Phone_Number.thy ===== *)
theory Phone_Number
  imports Prelude
begin

text \<open>
  \<open>packages/domain/src/recipient/phone-number.ts\<close>: normalising what a person types into E.164,
  checking it, and masking it for a log.
\<close>

section \<open>Normalising and checking\<close>

definition is_formatting :: "char \<Rightarrow> bool" where
  "is_formatting c = (is_space c \<or> c \<in> {CHR ''('', CHR '')'', CHR ''-'', CHR ''.''})"

definition normalize_phone_number :: "string \<Rightarrow> string" where
  "normalize_phone_number value =
     (let trimmed = filter (\<lambda>c. \<not> is_formatting c) (js_trim value)
      in if starts_with trimmed ''00'' then CHR ''+'' # drop 2 trimmed else trimmed)"

text \<open>The pattern \<open>^\+[1-9]\d{7,14}$\<close>.\<close>

fun is_valid_phone_number :: "string \<Rightarrow> bool" where
  "is_valid_phone_number (p # d # ds) =
     (p = CHR ''+'' \<and> is_digit d \<and> d \<noteq> CHR ''0'' \<and> list_all is_digit ds
      \<and> 7 \<le> length ds \<and> length ds \<le> 14)"
| "is_valid_phone_number _ = False"

datatype invalid_phone_number = InvalidPhoneNumber string

definition parse_phone_number :: "string \<Rightarrow> invalid_phone_number + string" where
  "parse_phone_number value =
     (let normalized = normalize_phone_number value
      in if is_valid_phone_number normalized then Inr normalized
         else Inl (InvalidPhoneNumber value))"

section \<open>Masking\<close>

definition visible_prefix_digits :: nat where "visible_prefix_digits = 2"
definition visible_suffix_digits :: nat where "visible_suffix_digits = 4"

definition mask_phone_number_for_log :: "string \<Rightarrow> string" where
  "mask_phone_number_for_log phone_number =
     (let digits = filter is_digit phone_number
      in if length digits \<le> visible_suffix_digits then replicate (length digits) CHR ''*''
         else CHR ''+'' # take visible_prefix_digits digits
              @ replicate (length digits - visible_prefix_digits - visible_suffix_digits) CHR ''*''
              @ slice_last visible_suffix_digits digits)"

section \<open>Lemmas\<close>

lemma digit_not_formatting: "is_digit c \<Longrightarrow> \<not> is_formatting c"
  by (auto simp: is_formatting_def is_digit_not_space is_digit_def char_code_def)

lemma plus_not_formatting: "\<not> is_formatting CHR ''+''"
  by (simp add: is_formatting_def is_space_codes)

lemma plus_not_digit: "\<not> is_digit CHR ''+''"
  by (simp add: is_digit_def char_code_def)

lemma js_trim_set: "set (js_trim s) \<subseteq> set s"
  by (auto simp: js_trim_def dest!: set_dropWhileD)

lemma normalize_no_formatting:
  "c \<in> set (normalize_phone_number s) \<Longrightarrow> \<not> is_formatting c"
  by (auto simp: normalize_phone_number_def Let_def plus_not_formatting dest: in_set_dropD
      split: if_splits)

lemma normalize_unchanged:
  assumes "\<And>c. c \<in> set s \<Longrightarrow> \<not> is_formatting c" and "\<not> starts_with s ''00''"
  shows "normalize_phone_number s = s"
proof -
  have "s = [] \<or> \<not> is_space (hd s) \<and> \<not> is_space (last s)"
    using assms(1) by (cases "s = []") (auto simp: is_formatting_def)
  then have "js_trim s = s" by (rule js_trim_unchanged)
  moreover have "filter (\<lambda>c. \<not> is_formatting c) s = s"
    using assms(1) by (simp add: filter_id_conv)
  ultimately show ?thesis
    using assms(2) by (simp add: normalize_phone_number_def Let_def)
qed

text \<open>A number that passes the pattern is a fixed point of the normalisation.\<close>

lemma valid_is_normal:
  assumes "is_valid_phone_number s"
  shows "normalize_phone_number s = s"
proof (rule normalize_unchanged)
  obtain d ds where s: "s = CHR ''+'' # d # ds" "is_digit d" "list_all is_digit ds"
    using assms by (cases s rule: is_valid_phone_number.cases) auto
  show "\<not> is_formatting c" if "c \<in> set s" for c
    using that s digit_not_formatting plus_not_formatting by (auto simp: list_all_iff)
  show "\<not> starts_with s ''00''"
    by (simp add: s(1))
qed

lemma parse_phone_number_valid:
  "parse_phone_number v = Inr n \<Longrightarrow> is_valid_phone_number n \<and> parse_phone_number n = Inr n"
  by (auto simp: parse_phone_number_def Let_def valid_is_normal split: if_splits)

lemma valid_length: "is_valid_phone_number s \<Longrightarrow> 9 \<le> length s \<and> length s \<le> 16"
  by (cases s rule: is_valid_phone_number.cases) auto

text \<open>Masking never shows more than six digits, however long the number.\<close>

lemma mask_shows_at_most_six: "length (filter is_digit (mask_phone_number_for_log s)) \<le> 6"
proof -
  have star: "\<not> is_digit CHR ''*''"
    by (simp add: is_digit_def char_code_def)
  have prefix: "length (filter is_digit (take 2 ds)) \<le> 2" for ds :: string
    by (rule order_trans [OF length_filter_le]) simp
  have suffix: "length (filter is_digit (slice_last 4 ds)) \<le> 4" for ds :: string
    by (rule order_trans [OF length_filter_le]) (simp add: slice_last_def)
  have "length (filter is_digit (take 2 ds)) + length (filter is_digit (slice_last 4 ds)) \<le> 6"
    for ds :: string
    using prefix [of ds] suffix [of ds] by linarith
  then show ?thesis
    unfolding mask_phone_number_for_log_def Let_def visible_prefix_digits_def
      visible_suffix_digits_def
    by (simp only: filter_append filter.simps filter_replicate star plus_not_digit length_append
        if_False list.size append_Nil split: if_splits) simp
qed

section \<open>Properties\<close>

text \<open>
  Whatever a caller types, a number that is accepted is in E.164 form, has between nine and
  sixteen characters, and is a fixed point: accepting it again changes nothing, so the number that
  is stored is the number that would be stored for it.
\<close>

theorem accepted_phone_number_is_canonical:
  assumes "parse_phone_number v = Inr n"
  shows "is_valid_phone_number n \<and> parse_phone_number n = Inr n
    \<and> 9 \<le> length n \<and> length n \<le> 16"
  using parse_phone_number_valid [OF assms] valid_length by blast

theorem accepted_phone_number_is_canonical_witness:
  "is_valid_phone_number ''+5511999998888''
   \<and> parse_phone_number ''+5511999998888'' = Inr ''+5511999998888''"
  using accepted_phone_number_is_canonical [of "''00 55 (11) 99999-8888''" "''+5511999998888''"]
  by (simp add: parse_phone_number_def normalize_phone_number_def js_trim_def is_formatting_def
      is_space_def is_digit_def char_code_def)

end
