(* ===== verification/Dispatch.thy ===== *)
theory Dispatch
  imports Connection Phone_Number
begin

text \<open>
  \<open>packages/composition/src/notification/dispatch-notification.service.ts\<close>: the delivery of one
  notification, from the claim to the row that says what became of it. Every private method of
  the service is a definition, and \<open>dispatch\<close> composes them in the order of the code.
\<close>

section \<open>Types\<close>

definition pause_resumption_spread_seconds :: int where
  "pause_resumption_spread_seconds = 60"

definition is_session_lost_by_provider :: "provider_failure \<Rightarrow> bool" where
  "is_session_lost_by_provider failure =
     (f_code failure = SessionMissing \<and> f_provider_status_code failure \<noteq> None)"

record dispatch_input =
  di_application_id :: uuid
  di_notification_id :: uuid
  di_correlation_id :: string

datatype dispatch_outcome = Sent | RetryScheduled | DispatchFailed | Deferred | NotClaimable

record dispatch_result =
  dr_outcome :: dispatch_outcome
  dr_detail :: "string option"

definition result_of :: "dispatch_outcome \<Rightarrow> string option \<Rightarrow> dispatch_result" where
  "result_of outcome detail = \<lparr>dr_outcome = outcome, dr_detail = detail\<rparr>"

datatype claim_result =
    Claimed notification
  | ClaimRefused
  | NotDue millis string

record transition_step =
  ts_next_status :: notification_status
  ts_event_type :: string
  ts_attempt_number :: "int option"
  ts_failure :: provider_failure
  ts_changes :: "transition_change list"
  ts_payload :: "(string \<times> json) list"
  ts_enqueue_at :: "millis option"
  ts_now :: millis

section \<open>Claiming\<close>

definition explain_failed_claim :: "dispatch_input \<Rightarrow> millis \<Rightarrow> claim_result prog" where
  "explain_failed_claim input now =
     reading (find_by_id (di_application_id input) (di_notification_id input)) (\<lambda>existing.
     Done (case existing of
         None \<Rightarrow> ClaimRefused
       | Some n \<Rightarrow>
           (case (n_status n, n_scheduled_at n, n_next_attempt_at n) of
              (SCHEDULED, Some t, _) \<Rightarrow>
                if now < t then NotDue t ''not_yet_scheduled'' else ClaimRefused
            | (RETRYING, _, Some t) \<Rightarrow>
                if now < t then NotDue t ''not_yet_due'' else ClaimRefused
            | _ \<Rightarrow> ClaimRefused)))"

definition claim :: "config \<Rightarrow> dispatch_input \<Rightarrow> uuid \<Rightarrow> claim_result prog" where
  "claim c input claim_token =
     clock_now (\<lambda>now.
     atomically (promote_scheduled (di_application_id input) (di_notification_id input) now)
       (\<lambda>promoted.
     bind (case promoted of
             None \<Rightarrow> Done ()
           | Some _ \<Rightarrow>
               next_identifier c (\<lambda>event_id.
               atomically (append_event
                 \<lparr>e_id = event_id, e_application_id = di_application_id input,
                  e_notification_id = di_notification_id input,
                  e_event_type = ''notification.queued'', e_from_status = Some SCHEDULED,
                  e_to_status = Some QUEUED, e_attempt_number = None, e_payload = [],
                  e_correlation_id = Some (di_correlation_id input), e_occurred_at = 0\<rparr>) Done))
       (\<lambda>_.
     atomically
       (claim_for_dispatch (di_application_id input) (di_notification_id input) claim_token now)
       (\<lambda>claimed. case claimed of
          Some n \<Rightarrow> Done (Claimed n)
        | None \<Rightarrow> explain_failed_claim input now))))"

definition dispatch_job :: "dispatch_input \<Rightarrow> uuid \<Rightarrow> uuid \<Rightarrow> millis \<Rightarrow> job" where
  "dispatch_job input application_id notification_id start_after =
     \<lparr>j_queue = NOTIFICATION_DISPATCH, j_correlation_id = di_correlation_id input,
      j_application_id = Some application_id, j_subject_id = notification_id,
      j_singleton_key = Some notification_id, j_start_after = Some start_after\<rparr>"

definition reschedule :: "config \<Rightarrow> dispatch_input \<Rightarrow> millis \<Rightarrow> unit prog" where
  "reschedule c input due =
     atomically (enqueue_in_transaction c
       (dispatch_job input (di_application_id input) (di_notification_id input) due))
       (\<lambda>_. Done ())"

section \<open>Time limits and policy\<close>

definition eligible_since :: "notification \<Rightarrow> millis" where
  "eligible_since n =
     (case n_scheduled_at n of Some t \<Rightarrow> t | None \<Rightarrow> to_date (n_created_at n))"

definition milliseconds_since_due :: "notification \<Rightarrow> (int \<Rightarrow> 'a prog) \<Rightarrow> 'a prog" where
  "milliseconds_since_due n k = clock_now (\<lambda>now. k (now - eligible_since n))"

definition has_outlived_delivery_window ::
  "config \<Rightarrow> notification \<Rightarrow> (bool \<Rightarrow> 'a prog) \<Rightarrow> 'a prog" where
  "has_outlived_delivery_window c n k =
     milliseconds_since_due n (\<lambda>age. k (age > c_maximum_lifetime_hours c * 3600000))"

definition read_unknown_outcome_policy ::
  "uuid \<Rightarrow> (unknown_outcome_policy \<Rightarrow> 'a prog) \<Rightarrow> 'a prog" where
  "read_unknown_outcome_policy application_id k =
     reading (find_delivery_settings application_id) (\<lambda>settings.
       k (case settings of Some a \<Rightarrow> ap_unknown_outcome_policy a | None \<Rightarrow> POLICY_RETRY))"

section \<open>Recording a decision\<close>

definition enqueue_next_attempt ::
  "config \<Rightarrow> notification \<Rightarrow> millis \<Rightarrow> dispatch_input \<Rightarrow> uuid option tx" where
  "enqueue_next_attempt c n start_after input =
     enqueue_in_transaction c (dispatch_job input (n_application_id n) (n_id n) start_after)"

definition failure_payload :: "provider_failure \<Rightarrow> (string \<times> json) list" where
  "failure_payload failure =
     [(''failureCode'', JStr (failure_code_name (f_code failure))),
      (''failureClassification'', JStr (classification_name (f_classification failure)))]
     @ (case f_provider_status_code failure of
          None \<Rightarrow> []
        | Some status \<Rightarrow> [(''providerStatusCode'', JNum (of_int status))])"

definition transition_transaction ::
  "config \<Rightarrow> notification \<Rightarrow> transition_step \<Rightarrow> dispatch_input \<Rightarrow> unit tx" where
  "transition_transaction c n step input =
     tx_bind (apply_transition (n_application_id n) (n_id n) PROCESSING (ts_next_status step)
                (ts_changes step) (ts_now step)) (\<lambda>transitioned.
     case transitioned of
       None \<Rightarrow> tx_return ()
     | Some _ \<Rightarrow>
         tx_bind (new_identifier c) (\<lambda>event_id.
         tx_bind (append_event
           \<lparr>e_id = event_id, e_application_id = n_application_id n, e_notification_id = n_id n,
            e_event_type = ts_event_type step, e_from_status = Some PROCESSING,
            e_to_status = Some (ts_next_status step),
            e_attempt_number = ts_attempt_number step,
            e_payload = ts_payload step @ failure_payload (ts_failure step),
            e_correlation_id = Some (di_correlation_id input), e_occurred_at = 0\<rparr>) (\<lambda>_.
         case ts_enqueue_at step of
           None \<Rightarrow> tx_return ()
         | Some start_after \<Rightarrow> tx_bind (enqueue_next_attempt c n start_after input) (\<lambda>_. tx_return ()))))"

definition transition_and_record ::
  "config \<Rightarrow> notification \<Rightarrow> transition_step \<Rightarrow> dispatch_input \<Rightarrow> unit prog" where
  "transition_and_record c n step input = atomically (transition_transaction c n step input) Done"

definition fail_changes :: "provider_failure \<Rightarrow> millis \<Rightarrow> transition_change list" where
  "fail_changes failure now =
     [SetFailedAt (Some now), SetFailureCode (Some (f_code failure)),
      SetFailureReason (Some (f_message failure)),
      SetFailureClassification (Some (f_classification failure)),
      SetClaimToken None, SetClaimedAt None, SetNextAttemptAt None]"

definition fail ::
  "config \<Rightarrow> notification \<Rightarrow> provider_failure \<Rightarrow> dispatch_input \<Rightarrow> int option
     \<Rightarrow> dispatch_result prog" where
  "fail c n failure input attempt_number =
     clock_now (\<lambda>now.
     bind (transition_and_record c n
       \<lparr>ts_next_status = FAILED, ts_event_type = ''notification.failed'',
        ts_attempt_number = attempt_number, ts_failure = failure,
        ts_changes = fail_changes failure now,
        ts_payload = [(''recipient'', JStr (mask_phone_number_for_log (n_recipient_phone_number n)))],
        ts_enqueue_at = None, ts_now = now\<rparr> input)
       (\<lambda>_. Done (result_of DispatchFailed (Some (failure_code_name (f_code failure))))))"

definition retry_changes :: "provider_failure \<Rightarrow> millis \<Rightarrow> transition_change list" where
  "retry_changes failure next_attempt_at =
     [SetNextAttemptAt (Some next_attempt_at), SetFailureCode (Some (f_code failure)),
      SetFailureReason (Some (f_message failure)),
      SetFailureClassification (Some (f_classification failure)),
      SetClaimToken None, SetClaimedAt None]"

definition retry_next_attempt ::
  "notification \<Rightarrow> provider_failure \<Rightarrow> rat \<Rightarrow> int option \<Rightarrow> int \<Rightarrow> millis \<Rightarrow> js_date" where
  "retry_next_attempt n failure minimum_delay_seconds attempt_number u now =
     compute_next_attempt_at default_retry_policy
       (nat (max (case attempt_number of Some k \<Rightarrow> k | None \<Rightarrow> n_attempt_count n) 1))
       (system_integer_between u) now
       (max minimum_delay_seconds
          (case f_retry_after_seconds failure of Some s \<Rightarrow> s | None \<Rightarrow> 0))"

definition retry ::
  "config \<Rightarrow> notification \<Rightarrow> provider_failure \<Rightarrow> dispatch_input \<Rightarrow> rat \<Rightarrow> int option
     \<Rightarrow> dispatch_result prog" where
  "retry c n failure input minimum_delay_seconds attempt_number =
     clock_now (\<lambda>now. Entropy (\<lambda>u.
     case retry_next_attempt n failure minimum_delay_seconds attempt_number u now of
       InvalidDate \<Rightarrow> Raise RangeError
     | Date next_attempt_at \<Rightarrow>
         bind (transition_and_record c n
           \<lparr>ts_next_status = RETRYING, ts_event_type = ''notification.retry_scheduled'',
            ts_attempt_number = attempt_number, ts_failure = failure,
            ts_changes = retry_changes failure next_attempt_at,
            ts_payload = [(''nextAttemptAt'', JStr (to_iso_string next_attempt_at))],
            ts_enqueue_at = Some next_attempt_at, ts_now = now\<rparr> input)
           (\<lambda>_. Done (result_of RetryScheduled (Some (failure_code_name (f_code failure)))))))"

definition defer_transaction ::
  "config \<Rightarrow> notification \<Rightarrow> millis \<Rightarrow> dispatch_input \<Rightarrow> millis \<Rightarrow> unit tx" where
  "defer_transaction c n until input now =
     tx_bind (apply_transition (n_application_id n) (n_id n) PROCESSING RETRYING
                [SetNextAttemptAt (Some until), SetClaimToken None, SetClaimedAt None] now) (\<lambda>_.
     tx_bind (enqueue_next_attempt c n until input) (\<lambda>_. tx_return ()))"

definition defer_quietly ::
  "config \<Rightarrow> notification \<Rightarrow> millis \<Rightarrow> dispatch_input \<Rightarrow> string \<Rightarrow> dispatch_result prog" where
  "defer_quietly c n until input detail =
     clock_now (\<lambda>now.
     atomically (defer_transaction c n until input now)
       (\<lambda>_. Done (result_of Deferred (Some detail))))"

section \<open>Waiting\<close>

definition wait_for_connection ::
  "config \<Rightarrow> notification \<Rightarrow> session \<Rightarrow> dispatch_input \<Rightarrow> dispatch_result prog" where
  "wait_for_connection c n s input =
     (let wait_minutes = c_maximum_connection_wait_minutes c;
          status = session_status_name (s_status s)
      in milliseconds_since_due n (\<lambda>age.
         if age > wait_minutes * 60000 then
           fail c n (create_provider_failure ConnectionUnavailable
             (''The WhatsApp connection could not send for more than '' @ string_of_int wait_minutes
              @ '' minutes (it is '' @ status @ ''), so the message was not sent late.'') None None)
             input None
         else
           let failure = create_provider_failure SessionNotReady
             (''The WhatsApp connection is '' @ status @ '' and cannot send.'') None None
           in if n_failure_code n \<noteq> Some (f_code failure) then
                retry c n failure input (of_int session_not_ready_minimum_delay_seconds) None
              else
                clock_now (\<lambda>now.
                defer_quietly c n (now + session_not_ready_minimum_delay_seconds * 1000) input
                  (failure_code_name (f_code failure)))))"

definition ceiling_seconds :: "int \<Rightarrow> int" where
  "ceiling_seconds ms = - ((- ms) div 1000)"

definition wait_for_pause ::
  "config \<Rightarrow> notification \<Rightarrow> millis \<Rightarrow> dispatch_input \<Rightarrow> dispatch_result prog" where
  "wait_for_pause c n paused_until input =
     (let wait_minutes = c_maximum_connection_wait_minutes c;
          until = to_iso_string paused_until
      in if paused_until > eligible_since n + wait_minutes * 60000 then
           fail c n (create_provider_failure ConnectionRestricted
             (''WhatsApp is restricting this number from messaging new contacts until '' @ until
              @ '', longer than a notification may wait ('' @ string_of_int wait_minutes
              @ '' minutes), so it was not sent.'') None None) input None
         else Entropy (\<lambda>u.
           let resume_at = paused_until
                 + system_integer_between u 0 pause_resumption_spread_seconds * 1000;
               failure = create_provider_failure ConnectionPaused
                 (''WhatsApp is restricting this number from messaging new contacts until '' @ until
                  @ ''. The notification will be sent once it lifts.'') None None
           in if n_failure_code n \<noteq> Some (f_code failure) then
                clock_now (\<lambda>now.
                retry c n failure input (of_int (max (ceiling_seconds (resume_at - now)) 0)) None)
              else defer_quietly c n resume_at input (failure_code_name (f_code failure))))"

section \<open>The attempt\<close>

definition begin_attempt_transaction ::
  "config \<Rightarrow> notification \<Rightarrow> uuid \<Rightarrow> string \<Rightarrow> millis \<Rightarrow> int option tx" where
  "begin_attempt_transaction c n claim_token chat_identifier now =
     tx_bind (repository_begin_attempt (n_application_id n) (n_id n) claim_token chat_identifier now)
       (\<lambda>attempt_number. case attempt_number of
          None \<Rightarrow> tx_return None
        | Some k \<Rightarrow>
            tx_bind (new_identifier c) (\<lambda>attempt_id.
            tx_bind (begin_send_attempt attempt_id (n_application_id n) (n_id n) k now) (\<lambda>_.
            tx_return (Some k))))"

definition begin_attempt ::
  "config \<Rightarrow> notification \<Rightarrow> uuid \<Rightarrow> string \<Rightarrow> (int option \<Rightarrow> 'a prog) \<Rightarrow> 'a prog" where
  "begin_attempt c n claim_token chat_identifier k =
     clock_now (\<lambda>now. atomically (begin_attempt_transaction c n claim_token chat_identifier now) k)"

definition resolve_attempt ::
  "notification \<Rightarrow> int \<Rightarrow> send_attempt_outcome \<Rightarrow> provider_failure_code \<Rightarrow> 'a prog \<Rightarrow> 'a prog" where
  "resolve_attempt n attempt_number outcome failure_code p =
     clock_now (\<lambda>now.
     atomically (resolve_send_attempt (n_application_id n) (n_id n) attempt_number outcome None
                   (Some failure_code) now) (\<lambda>_. p))"

definition resolve_unknown_outcome ::
  "config \<Rightarrow> notification \<Rightarrow> int \<Rightarrow> unknown_outcome_policy \<Rightarrow> dispatch_input
     \<Rightarrow> provider_failure option \<Rightarrow> dispatch_result prog" where
  "resolve_unknown_outcome c n attempt_number policy input failure =
     (let cause = (case failure of
            Some f \<Rightarrow> f
          | None \<Rightarrow> create_provider_failure ProviderOutcomeUnknown
              ''A previous attempt was interrupted before WhatsApp answered.'' None None)
      in resolve_attempt n attempt_number OUTCOME_UNKNOWN (f_code cause)
        (if policy = POLICY_FAIL_CLOSED then
           fail c n (create_provider_failure UnknownOutcomeFailClosed
             (''The outcome of attempt '' @ string_of_int attempt_number
              @ '' is unknown, and this application is configured to stop rather than risk sending''
              @ '' the same message twice. Cause: '' @ f_message cause) None None)
             input (Some attempt_number)
         else if attempt_number \<ge> n_maximum_attempts n then
           fail c n (create_provider_failure MaximumAttemptsExhausted
             (''Delivery was attempted '' @ string_of_int attempt_number
              @ '' times and the last outcome could not be determined.'') None None)
             input (Some attempt_number)
         else
           retry c n (create_provider_failure ProviderOutcomeUnknown (f_message cause) None None)
             input 0 (Some attempt_number)))"

definition handle_send_failure ::
  "config \<Rightarrow> notification \<Rightarrow> session \<Rightarrow> int \<Rightarrow> provider_failure \<Rightarrow> dispatch_input
     \<Rightarrow> dispatch_result prog" where
  "handle_send_failure c n s attempt_number failure input =
     (if has_unknown_outcome failure then
        read_unknown_outcome_policy (n_application_id n) (\<lambda>policy.
        resolve_unknown_outcome c n attempt_number policy input (Some failure))
      else
        resolve_attempt n attempt_number ATTEMPT_FAILED (f_code failure)
          (bind (if f_code failure = ConnectionRestricted then
                   record_refusal c s REFUSED_RESTRICTED
                 else if f_code failure = NewChatQuotaExceeded then
                   record_refusal c s REFUSED_QUOTA
                 else Done ())
            (\<lambda>_.
           if is_session_lost_by_provider failure then
             bind (refresh_status c s) (\<lambda>refreshed. wait_for_connection c n refreshed input)
           else if \<not> is_retryable failure then
             fail c n failure input (Some attempt_number)
           else if attempt_number \<ge> n_maximum_attempts n then
             fail c n (create_provider_failure MaximumAttemptsExhausted
               (''Delivery was attempted '' @ string_of_int attempt_number
                @ '' times without success. The last error was: '' @ f_message failure) None None)
               input (Some attempt_number)
           else if f_code failure = SessionNotReady then
             bind (refresh_status c s) (\<lambda>_.
             retry c n failure input (of_int session_not_ready_minimum_delay_seconds)
               (Some attempt_number))
           else retry c n failure input 0 (Some attempt_number))))"

section \<open>Sending\<close>

datatype recipient_resolution = ChatIdentifier string | Settled dispatch_result

definition resolve_recipient ::
  "config \<Rightarrow> notification \<Rightarrow> session \<Rightarrow> dispatch_input \<Rightarrow> recipient_resolution prog" where
  "resolve_recipient c n s input =
     (case n_recipient_chat_identifier n of
        Some chat \<Rightarrow> Done (ChatIdentifier chat)
      | None \<Rightarrow>
          ResolveRecipient (s_provider_session_name s) (n_recipient_phone_number n) (\<lambda>resolved.
          case resolved of
            Failed failure \<Rightarrow>
              bind (if is_session_lost_by_provider failure then
                      bind (refresh_status c s) (\<lambda>refreshed.
                      wait_for_connection c n refreshed input)
                    else if \<not> is_retryable failure then fail c n failure input None
                    else retry c n failure input
                           (of_int session_not_ready_minimum_delay_seconds) None)
                (\<lambda>result. Done (Settled result))
          | Succeeded value \<Rightarrow>
              (case (rr_is_registered value, rr_chat_identifier value) of
                 (True, Some chat) \<Rightarrow> Done (ChatIdentifier chat)
               | _ \<Rightarrow>
                   bind (fail c n (create_provider_failure RecipientNotOnWhatsapp
                           ''That number is not registered on WhatsApp.'' None None) input None)
                     (\<lambda>result. Done (Settled result)))))"

definition show_typing ::
  "config \<Rightarrow> notification \<Rightarrow> session \<Rightarrow> string \<Rightarrow> 'a prog \<Rightarrow> 'a prog" where
  "show_typing c n s chat_identifier p =
     (if \<not> c_simulate_typing c then p
      else Entropy (\<lambda>u.
        ShowTyping (s_provider_session_name s) chat_identifier
          (compute_typing_milliseconds (int (length (n_rendered_body n))) (system_integer_between u))
          (\<lambda>_. p)))"

definition sent_changes :: "string \<Rightarrow> string \<Rightarrow> millis \<Rightarrow> transition_change list" where
  "sent_changes message_id chat_identifier now =
     [SetProviderMessageId (Some message_id), SetRecipientChatIdentifier (Some chat_identifier),
      SetSentAt (Some now), SetClaimToken None, SetClaimedAt None, SetNextAttemptAt None]"

definition sent_transaction ::
  "config \<Rightarrow> notification \<Rightarrow> string \<Rightarrow> string \<Rightarrow> int \<Rightarrow> dispatch_input \<Rightarrow> millis \<Rightarrow> bool tx" where
  "sent_transaction c n message_id chat_identifier attempt_number input now =
     tx_bind (apply_transition (n_application_id n) (n_id n) PROCESSING SENT
                (sent_changes message_id chat_identifier now) now) (\<lambda>transitioned.
     case transitioned of
       None \<Rightarrow> tx_return False
     | Some _ \<Rightarrow>
         tx_bind (tx_read w_clock) (\<lambda>resolved_at.
         tx_bind (resolve_send_attempt (n_application_id n) (n_id n) attempt_number SUCCEEDED
                    (Some message_id) None resolved_at) (\<lambda>_.
         tx_bind (new_identifier c) (\<lambda>event_id.
         tx_bind (append_event
           \<lparr>e_id = event_id, e_application_id = n_application_id n, e_notification_id = n_id n,
            e_event_type = ''notification.sent'', e_from_status = Some PROCESSING,
            e_to_status = Some SENT, e_attempt_number = Some attempt_number,
            e_payload = [(''providerMessageId'', JStr message_id)],
            e_correlation_id = Some (di_correlation_id input), e_occurred_at = 0\<rparr>) (\<lambda>_.
         tx_return True)))))"

definition deliver ::
  "config \<Rightarrow> notification \<Rightarrow> session \<Rightarrow> uuid \<Rightarrow> dispatch_input \<Rightarrow> dispatch_result prog" where
  "deliver c n s claim_token input =
     bind (resolve_recipient c n s input) (\<lambda>recipient. case recipient of
       Settled result \<Rightarrow> Done result
     | ChatIdentifier chat \<Rightarrow>
         show_typing c n s chat (ReadAborted (\<lambda>aborted.
         if aborted then
           clock_now (\<lambda>now. defer_quietly c n now input ''worker_stopping'')
         else begin_attempt c n claim_token chat (\<lambda>attempt. case attempt of
           None \<Rightarrow> Done (result_of NotClaimable None)
         | Some attempt_number \<Rightarrow>
             if attempt_number > n_maximum_attempts n then
               fail c n (create_provider_failure MaximumAttemptsExhausted
                 (''Delivery was attempted '' @ string_of_int (n_maximum_attempts n)
                  @ '' times without success.'') None None) input (Some attempt_number)
             else
               SendTextMessage
                 \<lparr>x_notification_id = n_id n, x_session_name = s_provider_session_name s,
                  x_chat_identifier = chat, x_text = n_rendered_body n\<rparr> (\<lambda>result.
               case result of
                 Failed failure \<Rightarrow> handle_send_failure c n s attempt_number failure input
               | Succeeded message \<Rightarrow>
                   clock_now (\<lambda>now.
                   atomically (sent_transaction c n (sm_provider_message_id message) chat
                                 attempt_number input now) (\<lambda>was_recorded.
                   Done (result_of (if was_recorded then Sent else NotClaimable) None))))))))"

section \<open>The whole dispatch\<close>

definition reserve_and_deliver ::
  "config \<Rightarrow> notification \<Rightarrow> session \<Rightarrow> uuid \<Rightarrow> dispatch_input \<Rightarrow> dispatch_result prog" where
  "reserve_and_deliver c claimed ready claim_token input =
     clock_now (\<lambda>now. Entropy (\<lambda>u.
     atomically (reserve_send_slot (s_id ready) now u) (\<lambda>slot.
     if \<not> slot_reserved slot then
       defer_quietly c claimed (to_date (slot_next_send_allowed_at slot)) input ''send_pacing''
     else deliver c claimed ready claim_token input)))"

definition dispatch_claimed ::
  "config \<Rightarrow> notification \<Rightarrow> uuid \<Rightarrow> dispatch_input \<Rightarrow> dispatch_result prog" where
  "dispatch_claimed c claimed claim_token input =
     has_outlived_delivery_window c claimed (\<lambda>outlived.
     if outlived then
       fail c claimed (create_provider_failure DeliveryWindowExpired
         (''The notification waited longer than the '' @ string_of_int (c_maximum_lifetime_hours c)
          @ '' hour delivery window without being sent.'') None None) input None
     else reading (find_unresolved (n_application_id claimed) (n_id claimed)) (\<lambda>unresolved.
     case unresolved of
       Some a \<Rightarrow>
         read_unknown_outcome_policy (n_application_id claimed) (\<lambda>policy.
         resolve_unknown_outcome c claimed (a_attempt_number a) policy input None)
     | None \<Rightarrow>
         reading (find_session (n_application_id claimed) (n_session_id claimed)) (\<lambda>found.
         case found of
           None \<Rightarrow>
             fail c claimed (create_provider_failure SessionMissing
               ''The WhatsApp connection this notification was queued against no longer exists.''
               None None) input None
         | Some s \<Rightarrow>
             if \<not> can_session_send (s_status s) then wait_for_connection c claimed s input
             else bind (prepare_to_send c s) (\<lambda>ready.
               case s_sending_paused_until ready of
                 None \<Rightarrow> reserve_and_deliver c claimed ready claim_token input
               | Some paused_until \<Rightarrow>
                   clock_now (\<lambda>now.
                   if is_sending_paused (Some paused_until) now then
                     wait_for_pause c claimed paused_until input
                   else reserve_and_deliver c claimed ready claim_token input)))))"

definition dispatch :: "config \<Rightarrow> dispatch_input \<Rightarrow> dispatch_result prog" where
  "dispatch c input =
     next_identifier c (\<lambda>claim_token.
     bind (claim c input claim_token) (\<lambda>claimed_or_not. case claimed_or_not of
       ClaimRefused \<Rightarrow> Done (result_of NotClaimable None)
     | NotDue due reason \<Rightarrow>
         bind (reschedule c input due) (\<lambda>_. Done (result_of Deferred (Some reason)))
     | Claimed claimed \<Rightarrow> dispatch_claimed c claimed claim_token input))"

end
