(* ===== verification/Dispatch_Frame.thy ===== *)
theory Dispatch_Frame
  imports Dispatch Integrity
begin

text \<open>
  The contract between the dispatcher's programs and its transactions. Inside the locale the
  programs are traversed once: an invariant and a guarantee that every transaction of the
  dispatcher keeps are kept by every dispatch, in every interleaving. \<open>Dispatch_Safety\<close> and
  \<open>Pause_Safety\<close> interpret it.
\<close>

definition good_step ::
  "notification_status \<Rightarrow> transition_change list \<Rightarrow> millis \<Rightarrow> bool" where
  "good_step next_status changes now =
     (can_transition PROCESSING next_status \<and>
      (\<forall>r. n_status r = PROCESSING \<longrightarrow> check_notification r \<longrightarrow>
           check_notification (transition_row next_status changes now r)
           \<and> claim_matches_status (transition_row next_status changes now r)))"

lemma good_steps [simp, intro]:
  "good_step FAILED (fail_changes f t) now"
  "good_step RETRYING (retry_changes f t) now"
  "good_step RETRYING [SetNextAttemptAt (Some t), SetClaimToken None, SetClaimedAt None] now"
  "good_step SENT (sent_changes m ch t) now"
  by (simp_all add: good_step_def fail_changes_def retry_changes_def sent_changes_def
      transition_row_def apply_changes_def check_notification_def claim_matches_status_def)

locale dispatch_frame = session_contract +
  fixes about :: "notification \<Rightarrow> bool"
    and application_id :: uuid
    and notification_id :: uuid
  assumes step: "about n \<Longrightarrow> good_step (ts_next_status step) (ts_changes step) (ts_now step) \<Longrightarrow>
      commits I G E (transition_transaction c n step input)"
    and deferral: "about n \<Longrightarrow> commits I G E (defer_transaction c n until input now)"
    and send: "about n \<Longrightarrow> commits I G E (sent_transaction c n m ch k input now)"
    and begin_try: "about n \<Longrightarrow> commits I G E (begin_attempt_transaction c n token ch now)"
    and resolution: "about n \<Longrightarrow>
      commits I G E (resolve_send_attempt (n_application_id n) (n_id n) k outcome m' fc now)"
    and naming: "commits I G E (new_identifier c)"
    and enqueue: "commits I G E (enqueue_in_transaction c j)"
    and promotion: "commits I G E (promote_scheduled application_id notification_id now)"
    and queued_event: "e_application_id ev = application_id \<Longrightarrow> e_notification_id ev = notification_id
      \<Longrightarrow> commits I G E (append_event ev)"
    and claiming: "commits I G E (claim_for_dispatch application_id notification_id token now)"
    and claimed: "I w \<Longrightarrow> claim_for_dispatch application_id notification_id token now w
      = Inr (Some n, w') \<Longrightarrow> about n"
begin

lemma safe_transition_and_record:
  "about n \<Longrightarrow> good_step (ts_next_status step) (ts_changes step) (ts_now step) \<Longrightarrow>
     safe I G E (\<lambda>_. True) (transition_and_record c n step input)"
  by (auto simp: transition_and_record_def intro!: safe_commits step)

lemma safe_fail: "about n \<Longrightarrow> safe I G E (\<lambda>_. True) (fail c n failure input k)"
  by (auto simp: fail_def intro!: safe_clock safe_bind [OF safe_transition_and_record])

lemma safe_retry: "about n \<Longrightarrow> safe I G E (\<lambda>_. True) (retry c n failure input d k)"
  by (auto simp: retry_def range_error split: js_date.splits
      intro!: safe_clock safe_bind [OF safe_transition_and_record])

lemma safe_defer_quietly: "about n \<Longrightarrow> safe I G E (\<lambda>_. True) (defer_quietly c n until input d)"
  by (auto simp: defer_quietly_def intro!: safe_clock safe_commits deferral)

lemma safe_wait_for_connection:
  "about n \<Longrightarrow> safe I G E (\<lambda>_. True) (wait_for_connection c n s input)"
  by (auto simp: wait_for_connection_def milliseconds_since_due_def Let_def
      intro!: safe_clock safe_fail safe_retry safe_defer_quietly)

lemma safe_wait_for_pause: "about n \<Longrightarrow> safe I G E (\<lambda>_. True) (wait_for_pause c n t input)"
  by (auto simp: wait_for_pause_def Let_def intro!: safe_clock safe_fail safe_retry safe_defer_quietly)

lemma safe_resolve_attempt:
  "about n \<Longrightarrow> safe I G E Q p \<Longrightarrow> safe I G E Q (resolve_attempt n k outcome fc p)"
  by (auto simp: resolve_attempt_def intro!: safe_clock safe_commits resolution)

lemma safe_read_policy:
  "(\<And>x. safe I G E Q (k x)) \<Longrightarrow> safe I G E Q (read_unknown_outcome_policy app k)"
  by (auto simp: read_unknown_outcome_policy_def intro!: safe_read)

lemma safe_resolve_unknown_outcome:
  "about n \<Longrightarrow> safe I G E (\<lambda>_. True) (resolve_unknown_outcome c n k policy input f)"
  by (auto simp: resolve_unknown_outcome_def Let_def
      intro!: safe_resolve_attempt safe_fail safe_retry)

lemma safe_handle_send_failure:
  "about n \<Longrightarrow> safe I G E (\<lambda>_. True) (handle_send_failure c n s k failure input)"
  by (auto simp: handle_send_failure_def safe_record_refusal safe_refresh_status
      intro!: safe_read_policy safe_resolve_unknown_outcome safe_resolve_attempt safe_fail safe_retry
        safe_wait_for_connection safe_bind [where Q = "\<lambda>_. True"])

lemma safe_resolve_recipient:
  "about n \<Longrightarrow> safe I G E (\<lambda>_. True) (resolve_recipient c n s input)"
  by (auto simp: resolve_recipient_def safe_refresh_status
      split: option.splits provider_result.splits bool.splits
      intro!: safe_fail safe_retry safe_wait_for_connection safe_bind [where Q = "\<lambda>_. True"])

lemma safe_deliver: "about n \<Longrightarrow> safe I G E (\<lambda>_. True) (deliver c n s token input)"
  unfolding deliver_def
  by (rule safe_bind [OF safe_resolve_recipient])
    (auto simp: show_typing_def begin_attempt_def
      split: recipient_resolution.splits option.splits provider_result.splits
      intro!: safe_clock safe_defer_quietly safe_fail safe_handle_send_failure
        safe_commits begin_try send)

lemma safe_reserve_and_deliver:
  "about n \<Longrightarrow> safe I G E (\<lambda>_. True) (reserve_and_deliver c n s token input)"
  by (auto simp: reserve_and_deliver_def
      intro!: safe_clock safe_reserve_send_slot safe_defer_quietly safe_deliver)

lemma safe_dispatch_claimed:
  "about n \<Longrightarrow> safe I G E (\<lambda>_. True) (dispatch_claimed c n token input)"
  by (auto simp: dispatch_claimed_def has_outlived_delivery_window_def milliseconds_since_due_def
      split: option.splits
      intro!: safe_clock safe_read safe_read_policy safe_fail safe_resolve_unknown_outcome
        safe_wait_for_connection safe_wait_for_pause safe_reserve_and_deliver
        safe_bind [OF safe_prepare_to_send])

lemma safe_claim_for_dispatch:
  assumes "\<And>n. about n \<Longrightarrow> safe I G E Q (k (Some n))" and "safe I G E Q (k None)"
  shows "safe I G E Q (atomically (claim_for_dispatch application_id notification_id token now) k)"
proof (rule safe_atomically)
  fix w r w' assume w: "I w"
    and t: "claim_for_dispatch application_id notification_id token now w = Inr (r, w')"
  have "safe I G E Q (k r)"
    using assms claimed [OF w] t by (cases r) auto
  with commitsD(1) [OF claiming w t] show "I w' \<and> G w w' \<and> safe I G E Q (k r)"
    by simp
qed (use commitsD(2) [OF claiming] still in auto)

lemma safe_claim:
  assumes "di_application_id input = application_id" and "di_notification_id input = notification_id"
  shows "safe I G E (\<lambda>r. \<forall>n. r = Claimed n \<longrightarrow> about n) (claim c input token)"
  unfolding claim_def assms
  by (auto simp: next_identifier_def explain_failed_claim_def split: option.splits
      notification_status.splits
      intro!: safe_clock safe_read safe_commits [OF promotion] safe_bind [where Q = "\<lambda>_. True"]
        safe_claim_for_dispatch safe_commits [OF naming] safe_commits [OF queued_event])

lemma safe_reschedule: "safe I G E (\<lambda>_. True) (reschedule c input t)"
  by (auto simp: reschedule_def intro!: safe_commits [OF enqueue])

lemma safe_dispatch:
  assumes "di_application_id input = application_id" and "di_notification_id input = notification_id"
  shows "safe I G E (\<lambda>_. True) (dispatch c input)"
  unfolding dispatch_def next_identifier_def
  by (auto split: claim_result.splits
      intro!: safe_commits [OF naming] safe_bind [OF safe_claim [OF assms]]
        safe_bind [OF safe_reschedule] safe_dispatch_claimed)

end

end
