(* ===== verification/Dispatch_Safety.thy ===== *)
theory Dispatch_Safety
  imports Dispatch_Frame Examples
begin

text \<open>
  Dispatching keeps the database sound in every interleaving: the tables stay consistent, every
  notification only moves along legal transitions, the timeline and the job log only grow, and no
  statement of the dispatcher ever runs into a constraint, except the index on the provider's
  message identifier when the provider hands out the same identifier twice.
\<close>

section \<open>What the dispatcher relies on\<close>

definition benign :: "exn \<Rightarrow> bool" where
  "benign e =
     (e = RangeError \<or> e = ConstraintViolation ''notifications_provider_message_id_unique'')"

definition present :: "uuid \<Rightarrow> uuid \<Rightarrow> world \<Rightarrow> bool" where
  "present application_id notification_id w =
     (sound w \<and> notification_exists application_id notification_id w)"

lemma present_frame [simp]:
  "present a i (w\<lparr>w_sessions := ss\<rparr>) = present a i w"
  "present a i (w\<lparr>w_events := es\<rparr>) = present a i w"
  "present a i (w\<lparr>w_jobs := js\<rparr>) = present a i w"
  "present a i (w\<lparr>w_next_identifier := n\<rparr>) = present a i w"
  by (simp_all add: present_def notification_exists_def)

lemma presentD: "present a i w \<Longrightarrow> sound w" "present a i w \<Longrightarrow> notification_exists a i w"
  by (simp_all add: present_def)

interpretation delivery: session_frame "present a i" evolves benign for a i
  by unfold_locales (auto simp: benign_def intro: evolves_trans)

lemma evolves_present: "present a i w \<Longrightarrow> sound w' \<Longrightarrow> evolves w w' \<Longrightarrow> present a i w'"
  by (auto simp: present_def intro: evolves_exists)

section \<open>Transitions out of PROCESSING\<close>

lemma good_step_orderly:
  assumes "good_step s cs now" and "n_status r = PROCESSING" and "check_notification r"
  shows "orderly r (transition_row s cs now r)"
    and "enforce_status_transition (n_status r) (n_status (transition_row s cs now r))"
    and "check_notification (transition_row s cs now r)"
  using assms
  by (auto simp: good_step_def orderly_def row_evolves_def enforce_status_transition_def
      intro!: reaches_step)

lemma is_notificationD:
  "is_notification a i r \<Longrightarrow> n_id r = i \<and> n_application_id r = a"
  by (simp add: is_notification_def)

lemma soundD:
  assumes "sound w" and "r \<in> set (w_notifications w)"
  shows "check_notification r" and "claim_matches_status r" and "ledger_matches (w_attempts w) r"
  using assms by (simp_all add: sound_def)

lemma apply_transition_keeps:
  assumes "sound w" and "good_step s cs now"
    and "apply_transition a i PROCESSING s cs now w = Inr (res, w')"
  shows "sound w' \<and> evolves w w'"
    and "res \<noteq> None \<Longrightarrow> notification_exists a i w'"
proof -
  let ?p = "\<lambda>r. is_notification a i r \<and> n_status r = PROCESSING"
  from assms(3) obtain rs where
    u: "update_notifications ?p (transition_row s cs now) w = Inr (rs, w')" and res: "res = first_row rs"
    by (auto simp: apply_transition_def tx_return_def elim!: tx_bind_InrE)
  have ord: "orderly r (transition_row s cs now r)"
    if "r \<in> set (w_notifications w)" "?p r" for r
    using good_step_orderly(1) [OF assms(2)] that soundD(1) [OF assms(1)] by simp
  show "sound w' \<and> evolves w w'"
    using update_keeps_sound [OF assms(1) u ord] update_keeps_rows [OF u ord] by blast
  then have ev: "evolves w w'" ..
  assume "res \<noteq> None"
  with res update_notifications_Inr(1) [OF u] have "filter ?p (w_notifications w) \<noteq> []"
    by (auto simp: first_row_def)
  then obtain r where "r \<in> set (w_notifications w)" and "is_notification a i r"
    by (auto simp: filter_empty_conv)
  then have "notification_exists a i w"
    by (auto simp: notification_exists_def list_ex_iff is_notification_def)
  with ev show "notification_exists a i w'" by (rule evolves_exists)
qed

lemma apply_transition_benign:
  assumes "sound w" and "good_step s cs now"
    and "apply_transition a i PROCESSING s cs now w = Inl e"
  shows "benign e"
proof -
  from assms(3) have "update_notifications
      (\<lambda>r. is_notification a i r \<and> n_status r = PROCESSING) (transition_row s cs now) w = Inl e"
    by (auto simp: apply_transition_def tx_bind_def tx_return_def split: sum.splits)
  then have "e = ConstraintViolation ''notifications_provider_message_id_unique''"
  proof (rule update_only_unique_fails)
    fix r assume "r \<in> set (w_notifications w)" and "is_notification a i r \<and> n_status r = PROCESSING"
    with good_step_orderly(2,3) [OF assms(2)] soundD(1) [OF assms(1)]
    show "enforce_status_transition (n_status r) (n_status (transition_row s cs now r))
        \<and> check_notification (transition_row s cs now r)" by blast
  qed
  then show ?thesis by (simp add: benign_def)
qed

section \<open>The transactions\<close>

abbreviation keeps :: "uuid \<Rightarrow> uuid \<Rightarrow> 'r tx \<Rightarrow> bool" where
  "keeps a i \<equiv> commits (present a i) evolves benign"

lemmas keeps_bind = delivery.commits_bind

lemma keepsI:
  assumes "\<And>w r w'. present a i w \<Longrightarrow> t w = Inr (r, w') \<Longrightarrow> sound w' \<and> evolves w w'"
    and "\<And>w e. present a i w \<Longrightarrow> t w = Inl e \<Longrightarrow> benign e"
  shows "keeps a i t"
  by (rule commitsI) (use assms evolves_present in blast)+

lemma keeps_basic [simp]:
  "keeps a i (new_identifier c)"
  "keeps a i (enqueue_in_transaction c j)"
  by (simp_all add: commits_def new_identifier_def
      enqueue_in_transaction_def)

lemma keeps_append_event:
  "e_application_id ev = a \<Longrightarrow> e_notification_id ev = i \<Longrightarrow> keeps a i (append_event ev)"
  by (auto simp: append_event_def present_def split: if_splits intro!: keepsI)

lemma keeps_apply_transition:
  assumes "good_step s cs now"
  shows "keeps a i (apply_transition a i PROCESSING s cs now)"
  by (rule keepsI)
    (blast dest: presentD(1) apply_transition_keeps(1) [OF _ assms]
      apply_transition_benign [OF _ assms])+

lemma keeps_resolve: "keeps a i (resolve_send_attempt a' n k u m fc now)"
proof (rule keepsI)
  show "benign e" if "resolve_send_attempt a' n k u m fc now w = Inl e" for w e
    using that by (simp add: resolve_send_attempt_def)
qed (blast dest: presentD(1) sound_resolve)

lemma keeps_transition:
  assumes "n_id n = i" and "n_application_id n = a"
    and "good_step (ts_next_status step) (ts_changes step) (ts_now step)"
  shows "keeps a i (transition_transaction c n step input)"
  using assms
  by (auto simp: transition_transaction_def enqueue_next_attempt_def split: option.splits
      intro!: keeps_bind keeps_apply_transition keeps_append_event)

lemma keeps_defer:
  assumes "n_id n = i" and "n_application_id n = a"
  shows "keeps a i (defer_transaction c n until input now)"
  using assms
  by (auto simp: defer_transaction_def enqueue_next_attempt_def
      intro!: keeps_bind keeps_apply_transition)

lemma keeps_sent:
  assumes "n_id n = i" and "n_application_id n = a"
  shows "keeps a i (sent_transaction c n m ch k input now)"
  using assms
  by (auto simp: sent_transaction_def split: option.splits
      intro!: keeps_bind keeps_apply_transition keeps_append_event keeps_resolve)

section \<open>Beginning an attempt\<close>

definition holds_claim :: "uuid \<Rightarrow> uuid \<Rightarrow> uuid \<Rightarrow> notification \<Rightarrow> bool" where
  "holds_claim a i token r =
     (is_notification a i r \<and> n_claim_token r = Some token \<and> n_status r = PROCESSING)"

definition counted :: "string \<Rightarrow> millis \<Rightarrow> notification \<Rightarrow> notification" where
  "counted chat now r =
     r\<lparr>n_attempt_count := n_attempt_count r + 1, n_recipient_chat_identifier := Some chat,
       n_updated_at := of_date now\<rparr>"

definition fresh_attempt :: "uuid \<Rightarrow> uuid \<Rightarrow> uuid \<Rightarrow> int \<Rightarrow> millis \<Rightarrow> attempt" where
  "fresh_attempt attempt_id a i k now =
     \<lparr>a_id = attempt_id, a_application_id = a, a_notification_id = i, a_attempt_number = k,
      a_request_started_at = now, a_request_finished_at = None, a_outcome = None,
      a_provider_message_id = None, a_failure_code = None\<rparr>"

interpretation counted_rows: keyed_rows n_id "counted chat now" for chat now
  by unfold_locales (simp add: counted_def)

lemma repository_begin_attempt_eq:
  assumes "sound w"
  shows "repository_begin_attempt a i token chat now w
    = Inr (map_option (\<lambda>r. n_attempt_count r + 1) (sql_first (holds_claim a i token) (w_notifications w)),
           w\<lparr>w_notifications := sql_update (holds_claim a i token) (counted chat now)
                                 (w_notifications w)\<rparr>)"
proof -
  have "update_notifications (holds_claim a i token) (counted chat now) w
      = Inr (map (counted chat now) (filter (holds_claim a i token) (w_notifications w)),
             w\<lparr>w_notifications := sql_update (holds_claim a i token) (counted chat now)
                                   (w_notifications w)\<rparr>)"
    by (rule update_cannot_fail [OF assms])
      (auto simp: holds_claim_def counted_def enforce_status_transition_def check_notification_def
        dest: soundD(1) [OF assms])
  moreover have "repository_begin_attempt a i token chat now
      = tx_bind (update_notifications (holds_claim a i token) (counted chat now))
          (\<lambda>rows. tx_return (map_option n_attempt_count (first_row rows)))"
    by (simp add: repository_begin_attempt_def holds_claim_def [abs_def] counted_def [abs_def])
  moreover have "map_option n_attempt_count (map_option (counted chat now) x)
      = map_option (\<lambda>r. n_attempt_count r + 1) x" for x
    by (cases x) (simp_all add: counted_def)
  ultimately show ?thesis
    by (simp add: tx_bind_def tx_return_def first_row_map sql_returning_def sql_first_def)
qed

lemma ledger_upto:
  "ledger_matches attempts r \<Longrightarrow> a \<in> set attempts \<Longrightarrow> a_notification_id a = n_id r
     \<Longrightarrow> a_attempt_number a \<in> {1..n_attempt_count r}"
proof -
  assume l: "ledger_matches attempts r" and a: "a \<in> set attempts" "a_notification_id a = n_id r"
  from a have "a_attempt_number a \<in> set (ledger_numbers (n_id r) attempts)"
    by (auto simp: ledger_numbers_def)
  with l show ?thesis by (simp add: ledger_matches_def)
qed

text \<open>
  Either the claim is not held any more and nothing changes, or one attempt is counted on the row
  and the ledger gains exactly its line; the transaction never fails.
\<close>

lemma begin_attempt_effect:
  assumes "sound w" and "n_id n = i" and "n_application_id n = a"
  obtains (lost) "sql_first (holds_claim a i token) (w_notifications w) = None"
      and "begin_attempt_transaction c n token chat now w = Inr (None, w)"
    | (begun) r where "sql_first (holds_claim a i token) (w_notifications w) = Some r"
      and "begin_attempt_transaction c n token chat now w
        = Inr (Some (n_attempt_count r + 1),
            w\<lparr>w_notifications := sql_update (holds_claim a i token) (counted chat now)
                                  (w_notifications w),
              w_next_identifier := Suc (w_next_identifier w),
              w_attempts := w_attempts w @ [fresh_attempt (c_identifier c (w_next_identifier w))
                              a i (n_attempt_count r + 1) now]\<rparr>)"
proof (cases "sql_first (holds_claim a i token) (w_notifications w)")
  case None
  then have "sql_update (holds_claim a i token) (counted chat now) (w_notifications w)
      = w_notifications w"
    by (intro sql_update_none) (simp add: sql_first_None)
  with None have "begin_attempt_transaction c n token chat now w = Inr (None, w)"
    by (simp add: begin_attempt_transaction_def assms(2,3) tx_bind_def tx_return_def
        repository_begin_attempt_eq [OF assms(1)])
  with None show thesis by (rule lost)
next
  case (Some r)
  let ?w1 = "w\<lparr>w_notifications := sql_update (holds_claim a i token) (counted chat now)
                                  (w_notifications w),
              w_next_identifier := Suc (w_next_identifier w)\<rparr>"
  from Some have r: "r \<in> set (w_notifications w)" "holds_claim a i token r"
    using sql_first_SomeD by fastforce+
  then have ri: "n_id r = i" "n_application_id r = a"
    by (auto simp: holds_claim_def is_notification_def)
  have fresh: "\<not> list_ex (\<lambda>x. a_notification_id x = i \<and> a_attempt_number x = n_attempt_count r + 1)
      (w_attempts ?w1)"
    using ledger_upto [OF soundD(3) [OF assms(1) r(1)]] ri by (fastforce simp: list_ex_iff)
  have "0 \<le> n_attempt_count r"
    using soundD(1) [OF assms(1) r(1)] by (simp add: check_notification_def)
  moreover have "notification_exists a i ?w1"
  proof -
    have "counted chat now r \<in> set (w_notifications ?w1)"
      using sql_update_image [OF r(1), of "holds_claim a i token" "counted chat now"] r(2) by simp
    with ri show ?thesis
      by (auto simp: notification_exists_def list_ex_iff counted_def
          intro!: bexI [of _ "counted chat now r"])
  qed
  ultimately have "begin_send_attempt (c_identifier c (w_next_identifier w)) a i
        (n_attempt_count r + 1) now ?w1
      = Inr ((), ?w1\<lparr>w_attempts := w_attempts w @ [fresh_attempt (c_identifier c (w_next_identifier w))
                              a i (n_attempt_count r + 1) now]\<rparr>)"
    using fresh by (simp add: begin_send_attempt_def fresh_attempt_def)
  with Some have "begin_attempt_transaction c n token chat now w
      = Inr (Some (n_attempt_count r + 1),
            ?w1\<lparr>w_attempts := w_attempts w @ [fresh_attempt (c_identifier c (w_next_identifier w))
                              a i (n_attempt_count r + 1) now]\<rparr>)"
    by (simp add: begin_attempt_transaction_def assms(2,3) tx_bind_def tx_return_def
        new_identifier_def repository_begin_attempt_eq [OF assms(1)])
  with Some show thesis by (intro begun) simp_all
qed

lemma sound_begun:
  assumes "sound w" and "sql_first (holds_claim a i token) (w_notifications w) = Some r"
  shows "sound (w\<lparr>w_notifications := sql_update (holds_claim a i token) (counted chat now)
                                  (w_notifications w),
              w_next_identifier := j,
              w_attempts := w_attempts w @ [fresh_attempt attempt_id a i (n_attempt_count r + 1) now]\<rparr>)"
    (is "sound ?w'")
proof -
  let ?rows = "w_notifications w"
  from assms(2) have r: "r \<in> set ?rows" "holds_claim a i token r"
    using sql_first_SomeD by fastforce+
  have ri: "n_id s = i \<longleftrightarrow> s = r" if "s \<in> set ?rows" for s
    using sound_unique [OF assms(1) that r(1)] r(2)
    by (auto simp: holds_claim_def is_notification_def)
  have ids: "map n_id (w_notifications ?w') = map n_id ?rows"
    by (simp add: counted_rows.keys_update)
  have "message_keys (w_notifications ?w') = message_keys ?rows"
    using message_keys_update_same [of "holds_claim a i token" "counted chat now"]
    by (simp add: counted_def)
  then have uniq: "unique_message_ids (w_notifications ?w')"
    using assms(1) by (simp add: sound_def unique_message_ids_def)
  have "check_notification s \<and> claim_matches_status s \<and> ledger_matches (w_attempts ?w') s"
    if "s \<in> set (w_notifications ?w')" for s
  proof -
    from that obtain q where q: "q \<in> set ?rows"
      and s: "s = (if holds_claim a i token q then counted chat now q else q)"
      by (auto elim: in_set_sql_updateE)
    note ok = soundD [OF assms(1) q]
    show ?thesis
    proof (cases "q = r")
      case True
      with ok have "0 \<le> n_attempt_count r" by (simp add: check_notification_def)
      then have "[1..n_attempt_count r + 1] = [1..n_attempt_count r] @ [n_attempt_count r + 1]"
        by (simp add: upto_rec2)
      with True ok s r ri [OF q] show ?thesis
        by (auto simp: counted_def check_notification_def claim_matches_status_def
            ledger_matches_def ledger_numbers_def fresh_attempt_def)
    next
      case False
      with ri [OF q] have "n_id q \<noteq> i" by simp
      with ok s show ?thesis
        by (auto simp: holds_claim_def is_notification_def ledger_matches_def ledger_numbers_def
            fresh_attempt_def)
    qed
  qed
  moreover have "\<exists>s \<in> set (w_notifications ?w'). n_id s = a_notification_id x"
    if "x \<in> set (w_attempts ?w')" for x
  proof -
    have "a_notification_id x \<in> n_id ` set ?rows"
      using that assms(1) r ri [OF r(1)]
      by (auto simp: sound_def fresh_attempt_def image_iff) metis
    moreover have "n_id ` set ?rows = n_id ` set (w_notifications ?w')"
      using arg_cong [OF ids, of set] by (simp only: set_map)
    ultimately have "a_notification_id x \<in> n_id ` set (w_notifications ?w')" by blast
    then show ?thesis by (rule imageE) (rule bexI, simp)
  qed
  moreover have "distinct (map n_id (w_notifications ?w'))"
    using assms(1) by (simp only: ids sound_def)
  ultimately show ?thesis
    using uniq unfolding sound_def by blast
qed

lemma evolves_begun:
  "evolves w (w\<lparr>w_notifications := sql_update p (counted chat now) (w_notifications w),
              w_next_identifier := j, w_attempts := as\<rparr>)"
proof -
  have "row_evolves r (counted chat now r)" for r
    by (simp add: row_evolves_def counted_def)
  then have "\<exists>r' \<in> set (sql_update p (counted chat now) (w_notifications w)). row_evolves r r'"
    if "r \<in> set (w_notifications w)" for r
    using sql_update_image [OF that, of p "counted chat now"]
    by (metis row_evolves_refl)
  then show ?thesis by (simp add: evolves_def)
qed

lemma keeps_begin_attempt:
  assumes "n_id n = i" and "n_application_id n = a"
  shows "keeps a i (begin_attempt_transaction c n token chat now)"
proof (rule keepsI)
  fix w r w' assume w: "present a i w"
    and t: "begin_attempt_transaction c n token chat now w = Inr (r, w')"
  show "sound w' \<and> evolves w w'"
  proof (cases rule: begin_attempt_effect [OF presentD(1) [OF w] assms, where token = token
        and c = c and chat = chat and now = now])
    case 1
    with t presentD(1) [OF w] show ?thesis by auto
  next
    case (2 q)
    with t sound_begun [OF presentD(1) [OF w] 2(1)] evolves_begun show ?thesis by auto
  qed
next
  fix w e assume w: "present a i w"
    and t: "begin_attempt_transaction c n token chat now w = Inl e"
  show "benign e"
    by (cases rule: begin_attempt_effect [OF presentD(1) [OF w] assms, where token = token
          and c = c and chat = chat and now = now]) (use t in auto)
qed

section \<open>Promotion and claim\<close>

lemma keeps_simple_update:
  assumes "\<And>r. p r \<Longrightarrow> check_notification r \<Longrightarrow> claim_matches_status r \<Longrightarrow> check_notification (f r)
      \<and> enforce_status_transition (n_status r) (n_status (f r)) \<and> orderly r (f r)"
  shows "keeps a i (tx_bind (update_notifications p f) (\<lambda>rows. tx_return (g rows)))"
proof (rule keepsI)
  fix w r w' assume w: "present a i w"
    and t: "tx_bind (update_notifications p f) (\<lambda>rows. tx_return (g rows)) w = Inr (r, w')"
  from t obtain rs where u: "update_notifications p f w = Inr (rs, w')"
    by (auto simp: tx_return_def elim!: tx_bind_InrE)
  have "\<And>r. r \<in> set (w_notifications w) \<Longrightarrow> p r \<Longrightarrow> orderly r (f r)"
    using assms soundD [OF presentD(1) [OF w]] by blast
  then show "sound w' \<and> evolves w w'"
    using update_keeps_sound [OF presentD(1) [OF w] u] update_keeps_rows [OF u] by blast
next
  fix w e assume w: "present a i w"
    and t: "tx_bind (update_notifications p f) (\<lambda>rows. tx_return (g rows)) w = Inl e"
  from t have u: "update_notifications p f w = Inl e"
    by (auto simp: tx_return_def tx_bind_def split: sum.splits)
  have "e = ConstraintViolation ''notifications_provider_message_id_unique''"
    by (rule update_only_unique_fails [OF u])
      (use assms soundD [OF presentD(1) [OF w]] in blast)
  then show "benign e" by (simp add: benign_def)
qed

lemma keeps_promote: "keeps a i (promote_scheduled a' i' now)"
  unfolding promote_scheduled_def
  by (rule keeps_simple_update)
    (auto simp: check_notification_def claim_matches_status_def enforce_status_transition_def
      orderly_def row_evolves_def intro!: reaches_step)

lemma keeps_claim: "keeps a i (claim_for_dispatch a' i' token now)"
  unfolding claim_for_dispatch_def
  by (rule keeps_simple_update)
    (auto simp: check_notification_def claim_matches_status_def enforce_status_transition_def
      orderly_def row_evolves_def is_claimable_def intro!: reaches_step)

section \<open>The dispatcher's programs\<close>

definition about :: "uuid \<Rightarrow> uuid \<Rightarrow> notification \<Rightarrow> bool" where
  "about a i n = (n_id n = i \<and> n_application_id n = a)"

lemma first_row_filter:
  fixes f :: "'r \<Rightarrow> 'r"
  assumes "first_row (map f (filter p rows)) = Some y"
  obtains x where "x \<in> set rows" and "p x" and "y = f x"
  using assms that unfolding first_row_map by (auto elim: sql_returning_SomeE)

lemma claim_for_dispatch_about:
  assumes "claim_for_dispatch a i token now w = Inr (Some n, w')"
  shows "about a i n"
proof -
  let ?p = "\<lambda>r. is_notification a i r \<and> is_claimable now r"
  let ?f = "\<lambda>r. r\<lparr>n_status := PROCESSING, n_claim_token := Some token,
      n_claimed_at := Some now, n_updated_at := of_date now\<rparr>"
  from assms obtain rs where u: "update_notifications ?p ?f w = Inr (rs, w')"
    and n: "first_row rs = Some n"
    by (auto simp: claim_for_dispatch_def tx_return_def elim!: tx_bind_InrE)
  from n have "first_row (map ?f (filter ?p (w_notifications w))) = Some n"
    by (simp only: update_notifications_Inr(1) [OF u])
  then obtain r where "?p r" and "n = ?f r" by (rule first_row_filter)
  then show ?thesis by (simp add: about_def is_notification_def)
qed

section \<open>The dispatcher keeps the tables sound\<close>

interpretation sound_dispatch: dispatch_frame "present a i" evolves benign "about a i" a i for a i
  by unfold_locales
    (auto simp: about_def keeps_promote keeps_claim keeps_resolve
      intro!: keeps_transition keeps_defer keeps_sent keeps_begin_attempt keeps_append_event
      dest: claim_for_dispatch_about [unfolded about_def])

section \<open>Properties\<close>

lemma blind_present: "blind_to_calls (present a i) evolves"
  using blind_sound by (simp add: blind_to_calls_def Let_def present_def notification_exists_def)

text \<open>
  Dispatching a notification keeps the database sound. From any sound state in which the
  notification exists, whatever the provider answers and however long it takes: identifiers stay
  unique, every CHECK and unique index holds, a claim token is held exactly while a row is
  PROCESSING, the ledger holds one line per counted attempt, every row keeps its identity and
  moves only along legal transitions, timeline and job log only grow, and the only exceptions
  are a reported instant no Date can hold and a message identifier the provider used before.
\<close>

theorem dispatch_keeps_tables_sound:
  assumes "sound w" and "notification_exists (di_application_id input) (di_notification_id input) w"
  shows "sound (snd (run (dispatch c input) env w))
    \<and> evolves w (snd (run (dispatch c input) env w))
    \<and> (\<forall>e. fst (run (dispatch c input) env w) = Threw e \<longrightarrow> benign e)"
proof -
  have I: "present (di_application_id input) (di_notification_id input) w"
    using assms by (simp add: present_def)
  note safe = sound_dispatch.safe_dispatch [OF refl refl, of input c]
  show ?thesis
    using safe_run_state [OF blind_present safe I]
      safe_run_guarantee [OF blind_present safe I] safe_run_exn [OF blind_present safe I]
    by (auto simp: present_def intro: evolves_trans)
qed

definition example_input :: dispatch_input where
  "example_input = \<lparr>di_application_id = ''app'', di_notification_id = ''n1'',
     di_correlation_id = ''corr''\<rparr>"

theorem dispatch_keeps_tables_sound_witness:
  "sound (snd (run (dispatch example_config example_input) example_env example_world))"
  using dispatch_keeps_tables_sound [of example_world example_input example_config example_env]
  by (simp add: example_input_def)

lemma update_no_hits:
  assumes "sound w" and "\<And>r. r \<in> set (w_notifications w) \<Longrightarrow> \<not> p r"
  shows "update_notifications p f w = Inr ([], w)"
proof -
  have "filter p (w_notifications w) = []" and "sql_update p f (w_notifications w) = w_notifications w"
    using assms(2) by (simp_all add: filter_empty_conv sql_update_none)
  then show ?thesis
    using assms(1) by (simp add: update_notifications_def sound_def)
qed

text \<open>
  C3: The claim is exclusive. Once a worker has claimed a notification, no other claim of it
  succeeds, at any later time and with any token, until something moves it out of PROCESSING: the
  second claim finds no row and changes nothing.
\<close>

theorem claim_is_exclusive:
  assumes "sound w" and "claim_for_dispatch a i token now w = Inr (Some n, w')"
  shows "n_status n = PROCESSING \<and> n_claim_token n = Some token
    \<and> claim_for_dispatch a' i token' now' w' = Inr (None, w')"
proof -
  let ?p = "\<lambda>r. is_notification a i r \<and> is_claimable now r"
  let ?f = "\<lambda>r. r\<lparr>n_status := PROCESSING, n_claim_token := Some token,
      n_claimed_at := Some now, n_updated_at := of_date now\<rparr>"
  from assms(2) obtain rs where u: "update_notifications ?p ?f w = Inr (rs, w')"
    and n: "first_row rs = Some n"
    by (auto simp: claim_for_dispatch_def tx_return_def elim!: tx_bind_InrE)
  from n have "first_row (map ?f (filter ?p (w_notifications w))) = Some n"
    by (simp only: update_notifications_Inr(1) [OF u])
  then obtain r where r: "r \<in> set (w_notifications w)" "?p r" and nr: "n = ?f r"
    by (rule first_row_filter)
  have w': "w' = w\<lparr>w_notifications := sql_update ?p ?f (w_notifications w)\<rparr>"
    by (rule update_notifications_Inr(2) [OF u])
  have "sound w'"
    by (rule update_keeps_sound [OF assms(1) u])
      (auto simp: orderly_def row_evolves_def claim_matches_status_def is_claimable_def
        enforce_status_transition_def intro!: reaches_step)
  moreover have "\<not> (is_notification a' i s \<and> is_claimable now' s)"
    if "s \<in> set (w_notifications w')" for s
  proof
    assume s: "is_notification a' i s \<and> is_claimable now' s"
    from that obtain q where q: "q \<in> set (w_notifications w)" "s = (if ?p q then ?f q else q)"
      unfolding w' by (auto elim: in_set_sql_updateE)
    with s have "n_id q = n_id r"
      using r(2) by (auto simp: is_notification_def split: if_splits)
    then have "q = r" by (rule sound_unique [OF assms(1) q(1) r(1)])
    with q(2) r(2) s show False by (auto simp: is_claimable_def)
  qed
  ultimately have "claim_for_dispatch a' i token' now' w' = Inr (None, w')"
    by (simp add: claim_for_dispatch_def update_no_hits tx_bind_def tx_return_def first_row_def)
  with nr show ?thesis by simp
qed

theorem claim_is_exclusive_witness:
  "\<exists>n w'. claim_for_dispatch ''app'' ''n1'' ''t1'' 5 example_world = Inr (Some n, w')
     \<and> claim_for_dispatch ''app'' ''n1'' ''t2'' 6 w' = Inr (None, w')"
proof -
  obtain n w' where c: "claim_for_dispatch ''app'' ''n1'' ''t1'' 5 example_world = Inr (Some n, w')"
    by (simp add: claim_for_dispatch_def update_notifications_def Let_def is_notification_def
        is_claimable_def enforce_status_transition_def check_notification_def unique_message_ids_def
        sql_update_def tx_bind_def tx_return_def first_row_def example_notification_def)
  with claim_is_exclusive [OF example_sound c, of "''app''" "''t2''" 6] show ?thesis by blast
qed

text \<open>
  C4: Beginning an attempt is what is counted. The transaction that commits before the provider is
  contacted succeeds only for the worker that still holds the claim; it counts exactly one
  attempt, and after it the ledger holds precisely the attempts 1 to k, the last one without an
  outcome, which is the evidence a crash leaves behind. A worker whose claim was taken away gets
  nothing and changes nothing.
\<close>

theorem begun_attempt_is_counted_once:
  assumes "sound w" and "n_id n = i" and "n_application_id n = a"
    and "begin_attempt_transaction c n token chat now w = Inr (res, w')"
  shows "sound w' \<and>
    (case res of
       None \<Rightarrow> w' = w \<and> \<not> (\<exists>r \<in> set (w_notifications w). holds_claim a i token r)
     | Some k \<Rightarrow>
         ledger_numbers i (w_attempts w') = [1..k]
         \<and> (\<exists>x \<in> set (w_attempts w'). is_attempt a i k x \<and> a_outcome x = None)
         \<and> (\<exists>r \<in> set (w_notifications w). holds_claim a i token r \<and> k = n_attempt_count r + 1))"
proof (cases rule: begin_attempt_effect [OF assms(1-3), where token = token and c = c
      and chat = chat and now = now])
  case 1
  with assms(1,4) show ?thesis by (auto simp: sql_first_None)
next
  case (2 r)
  with assms(4) have res: "res = Some (n_attempt_count r + 1)"
    and w': "w_attempts w' = w_attempts w @ [fresh_attempt (c_identifier c (w_next_identifier w))
                              a i (n_attempt_count r + 1) now]" by auto
  from 2(1) have r: "r \<in> set (w_notifications w)" "holds_claim a i token r"
    using sql_first_SomeD by fastforce+
  from soundD [OF assms(1) r(1)] r(2) have "0 \<le> n_attempt_count r"
    and "ledger_numbers i (w_attempts w) = [1..n_attempt_count r]"
    by (auto simp: check_notification_def ledger_matches_def holds_claim_def is_notification_def)
  then have "ledger_numbers i (w_attempts w') = [1..n_attempt_count r + 1]"
    by (simp add: w' ledger_numbers_def fresh_attempt_def upto_rec2)
  moreover have "\<exists>x \<in> set (w_attempts w'). is_attempt a i (n_attempt_count r + 1) x \<and> a_outcome x = None"
    by (simp add: w' is_attempt_def fresh_attempt_def)
  moreover have "sound w'"
    using sound_begun [OF assms(1) 2(1)] 2(2) assms(4) by auto
  ultimately show ?thesis using res r by auto
qed

theorem begun_attempt_is_counted_once_witness:
  "case begin_attempt_transaction example_config example_notification ''t'' ''chat'' 5 example_world of
     Inl e \<Rightarrow> False
   | Inr (res, w') \<Rightarrow> sound w' \<and> (res = None \<longrightarrow> w' = example_world)"
proof -
  obtain res w' where b: "begin_attempt_transaction example_config example_notification ''t'' ''chat''
      5 example_world = Inr (res, w')"
    by (cases rule: begin_attempt_effect [OF example_sound refl refl, where n = example_notification
          and token = "''t''" and c = example_config and chat = "''chat''" and now = 5]) auto
  with begun_attempt_is_counted_once [OF example_sound refl refl b] show ?thesis
    by (auto split: option.splits)
qed

end
