(* ===== verification/Rate_Limit.thy ===== *)
theory Rate_Limit
  imports Effects
begin

text \<open>
  The rate limiter: the generic cell rate algorithm of the stored function \<open>consume_rate_limit\<close>
  (\<open>packages/database/migrations/0006_rate_limit_function.sql\<close>), the repository that calls it
  (\<open>rate-limit.repository.ts\<close>) and the service that fails open
  (\<open>packages/composition/src/rate-limit/rate-limit.service.ts\<close>). Instants are microseconds, as in
  Postgres; the lemmas bound what a caller can be granted in any stretch of time.
\<close>

section \<open>The stored function\<close>

record rate_limit_policy =
  rl_requests_per_period :: int
  rl_burst_allowance :: int
  rl_period_seconds :: int

record rate_limit_decision =
  rd_is_allowed :: bool
  rd_remaining_requests :: int
  rd_retry_after_seconds :: rat
  rd_resets_after_seconds :: rat

text \<open>
  \<open>make_interval(secs => period / requests)\<close> keeps whole microseconds: the exact quotient rounded to
  the nearest, and to the even one of two equally near.
\<close>

definition round_half_even :: "int \<Rightarrow> int \<Rightarrow> int" where
  "round_half_even a b =
     (let q = a div b; r = a mod b
      in if 2 * r > b \<or> (2 * r = b \<and> odd q) then q + 1 else q)"

definition emission_interval :: "rate_limit_policy \<Rightarrow> int" where
  "emission_interval policy =
     round_half_even (rl_period_seconds policy * 1000000) (rl_requests_per_period policy)"

definition delay_tolerance :: "rate_limit_policy \<Rightarrow> int" where
  "delay_tolerance policy = emission_interval policy * max (rl_burst_allowance policy) 1"

definition seconds :: "int \<Rightarrow> rat" where
  "seconds us = of_int us / 1000000"

definition find_bucket :: "string \<Rightarrow> bucket list \<Rightarrow> bucket option" where
  "find_bucket subject buckets = sql_first (\<lambda>b. b_subject b = subject) buckets"

text \<open>
  The instant the next request would be on pace after this one, or nothing when the request is
  refused. A subject without a bucket is inserted unconditionally.
\<close>

definition granted_arrival :: "rate_limit_policy \<Rightarrow> bucket option \<Rightarrow> micros \<Rightarrow> micros option" where
  "granted_arrival policy existing requested_at =
     (let interval = emission_interval policy
      in case existing of
           None \<Rightarrow> Some (requested_at + interval)
         | Some b \<Rightarrow>
             let arrival = max (b_theoretical_arrival_at b) requested_at + interval
             in if arrival - delay_tolerance policy \<le> requested_at then Some arrival else None)"

definition upsert_bucket :: "string \<Rightarrow> micros \<Rightarrow> micros \<Rightarrow> bucket list \<Rightarrow> bucket list" where
  "upsert_bucket subject arrival requested_at buckets =
     (if find_bucket subject buckets = None
      then buckets @ [\<lparr>b_subject = subject, b_theoretical_arrival_at = arrival,
                       b_updated_at = requested_at\<rparr>]
      else sql_update (\<lambda>b. b_subject b = subject)
             (\<lambda>b. b\<lparr>b_theoretical_arrival_at := arrival, b_updated_at := requested_at\<rparr>) buckets)"

definition consume_rate_limit :: "string \<Rightarrow> rate_limit_policy \<Rightarrow> millis \<Rightarrow> rate_limit_decision tx" where
  "consume_rate_limit subject policy now w =
     (if rl_requests_per_period policy \<le> 0 \<or> rl_period_seconds policy \<le> 0
      then Inl (ThrownError ''A rate limit needs a positive allowance and period.'')
      else
        let requested_at = of_date now;
            existing = find_bucket subject (w_buckets w);
            interval = emission_interval policy;
            tolerance = delay_tolerance policy
        in case granted_arrival policy existing requested_at of
             Some arrival \<Rightarrow>
               if \<not> (1 \<le> length subject \<and> length subject \<le> 200)
               then Inl (ConstraintViolation ''rate_limit_buckets_subject_length_check'')
               else Inr (\<lparr>rd_is_allowed = True,
                      rd_remaining_requests =
                        max 0 ((requested_at + tolerance - arrival) div interval),
                      rd_retry_after_seconds = 0,
                      rd_resets_after_seconds = max 0 (seconds (arrival - requested_at))\<rparr>,
                    w\<lparr>w_buckets := upsert_bucket subject arrival requested_at (w_buckets w)\<rparr>)
           | None \<Rightarrow>
               let effective = max (case existing of None \<Rightarrow> requested_at
                                    | Some b \<Rightarrow> b_theoretical_arrival_at b) requested_at
               in Inr (\<lparr>rd_is_allowed = False, rd_remaining_requests = 0,
                      rd_retry_after_seconds =
                        max 0 (seconds (effective + interval - tolerance - requested_at)),
                      rd_resets_after_seconds = max 0 (seconds (effective - requested_at))\<rparr>, w))"

definition prune_rate_limit_buckets :: "millis \<Rightarrow> int tx" where
  "prune_rate_limit_buckets older_than w =
     (let old = (\<lambda>b. b_updated_at b < of_date older_than)
      in Inr (int (length (filter old (w_buckets w))),
              w\<lparr>w_buckets := filter (\<lambda>b. \<not> old b) (w_buckets w)\<rparr>))"

section \<open>The service\<close>

record rate_limit_outcome =
  ro_decision :: rate_limit_decision
  ro_limit :: int
  ro_was_degraded :: bool

definition sign_in_policy :: rate_limit_policy where
  "sign_in_policy =
     \<lparr>rl_requests_per_period = 10, rl_burst_allowance = 5, rl_period_seconds = 60\<rparr>"

definition registration_policy :: rate_limit_policy where
  "registration_policy =
     \<lparr>rl_requests_per_period = 60, rl_burst_allowance = 30, rl_period_seconds = 60\<rparr>"

text \<open>
  The \<open>try\<close> around the repository: a statement that fails, for whatever reason, lets the request
  through. Whether the database can be reached at all is the argument \<open>reachable\<close>.
\<close>

definition consume_attempt ::
  "string \<Rightarrow> rate_limit_policy \<Rightarrow> bool \<Rightarrow> millis \<Rightarrow> rate_limit_outcome tx" where
  "consume_attempt subject policy reachable now w =
     (let degraded = \<lparr>ro_decision = \<lparr>rd_is_allowed = True,
            rd_remaining_requests = rl_requests_per_period policy,
            rd_retry_after_seconds = 0, rd_resets_after_seconds = 0\<rparr>,
            ro_limit = rl_requests_per_period policy, ro_was_degraded = True\<rparr>
      in if \<not> reachable then Inr (degraded, w)
         else case consume_rate_limit subject policy now w of
                Inl e \<Rightarrow> Inr (degraded, w)
              | Inr (decision, w') \<Rightarrow>
                  Inr (\<lparr>ro_decision = decision, ro_limit = rl_requests_per_period policy,
                        ro_was_degraded = False\<rparr>, w'))"

definition consume :: "string \<Rightarrow> rate_limit_policy \<Rightarrow> bool \<Rightarrow> rate_limit_outcome prog" where
  "consume subject policy reachable =
     clock_now (\<lambda>now. atomically (consume_attempt subject policy reachable now) Done)"

definition prune :: "int \<Rightarrow> int prog" where
  "prune older_than_seconds =
     clock_now (\<lambda>now. atomically (prune_rate_limit_buckets (now - older_than_seconds * 1000)) Done)"

section \<open>Lemmas about the interval\<close>

definition valid_policy :: "rate_limit_policy \<Rightarrow> bool" where
  "valid_policy policy =
     (0 < rl_requests_per_period policy \<and> 0 < rl_period_seconds policy
      \<and> rl_requests_per_period policy \<le> rl_period_seconds policy * 1000000)"

lemma emission_interval_pos:
  assumes "valid_policy policy"
  shows "1 \<le> emission_interval policy"
proof -
  have "rl_requests_per_period policy div rl_requests_per_period policy
      \<le> rl_period_seconds policy * 1000000 div rl_requests_per_period policy"
    using assms by (intro zdiv_mono1) (auto simp: valid_policy_def)
  then show ?thesis
    using assms by (auto simp: emission_interval_def round_half_even_def Let_def valid_policy_def)
qed

lemma tolerance_ge_interval:
  "valid_policy policy \<Longrightarrow> emission_interval policy \<le> delay_tolerance policy"
  using emission_interval_pos [of policy]
  by (simp add: delay_tolerance_def mult_le_cancel_left1)

section \<open>What a run of requests is granted\<close>

interpretation buckets: keyed_rows b_subject
  "\<lambda>b. b\<lparr>b_theoretical_arrival_at := arrival, b_updated_at := requested_at\<rparr>" for arrival requested_at
  by unfold_locales simp

text \<open>The pace a subject has reached: its stored arrival, or nothing yet.\<close>

definition pace :: "string \<Rightarrow> micros \<Rightarrow> world \<Rightarrow> micros" where
  "pace subject from w =
     (case find_bucket subject (w_buckets w) of
        None \<Rightarrow> from
      | Some b \<Rightarrow> max (b_theoretical_arrival_at b) from)"

lemma find_snoc: "find P xs = None \<Longrightarrow> find P (xs @ [x]) = (if P x then Some x else None)"
  by (induction xs) (auto split: if_splits)

lemma find_upsert:
  "\<exists>b. find_bucket subject (upsert_bucket subject arrival t bs) = Some b
     \<and> b_theoretical_arrival_at b = arrival"
proof (cases "find_bucket subject bs")
  case None
  then show ?thesis
    by (simp add: upsert_bucket_def find_bucket_def sql_first_def find_snoc)
next
  case (Some b)
  then have "b_subject b = subject" by (auto simp: find_bucket_def sql_first_def find_Some_iff)
  with Some show ?thesis
    by (simp add: upsert_bucket_def find_bucket_def sql_first_def buckets.lookup_update)
qed

fun consume_all :: "string \<Rightarrow> rate_limit_policy \<Rightarrow> millis list \<Rightarrow> world \<Rightarrow> nat" where
  "consume_all subject policy [] w = 0"
| "consume_all subject policy (t # ts) w =
     (case consume_rate_limit subject policy t w of
        Inl e \<Rightarrow> consume_all subject policy ts w
      | Inr (decision, w') \<Rightarrow>
          (if rd_is_allowed decision then 1 else 0) + consume_all subject policy ts w')"

lemma consume_step:
  assumes "valid_policy policy" and "consume_rate_limit subject policy t w = Inr (d, w')"
    and "from \<le> of_date t"
  shows "if rd_is_allowed d
     then pace subject from w + emission_interval policy \<le> pace subject from w'
       \<and> pace subject from w' \<le> of_date t + delay_tolerance policy
     else w' = w"
proof (cases "granted_arrival policy (find_bucket subject (w_buckets w)) (of_date t)")
  case None
  with assms(1,2) show ?thesis
    by (auto simp: consume_rate_limit_def Let_def valid_policy_def)
next
  case (Some arrival)
  with assms(1,2) have d: "rd_is_allowed d"
    and w': "w' = w\<lparr>w_buckets := upsert_bucket subject arrival (of_date t) (w_buckets w)\<rparr>"
    by (auto simp: consume_rate_limit_def Let_def valid_policy_def split: if_splits)
  obtain b where "find_bucket subject (w_buckets w') = Some b" "b_theoretical_arrival_at b = arrival"
    using find_upsert unfolding w' by fastforce
  then have pace': "pace subject from w' = max arrival from" by (simp add: pace_def)
  have e: "1 \<le> emission_interval policy" "emission_interval policy \<le> delay_tolerance policy"
    using emission_interval_pos [OF assms(1)] tolerance_ge_interval [OF assms(1)] by simp_all
  show ?thesis
    using Some d e assms(3) unfolding pace'
    by (auto simp: granted_arrival_def pace_def Let_def split: option.splits if_splits)
qed

lemma consume_all_bound:
  assumes "valid_policy policy"
    and "\<forall>t \<in> set ts. from \<le> of_date t \<and> of_date t \<le> until" and "from \<le> until"
  shows "int (consume_all subject policy ts w) * emission_interval policy
     \<le> max 0 (until + delay_tolerance policy - pace subject from w)"
  using assms(2)
proof (induction ts arbitrary: w)
  case Nil
  then show ?case by simp
next
  case (Cons t ts)
  show ?case
  proof (cases "consume_rate_limit subject policy t w")
    case (Inl e)
    with Cons show ?thesis by simp
  next
    case (Inr p)
    then obtain d w' where c: "consume_rate_limit subject policy t w = Inr (d, w')"
      by (cases p) auto
    from Cons.prems have t: "from \<le> of_date t" "of_date t \<le> until" by simp_all
    note step = consume_step [OF assms(1) c t(1)]
    from Cons have IH: "int (consume_all subject policy ts w') * emission_interval policy
        \<le> max 0 (until + delay_tolerance policy - pace subject from w')" by simp
    show ?thesis
    proof (cases "rd_is_allowed d")
      case True
      with step t IH have "int (consume_all subject policy ts w') * emission_interval policy
          \<le> until + delay_tolerance policy - pace subject from w'" by simp
      with True step have "(int (consume_all subject policy ts w') + 1) * emission_interval policy
          \<le> until + delay_tolerance policy - pace subject from w"
        by (simp add: distrib_right)
      with True c show ?thesis by (simp add: add.commute)
    next
      case False
      with step c IH show ?thesis by simp
    qed
  qed
qed

section \<open>Properties\<close>

text \<open>
  C23: However its requests are timed, a caller is granted at most its burst and then one request
  per emission interval: of any requests that arrive between two instants, the number granted,
  times the interval, is at most the time between them plus the burst's worth of intervals. There
  is no window boundary at which an allowance doubles.
\<close>

theorem granted_requests_are_paced:
  assumes "valid_policy policy"
    and "\<forall>t \<in> set requests. first \<le> t \<and> t \<le> final"
  shows "int (consume_all subject policy requests w) * emission_interval policy
     \<le> of_date (max final first) - of_date first
        + emission_interval policy * max (rl_burst_allowance policy) 1"
proof -
  have "int (consume_all subject policy requests w) * emission_interval policy
     \<le> max 0 (of_date (max final first) + delay_tolerance policy
              - pace subject (of_date first) w)"
  proof (rule consume_all_bound [OF assms(1)])
    show "\<forall>t \<in> set requests. of_date first \<le> of_date t \<and> of_date t \<le> of_date (max final first)"
      using assms(2) by fastforce
  qed simp
  moreover have "of_date first \<le> pace subject (of_date first) w"
    by (simp add: pace_def split: option.splits)
  moreover have "0 \<le> delay_tolerance policy"
    using emission_interval_pos [OF assms(1)] tolerance_ge_interval [OF assms(1)] by linarith
  moreover have "of_date first \<le> of_date (max final first)" by simp
  ultimately show ?thesis
    unfolding delay_tolerance_def by linarith
qed

text \<open>Ten sign-ins in the same instant: at most the burst of five is granted.\<close>

theorem granted_requests_are_paced_witness:
  "\<forall>w. int (consume_all ''ip:1'' sign_in_policy (replicate 10 1000) w) * 6000000 \<le> 30000000"
proof
  fix w
  have v: "valid_policy sign_in_policy"
    by (simp add: valid_policy_def sign_in_policy_def)
  have "emission_interval sign_in_policy = 6000000" "rl_burst_allowance sign_in_policy = 5"
    by (simp_all add: emission_interval_def round_half_even_def sign_in_policy_def)
  with granted_requests_are_paced [OF v, of "replicate 10 1000" 1000 1000 "''ip:1''" w]
  show "int (consume_all ''ip:1'' sign_in_policy (replicate 10 1000) w) * 6000000 \<le> 30000000"
    by simp
qed

end
