(* ===== verification/Maintenance.thy ===== *)
theory Maintenance
  imports Dispatch_Frame Rate_Limit
begin

text \<open>
  \<open>packages/composition/src/notification/notification-maintenance.service.ts\<close>: the pass that repairs
  what nothing else can see, a claim whose worker died and a notification that is due with no job
  waiting for it.
\<close>

section \<open>The service\<close>

definition maintenance_batch_size :: nat where
  "maintenance_batch_size = 200"

definition maintenance_job :: "notification \<Rightarrow> millis \<Rightarrow> job" where
  "maintenance_job n start_after =
     \<lparr>j_queue = NOTIFICATION_DISPATCH,
      j_correlation_id = (case n_correlation_id n of Some i \<Rightarrow> i | None \<Rightarrow> n_id n),
      j_application_id = Some (n_application_id n), j_subject_id = n_id n,
      j_singleton_key = Some (n_id n), j_start_after = Some start_after\<rparr>"

definition enqueue_dispatch :: "config \<Rightarrow> notification \<Rightarrow> millis \<Rightarrow> uuid option tx" where
  "enqueue_dispatch c n start_after = enqueue_in_transaction c (maintenance_job n start_after)"

definition release_claim :: "config \<Rightarrow> notification \<Rightarrow> millis \<Rightarrow> bool tx" where
  "release_claim c n now =
     tx_bind (apply_transition (n_application_id n) (n_id n) PROCESSING RETRYING
                [SetNextAttemptAt (Some now), SetClaimToken None, SetClaimedAt None] now)
       (\<lambda>released. case released of
          None \<Rightarrow> tx_return False
        | Some _ \<Rightarrow>
            tx_bind (new_identifier c) (\<lambda>event_id.
            tx_bind (append_event
              \<lparr>e_id = event_id, e_application_id = n_application_id n, e_notification_id = n_id n,
               e_event_type = ''notification.claim_reaped'', e_from_status = Some PROCESSING,
               e_to_status = Some RETRYING, e_attempt_number = Some (n_attempt_count n),
               e_payload = [(''claimedAt'', case n_claimed_at n of Some t \<Rightarrow> JStr (to_iso_string t)
                                            | None \<Rightarrow> JNull)],
               e_correlation_id = n_correlation_id n, e_occurred_at = 0\<rparr>) (\<lambda>_.
            tx_bind (enqueue_dispatch c n now) (\<lambda>_. tx_return True))))"

fun reap_each :: "config \<Rightarrow> millis \<Rightarrow> notification list \<Rightarrow> int \<Rightarrow> int prog" where
  "reap_each c now [] reaped = Done reaped"
| "reap_each c now (n # ns) reaped =
     atomically (release_claim c n now) (\<lambda>is_released.
     reap_each c now ns (if is_released then reaped + 1 else reaped))"

definition reap_stuck_claims :: "config \<Rightarrow> int prog" where
  "reap_stuck_claims c =
     clock_now (\<lambda>now.
     reading (find_stuck_claims (now - c_stuck_claim_timeout_seconds c * 1000)
                maintenance_batch_size) (\<lambda>stuck.
     reap_each c now stuck 0))"

fun requeue_each :: "config \<Rightarrow> millis \<Rightarrow> notification list \<Rightarrow> int \<Rightarrow> int prog" where
  "requeue_each c now [] requeued = Done requeued"
| "requeue_each c now (n # ns) requeued =
     atomically (enqueue_dispatch c n now) (\<lambda>job_id.
     requeue_each c now ns (if job_id \<noteq> None then requeued + 1 else requeued))"

definition requeue_due_notifications :: "config \<Rightarrow> int prog" where
  "requeue_due_notifications c =
     clock_now (\<lambda>now.
     reading (find_due_for_dispatch now maintenance_batch_size) (\<lambda>due.
     requeue_each c now due 0))"

record maintenance_report =
  mr_reaped_claims :: int
  mr_requeued_notifications :: int
  mr_pruned_rate_limit_buckets :: int

definition run_once :: "config \<Rightarrow> maintenance_report prog" where
  "run_once c =
     bind (reap_stuck_claims c) (\<lambda>reaped.
     bind (requeue_due_notifications c) (\<lambda>requeued.
     bind (prune 3600) (\<lambda>pruned.
     Done \<lparr>mr_reaped_claims = reaped, mr_requeued_notifications = requeued,
           mr_pruned_rate_limit_buckets = pruned\<rparr>)))"

section \<open>Finding what is due\<close>

lemma in_find_due: "n \<in> set (find_due_for_dispatch now k w) \<Longrightarrow>
    n \<in> set (w_notifications w) \<and> is_due_for_dispatch now n"
  by (auto simp: find_due_for_dispatch_def dest: in_set_takeD)

lemma in_find_stuck: "n \<in> set (find_stuck_claims t k w) \<Longrightarrow>
    n \<in> set (w_notifications w) \<and> n_status n = PROCESSING \<and> claimed_before t n"
  by (auto simp: find_stuck_claims_def dest: in_set_takeD)

text \<open>Within one batch nothing due is overlooked.\<close>

lemma find_due_complete:
  assumes "length (filter (is_due_for_dispatch now) (w_notifications w)) \<le> k"
  shows "set (find_due_for_dispatch now k w) = {n \<in> set (w_notifications w). is_due_for_dispatch now n}"
  using assms by (auto simp: find_due_for_dispatch_def)

lemma find_stuck_complete:
  assumes "length (filter (\<lambda>r. n_status r = PROCESSING \<and> claimed_before t r) (w_notifications w)) \<le> k"
  shows "set (find_stuck_claims t k w)
    = {n \<in> set (w_notifications w). n_status n = PROCESSING \<and> claimed_before t n}"
  using assms by (auto simp: find_stuck_claims_def)

end
