(* ===== verification/Create_Notification.thy ===== *)
theory Create_Notification
  imports Phone_Number Effects
begin

text \<open>
  \<open>packages/composition/src/notification/create-notification.service.ts\<close> and
  \<open>packages/database/src/repositories/idempotency-key.repository.ts\<close>: accepting one notification or a
  batch of them. The idempotency key, the notification, its first timeline entry and its dispatch
  job are one transaction. The digest of a request and the collation that orders its metadata are
  the runtime's and are parameters.
\<close>

section \<open>Idempotency keys\<close>

record idempotency_claim_input =
  ic_application_id :: uuid
  ic_key :: string
  ic_request_method :: string
  ic_request_path :: string
  ic_request_fingerprint :: string
  ic_lock_token :: uuid
  ic_expires_at :: millis

datatype idempotency_claim = KeyClaimed uuid uuid | KeyExists idempotency_key

definition conflicting_claim :: "idempotency_claim_input \<Rightarrow> idempotency_key option \<Rightarrow> idempotency_claim" where
  "conflicting_claim input existing =
     (case existing of
        None \<Rightarrow> KeyClaimed (ic_lock_token input) (ic_lock_token input)
      | Some record \<Rightarrow> KeyExists record)"

definition is_key :: "uuid \<Rightarrow> string \<Rightarrow> idempotency_key \<Rightarrow> bool" where
  "is_key application_id key k = (k_application_id k = application_id \<and> k_key k = key)"

definition repository_claim :: "config \<Rightarrow> idempotency_claim_input \<Rightarrow> idempotency_claim tx" where
  "repository_claim c input w =
     (case sql_first (is_key (ic_application_id input) (ic_key input)) (w_idempotency_keys w) of
        Some record \<Rightarrow> Inr (conflicting_claim input (Some record), w)
      | None \<Rightarrow>
          if \<not> (1 \<le> length (ic_key input) \<and> length (ic_key input) \<le> 255)
          then Inl (ConstraintViolation ''idempotency_keys_key_length_check'')
          else tx_bind (new_identifier c) (\<lambda>key_id v.
            Inr (KeyClaimed key_id (ic_lock_token input),
              v\<lparr>w_idempotency_keys := w_idempotency_keys v @
                [\<lparr>k_id = key_id, k_application_id = ic_application_id input, k_key = ic_key input,
                  k_request_method = ic_request_method input,
                  k_request_path = ic_request_path input,
                  k_request_fingerprint = ic_request_fingerprint input, k_state = IN_FLIGHT,
                  k_lock_token = ic_lock_token input, k_response_status = None,
                  k_response_body = None, k_resource_id = None, k_created_at = w_db_clock v,
                  k_completed_at = None, k_expires_at = ic_expires_at input\<rparr>]\<rparr>)) w)"

definition repository_complete ::
  "uuid \<Rightarrow> uuid \<Rightarrow> int \<Rightarrow> (string \<times> json) list \<Rightarrow> uuid option \<Rightarrow> millis \<Rightarrow> unit tx" where
  "repository_complete key_id lock_token response_status response_body resource_id now w =
     Inr ((), w\<lparr>w_idempotency_keys :=
       sql_update (\<lambda>k. k_id k = key_id \<and> k_lock_token k = lock_token)
         (\<lambda>k. k\<lparr>k_state := COMPLETED, k_response_status := Some response_status,
                k_response_body := Some response_body, k_resource_id := resource_id,
                k_completed_at := Some now\<rparr>)
         (w_idempotency_keys w)\<rparr>)"

definition take_over_stale_claim :: "uuid \<Rightarrow> uuid \<Rightarrow> uuid \<Rightarrow> millis \<Rightarrow> bool tx" where
  "take_over_stale_claim key_id observed_lock_token new_lock_token now w =
     (let p = (\<lambda>k. k_id k = key_id \<and> k_lock_token k = observed_lock_token \<and> k_state k = IN_FLIGHT)
      in Inr (list_ex p (w_idempotency_keys w),
              w\<lparr>w_idempotency_keys :=
                 sql_update p (\<lambda>k. k\<lparr>k_lock_token := new_lock_token, k_created_at := of_date now\<rparr>)
                   (w_idempotency_keys w)\<rparr>))"

text \<open>The foreign key of the notifications is \<open>ON DELETE SET NULL\<close>.\<close>

definition delete_expired_keys :: "millis \<Rightarrow> nat \<Rightarrow> int tx" where
  "delete_expired_keys now batch_size w =
     (let doomed = map k_id (take batch_size
            (filter (\<lambda>k. k_expires_at k < now) (w_idempotency_keys w)))
      in Inr (int (length doomed),
           w\<lparr>w_idempotency_keys := filter (\<lambda>k. k_id k \<notin> set doomed) (w_idempotency_keys w),
             w_notifications := sql_update
               (\<lambda>r. case n_idempotency_key_id r of None \<Rightarrow> False | Some i \<Rightarrow> i \<in> set doomed)
               (\<lambda>r. r\<lparr>n_idempotency_key_id := None\<rparr>) (w_notifications w)\<rparr>))"

section \<open>Requests\<close>

record notification_request =
  rq_application_id :: uuid
  rq_body :: string
  rq_session_id :: "uuid option"
  rq_scheduled_at :: "millis option"
  rq_maximum_attempts :: "int option"
  rq_metadata :: "(string \<times> string) list"
  rq_idempotency_key :: "string option"
  rq_request_path :: string

text \<open>What the request is addressed to: one recipient or a list of them.\<close>

datatype addressing = OneRecipient string | ManyRecipients "string list"

record request_runtime =
  rr_digest :: "json \<Rightarrow> string"
  rr_collates_before :: "string \<Rightarrow> string \<Rightarrow> bool"
  rr_correlation_id :: "string option"

definition idempotency_window_hours :: int where
  "idempotency_window_hours = 24"

fun addressing_member :: "addressing \<Rightarrow> string \<times> json" where
  "addressing_member (OneRecipient recipient) = (''recipient'', JStr recipient)"
| "addressing_member (ManyRecipients recipients) = (''recipients'', JArr (map JStr recipients))"

fun json_or_null :: "('a \<Rightarrow> json) \<Rightarrow> 'a option \<Rightarrow> json" where
  "json_or_null f None = JNull"
| "json_or_null f (Some x) = f x"

definition canonical_request :: "request_runtime \<Rightarrow> notification_request \<Rightarrow> addressing \<Rightarrow> json" where
  "canonical_request rt input to =
     JObj [(''applicationId'', JStr (rq_application_id input)), addressing_member to,
       (''body'', JStr (rq_body input)),
       (''whatsAppSessionId'', json_or_null JStr (rq_session_id input)),
       (''scheduledAt'', json_or_null (JStr \<circ> to_iso_string) (rq_scheduled_at input)),
       (''maximumAttempts'', json_or_null (JNum \<circ> of_int) (rq_maximum_attempts input)),
       (''metadata'', JObj (map (\<lambda>(k, v). (k, JStr v))
          (sql_order_by (\<lambda>a b. rr_collates_before rt (fst a) (fst b)) (rq_metadata input))))]"

definition fingerprint_request :: "request_runtime \<Rightarrow> notification_request \<Rightarrow> addressing \<Rightarrow> string" where
  "fingerprint_request rt input to = rr_digest rt (canonical_request rt input to)"

definition assert_schedule_is_in_the_future :: "notification_request \<Rightarrow> millis \<Rightarrow> exn + unit" where
  "assert_schedule_is_in_the_future input now =
     (case rq_scheduled_at input of
        Some t \<Rightarrow>
          if t \<le> now then Inl (DomainError ''invalid_schedule''
             ''A scheduled notification must be scheduled for a time in the future.'')
          else Inr ()
      | None \<Rightarrow> Inr ())"

definition read_batch_notification_ids :: "(string \<times> json) list option \<Rightarrow> exn + string list" where
  "read_batch_notification_ids response_body =
     (let failure = Inl (ThrownError
            ''A completed batch idempotency key recorded no notifications.'')
      in case Option.bind response_body (json_field ''notificationIds'') of
           Some (JArr items) \<Rightarrow>
             if list_all (\<lambda>j. case j of JStr _ \<Rightarrow> True | _ \<Rightarrow> False) items
             then Inr (concat (map (\<lambda>j. case j of JStr s \<Rightarrow> [s] | _ \<Rightarrow> []) items))
             else failure
         | _ \<Rightarrow> failure)"

section \<open>The steps of a creation\<close>

definition read_or_fail :: "uuid \<Rightarrow> uuid \<Rightarrow> notification tx" where
  "read_or_fail application_id notification_id w =
     (case find_by_id application_id notification_id w of
        None \<Rightarrow> Inl (ThrownError ''The notification could not be read back after it was written.'')
      | Some n \<Rightarrow> Inr (n, w))"

definition read_all_or_fail :: "uuid \<Rightarrow> uuid list \<Rightarrow> notification list tx" where
  "read_all_or_fail application_id ids = tx_for_each (read_or_fail application_id) ids"

definition find_last :: "('a \<Rightarrow> bool) \<Rightarrow> 'a list \<Rightarrow> 'a option" where
  "find_last p xs = find p (rev xs)"

definition choose_session :: "session list \<Rightarrow> session option" where
  "choose_session sessions =
     (case find (\<lambda>s. can_session_send (s_status s)) sessions of
        Some s \<Rightarrow> Some s
      | None \<Rightarrow>
          (case find_last (\<lambda>s. is_session_connecting (s_status s)) sessions of
             Some s \<Rightarrow> Some s
           | None \<Rightarrow> find_last (\<lambda>s. True) sessions))"

definition resolve_session :: "uuid \<Rightarrow> uuid option \<Rightarrow> session tx" where
  "resolve_session application_id requested_session_id w =
     (let sessions = list_sessions_for_application application_id w
      in case requested_session_id of
           Some i \<Rightarrow>
             (case find (\<lambda>s. s_id s = i) sessions of
                None \<Rightarrow> Inl (DomainError ''whatsapp_session_not_found''
                  ''That WhatsApp connection does not exist.'')
              | Some s \<Rightarrow> Inr (s, w))
         | None \<Rightarrow>
             (case choose_session sessions of
                None \<Rightarrow> Inl (DomainError ''no_whatsapp_session''
                  ''This application has no WhatsApp connection. Connect one before sending.'')
              | Some s \<Rightarrow> Inr (s, w)))"

datatype key_claim_result =
    FreshKey "uuid option" uuid
  | CompletedKey "uuid option" "(string \<times> json) list option"

definition claim_idempotency_key ::
  "config \<Rightarrow> notification_request \<Rightarrow> string \<Rightarrow> millis \<Rightarrow> key_claim_result tx" where
  "claim_idempotency_key c input fingerprint now =
     tx_bind (new_identifier c) (\<lambda>lock_token.
     case rq_idempotency_key input of
       None \<Rightarrow> tx_return (FreshKey None lock_token)
     | Some key \<Rightarrow>
         tx_bind (repository_claim c
           \<lparr>ic_application_id = rq_application_id input, ic_key = key,
            ic_request_method = ''POST'', ic_request_path = rq_request_path input,
            ic_request_fingerprint = fingerprint, ic_lock_token = lock_token,
            ic_expires_at = now + idempotency_window_hours * 3600000\<rparr>) (\<lambda>claim.
         case claim of
           KeyClaimed key_id token \<Rightarrow> tx_return (FreshKey (Some key_id) token)
         | KeyExists record \<Rightarrow>
             if k_request_fingerprint record \<noteq> fingerprint
             then tx_throw (DomainError ''idempotency_key_reused''
               ''This Idempotency-Key was already used with a different request body.'')
             else if k_state record = COMPLETED
             then tx_return (CompletedKey (k_resource_id record) (k_response_body record))
             else tx_throw (DomainError ''idempotency_key_in_flight''
               ''A request with this Idempotency-Key is already being processed. Retry shortly.'')))"

record notification_draft =
  nd_id :: uuid
  nd_recipient :: string
  nd_session_id :: uuid
  nd_idempotency_key_id :: "uuid option"
  nd_correlation_id :: string
  nd_request :: notification_request

definition drafted_notification :: "notification_draft \<Rightarrow> notification" where
  "drafted_notification draft =
     (let request = nd_request draft
      in \<lparr>n_id = nd_id draft, n_application_id = rq_application_id request,
          n_session_id = nd_session_id draft, n_template_id = None,
          n_status = (if rq_scheduled_at request \<noteq> None then SCHEDULED else QUEUED),
          n_recipient_phone_number = nd_recipient draft, n_recipient_chat_identifier = None,
          n_rendered_body = rq_body request, n_template_variables = None, n_priority = 0,
          n_scheduled_at = rq_scheduled_at request, n_attempt_count = 0,
          n_maximum_attempts = (case rq_maximum_attempts request of Some m \<Rightarrow> m | None \<Rightarrow> 5),
          n_next_attempt_at = None, n_claim_token = None, n_claimed_at = None,
          n_provider_message_id = None, n_provider_acknowledgement = 0, n_sent_at = None,
          n_delivered_at = None, n_read_at = None, n_failed_at = None, n_cancelled_at = None,
          n_dead_lettered_at = None, n_failure_code = None, n_failure_reason = None,
          n_failure_classification = None, n_retry_of_notification_id = None,
          n_idempotency_key_id = nd_idempotency_key_id draft,
          n_correlation_id = Some (nd_correlation_id draft), n_metadata = rq_metadata request,
          n_created_at = 0, n_updated_at = 0\<rparr>)"

definition write_notification :: "config \<Rightarrow> notification_draft \<Rightarrow> unit tx" where
  "write_notification c draft =
     (let request = nd_request draft;
          is_scheduled = (rq_scheduled_at request \<noteq> None)
      in tx_bind (insert_notification (drafted_notification draft)) (\<lambda>_.
         tx_bind (new_identifier c) (\<lambda>event_id.
         tx_bind (append_event
           \<lparr>e_id = event_id, e_application_id = rq_application_id request,
            e_notification_id = nd_id draft, e_event_type = ''notification.created'',
            e_from_status = None, e_to_status = Some (n_status (drafted_notification draft)),
            e_attempt_number = None,
            e_payload = [(''recipient'', JStr (mask_phone_number_for_log (nd_recipient draft))),
              (''scheduled'', JBool is_scheduled)],
            e_correlation_id = Some (nd_correlation_id draft), e_occurred_at = 0\<rparr>) (\<lambda>_.
         tx_bind (enqueue_in_transaction c
           \<lparr>j_queue = NOTIFICATION_DISPATCH, j_correlation_id = nd_correlation_id draft,
            j_application_id = Some (rq_application_id request), j_subject_id = nd_id draft,
            j_singleton_key = Some (nd_id draft), j_start_after = rq_scheduled_at request\<rparr>) (\<lambda>_.
         tx_return ())))))"

definition complete_key ::
  "uuid option \<Rightarrow> uuid \<Rightarrow> (string \<times> json) list \<Rightarrow> uuid option \<Rightarrow> millis \<Rightarrow> unit tx" where
  "complete_key key_id lock_token response_body resource_id now =
     (case key_id of
        None \<Rightarrow> tx_return ()
      | Some i \<Rightarrow> repository_complete i lock_token 202 response_body resource_id now)"

section \<open>Creating one\<close>

definition create_transaction ::
  "config \<Rightarrow> notification_request \<Rightarrow> string \<Rightarrow> string \<Rightarrow> string \<Rightarrow> uuid \<Rightarrow> millis
     \<Rightarrow> (notification \<times> bool) tx" where
  "create_transaction c input recipient fingerprint correlation_id notification_id now =
     tx_bind (resolve_session (rq_application_id input) (rq_session_id input)) (\<lambda>s.
     tx_bind (claim_idempotency_key c input fingerprint now) (\<lambda>claim.
     case claim of
       CompletedKey None body \<Rightarrow>
         tx_throw (ThrownError ''A completed idempotency key recorded no notification.'')
     | CompletedKey (Some resource_id) body \<Rightarrow>
         tx_bind (read_or_fail (rq_application_id input) resource_id) (\<lambda>n. tx_return (n, True))
     | FreshKey key_id lock_token \<Rightarrow>
         tx_bind (write_notification c
           \<lparr>nd_id = notification_id, nd_recipient = recipient, nd_session_id = s_id s,
            nd_idempotency_key_id = key_id, nd_correlation_id = correlation_id,
            nd_request = input\<rparr>) (\<lambda>_.
         tx_bind (complete_key key_id lock_token [(''id'', JStr notification_id)]
                    (Some notification_id) now) (\<lambda>_.
         tx_bind (read_or_fail (rq_application_id input) notification_id) (\<lambda>n.
         tx_return (n, False))))))"

definition with_correlation ::
  "config \<Rightarrow> request_runtime \<Rightarrow> (string \<Rightarrow> 'a prog) \<Rightarrow> 'a prog" where
  "with_correlation c rt k =
     (case rr_correlation_id rt of Some i \<Rightarrow> k i | None \<Rightarrow> next_identifier c k)"

definition create ::
  "config \<Rightarrow> request_runtime \<Rightarrow> notification_request \<Rightarrow> string \<Rightarrow> (notification \<times> bool) prog" where
  "create c rt input recipient_text =
     (case parse_phone_number recipient_text of
        Inl (InvalidPhoneNumber v) \<Rightarrow> Raise (InvalidPhoneNumberError v)
      | Inr recipient \<Rightarrow>
          clock_now (\<lambda>now.
          case assert_schedule_is_in_the_future input now of
            Inl e \<Rightarrow> Raise e
          | Inr _ \<Rightarrow>
              with_correlation c rt (\<lambda>correlation_id.
              next_identifier c (\<lambda>notification_id.
              atomically (create_transaction c input recipient
                (fingerprint_request rt input (OneRecipient recipient_text))
                correlation_id notification_id now) Done))))"

section \<open>Creating a batch\<close>

text \<open>The drafts are mapped first: an identifier, then the number, for each recipient in turn.\<close>

fun draft_recipients ::
  "config \<Rightarrow> string list \<Rightarrow> ((uuid \<times> string) list \<Rightarrow> 'a prog) \<Rightarrow> 'a prog" where
  "draft_recipients c [] k = k []"
| "draft_recipients c (r # rs) k =
     next_identifier c (\<lambda>i.
     case parse_phone_number r of
       Inl (InvalidPhoneNumber v) \<Rightarrow> Raise (InvalidPhoneNumberError v)
     | Inr recipient \<Rightarrow> draft_recipients c rs (\<lambda>drafts. k ((i, recipient) # drafts)))"

definition create_batch_transaction ::
  "config \<Rightarrow> notification_request \<Rightarrow> (uuid \<times> string) list \<Rightarrow> string \<Rightarrow> string \<Rightarrow> millis
     \<Rightarrow> (notification list \<times> bool) tx" where
  "create_batch_transaction c input drafts fingerprint correlation_id now =
     tx_bind (resolve_session (rq_application_id input) (rq_session_id input)) (\<lambda>s.
     tx_bind (claim_idempotency_key c input fingerprint now) (\<lambda>claim.
     case claim of
       CompletedKey resource_id body \<Rightarrow>
         (case read_batch_notification_ids body of
            Inl e \<Rightarrow> tx_throw e
          | Inr ids \<Rightarrow>
              tx_bind (read_all_or_fail (rq_application_id input) ids)
                (\<lambda>ns. tx_return (ns, True)))
     | FreshKey key_id lock_token \<Rightarrow>
         tx_bind (tx_for_each (\<lambda>(i, recipient). write_notification c
           \<lparr>nd_id = i, nd_recipient = recipient, nd_session_id = s_id s,
            nd_idempotency_key_id = key_id, nd_correlation_id = correlation_id,
            nd_request = input\<rparr>) drafts) (\<lambda>_.
         tx_bind (complete_key key_id lock_token
                    [(''notificationIds'', JArr (map (JStr \<circ> fst) drafts))] None now) (\<lambda>_.
         tx_bind (read_all_or_fail (rq_application_id input) (map fst drafts)) (\<lambda>ns.
         tx_return (ns, False))))))"

definition create_batch ::
  "config \<Rightarrow> request_runtime \<Rightarrow> notification_request \<Rightarrow> string list
     \<Rightarrow> (notification list \<times> bool) prog" where
  "create_batch c rt input recipients =
     draft_recipients c recipients (\<lambda>drafts.
     clock_now (\<lambda>now.
     case assert_schedule_is_in_the_future input now of
       Inl e \<Rightarrow> Raise e
     | Inr _ \<Rightarrow>
         with_correlation c rt (\<lambda>correlation_id.
         atomically (create_batch_transaction c input drafts
           (fingerprint_request rt input (ManyRecipients recipients)) correlation_id now) Done)))"

end
