(* ===== verification/Query.thy ===== *)
theory Query
  imports Create_Notification Examples
begin

text \<open>
  \<open>packages/composition/src/notification/notification-query.service.ts\<close> and the keyset pagination of
  \<open>notification.repository.ts\<close>: reading notifications and their timelines, paging through the list
  with signed cursors, and cancelling. The HMAC that signs a cursor and the encoding of its payload
  are the runtime's and are parameters.
\<close>

section \<open>Keyset pagination\<close>

record list_filters =
  lf_statuses :: "notification_status list option"
  lf_recipient_phone_number :: "string option"
  lf_template_id :: "uuid option"
  lf_created_before :: "millis option"

record page_cursor =
  pc_created_at :: millis
  pc_id :: uuid

definition matches_filters :: "uuid \<Rightarrow> list_filters \<Rightarrow> notification \<Rightarrow> bool" where
  "matches_filters application_id filters r =
     (n_application_id r = application_id
      \<and> (case lf_statuses filters of
            None \<Rightarrow> True
          | Some statuses \<Rightarrow> statuses = [] \<or> n_status r \<in> set statuses)
      \<and> (case lf_recipient_phone_number filters of
            None \<Rightarrow> True
          | Some phone \<Rightarrow> n_recipient_phone_number r = phone)
      \<and> (case lf_template_id filters of None \<Rightarrow> True | Some t \<Rightarrow> n_template_id r = Some t)
      \<and> (case lf_created_before filters of None \<Rightarrow> True | Some t \<Rightarrow> n_created_at r < of_date t))"

definition older_than_cursor :: "page_cursor option \<Rightarrow> notification \<Rightarrow> bool" where
  "older_than_cursor cursor r =
     (case cursor of
        None \<Rightarrow> True
      | Some k \<Rightarrow>
          n_created_at r < of_date (pc_created_at k)
          \<or> (n_created_at r = of_date (pc_created_at k) \<and> text_less (n_id r) (pc_id k)))"

text \<open>\<open>ORDER BY created_at DESC, id DESC\<close>\<close>

definition newest_first :: "notification \<Rightarrow> notification \<Rightarrow> bool" where
  "newest_first a b =
     (n_created_at b < n_created_at a
      \<or> (n_created_at a = n_created_at b \<and> \<not> text_less (n_id a) (n_id b)))"

definition repository_list ::
  "uuid \<Rightarrow> list_filters \<Rightarrow> page_cursor option \<Rightarrow> nat \<Rightarrow> world
     \<Rightarrow> notification list \<times> page_cursor option" where
  "repository_list application_id filters cursor limit w =
     (let rows = take (limit + 1) (sql_order_by newest_first
            (filter (\<lambda>r. matches_filters application_id filters r \<and> older_than_cursor cursor r)
               (w_notifications w)));
          items = take limit rows
      in (items,
          if items \<noteq> [] \<and> length rows > limit
          then Some \<lparr>pc_created_at = to_date (n_created_at (last items)), pc_id = n_id (last items)\<rparr>
          else None))"

section \<open>Signed cursors\<close>

text \<open>
  What stands outside the repository: the digest of an encoded payload under the configured key,
  base64url over the UTF-8 of a text in both directions, and the JSON text of a payload and its
  parsing (\<open>new Date(text)\<close> included).
\<close>

record cursor_codec =
  cc_sign :: "string \<Rightarrow> string"
  cc_encode :: "string \<Rightarrow> string"
  cc_decode :: "string \<Rightarrow> string"
  cc_stringify :: "json \<Rightarrow> string"
  cc_parse :: "string \<Rightarrow> json option"
  cc_read_date :: "string \<Rightarrow> js_date"

definition invalid_cursor :: exn where
  "invalid_cursor = DomainError ''invalid_cursor'' ''The pagination cursor is not valid.''"

definition encode_cursor :: "cursor_codec \<Rightarrow> page_cursor \<Rightarrow> string" where
  "encode_cursor cc k =
     (let encoded = cc_encode cc (cc_stringify cc
            (JObj [(''createdAt'', JStr (to_iso_string (pc_created_at k))), (''id'', JStr (pc_id k))]))
      in encoded @ ''.'' @ cc_sign cc encoded)"

text \<open>
  \<open>cursor.split('.', 2)\<close> keeps the first two pieces and drops the rest. A payload that is signed but
  is not what \<open>encodeCursor\<close> writes is passed on by a cast; what the query then does with it is
  the driver's business, so it is an exception here.
\<close>

definition decode_cursor :: "cursor_codec \<Rightarrow> string option \<Rightarrow> exn + page_cursor option" where
  "decode_cursor cc cursor =
     (case cursor of
        None \<Rightarrow> Inr None
      | Some text \<Rightarrow>
          (case take 2 (split_on CHR ''.'' text) of
             [encoded, signature] \<Rightarrow>
               if signature \<noteq> cc_sign cc encoded then Inl invalid_cursor
               else (case cc_parse cc (cc_decode cc encoded) of
                  Some (JObj members) \<Rightarrow>
                    (case (json_field ''createdAt'' members, json_field ''id'' members) of
                       (Some (JStr created), Some (JStr i)) \<Rightarrow>
                         (case cc_read_date cc created of
                            Date t \<Rightarrow> Inr (Some \<lparr>pc_created_at = t, pc_id = i\<rparr>)
                          | InvalidDate \<Rightarrow> Inl RangeError)
                     | _ \<Rightarrow> Inl RangeError)
                | _ \<Rightarrow> Inl (ThrownError ''SyntaxError''))
           | _ \<Rightarrow> Inl invalid_cursor))"

section \<open>The service\<close>

definition query_read_or_fail :: "uuid \<Rightarrow> uuid \<Rightarrow> notification tx" where
  "query_read_or_fail application_id notification_id w =
     (case find_by_id application_id notification_id w of
        None \<Rightarrow> Inl (DomainError ''notification_not_found'' ''That notification does not exist.'')
      | Some n \<Rightarrow> Inr (n, w))"

definition get_or_fail :: "uuid \<Rightarrow> uuid \<Rightarrow> notification prog" where
  "get_or_fail application_id notification_id =
     atomically (query_read_or_fail application_id notification_id) Done"

definition query_list_events :: "uuid \<Rightarrow> uuid \<Rightarrow> event list prog" where
  "query_list_events application_id notification_id =
     atomically (tx_bind (query_read_or_fail application_id notification_id)
       (\<lambda>_. tx_read (list_events application_id notification_id))) Done"

record list_query =
  lq_statuses :: "notification_status list option"
  lq_recipient :: "string option"
  lq_cursor :: "string option"
  lq_limit :: nat

definition query_list ::
  "cursor_codec \<Rightarrow> uuid \<Rightarrow> list_query \<Rightarrow> (notification list \<times> string option) prog" where
  "query_list cc application_id query =
     (case decode_cursor cc (lq_cursor query) of
        Inl e \<Rightarrow> Raise e
      | Inr cursor \<Rightarrow>
          reading (repository_list application_id
            \<lparr>lf_statuses = lq_statuses query, lf_recipient_phone_number = lq_recipient query,
             lf_template_id = None, lf_created_before = None\<rparr> cursor (lq_limit query))
            (\<lambda>page. Done (fst page, map_option (encode_cursor cc) (snd page))))"

section \<open>Cancelling\<close>

definition not_cancellable :: "string \<Rightarrow> exn" where
  "not_cancellable message = DomainError ''notification_not_cancellable'' message"

text \<open>
  The statements of \<open>cancel\<close> run in one transaction at the level READ COMMITTED: between the read and
  the conditional update another worker may commit. The read is therefore an effect of its own.
\<close>

definition cancel_transaction ::
  "config \<Rightarrow> string option \<Rightarrow> uuid \<Rightarrow> uuid \<Rightarrow> notification_status \<Rightarrow> millis \<Rightarrow> notification tx" where
  "cancel_transaction c correlation_id application_id notification_id existing_status now =
     tx_bind (apply_transition application_id notification_id existing_status CANCELLED
                [SetCancelledAt (Some now)] now) (\<lambda>cancelled.
     case cancelled of
       None \<Rightarrow> tx_throw (not_cancellable
         ''The notification changed state before it could be cancelled.'')
     | Some n \<Rightarrow>
         tx_bind (new_identifier c) (\<lambda>event_id.
         tx_bind (append_event
           \<lparr>e_id = event_id, e_application_id = application_id, e_notification_id = notification_id,
            e_event_type = ''notification.cancelled'', e_from_status = Some existing_status,
            e_to_status = Some CANCELLED, e_attempt_number = None, e_payload = [],
            e_correlation_id = correlation_id, e_occurred_at = 0\<rparr>) (\<lambda>_.
         tx_return n)))"

definition cancel ::
  "config \<Rightarrow> string option \<Rightarrow> uuid \<Rightarrow> uuid \<Rightarrow> notification prog" where
  "cancel c correlation_id application_id notification_id =
     atomically (query_read_or_fail application_id notification_id) (\<lambda>existing.
     if \<not> is_cancellable_notification_status (n_status existing)
     then Raise (not_cancellable
       (''A notification in the '' @ status_name (n_status existing) @ '' state cannot be cancelled.''))
     else clock_now (\<lambda>now.
       atomically (cancel_transaction c correlation_id application_id notification_id
                     (n_status existing) now) Done))"

definition cancelled_event ::
  "config \<Rightarrow> string option \<Rightarrow> uuid \<Rightarrow> uuid \<times> notification_status \<Rightarrow> event tx" where
  "cancelled_event c correlation_id application_id cancelled =
     tx_bind (new_identifier c) (\<lambda>event_id. tx_return
       \<lparr>e_id = event_id, e_application_id = application_id, e_notification_id = fst cancelled,
        e_event_type = ''notification.cancelled'', e_from_status = Some (snd cancelled),
        e_to_status = Some CANCELLED, e_attempt_number = None, e_payload = [],
        e_correlation_id = correlation_id, e_occurred_at = 0\<rparr>)"

definition cancel_waiting_transaction ::
  "config \<Rightarrow> string option \<Rightarrow> uuid \<Rightarrow> uuid option \<Rightarrow> millis \<Rightarrow> int tx" where
  "cancel_waiting_transaction c correlation_id application_id session_id now =
     tx_bind (repository_cancel_waiting c application_id session_id now) (\<lambda>cancelled.
     tx_bind (tx_for_each (cancelled_event c correlation_id application_id) cancelled) (\<lambda>events.
     tx_bind (append_events events) (\<lambda>_.
     tx_return (int (length cancelled)))))"

definition cancel_waiting ::
  "config \<Rightarrow> string option \<Rightarrow> uuid \<Rightarrow> uuid option \<Rightarrow> int prog" where
  "cancel_waiting c correlation_id application_id session_id =
     reading (\<lambda>w. case session_id of
                None \<Rightarrow> True
              | Some s \<Rightarrow> find_session application_id s w \<noteq> None) (\<lambda>is_known.
     if \<not> is_known
     then Raise (DomainError ''whatsapp_session_not_found''
       ''That WhatsApp connection does not exist.'')
     else clock_now (\<lambda>now.
       atomically (cancel_waiting_transaction c correlation_id application_id session_id now) Done))"

section \<open>Lemmas about pages\<close>

lemma text_less_asym: "text_less s t \<Longrightarrow> \<not> text_less t s"
  using text_less_trans text_less_irrefl by blast

lemma not_text_less: "\<not> text_less s t \<longleftrightarrow> t = s \<or> text_less t s"
  using text_less_asym [of s t] text_less_total [of s t] text_less_irrefl [of s] by metis

lemma newest_first_iff:
  "newest_first a b \<longleftrightarrow> n_created_at b < n_created_at a
     \<or> n_created_at a = n_created_at b \<and> (n_id b = n_id a \<or> text_less (n_id b) (n_id a))"
  by (auto simp: newest_first_def not_text_less)

interpretation newest_rows: keyed_order newest_first n_id
proof
  show "newest_first x y \<or> newest_first y x" for x y
    using text_less_total [of "n_id x" "n_id y"] by (auto simp: newest_first_iff)
  show "newest_first x z" if "newest_first x y" and "newest_first y z" for x y z
    using that text_less_trans [of "n_id z" "n_id y" "n_id x"] by (auto simp: newest_first_iff)
  show "n_id x = n_id y" if "newest_first x y" and "newest_first y x" for x y
    using that text_less_asym [of "n_id x" "n_id y"] by (auto simp: newest_first_iff)
qed

definition cursor_at :: "notification \<Rightarrow> page_cursor" where
  "cursor_at r = \<lparr>pc_created_at = to_date (n_created_at r), pc_id = n_id r\<rparr>"

text \<open>
  A cursor tells the rows of a list apart when two of them are created within one millisecond only
  at its very start: a \<open>Date\<close> holds no more of a timestamp than its millisecond.
\<close>

definition told_apart :: "notification list \<Rightarrow> bool" where
  "told_apart rows =
     list_all (\<lambda>r. list_all (\<lambda>s. n_id r \<noteq> n_id s \<and> to_date (n_created_at r) = to_date (n_created_at s)
        \<longrightarrow> n_created_at r mod 1000 = 0) rows) rows"

lemma told_apartD:
  assumes "told_apart rows" and "r \<in> set rows" and "s \<in> set rows" and "n_id r \<noteq> n_id s"
    and "to_date (n_created_at r) = to_date (n_created_at s)"
  shows "n_created_at r = of_date (to_date (n_created_at r))"
    and "n_created_at s = of_date (to_date (n_created_at s))"
proof -
  have whole: "n_created_at r mod 1000 = 0" "n_created_at s mod 1000 = 0"
    using assms unfolding told_apart_def list_all_iff by metis+
  have "of_date (to_date t) = t" if "t mod 1000 = 0" for t :: int
    using that div_mult_mod_eq [of t 1000] by (simp add: of_date_def to_date_def)
  with whole show "n_created_at r = of_date (to_date (n_created_at r))"
    and "n_created_at s = of_date (to_date (n_created_at s))" by simp_all
qed

lemma to_date_less: "to_date s < to_date r \<longleftrightarrow> s < of_date (to_date r)"
  unfolding to_date_def of_date_def by linarith

lemma older_than_cursor_at:
  assumes "told_apart rows" and r: "r \<in> set rows" and s: "s \<in> set rows" and "n_id s = n_id r \<Longrightarrow> s = r"
  shows "older_than_cursor (Some (cursor_at r)) s \<longleftrightarrow> newest_first r s \<and> \<not> newest_first s r"
proof -
  have order: "text_less (n_id s) (n_id r) \<Longrightarrow> \<not> text_less (n_id r) (n_id s) \<and> n_id s \<noteq> n_id r"
    by (metis text_less_irrefl text_less_asym)
  have floor: "of_date (to_date t) \<le> t" for t
    by (simp add: to_date_def of_date_def)
  consider "s = r" | "n_id r \<noteq> n_id s" "to_date (n_created_at r) = to_date (n_created_at s)"
    | "n_id r \<noteq> n_id s" "to_date (n_created_at s) < to_date (n_created_at r)"
    | "n_id r \<noteq> n_id s" "to_date (n_created_at r) < to_date (n_created_at s)"
    using assms(4) by (metis linorder_neqE_linordered_idom)
  then show ?thesis
  proof cases
    case 1
    then show ?thesis
      using floor [of "n_created_at r"] text_less_irrefl [of "n_id r"]
      by (auto simp: older_than_cursor_def cursor_at_def newest_first_iff)
  next
    case 2
    with told_apartD [OF assms(1) r s] order show ?thesis
      by (auto simp: older_than_cursor_def cursor_at_def newest_first_iff)
  next
    case 3
    then have "n_created_at s < of_date (to_date (n_created_at r))" by (simp add: to_date_less)
    with floor [of "n_created_at r"] show ?thesis
      by (auto simp: older_than_cursor_def cursor_at_def newest_first_iff)
  next
    case 4
    then have "n_created_at r < of_date (to_date (n_created_at s))" by (simp add: to_date_less)
    with floor [of "n_created_at s"] floor [of "n_created_at r"] show ?thesis
      by (auto simp: older_than_cursor_def cursor_at_def newest_first_iff)
  qed
qed

definition listed :: "uuid \<Rightarrow> list_filters \<Rightarrow> world \<Rightarrow> notification list" where
  "listed application_id filters w =
     sql_order_by newest_first (filter (matches_filters application_id filters) (w_notifications w))"

lemma repository_list_page:
  assumes "filter (older_than_cursor cursor) (listed a filters w) = ys"
  shows "repository_list a filters cursor limit w
    = (take limit ys,
       if 0 < limit \<and> limit < length ys then Some (cursor_at (ys ! (limit - 1))) else None)"
proof -
  have "filter (\<lambda>r. matches_filters a filters r \<and> older_than_cursor cursor r) (w_notifications w)
      = filter (older_than_cursor cursor) (filter (matches_filters a filters) (w_notifications w))"
    by (simp add: conj_commute)
  then have "sql_order_by newest_first
      (filter (\<lambda>r. matches_filters a filters r \<and> older_than_cursor cursor r) (w_notifications w)) = ys"
    using assms by (simp only: newest_rows.order_by_filter listed_def)
  then show ?thesis
    by (auto simp: repository_list_def Let_def cursor_at_def last_conv_nth min_def)
qed

primrec page_through ::
  "nat \<Rightarrow> uuid \<Rightarrow> list_filters \<Rightarrow> nat \<Rightarrow> page_cursor option \<Rightarrow> world \<Rightarrow> notification list" where
  "page_through 0 a filters limit cursor w = []"
| "page_through (Suc pages) a filters limit cursor w =
     (case repository_list a filters cursor limit w of
        (items, None) \<Rightarrow> items
      | (items, Some k) \<Rightarrow> items @ page_through pages a filters limit (Some k) w)"

lemma distinct_listed:
  assumes "distinct (map n_id (w_notifications w))"
  shows "distinct (map n_id (filter P (w_notifications w)))"
  using assms by (induction "w_notifications w" arbitrary: w) (auto simp: distinct_map_filter)

lemma page_through_rest:
  assumes distinct: "distinct (map n_id (w_notifications w))"
    and apart: "told_apart (listed a filters w)" and "0 < limit"
  shows "listed a filters w = xs @ ys \<Longrightarrow> filter (older_than_cursor cursor) (listed a filters w) = ys
     \<Longrightarrow> length ys < pages \<Longrightarrow> page_through pages a filters limit cursor w = ys"
proof (induction pages arbitrary: xs ys cursor)
  case (Suc pages)
  note page = repository_list_page [OF Suc.prems(2), of limit]
  show ?case
  proof (cases "limit < length ys")
    case False
    with page show ?thesis by simp
  next
    case True
    let ?r = "ys ! (limit - 1)"
    have split: "listed a filters w = (xs @ take (limit - 1) ys) @ ?r # drop limit ys"
      using True \<open>0 < limit\<close> Suc.prems(1) id_take_nth_drop [of "limit - 1" ys] by simp
    then have r: "?r \<in> set (listed a filters w)" by simp
    have "filter (older_than_cursor (Some (cursor_at ?r))) (listed a filters w)
        = filter (\<lambda>s. newest_first ?r s \<and> \<not> newest_first s ?r) (listed a filters w)"
    proof (rule filter_cong [OF refl])
      fix s assume s: "s \<in> set (listed a filters w)"
      with r distinct_listed [OF distinct] have "n_id s = n_id ?r \<Longrightarrow> s = ?r"
        by (auto simp: listed_def distinct_map inj_on_def)
      then show "older_than_cursor (Some (cursor_at ?r)) s \<longleftrightarrow> newest_first ?r s \<and> \<not> newest_first s ?r"
        by (rule older_than_cursor_at [OF apart r s])
    qed
    then have rest: "filter (older_than_cursor (Some (cursor_at ?r))) (listed a filters w) = drop limit ys"
      using newest_rows.after_row [OF distinct_listed [OF distinct] split [unfolded listed_def]]
      by (simp only: listed_def)
    have "listed a filters w = (xs @ take limit ys) @ drop limit ys"
      using Suc.prems(1) by simp
    from Suc.IH [OF this rest] Suc.prems(3) True \<open>0 < limit\<close>
    have "page_through pages a filters limit (Some (cursor_at ?r)) w = drop limit ys" by simp
    with page True \<open>0 < limit\<close> show ?thesis by simp
  qed
qed simp

section \<open>Properties\<close>

text \<open>
  Paging through a list visits every notification that matches exactly once, newest first, and
  then ends: following the returned cursor until there is none yields precisely the matching rows
  in order, for any filters and any page size, provided no two of them share a millisecond of which
  a cursor loses the fraction.
\<close>

theorem pages_cover_the_list:
  assumes "distinct (map n_id (w_notifications w))"
    and "told_apart (filter (matches_filters a filters) (w_notifications w))"
    and "0 < limit"
    and "length (filter (matches_filters a filters) (w_notifications w)) < pages"
  shows "page_through pages a filters limit None w
    = sql_order_by newest_first (filter (matches_filters a filters) (w_notifications w))"
proof -
  have "listed a filters w = [] @ listed a filters w"
    and "filter (older_than_cursor None) (listed a filters w) = listed a filters w"
    by (simp_all add: older_than_cursor_def)
  moreover have "length (listed a filters w) < pages"
    using assms(4) by (simp add: listed_def)
  ultimately show ?thesis
    using page_through_rest [OF assms(1) _ assms(3)] assms(2)
    by (simp add: listed_def told_apart_def list_all_iff)
qed

definition every_notification :: list_filters where
  "every_notification =
     \<lparr>lf_statuses = None, lf_recipient_phone_number = None, lf_template_id = None,
      lf_created_before = None\<rparr>"

theorem pages_cover_the_list_witness:
  "page_through 2 ''app'' every_notification 1 None example_world = [example_notification]"
  using pages_cover_the_list [where w = example_world and limit = 1 and a = "''app''"
      and filters = every_notification and pages = 2]
  by (simp add: told_apart_def matches_filters_def every_notification_def sql_order_by_def
      example_notification_def)

lemma page_through_older:
  "s \<in> set (page_through pages a filters limit (Some k) w) \<Longrightarrow> n_created_at s \<le> of_date (pc_created_at k)"
proof (induction pages arbitrary: k)
  case (Suc pages)
  obtain items following where page: "repository_list a filters (Some k) limit w = (items, following)"
    by (cases "repository_list a filters (Some k) limit w")
  then have older: "n_created_at r \<le> of_date (pc_created_at k)" if "r \<in> set items" for r
    using that by (auto simp: repository_list_def Let_def older_than_cursor_def dest!: in_set_takeD)
  show ?case
  proof (cases "s \<in> set items")
    case False
    with Suc.prems page obtain k' where k': "following = Some k'"
      and s: "s \<in> set (page_through pages a filters limit (Some k') w)"
      by (auto split: option.splits)
    from page k' have "items \<noteq> []" and "pc_created_at k' = to_date (n_created_at (last items))"
      by (auto simp: repository_list_def Let_def split: if_splits)
    with older [of "last items"] have "pc_created_at k' \<le> pc_created_at k"
      by (simp add: to_date_def of_date_def)
    with Suc.IH [OF s] show ?thesis by (meson of_date_mono order_trans)
  qed (rule older)
qed simp

text \<open>
  C30: A cursor loses the fraction of a millisecond the database keeps. Whatever page ends at a
  notification, every other notification created within the same millisecond is missing from all
  the pages that follow, unless it was created at its very first microsecond.
\<close>

theorem cursor_skips_the_rest_of_a_millisecond:
  assumes "of_date (to_date (n_created_at r)) < n_created_at s"
  shows "s \<notin> set (page_through pages a filters limit (Some (cursor_at r)) w)"
  using assms page_through_older [of s pages a filters limit "cursor_at r" w]
  by (auto simp: cursor_at_def)

text \<open>Two notifications 300 microseconds apart, in pages of one: the older one is never listed.\<close>

definition close_together :: world where
  "close_together = example_world\<lparr>w_notifications :=
     [example_notification\<lparr>n_id := ''older'', n_created_at := 1000000200\<rparr>,
      example_notification\<lparr>n_id := ''newer'', n_created_at := 1000000500\<rparr>]\<rparr>"

theorem cursor_skips_the_rest_of_a_millisecond_witness:
  "repository_list ''app'' every_notification None 1 close_together
     = ([w_notifications close_together ! 1], Some (cursor_at (w_notifications close_together ! 1)))
   \<and> matches_filters ''app'' every_notification (w_notifications close_together ! 0)
   \<and> (\<forall>pages. w_notifications close_together ! 0 \<notin> set (page_through pages ''app'' every_notification 1
        (Some (cursor_at (w_notifications close_together ! 1))) close_together))"
proof -
  have "of_date (to_date (n_created_at (w_notifications close_together ! 1)))
      < n_created_at (w_notifications close_together ! 0)"
    by (simp add: close_together_def of_date_def to_date_def)
  note skipped = cursor_skips_the_rest_of_a_millisecond [OF this]
  have "repository_list ''app'' every_notification None 1 close_together
     = ([w_notifications close_together ! 1], Some (cursor_at (w_notifications close_together ! 1)))"
    by (simp add: repository_list_def Let_def older_than_cursor_def matches_filters_def cursor_at_def
        every_notification_def close_together_def sql_order_by_def newest_first_def)
  with skipped show ?thesis
    by (simp add: matches_filters_def every_notification_def close_together_def)
qed

section \<open>Cursors\<close>

lemma split_on_first:
  assumes "split_on sep s = p # ps"
  shows "(ps = [] \<and> s = p) \<or> (\<exists>t. s = p @ sep # t \<and> ps = split_on sep t)"
  using assms
proof (induction s arbitrary: p ps)
  case (Cons c s)
  obtain q qs where q: "split_on sep s = q # qs" by (cases "split_on sep s") auto
  show ?case
  proof (cases "c = sep")
    case False
    with Cons.prems q have "p = c # q" and "ps = qs" by auto
    with Cons.IH [OF q] show ?thesis by auto
  qed (use Cons.prems in auto)
qed simp

text \<open>What is relied on of the runtime for one payload: its texts read back, and no piece has a dot.\<close>

definition payload_of :: "page_cursor \<Rightarrow> json" where
  "payload_of k = JObj [(''createdAt'', JStr (to_iso_string (pc_created_at k))), (''id'', JStr (pc_id k))]"

definition codec_reads_back :: "cursor_codec \<Rightarrow> page_cursor \<Rightarrow> bool" where
  "codec_reads_back cc k =
     (let text = cc_stringify cc (payload_of k); encoded = cc_encode cc text
      in CHR ''.'' \<notin> set encoded \<and> CHR ''.'' \<notin> set (cc_sign cc encoded)
         \<and> cc_decode cc encoded = text \<and> cc_parse cc text = Some (payload_of k)
         \<and> cc_read_date cc (to_iso_string (pc_created_at k)) = Date (pc_created_at k))"

text \<open>
  A cursor handed out reads back as the position it was made of, and nothing else is accepted:
  a text that is read as a position starts with a payload and that payload's own signature.
\<close>

theorem only_signed_cursors_are_read:
  "(codec_reads_back cc k \<longrightarrow> decode_cursor cc (Some (encode_cursor cc k)) = Inr (Some k))
   \<and> (\<forall>text k'. decode_cursor cc (Some text) = Inr (Some k') \<longrightarrow>
        (\<exists>encoded rest. text = encoded @ ''.'' @ cc_sign cc encoded @ rest
           \<and> (rest = [] \<or> hd rest = CHR ''.'')))"
proof (intro conjI impI allI)
  assume "codec_reads_back cc k"
  then show "decode_cursor cc (Some (encode_cursor cc k)) = Inr (Some k)"
    by (simp add: codec_reads_back_def Let_def payload_of_def decode_cursor_def encode_cursor_def
        split_on_append split_on_absent json_field_def)
next
  fix cursor k' assume d: "decode_cursor cc (Some cursor) = Inr (Some k')"
  obtain encoded ps where e: "split_on CHR ''.'' cursor = encoded # ps"
    by (cases "split_on CHR ''.'' cursor") auto
  with d obtain signature qs where ps: "ps = signature # qs"
    and s: "signature = cc_sign cc encoded"
    by (cases ps) (auto simp: decode_cursor_def split: if_splits)
  from split_on_first [OF e] ps obtain t where "cursor = encoded @ CHR ''.'' # t"
    and t: "split_on CHR ''.'' t = signature # qs" by auto
  moreover from split_on_first [OF t] obtain rest
    where "t = signature @ rest" and "rest = [] \<or> hd rest = CHR ''.''" by auto
  ultimately show "\<exists>encoded rest. cursor = encoded @ ''.'' @ cc_sign cc encoded @ rest
      \<and> (rest = [] \<or> hd rest = CHR ''.'')"
    using s by auto
qed

definition example_codec :: cursor_codec where
  "example_codec =
     \<lparr>cc_sign = (\<lambda>e. ''sig''), cc_encode = (\<lambda>t. ''payload''), cc_decode = (\<lambda>e. ''text''),
      cc_stringify = (\<lambda>j. ''text''),
      cc_parse = (\<lambda>t. Some (payload_of \<lparr>pc_created_at = 1000000, pc_id = ''n1''\<rparr>)),
      cc_read_date = (\<lambda>t. Date 1000000)\<rparr>"

theorem only_signed_cursors_are_read_witness:
  "decode_cursor example_codec
     (Some (encode_cursor example_codec \<lparr>pc_created_at = 1000000, pc_id = ''n1''\<rparr>))
   = Inr (Some \<lparr>pc_created_at = 1000000, pc_id = ''n1''\<rparr>)"
proof -
  have "codec_reads_back example_codec \<lparr>pc_created_at = 1000000, pc_id = ''n1''\<rparr>"
    by (simp add: codec_reads_back_def example_codec_def)
  with only_signed_cursors_are_read [of example_codec] show ?thesis by blast
qed

end
