(* ===== verification/Webhook.thy ===== *)
theory Webhook
  imports Connection
begin

text \<open>
  Delivery callbacks: reading the provider's envelope
  (\<open>packages/provider-whatsapp/src/webhook.ts\<close>, \<open>packages/domain/src/provider/provider-event.ts\<close>,
  \<open>provider-message-id.ts\<close>), filing a callback
  (\<open>packages/composition/src/webhook/ingest-webhook.service.ts\<close>) and acting on it later
  (\<open>process-webhook.service.ts\<close>). The HMAC, the decryption of the signing key and the parsing of
  JSON text are the runtime's and are parameters.
\<close>

section \<open>Identifiers and envelopes\<close>

definition normalize_provider_message_id :: "string \<Rightarrow> string" where
  "normalize_provider_message_id provider_message_id =
     (let last_segment = last (split_on CHR ''_'' provider_message_id)
      in if last_segment \<noteq> [] then last_segment else provider_message_id)"

record webhook_me =
  me_id :: "string option"
  me_push_name :: "string option"

record webhook_envelope =
  we_id :: string
  we_session :: string
  we_event :: string
  we_payload :: "(string \<times> json) list"
  we_me :: "webhook_me option"

text \<open>The optional members: absent, of the right type, or a reason to refuse the envelope.\<close>

fun optional_number :: "json option \<Rightarrow> rat parsed" where
  "optional_number None = Absent"
| "optional_number (Some (JNum x)) = Present x"
| "optional_number (Some _) = Malformed"

fun optional_string :: "json option \<Rightarrow> string parsed" where
  "optional_string None = Absent"
| "optional_string (Some (JStr s)) = Present s"
| "optional_string (Some _) = Malformed"

fun optional_bool :: "json option \<Rightarrow> bool parsed" where
  "optional_bool None = Absent"
| "optional_bool (Some (JBool b)) = Present b"
| "optional_bool (Some _) = Malformed"

fun parse_me :: "json option \<Rightarrow> webhook_me parsed" where
  "parse_me None = Absent"
| "parse_me (Some JNull) = Absent"
| "parse_me (Some (JObj members)) =
     (let i = optional_string (json_field ''id'' members);
          p = nullish_string (json_field ''pushName'' members)
      in if i = Malformed \<or> p = Malformed then Malformed
         else Present \<lparr>me_id = parsed_option i, me_push_name = parsed_option p\<rparr>)"
| "parse_me (Some _) = Malformed"

fun parse_payload :: "json option \<Rightarrow> (string \<times> json) list parsed" where
  "parse_payload None = Present []"
| "parse_payload (Some (JObj members)) = Present members"
| "parse_payload (Some _) = Malformed"

fun parse_webhook_envelope :: "json option \<Rightarrow> webhook_envelope option" where
  "parse_webhook_envelope (Some (JObj members)) =
     (case (json_field ''id'' members, json_field ''session'' members,
            json_field ''event'' members, parse_payload (json_field ''payload'' members)) of
        (Some (JStr i), Some (JStr s), Some (JStr e), Present payload) \<Rightarrow>
          if i = [] \<or> s = [] \<or> e = []
             \<or> optional_number (json_field ''timestamp'' members) = Malformed
             \<or> parse_me (json_field ''me'' members) = Malformed then None
          else Some \<lparr>we_id = i, we_session = s, we_event = e, we_payload = payload,
                     we_me = parsed_option (parse_me (json_field ''me'' members))\<rparr>
      | _ \<Rightarrow> None)"
| "parse_webhook_envelope _ = None"

definition to_phone_number :: "string option \<Rightarrow> string option" where
  "to_phone_number provider_identifier =
     (case provider_identifier of
        None \<Rightarrow> None
      | Some i \<Rightarrow>
          let digits = hd (split_on CHR ''@'' i)
          in if digits = [] then None else Some (CHR ''+'' # digits))"

section \<open>Provider events\<close>

datatype provider_event =
    MessageAcknowledgement string delivery_ack bool
  | SessionStatus string provider_session_status "string option" "string option" "account_limits option"
  | UnsupportedEvent string

definition acknowledgement_event :: "(string \<times> json) list \<Rightarrow> provider_event" where
  "acknowledgement_event payload =
     (case (json_field ''id'' payload, json_field ''ack'' payload,
            optional_bool (json_field ''fromMe'' payload)) of
        (Some (JStr i), Some (JNum value), from_me) \<Rightarrow>
          if i = [] \<or> from_me = Malformed then UnsupportedEvent ''message.ack''
          else (case to_delivery_acknowledgement value of
                  None \<Rightarrow> UnsupportedEvent ''message.ack''
                | Some a \<Rightarrow>
                    MessageAcknowledgement (normalize_provider_message_id i) a
                      (case from_me of Present b \<Rightarrow> b | _ \<Rightarrow> True))
      | _ \<Rightarrow> UnsupportedEvent ''message.ack'')"

definition session_status_event :: "webhook_envelope \<Rightarrow> provider_event" where
  "session_status_event envelope =
     (case (json_field ''status'' (we_payload envelope),
            optional_string (json_field ''name'' (we_payload envelope))) of
        (Some (JStr status_text), name) \<Rightarrow>
          if name = Malformed then UnsupportedEvent (we_event envelope)
          else let status = to_provider_session_status status_text
               in SessionStatus
                    (case name of Present s \<Rightarrow> s | _ \<Rightarrow> we_session envelope)
                    status
                    (to_phone_number (Option.bind (we_me envelope) me_id))
                    (Option.bind (we_me envelope) me_push_name)
                    (if status = WORKING \<and> we_event envelope = ''session.status''
                     then Some (read_account_limits (json_field ''data'' (we_payload envelope)))
                     else None)
      | _ \<Rightarrow> UnsupportedEvent (we_event envelope))"

definition to_provider_event :: "webhook_envelope \<Rightarrow> provider_event" where
  "to_provider_event envelope =
     (if we_event envelope = ''message.ack'' then acknowledgement_event (we_payload envelope)
      else if we_event envelope = ''session.status'' \<or> we_event envelope = ''state.change''
      then session_status_event envelope
      else UnsupportedEvent (we_event envelope))"

definition acknowledgement_fields :: "string list" where
  "acknowledgement_fields = [''id'', ''fromMe'', ''ack'', ''ackName'']"

definition to_stored_payload :: "string \<Rightarrow> (string \<times> json) list \<Rightarrow> (string \<times> json) list" where
  "to_stored_payload event_name payload =
     (if event_name \<noteq> ''message.ack'' then payload
      else concat (map (\<lambda>f. case json_field f payload of None \<Rightarrow> [] | Some v \<Rightarrow> [(f, v)])
                     acknowledgement_fields))"

definition is_webhook_timestamp_acceptable :: "string option \<Rightarrow> millis \<Rightarrow> int \<Rightarrow> bool" where
  "is_webhook_timestamp_acceptable header now tolerance_seconds =
     (case header of
        None \<Rightarrow> True
      | Some text \<Rightarrow>
          if text = [] then True
          else (case js_number text of
             None \<Rightarrow> False
           | Some timestamp \<Rightarrow>
               let ms = (if timestamp < 100000000000 then timestamp * 1000 else timestamp)
               in \<bar>of_int now - ms\<bar> \<le> of_int (tolerance_seconds * 1000)))"

definition is_webhook_signature_valid ::
  "(string \<Rightarrow> string \<Rightarrow> string) \<Rightarrow> string \<Rightarrow> string \<Rightarrow> string \<Rightarrow> bool" where
  "is_webhook_signature_valid hmac_hex raw_body supplied signing_key =
     (supplied = hmac_hex signing_key raw_body)"

section \<open>The inbox\<close>

definition record_delivery :: "delivery \<Rightarrow> delivery option tx" where
  "record_delivery d w =
     (if list_ex (\<lambda>x. d_session_id x = d_session_id d
                    \<and> d_provider_event_id x = d_provider_event_id d) (w_deliveries w)
      then Inr (None, w)
      else if \<not> session_exists (d_application_id d) (d_session_id d) w
      then Inl (ConstraintViolation ''webhook_deliveries_session_fkey'')
      else Inr (Some d, w\<lparr>w_deliveries := w_deliveries w @ [d]\<rparr>))"

definition claim_for_processing :: "uuid \<Rightarrow> delivery option tx" where
  "claim_for_processing delivery_id w =
     (let p = (\<lambda>d. d_id d = delivery_id \<and> d_processed_at d = None);
          f = (\<lambda>d. d\<lparr>d_processing_attempts := d_processing_attempts d + 1\<rparr>)
      in Inr (sql_returning p f (w_deliveries w),
              w\<lparr>w_deliveries := sql_update p f (w_deliveries w)\<rparr>))"

definition mark_processed :: "uuid \<Rightarrow> webhook_outcome \<Rightarrow> string option \<Rightarrow> millis \<Rightarrow> world \<Rightarrow> world" where
  "mark_processed delivery_id outcome detail now w =
     w\<lparr>w_deliveries := sql_update (\<lambda>d. d_id d = delivery_id)
        (\<lambda>d. d\<lparr>d_processed_at := Some now, d_outcome := Some outcome, d_outcome_detail := detail\<rparr>)
        (w_deliveries w)\<rparr>"

section \<open>Ingesting\<close>

record ingest_input =
  ii_session_id :: uuid
  ii_raw_body :: string
  ii_signature :: "string option"
  ii_timestamp_header :: "string option"
  ii_correlation_id :: string

record webhook_crypto =
  wc_hmac_hex :: "string \<Rightarrow> string \<Rightarrow> string"
  wc_decrypt :: "string \<Rightarrow> string option"
  wc_parse_json :: "string \<Rightarrow> json option"

datatype ingestion_result = Accepted | Duplicate | Rejected string | MalformedBody

definition webhook_job :: "string \<Rightarrow> uuid \<Rightarrow> job" where
  "webhook_job correlation_id delivery_id =
     \<lparr>j_queue = WEBHOOK_PROCESS, j_correlation_id = correlation_id, j_application_id = None,
      j_subject_id = delivery_id, j_singleton_key = None, j_start_after = None\<rparr>"

definition ingest_transaction ::
  "config \<Rightarrow> session \<Rightarrow> webhook_envelope \<Rightarrow> uuid \<Rightarrow> string \<Rightarrow> millis \<Rightarrow> delivery option tx" where
  "ingest_transaction c s envelope delivery_id correlation_id now =
     tx_bind (record_delivery
       \<lparr>d_id = delivery_id, d_application_id = s_application_id s, d_session_id = s_id s,
        d_provider_event_id = we_id envelope, d_event_type = we_event envelope,
        d_provider_session_name = we_session envelope,
        d_payload = to_stored_payload (we_event envelope) (we_payload envelope),
        d_received_at = now, d_processed_at = None, d_processing_attempts = 0,
        d_outcome = None, d_outcome_detail = None\<rparr>) (\<lambda>recorded.
     case recorded of
       None \<Rightarrow> tx_return None
     | Some d \<Rightarrow>
         tx_bind (enqueue_in_transaction c (webhook_job correlation_id (d_id d))) (\<lambda>_.
         tx_return (Some d)))"

definition ingest :: "config \<Rightarrow> webhook_crypto \<Rightarrow> ingest_input \<Rightarrow> ingestion_result prog" where
  "ingest c crypto input =
     reading (find_session_without_tenant_scope (ii_session_id input)) (\<lambda>found.
     case found of
       None \<Rightarrow> Done (Rejected ''unknown session'')
     | Some s \<Rightarrow>
         (case ii_signature input of
            None \<Rightarrow> Done (Rejected ''missing signature'')
          | Some signature \<Rightarrow>
              if signature = [] then Done (Rejected ''missing signature'')
              else (case wc_decrypt crypto (s_webhook_signing_key_ciphertext s) of
                 None \<Rightarrow> Done (Rejected ''unreadable signing key'')
               | Some signing_key \<Rightarrow>
                   if \<not> is_webhook_signature_valid (wc_hmac_hex crypto) (ii_raw_body input)
                          signature signing_key
                   then Done (Rejected ''invalid signature'')
                   else clock_now (\<lambda>now.
                     if \<not> is_webhook_timestamp_acceptable (ii_timestamp_header input) now
                            (c_webhook_tolerance_seconds c)
                     then Done (Rejected ''stale timestamp'')
                     else (case parse_webhook_envelope (wc_parse_json crypto (ii_raw_body input)) of
                        None \<Rightarrow> Done MalformedBody
                      | Some envelope \<Rightarrow>
                          next_identifier c (\<lambda>delivery_id.
                          atomically (ingest_transaction c s envelope delivery_id
                                        (ii_correlation_id input) now) (\<lambda>recorded.
                          Done (if recorded = None then Duplicate else Accepted))))))))"

section \<open>Processing\<close>

definition unmatched_grace_milliseconds :: int where
  "unmatched_grace_milliseconds = 60000"

definition resolve_status :: "notification_status \<Rightarrow> delivery_ack \<Rightarrow> notification_status" where
  "resolve_status current merged =
     (if current \<noteq> SENT then current
      else if is_failure_acknowledgement merged then FAILED
      else if is_delivered_acknowledgement merged then DELIVERED
      else current)"

definition acknowledgement_changes ::
  "notification \<Rightarrow> delivery_ack \<Rightarrow> millis \<Rightarrow> transition_change list" where
  "acknowledgement_changes n merged now =
     [SetProviderAcknowledgement (ack_value merged)]
     @ (if is_delivered_acknowledgement merged \<and> n_delivered_at n = None
        then [SetDeliveredAt (Some now)] else [])
     @ (if is_read_acknowledgement merged \<and> n_read_at n = None then [SetReadAt (Some now)] else [])
     @ (if is_failure_acknowledgement merged
        then [SetFailedAt (Some now), SetFailureCode (Some ProviderAcknowledgementError),
              SetFailureReason (Some ''WhatsApp reported that this message could not be delivered.''),
              SetFailureClassification (Some PERMANENT)]
        else [])"

definition acknowledgement_transaction ::
  "config \<Rightarrow> notification \<Rightarrow> delivery_ack \<Rightarrow> delivery_ack \<Rightarrow> millis \<Rightarrow> unit tx" where
  "acknowledgement_transaction c n merged received now =
     (let next_status = resolve_status (n_status n) merged
      in tx_bind (apply_transition (n_application_id n) (n_id n) (n_status n) next_status
                    (acknowledgement_changes n merged now) now) (\<lambda>_.
         tx_bind (new_identifier c) (\<lambda>event_id.
         append_event
           \<lparr>e_id = event_id, e_application_id = n_application_id n, e_notification_id = n_id n,
            e_event_type = ''notification.acknowledged'', e_from_status = Some (n_status n),
            e_to_status = Some next_status, e_attempt_number = Some (n_attempt_count n),
            e_payload = [(''acknowledgement'', JStr (describe_acknowledgement received)),
              (''highestAcknowledgement'', JStr (describe_acknowledgement merged))],
            e_correlation_id = n_correlation_id n, e_occurred_at = 0\<rparr>)))"

definition record_acknowledgement ::
  "config \<Rightarrow> notification \<Rightarrow> delivery_ack \<Rightarrow> delivery_ack \<Rightarrow> unit prog" where
  "record_acknowledgement c n merged received =
     clock_now (\<lambda>now. atomically (acknowledgement_transaction c n merged received now) Done)"

type_synonym process_result = "webhook_outcome \<times> string option"

definition report_unmatched :: "delivery \<Rightarrow> process_result prog" where
  "report_unmatched d =
     clock_now (\<lambda>now.
     if now - d_received_at d < unmatched_grace_milliseconds
     then Raise (ThrownError
       ''The notification for this acknowledgement does not exist yet; the callback will be retried.'')
     else Done (UNMATCHED, Some ''no notification has this provider message identifier''))"

definition stored_acknowledgement :: "notification \<Rightarrow> delivery_ack" where
  "stored_acknowledgement n =
     (case to_delivery_acknowledgement (of_int (n_provider_acknowledgement n)) of
        Some a \<Rightarrow> a
      | None \<Rightarrow> AckPending)"

definition apply_acknowledgement ::
  "config \<Rightarrow> delivery \<Rightarrow> string \<Rightarrow> delivery_ack \<Rightarrow> bool \<Rightarrow> process_result prog" where
  "apply_acknowledgement c d message_id acknowledgement from_us =
     (if \<not> from_us then Done (IGNORED, Some ''inbound message'')
      else bind (if is_failure_acknowledgement acknowledgement
                 then doubt_reported_limits (d_session_id d) else Done ()) (\<lambda>_.
        reading (find_by_provider_message_id (d_session_id d) message_id) (\<lambda>found.
        case found of
          None \<Rightarrow> report_unmatched d
        | Some n \<Rightarrow>
            let current = stored_acknowledgement n;
                merged = merge_acknowledgements current acknowledgement
            in if merged = current \<and> n_provider_acknowledgement n = ack_value current
               then Done (IGNORED, Some (''already at '' @ describe_acknowledgement current))
               else bind (record_acknowledgement c n merged acknowledgement)
                      (\<lambda>_. Done (APPLIED, Some (describe_acknowledgement merged))))))"

definition apply_session_status ::
  "config \<Rightarrow> delivery \<Rightarrow> provider_session_status \<Rightarrow> string option \<Rightarrow> string option
     \<Rightarrow> account_limits option \<Rightarrow> process_result prog" where
  "apply_session_status c d status phone_number push_name limits =
     clock_now (\<lambda>now.
     writing (record_status (d_session_id d) status phone_number push_name None now)
       (bind (case limits of
                None \<Rightarrow> Done ()
              | Some l \<Rightarrow>
                  reading (find_session_without_tenant_scope (d_session_id d)) (\<lambda>found.
                  case found of
                    None \<Rightarrow> Done ()
                  | Some s \<Rightarrow>
                      record_limits c (s_id s) (s_sending_paused_until s) (Some l) False))
         (\<lambda>_. Done (APPLIED, Some (''session '' @ session_status_name status)))))"

definition apply_event :: "config \<Rightarrow> delivery \<Rightarrow> provider_event \<Rightarrow> process_result prog" where
  "apply_event c d event =
     (case event of
        MessageAcknowledgement message_id a from_us \<Rightarrow> apply_acknowledgement c d message_id a from_us
      | SessionStatus name status phone push limits \<Rightarrow>
          apply_session_status c d status phone push limits
      | UnsupportedEvent event_type \<Rightarrow> Done (IGNORED, Some (''unsupported event '' @ event_type)))"

definition process :: "config \<Rightarrow> uuid \<Rightarrow> process_result prog" where
  "process c delivery_id =
     atomically (claim_for_processing delivery_id) (\<lambda>claimed.
     case claimed of
       None \<Rightarrow> Done (IGNORED, Some ''already processed'')
     | Some d \<Rightarrow>
         bind (apply_event c d (to_provider_event
           \<lparr>we_id = d_provider_event_id d, we_session = d_provider_session_name d,
            we_event = d_event_type d, we_payload = d_payload d, we_me = None\<rparr>)) (\<lambda>result.
         clock_now (\<lambda>now.
         writing (mark_processed delivery_id (fst result) (snd result) now) (Done result))))"

end
