(* ===== verification/Service_Safety.thy ===== *)
theory Service_Safety
  imports Dispatch_Safety Maintenance Query Webhook
begin

text \<open>
  Every service keeps the tables sound, whatever it is given and however its effects interleave
  with those of others: a transaction either commits to a sound state that the guarantee allows or
  it throws. Which exceptions are thrown is not restricted here; \<open>Dispatch_Safety\<close> does that for the
  dispatcher.
\<close>

section \<open>Transactions\<close>

definition anything :: "'a \<Rightarrow> bool" where
  "anything x = True"

lemma anything [simp]: "anything x"
  by (simp add: anything_def)

abbreviation upholds :: "'r tx \<Rightarrow> bool" where
  "upholds \<equiv> commits sound evolves anything"

abbreviation safely :: "'a prog \<Rightarrow> bool" where
  "safely \<equiv> safe sound evolves anything anything"

interpretation services: session_frame sound evolves anything
  by unfold_locales (auto intro: evolves_trans)

lemma upholdsI:
  "(\<And>w r w'. sound w \<Longrightarrow> t w = Inr (r, w') \<Longrightarrow> sound w' \<and> evolves w w') \<Longrightarrow> upholds t"
  by (rule commitsI) auto

lemma upholds_throw [simp]: "upholds (tx_throw e)"
  by (rule upholdsI) (simp add: tx_throw_def)

lemma upholds_for_each: "(\<And>x. x \<in> set xs \<Longrightarrow> upholds (f x)) \<Longrightarrow> upholds (tx_for_each f xs)"
  by (induction xs) (auto intro!: services.commits_bind)

lemma upholds_simple [simp]:
  "upholds (new_identifier c)"
  "upholds (enqueue_in_transaction c j)"
  "upholds (append_event ev)"
  by (rule upholdsI, auto simp: new_identifier_def enqueue_in_transaction_def append_event_def
      split: if_splits)+

lemma upholds_update:
  assumes "\<And>r. p r \<Longrightarrow> claim_matches_status r \<Longrightarrow>
    enforce_status_transition (n_status r) (n_status (f r)) \<Longrightarrow> orderly r (f r)"
  shows "upholds (update_notifications p f)"
proof (rule upholdsI)
  fix w r w' assume w: "sound w" and u: "update_notifications p f w = Inr (r, w')"
  have "\<And>r. r \<in> set (w_notifications w) \<Longrightarrow> p r \<Longrightarrow> orderly r (f r)"
    using assms soundD(2) [OF w] update_notifications_Inr(3) [OF u] by blast
  then show "sound w' \<and> evolves w w'"
    using update_keeps_sound [OF w u] update_keeps_rows [OF u] by blast
qed

text \<open>A change of status that leaves the claim where the new status wants it.\<close>

definition keeps_claim_in_step ::
  "notification_status \<Rightarrow> notification_status \<Rightarrow> transition_change list \<Rightarrow> millis \<Rightarrow> bool" where
  "keeps_claim_in_step old new changes now =
     (\<forall>r. n_status r = old \<longrightarrow> claim_matches_status r \<longrightarrow>
          claim_matches_status (transition_row new changes now r))"

lemma upholds_apply_transition:
  assumes "keeps_claim_in_step old new changes now"
  shows "upholds (apply_transition a i old new changes now)"
  unfolding apply_transition_def
  using assms
  by (auto intro!: services.commits_bind upholds_update
      simp: orderly_def row_evolves_def keeps_claim_in_step_def intro: reaches_step)

lemma good_step_claim:
  "claim_matches_status (transition_row FAILED (fail_changes f t) now r)"
  "claim_matches_status (transition_row RETRYING (retry_changes f t) now r)"
  "claim_matches_status (transition_row SENT (sent_changes m ch t) now r)"
  "claim_matches_status (transition_row RETRYING
     [SetNextAttemptAt x, SetClaimToken None, SetClaimedAt None] now r)"
  by (simp_all add: claim_matches_status_def transition_row_def apply_changes_def
      fail_changes_def retry_changes_def sent_changes_def)

section \<open>The dispatcher\<close>

lemma upholds_good_step:
  assumes "good_step s cs now"
  shows "upholds (apply_transition a i PROCESSING s cs now)"
  using apply_transition_keeps [OF _ assms] by (auto intro!: upholdsI)

lemma upholds_begin_attempt: "upholds (begin_attempt_transaction c n token chat now)"
proof (rule upholdsI)
  fix w r w' assume w: "sound w"
    and t: "begin_attempt_transaction c n token chat now w = Inr (r, w')"
  show "sound w' \<and> evolves w w'"
  proof (cases rule: begin_attempt_effect [OF w refl refl, of n token c chat now])
    case 1
    with t w show ?thesis by auto
  next
    case (2 q)
    with t sound_begun [OF w 2(1)] evolves_begun show ?thesis by auto
  qed
qed

lemma upholds_resolve: "upholds (resolve_send_attempt a n k u m fc now)"
  by (rule upholdsI) (rule sound_resolve)

lemma upholds_promote: "upholds (promote_scheduled a i now)"
  unfolding promote_scheduled_def
  by (intro services.commits_bind upholds_update)
    (auto simp: orderly_def row_evolves_def claim_matches_status_def intro: reaches_step)

lemma upholds_claim: "upholds (claim_for_dispatch a i token now)"
  unfolding claim_for_dispatch_def
  by (intro services.commits_bind upholds_update)
    (auto simp: orderly_def row_evolves_def claim_matches_status_def intro: reaches_step)

interpretation dispatcher: dispatch_frame sound evolves anything "about a i" a i for a i
  by unfold_locales
    (auto simp: transition_transaction_def defer_transaction_def sent_transaction_def about_def
      enqueue_next_attempt_def upholds_begin_attempt upholds_resolve upholds_promote upholds_claim
      split: option.splits dest: claim_for_dispatch_about [unfolded about_def]
      intro!: services.commits_bind upholds_good_step)

lemma safely_dispatch: "safely (dispatch c input)"
  by (rule safe_weaken [OF dispatcher.safe_dispatch [OF refl refl]]) simp

section \<open>Maintenance\<close>

lemma upholds_release_claim: "upholds (release_claim c n now)"
  unfolding release_claim_def enqueue_dispatch_def
  by (auto intro!: services.commits_bind upholds_apply_transition
      simp: keeps_claim_in_step_def good_step_claim split: option.splits)

lemma safely_reap_each: "safely (reap_each c now ns k)"
  by (induction ns arbitrary: k) (auto intro!: services.safe_commits upholds_release_claim)

lemma safely_requeue_each: "safely (requeue_each c now ns k)"
  by (induction ns arbitrary: k) (auto simp: enqueue_dispatch_def intro!: services.safe_commits)

lemma upholds_prune: "upholds (prune_rate_limit_buckets t)"
  by (rule upholdsI) (auto simp: prune_rate_limit_buckets_def Let_def)

lemma safely_run_once: "safely (run_once c)"
  by (auto simp: run_once_def reap_stuck_claims_def requeue_due_notifications_def prune_def
      safely_reap_each safely_requeue_each
      intro!: safe_bind [where Q = anything] services.safe_clock services.safe_read
        services.safe_commits upholds_prune)

section \<open>Creating\<close>

lemma upholds_insert:
  assumes "n_attempt_count n = 0" and "claim_matches_status n"
  shows "upholds (insert_notification n)"
proof (rule upholdsI)
  fix w r w' assume w: "sound w" and t: "insert_notification n w = Inr (r, w')"
  let ?n = "n\<lparr>n_created_at := w_db_clock w, n_updated_at := w_db_clock w\<rparr>"
  from t have w': "w' = w\<lparr>w_notifications := w_notifications w @ [?n]\<rparr>"
    and new: "\<forall>s \<in> set (w_notifications w). n_id s \<noteq> n_id n"
    and ok: "check_notification ?n" "unique_message_ids (w_notifications w @ [?n])"
    by (auto simp: insert_notification_def Let_def list_ex_iff split: if_splits)
  have "ledger_numbers (n_id n) (w_attempts w) = []"
    using w new by (auto simp: sound_def ledger_numbers_def filter_empty_conv)
  then have "ledger_matches (w_attempts w) ?n"
    using assms(1) by (simp add: ledger_matches_def)
  moreover have "claim_matches_status ?n"
    using assms(2) by (simp add: claim_matches_status_def)
  ultimately show "sound w' \<and> evolves w w'"
    using w new ok unfolding w'
    by (auto simp: sound_def evolves_def intro!: bexI [of _ x for x])
qed

lemma drafted_claim: "claim_matches_status (drafted_notification d)"
  by (simp add: claim_matches_status_def drafted_notification_def Let_def)

lemma drafted_attempts: "n_attempt_count (drafted_notification d) = 0"
  by (simp add: drafted_notification_def Let_def)

lemma upholds_write: "upholds (write_notification c d)"
  by (auto simp: write_notification_def Let_def drafted_claim drafted_attempts
      intro!: services.commits_bind upholds_insert)

lemma upholds_resolve_session: "upholds (resolve_session a s)"
  by (rule upholdsI) (auto simp: resolve_session_def Let_def split: option.splits)

lemma upholds_repository_claim: "upholds (repository_claim c input)"
  by (rule upholdsI) (auto simp: repository_claim_def tx_bind_def new_identifier_def
      evolves_def split: option.splits if_splits intro!: bexI [of _ x for x])

lemma upholds_claim_key: "upholds (claim_idempotency_key c input fp now)"
  by (auto simp: claim_idempotency_key_def upholds_repository_claim
      split: option.splits idempotency_claim.splits intro!: services.commits_bind)

lemma upholds_complete_key: "upholds (complete_key k token body res now)"
  by (auto simp: complete_key_def repository_complete_def split: option.splits intro!: upholdsI)

lemma upholds_read_or_fail: "upholds (read_or_fail a i)"
  by (rule upholdsI) (auto simp: read_or_fail_def split: option.splits)

lemma upholds_read_all: "upholds (read_all_or_fail a is)"
  by (simp add: read_all_or_fail_def upholds_for_each upholds_read_or_fail)

lemmas upholds_creation =
  upholds_write upholds_resolve_session upholds_claim_key upholds_complete_key
  upholds_read_or_fail upholds_read_all

lemma upholds_create: "upholds (create_transaction c input r fp corr i now)"
  by (auto simp: create_transaction_def upholds_creation
      split: key_claim_result.splits option.splits intro!: services.commits_bind)

lemma upholds_create_batch: "upholds (create_batch_transaction c input ds fp corr now)"
  by (auto simp: create_batch_transaction_def upholds_creation
      split: key_claim_result.splits sum.splits
      intro!: services.commits_bind upholds_for_each)

lemma safely_identified: "(\<And>i. safely (k i)) \<Longrightarrow> safely (next_identifier c k)"
  by (simp add: next_identifier_def services.safe_commits)

lemma safely_correlated: "(\<And>i. safely (k i)) \<Longrightarrow> safely (with_correlation c rt k)"
  by (simp add: with_correlation_def safely_identified split: option.splits)

lemma safely_create: "safely (create c rt input r)"
  by (auto simp: create_def upholds_create split: sum.splits invalid_phone_number.splits
      intro!: services.safe_clock safely_correlated safely_identified services.safe_commits)

lemma safely_draft: "(\<And>ds. safely (k ds)) \<Longrightarrow> safely (draft_recipients c rs k)"
  by (induction rs arbitrary: k) (auto intro!: safely_identified
      split: sum.splits invalid_phone_number.splits)

lemma safely_create_batch: "safely (create_batch c rt input rs)"
  by (auto simp: create_batch_def upholds_create_batch split: sum.splits
      intro!: safely_draft services.safe_clock safely_correlated services.safe_commits)

section \<open>Callbacks\<close>

lemma upholds_ingest: "upholds (ingest_transaction c s e d corr now)"
proof -
  have "upholds (record_delivery x)" for x
    by (rule upholdsI) (auto simp: record_delivery_def split: if_splits)
  then show ?thesis
    by (auto simp: ingest_transaction_def split: option.splits intro!: services.commits_bind)
qed

lemma safely_ingest: "safely (ingest c crypto input)"
  by (auto simp: ingest_def split: option.splits
      intro!: services.safe_read services.safe_clock safely_identified services.safe_commits
        upholds_ingest)

text \<open>An acknowledgement never moves a notification except out of SENT.\<close>

lemma resolve_status_cases:
  "resolve_status s m = s \<or> (s = SENT \<and> (resolve_status s m = FAILED \<or> resolve_status s m = DELIVERED))"
  by (auto simp: resolve_status_def)

lemma acknowledgement_keeps_claim:
  "keeps_claim_in_step s (resolve_status s m) (acknowledgement_changes n m' now) now"
  by (auto simp: keeps_claim_in_step_def claim_matches_status_def transition_row_def
      apply_changes_def acknowledgement_changes_def resolve_status_def)

lemma upholds_acknowledgement: "upholds (acknowledgement_transaction c n m r now)"
  by (auto simp: acknowledgement_transaction_def Let_def
      intro!: services.commits_bind upholds_apply_transition acknowledgement_keeps_claim)

lemma upholds_claim_for_processing: "upholds (claim_for_processing d)"
  by (rule upholdsI) (auto simp: claim_for_processing_def Let_def)

lemma safely_doubt: "safely (doubt_reported_limits sid)"
  by (rule safe_weaken [OF services.safe_doubt_reported_limits]) simp

lemma safely_apply_acknowledgement: "safely (apply_acknowledgement c d m a u)"
  by (auto simp: safely_doubt apply_acknowledgement_def report_unmatched_def record_acknowledgement_def Let_def
      split: option.splits
      intro!: safe_bind [where Q = anything] services.safe_read services.safe_clock
        services.safe_commits upholds_acknowledgement)

lemma safely_record_limits: "safely (record_limits c sid cur l b)"
  by (rule safe_weaken [OF services.safe_record_limits]) simp

lemma safely_apply_session_status: "safely (apply_session_status c d st ph pn l)"
  by (auto simp: apply_session_status_def safely_record_limits split: option.splits
      intro!: safe_bind [where Q = anything] services.safe_read services.safe_clock
        services.safe_record_status)

lemma safely_process: "safely (process c d)"
  by (auto simp: process_def apply_event_def safely_apply_acknowledgement
      safely_apply_session_status mark_processed_def
      split: option.splits provider_event.splits
      intro!: services.safe_commits upholds_claim_for_processing safe_bind [where Q = anything]
        services.safe_clock safe_writing)

section \<open>Queries and cancelling\<close>

lemma upholds_query: "upholds (query_read_or_fail a i)"
  by (rule upholdsI) (auto simp: query_read_or_fail_def split: option.splits)

lemma cancelled_keeps_claim:
  "s \<noteq> PROCESSING \<Longrightarrow> keeps_claim_in_step s CANCELLED [SetCancelledAt x] now"
  by (auto simp: keeps_claim_in_step_def claim_matches_status_def transition_row_def
      apply_changes_def)

lemma safely_cancel: "safely (cancel c corr a i)"
  by (auto simp: cancel_def cancel_transaction_def is_cancellable_iff split: option.splits
      intro!: services.safe_commits upholds_query services.safe_clock services.commits_bind
        upholds_apply_transition cancelled_keeps_claim)

lemma upholds_cancel_waiting: "upholds (repository_cancel_waiting c a s now)"
proof (rule upholdsI)
  fix w r w' assume w: "sound w" and t: "repository_cancel_waiting c a s now w = Inr (r, w')"
  let ?p = "\<lambda>r. n_application_id r = a \<and> n_status r \<in> {QUEUED, RETRYING}
            \<and> (s = None \<or> Some (n_session_id r) = s) \<and> \<not> c_locked_elsewhere c w (n_id r)"
  let ?f = "\<lambda>r. r\<lparr>n_status := CANCELLED, n_cancelled_at := Some now,
                     n_updated_at := of_date now, n_next_attempt_at := None\<rparr>"
  have "upholds (update_notifications ?p ?f)"
    by (rule upholds_update) (auto simp: orderly_def row_evolves_def claim_matches_status_def
        intro: reaches_step)
  moreover from t obtain rs where "update_notifications ?p ?f w = Inr (rs, w')"
    by (auto simp: repository_cancel_waiting_def Let_def tx_return_def elim!: tx_bind_InrE)
  ultimately show "sound w' \<and> evolves w w'"
    using w by (blast dest: commitsD(1))
qed

lemma safely_cancel_waiting: "safely (cancel_waiting c corr a s)"
  by (auto simp: cancel_waiting_def cancel_waiting_transaction_def cancelled_event_def
      append_events_def upholds_cancel_waiting
      intro!: services.safe_read services.safe_clock services.safe_commits services.commits_bind
        upholds_for_each)

lemma safely_read: "safely (get_or_fail a i)" "safely (query_list_events a i)"
    "safely (query_list cc a q)"
  by (auto simp: get_or_fail_def query_list_events_def query_list_def upholds_query
      split: sum.splits
      intro!: services.safe_commits services.commits_bind services.safe_read)

end
