(* ===== verification/Callback_Properties.thy ===== *)
theory Callback_Properties
  imports Service_Safety
begin

text \<open>
  What the handling of callbacks promises: only an authentic callback is filed, each is filed once
  and processed once, and a delivery receipt moves a notification exactly as the abstract machine
  of acknowledgements does.
\<close>

section \<open>Filing\<close>

text \<open>The specification of authenticity: the session exists and its key signs the body.\<close>

definition authentic :: "webhook_crypto \<Rightarrow> ingest_input \<Rightarrow> world \<Rightarrow> bool" where
  "authentic crypto input w =
     (case find_session_without_tenant_scope (ii_session_id input) w of
        None \<Rightarrow> False
      | Some s \<Rightarrow>
          (case (ii_signature input, wc_decrypt crypto (s_webhook_signing_key_ciphertext s)) of
             (Some signature, Some key) \<Rightarrow>
               signature \<noteq> [] \<and> signature = wc_hmac_hex crypto key (ii_raw_body input)
           | _ \<Rightarrow> False))"

definition delivery_key :: "delivery \<Rightarrow> uuid \<times> string" where
  "delivery_key d = (d_session_id d, d_provider_event_id d)"

lemma found_session_exists:
  assumes "find_session_without_tenant_scope i w = Some s"
  shows "session_exists (s_application_id s) (s_id s) w" and "s_id s = i"
  using sql_first_SomeD [OF assms [unfolded find_session_without_tenant_scope_def]]
  by (auto simp: session_exists_def list_ex_iff is_session_def)

text \<open>The jobs on file after one was offered; for a job without a key a queue has no ground to refuse.\<close>

definition filed_job :: "config \<Rightarrow> job \<Rightarrow> job list \<Rightarrow> job list \<Rightarrow> bool" where
  "filed_job c j jobs jobs' =
     (jobs' \<in> {jobs, jobs @ [j]} \<and> (refuses_duplicates_only c \<longrightarrow> jobs' = jobs @ [j]))"

lemma enqueue_without_key:
  assumes "j_singleton_key j = None"
  shows "\<exists>answer js. enqueue_in_transaction c j w = Inr (answer, w\<lparr>w_jobs := js\<rparr>) \<and> filed_job c j (w_jobs w) js"
proof (cases "c_boss_send c w j")
  case None
  with assms refuses_duplicates_onlyD(2) [of c w j] have "filed_job c j (w_jobs w) (w_jobs w)"
    by (auto simp: filed_job_def)
  with None show ?thesis by (intro exI [of _ None] exI [of _ "w_jobs w"]) (simp add: enqueue_in_transaction_def)
next
  case (Some i)
  then show ?thesis
    by (intro exI [of _ "Some i"] exI [of _ "w_jobs w @ [j]"]) (simp add: enqueue_in_transaction_def filed_job_def)
qed

lemma ingest_transaction_effect:
  assumes "session_exists (s_application_id s) (s_id s) w"
  shows "\<exists>d js. delivery_key d = (s_id s, we_id e) \<and> d_id d = i \<and> d_processed_at d = None
    \<and> filed_job c (webhook_job corr i) (w_jobs w) js
    \<and> ingest_transaction c s e i corr now w
      = (if delivery_key d \<in> set (map delivery_key (w_deliveries w)) then Inr (None, w)
         else Inr (Some d, w\<lparr>w_deliveries := w_deliveries w @ [d],
                             w_jobs := js\<rparr>))"
proof -
  let ?d = "\<lparr>d_id = i, d_application_id = s_application_id s, d_session_id = s_id s,
        d_provider_event_id = we_id e, d_event_type = we_event e,
        d_provider_session_name = we_session e,
        d_payload = to_stored_payload (we_event e) (we_payload e),
        d_received_at = now, d_processed_at = None, d_processing_attempts = 0,
        d_outcome = None, d_outcome_detail = None\<rparr>"
  have "record_delivery ?d w
      = (if delivery_key ?d \<in> set (map delivery_key (w_deliveries w)) then Inr (None, w)
         else Inr (Some ?d, w\<lparr>w_deliveries := w_deliveries w @ [?d]\<rparr>))"
    using assms by (auto simp: record_delivery_def delivery_key_def list_ex_iff image_iff) metis+
  moreover obtain answer js where "enqueue_in_transaction c (webhook_job corr i) (w\<lparr>w_deliveries := w_deliveries w @ [?d]\<rparr>)
      = Inr (answer, w\<lparr>w_deliveries := w_deliveries w @ [?d], w_jobs := js\<rparr>)"
    and "filed_job c (webhook_job corr i) (w_jobs w) js"
    using enqueue_without_key [of "webhook_job corr i" c "w\<lparr>w_deliveries := w_deliveries w @ [?d]\<rparr>"]
    by (auto simp: webhook_job_def)
  ultimately show ?thesis
    by (intro exI [of _ ?d] exI [of _ js]) (auto simp: ingest_transaction_def tx_bind_def tx_return_def
        delivery_key_def)
qed

text \<open>
  C21: A callback is filed at most once and only when it is authentic. If the service accepts it,
  its signature is the one the session's key gives, and exactly one delivery that was not there
  before and, on a queue that refuses duplicates only, one job for it are added; a callback seen before
  adds neither; a rejected or malformed one changes nothing; and the service never throws.
\<close>

theorem callback_is_filed_once:
  assumes "distinct (map delivery_key (w_deliveries w))"
  shows "case run (ingest c crypto input) env w of
      (Threw e, w') \<Rightarrow> False
    | (Returned result, w') \<Rightarrow>
        distinct (map delivery_key (w_deliveries w'))
        \<and> (case result of
             Accepted \<Rightarrow> authentic crypto input w \<and> (\<exists>d. d_session_id d = ii_session_id input
               \<and> d_processed_at d = None \<and> w_deliveries w' = w_deliveries w @ [d]
               \<and> filed_job c (webhook_job (ii_correlation_id input) (d_id d)) (w_jobs w) (w_jobs w'))
           | Duplicate \<Rightarrow> authentic crypto input w
               \<and> w_deliveries w' = w_deliveries w \<and> w_jobs w' = w_jobs w
           | _ \<Rightarrow> w' = w)"
proof (cases "find_session_without_tenant_scope (ii_session_id input) w")
  case None
  then show ?thesis by (simp add: ingest_def step_simps assms)
next
  case (Some s)
  have s: "session_exists (s_application_id s) (s_id s) (w\<lparr>w_next_identifier := j\<rparr>)"
    and si: "s_id s = ii_session_id input" for j
    using found_session_exists [OF Some] by (auto simp: session_exists_def)
  show ?thesis
  proof (cases "authentic crypto input w \<and>
      is_webhook_timestamp_acceptable (ii_timestamp_header input) (w_clock w)
        (c_webhook_tolerance_seconds c)")
    case False
    with Some assms show ?thesis
      by (auto simp: ingest_def step_simps authentic_def is_webhook_signature_valid_def
          split: option.splits)
  next
    case True
    then obtain signature key where k: "ii_signature input = Some signature" "signature \<noteq> []"
      "wc_decrypt crypto (s_webhook_signing_key_ciphertext s) = Some key"
      "signature = wc_hmac_hex crypto key (ii_raw_body input)"
      using Some by (auto simp: authentic_def split: option.splits)
    show ?thesis
    proof (cases "parse_webhook_envelope (wc_parse_json crypto (ii_raw_body input))")
      case None
      with True Some k assms show ?thesis
        by (simp add: ingest_def step_simps is_webhook_signature_valid_def)
    next
      case (Some e)
      let ?i = "c_identifier c (w_next_identifier w)"
      let ?w = "w\<lparr>w_next_identifier := Suc (w_next_identifier w)\<rparr>"
      obtain d js where d: "delivery_key d = (s_id s, we_id e)" "d_id d = ?i" "d_processed_at d = None"
        "filed_job c (webhook_job (ii_correlation_id input) ?i) (w_jobs ?w) js"
        and t: "ingest_transaction c s e ?i (ii_correlation_id input) (w_clock w) ?w
          = (if delivery_key d \<in> set (map delivery_key (w_deliveries ?w)) then Inr (None, ?w)
             else Inr (Some d, ?w\<lparr>w_deliveries := w_deliveries ?w @ [d],
                 w_jobs := js\<rparr>))"
        using ingest_transaction_effect [OF s] by meson
      with True Some k \<open>find_session_without_tenant_scope _ w = Some s\<close> assms si show ?thesis
        by (auto simp: ingest_def step_simps is_webhook_signature_valid_def delivery_key_def)
    qed
  qed
qed

text \<open>
  A callback that is not authentic is rejected and leaves no trace: an unknown session, a missing
  or wrong signature and an unreadable key all end the same way.
\<close>

theorem unauthentic_callback_changes_nothing:
  assumes "\<not> authentic crypto input w"
  shows "\<exists>reason. run (ingest c crypto input) env w = (Returned (Rejected reason), w)"
proof (cases "find_session_without_tenant_scope (ii_session_id input) w")
  case None
  then show ?thesis by (simp add: ingest_def step_simps)
next
  case (Some s)
  show ?thesis
  proof (cases "ii_signature input")
    case None
    with Some show ?thesis by (simp add: ingest_def step_simps)
  next
    case sig: (Some signature)
    show ?thesis
    proof (cases "wc_decrypt crypto (s_webhook_signing_key_ciphertext s)")
      case None
      with Some sig show ?thesis by (simp add: ingest_def step_simps)
    next
      case key: (Some key)
      with Some sig assms have "signature = [] \<or> signature \<noteq> wc_hmac_hex crypto key (ii_raw_body input)"
        by (simp add: authentic_def)
      with Some sig key show ?thesis
        by (auto simp: ingest_def step_simps is_webhook_signature_valid_def)
    qed
  qed
qed

section \<open>Processing once\<close>

lemma mark_processed_marks:
  "d \<in> set (w_deliveries (mark_processed i u v t w)) \<Longrightarrow> d_id d = i \<Longrightarrow> d_processed_at d \<noteq> None"
  by (simp add: mark_processed_def sql_update_def, erule imageE, simp split: if_splits)

lemma processed_deliveries_are_marked:
  assumes "run (process c i) env w = (Returned r, w')" and "d \<in> set (w_deliveries w')" and "d_id d = i"
  shows "d_processed_at d \<noteq> None"
proof (cases "\<exists>x \<in> set (w_deliveries w). d_id x = i \<and> d_processed_at x = None")
  case False
  then have "claim_for_processing i w = Inr (None, w)"
    by (simp add: claim_for_processing_def Let_def sql_returning_None [THEN iffD2] sql_update_none)
  with assms False show ?thesis
    by (auto simp: process_def step_simps)
next
  case True
  then have "sql_returning (\<lambda>d. d_id d = i \<and> d_processed_at d = None)
      (\<lambda>d. d\<lparr>d_processing_attempts := d_processing_attempts d + 1\<rparr>) (w_deliveries w) \<noteq> None"
    by (simp only: sql_returning_None) blast
  then obtain x w1 where "claim_for_processing i w = Inr (Some x, w1)"
    by (auto simp: claim_for_processing_def Let_def)
  with assms(1) obtain t u v w2 where "w' = mark_processed i u v t w2"
    by (auto simp: process_def step_simps run_bind split: prod.splits outcome.splits)
  with assms(2,3) show ?thesis
    using mark_processed_marks by blast
qed

text \<open>
  C22: A callback is processed once. When processing has returned, processing it again, with any
  provider and at any time, answers that it was already processed and changes nothing.
\<close>

theorem callback_is_processed_once:
  assumes "run (process c i) env w = (Returned r, w')"
  shows "run (process c' i) env' w' = (Returned (IGNORED, Some ''already processed''), w')"
proof -
  have "\<forall>d \<in> set (w_deliveries w'). \<not> (d_id d = i \<and> d_processed_at d = None)"
    using processed_deliveries_are_marked [OF assms] by blast
  then have "claim_for_processing i w' = Inr (None, w')"
    by (simp add: claim_for_processing_def Let_def sql_returning_None [THEN iffD2] sql_update_none)
  then show ?thesis
    by (simp add: process_def step_simps)
qed

section \<open>Delivery receipts\<close>

text \<open>
  The abstract machine of receipts: the status a notification shows and the highest
  acknowledgement seen. A receipt raises the acknowledgement, an error is final, and only a SENT
  notification changes status.
\<close>

type_synonym receipts = "notification_status \<times> delivery_ack"

definition receipt :: "delivery_ack \<Rightarrow> receipts \<Rightarrow> receipts" where
  "receipt incoming r =
     (let highest = (if AckError \<in> {snd r, incoming} then AckError else max (snd r) incoming)
      in (if fst r \<noteq> SENT then fst r
          else if highest = AckError then FAILED
          else if highest \<in> {AckDevice, AckRead, AckPlayed} then DELIVERED
          else SENT, highest))"

definition receipts_of :: "notification \<Rightarrow> receipts" where
  "receipts_of n = (n_status n, stored_acknowledgement n)"

text \<open>A SENT notification has no receipt yet that decides its status.\<close>

definition undecided_while_sent :: "notification \<Rightarrow> bool" where
  "undecided_while_sent n =
     (n_status n = SENT \<longrightarrow> stored_acknowledgement n \<in> {AckPending, AckServer})"

lemma receipt_is_the_merge:
  "receipt a (s, current) =
     (resolve_status s (merge_acknowledgements current a), merge_acknowledgements current a)"
  by (auto simp: receipt_def resolve_status_def merge_acknowledgements_def Let_def)

lemma ack_of_value: "-1 \<le> v \<Longrightarrow> v \<le> 4 \<Longrightarrow> \<exists>a. v = ack_value a"
proof -
  assume "-1 \<le> v" "v \<le> 4"
  then have "v \<in> {-1, 0, 1, 2, 3, 4}" by auto
  then show ?thesis
    by (elim insertE) (metis ack_value.simps | simp)+
qed

lemma stored_acknowledgement_value:
  "check_notification n \<Longrightarrow> ack_value (stored_acknowledgement n) = n_provider_acknowledgement n"
  using ack_of_value [of "n_provider_acknowledgement n"]
  by (auto simp: check_notification_def stored_acknowledgement_def)

lemma resolve_status_legal: "enforce_status_transition s (resolve_status s a)"
  by (auto simp: enforce_status_transition_def resolve_status_def)

lemma acknowledgement_row [simp]:
  "n_provider_message_id (transition_row s (acknowledgement_changes n m now) now r) = n_provider_message_id r"
  "n_provider_acknowledgement (transition_row s (acknowledgement_changes n m now) now r) = ack_value m"
  "n_next_attempt_at (transition_row s (acknowledgement_changes n m now) now r) = n_next_attempt_at r"
  by (simp_all add: transition_row_def apply_changes_def acknowledgement_changes_def)

lemma acknowledgement_changes_receipts:
  assumes "n_status n' = resolve_status (n_status n) m"
    and "n_provider_acknowledgement n' = ack_value m"
    and "m = merge_acknowledgements (stored_acknowledgement n) a"
  shows "receipts_of n' = receipt a (receipts_of n)" and "undecided_while_sent n'"
proof -
  have m: "stored_acknowledgement n' = m"
    using assms(2) by (simp add: stored_acknowledgement_def)
  then show "receipts_of n' = receipt a (receipts_of n)"
    using assms(1,3) by (simp add: receipts_of_def receipt_is_the_merge)
  show "undecided_while_sent n'"
    using assms(1) m by (cases m) (auto simp: undecided_while_sent_def resolve_status_def)
qed

lemma acknowledgement_transaction_effect:
  assumes "sound w" and n: "n \<in> set (w_notifications w)" and "n_status n \<in> {SENT, DELIVERED}
      \<longrightarrow> n_provider_message_id n \<noteq> None"
  shows "\<exists>w'. acknowledgement_transaction c n m r now w = Inr ((), w')
    \<and> w_notifications w' = sql_update (\<lambda>x. n_id x = n_id n)
        (transition_row (resolve_status (n_status n) m) (acknowledgement_changes n m now) now)
        (w_notifications w)"
proof -
  let ?f = "transition_row (resolve_status (n_status n) m) (acknowledgement_changes n m now) now"
  have "check_notification (?f n)"
    using assms(1) n assms(3) ack_value_bounds [of m]
    by (auto simp: sound_def check_notification_def resolve_status_def)
  note moved = apply_transition_effect [OF assms(1) n refl resolve_status_legal this acknowledgement_row(1)]
  have "notification_exists (n_application_id n) (n_id n)
      (w\<lparr>w_notifications := sql_update (\<lambda>x. n_id x = n_id n) ?f (w_notifications w), w_next_identifier := j\<rparr>)" for j
    using sql_update_image [OF n, of "\<lambda>x. n_id x = n_id n" ?f]
    by (auto simp: notification_exists_def list_ex_iff is_notification_def intro!: bexI [of _ "?f n"])
  with moved show ?thesis
    by (simp add: acknowledgement_transaction_def Let_def tx_bind_def tx_return_def
        new_identifier_def append_event_def)
qed

lemma record_acknowledgement_effect:
  assumes "sound w" and n: "n \<in> set (w_notifications w)" and "n_provider_message_id n \<noteq> None"
    and m: "m = merge_acknowledgements (stored_acknowledgement n) a"
  shows "\<exists>w'. run (record_acknowledgement c n m r) env w = (Returned (), w')
    \<and> (\<exists>n' \<in> set (w_notifications w'). n_id n' = n_id n
         \<and> receipts_of n' = receipt a (receipts_of n) \<and> undecided_while_sent n')
    \<and> (\<forall>x \<in> set (w_notifications w). n_id x \<noteq> n_id n \<longrightarrow> x \<in> set (w_notifications w'))"
proof -
  let ?f = "transition_row (resolve_status (n_status n) m) (acknowledgement_changes n m (w_clock w)) (w_clock w)"
  obtain w' where t: "acknowledgement_transaction c n m r (w_clock w) w = Inr ((), w')"
    and rows: "w_notifications w' = sql_update (\<lambda>x. n_id x = n_id n) ?f (w_notifications w)"
    using acknowledgement_transaction_effect [OF assms(1) n, of c m r "w_clock w"] assms(3) by blast
  have "?f n \<in> set (w_notifications w')"
    using sql_update_image [OF n, of "\<lambda>x. n_id x = n_id n" ?f] by (simp add: rows)
  moreover have "receipts_of (?f n) = receipt a (receipts_of n)" and "undecided_while_sent (?f n)"
    by (rule acknowledgement_changes_receipts [OF _ _ m]; simp)+
  moreover have "x \<in> set (w_notifications w')" if "x \<in> set (w_notifications w)" "n_id x \<noteq> n_id n" for x
    using sql_update_image [OF that(1), of "\<lambda>x. n_id x = n_id n" ?f] that(2) by (simp add: rows)
  ultimately show ?thesis
    using t by (auto simp: record_acknowledgement_def step_simps intro!: bexI [of _ "?f n"])
qed

text \<open>
  C20: Receipts refine the abstract machine. Handling a delivery receipt of one of our messages
  always returns, moves the notification it names exactly as the machine of receipts does -
  acknowledgements only rise, an error is final, DELIVERED and FAILED are entered from SENT alone -
  keeps the refinement's invariant, and touches no other notification.
\<close>

theorem receipts_follow_the_machine:
  assumes "sound w" and "find_by_provider_message_id (d_session_id d) message_id w = Some n"
    and "undecided_while_sent n"
  shows "\<exists>r w'. run (apply_acknowledgement c d message_id a True) env w = (Returned r, w')
    \<and> (\<exists>n' \<in> set (w_notifications w'). n_id n' = n_id n
         \<and> receipts_of n' = receipt a (receipts_of n) \<and> undecided_while_sent n')
    \<and> (\<forall>x \<in> set (w_notifications w). n_id x \<noteq> n_id n \<longrightarrow> x \<in> set (w_notifications w'))"
proof -
  define w0 where "w0 = (if a = AckError then invalidate_account_limits (d_session_id d) w else w)"
  have same: "w_notifications w0 = w_notifications w" and s: "sound w0"
    using assms(1) by (simp_all add: w0_def invalidate_account_limits_def update_sessions_def)
  have n: "n \<in> set (w_notifications w)" "n_provider_message_id n \<noteq> None"
    using sql_first_SomeD [OF assms(2) [unfolded find_by_provider_message_id_def]] by auto
  have check: "check_notification n"
    using assms(1) n by (auto simp: sound_def)
  let ?m = "merge_acknowledgements (stored_acknowledgement n) a"
  have found: "find_by_provider_message_id (d_session_id d) message_id w0 = Some n"
    using assms(2) same by (simp add: find_by_provider_message_id_def)
  have run: "run (apply_acknowledgement c d message_id a True) env w =
      (if ?m = stored_acknowledgement n
       then (Returned (IGNORED, Some (''already at '' @ describe_acknowledgement (stored_acknowledgement n))), w0)
       else run (bind (record_acknowledgement c n ?m a)
              (\<lambda>_. Done (APPLIED, Some (describe_acknowledgement ?m)))) env w0)"
    using found stored_acknowledgement_value [OF check]
    by (auto simp: apply_acknowledgement_def doubt_reported_limits_def step_simps w0_def Let_def)
  show ?thesis
  proof (cases "?m = stored_acknowledgement n")
    case True
    then have "receipts_of n = receipt a (receipts_of n)"
      using assms(3)
      by (cases "stored_acknowledgement n")
        (auto simp: receipts_of_def receipt_is_the_merge resolve_status_def undecided_while_sent_def)
    with True run n same assms(3) show ?thesis by auto
  next
    case False
    obtain w' where "run (record_acknowledgement c n ?m a) env w0 = (Returned (), w')"
      and "\<exists>n' \<in> set (w_notifications w'). n_id n' = n_id n
         \<and> receipts_of n' = receipt a (receipts_of n) \<and> undecided_while_sent n'"
      and "\<forall>x \<in> set (w_notifications w0). n_id x \<noteq> n_id n \<longrightarrow> x \<in> set (w_notifications w')"
      using record_acknowledgement_effect [OF s, of n ?m a c a env] n same by auto
    with False run same show ?thesis
      by (simp add: run_bind)
  qed
qed

section \<open>Examples\<close>

definition example_crypto :: webhook_crypto where
  "example_crypto =
     \<lparr>wc_hmac_hex = (\<lambda>key body. key @ body), wc_decrypt = (\<lambda>sealed. Some ''key''),
      wc_parse_json = (\<lambda>body. Some (JObj [(''id'', JStr ''evt-1''), (''session'', JStr ''wnp-s1''),
        (''event'', JStr ''message.ack''), (''payload'', JObj [(''id'', JStr ''true_5511_msg-1''),
          (''fromMe'', JBool True), (''ack'', JNum 2)])]))\<rparr>"

definition example_callback :: ingest_input where
  "example_callback =
     \<lparr>ii_session_id = ''s1'', ii_raw_body = ''body'', ii_signature = Some ''keybody'',
      ii_timestamp_header = None, ii_correlation_id = ''corr''\<rparr>"

definition example_delivery :: delivery where
  "example_delivery =
     \<lparr>d_id = ''d1'', d_application_id = ''app'', d_session_id = ''s1'', d_provider_event_id = ''evt-1'',
      d_event_type = ''presence.update'', d_provider_session_name = ''wnp-s1'', d_payload = [],
      d_received_at = 0, d_processed_at = None, d_processing_attempts = 0, d_outcome = None,
      d_outcome_detail = None\<rparr>"

definition sent_world :: world where
  "sent_world = example_world\<lparr>w_notifications :=
     [example_notification\<lparr>n_status := SENT, n_provider_message_id := Some ''msg-1''\<rparr>]\<rparr>"

lemma sent_world_sound: "sound sent_world"
  by (simp add: sent_world_def sound_def unique_message_ids_def check_notification_def
      claim_matches_status_def ledger_matches_def ledger_numbers_def example_notification_def)

lemma example_callback_accepted:
  "fst (run (ingest example_config example_crypto example_callback) example_env example_world) = Returned Accepted"
  by code_simp

theorem callback_is_filed_once_witness:
  "\<exists>d w'. run (ingest example_config example_crypto example_callback) example_env example_world
       = (Returned Accepted, w')
     \<and> w_deliveries w' = [d] \<and> w_jobs w' = [webhook_job (ii_correlation_id example_callback) (d_id d)]"
proof -
  obtain w' where r: "run (ingest example_config example_crypto example_callback) example_env example_world
      = (Returned Accepted, w')"
    using example_callback_accepted by (cases "run (ingest example_config example_crypto example_callback)
      example_env example_world") auto
  with callback_is_filed_once [where w = example_world and c = example_config
      and crypto = example_crypto and input = example_callback and env = example_env]
  show ?thesis
    by (simp add: example_world_def filed_job_def example_queue_keeps_the_rule) blast
qed

theorem unauthentic_callback_changes_nothing_witness:
  "\<exists>reason. run (ingest example_config example_crypto (example_callback\<lparr>ii_signature := Some ''forged''\<rparr>))
     example_env example_world = (Returned (Rejected reason), example_world)"
  by (rule unauthentic_callback_changes_nothing)
    (simp add: authentic_def find_session_without_tenant_scope_def sql_first_def example_callback_def
      example_crypto_def is_session_def example_session_def)

theorem callback_is_processed_once_witness:
  "run (process example_config ''d1'') example_env
     (snd (run (process example_config ''d1'') example_env
        (example_world\<lparr>w_deliveries := [example_delivery]\<rparr>)))
   = (Returned (IGNORED, Some ''already processed''),
      snd (run (process example_config ''d1'') example_env
        (example_world\<lparr>w_deliveries := [example_delivery]\<rparr>)))"
proof (rule callback_is_processed_once)
  show "run (process example_config ''d1'') example_env
        (example_world\<lparr>w_deliveries := [example_delivery]\<rparr>)
      = (Returned (IGNORED, Some ''unsupported event presence.update''),
         snd (run (process example_config ''d1'') example_env
           (example_world\<lparr>w_deliveries := [example_delivery]\<rparr>)))"
    by (simp add: process_def step_simps claim_for_processing_def sql_returning_def
        example_delivery_def apply_event_def to_provider_event_def)
qed

theorem receipts_follow_the_machine_witness:
  "\<exists>r w'. run (apply_acknowledgement example_config example_delivery ''msg-1'' AckDevice True)
       example_env sent_world = (Returned r, w')
     \<and> (\<exists>n' \<in> set (w_notifications w'). n_id n' = ''n1'' \<and> receipts_of n' = (DELIVERED, AckDevice))"
proof -
  let ?n = "example_notification\<lparr>n_status := SENT, n_provider_message_id := Some ''msg-1''\<rparr>"
  have stored: "stored_acknowledgement ?n = AckPending"
    by (simp add: stored_acknowledgement_def example_notification_def to_delivery_acknowledgement_def
        is_delivery_acknowledgement_def all_acks_def)
  then have "undecided_while_sent ?n" by (simp add: undecided_while_sent_def)
  moreover have "find_by_provider_message_id (d_session_id example_delivery) ''msg-1'' sent_world = Some ?n"
    by (simp add: find_by_provider_message_id_def sql_first_def sent_world_def example_delivery_def
        example_notification_def)
  moreover have "receipt AckDevice (receipts_of ?n) = (DELIVERED, AckDevice)"
    using stored by (simp add: receipt_def receipts_of_def less_eq_delivery_ack_def max_def)
  ultimately show ?thesis
    using receipts_follow_the_machine [OF sent_world_sound, where d = example_delivery
        and message_id = "''msg-1''" and n = ?n and a = AckDevice and c = example_config
        and env = example_env] by fastforce
qed

end
