(* ===== verification/Session_Service.thy ===== *)
theory Session_Service
  imports Callback_Properties
begin

text \<open>
  \<open>packages/composition/src/whatsapp/whatsapp-session.service.ts\<close>: creating, pairing, starting,
  stopping, unpairing and deleting WhatsApp connections, in the platform's tables and at the
  provider. Random bytes and the cipher of the signing keys are parameters.
\<close>

section \<open>The service\<close>

record session_runtime =
  sr_webhook_public_url :: string
  sr_signing_key :: "int \<Rightarrow> string"                 \<comment> \<open>random bytes in hexadecimal\<close>
  sr_encrypt :: "int \<Rightarrow> string \<Rightarrow> string"           \<comment> \<open>initialisation vector, plain text\<close>
  sr_decrypt :: "string \<Rightarrow> string option"          \<comment> \<open>\<^term>\<open>None\<close>: it throws\<close>

definition provider_not_found :: int where
  "provider_not_found = 404"

definition to_provider_session_name :: "uuid \<Rightarrow> string" where
  "to_provider_session_name session_id = ''wnp-'' @ session_id"

definition to_webhook_url :: "session_runtime \<Rightarrow> uuid \<Rightarrow> string" where
  "to_webhook_url sr session_id =
     rev (dropWhile (\<lambda>c. c = CHR ''/'') (rev (sr_webhook_public_url sr)))
     @ ''/webhooks/whatsapp/'' @ session_id"

definition session_not_found :: exn where
  "session_not_found =
     DomainError ''whatsapp_session_not_found'' ''That WhatsApp connection does not exist.''"

definition provider_unavailable :: "string \<Rightarrow> provider_failure \<Rightarrow> exn" where
  "provider_unavailable what failure =
     DomainError ''whatsapp_provider_unavailable''
       (''The WhatsApp provider '' @ what @ '': '' @ f_message failure)"

definition is_not_found :: "provider_failure \<Rightarrow> bool" where
  "is_not_found failure = (f_provider_status_code failure = Some provider_not_found)"

definition get_session_or_fail :: "uuid \<Rightarrow> uuid \<Rightarrow> (session \<Rightarrow> 'a prog) \<Rightarrow> 'a prog" where
  "get_session_or_fail application_id session_id k =
     reading (find_session application_id session_id) (\<lambda>found.
     case found of None \<Rightarrow> Raise session_not_found | Some s \<Rightarrow> k s)"

definition record_and_return :: "uuid \<Rightarrow> uuid \<Rightarrow> provider_session_status \<Rightarrow> session prog" where
  "record_and_return application_id session_id status =
     get_session_or_fail application_id session_id (\<lambda>existing.
     clock_now (\<lambda>now.
     writing (record_status session_id status (s_phone_number existing) (s_push_name existing) None now)
       (get_session_or_fail application_id session_id Done)))"

definition record_created :: "uuid \<Rightarrow> uuid \<Rightarrow> provider_session \<Rightarrow> session prog" where
  "record_created application_id session_id created =
     clock_now (\<lambda>now.
     writing (record_status session_id (ps_status created) (ps_phone_number created)
                (ps_push_name created) None now)
       (get_session_or_fail application_id session_id Done))"

definition recreate_at_provider :: "session_runtime \<Rightarrow> session \<Rightarrow> session prog" where
  "recreate_at_provider sr r =
     (case sr_decrypt sr (s_webhook_signing_key_ciphertext r) of
        None \<Rightarrow> Raise (ThrownError ''Unsupported state or unable to authenticate data'')
      | Some key \<Rightarrow>
          CreateSession \<lparr>ci_session_name = s_provider_session_name r,
            ci_webhook_url = to_webhook_url sr (s_id r), ci_webhook_signing_key = key,
            ci_start = True\<rparr> (\<lambda>created. case created of
              Failed failure \<Rightarrow> Raise (provider_unavailable ''could not recreate the connection'' failure)
            | Succeeded live \<Rightarrow> record_created (s_application_id r) (s_id r) live))"

record create_connection_input =
  cc_application_id :: uuid
  cc_display_name :: string

definition create_connection ::
  "config \<Rightarrow> session_runtime \<Rightarrow> create_connection_input \<Rightarrow> session prog" where
  "create_connection c sr input =
     next_identifier c (\<lambda>session_id.
     Entropy (\<lambda>bytes.
     Entropy (\<lambda>initialisation_vector.
     let signing_key = sr_signing_key sr bytes
     in atomically (insert_session session_id (cc_application_id input)
            (to_provider_session_name session_id) (cc_display_name input)
            (sr_encrypt sr initialisation_vector signing_key)) (\<lambda>r.
        CreateSession \<lparr>ci_session_name = s_provider_session_name r,
          ci_webhook_url = to_webhook_url sr session_id, ci_webhook_signing_key = signing_key,
          ci_start = True\<rparr> (\<lambda>created. case created of
            Failed failure \<Rightarrow>
              atomically (delete_session (cc_application_id input) session_id) (\<lambda>_.
              Raise (provider_unavailable ''refused to create the connection'' failure))
          | Succeeded live \<Rightarrow> record_created (cc_application_id input) session_id live)))))"

definition list_connections :: "uuid \<Rightarrow> session list prog" where
  "list_connections application_id = reading (list_sessions_for_application application_id) Done"

definition get_connection :: "config \<Rightarrow> uuid \<Rightarrow> uuid \<Rightarrow> session prog" where
  "get_connection c application_id session_id =
     get_session_or_fail application_id session_id (refresh_status c)"

definition not_scannable :: "provider_session_status \<Rightarrow> exn" where
  "not_scannable status =
     DomainError ''whatsapp_session_not_scannable''
       (''This connection is '' @ session_status_name status @ '', so there is no code to scan.'')"

definition get_connection_qr_code :: "config \<Rightarrow> uuid \<Rightarrow> uuid \<Rightarrow> provider_qr_code prog" where
  "get_connection_qr_code c application_id session_id =
     bind (get_connection c application_id session_id) (\<lambda>r.
     if s_status r \<noteq> SCAN_QR_CODE then Raise (not_scannable (s_status r))
     else GetQrCode (s_provider_session_name r) (\<lambda>code. case code of
            Failed failure \<Rightarrow> Raise (provider_unavailable ''could not produce a code'' failure)
          | Succeeded qr \<Rightarrow> Done qr))"

definition start_connection :: "session_runtime \<Rightarrow> uuid \<Rightarrow> uuid \<Rightarrow> session prog" where
  "start_connection sr application_id session_id =
     get_session_or_fail application_id session_id (\<lambda>r.
     StartSession (s_provider_session_name r) (\<lambda>started. case started of
       Failed failure \<Rightarrow>
         if is_not_found failure then recreate_at_provider sr r
         else Raise (provider_unavailable ''could not start the connection'' failure)
     | Succeeded live \<Rightarrow> record_and_return application_id session_id (ps_status live)))"

definition stop_connection :: "uuid \<Rightarrow> uuid \<Rightarrow> session prog" where
  "stop_connection application_id session_id =
     get_session_or_fail application_id session_id (\<lambda>r.
     StopSession (s_provider_session_name r) (\<lambda>stopped. case stopped of
       Failed failure \<Rightarrow> Raise (provider_unavailable ''could not stop the connection'' failure)
     | Succeeded live \<Rightarrow> record_and_return application_id session_id (ps_status live)))"

definition logout_connection :: "uuid \<Rightarrow> uuid \<Rightarrow> session prog" where
  "logout_connection application_id session_id =
     get_session_or_fail application_id session_id (\<lambda>r.
     LogoutSession (s_provider_session_name r) (\<lambda>logged_out. case logged_out of
       Failed failure \<Rightarrow>
         if is_not_found failure
         then clock_now (\<lambda>now.
           writing (record_status session_id STOPPED (s_phone_number r) (s_push_name r)
                      (Some forgotten_by_provider) now)
             (get_session_or_fail application_id session_id Done))
         else Raise (provider_unavailable ''could not log the connection out'' failure)
     | Succeeded live \<Rightarrow> record_and_return application_id session_id (ps_status live)))"

definition session_in_use :: exn where
  "session_in_use = DomainError ''whatsapp_session_in_use''
     ''Notifications were queued against this connection, and their history keeps it. Unpair it instead, and cancel whatever is still waiting if it should not be sent.''"

definition delete_connection :: "uuid \<Rightarrow> uuid \<Rightarrow> unit prog" where
  "delete_connection application_id session_id =
     get_session_or_fail application_id session_id (\<lambda>r.
     reading (exists_for_session application_id session_id) (\<lambda>in_use.
     if in_use then Raise session_in_use
     else DeleteSession (s_provider_session_name r) (\<lambda>deleted. case deleted of
            Failed failure \<Rightarrow>
              if is_not_found failure
              then atomically (delete_session application_id session_id) (\<lambda>_. Done ())
              else Raise (provider_unavailable ''could not delete the connection'' failure)
          | Succeeded _ \<Rightarrow> atomically (delete_session application_id session_id) (\<lambda>_. Done ()))))"

section \<open>Every operation keeps the tables sound\<close>

text \<open>
  Only deleting removes rows, and only rows of sessions and deliveries: the notifications and their
  ledger stay as they are.
\<close>

lemma upholds_insert_session: "upholds (insert_session i a name display cipher)"
  by (rule upholdsI) (auto simp: insert_session_def Let_def split: if_splits)

lemma upholds_delete_session: "upholds (delete_session a i)"
  by (rule upholdsI) (auto simp: delete_session_def Let_def sound_def evolves_def split: if_splits
      intro!: bexI [of _ r for r])

lemma safely_get_session: "(\<And>s. safely (k s)) \<Longrightarrow> safely (get_session_or_fail a i k)"
  by (auto simp: get_session_or_fail_def split: option.splits intro!: services.safe_read)

lemma safely_record_and_return: "safely (record_and_return a i st)"
  by (auto simp: record_and_return_def intro!: safely_get_session services.safe_clock
      services.safe_record_status)

lemma safely_record_created: "safely (record_created a i live)"
  by (auto simp: record_created_def intro!: safely_get_session services.safe_clock
      services.safe_record_status)

lemma safely_refresh_status: "safely (refresh_status c r)"
  by (rule safe_weaken [OF services.safe_refresh_status]) simp

lemma safely_connections:
  "safely (create_connection c sr input)"
  "safely (list_connections a)"
  "safely (get_connection c a i)"
  "safely (get_connection_qr_code c a i)"
  "safely (start_connection sr a i)"
  "safely (stop_connection a i)"
  "safely (logout_connection a i)"
  "safely (delete_connection a i)"
  by (auto simp: create_connection_def list_connections_def get_connection_def
      get_connection_qr_code_def start_connection_def recreate_at_provider_def stop_connection_def
      logout_connection_def delete_connection_def Let_def safely_record_and_return
      safely_record_created safely_refresh_status
      split: provider_result.splits option.splits
      intro!: safely_identified safely_get_session services.safe_read services.safe_clock
        services.safe_commits upholds_insert_session upholds_delete_session
        services.safe_record_status safe_bind [where Q = anything])

section \<open>A connection that was used is kept\<close>

lemma delete_unused_session:
  assumes "\<not> exists_for_session a i w"
  shows "delete_session a i w = Inr (list_ex (\<lambda>s. s_id s = i \<and> s_application_id s = a) (w_sessions w),
    w\<lparr>w_sessions := filter (\<lambda>s. \<not> (s_id s = i \<and> s_application_id s = a)) (w_sessions w),
      w_deliveries := filter (\<lambda>d. \<not> list_ex (\<lambda>s. s_id s = i \<and> s_application_id s = a
         \<and> d_session_id d = s_id s) (w_sessions w)) (w_deliveries w)\<rparr>)"
  using assms
  by (auto simp: delete_session_def exists_for_session_def sql_first_None list_ex_iff Let_def)

lemma after_call_kept [simp]:
  "exists_for_session a i (after_call env w) = exists_for_session a i w"
  "w_sessions (after_call env w) = w_sessions w"
  "w_notifications (after_call env w) = w_notifications w"
  "w_provider_calls (after_call env w) = Suc (w_provider_calls w)"
  by (simp_all add: exists_for_session_def after_call_def)

text \<open>
  A connection notifications were queued against is kept. Deleting it is refused before the
  provider is asked, with nothing changed; and when a connection does go, no notification referred
  to it, the provider had deleted or forgotten its session, and only the rows of that connection
  and its callbacks went with it.
\<close>

theorem used_connections_are_kept:
  assumes found: "find_session a i w = Some s"
  shows "(exists_for_session a i w \<longrightarrow>
           run (delete_connection a i) env w = (Threw session_in_use, w))
    \<and> (find_session a i (snd (run (delete_connection a i) env w)) = None \<longrightarrow>
         fst (run (delete_connection a i) env w) = Returned ()
         \<and> \<not> exists_for_session a i w
         \<and> (case env_delete_session env (w_provider_calls w) (s_provider_session_name s) of
              Succeeded _ \<Rightarrow> True | Failed f \<Rightarrow> f_provider_status_code f = Some 404)
         \<and> w_notifications (snd (run (delete_connection a i) env w)) = w_notifications w
         \<and> (\<forall>r \<in> set (w_sessions w). s_id r \<noteq> i \<or> s_application_id r \<noteq> a \<longrightarrow>
              r \<in> set (w_sessions (snd (run (delete_connection a i) env w)))))"
proof (cases "exists_for_session a i w")
  case True
  then show ?thesis
    using found by (simp add: delete_connection_def get_session_or_fail_def step_simps)
next
  case False
  define rows where "rows = filter (\<lambda>s. \<not> (s_id s = i \<and> s_application_id s = a)) (w_sessions w)"
  obtain w' existed where gone: "delete_session a i (after_call env w) = Inr (existed, w')"
    and w': "w_notifications w' = w_notifications w" "w_sessions w' = rows"
    using False by (simp add: delete_unused_session rows_def)
  have kept: "find_session a i (after_call env w) = Some s"
    using found by (simp add: find_session_def)
  have others: "r \<in> set rows" if "r \<in> set (w_sessions w)" "s_id r \<noteq> i \<or> s_application_id r \<noteq> a" for r
    using that by (auto simp: rows_def)
  show ?thesis
    using False found kept w' others
    by (auto simp: delete_connection_def get_session_or_fail_def step_simps gone is_not_found_def
        provider_not_found_def split: provider_result.splits)
qed

section \<open>A connection's callbacks are recognised\<close>

lemma insert_session_effect:
  assumes "insert_session i a name display cipher w = Inr (r, w')"
  shows "w' = w\<lparr>w_sessions := w_sessions w @ [r]\<rparr>" and "s_id r = i" and "s_application_id r = a"
    and "s_provider_session_name r = name" and "s_webhook_signing_key_ciphertext r = cipher"
    and "\<forall>s \<in> set (w_sessions w). s_id s \<noteq> i"
  using assms by (auto simp: insert_session_def Let_def list_ex_iff split: if_splits)

text \<open>Filing what the provider answered about the newest row.\<close>

lemma record_created_effect:
  assumes rows: "w_sessions w = rows @ [r]" and fresh: "\<forall>s \<in> set rows. s_id s \<noteq> s_id r"
  shows "\<exists>r' w'. run (record_created (s_application_id r) (s_id r) live) env w = (Returned r', w')
    \<and> w_sessions w' = rows @ [r'] \<and> s_id r' = s_id r
    \<and> s_provider_session_name r' = s_provider_session_name r
    \<and> s_webhook_signing_key_ciphertext r' = s_webhook_signing_key_ciphertext r"
proof -
  have "sql_update (is_session (s_id r)) f rows = rows" for f
    using fresh by (intro sql_update_none) (auto simp: is_session_def)
  moreover have "sql_first (\<lambda>s. s_id s = s_id r \<and> s_application_id s = s_application_id r) (rows @ [s])
      = Some s" if "s_id s = s_id r" "s_application_id s = s_application_id r" for s
    using fresh that by (induction rows) (auto simp: sql_first_def)
  ultimately show ?thesis
    using rows by (simp add: record_created_def get_session_or_fail_def step_simps record_status_def
        update_sessions_def find_session_def sql_update_def is_session_def)
qed

lemma newest_session_is_found:
  assumes "w_sessions w = rows @ [r]" and "\<forall>s \<in> set rows. s_id s \<noteq> s_id r"
  shows "find_session_without_tenant_scope (s_id r) w = Some r"
  using assms(2) unfolding find_session_without_tenant_scope_def assms(1)
  by (induction rows) (auto simp: sql_first_def is_session_def)

text \<open>
  Callbacks of a created connection are accepted. If creating returns, the row on file is named
  after its identifier, and a callback for that connection, signed with the key the provider was
  given, is authentic whatever its body - given only that the cipher undoes itself and a signature
  is never empty. If creating fails, no connection is left behind.
\<close>

theorem created_connections_accept_their_callbacks:
  assumes cipher: "\<And>iv key. sr_decrypt sr (sr_encrypt sr iv key) = Some key"
    and same: "wc_decrypt crypto = sr_decrypt sr"
    and hmac: "\<And>key body. wc_hmac_hex crypto key body \<noteq> []"
    and fresh: "\<not> exists_for_session (cc_application_id input) i w"
      "i = c_identifier c (w_next_identifier w)"
  shows "case run (create_connection c sr input) env w of
      (Returned r, w') \<Rightarrow> r \<in> set (w_sessions w') \<and> s_id r = i
        \<and> s_provider_session_name r = ''wnp-'' @ i
        \<and> (ii_session_id callback = i
           \<and> ii_signature callback = Some (wc_hmac_hex crypto
                (sr_signing_key sr (env_entropy env (w_provider_calls w))) (ii_raw_body callback))
           \<longrightarrow> authentic crypto callback w')
    | (Threw e, w') \<Rightarrow> w_sessions w' = w_sessions w"
proof -
  let ?a = "cc_application_id input"
  let ?key = "sr_signing_key sr (env_entropy env (w_provider_calls w))"
  let ?w0 = "w\<lparr>w_next_identifier := Suc (w_next_identifier w)\<rparr>"
  let ?w1 = "after_call env (after_call env ?w0)"
  let ?sealed = "sr_encrypt sr (env_entropy env (Suc (w_provider_calls w))) ?key"
  let ?insert = "insert_session i ?a (to_provider_session_name i) (cc_display_name input) ?sealed"
  have unused: "\<not> exists_for_session ?a i ?w0"
    using fresh(1) by (simp add: exists_for_session_def)
  show ?thesis
  proof (cases "?insert ?w1")
    case (Inl e)
    then show ?thesis
      by (simp add: create_connection_def step_simps fresh(2) Let_def)
  next
    case (Inr made)
    obtain r w2 where made: "?insert ?w1 = Inr (r, w2)"
      using Inr by (cases made) simp
    note row = insert_session_effect [OF made]
    have rows: "w_sessions (after_call env w2) = w_sessions w @ [r]"
      and new: "\<forall>s \<in> set (w_sessions w). s_id s \<noteq> s_id r"
      using row by simp_all
    have unused2: "\<not> exists_for_session ?a i (after_call env w2)"
      using unused row(1) by (simp add: exists_for_session_def)
    let ?ask = "\<lparr>ci_session_name = s_provider_session_name r, ci_webhook_url = to_webhook_url sr i,
      ci_webhook_signing_key = ?key, ci_start = True\<rparr>"
    show ?thesis
    proof (cases "env_create_session env (w_provider_calls w2) ?ask")
      case (Failed failure)
      have "filter (\<lambda>s. s_id s = i \<longrightarrow> s_application_id s \<noteq> ?a) (w_sessions w) = w_sessions w"
        using new row(2) by (intro filter_True) auto
      then show ?thesis
        using made Failed rows row unused2
        by (simp add: create_connection_def step_simps fresh(2) Let_def delete_unused_session)
    next
      case (Succeeded live)
      obtain r' w' where run: "run (record_created ?a i live) env (after_call env w2) = (Returned r', w')"
        and w': "w_sessions w' = w_sessions w @ [r']" and r': "s_id r' = i"
          "s_provider_session_name r' = s_provider_session_name r"
          "s_webhook_signing_key_ciphertext r' = s_webhook_signing_key_ciphertext r"
        using record_created_effect [OF rows new, of live env] row by auto
      have found: "find_session_without_tenant_scope i w' = Some r'"
        using newest_session_is_found [OF w'] new r'(1) row(2) by simp
      have "run (create_connection c sr input) env w = (Returned r', w')"
        using made Succeeded run
        by (simp add: create_connection_def step_simps fresh(2) Let_def)
      then show ?thesis
        using w' r' row found cipher same hmac
        by (simp add: authentic_def to_provider_session_name_def)
    qed
  qed
qed

section \<open>Examples\<close>

definition example_sessions :: session_runtime where
  "example_sessions =
     \<lparr>sr_webhook_public_url = ''https://hooks.example/'', sr_signing_key = (\<lambda>bytes. ''secret''),
      sr_encrypt = (\<lambda>iv plain. ''v1.'' @ plain),
      sr_decrypt = (\<lambda>sealed. if take 3 sealed = ''v1.'' then Some (drop 3 sealed) else None)\<rparr>"

theorem used_connections_are_kept_witness:
  "run (delete_connection ''app'' ''s1'') example_env example_world
     = (Threw session_in_use, example_world)"
  using used_connections_are_kept [where a = "''app''" and i = "''s1''" and s = example_session
      and w = example_world and env = example_env]
  by (simp add: find_session_def sql_first_def exists_for_session_def example_session_def
      example_notification_def)

definition prefixed_crypto :: webhook_crypto where
  "prefixed_crypto = example_crypto\<lparr>wc_decrypt := sr_decrypt example_sessions,
     wc_hmac_hex := (\<lambda>key body. CHR ''h'' # key @ body)\<rparr>"

definition signed_callback :: ingest_input where
  "signed_callback =
     \<lparr>ii_session_id = ''id-'', ii_raw_body = ''body'', ii_signature = Some ''hsecretbody'',
      ii_timestamp_header = None, ii_correlation_id = ''corr''\<rparr>"

theorem created_connections_accept_their_callbacks_witness:
  "case run (create_connection example_config example_sessions
       \<lparr>cc_application_id = ''app'', cc_display_name = ''Sales''\<rparr>) example_env example_world of
     (Returned r, w') \<Rightarrow> r \<in> set (w_sessions w') \<and> s_id r = ''id-''
       \<and> s_provider_session_name r = ''wnp-'' @ ''id-'' \<and> authentic prefixed_crypto signed_callback w'
   | (Threw e, w') \<Rightarrow> w_sessions w' = w_sessions example_world"
proof -
  have signature: "ii_session_id signed_callback = ''id-''" "ii_signature signed_callback
      = Some (wc_hmac_hex prefixed_crypto (sr_signing_key example_sessions u) (ii_raw_body signed_callback))" for u
    by (simp_all add: signed_callback_def prefixed_crypto_def example_sessions_def)
  have "''id-'' = c_identifier example_config (w_next_identifier example_world)"
    and "\<not> exists_for_session (cc_application_id \<lparr>cc_application_id = ''app'', cc_display_name = ''Sales''\<rparr>)
           ''id-'' example_world"
    by (simp_all add: example_config_def example_world_def exists_for_session_def sql_first_def
        example_notification_def)
  from created_connections_accept_their_callbacks [OF _ _ _ this(2,1), of example_sessions
      prefixed_crypto signed_callback example_env] signature
  show ?thesis
    by (simp add: example_sessions_def prefixed_crypto_def split: prod.splits outcome.splits)
qed

end
