(* ===== verification/Http.thy ===== *)
theory Http
  imports Api_Key Tenancy Authentication Session_Service
begin

text \<open>
  The layer between a socket and the services, \<open>apps/api/src/http/\<close>: how an exception becomes a
  response (\<open>filters/problem-details.filter.ts\<close>), who may call (\<open>authentication/api-key.guard.ts\<close>,
  \<open>authentication/dashboard-session.guard.ts\<close>, \<open>authentication/csrf.ts\<close>), how often
  (\<open>rate-limit/rate-limit.guard.ts\<close>, \<open>rate-limit/credential-rate-limit.guard.ts\<close>), which
  correlation identifier a request carries (\<open>correlation/correlation.hook.ts\<close>) and how its body is read
  (\<open>raw-body.ts\<close>). The web framework reads the body, runs the guards of a route in order, then its
  pipes, then its handler; the first that throws decides.
\<close>

section \<open>Catching\<close>

text \<open>\<open>try\<close> and \<open>catch\<close>: what a program throws becomes a value.\<close>

primrec caught :: "'a prog \<Rightarrow> (exn + 'a) prog" where
  "caught (Done x) = Done (Inr x)"
| "caught (Raise e) = Done (Inl e)"
| "caught (Act f g) = Act f (\<lambda>w. caught (g w))"
| "caught (Entropy g) = Entropy (\<lambda>u. caught (g u))"
| "caught (ReadAborted g) = ReadAborted (\<lambda>b. caught (g b))"
| "caught (GetSession s g) = GetSession s (\<lambda>r. caught (g r))"
| "caught (ResolveRecipient s n g) = ResolveRecipient s n (\<lambda>r. caught (g r))"
| "caught (SendTextMessage t g) = SendTextMessage t (\<lambda>r. caught (g r))"
| "caught (FetchAccountLimits s g) = FetchAccountLimits s (\<lambda>r. caught (g r))"
| "caught (ShowTyping s c d g) = ShowTyping s c d (\<lambda>r. caught (g r))"
| "caught (CreateSession i g) = CreateSession i (\<lambda>r. caught (g r))"
| "caught (StartSession s g) = StartSession s (\<lambda>r. caught (g r))"
| "caught (StopSession s g) = StopSession s (\<lambda>r. caught (g r))"
| "caught (LogoutSession s g) = LogoutSession s (\<lambda>r. caught (g r))"
| "caught (DeleteSession s g) = DeleteSession s (\<lambda>r. caught (g r))"
| "caught (GetQrCode s g) = GetQrCode s (\<lambda>r. caught (g r))"

lemma run_attempt:
  "run (caught p) env w =
     (case run p env w of
        (Returned x, w') \<Rightarrow> (Returned (Inr x), w')
      | (Threw e, w') \<Rightarrow> (Returned (Inl e), w'))"
  by (induction p arbitrary: w) simp_all

lemma safe_attempt:
  "safe I G E Q p \<Longrightarrow> (\<And>e. E e \<Longrightarrow> R (Inl e)) \<Longrightarrow> (\<And>x. Q x \<Longrightarrow> R (Inr x)) \<Longrightarrow> safe I G F R (caught p)"
  by (induction p) auto

section \<open>Problem details\<close>

record problem =
  pd_type :: string
  pd_title :: string
  pd_status :: int
  pd_detail :: string
  pd_instance :: string
  pd_correlation_id :: "string option"

definition internal_error_detail :: string where
  "internal_error_detail = ''The request could not be completed. Quote the correlation identifier when reporting this.''"

definition status_by_domain_error_code :: "(string \<times> int \<times> string) list" where
  "status_by_domain_error_code =
     [(''email_already_registered'', 409, ''Conflict''),
      (''invalid_credentials'', 401, ''Unauthorized''),
      (''account_locked'', 429, ''Too Many Requests''),
      (''account_disabled'', 403, ''Forbidden''),
      (''session_expired'', 401, ''Unauthorized''),
      (''registration_disabled'', 403, ''Forbidden''),
      (''application_slug_taken'', 409, ''Conflict''),
      (''application_not_found'', 404, ''Not Found''),
      (''api_key_not_found'', 404, ''Not Found''),
      (''insufficient_scope'', 403, ''Forbidden''),
      (''forbidden'', 403, ''Forbidden''),
      (''invalid_schedule'', 422, ''Unprocessable Entity''),
      (''no_whatsapp_session'', 409, ''Conflict''),
      (''whatsapp_session_not_found'', 404, ''Not Found''),
      (''whatsapp_session_not_scannable'', 409, ''Conflict''),
      (''whatsapp_session_in_use'', 409, ''Conflict''),
      (''whatsapp_provider_unavailable'', 502, ''Bad Gateway''),
      (''notification_not_found'', 404, ''Not Found''),
      (''notification_not_cancellable'', 409, ''Conflict''),
      (''idempotency_key_reused'', 422, ''Unprocessable Entity''),
      (''idempotency_key_in_flight'', 409, ''Conflict''),
      (''invalid_cursor'', 400, ''Bad Request'')]"

text \<open>
  The request as the parser, the filter, the guards and the handlers see it. A body is JSON or there
  is none.
\<close>

record http_input =
  hi_method :: string
  hi_url :: string
  hi_ip :: string
  hi_request_id :: string
  hi_authorization :: "string option"
  hi_session_cookie :: "string option"
  hi_csrf_headers :: "string list"
  hi_correlation_headers :: "string list"
  hi_idempotency_key :: "string option"
  hi_signature :: "string option"
  hi_timestamp :: "string option"
  hi_user_agent :: "string option"
  hi_content :: "string option"             \<comment> \<open>the bytes of the body\<close>
  hi_query :: json

text \<open>
  What stands behind a running API: the configuration of the services, the digests they are given,
  the decoder of UTF-8, the JSON parser (it answers with its message when it refuses), the formats
  \<open>zod\<close> knows, and whether the rate limiter reaches the database.
\<close>

record formats =
  fm_is_uuid :: "string \<Rightarrow> bool"
  fm_is_datetime :: "string \<Rightarrow> bool"       \<comment> \<open>with an offset\<close>
  fm_is_email :: "string \<Rightarrow> bool"
  fm_read_date :: "string \<Rightarrow> millis"

record http_runtime =
  ht_documentation_base_url :: string
  ht_csrf_digest :: "string \<Rightarrow> string"       \<comment> \<open>HMAC-SHA256 in base64url\<close>
  ht_limiter_reachable :: bool
  ht_session_cookie_name :: string
  ht_cookie_secure :: bool
  ht_decode_utf8 :: "string \<Rightarrow> string option"
  ht_parse_json :: "string \<Rightarrow> string + json"
  ht_formats :: formats
  ht_config :: config
  ht_keys :: key_runtime
  ht_auth :: auth_runtime
  ht_connections :: session_runtime
  ht_requests :: request_runtime
  ht_cursors :: cursor_codec
  ht_callbacks :: webhook_crypto

definition problem_type :: "http_runtime \<Rightarrow> string \<Rightarrow> string" where
  "problem_type ht suffix = ht_documentation_base_url ht @ ''/problems/'' @ suffix"

text \<open>
  A domain error whose code the table does not have would make the filter itself throw:
  \<^term>\<open>None\<close>.
\<close>

definition to_problem_details :: "http_runtime \<Rightarrow> string \<Rightarrow> string option \<Rightarrow> exn \<Rightarrow> problem option" where
  "to_problem_details ht url correlation_id e =
     (let internal = \<lparr>pd_type = problem_type ht (string_of_int 500), pd_title = ''Internal Server Error'',
            pd_status = 500, pd_detail = internal_error_detail, pd_instance = url,
            pd_correlation_id = correlation_id\<rparr>
      in case e of
           DomainError code message \<Rightarrow>
             map_option (\<lambda>(status, title). \<lparr>pd_type = problem_type ht code, pd_title = title,
                 pd_status = status, pd_detail = message, pd_instance = url,
                 pd_correlation_id = correlation_id\<rparr>)
               (map_of status_by_domain_error_code code)
         | HttpException status error message \<Rightarrow>
             Some \<lparr>pd_type = problem_type ht (string_of_int status), pd_title = error,
               pd_status = status, pd_detail = message, pd_instance = url,
               pd_correlation_id = correlation_id\<rparr>
         | _ \<Rightarrow> Some internal)"

section \<open>Correlation\<close>

definition acceptable_correlation_id :: "string \<Rightarrow> bool" where
  "acceptable_correlation_id s =
     (list_all (\<lambda>c. is_alphanumeric c \<or> c = CHR ''-'') s \<and> 16 \<le> length s \<and> length s \<le> 64)"

definition resolve_correlation_id :: "http_input \<Rightarrow> string" where
  "resolve_correlation_id h =
     (case hi_correlation_headers h of
        [] \<Rightarrow> hi_request_id h
      | candidate # _ \<Rightarrow> if acceptable_correlation_id candidate then candidate else hi_request_id h)"

definition correlation_headers :: "http_input \<Rightarrow> (string \<times> string) list" where
  "correlation_headers h = [(''x-correlation-id'', resolve_correlation_id h)]"

section \<open>Bodies\<close>

definition raw_body_path_prefix :: string where
  "raw_body_path_prefix = ''/webhooks/''"

definition read_raw_body :: "http_input \<Rightarrow> string option" where
  "read_raw_body h = (if starts_with (hi_url h) raw_body_path_prefix then hi_content h else None)"

definition bad_request :: "string \<Rightarrow> exn" where
  "bad_request message = HttpException 400 ''Bad Request'' message"

definition parse_body :: "http_runtime \<Rightarrow> http_input \<Rightarrow> json option prog" where
  "parse_body ht h =
     (case hi_content h of
        None \<Rightarrow> Done None
      | Some bytes \<Rightarrow>
          if bytes = [] then Done None
          else (case ht_decode_utf8 ht bytes of
             None \<Rightarrow> Raise (bad_request ''The request body is not valid UTF-8. Send JSON encoded as UTF-8.'')
           | Some decoded \<Rightarrow>
               (case ht_parse_json ht decoded of
                  Inl message \<Rightarrow> Raise (bad_request message)
                | Inr j \<Rightarrow> Done (Some j))))"

section \<open>Replies\<close>

datatype 'b reply_body = Payload 'b | ProblemBody problem

text \<open>
  The one cookie the platform sets or clears: \<open>SetCookie\<close> has its name, its value, whether it is for
  HTTPS only, and when it expires; \<open>httpOnly\<close>, \<open>sameSite=lax\<close> and the path are constant.
\<close>

datatype session_cookie = SetCookie string string bool millis | ClearCookie string

record 'b http_reply =
  rp_status :: int
  rp_headers :: "(string \<times> string) list"
  rp_cookie :: "session_cookie option"
  rp_body :: "'b reply_body"

text \<open>Headers set before an exception survive into the answer of the filter.\<close>

definition refuse :: "http_runtime \<Rightarrow> http_input \<Rightarrow> (string \<times> string) list \<Rightarrow> exn \<Rightarrow> 'b http_reply prog" where
  "refuse ht h headers e =
     (case to_problem_details ht (hi_url h) (Some (resolve_correlation_id h)) e of
        Some problem \<Rightarrow> Done \<lparr>rp_status = pd_status problem, rp_headers = headers, rp_cookie = None,
          rp_body = ProblemBody problem\<rparr>
      | None \<Rightarrow> Raise (ThrownError ''TypeError''))"

definition guarded ::
  "http_runtime \<Rightarrow> http_input \<Rightarrow> (string \<times> string) list \<Rightarrow> 'a prog \<Rightarrow> ('a \<Rightarrow> 'b http_reply prog) \<Rightarrow> 'b http_reply prog"
where
  "guarded ht h headers guard k =
     bind (caught guard) (\<lambda>r. case r of Inl e \<Rightarrow> refuse ht h headers e | Inr x \<Rightarrow> k x)"

definition answer :: "int \<Rightarrow> (string \<times> string) list \<Rightarrow> 'b \<Rightarrow> 'b http_reply" where
  "answer status headers x =
     \<lparr>rp_status = status, rp_headers = headers, rp_cookie = None, rp_body = Payload x\<rparr>"

definition reply_with ::
  "http_runtime \<Rightarrow> http_input \<Rightarrow> (string \<times> string) list \<Rightarrow> int \<Rightarrow> 'b prog \<Rightarrow> 'b http_reply prog" where
  "reply_with ht h headers status p =
     guarded ht h headers p (\<lambda>x. Done (answer status headers x))"

text \<open>Every route begins with the hook and the parser.\<close>

definition receive ::
  "http_runtime \<Rightarrow> http_input \<Rightarrow> ((string \<times> string) list \<Rightarrow> json option \<Rightarrow> 'b http_reply prog)
     \<Rightarrow> 'b http_reply prog"
where
  "receive ht h k =
     guarded ht h (correlation_headers h) (parse_body ht h) (k (correlation_headers h))"

section \<open>API keys\<close>

definition unauthorized :: "string \<Rightarrow> exn" where
  "unauthorized message = HttpException 401 ''Unauthorized'' message"

definition bearer_prefix :: string where
  "bearer_prefix = ''Bearer ''"

definition api_key_guard ::
  "key_runtime \<Rightarrow> api_key_scope list \<Rightarrow> http_input \<Rightarrow> api_key_principal prog" where
  "api_key_guard kr required_scopes h =
     (let refused = Raise (unauthorized ''Provide an API key as a bearer token.'')
      in case hi_authorization h of
           None \<Rightarrow> refused
         | Some header \<Rightarrow>
             if \<not> starts_with header bearer_prefix then refused
             else bind (authenticate_key kr (drop (length bearer_prefix) header)) (\<lambda>found.
               case found of
                 None \<Rightarrow> Raise (unauthorized ''The API key is invalid.'')
               | Some caller \<Rightarrow>
                   let missing = filter (\<lambda>s. \<not> has_scope (kp_scopes caller) s) required_scopes
                   in if missing \<noteq> [] then
                        Raise (HttpException 403 ''Forbidden''
                          (''This API key is missing the required scope: ''
                           @ join '', '' (map scope_name missing) @ ''.''))
                      else Done caller))"

section \<open>Rate limits\<close>

definition string_of_ceiling :: "rat \<Rightarrow> string" where
  "string_of_ceiling x = string_of_int (ceiling x)"

definition rate_limit_headers :: "rate_limit_outcome \<Rightarrow> (string \<times> string) list" where
  "rate_limit_headers outcome =
     [(''ratelimit-limit'', string_of_int (ro_limit outcome)),
      (''ratelimit-remaining'', string_of_int (rd_remaining_requests (ro_decision outcome))),
      (''ratelimit-reset'', string_of_ceiling (rd_resets_after_seconds (ro_decision outcome)))]"

definition retry_after_header :: "rate_limit_outcome \<Rightarrow> (string \<times> string) list" where
  "retry_after_header outcome =
     [(''retry-after'', string_of_ceiling (rd_retry_after_seconds (ro_decision outcome)))]"

definition read_policy :: "uuid \<Rightarrow> uuid \<Rightarrow> rate_limit_policy prog" where
  "read_policy organization_id application_id =
     bind (get_application_or_fail organization_id application_id) (\<lambda>a.
     Done \<lparr>rl_requests_per_period = ap_rate_limit_per_minute a,
           rl_burst_allowance = ap_rate_limit_burst a, rl_period_seconds = 60\<rparr>)"

text \<open>What the guard measured; its headers outlive the exception it throws then.\<close>

definition api_key_rate_limit_guard :: "http_runtime \<Rightarrow> api_key_principal \<Rightarrow> rate_limit_outcome prog" where
  "api_key_rate_limit_guard ht caller =
     bind (read_policy (kp_organization_id caller) (kp_application_id caller)) (\<lambda>policy.
     consume (''apikey:'' @ kp_api_key_id caller) policy (ht_limiter_reachable ht))"

definition api_key_limited :: "rate_limit_outcome \<Rightarrow> exn" where
  "api_key_limited outcome =
     HttpException 429 ''Too Many Requests''
       (''This API key is limited to '' @ string_of_int (ro_limit outcome) @ '' requests per minute. Retry in ''
        @ string_of_ceiling (rd_retry_after_seconds (ro_decision outcome)) @ '' seconds.'')"

definition credential_limited :: "rate_limit_outcome \<Rightarrow> exn" where
  "credential_limited outcome =
     HttpException 429 ''Too Many Requests''
       (''Too many attempts from this address. Retry in ''
        @ string_of_ceiling (rd_retry_after_seconds (ro_decision outcome)) @ '' seconds.'')"

definition credential_rate_limit_guard ::
  "http_runtime \<Rightarrow> string \<Rightarrow> rate_limit_policy \<Rightarrow> http_input \<Rightarrow> rate_limit_outcome prog" where
  "credential_rate_limit_guard ht subject_prefix policy h =
     consume (subject_prefix @ '':'' @ hi_ip h) policy (ht_limiter_reachable ht)"

text \<open>
  The guards of a route of the public API in their order: authenticate first, then meter. The headers
  of the meter are set before it refuses.
\<close>

definition with_api_key ::
  "http_runtime \<Rightarrow> http_input \<Rightarrow> (string \<times> string) list \<Rightarrow> api_key_scope list
     \<Rightarrow> ((string \<times> string) list \<Rightarrow> api_key_principal \<Rightarrow> 'b http_reply prog) \<Rightarrow> 'b http_reply prog"
where
  "with_api_key ht h headers required_scopes k =
     guarded ht h headers (api_key_guard (ht_keys ht) required_scopes h) (\<lambda>caller.
     guarded ht h headers (api_key_rate_limit_guard ht caller) (\<lambda>outcome.
     let metered = headers @ rate_limit_headers outcome
     in if rd_is_allowed (ro_decision outcome) then k metered caller
        else refuse ht h (metered @ retry_after_header outcome) (api_key_limited outcome)))"

definition credential_headers :: "rate_limit_outcome \<Rightarrow> (string \<times> string) list" where
  "credential_headers outcome = take 2 (rate_limit_headers outcome)"

definition with_credential_limit ::
  "http_runtime \<Rightarrow> http_input \<Rightarrow> (string \<times> string) list \<Rightarrow> string \<Rightarrow> rate_limit_policy
     \<Rightarrow> ((string \<times> string) list \<Rightarrow> 'b http_reply prog) \<Rightarrow> 'b http_reply prog"
where
  "with_credential_limit ht h headers subject_prefix policy k =
     guarded ht h headers (credential_rate_limit_guard ht subject_prefix policy h) (\<lambda>outcome.
     let metered = headers @ credential_headers outcome
     in if rd_is_allowed (ro_decision outcome) then k metered
        else refuse ht h (metered @ retry_after_header outcome) (credential_limited outcome))"

section \<open>Dashboard sessions\<close>

definition derive_csrf_token :: "http_runtime \<Rightarrow> string \<Rightarrow> string" where
  "derive_csrf_token ht session_id = ht_csrf_digest ht (''csrf:'' @ session_id)"

definition is_csrf_token_valid :: "string \<Rightarrow> string \<Rightarrow> bool" where
  "is_csrf_token_valid supplied expected = (supplied = expected)"

definition safe_methods :: "string list" where
  "safe_methods = [''GET'', ''HEAD'', ''OPTIONS'']"

definition dashboard_session_guard ::
  "http_runtime \<Rightarrow> auth_runtime \<Rightarrow> http_input \<Rightarrow> authenticated_principal prog" where
  "dashboard_session_guard ht au h =
     (case hi_session_cookie h of
        None \<Rightarrow> Raise (unauthorized ''Sign in to continue.'')
      | Some token \<Rightarrow>
          if token = [] then Raise (unauthorized ''Sign in to continue.'')
          else bind (resolve_user_session au token) (\<lambda>found.
            case found of
              None \<Rightarrow> Raise (unauthorized ''Your session has expired. Sign in again.'')
            | Some caller \<Rightarrow>
                let forged = HttpException 403 ''Forbidden'' ''The request is missing a valid CSRF token.''
                in if hi_method h \<in> set safe_methods then Done caller
                   else (case hi_csrf_headers h of
                           [] \<Rightarrow> Raise forged
                         | supplied # _ \<Rightarrow>
                             if is_csrf_token_valid supplied (derive_csrf_token ht (pr_session_id caller))
                             then Done caller else Raise forged)))"

definition with_session ::
  "http_runtime \<Rightarrow> http_input \<Rightarrow> (string \<times> string) list
     \<Rightarrow> (authenticated_principal \<Rightarrow> 'b http_reply prog) \<Rightarrow> 'b http_reply prog"
where
  "with_session ht h headers k =
     guarded ht h headers (dashboard_session_guard ht (ht_auth ht) h) k"

section \<open>Pipes\<close>

text \<open>
  \<open>validation/zod-validation.pipe.ts\<close> and \<open>validation/uuid-parameter.pipe.ts\<close>. What \<open>zod\<close> accepts as a
  UUID, a date with its offset or an address is its own; the list of issues is left out.
\<close>

definition validation_failed :: "string \<Rightarrow> exn" where
  "validation_failed message = HttpException 400 ''Validation failed'' message"

definition zod_validation_pipe :: "string \<Rightarrow> (json option \<Rightarrow> 'a option) \<Rightarrow> json option \<Rightarrow> 'a prog" where
  "zod_validation_pipe subject schema value =
     (case schema value of
        Some x \<Rightarrow> Done x
      | None \<Rightarrow> Raise (validation_failed (''The '' @ subject @ '' did not match the expected schema.'')))"

definition uuid_parameter_pipe :: "formats \<Rightarrow> string \<Rightarrow> string \<Rightarrow> uuid prog" where
  "uuid_parameter_pipe fm parameter_name value =
     (if fm_is_uuid fm value then Done value
      else Raise (validation_failed (''The '' @ parameter_name @ '' in the path is not a valid identifier.'')))"

end
