(* ===== verification/Contracts.thy ===== *)
theory Contracts
  imports Http "HOL-Library.AList"
begin

text \<open>
  The requests the API accepts, \<open>packages/contracts/src/\<close>: what the \<open>zod\<close> schemas of a body, a query or
  a header let through and what they make of it. A schema is a function from the JSON it is given
  (\<^term>\<open>None\<close>: nothing at all) to the value the handler sees, or \<^term>\<open>None\<close> when it refuses. Members a
  schema does not name are dropped.
\<close>

section \<open>Schemas\<close>

text \<open>\<open>z.string().min(low).max(high)\<close>, and the same after \<open>trim()\<close>.\<close>

fun string_between :: "nat \<Rightarrow> nat \<Rightarrow> json \<Rightarrow> string option" where
  "string_between low high (JStr s) = (if low \<le> length s \<and> length s \<le> high then Some s else None)"
| "string_between low high _ = None"

fun trimmed_between :: "nat \<Rightarrow> nat \<Rightarrow> json \<Rightarrow> string option" where
  "trimmed_between low high (JStr s) = string_between low high (JStr (js_trim s))"
| "trimmed_between low high _ = None"

fun string_like :: "(string \<Rightarrow> bool) \<Rightarrow> json \<Rightarrow> string option" where
  "string_like accepts (JStr s) = (if accepts s then Some s else None)"
| "string_like accepts _ = None"

text \<open>\<open>z.int()\<close>: a safe integer.\<close>

definition is_safe_integer :: "rat \<Rightarrow> bool" where
  "is_safe_integer r = (r = of_int (floor r) \<and> \<bar>floor r\<bar> \<le> 9007199254740991)"

fun integer_at_least :: "int \<Rightarrow> json \<Rightarrow> int option" where
  "integer_at_least low (JNum r) = (if is_safe_integer r \<and> low \<le> floor r then Some (floor r) else None)"
| "integer_at_least low _ = None"

definition integer_between :: "int \<Rightarrow> int \<Rightarrow> json \<Rightarrow> int option" where
  "integer_between low high j =
     Option.bind (integer_at_least low j) (\<lambda>i. if i \<le> high then Some i else None)"

definition required :: "(json \<Rightarrow> 'a option) \<Rightarrow> json option \<Rightarrow> 'a option" where
  "required schema field = Option.bind field schema"

definition optional :: "(json \<Rightarrow> 'a option) \<Rightarrow> json option \<Rightarrow> 'a option option" where
  "optional schema field =
     (case field of None \<Rightarrow> Some None | Some j \<Rightarrow> map_option Some (schema j))"

definition defaulted :: "'a \<Rightarrow> (json \<Rightarrow> 'a option) \<Rightarrow> json option \<Rightarrow> 'a option" where
  "defaulted standard schema field = (case field of None \<Rightarrow> Some standard | Some j \<Rightarrow> schema j)"

fun nullable :: "(json \<Rightarrow> 'a option) \<Rightarrow> json \<Rightarrow> 'a option option" where
  "nullable schema JNull = Some None"
| "nullable schema j = map_option Some (schema j)"

fun all_of :: "(json \<Rightarrow> 'a option) \<Rightarrow> json list \<Rightarrow> 'a list option" where
  "all_of schema [] = Some []"
| "all_of schema (j # js) =
     Option.bind (schema j) (\<lambda>x. map_option ((#) x) (all_of schema js))"

fun array_of :: "(json \<Rightarrow> 'a option) \<Rightarrow> json \<Rightarrow> 'a list option" where
  "array_of schema (JArr js) = all_of schema js"
| "array_of schema _ = None"

text \<open>
  An object as JavaScript holds it after parsing: a name once, where it first stood, with the value it
  had last.
\<close>

definition own_members :: "(string \<times> json) list \<Rightarrow> (string \<times> json) list" where
  "own_members members = fold (\<lambda>(name, j). AList.update name j) members []"

definition text_entry :: "string \<times> json \<Rightarrow> (string \<times> string) option" where
  "text_entry member =
     (if length (fst member) \<le> 64
      then map_option (Pair (fst member)) (string_between 0 512 (snd member)) else None)"

fun text_entries :: "(string \<times> json) list \<Rightarrow> (string \<times> string) list option" where
  "text_entries [] = Some []"
| "text_entries (m # ms) =
     Option.bind (text_entry m) (\<lambda>x. map_option ((#) x) (text_entries ms))"

text \<open>\<open>z.record(z.string().max(64), z.string().max(512))\<close>\<close>

fun text_record :: "json \<Rightarrow> (string \<times> string) list option" where
  "text_record (JObj members) = text_entries (own_members members)"
| "text_record _ = None"

fun object :: "((string \<Rightarrow> json option) \<Rightarrow> 'a option) \<Rightarrow> json option \<Rightarrow> 'a option" where
  "object schema (Some (JObj members)) = schema (\<lambda>name. json_field name members)"
| "object schema _ = None"

section \<open>Notifications\<close>

definition idempotency_key_schema :: "json option \<Rightarrow> string option option" where
  "idempotency_key_schema = optional (string_between 1 255)"

definition maximum_batch_recipients :: nat where
  "maximum_batch_recipients = 50"

definition recipient_schema :: "json \<Rightarrow> string option" where
  "recipient_schema = string_like is_valid_phone_number"

record message_request =
  mr_body :: string
  mr_session_id :: "uuid option"
  mr_scheduled_at :: "string option"
  mr_maximum_attempts :: "int option"
  mr_metadata :: "(string \<times> string) list"

definition message_members :: "formats \<Rightarrow> (string \<Rightarrow> json option) \<Rightarrow> message_request option" where
  "message_members fm field =
     Option.bind (required (string_between 1 4096) (field ''body'')) (\<lambda>body.
     Option.bind (optional (string_like (fm_is_uuid fm)) (field ''whatsAppSessionId'')) (\<lambda>session_id.
     Option.bind (optional (string_like (fm_is_datetime fm)) (field ''scheduledAt'')) (\<lambda>scheduled_at.
     Option.bind (optional (integer_between 1 10) (field ''maximumAttempts'')) (\<lambda>maximum_attempts.
     Option.bind (defaulted [] text_record (field ''metadata'')) (\<lambda>metadata.
     Some \<lparr>mr_body = body, mr_session_id = session_id, mr_scheduled_at = scheduled_at,
           mr_maximum_attempts = maximum_attempts, mr_metadata = metadata\<rparr>)))))"

definition notification_creation_request_schema ::
  "formats \<Rightarrow> json option \<Rightarrow> (string \<times> message_request) option" where
  "notification_creation_request_schema fm =
     object (\<lambda>field.
       Option.bind (required recipient_schema (field ''recipient'')) (\<lambda>recipient.
       map_option (Pair recipient) (message_members fm field)))"

definition recipients_schema :: "json \<Rightarrow> string list option" where
  "recipients_schema j =
     Option.bind (array_of recipient_schema j) (\<lambda>recipients.
     if 1 \<le> length recipients \<and> length recipients \<le> maximum_batch_recipients \<and> distinct recipients
     then Some recipients else None)"

definition notification_batch_creation_request_schema ::
  "formats \<Rightarrow> json option \<Rightarrow> (string list \<times> message_request) option" where
  "notification_batch_creation_request_schema fm =
     object (\<lambda>field.
       Option.bind (message_members fm field) (\<lambda>message.
       map_option (\<lambda>recipients. (recipients, message))
         (required recipients_schema (field ''recipients''))))"

fun notification_status_schema :: "json \<Rightarrow> notification_status option" where
  "notification_status_schema (JStr s) = find (\<lambda>status. status_name status = s) notification_statuses"
| "notification_status_schema _ = None"

text \<open>One status or an array of them, which the handler makes an array in any case.\<close>

fun status_filter_schema :: "json \<Rightarrow> notification_status list option" where
  "status_filter_schema (JArr js) = all_of notification_status_schema js"
| "status_filter_schema j = map_option (\<lambda>status. [status]) (notification_status_schema j)"

text \<open>
  \<open>z.coerce.number()\<close> on what a query string holds: a text, or an array of texts when a name is
  repeated, which JavaScript turns to a number through its text.
\<close>

fun coerced_number :: "json \<Rightarrow> rat option" where
  "coerced_number (JStr s) = js_number s"
| "coerced_number (JArr js) =
     js_number (join '','' (map (\<lambda>j. case j of JStr s \<Rightarrow> s | _ \<Rightarrow> []) js))"
| "coerced_number (JNum r) = Some r"
| "coerced_number _ = None"

definition limit_schema :: "json \<Rightarrow> int option" where
  "limit_schema j = Option.bind (coerced_number j) (integer_between 1 100 \<circ> JNum)"

definition notification_list_query_schema :: "json option \<Rightarrow> list_query option" where
  "notification_list_query_schema =
     object (\<lambda>field.
       Option.bind (optional status_filter_schema (field ''status'')) (\<lambda>statuses.
       Option.bind (optional (string_like (\<lambda>s. True)) (field ''recipient'')) (\<lambda>recipient.
       Option.bind (optional (string_like (\<lambda>s. True)) (field ''cursor'')) (\<lambda>cursor.
       Option.bind (defaulted 25 limit_schema (field ''limit'')) (\<lambda>limit.
       Some \<lparr>lq_statuses = statuses, lq_recipient = recipient, lq_cursor = cursor,
             lq_limit = nat limit\<rparr>)))))"

definition waiting_notification_cancellation_request_schema ::
  "formats \<Rightarrow> json option \<Rightarrow> uuid option option" where
  "waiting_notification_cancellation_request_schema fm =
     object (\<lambda>field. optional (string_like (fm_is_uuid fm)) (field ''whatsAppSessionId''))"

section \<open>API keys\<close>

record api_key_creation_request =
  kq_name :: string
  kq_scopes :: "api_key_scope list"
  kq_expires_at :: "string option"

fun scope_schema :: "json \<Rightarrow> api_key_scope option" where
  "scope_schema (JStr s) = read_scope s"
| "scope_schema _ = None"

definition scopes_schema :: "json \<Rightarrow> api_key_scope list option" where
  "scopes_schema j =
     Option.bind (array_of scope_schema j) (\<lambda>scopes. if scopes = [] then None else Some scopes)"

definition api_key_creation_request_schema ::
  "formats \<Rightarrow> json option \<Rightarrow> api_key_creation_request option" where
  "api_key_creation_request_schema fm =
     object (\<lambda>field.
       Option.bind (required (trimmed_between 1 120) (field ''name'')) (\<lambda>name.
       Option.bind (defaulted default_api_key_scopes scopes_schema (field ''scopes'')) (\<lambda>scopes.
       Option.bind (optional (nullable (string_like (fm_is_datetime fm))) (field ''expiresAt''))
         (\<lambda>expires_at.
       Some \<lparr>kq_name = name, kq_scopes = scopes,
             kq_expires_at = Option.bind expires_at (\<lambda>e. e)\<rparr>))))"

section \<open>Applications\<close>

fun is_application_slug :: "string \<Rightarrow> bool" where
  "is_application_slug [] = False"
| "is_application_slug (c # cs) =
     (is_letter c \<and> to_lower c = c
      \<and> list_all (\<lambda>d. is_letter d \<and> to_lower d = d \<or> is_digit d \<or> d = CHR ''-'') cs)"

definition application_slug_schema :: "json \<Rightarrow> string option" where
  "application_slug_schema j =
     Option.bind (trimmed_between 1 64 j) (\<lambda>s. if is_application_slug s then Some s else None)"

definition application_creation_request_schema :: "json option \<Rightarrow> (string \<times> string) option" where
  "application_creation_request_schema =
     object (\<lambda>field.
       Option.bind (required (trimmed_between 1 120) (field ''name'')) (\<lambda>name.
       map_option (Pair name) (required application_slug_schema (field ''slug''))))"

definition update_application_request_schema :: "json option \<Rightarrow> update_application_input option" where
  "update_application_request_schema =
     object (\<lambda>field.
       Option.bind (optional (trimmed_between 1 120) (field ''name'')) (\<lambda>name.
       Option.bind (optional (integer_between 1 6000) (field ''rateLimitPerMinute'')) (\<lambda>rate.
       Option.bind (optional (integer_between 1 1000) (field ''rateLimitBurst'')) (\<lambda>burst.
       Option.bind (optional (nullable (integer_at_least 1)) (field ''dailySendLimit'')) (\<lambda>daily.
       Option.bind (optional (integer_between 1 10) (field ''defaultMaximumAttempts'')) (\<lambda>attempts.
       if name = None \<and> rate = None \<and> burst = None \<and> daily = None \<and> attempts = None then None
       else Some \<lparr>ua_name = name, ua_rate_limit_per_minute = rate, ua_rate_limit_burst = burst,
              ua_daily_send_limit = daily, ua_default_maximum_attempts = attempts,
              ua_unknown_outcome_policy = None\<rparr>))))))"

section \<open>Authentication\<close>

definition email_schema :: "formats \<Rightarrow> json \<Rightarrow> string option" where
  "email_schema fm = string_like (\<lambda>s. fm_is_email fm s \<and> length s \<le> 254)"

definition password_schema :: "json \<Rightarrow> string option" where
  "password_schema = string_between 12 256"

definition register_request_schema :: "formats \<Rightarrow> json option \<Rightarrow> register_input option" where
  "register_request_schema fm =
     object (\<lambda>field.
       Option.bind (required (trimmed_between 1 120) (field ''organizationName'')) (\<lambda>organization_name.
       Option.bind (required (trimmed_between 1 120) (field ''name'')) (\<lambda>name.
       Option.bind (required (email_schema fm) (field ''email'')) (\<lambda>email.
       Option.bind (required password_schema (field ''password'')) (\<lambda>password.
       Some \<lparr>ri_organization_name = organization_name, ri_name = name, ri_email = email,
             ri_password = password\<rparr>)))))"

definition login_request_schema :: "formats \<Rightarrow> json option \<Rightarrow> (string \<times> string) option" where
  "login_request_schema fm =
     object (\<lambda>field.
       Option.bind (required (email_schema fm) (field ''email'')) (\<lambda>email.
       map_option (Pair email) (required (string_between 1 256) (field ''password''))))"

section \<open>WhatsApp connections\<close>

definition whatsapp_session_creation_request_schema :: "json option \<Rightarrow> string option" where
  "whatsapp_session_creation_request_schema =
     object (\<lambda>field. required (string_between 1 80) (field ''displayName''))"

section \<open>What a request that passes is like\<close>

lemma required_Some: "required f x = Some y \<longleftrightarrow> (\<exists>j. x = Some j \<and> f j = Some y)"
  by (cases x) (simp_all add: required_def)

lemma string_like_Some: "string_like p j = Some s \<longleftrightarrow> j = JStr s \<and> p s"
  by (cases j) auto

lemma string_between_Some:
  "string_between low high j = Some s \<longleftrightarrow> j = JStr s \<and> low \<le> length s \<and> length s \<le> high"
  by (cases j) auto

lemma integer_between_Some:
  "integer_between low high j = Some i \<Longrightarrow> low \<le> i \<and> i \<le> high"
  by (cases j) (auto simp: integer_between_def split: if_splits)

lemma all_of_Some: "all_of f js = Some xs \<longleftrightarrow> map f js = map Some xs"
  by (induction js arbitrary: xs) (auto simp: bind_eq_Some_conv Cons_eq_map_conv map_eq_Cons_conv)

lemma all_of_each:
  assumes "all_of f js = Some xs" and "x \<in> set xs"
  shows "\<exists>j\<in>set js. f j = Some x"
proof -
  have "f ` set js = Some ` set xs"
    using assms(1) by (simp add: all_of_Some flip: set_map)
  then have "Some x \<in> f ` set js"
    using assms(2) by simp
  then show ?thesis by (metis imageE)
qed

lemma object_Some:
  "object f j = Some x \<longleftrightarrow> (\<exists>ms. j = Some (JObj ms) \<and> f (\<lambda>name. json_field name ms) = Some x)"
  by (cases "(f, j)" rule: object.cases) auto

lemma own_members_distinct: "distinct (map fst (own_members members))"
proof -
  have "distinct (map fst (fold (\<lambda>(name, j). AList.update name j) members ms))"
    if "distinct (map fst ms)" for ms :: "(string \<times> json) list"
    using that by (induction members arbitrary: ms) (auto simp: distinct_update)
  from this [of "[]"] show ?thesis by (simp add: own_members_def)
qed

lemma text_entries_fst: "text_entries ms = Some xs \<Longrightarrow> map fst xs = map fst ms"
  by (induction ms arbitrary: xs) (auto simp: bind_eq_Some_conv text_entry_def split: if_splits)

lemma text_entries_bounded:
  "text_entries ms = Some xs \<Longrightarrow> (k, v) \<in> set xs \<Longrightarrow> length k \<le> 64 \<and> length v \<le> 512"
  by (induction ms arbitrary: xs)
     (auto simp: bind_eq_Some_conv text_entry_def string_between_Some split: if_splits)

text \<open>A metadata record has each name once and keeps to its lengths.\<close>

lemma text_record_sound:
  assumes "text_record j = Some xs"
  shows "distinct (map fst xs)"
    and "(k, v) \<in> set xs \<Longrightarrow> length k \<le> 64 \<and> length v \<le> 512"
  using assms own_members_distinct
  by (cases j; auto simp: text_entries_fst dest: text_entries_bounded)+

lemma recipient_schema_parses:
  "recipient_schema j = Some recipient \<Longrightarrow> parse_phone_number recipient = Inr recipient"
  by (simp add: recipient_schema_def string_like_Some parse_phone_number_def valid_is_normal)

lemma recipients_schema_parses:
  assumes "recipients_schema j = Some recipients"
  shows "recipients \<noteq> [] \<and> length recipients \<le> 50 \<and> distinct recipients
    \<and> list_all (\<lambda>r. parse_phone_number r = Inr r) recipients"
proof -
  from assms obtain js where "all_of recipient_schema js = Some recipients"
    by (cases j) (auto simp: recipients_schema_def bind_eq_Some_conv split: if_splits)
  then have "list_all (\<lambda>r. parse_phone_number r = Inr r) recipients"
    by (auto simp: list_all_iff dest: all_of_each recipient_schema_parses)
  then show ?thesis
    using assms by (auto simp: recipients_schema_def bind_eq_Some_conv maximum_batch_recipients_def
        split: if_splits)
qed

end
