(* ===== verification/Public_Api.thy ===== *)
theory Public_Api
  imports Contracts
begin

text \<open>
  The routes of \<open>apps/api/src/public-api/\<close>: what a client holding an API key can ask for, the callbacks of
  the provider, and how a row becomes a response. Each route is the hook and the parser, the guards,
  the pipes, then the service, in the order the framework runs them.
\<close>

section \<open>Responses\<close>

record notification_response =
  nr_id :: uuid
  nr_status :: notification_status
  nr_recipient :: string
  nr_body :: string
  nr_session_id :: uuid
  nr_scheduled_at :: "string option"
  nr_attempt_count :: int
  nr_maximum_attempts :: int
  nr_next_attempt_at :: "string option"
  nr_provider_message_id :: "string option"
  nr_sent_at :: "string option"
  nr_delivered_at :: "string option"
  nr_read_at :: "string option"
  nr_failed_at :: "string option"
  nr_failure_code :: "provider_failure_code option"
  nr_failure_reason :: "string option"
  nr_metadata :: "(string \<times> string) list"
  nr_created_at :: string
  nr_updated_at :: string

definition to_notification_response :: "notification \<Rightarrow> notification_response" where
  "to_notification_response r =
     \<lparr>nr_id = n_id r, nr_status = n_status r, nr_recipient = n_recipient_phone_number r,
      nr_body = n_rendered_body r, nr_session_id = n_session_id r,
      nr_scheduled_at = map_option to_iso_string (n_scheduled_at r),
      nr_attempt_count = n_attempt_count r, nr_maximum_attempts = n_maximum_attempts r,
      nr_next_attempt_at = map_option to_iso_string (n_next_attempt_at r),
      nr_provider_message_id = n_provider_message_id r,
      nr_sent_at = map_option to_iso_string (n_sent_at r),
      nr_delivered_at = map_option to_iso_string (n_delivered_at r),
      nr_read_at = map_option to_iso_string (n_read_at r),
      nr_failed_at = map_option to_iso_string (n_failed_at r),
      nr_failure_code = n_failure_code r, nr_failure_reason = n_failure_reason r,
      nr_metadata = n_metadata r, nr_created_at = to_iso_string (to_date (n_created_at r)),
      nr_updated_at = to_iso_string (to_date (n_updated_at r))\<rparr>"

record event_response =
  er_id :: uuid
  er_event_type :: string
  er_from_status :: "notification_status option"
  er_to_status :: "notification_status option"
  er_attempt_number :: "int option"
  er_payload :: "(string \<times> json) list"
  er_occurred_at :: string

definition to_notification_event_response :: "event \<Rightarrow> event_response" where
  "to_notification_event_response r =
     \<lparr>er_id = e_id r, er_event_type = e_event_type r, er_from_status = e_from_status r,
      er_to_status = e_to_status r, er_attempt_number = e_attempt_number r,
      er_payload = e_payload r, er_occurred_at = to_iso_string (to_date (e_occurred_at r))\<rparr>"

record page_response =
  pg_data :: "notification_response list"
  pg_next_cursor :: "string option"

definition to_page_response :: "notification list \<times> string option \<Rightarrow> page_response" where
  "to_page_response page =
     \<lparr>pg_data = map to_notification_response (fst page), pg_next_cursor = snd page\<rparr>"

record current_application_response =
  ca_id :: uuid
  ca_name :: string
  ca_slug :: string
  ca_status :: application_status
  ca_scopes :: "string list"

section \<open>Notifications\<close>

definition idempotency_key_pipe :: "string option \<Rightarrow> string option prog" where
  "idempotency_key_pipe supplied =
     zod_validation_pipe ''Idempotency-Key header'' idempotency_key_schema (map_option JStr supplied)"

definition to_creation_input ::
  "formats \<Rightarrow> uuid \<Rightarrow> message_request \<Rightarrow> string option \<Rightarrow> string \<Rightarrow> notification_request" where
  "to_creation_input fm application_id body idempotency_key request_path =
     \<lparr>rq_application_id = application_id, rq_body = mr_body body, rq_session_id = mr_session_id body,
      rq_scheduled_at = map_option (fm_read_date fm) (mr_scheduled_at body),
      rq_maximum_attempts = mr_maximum_attempts body, rq_metadata = mr_metadata body,
      rq_idempotency_key = idempotency_key, rq_request_path = request_path\<rparr>"

text \<open>The services take the correlation identifier of the scope the request runs in.\<close>

definition in_scope_of :: "http_runtime \<Rightarrow> http_input \<Rightarrow> request_runtime" where
  "in_scope_of ht h = (ht_requests ht)\<lparr>rr_correlation_id := Some (resolve_correlation_id h)\<rparr>"

definition replay_headers :: "bool \<Rightarrow> (string \<times> string) list" where
  "replay_headers was_replayed = (if was_replayed then [(''idempotent-replayed'', ''true'')] else [])"

definition accepted :: "(string \<times> string) list \<Rightarrow> 'b \<times> bool \<Rightarrow> 'b http_reply prog" where
  "accepted headers result =
     Done (answer 202 (headers @ replay_headers (snd result)) (fst result))"

definition notifications_create :: "http_runtime \<Rightarrow> http_input \<Rightarrow> notification_response http_reply prog" where
  "notifications_create ht h =
     receive ht h (\<lambda>headers content.
     with_api_key ht h headers [NOTIFICATIONS_WRITE] (\<lambda>headers caller.
     guarded ht h headers (zod_validation_pipe ''request body''
         (notification_creation_request_schema (ht_formats ht)) content) (\<lambda>(recipient, body).
     guarded ht h headers (idempotency_key_pipe (hi_idempotency_key h)) (\<lambda>idempotency_key.
     guarded ht h headers (create (ht_config ht) (in_scope_of ht h)
         (to_creation_input (ht_formats ht) (kp_application_id caller) body idempotency_key
            ''/v1/notifications'') recipient) (\<lambda>(n, was_replayed).
     accepted headers (to_notification_response n, was_replayed))))))"

definition notifications_create_batch ::
  "http_runtime \<Rightarrow> http_input \<Rightarrow> notification_response list http_reply prog" where
  "notifications_create_batch ht h =
     receive ht h (\<lambda>headers content.
     with_api_key ht h headers [NOTIFICATIONS_WRITE] (\<lambda>headers caller.
     guarded ht h headers (zod_validation_pipe ''request body''
         (notification_batch_creation_request_schema (ht_formats ht)) content) (\<lambda>(recipients, body).
     guarded ht h headers (idempotency_key_pipe (hi_idempotency_key h)) (\<lambda>idempotency_key.
     guarded ht h headers (create_batch (ht_config ht) (in_scope_of ht h)
         (to_creation_input (ht_formats ht) (kp_application_id caller) body idempotency_key
            ''/v1/notifications/batch'') recipients) (\<lambda>(ns, was_replayed).
     accepted headers (map to_notification_response ns, was_replayed))))))"

definition notifications_list :: "http_runtime \<Rightarrow> http_input \<Rightarrow> page_response http_reply prog" where
  "notifications_list ht h =
     receive ht h (\<lambda>headers content.
     with_api_key ht h headers [NOTIFICATIONS_READ] (\<lambda>headers caller.
     guarded ht h headers (zod_validation_pipe ''request body'' notification_list_query_schema
         (Some (hi_query h))) (\<lambda>query.
     reply_with ht h headers 200
       (bind (query_list (ht_cursors ht) (kp_application_id caller) query)
          (\<lambda>page. Done (to_page_response page))))))"

definition notifications_get ::
  "http_runtime \<Rightarrow> http_input \<Rightarrow> string \<Rightarrow> notification_response http_reply prog" where
  "notifications_get ht h notification_id_parameter =
     receive ht h (\<lambda>headers content.
     with_api_key ht h headers [NOTIFICATIONS_READ] (\<lambda>headers caller.
     guarded ht h headers (uuid_parameter_pipe (ht_formats ht) ''notificationId''
         notification_id_parameter) (\<lambda>notification_id.
     reply_with ht h headers 200
       (bind (get_or_fail (kp_application_id caller) notification_id)
          (\<lambda>n. Done (to_notification_response n))))))"

definition notifications_list_events ::
  "http_runtime \<Rightarrow> http_input \<Rightarrow> string \<Rightarrow> event_response list http_reply prog" where
  "notifications_list_events ht h notification_id_parameter =
     receive ht h (\<lambda>headers content.
     with_api_key ht h headers [NOTIFICATIONS_READ] (\<lambda>headers caller.
     guarded ht h headers (uuid_parameter_pipe (ht_formats ht) ''notificationId''
         notification_id_parameter) (\<lambda>notification_id.
     reply_with ht h headers 200
       (bind (query_list_events (kp_application_id caller) notification_id)
          (\<lambda>events. Done (map to_notification_event_response events))))))"

definition notifications_cancel ::
  "http_runtime \<Rightarrow> http_input \<Rightarrow> string \<Rightarrow> notification_response http_reply prog" where
  "notifications_cancel ht h notification_id_parameter =
     receive ht h (\<lambda>headers content.
     with_api_key ht h headers [NOTIFICATIONS_WRITE] (\<lambda>headers caller.
     guarded ht h headers (uuid_parameter_pipe (ht_formats ht) ''notificationId''
         notification_id_parameter) (\<lambda>notification_id.
     reply_with ht h headers 200
       (bind (cancel (ht_config ht) (Some (resolve_correlation_id h)) (kp_application_id caller)
          notification_id) (\<lambda>n. Done (to_notification_response n))))))"

section \<open>The application of a key\<close>

definition applications_current ::
  "http_runtime \<Rightarrow> http_input \<Rightarrow> current_application_response http_reply prog" where
  "applications_current ht h =
     receive ht h (\<lambda>headers content.
     with_api_key ht h headers [NOTIFICATIONS_READ] (\<lambda>headers caller.
     reply_with ht h headers 200
       (bind (get_application_or_fail (kp_organization_id caller) (kp_application_id caller)) (\<lambda>a.
        Done \<lparr>ca_id = ap_id a, ca_name = ap_name a, ca_slug = ap_slug a, ca_status = ap_status a,
              ca_scopes = kp_scopes caller\<rparr>))))"

section \<open>Callbacks of the provider\<close>

text \<open>No guard: the signature is the authentication. The answer is whether it was accepted.\<close>

definition ingestion_reply :: "(string \<times> string) list \<Rightarrow> ingestion_result \<Rightarrow> bool http_reply prog" where
  "ingestion_reply headers result =
     (case result of
        Rejected reason \<Rightarrow> Done (answer 401 headers False)
      | MalformedBody \<Rightarrow> Done (answer 400 headers False)
      | Accepted \<Rightarrow> Done (answer 202 headers True)
      | Duplicate \<Rightarrow> Done (answer 202 headers True))"

definition webhook_receive :: "http_runtime \<Rightarrow> http_input \<Rightarrow> string \<Rightarrow> bool http_reply prog" where
  "webhook_receive ht h session_id_parameter =
     receive ht h (\<lambda>headers content.
     guarded ht h headers (uuid_parameter_pipe (ht_formats ht) ''whatsAppSessionId''
         session_id_parameter) (\<lambda>session_id.
     case read_raw_body h of
       None \<Rightarrow> Done (answer 400 headers False)
     | Some raw_body \<Rightarrow>
         guarded ht h headers (ingest (ht_config ht) (ht_callbacks ht)
           \<lparr>ii_session_id = session_id, ii_raw_body = raw_body, ii_signature = hi_signature h,
            ii_timestamp_header = hi_timestamp h, ii_correlation_id = resolve_correlation_id h\<rparr>)
           (ingestion_reply headers)))"

end
