(* ===== verification/Dashboard_Api.thy ===== *)
theory Dashboard_Api
  imports Public_Api
begin

text \<open>
  The routes of \<open>apps/api/src/dashboard-api/\<close>, which a person reaches with a session cookie: signing up, in
  and out, applications, their API keys, notifications and WhatsApp connections. The person's
  organization decides what exists for them: every route below an application asks for the
  application in that organization first.
\<close>

section \<open>Sessions of people\<close>

record session_response =
  sn_user_id :: uuid
  sn_email :: string
  sn_name :: string
  sn_role :: user_role
  sn_organization_id :: uuid
  sn_organization_name :: string
  sn_organization_slug :: string
  sn_csrf_token :: string

definition to_session_response :: "http_runtime \<Rightarrow> authenticated_principal \<Rightarrow> session_response" where
  "to_session_response ht p =
     \<lparr>sn_user_id = pr_user_id p, sn_email = pr_email p, sn_name = pr_name p, sn_role = pr_role p,
      sn_organization_id = pr_organization_id p, sn_organization_name = pr_organization_name p,
      sn_organization_slug = pr_organization_slug p,
      sn_csrf_token = derive_csrf_token ht (pr_session_id p)\<rparr>"

definition session_cookie_of :: "http_runtime \<Rightarrow> established_session \<Rightarrow> session_cookie" where
  "session_cookie_of ht established =
     SetCookie (ht_session_cookie_name ht) (es_token established) (ht_cookie_secure ht)
       (es_expires_at established)"

definition signed_in ::
  "http_runtime \<Rightarrow> int \<Rightarrow> (string \<times> string) list \<Rightarrow> established_session \<Rightarrow> session_response http_reply prog"
where
  "signed_in ht status headers established =
     Done ((answer status headers (to_session_response ht (es_principal established)))
       \<lparr>rp_cookie := Some (session_cookie_of ht established)\<rparr>)"

definition auth_register :: "http_runtime \<Rightarrow> http_input \<Rightarrow> session_response http_reply prog" where
  "auth_register ht h =
     receive ht h (\<lambda>headers content.
     with_credential_limit ht h headers ''register'' registration_policy (\<lambda>headers.
     guarded ht h headers (zod_validation_pipe ''request body''
         (register_request_schema (ht_formats ht)) content) (\<lambda>body.
     guarded ht h headers (register (ht_config ht) (ht_auth ht) body) (signed_in ht 201 headers))))"

definition auth_login :: "http_runtime \<Rightarrow> http_input \<Rightarrow> session_response http_reply prog" where
  "auth_login ht h =
     receive ht h (\<lambda>headers content.
     with_credential_limit ht h headers ''signin'' sign_in_policy (\<lambda>headers.
     guarded ht h headers (zod_validation_pipe ''request body''
         (login_request_schema (ht_formats ht)) content) (\<lambda>(email, password).
     guarded ht h headers (login (ht_config ht) (ht_auth ht)
         \<lparr>li_email = email, li_password = password, li_ip_address = Some (hi_ip h),
          li_user_agent = hi_user_agent h\<rparr>) (signed_in ht 200 headers))))"

definition auth_logout :: "http_runtime \<Rightarrow> http_input \<Rightarrow> unit http_reply prog" where
  "auth_logout ht h =
     receive ht h (\<lambda>headers content.
     with_session ht h headers (\<lambda>caller.
     guarded ht h headers (logout (pr_session_id caller)) (\<lambda>_.
     Done ((answer 204 headers ())\<lparr>rp_cookie := Some (ClearCookie (ht_session_cookie_name ht))\<rparr>))))"

definition auth_session :: "http_runtime \<Rightarrow> http_input \<Rightarrow> session_response http_reply prog" where
  "auth_session ht h =
     receive ht h (\<lambda>headers content.
     with_session ht h headers (\<lambda>caller.
     reply_with ht h headers 200 (Done (to_session_response ht caller))))"

section \<open>Applications\<close>

record application_response =
  as_id :: uuid
  as_name :: string
  as_slug :: string
  as_status :: application_status
  as_rate_limit_per_minute :: int
  as_rate_limit_burst :: int
  as_daily_send_limit :: "int option"
  as_default_maximum_attempts :: int
  as_created_at :: string
  as_updated_at :: string

definition to_application_response :: "application \<Rightarrow> application_response" where
  "to_application_response r =
     \<lparr>as_id = ap_id r, as_name = ap_name r, as_slug = ap_slug r, as_status = ap_status r,
      as_rate_limit_per_minute = ap_rate_limit_per_minute r,
      as_rate_limit_burst = ap_rate_limit_burst r, as_daily_send_limit = ap_daily_send_limit r,
      as_default_maximum_attempts = ap_default_maximum_attempts r,
      as_created_at = to_iso_string (to_date (ap_created_at r)),
      as_updated_at = to_iso_string (to_date (ap_updated_at r))\<rparr>"

definition applications_list :: "http_runtime \<Rightarrow> http_input \<Rightarrow> application_response list http_reply prog" where
  "applications_list ht h =
     receive ht h (\<lambda>headers content.
     with_session ht h headers (\<lambda>caller.
     reply_with ht h headers 200
       (bind (list_applications (pr_organization_id caller))
          (\<lambda>rs. Done (map to_application_response rs)))))"

definition applications_create :: "http_runtime \<Rightarrow> http_input \<Rightarrow> application_response http_reply prog" where
  "applications_create ht h =
     receive ht h (\<lambda>headers content.
     with_session ht h headers (\<lambda>caller.
     guarded ht h headers (zod_validation_pipe ''request body''
         application_creation_request_schema content) (\<lambda>(name, slug).
     reply_with ht h headers 201
       (bind (create_application (ht_config ht)
          \<lparr>nv_organization_id = pr_organization_id caller, nv_name = name, nv_slug = slug\<rparr>)
          (\<lambda>r. Done (to_application_response r))))))"

text \<open>The pipe of the path parameter every route below an application has.\<close>

definition with_application_id ::
  "http_runtime \<Rightarrow> http_input \<Rightarrow> (string \<times> string) list \<Rightarrow> string
     \<Rightarrow> (uuid \<Rightarrow> 'b http_reply prog) \<Rightarrow> 'b http_reply prog"
where
  "with_application_id ht h headers parameter k =
     guarded ht h headers (uuid_parameter_pipe (ht_formats ht) ''applicationId'' parameter) k"

definition applications_get ::
  "http_runtime \<Rightarrow> http_input \<Rightarrow> string \<Rightarrow> application_response http_reply prog" where
  "applications_get ht h application_parameter =
     receive ht h (\<lambda>headers content.
     with_session ht h headers (\<lambda>caller.
     with_application_id ht h headers application_parameter (\<lambda>application_id.
     reply_with ht h headers 200
       (bind (get_application_or_fail (pr_organization_id caller) application_id)
          (\<lambda>r. Done (to_application_response r))))))"

definition applications_update ::
  "http_runtime \<Rightarrow> http_input \<Rightarrow> string \<Rightarrow> application_response http_reply prog" where
  "applications_update ht h application_parameter =
     receive ht h (\<lambda>headers content.
     with_session ht h headers (\<lambda>caller.
     with_application_id ht h headers application_parameter (\<lambda>application_id.
     guarded ht h headers (zod_validation_pipe ''request body''
         update_application_request_schema content) (\<lambda>body.
     reply_with ht h headers 200
       (bind (update_application (pr_organization_id caller) application_id body)
          (\<lambda>r. Done (to_application_response r)))))))"

definition applications_archive :: "http_runtime \<Rightarrow> http_input \<Rightarrow> string \<Rightarrow> unit http_reply prog" where
  "applications_archive ht h application_parameter =
     receive ht h (\<lambda>headers content.
     with_session ht h headers (\<lambda>caller.
     with_application_id ht h headers application_parameter (\<lambda>application_id.
     reply_with ht h headers 204
       (archive_application (pr_organization_id caller) application_id))))"

section \<open>API keys\<close>

record api_key_response =
  kr_id :: uuid
  kr_name :: string
  kr_display_prefix :: string
  kr_last_four :: string
  kr_scopes :: "string list"
  kr_created_at :: string
  kr_last_used_at :: "string option"
  kr_expires_at :: "string option"
  kr_revoked_at :: "string option"

definition to_api_key_response :: "api_key \<Rightarrow> api_key_response" where
  "to_api_key_response r =
     \<lparr>kr_id = ak_id r, kr_name = ak_name r, kr_display_prefix = ak_key_prefix r,
      kr_last_four = ak_last_four r, kr_scopes = ak_scopes r,
      kr_created_at = to_iso_string (to_date (ak_created_at r)),
      kr_last_used_at = map_option to_iso_string (ak_last_used_at r),
      kr_expires_at = map_option to_iso_string (ak_expires_at r),
      kr_revoked_at = map_option to_iso_string (ak_revoked_at r)\<rparr>"

definition authorize :: "authenticated_principal \<Rightarrow> uuid \<Rightarrow> unit prog" where
  "authorize caller application_id =
     bind (get_application_or_fail (pr_organization_id caller) application_id) (\<lambda>_. Done ())"

text \<open>The routes with a second path parameter: both pipes, the application, then the row.\<close>

definition with_row_id ::
  "http_runtime \<Rightarrow> http_input \<Rightarrow> string \<Rightarrow> string \<Rightarrow> string \<Rightarrow> int
     \<Rightarrow> (authenticated_principal \<Rightarrow> uuid \<Rightarrow> uuid \<Rightarrow> 'b prog) \<Rightarrow> 'b http_reply prog"
where
  "with_row_id ht h application_parameter parameter_name parameter status handler =
     receive ht h (\<lambda>headers content.
     with_session ht h headers (\<lambda>caller.
     with_application_id ht h headers application_parameter (\<lambda>application_id.
     guarded ht h headers (uuid_parameter_pipe (ht_formats ht) parameter_name parameter) (\<lambda>row_id.
     reply_with ht h headers status
       (bind (authorize caller application_id) (\<lambda>_. handler caller application_id row_id))))))"

definition api_keys_list ::
  "http_runtime \<Rightarrow> http_input \<Rightarrow> string \<Rightarrow> api_key_response list http_reply prog" where
  "api_keys_list ht h application_parameter =
     receive ht h (\<lambda>headers content.
     with_session ht h headers (\<lambda>caller.
     with_application_id ht h headers application_parameter (\<lambda>application_id.
     reply_with ht h headers 200
       (bind (authorize caller application_id) (\<lambda>_.
        bind (list_keys application_id) (\<lambda>rs. Done (map to_api_key_response rs)))))))"

text \<open>The key the generator made is an argument, as the bytes it drew.\<close>

definition api_keys_create ::
  "http_runtime \<Rightarrow> generated_api_key \<Rightarrow> http_input \<Rightarrow> string
     \<Rightarrow> (api_key_response \<times> string) http_reply prog" where
  "api_keys_create ht generated h application_parameter =
     receive ht h (\<lambda>headers content.
     with_session ht h headers (\<lambda>caller.
     with_application_id ht h headers application_parameter (\<lambda>application_id.
     guarded ht h headers (zod_validation_pipe ''request body''
         (api_key_creation_request_schema (ht_formats ht)) content) (\<lambda>body.
     reply_with ht h headers 201
       (bind (authorize caller application_id) (\<lambda>_.
        bind (issue_key (ht_config ht)
          \<lparr>ck_application_id = application_id, ck_name = kq_name body, ck_scopes = kq_scopes body,
           ck_created_by_user_id = Some (pr_user_id caller),
           ck_expires_at = map_option (fm_read_date (ht_formats ht)) (kq_expires_at body)\<rparr> generated)
          (\<lambda>(r, plaintext_key). Done (to_api_key_response r, plaintext_key))))))))"

definition api_keys_revoke ::
  "http_runtime \<Rightarrow> http_input \<Rightarrow> string \<Rightarrow> string \<Rightarrow> unit http_reply prog" where
  "api_keys_revoke ht h application_parameter parameter =
     with_row_id ht h application_parameter ''apiKeyId'' parameter 204 (\<lambda>caller. revoke_key)"

section \<open>Notifications\<close>

definition dashboard_notifications_list ::
  "http_runtime \<Rightarrow> http_input \<Rightarrow> string \<Rightarrow> page_response http_reply prog" where
  "dashboard_notifications_list ht h application_parameter =
     receive ht h (\<lambda>headers content.
     with_session ht h headers (\<lambda>caller.
     with_application_id ht h headers application_parameter (\<lambda>application_id.
     guarded ht h headers (zod_validation_pipe ''request body'' notification_list_query_schema
         (Some (hi_query h))) (\<lambda>query.
     reply_with ht h headers 200
       (bind (authorize caller application_id) (\<lambda>_.
        bind (query_list (ht_cursors ht) application_id query)
          (\<lambda>page. Done (to_page_response page))))))))"

definition dashboard_notifications_create ::
  "http_runtime \<Rightarrow> http_input \<Rightarrow> string \<Rightarrow> notification_response http_reply prog" where
  "dashboard_notifications_create ht h application_parameter =
     receive ht h (\<lambda>headers content.
     with_session ht h headers (\<lambda>caller.
     with_application_id ht h headers application_parameter (\<lambda>application_id.
     guarded ht h headers (zod_validation_pipe ''request body''
         (notification_creation_request_schema (ht_formats ht)) content) (\<lambda>(recipient, body).
     reply_with ht h headers 202
       (bind (authorize caller application_id) (\<lambda>_.
        bind (create (ht_config ht) (in_scope_of ht h)
          (to_creation_input (ht_formats ht) application_id body None
             (''/dashboard/applications/'' @ application_id @ ''/notifications'')) recipient)
          (\<lambda>(n, was_replayed). Done (to_notification_response n))))))))"

definition dashboard_notifications_cancel_waiting ::
  "http_runtime \<Rightarrow> http_input \<Rightarrow> string \<Rightarrow> int http_reply prog" where
  "dashboard_notifications_cancel_waiting ht h application_parameter =
     receive ht h (\<lambda>headers content.
     with_session ht h headers (\<lambda>caller.
     with_application_id ht h headers application_parameter (\<lambda>application_id.
     guarded ht h headers (zod_validation_pipe ''request body''
         (waiting_notification_cancellation_request_schema (ht_formats ht)) content) (\<lambda>session_id.
     reply_with ht h headers 200
       (bind (authorize caller application_id) (\<lambda>_.
        cancel_waiting (ht_config ht) (Some (resolve_correlation_id h)) application_id session_id))))))"

definition dashboard_notifications_get ::
  "http_runtime \<Rightarrow> http_input \<Rightarrow> string \<Rightarrow> string \<Rightarrow> notification_response http_reply prog" where
  "dashboard_notifications_get ht h application_parameter parameter =
     with_row_id ht h application_parameter ''notificationId'' parameter 200
       (\<lambda>caller application_id notification_id.
        bind (get_or_fail application_id notification_id) (\<lambda>n. Done (to_notification_response n)))"

definition dashboard_notifications_list_events ::
  "http_runtime \<Rightarrow> http_input \<Rightarrow> string \<Rightarrow> string \<Rightarrow> event_response list http_reply prog" where
  "dashboard_notifications_list_events ht h application_parameter parameter =
     with_row_id ht h application_parameter ''notificationId'' parameter 200
       (\<lambda>caller application_id notification_id.
        bind (query_list_events application_id notification_id)
          (\<lambda>events. Done (map to_notification_event_response events)))"

definition dashboard_notifications_cancel ::
  "http_runtime \<Rightarrow> http_input \<Rightarrow> string \<Rightarrow> string \<Rightarrow> notification_response http_reply prog" where
  "dashboard_notifications_cancel ht h application_parameter parameter =
     with_row_id ht h application_parameter ''notificationId'' parameter 200
       (\<lambda>caller application_id notification_id.
        bind (cancel (ht_config ht) (Some (resolve_correlation_id h)) application_id notification_id)
          (\<lambda>n. Done (to_notification_response n)))"

section \<open>WhatsApp connections\<close>

record account_limits_response =
  lr_reachout_timelock :: "stored_timelock option"
  lr_new_chat_quota :: "stored_quota option"
  lr_checked_at :: "string option"

definition to_account_limits_response :: "session \<Rightarrow> account_limits_response option" where
  "to_account_limits_response r =
     (if s_account_limits r = None \<and> s_account_limits_checked_at r = None then None
      else Some
        \<lparr>lr_reachout_timelock = Option.bind (s_account_limits r) sl_reachout_timelock,
         lr_new_chat_quota = Option.bind (s_account_limits r) sl_new_chat_quota,
         lr_checked_at = map_option to_iso_string (s_account_limits_checked_at r)\<rparr>)"

record connection_response =
  cn_id :: uuid
  cn_display_name :: string
  cn_status :: provider_session_status
  cn_phone_number :: "string option"
  cn_push_name :: "string option"
  cn_last_error :: "string option"
  cn_sending_paused_until :: "string option"
  cn_sending_paused_reason :: "sending_pause_reason option"
  cn_account_limits :: "account_limits_response option"
  cn_last_status_at :: string
  cn_created_at :: string

definition to_connection_response :: "session \<Rightarrow> connection_response" where
  "to_connection_response r =
     \<lparr>cn_id = s_id r, cn_display_name = s_display_name r, cn_status = s_status r,
      cn_phone_number = s_phone_number r, cn_push_name = s_push_name r,
      cn_last_error = s_last_error r,
      cn_sending_paused_until = map_option to_iso_string (s_sending_paused_until r),
      cn_sending_paused_reason = s_sending_paused_reason r,
      cn_account_limits = to_account_limits_response r,
      cn_last_status_at = to_iso_string (to_date (s_last_status_at r)),
      cn_created_at = to_iso_string (to_date (s_created_at r))\<rparr>"

definition connections_list ::
  "http_runtime \<Rightarrow> http_input \<Rightarrow> string \<Rightarrow> connection_response list http_reply prog" where
  "connections_list ht h application_parameter =
     receive ht h (\<lambda>headers content.
     with_session ht h headers (\<lambda>caller.
     with_application_id ht h headers application_parameter (\<lambda>application_id.
     reply_with ht h headers 200
       (bind (authorize caller application_id) (\<lambda>_.
        bind (list_connections application_id) (\<lambda>rs. Done (map to_connection_response rs)))))))"

definition connections_create ::
  "http_runtime \<Rightarrow> http_input \<Rightarrow> string \<Rightarrow> connection_response http_reply prog" where
  "connections_create ht h application_parameter =
     receive ht h (\<lambda>headers content.
     with_session ht h headers (\<lambda>caller.
     with_application_id ht h headers application_parameter (\<lambda>application_id.
     guarded ht h headers (zod_validation_pipe ''request body''
         whatsapp_session_creation_request_schema content) (\<lambda>display_name.
     reply_with ht h headers 201
       (bind (authorize caller application_id) (\<lambda>_.
        bind (create_connection (ht_config ht) (ht_connections ht)
          \<lparr>cc_application_id = application_id, cc_display_name = display_name\<rparr>)
          (\<lambda>r. Done (to_connection_response r))))))))"

definition connections_get ::
  "http_runtime \<Rightarrow> http_input \<Rightarrow> string \<Rightarrow> string \<Rightarrow> connection_response http_reply prog" where
  "connections_get ht h application_parameter parameter =
     with_row_id ht h application_parameter ''whatsAppSessionId'' parameter 200
       (\<lambda>caller application_id session_id.
        bind (get_connection (ht_config ht) application_id session_id)
          (\<lambda>r. Done (to_connection_response r)))"

definition connections_get_qr_code ::
  "http_runtime \<Rightarrow> http_input \<Rightarrow> string \<Rightarrow> string \<Rightarrow> provider_qr_code http_reply prog" where
  "connections_get_qr_code ht h application_parameter parameter =
     with_row_id ht h application_parameter ''whatsAppSessionId'' parameter 200
       (\<lambda>caller. get_connection_qr_code (ht_config ht))"

definition connections_start ::
  "http_runtime \<Rightarrow> http_input \<Rightarrow> string \<Rightarrow> string \<Rightarrow> connection_response http_reply prog" where
  "connections_start ht h application_parameter parameter =
     with_row_id ht h application_parameter ''whatsAppSessionId'' parameter 200
       (\<lambda>caller application_id session_id.
        bind (start_connection (ht_connections ht) application_id session_id)
          (\<lambda>r. Done (to_connection_response r)))"

definition connections_stop ::
  "http_runtime \<Rightarrow> http_input \<Rightarrow> string \<Rightarrow> string \<Rightarrow> connection_response http_reply prog" where
  "connections_stop ht h application_parameter parameter =
     with_row_id ht h application_parameter ''whatsAppSessionId'' parameter 200
       (\<lambda>caller application_id session_id.
        bind (stop_connection application_id session_id) (\<lambda>r. Done (to_connection_response r)))"

definition connections_logout ::
  "http_runtime \<Rightarrow> http_input \<Rightarrow> string \<Rightarrow> string \<Rightarrow> connection_response http_reply prog" where
  "connections_logout ht h application_parameter parameter =
     with_row_id ht h application_parameter ''whatsAppSessionId'' parameter 200
       (\<lambda>caller application_id session_id.
        bind (logout_connection application_id session_id) (\<lambda>r. Done (to_connection_response r)))"

definition connections_remove ::
  "http_runtime \<Rightarrow> http_input \<Rightarrow> string \<Rightarrow> string \<Rightarrow> unit http_reply prog" where
  "connections_remove ht h application_parameter parameter =
     with_row_id ht h application_parameter ''whatsAppSessionId'' parameter 204
       (\<lambda>caller. delete_connection)"

end
