(* ===== verification/Api_Routes.thy ===== *)
theory Api_Routes
  imports Dashboard_Api
begin

text \<open>
  The API as one program: the routes of \<open>apps/api/src/api.module.ts\<close>, each with the method and the path its
  decorators give it, the probes of \<open>health/health.controller.ts\<close>, and the handler each of them has.
  A fixed segment of a path goes before a parameter. The document of the API, a constant, is left
  out.
\<close>

section \<open>Routes\<close>

datatype route =
    Liveness | Readiness
  | PostNotification | PostNotificationBatch | GetNotifications
  | GetNotification string | GetNotificationEvents string | PostNotificationCancel string
  | GetCurrentApplication
  | PostCallback string
  | PostRegister | PostLogin | PostLogout | GetSessionRoute
  | GetApplications | PostApplication
  | GetApplication string | PatchApplication string | DeleteApplication string
  | GetApiKeys string | PostApiKey string | DeleteApiKey string string
  | DashboardGetNotifications string | DashboardPostNotification string
  | DashboardPostCancelWaiting string
  | DashboardGetNotification string string | DashboardGetNotificationEvents string string
  | DashboardPostNotificationCancel string string
  | GetConnections string | PostConnection string
  | GetConnection string string | GetConnectionQrCode string string
  | PostConnectionStart string string | PostConnectionStop string string
  | PostConnectionLogout string string | DeleteConnection string string

datatype path_segment = Fixed string | Param

fun fits :: "path_segment list \<Rightarrow> string list \<Rightarrow> bool" where
  "fits [] [] = True"
| "fits (Fixed name # ps) (x # xs) = (x = name \<and> fits ps xs)"
| "fits (Param # ps) (x # xs) = fits ps xs"
| "fits _ _ = False"

fun path_parameters :: "path_segment list \<Rightarrow> string list \<Rightarrow> string list" where
  "path_parameters (Param # ps) (x # xs) = x # path_parameters ps xs"
| "path_parameters (Fixed name # ps) (x # xs) = path_parameters ps xs"
| "path_parameters _ _ = []"

definition routes :: "(string \<times> path_segment list \<times> (string list \<Rightarrow> route)) list" where
  "routes =
     [(''GET'', [Fixed ''health''],
        \<lambda>_. Liveness),
      (''GET'', [Fixed ''ready''],
        \<lambda>_. Readiness),
      (''POST'', [Fixed ''v1'', Fixed ''notifications''],
        \<lambda>_. PostNotification),
      (''POST'', [Fixed ''v1'', Fixed ''notifications'', Fixed ''batch''],
        \<lambda>_. PostNotificationBatch),
      (''GET'', [Fixed ''v1'', Fixed ''notifications''],
        \<lambda>_. GetNotifications),
      (''GET'', [Fixed ''v1'', Fixed ''notifications'', Param],
        \<lambda>ps. GetNotification (ps ! 0)),
      (''GET'', [Fixed ''v1'', Fixed ''notifications'', Param, Fixed ''events''],
        \<lambda>ps. GetNotificationEvents (ps ! 0)),
      (''POST'', [Fixed ''v1'', Fixed ''notifications'', Param, Fixed ''cancel''],
        \<lambda>ps. PostNotificationCancel (ps ! 0)),
      (''GET'', [Fixed ''v1'', Fixed ''applications'', Fixed ''current''],
        \<lambda>_. GetCurrentApplication),
      (''POST'', [Fixed ''webhooks'', Fixed ''whatsapp'', Param],
        \<lambda>ps. PostCallback (ps ! 0)),
      (''POST'', [Fixed ''dashboard'', Fixed ''auth'', Fixed ''register''],
        \<lambda>_. PostRegister),
      (''POST'', [Fixed ''dashboard'', Fixed ''auth'', Fixed ''login''],
        \<lambda>_. PostLogin),
      (''POST'', [Fixed ''dashboard'', Fixed ''auth'', Fixed ''logout''],
        \<lambda>_. PostLogout),
      (''GET'', [Fixed ''dashboard'', Fixed ''auth'', Fixed ''session''],
        \<lambda>_. GetSessionRoute),
      (''GET'', [Fixed ''dashboard'', Fixed ''applications''],
        \<lambda>_. GetApplications),
      (''POST'', [Fixed ''dashboard'', Fixed ''applications''],
        \<lambda>_. PostApplication),
      (''GET'', [Fixed ''dashboard'', Fixed ''applications'', Param],
        \<lambda>ps. GetApplication (ps ! 0)),
      (''PATCH'', [Fixed ''dashboard'', Fixed ''applications'', Param],
        \<lambda>ps. PatchApplication (ps ! 0)),
      (''DELETE'', [Fixed ''dashboard'', Fixed ''applications'', Param],
        \<lambda>ps. DeleteApplication (ps ! 0)),
      (''GET'', [Fixed ''dashboard'', Fixed ''applications'', Param, Fixed ''api-keys''],
        \<lambda>ps. GetApiKeys (ps ! 0)),
      (''POST'', [Fixed ''dashboard'', Fixed ''applications'', Param, Fixed ''api-keys''],
        \<lambda>ps. PostApiKey (ps ! 0)),
      (''DELETE'', [Fixed ''dashboard'', Fixed ''applications'', Param, Fixed ''api-keys'', Param],
        \<lambda>ps. DeleteApiKey (ps ! 0) (ps ! 1)),
      (''GET'', [Fixed ''dashboard'', Fixed ''applications'', Param, Fixed ''notifications''],
        \<lambda>ps. DashboardGetNotifications (ps ! 0)),
      (''POST'', [Fixed ''dashboard'', Fixed ''applications'', Param, Fixed ''notifications''],
        \<lambda>ps. DashboardPostNotification (ps ! 0)),
      (''POST'', [Fixed ''dashboard'', Fixed ''applications'', Param, Fixed ''notifications'', Fixed ''cancel-waiting''],
        \<lambda>ps. DashboardPostCancelWaiting (ps ! 0)),
      (''GET'', [Fixed ''dashboard'', Fixed ''applications'', Param, Fixed ''notifications'', Param],
        \<lambda>ps. DashboardGetNotification (ps ! 0) (ps ! 1)),
      (''GET'', [Fixed ''dashboard'', Fixed ''applications'', Param, Fixed ''notifications'', Param, Fixed ''events''],
        \<lambda>ps. DashboardGetNotificationEvents (ps ! 0) (ps ! 1)),
      (''POST'', [Fixed ''dashboard'', Fixed ''applications'', Param, Fixed ''notifications'', Param, Fixed ''cancel''],
        \<lambda>ps. DashboardPostNotificationCancel (ps ! 0) (ps ! 1)),
      (''GET'', [Fixed ''dashboard'', Fixed ''applications'', Param, Fixed ''whatsapp-sessions''],
        \<lambda>ps. GetConnections (ps ! 0)),
      (''POST'', [Fixed ''dashboard'', Fixed ''applications'', Param, Fixed ''whatsapp-sessions''],
        \<lambda>ps. PostConnection (ps ! 0)),
      (''GET'', [Fixed ''dashboard'', Fixed ''applications'', Param, Fixed ''whatsapp-sessions'', Param],
        \<lambda>ps. GetConnection (ps ! 0) (ps ! 1)),
      (''GET'', [Fixed ''dashboard'', Fixed ''applications'', Param, Fixed ''whatsapp-sessions'', Param, Fixed ''qr-code''],
        \<lambda>ps. GetConnectionQrCode (ps ! 0) (ps ! 1)),
      (''POST'', [Fixed ''dashboard'', Fixed ''applications'', Param, Fixed ''whatsapp-sessions'', Param, Fixed ''start''],
        \<lambda>ps. PostConnectionStart (ps ! 0) (ps ! 1)),
      (''POST'', [Fixed ''dashboard'', Fixed ''applications'', Param, Fixed ''whatsapp-sessions'', Param, Fixed ''stop''],
        \<lambda>ps. PostConnectionStop (ps ! 0) (ps ! 1)),
      (''POST'', [Fixed ''dashboard'', Fixed ''applications'', Param, Fixed ''whatsapp-sessions'', Param, Fixed ''logout''],
        \<lambda>ps. PostConnectionLogout (ps ! 0) (ps ! 1)),
      (''DELETE'', [Fixed ''dashboard'', Fixed ''applications'', Param, Fixed ''whatsapp-sessions'', Param],
        \<lambda>ps. DeleteConnection (ps ! 0) (ps ! 1))]"

definition route_of :: "string \<Rightarrow> string list \<Rightarrow> route option" where
  "route_of verb segments =
     map_option (\<lambda>(_, pattern, make). make (path_parameters pattern segments))
       (find (\<lambda>(v, pattern, _). v = verb \<and> fits pattern segments) routes)"

section \<open>Probes\<close>

text \<open>Whether the database and the queue answered, which is theirs.\<close>

record probe_results =
  pb_database_up :: bool
  pb_queue_up :: bool

definition readiness :: "probe_results \<Rightarrow> int \<times> bool" where
  "readiness checks =
     (let is_ready = pb_database_up checks \<and> pb_queue_up checks
      in (if is_ready then 200 else 503, is_ready))"

section \<open>Serving\<close>

datatype payload =
    ProbePayload bool
  | NotificationPayload notification_response
  | NotificationsPayload "notification_response list"
  | PagePayload page_response
  | EventsPayload "event_response list"
  | CurrentApplicationPayload current_application_response
  | AcceptedPayload bool
  | SessionPayload session_response
  | NoPayload
  | ApplicationPayload application_response
  | ApplicationsPayload "application_response list"
  | ApiKeysPayload "api_key_response list"
  | CreatedKeyPayload api_key_response string
  | CancelledCountPayload int
  | ConnectionPayload connection_response
  | ConnectionsPayload "connection_response list"
  | QrCodePayload provider_qr_code

fun wrap_body :: "('a \<Rightarrow> 'b) \<Rightarrow> 'a reply_body \<Rightarrow> 'b reply_body" where
  "wrap_body f (Payload x) = Payload (f x)"
| "wrap_body f (ProblemBody problem) = ProblemBody problem"

definition wrap :: "('a \<Rightarrow> payload) \<Rightarrow> 'a http_reply prog \<Rightarrow> payload http_reply prog" where
  "wrap f p = bind p (\<lambda>reply. Done
     \<lparr>rp_status = rp_status reply, rp_headers = rp_headers reply, rp_cookie = rp_cookie reply,
      rp_body = wrap_body f (rp_body reply)\<rparr>)"

text \<open>
  A probe reads nothing of the state; a key that is asked for comes with the bytes the generator
  drew.
\<close>

record draws =
  dr_generated_key :: generated_api_key
  dr_probes :: probe_results

fun serve :: "http_runtime \<Rightarrow> draws \<Rightarrow> http_input \<Rightarrow> route \<Rightarrow> payload http_reply prog" where
  "serve ht dr h Liveness = receive ht h (\<lambda>headers _. Done (answer 200 headers (ProbePayload True)))"
| "serve ht dr h Readiness =
     receive ht h (\<lambda>headers _. Done (answer (fst (readiness (dr_probes dr))) headers
       (ProbePayload (snd (readiness (dr_probes dr))))))"
| "serve ht dr h PostNotification = wrap NotificationPayload (notifications_create ht h)"
| "serve ht dr h PostNotificationBatch = wrap NotificationsPayload (notifications_create_batch ht h)"
| "serve ht dr h GetNotifications = wrap PagePayload (notifications_list ht h)"
| "serve ht dr h (GetNotification i) = wrap NotificationPayload (notifications_get ht h i)"
| "serve ht dr h (GetNotificationEvents i) = wrap EventsPayload (notifications_list_events ht h i)"
| "serve ht dr h (PostNotificationCancel i) = wrap NotificationPayload (notifications_cancel ht h i)"
| "serve ht dr h GetCurrentApplication = wrap CurrentApplicationPayload (applications_current ht h)"
| "serve ht dr h (PostCallback i) = wrap AcceptedPayload (webhook_receive ht h i)"
| "serve ht dr h PostRegister = wrap SessionPayload (auth_register ht h)"
| "serve ht dr h PostLogin = wrap SessionPayload (auth_login ht h)"
| "serve ht dr h PostLogout = wrap (\<lambda>_. NoPayload) (auth_logout ht h)"
| "serve ht dr h GetSessionRoute = wrap SessionPayload (auth_session ht h)"
| "serve ht dr h GetApplications = wrap ApplicationsPayload (applications_list ht h)"
| "serve ht dr h PostApplication = wrap ApplicationPayload (applications_create ht h)"
| "serve ht dr h (GetApplication a) = wrap ApplicationPayload (applications_get ht h a)"
| "serve ht dr h (PatchApplication a) = wrap ApplicationPayload (applications_update ht h a)"
| "serve ht dr h (DeleteApplication a) = wrap (\<lambda>_. NoPayload) (applications_archive ht h a)"
| "serve ht dr h (GetApiKeys a) = wrap ApiKeysPayload (api_keys_list ht h a)"
| "serve ht dr h (PostApiKey a) =
     wrap (\<lambda>(k, plaintext_key). CreatedKeyPayload k plaintext_key)
       (api_keys_create ht (dr_generated_key dr) h a)"
| "serve ht dr h (DeleteApiKey a i) = wrap (\<lambda>_. NoPayload) (api_keys_revoke ht h a i)"
| "serve ht dr h (DashboardGetNotifications a) = wrap PagePayload (dashboard_notifications_list ht h a)"
| "serve ht dr h (DashboardPostNotification a) =
     wrap NotificationPayload (dashboard_notifications_create ht h a)"
| "serve ht dr h (DashboardPostCancelWaiting a) =
     wrap CancelledCountPayload (dashboard_notifications_cancel_waiting ht h a)"
| "serve ht dr h (DashboardGetNotification a i) =
     wrap NotificationPayload (dashboard_notifications_get ht h a i)"
| "serve ht dr h (DashboardGetNotificationEvents a i) =
     wrap EventsPayload (dashboard_notifications_list_events ht h a i)"
| "serve ht dr h (DashboardPostNotificationCancel a i) =
     wrap NotificationPayload (dashboard_notifications_cancel ht h a i)"
| "serve ht dr h (GetConnections a) = wrap ConnectionsPayload (connections_list ht h a)"
| "serve ht dr h (PostConnection a) = wrap ConnectionPayload (connections_create ht h a)"
| "serve ht dr h (GetConnection a i) = wrap ConnectionPayload (connections_get ht h a i)"
| "serve ht dr h (GetConnectionQrCode a i) = wrap QrCodePayload (connections_get_qr_code ht h a i)"
| "serve ht dr h (PostConnectionStart a i) = wrap ConnectionPayload (connections_start ht h a i)"
| "serve ht dr h (PostConnectionStop a i) = wrap ConnectionPayload (connections_stop ht h a i)"
| "serve ht dr h (PostConnectionLogout a i) = wrap ConnectionPayload (connections_logout ht h a i)"
| "serve ht dr h (DeleteConnection a i) = wrap (\<lambda>_. NoPayload) (connections_remove ht h a i)"

end
