(* ===== verification/Http_Safety.thy ===== *)
theory Http_Safety
  imports Api_Routes
begin

text \<open>
  Every request is answered. The services throw domain errors whose codes the filter's table has, or
  exceptions it answers with one constant text, so the filter never throws itself: for every service
  this is a frame in which only the exceptions matter, and the routes inherit it guard by guard.
\<close>

section \<open>Exceptions the filter can answer\<close>

definition answerable :: "exn \<Rightarrow> bool" where
  "answerable e =
     (case e of DomainError code message \<Rightarrow> map_of status_by_domain_error_code code \<noteq> None
              | HttpException status error message \<Rightarrow> 400 \<le> status \<and> status < 500
              | _ \<Rightarrow> True)"

lemma answerable_plain [simp]:
  "answerable (ThrownError m)" "answerable RangeError" "answerable (ConstraintViolation n)"
  "answerable (InvalidPhoneNumberError v)"
  "answerable (HttpException status error m) \<longleftrightarrow> 400 \<le> status \<and> status < 500"
  by (simp_all add: answerable_def)

lemma answerable_codes [simp]:
  "answerable (DomainError ''email_already_registered'' m)"
  "answerable (DomainError ''invalid_credentials'' m)"
  "answerable (DomainError ''account_locked'' m)"
  "answerable (DomainError ''account_disabled'' m)"
  "answerable (DomainError ''registration_disabled'' m)"
  "answerable (DomainError ''application_slug_taken'' m)"
  "answerable (DomainError ''application_not_found'' m)"
  "answerable (DomainError ''api_key_not_found'' m)"
  "answerable (DomainError ''invalid_schedule'' m)"
  "answerable (DomainError ''no_whatsapp_session'' m)"
  "answerable (DomainError ''whatsapp_session_not_found'' m)"
  "answerable (DomainError ''whatsapp_session_not_scannable'' m)"
  "answerable (DomainError ''whatsapp_session_in_use'' m)"
  "answerable (DomainError ''whatsapp_provider_unavailable'' m)"
  "answerable (DomainError ''notification_not_found'' m)"
  "answerable (DomainError ''notification_not_cancellable'' m)"
  "answerable (DomainError ''idempotency_key_reused'' m)"
  "answerable (DomainError ''idempotency_key_in_flight'' m)"
  "answerable (DomainError ''invalid_cursor'' m)"
  by (simp_all add: answerable_def status_by_domain_error_code_def)

text \<open>The statuses of the table are those of errors, and the gateway's.\<close>

lemma table_statuses:
  "map_of status_by_domain_error_code code = Some (status, title) \<Longrightarrow> 400 \<le> status \<and> status \<noteq> 500"
  by (drule map_of_SomeD) (auto simp: status_by_domain_error_code_def)

section \<open>Services throw nothing else\<close>

interpretation answering: session_frame "\<lambda>w. True" "\<lambda>v w. True" answerable
  by unfold_locales simp_all

abbreviation answers_for :: "'a prog \<Rightarrow> bool" where
  "answers_for \<equiv> safe (\<lambda>w. True) (\<lambda>v w. True) answerable (\<lambda>x. True)"

abbreviation fails_well :: "'r tx \<Rightarrow> bool" where
  "fails_well \<equiv> commits (\<lambda>w. True) (\<lambda>v w. True) answerable"

lemma fails_wellI: "(\<And>w e. t w = Inl e \<Longrightarrow> answerable e) \<Longrightarrow> fails_well t"
  by (rule commitsI) auto

lemma answers_writing: "answers_for p \<Longrightarrow> answers_for (writing f p)"
  by (simp add: writing_def)

lemma answers_bind: "answers_for p \<Longrightarrow> (\<And>x. answers_for (k x)) \<Longrightarrow> answers_for (bind p k)"
  by (rule safe_bind)

lemma fails_well_throw [simp]: "fails_well (tx_throw e) \<longleftrightarrow> answerable e"
  by (simp add: commits_def tx_throw_def)

lemma fails_well_for_each: "(\<And>x. fails_well (f x)) \<Longrightarrow> fails_well (tx_for_each f xs)"
  by (induction xs) (auto intro!: answering.commits_bind)

lemma fails_well_catch: "(\<And>e. answerable e \<Longrightarrow> answerable (h e)) \<Longrightarrow> fails_well t \<Longrightarrow> fails_well (tx_catch h t)"
  by (auto simp: commits_def tx_catch_def split: sum.splits)

lemmas answer_intros =
  answering.commits_bind answering.safe_commits answering.safe_clock answering.safe_read
  answers_writing answers_bind fails_well_for_each fails_well_catch

lemma fails_well_identifier [simp]: "fails_well (new_identifier c)"
  by (simp add: commits_def new_identifier_def)

lemma answers_identified: "(\<And>i. answers_for (k i)) \<Longrightarrow> answers_for (next_identifier c k)"
  unfolding next_identifier_def by (intro answer_intros fails_well_identifier)

lemma fails_well_statements [simp]:
  "fails_well (update_notifications p f)" "fails_well (insert_notification n)"
  "fails_well (append_event e)" "fails_well (enqueue_in_transaction c j)"
  "fails_well (repository_claim c input)" "fails_well (repository_complete i t st bd rs now)"
  "fails_well (insert_session i a nm sl ct)" "fails_well (delete_session a i)"
  "fails_well (record_delivery dl)" "fails_well (insert_application c v)"
  "fails_well (repository_update_application g a ua)" "fails_well (repository_archive_application g a now)"
  "fails_well (insert_api_key c av)" "fails_well (repository_revoke_key a i now)"
  "fails_well (insert_organization c au nm sl)" "fails_well (insert_user c au uv)"
  "fails_well (insert_user_session c sv)" "fails_well (consume_attempt sb pol ok now)"
  by (rule fails_wellI,
      auto simp: update_notifications_def insert_notification_def append_event_def
        enqueue_in_transaction_def repository_claim_def repository_complete_def insert_session_def
        delete_session_def record_delivery_def insert_application_def
        repository_update_application_def repository_archive_application_def insert_api_key_def
        repository_revoke_key_def insert_organization_def insert_user_def insert_user_session_def
        consume_attempt_def tx_bind_def new_identifier_def Let_def
      split: if_splits option.splits sum.splits)+

section \<open>The services\<close>

lemma answers_raise: "answerable e \<Longrightarrow> answers_for (Raise e)"
  by simp

lemma answers_key: "answers_for (authenticate_key kr token)"
  by (auto simp: authenticate_key_def Let_def split: option.splits
      intro!: answer_intros)

lemma answers_find_application: "answers_for (get_application_or_fail g a)"
  by (auto simp: get_application_or_fail_def application_not_found_def split: option.splits
      intro!: answer_intros)

lemma answers_consume: "answers_for (consume s pol reachable)"
  by (auto simp: consume_def intro!: answer_intros)

lemma answers_resolve_user: "answers_for (resolve_user_session au token)"
  by (auto simp: resolve_user_session_def Let_def split: option.splits prod.splits
      intro!: answer_intros)

lemma fails_well_creation [simp]:
  "fails_well (resolve_session a i)" "fails_well (claim_idempotency_key c input fp now)"
  "fails_well (write_notification c d)" "fails_well (complete_key key_id token body res now)"
  "fails_well (read_or_fail a n)" "fails_well (read_all_or_fail a ns)"
proof -
  show "fails_well (resolve_session a i)"
    by (rule fails_wellI) (auto simp: resolve_session_def Let_def split: option.splits)
  show "fails_well (claim_idempotency_key c input fp now)"
    by (auto simp: claim_idempotency_key_def split: option.splits idempotency_claim.splits
        intro!: answer_intros)
  show "fails_well (write_notification c d)"
    by (auto simp: write_notification_def Let_def intro!: answer_intros)
  show "fails_well (complete_key key_id token body res now)"
    by (auto simp: complete_key_def split: option.splits)
  have read: "fails_well (read_or_fail a i)" for i
    by (rule fails_wellI) (auto simp: read_or_fail_def split: option.splits)
  then show "fails_well (read_or_fail a n)" .
  show "fails_well (read_all_or_fail a ns)"
    unfolding read_all_or_fail_def by (intro answer_intros read)
qed

lemma answers_correlated: "(\<And>i. answers_for (k i)) \<Longrightarrow> answers_for (with_correlation c rt k)"
  by (auto simp: with_correlation_def split: option.splits intro: answers_identified)

lemma schedule_answerable: "assert_schedule_is_in_the_future input now = Inl e \<Longrightarrow> answerable e"
  by (auto simp: assert_schedule_is_in_the_future_def split: option.splits if_splits)

lemma fails_well_create: "fails_well (create_transaction c input r fp corr i now)"
  unfolding create_transaction_def
  by (intro answering.commits_bind)
     (auto split: key_claim_result.splits option.splits intro!: answering.commits_bind)

lemma answers_create: "answers_for (create c rt input r)"
  by (auto simp: create_def schedule_answerable fails_well_create
      split: sum.splits invalid_phone_number.splits
      intro!: answering.safe_clock answers_correlated answers_identified answering.safe_commits)

lemma batch_ids_answerable: "read_batch_notification_ids body = Inl e \<Longrightarrow> answerable e"
  by (auto simp: read_batch_notification_ids_def Let_def split: option.splits json.splits if_splits)

lemma fails_well_create_batch: "fails_well (create_batch_transaction c input ds fp corr now)"
  unfolding create_batch_transaction_def
  by (intro answering.commits_bind)
     (auto simp: batch_ids_answerable split: key_claim_result.splits sum.splits
      intro!: answering.commits_bind fails_well_for_each)

lemma answers_draft: "(\<And>ds. answers_for (k ds)) \<Longrightarrow> answers_for (draft_recipients c rs k)"
  by (induction rs arbitrary: k)
     (auto split: sum.splits invalid_phone_number.splits intro!: answers_identified)

lemma answers_create_batch: "answers_for (create_batch c rt input rs)"
  unfolding create_batch_def
  by (intro answers_draft answering.safe_clock)
     (auto simp: schedule_answerable fails_well_create_batch split: sum.splits
      intro!: answers_correlated answering.safe_commits)

lemma answers_reads:
  "answers_for (get_or_fail a i)" "answers_for (query_list_events a i)"
  "answers_for (query_list cc a q)"
proof -
  have found: "fails_well (query_read_or_fail a i)"
    by (rule fails_wellI) (auto simp: query_read_or_fail_def split: option.splits)
  show "answers_for (get_or_fail a i)"
    unfolding get_or_fail_def by (intro answer_intros found) simp
  show "answers_for (query_list_events a i)"
    unfolding query_list_events_def
    by (intro answering.safe_commits answering.commits_bind found) simp_all
  have "answerable e" if "decode_cursor cc cursor = Inl e" for cursor e
    using that
    by (auto simp: decode_cursor_def invalid_cursor_def Let_def
        split: option.splits list.splits if_splits json.splits js_date.splits)
  then show "answers_for (query_list cc a q)"
    unfolding query_list_def by (auto split: sum.splits intro!: answer_intros)
qed

lemma answers_cancel: "answers_for (cancel c corr a i)"
proof -
  have "fails_well (query_read_or_fail a i)"
    by (rule fails_wellI) (auto simp: query_read_or_fail_def split: option.splits)
  moreover have "fails_well (cancel_transaction c corr a i st now)" for st now
    unfolding cancel_transaction_def apply_transition_def not_cancellable_def
    by (intro answering.commits_bind) (auto split: option.splits intro!: answering.commits_bind)
  ultimately show ?thesis
    unfolding cancel_def not_cancellable_def
    by (intro answering.safe_commits) (auto intro!: answer_intros)
qed

lemma update_answerable: "update_notifications p f w = Inl e \<Longrightarrow> answerable e"
  using commitsD(2) [OF fails_well_statements(1)] by blast

lemma answers_cancel_waiting: "answers_for (cancel_waiting c corr a s)"
proof -
  have "fails_well (repository_cancel_waiting c a s now)" for now
    by (rule fails_wellI)
       (auto simp: repository_cancel_waiting_def Let_def tx_bind_def tx_return_def
         intro: update_answerable split: sum.splits)
  moreover have "fails_well (cancelled_event c corr a x)" for x
    unfolding cancelled_event_def by (intro answering.commits_bind) simp_all
  moreover have "fails_well (append_events es)" for es
    unfolding append_events_def by (intro answering.commits_bind fails_well_for_each) simp_all
  ultimately show ?thesis
    unfolding cancel_waiting_def cancel_waiting_transaction_def
    by (auto intro!: answer_intros)
qed

lemma answers_ingest: "answers_for (ingest c crypto input)"
proof -
  have "fails_well (ingest_transaction c s e d corr now)" for s e d now corr
    unfolding ingest_transaction_def
    by (intro answering.commits_bind) (auto split: option.splits intro!: answering.commits_bind)
  then show ?thesis
    unfolding ingest_def
    by (auto split: option.splits
        intro!: answering.safe_read answering.safe_clock answers_identified answering.safe_commits)
qed

lemma answers_establish: "answers_for (establish_session c au u g ip ua)"
  by (auto simp: establish_session_def Let_def intro!: answer_intros)

lemma answers_sign_up: "answers_for (register c au input)"
  by (auto simp: register_def intro!: answer_intros answers_establish)

lemma answers_sign_in: "answers_for (login c au input)"
  by (auto simp: login_def invalid_credentials_def account_disabled_def account_locked_def Let_def
      split: option.splits intro!: answer_intros answers_establish)

lemma answers_logout: "answers_for (logout i)"
  by (auto simp: logout_def intro!: answer_intros)

lemma answers_applications:
  "answers_for (list_applications g)" "answers_for (create_application c v)"
  "answers_for (update_application g a ua)" "answers_for (archive_application g a)"
  by (auto simp: list_applications_def create_application_def update_application_def
      archive_application_def application_not_found_def slug_taken_def split: option.splits
      intro!: answer_intros)

lemma answers_keys:
  "answers_for (list_keys a)" "answers_for (issue_key c ck generated)" "answers_for (revoke_key a i)"
  by (auto simp: list_keys_def issue_key_def revoke_key_def intro!: answer_intros)

lemma answers_get_session:
  "(\<And>s. answers_for (k s)) \<Longrightarrow> answers_for (get_session_or_fail a i k)"
  by (auto simp: get_session_or_fail_def session_not_found_def split: option.splits
      intro!: answer_intros)

lemma answerable_unavailable [simp]: "answerable (provider_unavailable what failure)"
  by (simp add: provider_unavailable_def)

lemma answers_refresh: "answers_for (refresh_status c s)"
  by (rule answering.safe_refresh_status)

lemma answers_records:
  "answers_for (record_and_return a i st)" "answers_for (record_created a i ps)"
  by (auto simp: record_and_return_def record_created_def
      intro!: answers_get_session answering.safe_clock answers_writing)

lemma answers_recreate: "answers_for (recreate_at_provider sr s)"
  by (auto simp: recreate_at_provider_def split: option.splits provider_result.splits
      intro!: answers_records)

lemma answers_connections:
  "answers_for (create_connection c sr cc)" "answers_for (list_connections a)"
  "answers_for (get_connection c a i)" "answers_for (get_connection_qr_code c a i)"
  "answers_for (start_connection sr a i)" "answers_for (stop_connection a i)"
  "answers_for (logout_connection a i)" "answers_for (delete_connection a i)"
proof -
  show "answers_for (create_connection c sr cc)"
    by (auto simp: create_connection_def Let_def split: provider_result.splits
        intro!: answers_identified answering.safe_commits answers_records)
  show "answers_for (list_connections a)"
    by (auto simp: list_connections_def intro!: answer_intros)
  show got: "answers_for (get_connection c a i)"
    by (auto simp: get_connection_def intro!: answers_get_session answers_refresh)
  show "answers_for (get_connection_qr_code c a i)"
    by (auto simp: get_connection_qr_code_def not_scannable_def split: provider_result.splits
        intro!: answers_bind got)
  show "answers_for (start_connection sr a i)" "answers_for (stop_connection a i)"
    by (auto simp: start_connection_def stop_connection_def split: provider_result.splits
        intro!: answers_get_session answers_records answers_recreate)
  show "answers_for (logout_connection a i)"
    by (auto simp: logout_connection_def split: provider_result.splits
        intro!: answers_get_session answers_records answering.safe_clock answers_writing)
  show "answers_for (delete_connection a i)"
    by (auto simp: delete_connection_def session_in_use_def split: provider_result.splits
        intro!: answers_get_session answering.safe_read answering.safe_commits)
qed

section \<open>Replies\<close>

text \<open>
  What every reply is like: it carries the correlation identifier, and when it is a problem its
  status is the one of an error, the problem says the same, and an internal error says nothing but
  the constant text.
\<close>

definition well_formed_reply :: "http_input \<Rightarrow> 'b http_reply \<Rightarrow> bool" where
  "well_formed_reply h reply =
     ((''x-correlation-id'', resolve_correlation_id h) \<in> set (rp_headers reply)
      \<and> (case rp_body reply of
           Payload x \<Rightarrow> True
         | ProblemBody problem \<Rightarrow>
             rp_status reply = pd_status problem \<and> 400 \<le> pd_status problem
             \<and> pd_instance problem = hi_url h
             \<and> pd_correlation_id problem = Some (resolve_correlation_id h)
             \<and> (pd_status problem = 500 \<longrightarrow> pd_detail problem = internal_error_detail)))"

definition correlated :: "http_input \<Rightarrow> (string \<times> string) list \<Rightarrow> bool" where
  "correlated h headers = ((''x-correlation-id'', resolve_correlation_id h) \<in> set headers)"

lemma correlated_more [simp]: "correlated h headers \<Longrightarrow> correlated h (headers @ further)"
  by (simp add: correlated_def)

lemma correlated_first [simp]: "correlated h (correlation_headers h)"
  by (simp add: correlated_def correlation_headers_def)

abbreviation answered :: "http_input \<Rightarrow> 'b http_reply prog \<Rightarrow> bool" where
  "answered h \<equiv> safe (\<lambda>w. True) (\<lambda>v w. True) (\<lambda>e. False) (well_formed_reply h)"

lemma well_formed_answer [simp]:
  "well_formed_reply h (answer status headers x) \<longleftrightarrow> correlated h headers"
  "well_formed_reply h ((answer status headers x)\<lparr>rp_cookie := cookie\<rparr>) \<longleftrightarrow> correlated h headers"
  by (simp_all add: well_formed_reply_def answer_def correlated_def)

lemma answered_refusal:
  assumes "answerable e" and "correlated h headers"
  shows "answered h (refuse ht h headers e)"
  using assms
  by (cases e) (auto simp: refuse_def to_problem_details_def well_formed_reply_def correlated_def
      answerable_def Let_def split: option.splits dest: table_statuses)

text \<open>A guard that throws only what the filter can answer; what it lets through goes on.\<close>

lemma safe_refusal:
  assumes "answerable e" and "correlated h headers"
  shows "safe I G (\<lambda>e. False) (well_formed_reply h) (refuse ht h headers e)"
  using answered_refusal [OF assms, of ht]
  by (auto simp: refuse_def split: option.splits)

lemma safe_guarded:
  assumes "safe I G answerable Q p" and "correlated h headers"
    and "\<And>x. Q x \<Longrightarrow> safe I G (\<lambda>e. False) (well_formed_reply h) (k x)"
  shows "safe I G (\<lambda>e. False) (well_formed_reply h) (guarded ht h headers p k)"
  unfolding guarded_def
proof (rule safe_bind)
  show "safe I G (\<lambda>e. False) (\<lambda>r. case r of Inl e \<Rightarrow> answerable e | Inr x \<Rightarrow> Q x) (caught p)"
    by (rule safe_attempt [OF assms(1)]) simp_all
  show "safe I G (\<lambda>e. False) (well_formed_reply h) (case r of Inl e \<Rightarrow> refuse ht h headers e | Inr x \<Rightarrow> k x)"
    if "case r of Inl e \<Rightarrow> answerable e | Inr x \<Rightarrow> Q x" for r
    using that assms(2,3) safe_refusal by (auto split: sum.splits)
qed

lemmas answered_anyway =
  safe_guarded [where I = "\<lambda>w. True" and G = "\<lambda>v w. True" and Q = "\<lambda>x. True"]

lemma answered_reply: "answers_for p \<Longrightarrow> correlated h headers \<Longrightarrow> answered h (reply_with ht h headers status p)"
  unfolding reply_with_def by (rule answered_anyway) simp_all

lemma answers_parse: "answers_for (parse_body ht h)"
  by (auto simp: parse_body_def bad_request_def split: option.splits sum.splits)

lemma answered_receive:
  "(\<And>headers content. correlated h headers \<Longrightarrow> answered h (k headers content)) \<Longrightarrow> answered h (receive ht h k)"
  unfolding receive_def by (rule answered_anyway) (simp_all add: answers_parse)

lemma answers_api_key_guard: "answers_for (api_key_guard kr scopes h)"
  by (auto simp: api_key_guard_def unauthorized_def Let_def split: option.splits
      intro!: answers_bind answers_key)

lemma answered_with_api_key:
  assumes "correlated h headers"
    and "\<And>headers caller. correlated h headers \<Longrightarrow> answered h (k headers caller)"
  shows "answered h (with_api_key ht h headers scopes k)"
proof -
  have "answers_for (api_key_rate_limit_guard ht caller)" for caller
    by (auto simp: api_key_rate_limit_guard_def read_policy_def
        intro!: answers_bind answers_find_application answers_consume)
  then show ?thesis
    using assms unfolding with_api_key_def
    by (auto simp: Let_def api_key_limited_def
        intro!: answered_anyway answers_api_key_guard answered_refusal)
qed

lemma answered_with_credential_limit:
  assumes "correlated h headers" and "\<And>headers. correlated h headers \<Longrightarrow> answered h (k headers)"
  shows "answered h (with_credential_limit ht h headers prefix pol k)"
  using assms unfolding with_credential_limit_def
  by (auto simp: Let_def credential_limited_def credential_rate_limit_guard_def
      intro!: answered_anyway answers_consume answered_refusal)

lemma answered_with_session:
  assumes "correlated h headers" and "\<And>caller. answered h (k caller)"
  shows "answered h (with_session ht h headers k)"
proof -
  have "answers_for (dashboard_session_guard ht au h)" for au
    by (auto simp: dashboard_session_guard_def unauthorized_def Let_def split: option.splits list.splits
        intro!: answers_bind answers_resolve_user)
  then show ?thesis
    using assms unfolding with_session_def by (auto intro!: answered_anyway)
qed

lemma answers_pipes:
  "answers_for (zod_validation_pipe subject schema j)" "answers_for (uuid_parameter_pipe fm nm v)"
  "answers_for (idempotency_key_pipe key)"
  by (auto simp: idempotency_key_pipe_def zod_validation_pipe_def uuid_parameter_pipe_def
      validation_failed_def split: option.splits)

lemma answered_with_application_id:
  assumes "correlated h headers" and "\<And>a. answered h (k a)"
  shows "answered h (with_application_id ht h headers parameter k)"
  using assms unfolding with_application_id_def by (auto intro!: answered_anyway answers_pipes)

lemma answers_authorize: "answers_for (authorize caller a)"
  unfolding authorize_def by (intro answers_bind answers_find_application) simp

lemmas service_answers =
  answers_create answers_create_batch answers_reads answers_cancel answers_cancel_waiting
  answers_ingest answers_sign_up answers_sign_in answers_logout answers_applications
  answers_find_application answers_keys answers_connections answers_authorize answers_pipes

lemmas route_answers =
  answered_receive answered_with_api_key answered_with_credential_limit answered_with_session
  answered_with_application_id answered_anyway answered_reply answers_bind

lemma answered_with_row_id:
  assumes "\<And>caller a i. answers_for (handler caller a i)"
  shows "answered h (with_row_id ht h application_parameter nm parameter status handler)"
  using assms unfolding with_row_id_def
  by (auto intro!: route_answers answers_pipes answers_authorize)

lemma answered_wrap: "answered h p \<Longrightarrow> answered h (wrap f p)"
  unfolding wrap_def
  by (erule safe_bind)
     (auto simp: well_formed_reply_def split: reply_body.splits elim!: wrap_body.elims)

section \<open>Routes\<close>

lemma answered_notifications:
  "answered h (notifications_create ht h)" "answered h (notifications_create_batch ht h)"
  "answered h (notifications_list ht h)" "answered h (notifications_get ht h i)"
  "answered h (notifications_list_events ht h i)" "answered h (notifications_cancel ht h i)"
  "answered h (applications_current ht h)" "answered h (webhook_receive ht h i)"
  by (auto simp: notifications_create_def notifications_create_batch_def notifications_list_def
      notifications_get_def notifications_list_events_def notifications_cancel_def
      applications_current_def webhook_receive_def accepted_def ingestion_reply_def
      split: option.splits ingestion_result.splits
      intro!: route_answers service_answers)

lemma answered_accounts:
  "answered h (auth_register ht h)" "answered h (auth_login ht h)" "answered h (auth_logout ht h)"
  "answered h (auth_session ht h)" "answered h (applications_list ht h)"
  "answered h (applications_create ht h)" "answered h (applications_get ht h a)"
  "answered h (applications_update ht h a)" "answered h (applications_archive ht h a)"
  by (auto simp: auth_register_def auth_login_def auth_logout_def auth_session_def signed_in_def
      applications_list_def applications_create_def applications_get_def applications_update_def
      applications_archive_def
      intro!: route_answers service_answers)

lemma answered_keys:
  "answered h (api_keys_list ht h a)" "answered h (api_keys_create ht g h a)"
  "answered h (api_keys_revoke ht h a i)"
  by (auto simp: api_keys_list_def api_keys_create_def api_keys_revoke_def
      intro!: route_answers service_answers answered_with_row_id)

lemma answered_dashboard_notifications:
  "answered h (dashboard_notifications_list ht h a)" "answered h (dashboard_notifications_create ht h a)"
  "answered h (dashboard_notifications_cancel_waiting ht h a)"
  "answered h (dashboard_notifications_get ht h a i)"
  "answered h (dashboard_notifications_list_events ht h a i)"
  "answered h (dashboard_notifications_cancel ht h a i)"
  by (auto simp: dashboard_notifications_list_def dashboard_notifications_create_def
      dashboard_notifications_cancel_waiting_def dashboard_notifications_get_def
      dashboard_notifications_list_events_def dashboard_notifications_cancel_def
      intro!: route_answers service_answers answered_with_row_id)

lemma answered_connections:
  "answered h (connections_list ht h a)" "answered h (connections_create ht h a)"
  "answered h (connections_get ht h a i)" "answered h (connections_get_qr_code ht h a i)"
  "answered h (connections_start ht h a i)" "answered h (connections_stop ht h a i)"
  "answered h (connections_logout ht h a i)" "answered h (connections_remove ht h a i)"
  by (auto simp: connections_list_def connections_create_def connections_get_def
      connections_get_qr_code_def connections_start_def connections_stop_def connections_logout_def
      connections_remove_def
      intro!: route_answers service_answers answered_with_row_id)

text \<open>
  C18: Whatever is asked, whatever others do meanwhile and whatever the provider answers, every route
  of the API ends with a reply: no exception of a service is missing in the table of the filter, a
  problem has the status of an error and names the request and its correlation identifier, and an
  internal error shows the constant text and nothing of its cause.
\<close>

theorem every_request_is_answered:
  "safe (\<lambda>w. True) (\<lambda>v w. True) (\<lambda>e. False) (well_formed_reply h) (serve ht dr h route)"
  by (cases route)
     (simp_all add: answered_wrap answered_notifications answered_accounts answered_keys
       answered_dashboard_notifications answered_connections answered_receive)

end
