(* ===== verification/Send_Budget.thy ===== *)
theory Send_Budget
  imports Service_Safety
begin

text \<open>
  Paying for sends. Every attempt counted on a notification, up to its maximum, is worth one
  message; a program is \<open>budgeted\<close> when it never sends a message it has not counted an attempt for
  in a transaction that committed before. The invariant a program may assume grows as it runs: what
  it read or wrote stays true in every state that evolves from there.
\<close>

section \<open>What has been paid for\<close>

definition used :: "uuid \<Rightarrow> world \<Rightarrow> nat" where
  "used i w =
     (case sql_first (\<lambda>r. n_id r = i) (w_notifications w) of
        None \<Rightarrow> 0
      | Some r \<Rightarrow> nat (min (n_attempt_count r) (n_maximum_attempts r)))"

lemma first_row_by_id:
  assumes "sound w" and "r \<in> set (w_notifications w)"
  shows "sql_first (\<lambda>s. n_id s = n_id r) (w_notifications w) = Some r"
proof -
  obtain s where s: "sql_first (\<lambda>s. n_id s = n_id r) (w_notifications w) = Some s"
    using assms(2) by (cases "sql_first (\<lambda>s. n_id s = n_id r) (w_notifications w)")
      (auto simp: sql_first_None)
  with sql_first_SomeD [OF s] sound_unique [OF assms(1) _ assms(2)] show ?thesis by auto
qed

lemma used_row:
  assumes "sound w" and "r \<in> set (w_notifications w)"
  shows "used (n_id r) w = nat (min (n_attempt_count r) (n_maximum_attempts r))"
  by (simp add: used_def first_row_by_id [OF assms])

lemma used_mono:
  assumes "sound w" and "sound w'" and "evolves w w'"
  shows "used i w \<le> used i w'"
proof (cases "sql_first (\<lambda>r. n_id r = i) (w_notifications w)")
  case (Some r)
  then have r: "r \<in> set (w_notifications w)" "n_id r = i"
    using sql_first_SomeD by fastforce+
  with assms(3) obtain r' where r': "r' \<in> set (w_notifications w')" and "row_evolves r r'"
    by (auto simp: evolves_def)
  with r used_row [OF assms(1) r(1)] used_row [OF assms(2) r'] show ?thesis
    by (auto simp: row_evolves_def intro!: nat_mono min.mono)
qed (simp add: used_def)

lemma used_le_maximum:
  assumes "sound w"
  shows "used i w \<le> 10"
proof (cases "sql_first (\<lambda>r. n_id r = i) (w_notifications w)")
  case (Some r)
  then have r: "r \<in> set (w_notifications w)" "n_id r = i"
    using sql_first_SomeD by fastforce+
  with soundD(1) [OF assms r(1)] used_row [OF assms r(1)] show ?thesis
    by (auto simp: check_notification_def nat_le_iff min_le_iff_disj)
qed (simp add: used_def)

section \<open>Programs that send nothing\<close>

primrec silent :: "'a prog \<Rightarrow> bool" where
  "silent (Done x) = True"
| "silent (Raise e) = True"
| "silent (Act f g) = (\<forall>w. silent (g w))"
| "silent (Entropy g) = (\<forall>u. silent (g u))"
| "silent (ReadAborted g) = (\<forall>b. silent (g b))"
| "silent (GetSession s g) = (\<forall>r. silent (g r))"
| "silent (ResolveRecipient s n g) = (\<forall>r. silent (g r))"
| "silent (SendTextMessage t g) = False"
| "silent (FetchAccountLimits s g) = (\<forall>r. silent (g r))"
| "silent (ShowTyping s c d g) = (\<forall>r. silent (g r))"
| "silent (CreateSession i g) = (\<forall>r. silent (g r))"
| "silent (StartSession s g) = (\<forall>r. silent (g r))"
| "silent (StopSession s g) = (\<forall>r. silent (g r))"
| "silent (LogoutSession s g) = (\<forall>r. silent (g r))"
| "silent (DeleteSession s g) = (\<forall>r. silent (g r))"
| "silent (GetQrCode s g) = (\<forall>r. silent (g r))"

named_theorems silent_intros \<open>programs that send nothing\<close>

lemma silent_bind [silent_intros]:
  "silent p \<Longrightarrow> (\<And>x. silent (k x)) \<Longrightarrow> silent (bind p k)"
  by (induction p) auto

lemma silent_steps [silent_intros]:
  "(\<And>r. silent (k r)) \<Longrightarrow> silent (atomically t k)"
  "(\<And>x. silent (k' x)) \<Longrightarrow> silent (reading f k')"
  "silent p \<Longrightarrow> silent (writing f' p)"
  "(\<And>t. silent (k'' t)) \<Longrightarrow> silent (clock_now k'')"
  "(\<And>i. silent (k''' i)) \<Longrightarrow> silent (next_identifier c k''')"
  by (auto simp: atomically_def reading_def writing_def clock_now_def next_identifier_def
      split: sum.splits)

lemma silent_limits [silent_intros]:
  "silent (record_limits c sid cur l b)"
  "silent (doubt_reported_limits sid)"
  "silent (reread s)"
  "silent (read_reported_limits s)"
  by (auto simp: record_limits_def doubt_reported_limits_def reread_def read_reported_limits_def
      intro!: silent_intros split: provider_result.splits option.splits)

lemma silent_fetch [silent_intros]: "silent (fetch_limits s)"
  by (auto simp: fetch_limits_def intro!: silent_intros split: provider_result.splits)

lemma silent_connection [silent_intros]:
  "silent (settle_expired_pause c s)"
  "silent (refresh_status c s)"
  "silent (record_refusal c s r)"
  by (auto simp: settle_expired_pause_def refresh_status_def record_refusal_def
      intro!: silent_intros split: provider_result.splits option.splits)

lemma silent_prepare [silent_intros]: "silent (prepare_to_send c s)"
  by (auto simp: prepare_to_send_def intro!: silent_intros split: option.splits)

lemma silent_decisions [silent_intros]:
  "silent (fail c n f input k)"
  "silent (retry c n f input d k)"
  "silent (defer_quietly c n u input t)"
  by (auto simp: fail_def retry_def defer_quietly_def transition_and_record_def
      intro!: silent_intros split: js_date.splits)

lemma silent_waiting [silent_intros]:
  "silent (wait_for_connection c n s input)"
  "silent (wait_for_pause c n t input)"
  by (auto simp: wait_for_connection_def wait_for_pause_def milliseconds_since_due_def Let_def
      intro!: silent_intros)

lemma silent_policy [silent_intros]:
  "(\<And>x. silent (k x)) \<Longrightarrow> silent (read_unknown_outcome_policy a k)"
  "silent p \<Longrightarrow> silent (resolve_attempt n k' outcome code p)"
  by (auto simp: read_unknown_outcome_policy_def resolve_attempt_def intro!: silent_intros)

lemma silent_unknown [silent_intros]: "silent (resolve_unknown_outcome c n k p input f)"
  by (auto simp: resolve_unknown_outcome_def Let_def intro!: silent_intros)

lemma silent_failure [silent_intros]: "silent (handle_send_failure c n s k f input)"
  by (auto simp: handle_send_failure_def intro!: silent_intros)

lemma silent_recipient [silent_intros]: "silent (resolve_recipient c n s input)"
  by (auto simp: resolve_recipient_def intro!: silent_intros
      split: option.splits provider_result.splits bool.splits)

section \<open>The other services send nothing\<close>

lemma silent_each [silent_intros]:
  "silent (reap_each c now ns k)"
  "silent (requeue_each c now ns k)"
  by (induction ns arbitrary: k) (auto intro!: silent_intros)

lemma silent_maintenance: "silent (run_once c)"
  by (auto simp: run_once_def reap_stuck_claims_def requeue_due_notifications_def prune_def
      intro!: silent_intros)

lemma silent_draft [silent_intros]: "(\<And>ds. silent (k ds)) \<Longrightarrow> silent (draft_recipients c rs k)"
  by (induction rs arbitrary: k)
    (auto intro!: silent_intros split: sum.splits invalid_phone_number.splits)

lemma silent_requests:
  "silent (create c rt input r)"
  "silent (create_batch c rt input rs)"
  "silent (cancel c corr a i)"
  "silent (cancel_waiting c corr a s)"
  "silent (get_or_fail a i)"
  "silent (query_list_events a i)"
  "silent (query_list cc a q)"
  by (auto simp: create_def create_batch_def with_correlation_def cancel_def cancel_waiting_def
      get_or_fail_def query_list_events_def query_list_def
      intro!: silent_intros split: sum.splits invalid_phone_number.splits option.splits)

lemma silent_ingest: "silent (ingest c crypto input)"
  by (auto simp: ingest_def intro!: silent_intros split: option.splits)

lemma silent_process: "silent (process c d)"
  by (auto simp: process_def apply_event_def apply_acknowledgement_def apply_session_status_def
      report_unmatched_def record_acknowledgement_def Let_def
      intro!: silent_intros split: option.splits provider_event.splits)

section \<open>Programs that pay before they send\<close>

text \<open>What is handed over is the text of the notification it is handed over for.\<close>

definition faithful :: "sent_text \<Rightarrow> (world \<Rightarrow> bool) \<Rightarrow> bool" where
  "faithful t I =
     (\<forall>v. I v \<longrightarrow> (\<exists>r \<in> set (w_notifications v).
        n_id r = x_notification_id t \<and> n_rendered_body r = x_text t))"

primrec budgeted :: "'a prog \<Rightarrow> uuid \<Rightarrow> (world \<Rightarrow> bool) \<Rightarrow> nat \<Rightarrow> bool" where
  "budgeted (Done x) = (\<lambda>i I c. True)"
| "budgeted (Raise e) = (\<lambda>i I c. True)"
| "budgeted (Act f g) = (\<lambda>i I c. \<forall>w. I w \<longrightarrow>
     budgeted (g w) i (\<lambda>v. I v \<and> evolves (f w) v) (c + (used i (f w) - used i w)))"
| "budgeted (Entropy g) = (\<lambda>i I c. \<forall>u. budgeted (g u) i I c)"
| "budgeted (ReadAborted g) = (\<lambda>i I c. \<forall>b. budgeted (g b) i I c)"
| "budgeted (GetSession s g) = (\<lambda>i I c. \<forall>r. budgeted (g r) i I c)"
| "budgeted (ResolveRecipient s n g) = (\<lambda>i I c. \<forall>r. budgeted (g r) i I c)"
| "budgeted (SendTextMessage t g) = (\<lambda>i I c.
     faithful t I
     \<and> (if x_notification_id t = i then 0 < c \<and> (\<forall>r. budgeted (g r) i I (c - 1))
        else \<forall>r. budgeted (g r) i I c))"
| "budgeted (FetchAccountLimits s g) = (\<lambda>i I c. \<forall>r. budgeted (g r) i I c)"
| "budgeted (ShowTyping s ch d g) = (\<lambda>i I c. \<forall>r. budgeted (g r) i I c)"
| "budgeted (CreateSession ci g) = (\<lambda>i I c. \<forall>r. budgeted (g r) i I c)"
| "budgeted (StartSession s g) = (\<lambda>i I c. \<forall>r. budgeted (g r) i I c)"
| "budgeted (StopSession s g) = (\<lambda>i I c. \<forall>r. budgeted (g r) i I c)"
| "budgeted (LogoutSession s g) = (\<lambda>i I c. \<forall>r. budgeted (g r) i I c)"
| "budgeted (DeleteSession s g) = (\<lambda>i I c. \<forall>r. budgeted (g r) i I c)"
| "budgeted (GetQrCode s g) = (\<lambda>i I c. \<forall>r. budgeted (g r) i I c)"

lemma budgeted_mono:
  "budgeted p i I c \<Longrightarrow> J \<le> I \<Longrightarrow> c \<le> d \<Longrightarrow> budgeted p i J d"
proof (induction p arbitrary: I J c d)
  case (Act f g)
  show ?case
  proof (simp, intro allI impI)
    fix w assume "J w"
    with Act.prems have "budgeted (g w) i (\<lambda>v. I v \<and> evolves (f w) v) (c + (used i (f w) - used i w))"
      by auto
    then show "budgeted (g w) i (\<lambda>v. J v \<and> evolves (f w) v) (d + (used i (f w) - used i w))"
      by (rule Act.IH [OF rangeI]) (use Act.prems in auto)
  qed
next
  case (SendTextMessage t g)
  have step: "budgeted (g r) i J e'" if "budgeted (g r) i I e" and "e \<le> e'" for r e e'
    by (rule SendTextMessage.IH [OF rangeI that(1) SendTextMessage.prems(2) that(2)])
  have "faithful t J"
    using SendTextMessage.prems(1,2) by (auto simp: faithful_def)
  show ?case
  proof (cases "x_notification_id t = i")
    case True
    with SendTextMessage.prems(1) have c: "0 < c" and "\<And>r. budgeted (g r) i I (c - 1)" by simp_all
    then have "budgeted (g r) i J (d - 1)" for r
      using step SendTextMessage.prems(3) diff_le_mono by blast
    with True c SendTextMessage.prems(3) \<open>faithful t J\<close> show ?thesis by simp
  next
    case False
    with SendTextMessage.prems(1,3) \<open>faithful t J\<close> show ?thesis by (auto intro: step)
  qed
qed (simp_all, (meson rangeI)+)

lemma budgeted_silent: "silent p \<Longrightarrow> budgeted p i I c"
  by (induction p arbitrary: I c) auto

lemma budgeted_bind:
  assumes "silent p" and "\<And>x J. J \<le> I \<Longrightarrow> budgeted (k x) i J c"
  shows "budgeted (bind p k) i I c"
proof -
  have "\<forall>x J. J \<le> I \<longrightarrow> budgeted (k x) i J c" using assms(2) by blast
  with assms(1) show ?thesis
  proof (induction p arbitrary: I)
    case (Done x)
    then have "\<forall>x. budgeted (k x) i I c" using order_refl [of I] by blast
    then show ?case by simp
  next
    case (Act f g)
    have "budgeted (bind (g w) k) i (\<lambda>v. I v \<and> evolves (f w) v) c" for w
    proof (rule Act.IH [OF rangeI])
      show "silent (g w)" using Act.prems(1) by simp
      show "\<forall>x J. J \<le> (\<lambda>v. I v \<and> evolves (f w) v) \<longrightarrow> budgeted (k x) i J c"
        using Act.prems(2) by (auto simp: le_fun_def)
    qed
    then show ?case
      by (auto intro: budgeted_mono [OF _ order_refl le_add1])
  qed ((simp; meson rangeI)+)
qed

named_theorems budget_intros \<open>steps of a program that pays before it sends\<close>

lemma budgeted_atomically:
  assumes "\<And>w r w'. I w \<Longrightarrow> t w = Inr (r, w') \<Longrightarrow>
    budgeted (k r) i (\<lambda>v. I v \<and> evolves w' v) (c + (used i w' - used i w))"
  shows "budgeted (atomically t k) i I c"
  using assms by (auto simp: atomically_def split: sum.splits)

lemma budgeted_steps [budget_intros]:
  "(\<And>r J. J \<le> I \<Longrightarrow> budgeted (k r) i J c) \<Longrightarrow> budgeted (atomically t k) i I c"
  "(\<And>x J. J \<le> I \<Longrightarrow> budgeted (k' x) i J c) \<Longrightarrow> budgeted (reading f k') i I c"
  "(\<And>x J. J \<le> I \<Longrightarrow> budgeted (k'' x) i J c) \<Longrightarrow> budgeted (clock_now k'') i I c"
proof -
  have less: "(\<lambda>v. I v \<and> evolves w v) \<le> I" for w by auto
  show "budgeted (atomically t k) i I c" if "\<And>r J. J \<le> I \<Longrightarrow> budgeted (k r) i J c"
    using budgeted_mono [OF that [OF less], of _ _ "c + d" for d] less
    by (intro budgeted_atomically) (meson le_add1 order_refl)
  show "budgeted (reading f k') i I c" if "\<And>x J. J \<le> I \<Longrightarrow> budgeted (k' x) i J c"
    using that [OF less] by (simp add: reading_def)
  show "budgeted (clock_now k'') i I c" if "\<And>x J. J \<le> I \<Longrightarrow> budgeted (k'' x) i J c"
    using that [OF less] by (simp add: clock_now_def reading_def)
qed

section \<open>The dispatcher pays before it sends\<close>

text \<open>What the worker knows of the notification it holds: its row exists, with this maximum.\<close>

definition knows :: "notification \<Rightarrow> (world \<Rightarrow> bool) \<Rightarrow> bool" where
  "knows n I =
     (\<forall>v. I v \<longrightarrow> sound v \<and> (\<exists>r \<in> set (w_notifications v).
        n_id r = n_id n \<and> n_maximum_attempts r = n_maximum_attempts n
        \<and> n_rendered_body r = n_rendered_body n))"

lemma knows_mono: "knows n I \<Longrightarrow> J \<le> I \<Longrightarrow> knows n J"
  by (auto simp: knows_def)

lemma used_counted:
  assumes "sound w" and "begin_attempt_transaction c n token chat now w = Inr (Some k, w')"
    and "knows n I" and "I w" and "k \<le> n_maximum_attempts n"
  shows "used (n_id n) w' = Suc (used (n_id n) w)"
proof (cases rule: begin_attempt_effect [OF assms(1) refl refl, of n token c chat now])
  case 1
  with assms(2) show ?thesis by simp
next
  case (2 r)
  from 2(1) have r: "r \<in> set (w_notifications w)" "holds_claim (n_application_id n) (n_id n) token r"
    using sql_first_SomeD by fastforce+
  then have ri: "n_id r = n_id n" by (simp add: holds_claim_def is_notification_def)
  have m: "n_maximum_attempts r = n_maximum_attempts n"
    using assms(3,4) sound_unique [OF assms(1) _ r(1)] ri by (auto simp: knows_def)
  have k: "k = n_attempt_count r + 1" and
    rows: "w_notifications w' = sql_update (holds_claim (n_application_id n) (n_id n) token)
      (counted chat now) (w_notifications w)"
    using 2(2) assms(2) by auto
  have "sound w'"
    using commitsD(1) [OF upholds_begin_attempt assms(1,2)] by simp
  moreover have r': "counted chat now r \<in> set (w_notifications w')"
    using sql_update_image [OF r(1), of "holds_claim (n_application_id n) (n_id n) token"
        "counted chat now"] r(2) rows by simp
  ultimately have "used (n_id n) w' = nat (min (n_attempt_count r + 1) (n_maximum_attempts r))"
    using used_row [OF _ r'] ri by (simp add: counted_def)
  moreover have "0 \<le> n_attempt_count r"
    using soundD(1) [OF assms(1) r(1)] by (simp add: check_notification_def)
  ultimately show ?thesis
    using used_row [OF assms(1) r(1)] ri assms(5) k m by (simp add: min_def nat_add_distrib)
qed

lemma budgeted_attempt:
  assumes "knows n I"
    and over: "\<And>k. n_maximum_attempts n < k \<Longrightarrow> silent (p k)"
    and gone: "silent q"
    and answer: "\<And>k r. silent (g k r)"
  shows "budgeted (atomically (begin_attempt_transaction c n token chat now) (\<lambda>attempt.
      case attempt of None \<Rightarrow> q
      | Some k \<Rightarrow> if k > n_maximum_attempts n then p k
          else SendTextMessage \<lparr>x_notification_id = n_id n, x_session_name = sn,
                 x_chat_identifier = ch, x_text = n_rendered_body n\<rparr> (g k))) i I 0"
proof (rule budgeted_atomically)
  fix w r w' assume w: "I w" and t: "begin_attempt_transaction c n token chat now w = Inr (r, w')"
  show "budgeted (case r of None \<Rightarrow> q
      | Some k \<Rightarrow> if k > n_maximum_attempts n then p k
          else SendTextMessage \<lparr>x_notification_id = n_id n, x_session_name = sn,
                 x_chat_identifier = ch, x_text = n_rendered_body n\<rparr> (g k)) i
      (\<lambda>v. I v \<and> evolves w' v) (0 + (used i w' - used i w))"
  proof (cases r)
    case None
    with gone show ?thesis by (simp add: budgeted_silent)
  next
    case (Some k)
    have paid: "used (n_id n) w' = Suc (used (n_id n) w)" if "\<not> k > n_maximum_attempts n"
      using used_counted [OF _ t [unfolded Some] assms(1) w] that assms(1) w
      by (auto simp: knows_def)
    show ?thesis
      using assms(1) by (auto simp: Some budgeted_silent over paid answer faithful_def knows_def)
  qed
qed

lemma budgeted_begin:
  assumes "knows n I"
    and "\<And>k. n_maximum_attempts n < k \<Longrightarrow> silent (p k)" and "silent q"
    and "\<And>k r. silent (g k r)"
  shows "budgeted (begin_attempt c n token chat (\<lambda>attempt.
      case attempt of None \<Rightarrow> q
      | Some k \<Rightarrow> if k > n_maximum_attempts n then p k
          else SendTextMessage \<lparr>x_notification_id = n_id n, x_session_name = sn,
                 x_chat_identifier = ch, x_text = n_rendered_body n\<rparr> (g k))) i I 0"
  unfolding begin_attempt_def
  by (rule budgeted_steps(3), rule budgeted_attempt [OF knows_mono [OF assms(1)]])
    (use assms in \<open>simp_all\<close>)

lemma budgeted_deliver:
  assumes "knows n I"
  shows "budgeted (deliver c n s token input) i I 0"
  unfolding deliver_def
proof (rule budgeted_bind [OF silent_recipient])
  fix x J assume "J \<le> I"
  with assms have k: "knows n J" by (rule knows_mono)
  have stop: "budgeted (clock_now (\<lambda>now. defer_quietly c n now input detail)) i J 0" for detail
    by (intro budgeted_silent silent_intros)
  have answer: "silent (case result of
        Failed failure \<Rightarrow> handle_send_failure c n s k failure input
      | Succeeded message \<Rightarrow>
          clock_now (\<lambda>now.
          atomically (sent_transaction c n (sm_provider_message_id message) chat k input now)
            (\<lambda>was_recorded. Done (result_of (if was_recorded then Sent else NotClaimable) None))))"
    for result k chat
    by (auto split: provider_result.split intro!: silent_intros)
  note attempt = budgeted_begin [OF k, of "\<lambda>k. fail c n f input (Some k)" for f,
      OF silent_decisions(1), of "Done (result_of NotClaimable None)", simplified, OF answer]
  show "budgeted (case x of Settled result \<Rightarrow> Done result
     | ChatIdentifier chat \<Rightarrow>
         show_typing c n s chat (ReadAborted (\<lambda>aborted.
         if aborted then
           clock_now (\<lambda>now. defer_quietly c n now input ''worker_stopping'')
         else begin_attempt c n token chat (\<lambda>attempt. case attempt of
           None \<Rightarrow> Done (result_of NotClaimable None)
         | Some attempt_number \<Rightarrow>
             if attempt_number > n_maximum_attempts n then
               fail c n (create_provider_failure MaximumAttemptsExhausted
                 (''Delivery was attempted '' @ string_of_int (n_maximum_attempts n)
                  @ '' times without success.'') None None) input (Some attempt_number)
             else
               SendTextMessage
                 \<lparr>x_notification_id = n_id n, x_session_name = s_provider_session_name s,
                  x_chat_identifier = chat, x_text = n_rendered_body n\<rparr> (\<lambda>result.
               case result of
                 Failed failure \<Rightarrow> handle_send_failure c n s attempt_number failure input
               | Succeeded message \<Rightarrow>
                   clock_now (\<lambda>now.
                   atomically (sent_transaction c n (sm_provider_message_id message) chat
                                 attempt_number input now) (\<lambda>was_recorded.
                   Done (result_of (if was_recorded then Sent else NotClaimable) None)))))))) i J 0"
    by (cases x) (simp_all add: show_typing_def stop attempt)
qed

lemma budgeted_reserve:
  assumes "knows n I"
  shows "budgeted (reserve_and_deliver c n s token input) i I 0"
proof -
  have "budgeted (if \<not> slot_reserved slot
      then defer_quietly c n (to_date (slot_next_send_allowed_at slot)) input ''send_pacing''
      else deliver c n s token input) i J 0" if "J \<le> I" for J slot
    using budgeted_deliver [OF knows_mono [OF assms that]]
    by (simp add: budgeted_silent silent_intros)
  then show ?thesis
    unfolding reserve_and_deliver_def by (intro budgeted_steps) (simp add: budgeted_steps order_trans)
qed

lemmas budgeted_quiet = budgeted_silent silent_intros

lemma budgeted_unless_paused:
  assumes "knows n I"
  shows "budgeted (case s_sending_paused_until ready of
      None \<Rightarrow> reserve_and_deliver c n ready token input
    | Some paused_until \<Rightarrow>
        clock_now (\<lambda>now.
        if is_sending_paused (Some paused_until) now then
          wait_for_pause c n paused_until input
        else reserve_and_deliver c n ready token input)) i I 0"
proof -
  have "budgeted (if is_sending_paused (Some t) now then wait_for_pause c n t input
      else reserve_and_deliver c n ready token input) i J 0" if "J \<le> I" for J t now
    using budgeted_reserve [OF knows_mono [OF assms that]] by (simp add: budgeted_quiet)
  then show ?thesis
    using budgeted_reserve [OF assms] by (auto split: option.split intro!: budgeted_steps(3))
qed

lemma budgeted_session_found:
  assumes "knows n I"
  shows "budgeted (case found of
      None \<Rightarrow>
        fail c n (create_provider_failure SessionMissing
          ''The WhatsApp connection this notification was queued against no longer exists.''
          None None) input None
    | Some s \<Rightarrow>
        if \<not> can_session_send (s_status s) then wait_for_connection c n s input
        else bind (prepare_to_send c s) (\<lambda>ready.
          case s_sending_paused_until ready of
            None \<Rightarrow> reserve_and_deliver c n ready token input
          | Some paused_until \<Rightarrow>
              clock_now (\<lambda>now.
              if is_sending_paused (Some paused_until) now then
                wait_for_pause c n paused_until input
              else reserve_and_deliver c n ready token input))) i I 0"
proof -
  have "budgeted (bind (prepare_to_send c s) (\<lambda>ready.
          case s_sending_paused_until ready of
            None \<Rightarrow> reserve_and_deliver c n ready token input
          | Some paused_until \<Rightarrow>
              clock_now (\<lambda>now.
              if is_sending_paused (Some paused_until) now then
                wait_for_pause c n paused_until input
              else reserve_and_deliver c n ready token input))) i I 0" for s
    by (rule budgeted_bind [OF silent_prepare]) (rule budgeted_unless_paused [OF knows_mono [OF assms]])
  then show ?thesis by (simp add: budgeted_quiet split: option.split)
qed

lemma budgeted_dispatch_claimed:
  assumes "knows n I"
  shows "budgeted (dispatch_claimed c n token input) i I 0"
  unfolding dispatch_claimed_def has_outlived_delivery_window_def milliseconds_since_due_def
proof (rule budgeted_steps(3))
  fix now J assume J: "J \<le> I"
  have "budgeted (reading (find_session a' s') (\<lambda>found. case found of
      None \<Rightarrow>
        fail c n (create_provider_failure SessionMissing
          ''The WhatsApp connection this notification was queued against no longer exists.''
          None None) input None
    | Some s \<Rightarrow>
        if \<not> can_session_send (s_status s) then wait_for_connection c n s input
        else bind (prepare_to_send c s) (\<lambda>ready.
          case s_sending_paused_until ready of
            None \<Rightarrow> reserve_and_deliver c n ready token input
          | Some paused_until \<Rightarrow>
              clock_now (\<lambda>now.
              if is_sending_paused (Some paused_until) now then
                wait_for_pause c n paused_until input
              else reserve_and_deliver c n ready token input)))) i K 0"
    if "K \<le> J" for K a' s'
    by (rule budgeted_steps(2), rule budgeted_session_found)
      (use knows_mono [OF assms] that J in \<open>meson order_trans\<close>)
  then show "budgeted (if now - eligible_since n > c_maximum_lifetime_hours c * 3600000 then
       fail c n (create_provider_failure DeliveryWindowExpired
         (''The notification waited longer than the '' @ string_of_int (c_maximum_lifetime_hours c)
          @ '' hour delivery window without being sent.'') None None) input None
     else reading (find_unresolved (n_application_id n) (n_id n)) (\<lambda>unresolved.
     case unresolved of
       Some a \<Rightarrow>
         read_unknown_outcome_policy (n_application_id n) (\<lambda>policy.
         resolve_unknown_outcome c n (a_attempt_number a) policy input None)
     | None \<Rightarrow>
         reading (find_session (n_application_id n) (n_session_id n)) (\<lambda>found.
         case found of
           None \<Rightarrow>
             fail c n (create_provider_failure SessionMissing
               ''The WhatsApp connection this notification was queued against no longer exists.''
               None None) input None
         | Some s \<Rightarrow>
             if \<not> can_session_send (s_status s) then wait_for_connection c n s input
             else bind (prepare_to_send c s) (\<lambda>ready.
               case s_sending_paused_until ready of
                 None \<Rightarrow> reserve_and_deliver c n ready token input
               | Some paused_until \<Rightarrow>
                   clock_now (\<lambda>now.
                   if is_sending_paused (Some paused_until) now then
                     wait_for_pause c n paused_until input
                   else reserve_and_deliver c n ready token input))))) i J 0"
    by (auto simp: budgeted_quiet split: option.split intro!: budgeted_steps(2))
qed

section \<open>The whole dispatch\<close>

lemma claimed_is_known:
  assumes "sound w" and "claim_for_dispatch a i token now w = Inr (Some n, w')"
    and "\<And>v. I v \<Longrightarrow> sound v"
  shows "knows n (\<lambda>v. I v \<and> evolves w' v)"
proof -
  let ?p = "\<lambda>r. is_notification a i r \<and> is_claimable now r"
  let ?f = "\<lambda>r. r\<lparr>n_status := PROCESSING, n_claim_token := Some token,
      n_claimed_at := Some now, n_updated_at := of_date now\<rparr>"
  from assms(2) obtain rs where u: "update_notifications ?p ?f w = Inr (rs, w')"
    and n: "first_row rs = Some n"
    by (auto simp: claim_for_dispatch_def tx_return_def elim!: tx_bind_InrE)
  from n have "first_row (map ?f (filter ?p (w_notifications w))) = Some n"
    by (simp only: update_notifications_Inr(1) [OF u])
  then obtain r where r: "r \<in> set (w_notifications w)" "?p r" "n = ?f r" by (rule first_row_filter)
  then have "n \<in> set (w_notifications w')"
    using sql_update_image [OF r(1), of ?p ?f] update_notifications_Inr(2) [OF u] by simp
  then show ?thesis
    using assms(3) unfolding knows_def evolves_def row_evolves_def by metis
qed

lemma budgeted_claiming:
  assumes "\<And>v. I v \<Longrightarrow> sound v"
    and claimed: "\<And>n J. knows n J \<Longrightarrow> budgeted (k (Some n)) i J 0" and "silent (k None)"
  shows "budgeted (atomically (claim_for_dispatch a j token now) k) i I 0"
proof (rule budgeted_atomically)
  fix w r w' assume w: "I w" and t: "claim_for_dispatch a j token now w = Inr (r, w')"
  show "budgeted (k r) i (\<lambda>v. I v \<and> evolves w' v) (0 + (used i w' - used i w))"
  proof (cases r)
    case (Some n)
    have "knows n (\<lambda>v. I v \<and> evolves w' v)"
      by (rule claimed_is_known [OF assms(1) [OF w] t [unfolded Some] assms(1)])
    from claimed [OF this] show ?thesis by (auto simp: Some intro: budgeted_mono)
  qed (simp add: budgeted_silent assms(3))
qed

theorem budgeted_dispatch:
  assumes sound: "\<And>v. I v \<Longrightarrow> sound v"
  shows "budgeted (dispatch c input) i I 0"
proof -
  let ?k = "\<lambda>token claimed_or_not. case claimed_or_not of
       ClaimRefused \<Rightarrow> Done (result_of NotClaimable None)
     | NotDue due reason \<Rightarrow>
         bind (reschedule c input due) (\<lambda>_. Done (result_of Deferred (Some reason)))
     | Claimed claimed \<Rightarrow> dispatch_claimed c claimed token input"
  let ?rest = "\<lambda>token now claimed. bind (case claimed of
          Some n \<Rightarrow> Done (Claimed n)
        | None \<Rightarrow> explain_failed_claim input now) (?k token)"
  have refused: "silent (bind (explain_failed_claim input now) (?k token))" for now token
    by (auto simp: explain_failed_claim_def reschedule_def reading_def atomically_def
        split: option.splits notification_status.splits sum.splits)
  have attempt: "budgeted (atomically (claim_for_dispatch a j token now) (?rest token now)) i J 0"
    if "J \<le> I" for J a j token now
    by (rule budgeted_claiming)
      (use that sound refused in \<open>auto intro: budgeted_dispatch_claimed\<close>)
  have "budgeted (bind (claim c input token) (?k token)) i J 0" if "J \<le> I" for J token
    unfolding claim_def bind_steps bind_assoc
    by (rule budgeted_steps(3), rule budgeted_steps(1), rule budgeted_bind)
      (use that in \<open>auto intro!: silent_intros attempt intro: order_trans split: option.split\<close>)
  then show ?thesis
    unfolding dispatch_def next_identifier_def by (rule budgeted_steps(1))
qed

end
