(* ===== verification/Api_Safety.thy ===== *)
theory Api_Safety
  imports Http_Safety Send_Budget
begin

text \<open>
  What a request may do to the tables, whatever its route and whoever sends it: every effect keeps
  them sound and moves rows only along the guarantee, and no route hands a message to WhatsApp
  itself. Both are proved guard by guard, as \<open>Http_Safety\<close> does for the exceptions.
\<close>

section \<open>Programs of the API\<close>

definition orderly_request :: "'a prog \<Rightarrow> bool" where
  "orderly_request p = (safely p \<and> silent p)"

named_theorems request_intros \<open>requests that keep the tables sound and send nothing\<close>

lemma orderly_requestI: "safely p \<Longrightarrow> silent p \<Longrightarrow> orderly_request p"
  by (simp add: orderly_request_def)

lemma orderly_plain [simp]: "orderly_request (Done x)" "orderly_request (Raise e)"
  by (simp_all add: orderly_request_def)

lemma orderly_bind [request_intros]:
  "orderly_request p \<Longrightarrow> (\<And>x. orderly_request (k x)) \<Longrightarrow> orderly_request (bind p k)"
  by (auto simp: orderly_request_def intro: silent_bind safe_bind [where Q = anything])

lemma silent_caught: "silent p \<Longrightarrow> silent (caught p)"
  by (induction p) auto

lemma orderly_caught [request_intros]: "orderly_request p \<Longrightarrow> orderly_request (caught p)"
  by (auto simp: orderly_request_def silent_caught intro: safe_attempt)

lemma orderly_reading [request_intros]:
  "(\<And>x. orderly_request (k x)) \<Longrightarrow> orderly_request (reading f k)"
  by (auto simp: orderly_request_def intro: silent_steps services.safe_read)

lemma orderly_clock [request_intros]:
  "(\<And>t. orderly_request (k t)) \<Longrightarrow> orderly_request (clock_now k)"
  by (auto simp: orderly_request_def intro: silent_steps services.safe_clock)

lemma orderly_atomically [request_intros]:
  "upholds t \<Longrightarrow> (\<And>r. orderly_request (k r)) \<Longrightarrow> orderly_request (atomically t k)"
  by (auto simp: orderly_request_def intro: silent_steps services.safe_commits)

lemma orderly_entropy [request_intros]: "(\<And>u. orderly_request (k u)) \<Longrightarrow> orderly_request (Entropy k)"
  by (simp add: orderly_request_def)

text \<open>A write that leaves notifications, ledger, timeline and jobs alone.\<close>

definition elsewhere :: "(world \<Rightarrow> world) \<Rightarrow> bool" where
  "elsewhere f =
     (\<forall>w. w_notifications (f w) = w_notifications w \<and> w_attempts (f w) = w_attempts w
        \<and> w_events (f w) = w_events w \<and> w_jobs (f w) = w_jobs w)"

lemma unchanged_kept:
  assumes "w_notifications w' = w_notifications w" and "w_attempts w' = w_attempts w"
    and "w_events w' = w_events w" and "w_jobs w' = w_jobs w"
  shows "sound w' \<longleftrightarrow> sound w" and "evolves w w'"
  unfolding sound_def evolves_def assms by (auto intro!: bexI [of _ r for r])

lemma elsewhere_upholds:
  assumes "\<And>w r w'. t w = Inr (r, w') \<Longrightarrow>
    w_notifications w' = w_notifications w \<and> w_attempts w' = w_attempts w
    \<and> w_events w' = w_events w \<and> w_jobs w' = w_jobs w"
  shows "upholds t"
proof (rule upholdsI)
  fix w r w' assume "sound w" and t: "t w = Inr (r, w')"
  with assms [OF t] show "sound w' \<and> evolves w w'"
    using unchanged_kept [of w' w] by simp
qed

lemma orderly_writing [request_intros]:
  assumes "elsewhere f" and "orderly_request p"
  shows "orderly_request (writing f p)"
proof -
  have "sound (f w) = sound w \<and> evolves w (f w)" for w
    using assms(1) unchanged_kept [of "f w" w] by (simp add: elsewhere_def)
  with assms(2) show ?thesis
    by (simp add: orderly_request_def writing_def)
qed

section \<open>The services behind the routes\<close>

lemma upholds_accounts:
  "upholds (insert_application c v)" "upholds (repository_update_application g a ua)"
  "upholds (repository_archive_application g a now)" "upholds (insert_api_key c av)"
  "upholds (repository_revoke_key a i now)" "upholds (insert_organization c au nm sl)"
  "upholds (insert_user c au uv)" "upholds (insert_user_session c sv)"
  "upholds (consume_attempt sb pol ok now)"
  by (rule elsewhere_upholds,
      auto simp: insert_application_def repository_update_application_def
        repository_archive_application_def insert_api_key_def repository_revoke_key_def
        insert_organization_def insert_user_def insert_user_session_def consume_attempt_def
        consume_rate_limit_def tx_bind_def new_identifier_def Let_def
      split: if_splits option.splits sum.splits)+

lemma upholds_catch: "upholds t \<Longrightarrow> upholds (tx_catch h t)"
  by (auto simp: commits_def tx_catch_def split: sum.splits)

lemma orderly_keys [request_intros]:
  "orderly_request (authenticate_key kr token)" "orderly_request (list_keys a)"
  "orderly_request (issue_key c ck generated)" "orderly_request (revoke_key a i)"
  by (auto simp: authenticate_key_def list_keys_def issue_key_def revoke_key_def elsewhere_def
      touch_last_used_def upholds_accounts Let_def
      split: option.splits intro!: request_intros)

lemma orderly_applications [request_intros]:
  "orderly_request (get_application_or_fail g a)" "orderly_request (list_applications g)"
  "orderly_request (create_application c v)" "orderly_request (update_application g a ua)"
  "orderly_request (archive_application g a)"
  by (auto simp: get_application_or_fail_def list_applications_def create_application_def
      update_application_def archive_application_def upholds_accounts upholds_catch
      split: option.splits intro!: request_intros)

lemma orderly_consume [request_intros]: "orderly_request (consume s pol reachable)"
  by (auto simp: consume_def upholds_accounts intro!: request_intros)

lemma orderly_establish [request_intros]: "orderly_request (establish_session c au u g ip ua)"
  by (auto simp: establish_session_def upholds_accounts Let_def intro!: request_intros)

lemma orderly_accounts [request_intros]:
  "orderly_request (register c au input)" "orderly_request (login c au li)"
  "orderly_request (logout i)" "orderly_request (resolve_user_session au token)"
  by (auto simp: register_def login_def logout_def resolve_user_session_def upholds_accounts
      elsewhere_def revoke_session_def record_failed_login_def record_successful_login_def
      touch_session_def Let_def
      split: option.splits prod.splits intro!: request_intros)

lemma silent_sessions [silent_intros]:
  "(\<And>s. silent (k s)) \<Longrightarrow> silent (get_session_or_fail a i k)"
  "silent (record_and_return a i st)" "silent (record_created a i live)"
  by (auto simp: get_session_or_fail_def record_and_return_def record_created_def
      split: option.splits intro!: silent_intros)

lemma silent_connections:
  "silent (create_connection c sr input)" "silent (list_connections a)"
  "silent (get_connection c a i)" "silent (get_connection_qr_code c a i)"
  "silent (start_connection sr a i)" "silent (stop_connection a i)"
  "silent (logout_connection a i)" "silent (delete_connection a i)"
  by (auto simp: create_connection_def list_connections_def get_connection_def
      get_connection_qr_code_def start_connection_def recreate_at_provider_def stop_connection_def
      logout_connection_def delete_connection_def Let_def
      split: provider_result.splits option.splits intro!: silent_intros)

lemma orderly_services [request_intros]:
  "orderly_request (create c rt request r)" "orderly_request (create_batch c rt request rs)"
  "orderly_request (cancel c corr a i)" "orderly_request (cancel_waiting c corr a s)"
  "orderly_request (get_or_fail a i)" "orderly_request (query_list_events a i)"
  "orderly_request (query_list cc a q)" "orderly_request (ingest c crypto callback)"
  "orderly_request (create_connection c sr input)" "orderly_request (list_connections a)"
  "orderly_request (get_connection c a i)" "orderly_request (get_connection_qr_code c a i)"
  "orderly_request (start_connection sr a i)" "orderly_request (stop_connection a i)"
  "orderly_request (logout_connection a i)" "orderly_request (delete_connection a i)"
  by (simp_all add: orderly_request_def safely_create safely_create_batch safely_cancel
      safely_cancel_waiting safely_read safely_ingest safely_connections silent_requests
      silent_ingest silent_connections)

section \<open>Guards and routes\<close>

lemma orderly_refuse [request_intros]: "orderly_request (refuse ht h headers e)"
  by (simp add: refuse_def split: option.splits)

lemma orderly_guarded [request_intros]:
  "orderly_request p \<Longrightarrow> (\<And>x. orderly_request (k x)) \<Longrightarrow> orderly_request (guarded ht h headers p k)"
  by (auto simp: guarded_def split: sum.splits intro!: request_intros)

lemma orderly_reply [request_intros]: "orderly_request p \<Longrightarrow> orderly_request (reply_with ht h headers status p)"
  by (auto simp: reply_with_def intro!: request_intros)

lemma orderly_receive [request_intros]:
  "(\<And>headers j. orderly_request (k headers j)) \<Longrightarrow> orderly_request (receive ht h k)"
  by (auto simp: receive_def parse_body_def split: option.splits sum.splits intro!: request_intros)

lemma orderly_with_api_key [request_intros]:
  assumes "\<And>headers caller. orderly_request (k headers caller)"
  shows "orderly_request (with_api_key ht h headers scopes k)"
  unfolding with_api_key_def api_key_guard_def api_key_rate_limit_guard_def read_policy_def Let_def
  by (auto split: option.splits intro!: request_intros assms)

lemma orderly_with_credential_limit [request_intros]:
  assumes "\<And>headers. orderly_request (k headers)"
  shows "orderly_request (with_credential_limit ht h headers prefix policy k)"
  unfolding with_credential_limit_def credential_rate_limit_guard_def Let_def
  by (auto intro!: request_intros assms)

lemma orderly_with_session [request_intros]:
  assumes "\<And>caller. orderly_request (k caller)"
  shows "orderly_request (with_session ht h headers k)"
  unfolding with_session_def dashboard_session_guard_def Let_def
  by (auto split: option.splits list.splits intro!: request_intros assms)

lemma orderly_pipes [request_intros]:
  "orderly_request (zod_validation_pipe subject schema j)"
  "orderly_request (uuid_parameter_pipe fm nm v)" "orderly_request (idempotency_key_pipe key)"
  by (auto simp: idempotency_key_pipe_def zod_validation_pipe_def uuid_parameter_pipe_def
      split: option.splits)

lemma orderly_with_application_id [request_intros]:
  "(\<And>a. orderly_request (k a)) \<Longrightarrow> orderly_request (with_application_id ht h headers v k)"
  by (auto simp: with_application_id_def intro!: request_intros)

lemma orderly_authorize [request_intros]: "orderly_request (authorize caller a)"
  by (auto simp: authorize_def intro!: request_intros)

lemma orderly_with_row_id [request_intros]:
  "(\<And>caller a i. orderly_request (k caller a i)) \<Longrightarrow> orderly_request (with_row_id ht h v nm v' st k)"
  by (auto simp: with_row_id_def intro!: request_intros)

lemma orderly_wrap: "orderly_request p \<Longrightarrow> orderly_request (wrap f p)"
  by (auto simp: wrap_def intro!: request_intros)

lemma orderly_public:
  "orderly_request (notifications_create ht h)" "orderly_request (notifications_create_batch ht h)"
  "orderly_request (notifications_list ht h)" "orderly_request (notifications_get ht h i)"
  "orderly_request (notifications_list_events ht h i)" "orderly_request (notifications_cancel ht h i)"
  "orderly_request (applications_current ht h)" "orderly_request (webhook_receive ht h i)"
  by (auto simp: notifications_create_def notifications_create_batch_def notifications_list_def
      notifications_get_def notifications_list_events_def notifications_cancel_def
      applications_current_def webhook_receive_def accepted_def ingestion_reply_def
      split: option.splits ingestion_result.splits intro!: request_intros)

lemma orderly_dashboard:
  "orderly_request (auth_register ht h)" "orderly_request (auth_login ht h)"
  "orderly_request (auth_logout ht h)" "orderly_request (auth_session ht h)"
  "orderly_request (applications_list ht h)" "orderly_request (applications_create ht h)"
  "orderly_request (applications_get ht h a)" "orderly_request (applications_update ht h a)"
  "orderly_request (applications_archive ht h a)" "orderly_request (api_keys_list ht h a)"
  "orderly_request (api_keys_create ht g h a)" "orderly_request (api_keys_revoke ht h a i)"
  by (auto simp: auth_register_def auth_login_def auth_logout_def auth_session_def signed_in_def
      applications_list_def applications_create_def applications_get_def applications_update_def
      applications_archive_def api_keys_list_def api_keys_create_def api_keys_revoke_def
      intro!: request_intros)

lemma orderly_below_application:
  "orderly_request (dashboard_notifications_list ht h a)"
  "orderly_request (dashboard_notifications_create ht h a)"
  "orderly_request (dashboard_notifications_cancel_waiting ht h a)"
  "orderly_request (dashboard_notifications_get ht h a i)"
  "orderly_request (dashboard_notifications_list_events ht h a i)"
  "orderly_request (dashboard_notifications_cancel ht h a i)"
  "orderly_request (connections_list ht h a)" "orderly_request (connections_create ht h a)"
  "orderly_request (connections_get ht h a i)" "orderly_request (connections_get_qr_code ht h a i)"
  "orderly_request (connections_start ht h a i)" "orderly_request (connections_stop ht h a i)"
  "orderly_request (connections_logout ht h a i)" "orderly_request (connections_remove ht h a i)"
  by (auto simp: dashboard_notifications_list_def dashboard_notifications_create_def
      dashboard_notifications_cancel_waiting_def dashboard_notifications_get_def
      dashboard_notifications_list_events_def dashboard_notifications_cancel_def
      connections_list_def connections_create_def connections_get_def connections_get_qr_code_def
      connections_start_def connections_stop_def connections_logout_def connections_remove_def
      intro!: request_intros)

text \<open>Every route of the table, whoever calls it.\<close>

lemma orderly_serve: "orderly_request (serve ht dr h route)"
  by (cases route)
     (simp_all add: orderly_wrap orderly_public orderly_dashboard orderly_below_application
       orderly_receive)

end
