(* ===== verification/Worker.thy ===== *)
theory Worker
  imports Api_Safety
begin

text \<open>
  The worker process, \<open>apps/worker/src/jobs/\<close>, and the queues it works, \<open>packages/queue/src/\<close>: the
  payload a job carries and the schema it is read with, the handlers, the settling of a batch job by
  job, the subscriptions, and the provisioning of the queues. What pg-boss does with a queue is its
  own: its operations are parameters.
\<close>

section \<open>Payloads\<close>

text \<open>The object handed to \<open>boss.send\<close>: a dispatch job names its application, a callback's job does not.\<close>

definition job_data :: "job \<Rightarrow> json" where
  "job_data j =
     JObj ((''correlationId'', JStr (j_correlation_id j)) #
       (case j_application_id j of
          Some application_id \<Rightarrow>
            [(''notificationId'', JStr (j_subject_id j)), (''applicationId'', JStr application_id)]
        | None \<Rightarrow> [(''webhookDeliveryId'', JStr (j_subject_id j))]))"

definition base_job_payload_schema :: "(string \<Rightarrow> json option) \<Rightarrow> string option" where
  "base_job_payload_schema field = required (string_like (\<lambda>s. 1 \<le> length s)) (field ''correlationId'')"

definition notification_dispatch_payload_schema :: "formats \<Rightarrow> json option \<Rightarrow> dispatch_input option" where
  "notification_dispatch_payload_schema fm =
     object (\<lambda>field.
       Option.bind (base_job_payload_schema field) (\<lambda>correlation_id.
       Option.bind (required (string_like (fm_is_uuid fm)) (field ''notificationId'')) (\<lambda>notification_id.
       Option.bind (required (string_like (fm_is_uuid fm)) (field ''applicationId'')) (\<lambda>application_id.
       Some \<lparr>di_application_id = application_id, di_notification_id = notification_id,
             di_correlation_id = correlation_id\<rparr>))))"

definition webhook_process_payload_schema :: "formats \<Rightarrow> json option \<Rightarrow> uuid option" where
  "webhook_process_payload_schema fm =
     object (\<lambda>field.
       Option.bind (base_job_payload_schema field) (\<lambda>correlation_id.
       required (string_like (fm_is_uuid fm)) (field ''webhookDeliveryId'')))"

section \<open>Handlers\<close>

text \<open>A payload that does not match is discarded: the job completes.\<close>

definition handle_dispatch :: "config \<Rightarrow> formats \<Rightarrow> json \<Rightarrow> unit prog" where
  "handle_dispatch c fm data =
     (case notification_dispatch_payload_schema fm (Some data) of
        None \<Rightarrow> Done ()
      | Some input \<Rightarrow> bind (dispatch c input) (\<lambda>result. Done ()))"

definition handle_webhook :: "config \<Rightarrow> formats \<Rightarrow> json \<Rightarrow> unit prog" where
  "handle_webhook c fm data =
     (case webhook_process_payload_schema fm (Some data) of
        None \<Rightarrow> Done ()
      | Some delivery_id \<Rightarrow> bind (process c delivery_id) (\<lambda>result. Done ()))"

definition handle_maintenance :: "config \<Rightarrow> unit prog" where
  "handle_maintenance c = bind (run_once c) (\<lambda>report. Done ())"

section \<open>The job runner\<close>

datatype job_status = JOB_COMPLETED | JOB_FAILED

text \<open>
  \<open>settleEach\<close>: the handlers of a batch run side by side, each to its own end; the results are in the
  order of the jobs, whatever order they end in.
\<close>

definition settle_one :: "(json \<Rightarrow> unit prog) \<Rightarrow> string \<times> json \<Rightarrow> (string \<times> job_status) prog" where
  "settle_one handle job =
     bind (caught (handle (snd job))) (\<lambda>outcome.
     Done (fst job, case outcome of Inr _ \<Rightarrow> JOB_COMPLETED | Inl _ \<Rightarrow> JOB_FAILED))"

definition settle_each :: "(json \<Rightarrow> unit prog) \<Rightarrow> (string \<times> json) list \<Rightarrow> (string \<times> job_status) prog list" where
  "settle_each handle jobs = map (settle_one handle) jobs"

text \<open>What a job of a queue is worked with. A dead letter is only written to the log.\<close>

definition work :: "config \<Rightarrow> formats \<Rightarrow> queue_name \<Rightarrow> json \<Rightarrow> unit prog" where
  "work c fm queue data =
     (case queue of
        NOTIFICATION_DISPATCH \<Rightarrow> handle_dispatch c fm data
      | NOTIFICATION_DEAD_LETTER \<Rightarrow> Done ()
      | WEBHOOK_PROCESS \<Rightarrow> handle_webhook c fm data
      | MAINTENANCE_RECONCILE \<Rightarrow> handle_maintenance c)"

record subscription =
  sb_queue :: queue_name
  sb_batch_size :: int
  sb_polling_interval_seconds :: int
  sb_per_job_results :: bool

definition subscriptions :: "int \<Rightarrow> int \<Rightarrow> subscription list" where
  "subscriptions concurrency polling_interval_seconds =
     [\<lparr>sb_queue = NOTIFICATION_DISPATCH, sb_batch_size = concurrency,
       sb_polling_interval_seconds = polling_interval_seconds, sb_per_job_results = True\<rparr>,
      \<lparr>sb_queue = NOTIFICATION_DEAD_LETTER, sb_batch_size = 10,
       sb_polling_interval_seconds = 60, sb_per_job_results = False\<rparr>,
      \<lparr>sb_queue = WEBHOOK_PROCESS, sb_batch_size = concurrency,
       sb_polling_interval_seconds = polling_interval_seconds, sb_per_job_results = True\<rparr>,
      \<lparr>sb_queue = MAINTENANCE_RECONCILE, sb_batch_size = 1,
       sb_polling_interval_seconds = 30, sb_per_job_results = False\<rparr>]"

section \<open>Provisioning the queues\<close>

datatype queue_policy = STANDARD | STATELY | EXCLUSIVE

record queue_options =
  qo_expire_in_seconds :: int
  qo_retry_limit :: int
  qo_retry_delay :: "int option"
  qo_retry_backoff :: bool
  qo_dead_letter :: "queue_name option"
  qo_retention_seconds :: int

record queue_definition =
  qd_name :: queue_name
  qd_policy :: "queue_policy option"
  qd_options :: queue_options

definition queue_definitions :: "queue_definition list" where
  "queue_definitions =
     [\<lparr>qd_name = NOTIFICATION_DISPATCH, qd_policy = Some STATELY,
       qd_options = \<lparr>qo_expire_in_seconds = 120, qo_retry_limit = 3, qo_retry_delay = Some 10,
         qo_retry_backoff = True, qo_dead_letter = Some NOTIFICATION_DEAD_LETTER,
         qo_retention_seconds = 60 * 60 * 24 * 14\<rparr>\<rparr>,
      \<lparr>qd_name = NOTIFICATION_DEAD_LETTER, qd_policy = None,
       qd_options = \<lparr>qo_expire_in_seconds = 120, qo_retry_limit = 0, qo_retry_delay = None,
         qo_retry_backoff = False, qo_dead_letter = None, qo_retention_seconds = 60 * 60 * 24 * 30\<rparr>\<rparr>,
      \<lparr>qd_name = WEBHOOK_PROCESS, qd_policy = None,
       qd_options = \<lparr>qo_expire_in_seconds = 60, qo_retry_limit = 5, qo_retry_delay = Some 5,
         qo_retry_backoff = True, qo_dead_letter = None, qo_retention_seconds = 60 * 60 * 24 * 7\<rparr>\<rparr>,
      \<lparr>qd_name = MAINTENANCE_RECONCILE, qd_policy = None,
       qd_options = \<lparr>qo_expire_in_seconds = 300, qo_retry_limit = 1, qo_retry_delay = None,
         qo_retry_backoff = False, qo_dead_letter = None, qo_retention_seconds = 60 * 60 * 24\<rparr>\<rparr>]"

text \<open>The operations of pg-boss on its queues; the state is its own.\<close>

record 'b queue_broker =
  qb_get :: "queue_name \<Rightarrow> 'b \<Rightarrow> (queue_policy \<times> queue_options) option"
  qb_create :: "queue_name \<Rightarrow> queue_policy \<Rightarrow> queue_options \<Rightarrow> 'b \<Rightarrow> 'b"
  qb_delete :: "queue_name \<Rightarrow> 'b \<Rightarrow> 'b"
  qb_update :: "queue_name \<Rightarrow> queue_options \<Rightarrow> 'b \<Rightarrow> 'b"

definition policy_of :: "queue_definition \<Rightarrow> queue_policy" where
  "policy_of d = (case qd_policy d of None \<Rightarrow> STANDARD | Some policy \<Rightarrow> policy)"

definition declare_queue :: "'b queue_broker \<Rightarrow> queue_definition \<Rightarrow> 'b \<Rightarrow> 'b" where
  "declare_queue boss d b =
     (case qb_get boss (qd_name d) b of
        None \<Rightarrow> qb_create boss (qd_name d) (policy_of d) (qd_options d) b
      | Some (policy, options) \<Rightarrow>
          if policy \<noteq> policy_of d
          then qb_create boss (qd_name d) (policy_of d) (qd_options d) (qb_delete boss (qd_name d) b)
          else qb_update boss (qd_name d) (qd_options d) b)"

definition ordered_definitions :: "queue_definition list \<Rightarrow> queue_definition list" where
  "ordered_definitions ds =
     (let dead_letter_names = List.map_filter (\<lambda>d. qo_dead_letter (qd_options d)) ds
      in filter (\<lambda>d. qd_name d \<in> set dead_letter_names) ds
         @ filter (\<lambda>d. qd_name d \<notin> set dead_letter_names) ds)"

definition provision_queues :: "'b queue_broker \<Rightarrow> 'b \<Rightarrow> 'b" where
  "provision_queues boss = fold (declare_queue boss) (ordered_definitions queue_definitions)"

section \<open>Jobs are read as they were written\<close>

lemma dispatch_payload:
  assumes "j_application_id j = Some a" and "fm_is_uuid fm a" and "fm_is_uuid fm (j_subject_id j)"
    and "j_correlation_id j \<noteq> []"
  shows "notification_dispatch_payload_schema fm (Some (job_data j))
    = Some \<lparr>di_application_id = a, di_notification_id = j_subject_id j,
            di_correlation_id = j_correlation_id j\<rparr>"
  using assms
  by (simp add: notification_dispatch_payload_schema_def job_data_def base_job_payload_schema_def
      required_def json_field_def Suc_le_eq)

lemma webhook_payload:
  assumes "j_application_id j = None" and "fm_is_uuid fm (j_subject_id j)" and "j_correlation_id j \<noteq> []"
  shows "webhook_process_payload_schema fm (Some (job_data j)) = Some (j_subject_id j)"
  using assms
  by (simp add: webhook_process_payload_schema_def job_data_def base_job_payload_schema_def
      required_def json_field_def Suc_le_eq)

section \<open>Handlers are safe\<close>

lemma safely_work: "safely (work c fm queue data)"
  by (auto simp: work_def handle_dispatch_def handle_webhook_def handle_maintenance_def
      safely_dispatch safely_process safely_run_once
      split: queue_name.splits option.splits intro!: safe_bind [where Q = anything])

lemma safely_settle: "safely (settle_one (work c fm queue) job)"
  unfolding settle_one_def
  by (rule safe_bind [where Q = anything], rule safe_attempt [OF safely_work]) simp_all

end
