(* ===== verification/Http_Examples.thy ===== *)
theory Http_Examples
  imports Http_Safety
begin

text \<open>A small running API, for the instances that show that the hypotheses of the properties can hold.\<close>

definition example_formats :: formats where
  "example_formats =
     \<lparr>fm_is_uuid = (\<lambda>s. s \<noteq> []), fm_is_datetime = (\<lambda>s. False), fm_is_email = (\<lambda>s. CHR ''@'' \<in> set s),
      fm_read_date = (\<lambda>s. 0)\<rparr>"

definition example_http :: http_runtime where
  "example_http =
     \<lparr>ht_documentation_base_url = ''https://api.example'', ht_csrf_digest = (\<lambda>s. CHR ''d'' # s),
      ht_limiter_reachable = True, ht_session_cookie_name = ''session'', ht_cookie_secure = True,
      ht_decode_utf8 = Some, ht_parse_json = (\<lambda>s. Inr (JObj [])), ht_formats = example_formats,
      ht_config = example_config, ht_keys = example_key_runtime, ht_auth = example_auth,
      ht_connections = example_sessions,
      ht_requests = \<lparr>rr_digest = (\<lambda>j. ''digest''), rr_collates_before = (\<lambda>a b. True),
        rr_correlation_id = None\<rparr>,
      ht_cursors = example_codec, ht_callbacks = prefixed_crypto\<rparr>"

definition example_draws :: draws where
  "example_draws =
     \<lparr>dr_generated_key = \<lparr>g_token = ''token'', g_identifier = replicate 12 CHR ''a'',
        g_display_prefix = ''wnp_live'', g_last_four = ''last'', g_key_hash = ''hash''\<rparr>,
      dr_probes = \<lparr>pb_database_up = True, pb_queue_up = True\<rparr>\<rparr>"

text \<open>A request without any credential, and one with the key of the examples.\<close>

definition bare_call :: http_input where
  "bare_call =
     \<lparr>hi_method = ''POST'', hi_url = ''/v1/notifications'', hi_ip = ''192.0.2.1'',
      hi_request_id = ''request-1'', hi_authorization = None, hi_session_cookie = None,
      hi_csrf_headers = [], hi_correlation_headers = [], hi_idempotency_key = None,
      hi_signature = None, hi_timestamp = None, hi_user_agent = None, hi_content = None,
      hi_query = JObj []\<rparr>"

definition keyed_call :: http_input where
  "keyed_call = bare_call\<lparr>hi_authorization := Some (bearer_prefix @ example_token)\<rparr>"

lemma calls_have_no_body [simp]:
  "parse_body example_http bare_call = Done None" "parse_body example_http keyed_call = Done None"
  by (simp_all add: parse_body_def keyed_call_def bare_call_def)

lemma example_http_simps [simp]:
  "ht_keys example_http = example_key_runtime" "ht_config example_http = example_config"
  "ht_limiter_reachable example_http"
  by (simp_all add: example_http_def)

lemma keys_world_unique:
  "distinct (map ak_key_identifier (w_api_keys keys_world))" "distinct (map ap_id (w_applications keys_world))"
  by (simp_all add: keys_world_def example_world_def)

lemma example_key_opens: "opens example_key_runtime keys_world example_token example_key example_application"
  by (simp add: opens_def keys_world_def example_world_def example_application_def example_key_def
      example_key_runtime_def example_token_parses eval_nat_numeral)

lemma example_identifiers_injective: "inj (c_identifier example_config)"
  by (rule injI) (simp add: example_config_def replicate_eq_replicate)

end
