(* ===== verification/Interleaving.thy ===== *)
theory Interleaving
  imports Worker Http_Examples
begin

text \<open>
  The whole platform at work: any number of jobs and HTTP requests, each a program of effects, take
  turns in any order. A job of the log of jobs may be worked any number of times and at any moment,
  which covers redelivery, late delivery and duplicates; a worker may die between any two effects;
  the provider may answer anything; time passes. The properties hold in every state that can be
  reached. The counter of calls and the log of sends inside the \<^typ>\<open>world\<close> belong to the run of a
  single program; here they may be anything.
\<close>

section \<open>Steps\<close>

definition forget :: "'a prog \<Rightarrow> unit prog" where
  "forget p = bind p (\<lambda>_. Done ())"

text \<open>
  What may start: the worker that is handed a job somebody enqueued, the maintenance cron, and any
  request for any route of the API, whoever sends it.
\<close>

inductive spawns :: "config \<Rightarrow> world \<Rightarrow> unit prog \<Rightarrow> bool" for c w where
  spawn_job:
    "j \<in> set (w_jobs w) \<Longrightarrow>
       spawns c w (forget (settle_one (work c fm (j_queue j)) (job_id, job_data j)))"
| spawn_cron:
    "spawns c w (forget (settle_one (work c fm MAINTENANCE_RECONCILE) (job_id, JNull)))"
| spawn_request: "ht_config ht = c \<Longrightarrow> spawns c w (forget (serve ht dr h route))"

text \<open>What a program that waits for an answer may continue as.\<close>

inductive answers :: "'a prog \<Rightarrow> 'a prog \<Rightarrow> bool" where
  "answers (Entropy g) (g u)"
| "answers (ReadAborted g) (g b)"
| "answers (GetSession s g) (g r)"
| "answers (ResolveRecipient s n g) (g r')"
| "answers (FetchAccountLimits s g) (g l)"
| "answers (ShowTyping s ch d g) (g v)"
| "answers (CreateSession ci g) (g p)"
| "answers (StartSession s g) (g p)"
| "answers (StopSession s g) (g p)"
| "answers (LogoutSession s g) (g p)"
| "answers (DeleteSession s g) (g v)"
| "answers (GetQrCode s g) (g q)"

record platform =
  pf_world :: world
  pf_threads :: "unit prog list"
  pf_sent :: "sent_text list"

definition continue_as :: "nat \<Rightarrow> unit prog \<Rightarrow> platform \<Rightarrow> platform" where
  "continue_as k p s = s\<lparr>pf_threads := (pf_threads s)[k := p]\<rparr>"

inductive step :: "config \<Rightarrow> platform \<Rightarrow> platform \<Rightarrow> bool" for c where
  spawn: "spawns c (pf_world s) p \<Longrightarrow> step c s (s\<lparr>pf_threads := pf_threads s @ [p]\<rparr>)"
| effect: "k < length (pf_threads s) \<Longrightarrow> pf_threads s ! k = Act f g \<Longrightarrow>
    step c s (continue_as k (g (pf_world s)) (s\<lparr>pf_world := f (pf_world s)\<rparr>))"
| answered: "k < length (pf_threads s) \<Longrightarrow> answers (pf_threads s ! k) p \<Longrightarrow>
    step c s (continue_as k p s)"
| send: "k < length (pf_threads s) \<Longrightarrow> pf_threads s ! k = SendTextMessage t g \<Longrightarrow>
    step c s (continue_as k (g r) (s\<lparr>pf_sent := pf_sent s @ [t]\<rparr>))"
| crash: "k < length (pf_threads s) \<Longrightarrow> step c s (continue_as k (Done ()) s)"
| tick: "step c s (s\<lparr>pf_world := (pf_world s)\<lparr>w_clock := w_clock (pf_world s) + int d,
      w_db_clock := w_db_clock (pf_world s) + int e, w_provider_calls := n, w_sends := xs\<rparr>\<rparr>)"

inductive_cases spawnsE: "spawns c w p"
inductive_cases answersE: "answers p q"

definition started :: "world \<Rightarrow> platform" where
  "started w = \<lparr>pf_world = w, pf_threads = [], pf_sent = []\<rparr>"

definition reachable :: "config \<Rightarrow> world \<Rightarrow> platform \<Rightarrow> bool" where
  "reachable c w = (step c)\<^sup>*\<^sup>* (started w)"

section \<open>Threads\<close>

definition later :: "world \<Rightarrow> world \<Rightarrow> bool" where
  "later w v = (sound v \<and> evolves w v)"

definition sends_of :: "uuid \<Rightarrow> sent_text list \<Rightarrow> nat" where
  "sends_of i ts = length (filter (\<lambda>t. x_notification_id t = i) ts)"

lemma sends_of_snoc [simp]:
  "sends_of i (ts @ [t]) = sends_of i ts + (if x_notification_id t = i then 1 else 0)"
  by (simp add: sends_of_def)

lemma safely_forget: "safely p \<Longrightarrow> safely (forget p)"
  by (simp add: forget_def safe_bind [where Q = anything])

lemma silent_forget: "silent p \<Longrightarrow> silent (forget p)"
  by (simp add: forget_def silent_bind)

lemma budgeted_forget: "budgeted p i I c \<Longrightarrow> budgeted (forget p) i I c"
  unfolding forget_def by (induction p arbitrary: I c) (auto split: if_splits)

lemma spawns_safely: "spawns c w p \<Longrightarrow> safely p"
  using orderly_serve
  by (auto elim!: spawnsE intro!: safely_forget simp: safely_settle orderly_request_def)

lemma budgeted_bind_done: "budgeted p i I c \<Longrightarrow> budgeted (bind p (\<lambda>x. Done (f x))) i I c"
  by (induction p arbitrary: I c) (auto split: if_splits)

lemma budgeted_caught: "budgeted p i I c \<Longrightarrow> budgeted (caught p) i I c"
  by (induction p arbitrary: I c) (auto split: if_splits)

lemma budgeted_work: "(\<And>v. I v \<Longrightarrow> sound v) \<Longrightarrow> budgeted (work c fm queue data) i I 0"
  by (auto simp: work_def handle_dispatch_def handle_webhook_def handle_maintenance_def
      budgeted_dispatch budgeted_silent silent_process silent_maintenance
      split: queue_name.splits option.splits intro!: budgeted_bind_done)

lemma spawns_budgeted: "spawns c w p \<Longrightarrow> (\<And>v. I v \<Longrightarrow> sound v) \<Longrightarrow> budgeted p i I 0"
  using orderly_serve
  by (auto elim!: spawnsE intro!: budgeted_forget budgeted_bind_done budgeted_caught budgeted_work
      simp: settle_one_def orderly_request_def budgeted_silent)

lemma answers_safely: "answers p q \<Longrightarrow> safely p \<Longrightarrow> safely q"
  by (erule answersE) simp_all

lemma answers_budgeted: "answers p q \<Longrightarrow> budgeted p i I c \<Longrightarrow> budgeted q i I c"
  by (erule answersE) simp_all

lemma later_le: "evolves w w' \<Longrightarrow> later w' \<le> later w"
  by (auto simp: later_def intro: evolves_trans)

lemma budgeted_later: "budgeted p i (later w) c \<Longrightarrow> evolves w w' \<Longrightarrow> budgeted p i (later w') c"
  by (erule budgeted_mono) (simp_all add: later_le)

section \<open>The invariant\<close>

definition paid :: "uuid \<Rightarrow> platform \<Rightarrow> bool" where
  "paid i s =
     (\<exists>credits. length credits = length (pf_threads s)
        \<and> (\<forall>k < length credits. budgeted (pf_threads s ! k) i (later (pf_world s)) (credits ! k))
        \<and> sends_of i (pf_sent s) + sum_list credits \<le> used i (pf_world s))"

definition delivered_as_asked :: "platform \<Rightarrow> bool" where
  "delivered_as_asked s =
     (\<forall>t \<in> set (pf_sent s). \<exists>r \<in> set (w_notifications (pf_world s)).
        n_id r = x_notification_id t \<and> n_rendered_body r = x_text t)"

definition healthy :: "world \<Rightarrow> platform \<Rightarrow> bool" where
  "healthy w0 s =
     (sound (pf_world s) \<and> evolves w0 (pf_world s) \<and> (\<forall>p \<in> set (pf_threads s). safely p)
      \<and> (\<forall>i. paid i s) \<and> delivered_as_asked s)"

lemma paid_update:
  assumes "paid i s" and "k < length (pf_threads s)"
    and "\<And>credit. budgeted (pf_threads s ! k) i (later (pf_world s)) credit \<Longrightarrow>
      \<exists>credit'. budgeted p i (later w') credit'
        \<and> sends_of i sent' + credit' + used i (pf_world s)
            \<le> sends_of i (pf_sent s) + credit + used i w'"
    and "evolves (pf_world s) w'"
  shows "paid i \<lparr>pf_world = w', pf_threads = (pf_threads s)[k := p], pf_sent = sent'\<rparr>"
proof -
  from assms(1) obtain credits where len: "length credits = length (pf_threads s)"
    and all: "\<And>j. j < length credits \<Longrightarrow>
      budgeted (pf_threads s ! j) i (later (pf_world s)) (credits ! j)"
    and bound: "sends_of i (pf_sent s) + sum_list credits \<le> used i (pf_world s)"
    by (auto simp: paid_def)
  with assms(2,3) obtain credit' where p: "budgeted p i (later w') credit'"
    and less: "sends_of i sent' + credit' + used i (pf_world s)
      \<le> sends_of i (pf_sent s) + credits ! k + used i w'" by metis
  have "budgeted ((pf_threads s)[k := p] ! j) i (later w') (credits[k := credit'] ! j)"
    if "j < length credits" for j
    using that all [OF that] p budgeted_later [OF _ assms(4)] len by (cases "j = k") auto
  moreover have "sends_of i sent' + sum_list (credits[k := credit']) \<le> used i w'"
  proof -
    have "credits ! k \<le> sum_list credits"
      using assms(2) len by (simp add: elem_le_sum_list)
    then show ?thesis
      using less bound assms(2) len by (simp add: sum_list_update)
  qed
  ultimately show ?thesis
    using len by (auto simp: paid_def intro!: exI [of _ "credits[k := credit']"])
qed

lemma delivered_later:
  assumes "delivered_as_asked s" and "evolves (pf_world s) w'"
    and "pf_sent s' = pf_sent s" and "pf_world s' = w'"
  shows "delivered_as_asked s'"
  using assms unfolding delivered_as_asked_def evolves_def row_evolves_def by metis

lemma threads_safely:
  "\<forall>p \<in> set ts. safely p \<Longrightarrow> safely q \<Longrightarrow> \<forall>p \<in> set (ts[k := q]). safely p"
  using set_update_subset_insert [of ts k q] by blast

section \<open>Every step keeps it\<close>

lemma healthyD:
  assumes "healthy w0 s"
  shows "sound (pf_world s)" and "evolves w0 (pf_world s)" and "paid i s" and "delivered_as_asked s"
    and "\<forall>p \<in> set (pf_threads s). safely p"
  using assms by (simp_all add: healthy_def)

lemma healthy_thread:
  assumes "healthy w0 s" and "k < length (pf_threads s)"
  shows "safely (pf_threads s ! k)"
  using assms by (simp add: healthy_def)

lemma healthy_continue:
  assumes "healthy w0 s" and "k < length (pf_threads s)"
    and "sound w'" and "evolves (pf_world s) w'" and "safely p"
    and "\<And>i credit. budgeted (pf_threads s ! k) i (later (pf_world s)) credit \<Longrightarrow>
      \<exists>credit'. budgeted p i (later w') credit'
        \<and> sends_of i sent' + credit' + used i (pf_world s)
            \<le> sends_of i (pf_sent s) + credit + used i w'"
    and "delivered_as_asked \<lparr>pf_world = w', pf_threads = [], pf_sent = sent'\<rparr>"
  shows "healthy w0 \<lparr>pf_world = w', pf_threads = (pf_threads s)[k := p], pf_sent = sent'\<rparr>"
proof -
  have "paid i \<lparr>pf_world = w', pf_threads = (pf_threads s)[k := p], pf_sent = sent'\<rparr>" for i
    by (rule paid_update [OF healthyD(3) [OF assms(1)] assms(2) assms(6) assms(4)])
  moreover have "\<forall>q \<in> set ((pf_threads s)[k := p]). safely q"
    by (rule threads_safely [OF healthyD(5) [OF assms(1)] assms(5)])
  moreover have "evolves w0 w'"
    by (rule evolves_trans [OF healthyD(2) [OF assms(1)] assms(4)])
  ultimately show ?thesis
    using assms(3,7) by (simp add: healthy_def delivered_as_asked_def)
qed

lemma healthy_spawn:
  assumes "healthy w0 s" and "spawns c (pf_world s) p"
  shows "healthy w0 (s\<lparr>pf_threads := pf_threads s @ [p]\<rparr>)"
proof -
  have "paid i (s\<lparr>pf_threads := pf_threads s @ [p]\<rparr>)" for i
  proof -
    from assms(1) obtain credits where "length credits = length (pf_threads s)"
      and "\<forall>k < length credits. budgeted (pf_threads s ! k) i (later (pf_world s)) (credits ! k)"
      and "sends_of i (pf_sent s) + sum_list credits \<le> used i (pf_world s)"
      using healthyD(3) [of w0 s i] by (auto simp: paid_def)
    moreover have "budgeted p i (later (pf_world s)) 0"
      by (rule spawns_budgeted [OF assms(2)]) (simp add: later_def)
    ultimately show ?thesis
      unfolding paid_def by (intro exI [of _ "credits @ [0]"]) (auto simp: nth_append less_Suc_eq)
  qed
  with assms spawns_safely [OF assms(2)] show ?thesis
    by (auto simp: healthy_def delivered_as_asked_def)
qed

lemma healthy_tick:
  assumes "healthy w0 s"
  shows "healthy w0 (s\<lparr>pf_world := (pf_world s)\<lparr>w_clock := x, w_db_clock := y,
    w_provider_calls := n, w_sends := xs\<rparr>\<rparr>)"
proof -
  let ?w = "(pf_world s)\<lparr>w_clock := x, w_db_clock := y, w_provider_calls := n, w_sends := xs\<rparr>"
  have ev: "evolves (pf_world s) ?w"
    by (auto simp: evolves_def intro!: bexI [of _ r for r])
  have "used i ?w = used i (pf_world s)" for i by (simp add: used_def)
  then have "paid i (s\<lparr>pf_world := ?w\<rparr>)" for i
    using healthyD(3) [OF assms, of i] by (auto simp: paid_def intro!: budgeted_later [OF _ ev])
  moreover have "evolves w0 ?w"
    by (rule evolves_trans [OF healthyD(2) [OF assms] ev])
  ultimately show ?thesis
    using healthyD [OF assms] by (simp add: healthy_def delivered_as_asked_def)
qed

lemma healthy_step:
  assumes "step c s s'" and "healthy w0 s"
  shows "healthy w0 s'"
  using assms
proof (cases rule: step.cases)
  case (spawn p)
  then show ?thesis using healthy_spawn [OF assms(2)] by simp
next
  case (effect k f g)
  let ?w = "pf_world s" and ?w' = "f (pf_world s)"
  have I: "sound ?w" using assms(2) by (simp add: healthy_def)
  have s: "sound ?w'" "evolves ?w ?w'" "safely (g ?w)"
    using healthy_thread [OF assms(2) effect(2)] I by (simp_all add: effect(3))
  have less: "(\<lambda>v. later ?w v \<and> evolves ?w' v) \<ge> later ?w'"
    using s(2) by (auto simp: later_def intro: evolves_trans)
  have "healthy w0 \<lparr>pf_world = ?w', pf_threads = (pf_threads s)[k := g ?w], pf_sent = pf_sent s\<rparr>"
  proof (rule healthy_continue [OF assms(2) effect(2) s])
    fix i credit assume "budgeted (pf_threads s ! k) i (later ?w) credit"
    then have "budgeted (g ?w) i (\<lambda>v. later ?w v \<and> evolves ?w' v) (credit + (used i ?w' - used i ?w))"
      using I by (simp add: effect(3) later_def)
    then have "budgeted (g ?w) i (later ?w') (credit + (used i ?w' - used i ?w))"
      by (rule budgeted_mono [OF _ less order_refl])
    then show "\<exists>credit'. budgeted (g ?w) i (later ?w') credit'
        \<and> sends_of i (pf_sent s) + credit' + used i ?w \<le> sends_of i (pf_sent s) + credit + used i ?w'"
      using used_mono [OF I s(1,2), of i] by (intro exI conjI) auto
  qed (use assms(2) delivered_later [OF _ s(2)] in \<open>simp add: healthy_def\<close>)
  then show ?thesis by (cases s) (simp add: effect continue_as_def)
next
  case (answered k p)
  note s = healthy_thread [OF assms(2) answered(2)]
  have "healthy w0 \<lparr>pf_world = pf_world s, pf_threads = (pf_threads s)[k := p], pf_sent = pf_sent s\<rparr>"
    by (rule healthy_continue [OF assms(2) answered(2)])
      (use assms(2) answers_safely [OF answered(3) s] answers_budgeted [OF answered(3)]
        in \<open>auto simp: healthy_def delivered_as_asked_def intro: exI\<close>)
  then show ?thesis by (cases s) (simp add: answered continue_as_def)
next
  case (send k t g r)
  note s = healthy_thread [OF assms(2) send(2)]
  obtain credits where "\<forall>j < length credits. budgeted (pf_threads s ! j) (x_notification_id t)
      (later (pf_world s)) (credits ! j)"
    and "length credits = length (pf_threads s)"
    using healthyD(3) [OF assms(2), of "x_notification_id t"] by (auto simp: paid_def)
  then have "faithful t (later (pf_world s))"
    using send(2,3) by (metis budgeted.simps(8))
  then have as_asked: "\<exists>r \<in> set (w_notifications (pf_world s)).
      n_id r = x_notification_id t \<and> n_rendered_body r = x_text t"
    using assms(2) by (auto simp: faithful_def later_def healthy_def)
  have "healthy w0 \<lparr>pf_world = pf_world s, pf_threads = (pf_threads s)[k := g r],
      pf_sent = pf_sent s @ [t]\<rparr>"
  proof (rule healthy_continue [OF assms(2) send(2)])
    fix i credit assume "budgeted (pf_threads s ! k) i (later (pf_world s)) credit"
    then have "if x_notification_id t = i then 0 < credit \<and> budgeted (g r) i (later (pf_world s)) (credit - 1)
        else budgeted (g r) i (later (pf_world s)) credit"
      by (simp add: send(3) split: if_splits)
    then show "\<exists>credit'. budgeted (g r) i (later (pf_world s)) credit'
        \<and> sends_of i (pf_sent s @ [t]) + credit' + used i (pf_world s)
            \<le> sends_of i (pf_sent s) + credit + used i (pf_world s)"
      by (intro exI [of _ "if x_notification_id t = i then credit - 1 else credit"])
        (auto split: if_splits)
  qed (use assms(2) s as_asked in \<open>auto simp: healthy_def delivered_as_asked_def send(3)\<close>)
  then show ?thesis by (cases s) (simp add: send continue_as_def)
next
  case (crash k)
  have "healthy w0 \<lparr>pf_world = pf_world s, pf_threads = (pf_threads s)[k := Done ()], pf_sent = pf_sent s\<rparr>"
    by (rule healthy_continue [OF assms(2) crash(2)])
      (use assms(2) in \<open>auto simp: healthy_def delivered_as_asked_def\<close>)
  then show ?thesis by (cases s) (simp add: crash continue_as_def)
next
  case (tick d e)
  then show ?thesis using healthy_tick [OF assms(2)] by simp
qed

lemma healthy_reachable:
  assumes "sound w" and "reachable c w s"
  shows "healthy w s"
proof -
  have "healthy w (started w)"
    using assms(1) by (auto simp: healthy_def started_def paid_def delivered_as_asked_def sends_of_def)
  with assms(2) [unfolded reachable_def] show ?thesis
    by (induction rule: rtranclp_induct) (auto intro: healthy_step)
qed

text \<open>Nothing in the invariant but the comparison of rows depends on where a run began.\<close>

lemma steps_evolve:
  assumes "sound w" and "reachable c w s" and "(step c)\<^sup>*\<^sup>* s s'"
  shows "evolves (pf_world s) (pf_world s')"
proof -
  have "healthy (pf_world s) s"
    using healthy_reachable [OF assms(1,2)] by (simp add: healthy_def)
  with assms(3) have "healthy (pf_world s) s'"
    by (induction rule: rtranclp_induct) (auto intro: healthy_step)
  then show ?thesis by (simp add: healthy_def)
qed

section \<open>A run is one of the interleavings\<close>

primrec sent_by :: "'a prog \<Rightarrow> env \<Rightarrow> world \<Rightarrow> sent_text list" where
  "sent_by (Done x) = (\<lambda>env w. [])"
| "sent_by (Raise e) = (\<lambda>env w. [])"
| "sent_by (Act f g) = (\<lambda>env w. sent_by (g w) env (f w))"
| "sent_by (Entropy g) =
     (\<lambda>env w. sent_by (g (env_entropy env (w_provider_calls w))) env (after_call env w))"
| "sent_by (ReadAborted g) = (\<lambda>env w. sent_by (g (env_aborted env (w_provider_calls w))) env w)"
| "sent_by (GetSession s g) =
     (\<lambda>env w. sent_by (g (env_get_session env (w_provider_calls w) s)) env (after_call env w))"
| "sent_by (ResolveRecipient s n g) =
     (\<lambda>env w. sent_by (g (env_resolve_recipient env (w_provider_calls w) s n)) env (after_call env w))"
| "sent_by (SendTextMessage t g) =
     (\<lambda>env w. t # sent_by (g (env_send_text env (w_provider_calls w) t)) env
       (log_send t (after_call env w)))"
| "sent_by (FetchAccountLimits s g) =
     (\<lambda>env w. sent_by (g (env_fetch_limits env (w_provider_calls w) s)) env (after_call env w))"
| "sent_by (ShowTyping s ch d g) =
     (\<lambda>env w. sent_by (g (env_show_typing env (w_provider_calls w) s ch d)) env (after_call env w))"
| "sent_by (CreateSession i g) =
     (\<lambda>env w. sent_by (g (env_create_session env (w_provider_calls w) i)) env (after_call env w))"
| "sent_by (StartSession s g) =
     (\<lambda>env w. sent_by (g (env_start_session env (w_provider_calls w) s)) env (after_call env w))"
| "sent_by (StopSession s g) =
     (\<lambda>env w. sent_by (g (env_stop_session env (w_provider_calls w) s)) env (after_call env w))"
| "sent_by (LogoutSession s g) =
     (\<lambda>env w. sent_by (g (env_logout_session env (w_provider_calls w) s)) env (after_call env w))"
| "sent_by (DeleteSession s g) =
     (\<lambda>env w. sent_by (g (env_delete_session env (w_provider_calls w) s)) env (after_call env w))"
| "sent_by (GetQrCode s g) =
     (\<lambda>env w. sent_by (g (env_get_qr_code env (w_provider_calls w) s)) env (after_call env w))"

lemma sent_by_forget: "sent_by (forget p) env w = sent_by p env w"
  unfolding forget_def by (induction p arbitrary: w) simp_all

lemma run_forget: "snd (run (forget p) env w) = snd (run p env w)"
  by (simp add: forget_def run_bind split: prod.splits outcome.splits)

lemma tick_call:
  "step c s (s\<lparr>pf_world := after_call env (pf_world s)\<rparr>)"
  "step c s (s\<lparr>pf_world := log_send t (after_call env (pf_world s))\<rparr>)"
proof -
  let ?n = "env_elapse env (w_provider_calls (pf_world s))"
  have "step c s (s\<lparr>pf_world := (pf_world s)\<lparr>w_clock := w_clock (pf_world s) + int ?n,
      w_db_clock := w_db_clock (pf_world s) + int (1000 * ?n),
      w_provider_calls := Suc (w_provider_calls (pf_world s)), w_sends := xs\<rparr>\<rparr>)" for xs
    by (rule step.tick)
  from this [of "w_sends (pf_world s)"] this [of "w_sends (pf_world s) @ [t]"]
  show "step c s (s\<lparr>pf_world := after_call env (pf_world s)\<rparr>)"
    and "step c s (s\<lparr>pf_world := log_send t (after_call env (pf_world s))\<rparr>)"
    by (simp_all add: after_call_def log_send_def)
qed

text \<open>Thread \<open>k\<close> runs to its end while the others stand still.\<close>

definition others_stand :: "nat \<Rightarrow> unit prog list \<Rightarrow> unit prog list \<Rightarrow> bool" where
  "others_stand k ps ps' = (length ps' = length ps \<and> (\<forall>i. i = k \<or> ps' ! i = ps ! i))"

lemma others_stand_simps [simp]: "others_stand k ps (qs[k := q]) = others_stand k ps qs" "others_stand k ps ps"
  by (simp_all add: others_stand_def) (metis nth_list_update_neq)

lemma others_stand_trans: "others_stand k ps qs \<Longrightarrow> others_stand k qs rs \<Longrightarrow> others_stand k ps rs"
  by (simp add: others_stand_def) metis

definition runs_to :: "config \<Rightarrow> nat \<Rightarrow> platform \<Rightarrow> world \<Rightarrow> sent_text list \<Rightarrow> bool" where
  "runs_to c k s w xs =
     (\<exists>s'. (step c)\<^sup>*\<^sup>* s s' \<and> pf_world s' = w \<and> pf_sent s' = pf_sent s @ xs
        \<and> others_stand k (pf_threads s) (pf_threads s'))"

lemma runs_to_step:
  assumes "step c s s'" and "runs_to c k s' w xs" and "pf_sent s' = pf_sent s @ ys"
    and "others_stand k (pf_threads s) (pf_threads s')"
  shows "runs_to c k s w (ys @ xs)"
  using assms unfolding runs_to_def
  by (metis append.assoc converse_rtranclp_into_rtranclp others_stand_trans)

lemma runs_to_answer:
  assumes "k < length (pf_threads s)" and "answers (pf_threads s ! k) q"
    and "\<And>s'. k < length (pf_threads s') \<Longrightarrow> pf_threads s' ! k = q \<Longrightarrow>
      pf_world s' = after_call env (pf_world s) \<Longrightarrow> runs_to c k s' w xs"
  shows "runs_to c k s w xs"
proof -
  let ?s = "continue_as k q s"
  have "runs_to c k (?s\<lparr>pf_world := after_call env (pf_world ?s)\<rparr>) w xs"
    using assms(1) by (intro assms(3)) (simp_all add: continue_as_def)
  from runs_to_step [OF tick_call(1) this, of "[]"] have "runs_to c k ?s w xs" by simp
  from runs_to_step [OF step.answered [OF assms(1,2)] this, of "[]"] show ?thesis
    by (simp add: continue_as_def)
qed

lemma run_answer:
  assumes "k < length (pf_threads s)" and "pf_threads s ! k = p" and "answers p q"
    and "run p env (pf_world s) = run q env (after_call env (pf_world s))"
    and "sent_by p env (pf_world s) = sent_by q env (after_call env (pf_world s))"
    and "\<And>s'. k < length (pf_threads s') \<Longrightarrow> pf_threads s' ! k = q \<Longrightarrow>
      runs_to c k s' (snd (run q env (pf_world s'))) (sent_by q env (pf_world s'))"
  shows "runs_to c k s (snd (run p env (pf_world s))) (sent_by p env (pf_world s))"
  unfolding assms(4,5)
proof (rule runs_to_answer [where env = env, OF assms(1)])
  show "answers (pf_threads s ! k) q" using assms(2,3) by simp
next
  fix s' :: platform assume "k < length (pf_threads s')" "pf_threads s' ! k = q"
    "pf_world s' = after_call env (pf_world s)"
  with assms(6) [of s'] show "runs_to c k s' (snd (run q env (after_call env (pf_world s))))
      (sent_by q env (after_call env (pf_world s)))" by simp
qed

lemma run_is_reachable:
  "k < length (pf_threads s) \<Longrightarrow> pf_threads s ! k = p \<Longrightarrow>
     runs_to c k s (snd (run p env (pf_world s))) (sent_by p env (pf_world s))"
proof (induction p arbitrary: s)
  case (Act f g)
  let ?s = "continue_as k (g (pf_world s)) (s\<lparr>pf_world := f (pf_world s)\<rparr>)"
  have "runs_to c k ?s (snd (run (g (pf_world s)) env (pf_world ?s)))
      (sent_by (g (pf_world s)) env (pf_world ?s))"
    using Act.prems(1) by (intro Act.IH) (simp_all add: continue_as_def)
  from runs_to_step [OF step.effect [OF Act.prems] this, of "[]"] show ?case
    by (simp add: continue_as_def)
next
  case (ReadAborted g)
  let ?q = "g (env_aborted env (w_provider_calls (pf_world s)))"
  let ?s = "continue_as k ?q s"
  have "runs_to c k ?s (snd (run ?q env (pf_world ?s))) (sent_by ?q env (pf_world ?s))"
    using ReadAborted.prems(1) by (intro ReadAborted.IH) (simp_all add: continue_as_def)
  note rest = this
  have "answers (pf_threads s ! k) ?q"
    using ReadAborted.prems(2) by (simp add: answers.intros)
  from runs_to_step [OF step.answered [OF ReadAborted.prems(1) this] rest, of "[]"] show ?case
    by (simp add: continue_as_def)
next
  case (SendTextMessage t g)
  let ?q = "g (env_send_text env (w_provider_calls (pf_world s)) t)"
  let ?s = "continue_as k ?q (s\<lparr>pf_sent := pf_sent s @ [t]\<rparr>)"
  let ?s' = "?s\<lparr>pf_world := log_send t (after_call env (pf_world ?s))\<rparr>"
  have "runs_to c k ?s' (snd (run ?q env (pf_world ?s'))) (sent_by ?q env (pf_world ?s'))"
    using SendTextMessage.prems(1) by (intro SendTextMessage.IH) (simp_all add: continue_as_def)
  from runs_to_step [OF tick_call(2) this, of "[]"]
  have "runs_to c k ?s (snd (run ?q env (pf_world ?s'))) (sent_by ?q env (pf_world ?s'))" by simp
  from runs_to_step [OF step.send [OF SendTextMessage.prems] this, of "[t]"] show ?case
    by (simp add: continue_as_def)
next
  case (Done x)
  then show ?case by (auto simp: runs_to_def)
next
  case (Raise e)
  then show ?case by (auto simp: runs_to_def)
qed (rule run_answer, assumption, assumption, rule answers.intros, simp, simp, metis rangeI)+

section \<open>An example\<close>

text \<open>One job waits, a worker takes it, and the message goes out.\<close>

definition queued_world :: world where
  "queued_world = example_world\<lparr>w_jobs :=
     [\<lparr>j_queue = NOTIFICATION_DISPATCH, j_correlation_id = ''corr'', j_application_id = Some ''app'',
       j_subject_id = ''n1'', j_singleton_key = Some ''n1'', j_start_after = None\<rparr>]\<rparr>"

definition example_text :: sent_text where
  "example_text =
     \<lparr>x_notification_id = ''n1'', x_session_name = ''wnp-s1'',
      x_chat_identifier = ''5511999998888@c.us'', x_text = ''Hello''\<rparr>"

lemma queued_sound [simp]: "sound queued_world"
  by (simp add: queued_world_def)

definition example_job :: "(string \<times> job_status) prog" where
  "example_job = settle_one (work example_config example_formats NOTIFICATION_DISPATCH)
     (''job-1'', job_data (hd (w_jobs queued_world)))"

lemma sent_by_bind_done: "sent_by (bind p (\<lambda>x. Done (f x))) env w = sent_by p env w"
  by (induction p arbitrary: w) simp_all

lemma sent_by_caught: "sent_by (caught p) env w = sent_by p env w"
  by (induction p arbitrary: w) simp_all

lemma example_dispatch_sent:
  "sent_by (dispatch example_config \<lparr>di_application_id = ''app'', di_notification_id = ''n1'',
     di_correlation_id = ''corr''\<rparr>) example_env queued_world = [example_text]"
  by code_simp

lemma example_sent: "sent_by example_job example_env queued_world = [example_text]"
proof -
  have "notification_dispatch_payload_schema example_formats (Some (job_data (hd (w_jobs queued_world))))
      = Some \<lparr>di_application_id = ''app'', di_notification_id = ''n1'', di_correlation_id = ''corr''\<rparr>"
    using dispatch_payload [of "hd (w_jobs queued_world)" "''app''" example_formats]
    by (simp add: queued_world_def example_formats_def)
  then show ?thesis
    by (simp add: example_job_def settle_one_def work_def handle_dispatch_def sent_by_bind_done
        sent_by_caught example_dispatch_sent)
qed

lemma example_reachable:
  obtains s where "reachable example_config queued_world s" and "pf_sent s = [example_text]"
proof -
  let ?p = "forget example_job"
  let ?s = "(started queued_world)\<lparr>pf_threads := [?p]\<rparr>"
  have "spawns example_config queued_world ?p"
    using spawn_job [of "hd (w_jobs queued_world)" queued_world example_config example_formats "''job-1''"]
    by (simp add: queued_world_def example_job_def)
  then have "step example_config (started queued_world) ?s"
    using step.spawn [of example_config "started queued_world" ?p] by (simp add: started_def)
  moreover have "runs_to example_config 0 ?s (snd (run ?p example_env queued_world)) [example_text]"
    using run_is_reachable [of 0 ?s ?p example_config example_env]
    by (simp add: started_def sent_by_forget example_sent)
  ultimately show thesis
    using that unfolding runs_to_def reachable_def
    by (auto simp: started_def) (meson converse_rtranclp_into_rtranclp)
qed

section \<open>Properties\<close>

text \<open>
  C2: The platform is consistent in every state it can reach. From a sound database, however
  workers, maintenance, requests and callbacks interleave, whatever jobs are delivered twice or
  late, whichever workers die and whatever the provider answers: the tables stay sound, every
  notification keeps its identity, its text and its attempts, and has moved only along legal
  transitions since the start.
\<close>

theorem reachable_states_are_sound:
  assumes "sound w" and "reachable c w s"
  shows "sound (pf_world s) \<and> evolves w (pf_world s)"
  using healthy_reachable [OF assms] by (simp add: healthy_def)

theorem reachable_states_are_sound_witness:
  "\<exists>s :: platform. pf_sent s = [example_text] \<and> sound (pf_world s) \<and> evolves queued_world (pf_world s)"
proof -
  obtain s where "reachable example_config queued_world s" "pf_sent s = [example_text]"
    by (rule example_reachable)
  with reachable_states_are_sound [OF queued_sound] show ?thesis by blast
qed

text \<open>
  C1: A notification is handed to WhatsApp at most as often as attempts were counted on it, never
  more than its configured maximum, in every reachable state: no interleaving, redelivery or crash
  makes the platform send once more. A notification that does not exist is never sent.
\<close>

theorem sends_never_exceed_the_maximum:
  assumes "sound w" and "reachable c w s"
  shows "case find_by_id a i (pf_world s) of
      Some r \<Rightarrow> int (sends_of i (pf_sent s)) \<le> min (n_attempt_count r) (n_maximum_attempts r)
    | None \<Rightarrow> (\<forall>r \<in> set (w_notifications (pf_world s)). n_id r \<noteq> i) \<longrightarrow> sends_of i (pf_sent s) = 0"
proof -
  have h: "healthy w s" by (rule healthy_reachable [OF assms])
  then have so: "sound (pf_world s)" and "sends_of i (pf_sent s) \<le> used i (pf_world s)"
    by (auto simp: healthy_def paid_def) (metis add_leE)
  then show ?thesis
  proof (cases "find_by_id a i (pf_world s)")
    case None
    have "used i (pf_world s) = 0" if "\<forall>r \<in> set (w_notifications (pf_world s)). n_id r \<noteq> i"
    proof -
      from that have "sql_first (\<lambda>r. n_id r = i) (w_notifications (pf_world s)) = None"
        by (simp add: sql_first_None)
      then show ?thesis by (simp add: used_def)
    qed
    with None \<open>sends_of i _ \<le> _\<close> show ?thesis by auto
  next
    case (Some r)
    then have r: "r \<in> set (w_notifications (pf_world s))" "n_id r = i"
      using sql_first_SomeD by (fastforce simp: find_by_id_def is_notification_def)+
    have "0 \<le> min (n_attempt_count r) (n_maximum_attempts r)"
      using soundD(1) [OF so r(1)] by (simp add: check_notification_def)
    moreover have "sends_of i (pf_sent s) \<le> nat (min (n_attempt_count r) (n_maximum_attempts r))"
      using \<open>sends_of i _ \<le> _\<close> used_row [OF so r(1)] by (simp only: r(2))
    ultimately have "int (sends_of i (pf_sent s)) \<le> min (n_attempt_count r) (n_maximum_attempts r)"
      by (simp only: le_nat_iff)
    with Some show ?thesis by (simp only: option.case)
  qed
qed

theorem sends_never_exceed_the_maximum_witness:
  "\<exists>s :: platform. sends_of ''n1'' (pf_sent s) = 1 \<and>
     (case find_by_id ''app'' ''n1'' (pf_world s) of
        Some r \<Rightarrow> 1 \<le> min (n_attempt_count r) (n_maximum_attempts r)
      | None \<Rightarrow> \<not> (\<forall>r \<in> set (w_notifications (pf_world s)). n_id r \<noteq> ''n1''))"
proof -
  obtain s where s: "reachable example_config queued_world s" "pf_sent s = [example_text]"
    by (rule example_reachable)
  then have one: "sends_of ''n1'' (pf_sent s) = 1"
    by (simp add: sends_of_def example_text_def)
  with sends_never_exceed_the_maximum [OF queued_sound s(1), where a = "''app''" and i = "''n1''"]
  show ?thesis by (intro exI [of _ s]) (auto split: option.splits)
qed

text \<open>
  C6: Every message handed to WhatsApp carries exactly the text of the notification it was sent
  for, in every reachable state.
\<close>

theorem sent_text_is_as_asked:
  assumes "sound w" and "reachable c w s" and "t \<in> set (pf_sent s)"
  shows "\<exists>r \<in> set (w_notifications (pf_world s)).
    n_id r = x_notification_id t \<and> n_rendered_body r = x_text t"
  using healthy_reachable [OF assms(1,2)] assms(3) by (auto simp: healthy_def delivered_as_asked_def)

theorem sent_text_is_as_asked_witness:
  "\<exists>s :: platform. \<exists>r \<in> set (w_notifications (pf_world s)). n_id r = ''n1'' \<and> n_rendered_body r = ''Hello''"
proof -
  obtain s where s: "reachable example_config queued_world s" "pf_sent s = [example_text]"
    by (rule example_reachable)
  then have "example_text \<in> set (pf_sent s)" by simp
  from sent_text_is_as_asked [OF queued_sound s(1) this] show ?thesis
    by (intro exI [of _ s]) (simp add: example_text_def)
qed

text \<open>
  C5: A final status is final. In every state the platform can reach, whatever workers, requests and
  callbacks are in flight there and whatever they read before: a notification that is DELIVERED, FAILED
  or CANCELLED has that status and the same text in every state that can follow.
\<close>

theorem final_statuses_stay:
  assumes "sound w" and "reachable c w s" and "(step c)\<^sup>*\<^sup>* s s'"
    and "r \<in> set (w_notifications (pf_world s))" and "is_terminal_notification_status (n_status r)"
  shows "\<exists>r' \<in> set (w_notifications (pf_world s')). n_id r' = n_id r
    \<and> n_status r' = n_status r \<and> n_rendered_body r' = n_rendered_body r"
proof -
  have "evolves (pf_world s) (pf_world s')" by (rule steps_evolve [OF assms(1-3)])
  with assms(4) obtain r' where r': "r' \<in> set (w_notifications (pf_world s'))" "row_evolves r r'"
    by (auto simp: evolves_def)
  then have "n_status r' = n_status r"
    using reaches_terminal assms(5) by (auto simp: row_evolves_def)
  with r' show ?thesis by (auto simp: row_evolves_def)
qed

text \<open>
  Two workers are handed the same job. One finds that the number is on no WhatsApp account, and the
  notification has FAILED; the other, in flight all the while, then finds it registered.
\<close>

definition unregistered_env :: env where
  "unregistered_env = example_env\<lparr>env_resolve_recipient :=
     (\<lambda>n s p. Succeeded \<lparr>rr_is_registered = False, rr_chat_identifier = None\<rparr>)\<rparr>"

lemma example_dispatch_fails:
  "map (\<lambda>r. (n_id r, n_status r)) (w_notifications (snd (run (dispatch example_config \<lparr>di_application_id = ''app'',
     di_notification_id = ''n1'', di_correlation_id = ''corr''\<rparr>) unregistered_env queued_world))) = [(''n1'', FAILED)]"
  by code_simp

lemma run_caught_state: "snd (run (caught p) env w) = snd (run p env w)"
  by (induction p arbitrary: w) simp_all

lemma run_bind_state: "snd (run (bind q (\<lambda>x. Done (f x))) env w) = snd (run q env w)"
  by (simp add: run_bind split: prod.splits outcome.splits)

lemma example_job_fails:
  "map (\<lambda>r. (n_id r, n_status r)) (w_notifications (snd (run (forget example_job) unregistered_env queued_world)))
     = [(''n1'', FAILED)]"
proof -
  have "notification_dispatch_payload_schema example_formats (Some (job_data (hd (w_jobs queued_world))))
      = Some \<lparr>di_application_id = ''app'', di_notification_id = ''n1'', di_correlation_id = ''corr''\<rparr>"
    using dispatch_payload [of "hd (w_jobs queued_world)" "''app''" example_formats]
    by (simp add: queued_world_def example_formats_def)
  then show ?thesis
    using example_dispatch_fails
    by (simp add: run_forget example_job_def settle_one_def work_def handle_dispatch_def run_caught_state
        run_bind_state)
qed

theorem final_statuses_stay_witness:
  "\<exists>s s'. reachable example_config queued_world s \<and> (step example_config)\<^sup>*\<^sup>* s s'
     \<and> pf_threads s ! 0 = forget example_job
     \<and> pf_world s' = snd (run (forget example_job) example_env (pf_world s))
     \<and> (\<exists>r \<in> set (w_notifications (pf_world s)). n_id r = ''n1'' \<and> n_status r = FAILED)
     \<and> (\<exists>r \<in> set (w_notifications (pf_world s')). n_id r = ''n1'' \<and> n_status r = FAILED)"
proof -
  let ?p = "forget example_job"
  let ?s = "(started queued_world)\<lparr>pf_threads := [?p, ?p]\<rparr>"
  have spawn: "spawns example_config queued_world ?p"
    using spawn_job [of "hd (w_jobs queued_world)" queued_world example_config example_formats "''job-1''"]
    by (simp add: queued_world_def example_job_def)
  have "step example_config (started queued_world) ((started queued_world)\<lparr>pf_threads := [?p]\<rparr>)"
    using step.spawn [of example_config "started queued_world" ?p] spawn by (simp add: started_def)
  moreover have "step example_config ((started queued_world)\<lparr>pf_threads := [?p]\<rparr>) ?s"
    using step.spawn [of example_config "(started queued_world)\<lparr>pf_threads := [?p]\<rparr>" ?p] spawn
    by (simp add: started_def)
  ultimately have two: "(step example_config)\<^sup>*\<^sup>* (started queued_world) ?s" by (meson converse_rtranclp_into_rtranclp rtranclp.rtrancl_refl)
  have "runs_to example_config 1 ?s (snd (run ?p unregistered_env queued_world)) (sent_by ?p unregistered_env queued_world)"
    using run_is_reachable [of 1 ?s ?p example_config unregistered_env] by (simp add: started_def)
  then obtain s where s: "(step example_config)\<^sup>*\<^sup>* ?s s"
    "pf_world s = snd (run ?p unregistered_env queued_world)" "others_stand 1 (pf_threads ?s) (pf_threads s)"
    unfolding runs_to_def by blast
  have waiting: "pf_threads s ! 0 = ?p" "0 < length (pf_threads s)"
    using s(3) by (auto simp: others_stand_def started_def dest: spec [of _ 0])
  have "runs_to example_config 0 s (snd (run ?p example_env (pf_world s))) (sent_by ?p example_env (pf_world s))"
    by (rule run_is_reachable [OF waiting(2,1)])
  then obtain s' where s': "(step example_config)\<^sup>*\<^sup>* s s'"
    "pf_world s' = snd (run ?p example_env (pf_world s))"
    unfolding runs_to_def by blast
  have r: "reachable example_config queued_world s"
    using two s(1) by (simp add: reachable_def)
  obtain n where n: "n \<in> set (w_notifications (pf_world s))" "n_id n = ''n1''" "n_status n = FAILED"
    using example_job_fails by (auto simp: s(2) map_eq_Cons_conv)
  have "is_terminal_notification_status (n_status n)"
    by (simp add: n(3) is_terminal_notification_status_def terminal_notification_statuses_def)
  from final_statuses_stay [OF queued_sound r s'(1) n(1) this]
  have "\<exists>r \<in> set (w_notifications (pf_world s')). n_id r = ''n1'' \<and> n_status r = FAILED"
    using n(2,3) by auto
  with n r s' waiting(1) show ?thesis by blast
qed

end
