(* ===== verification/Template.thy ===== *)
theory Template
  imports Prelude "HOL-Library.AList"
begin

text \<open>
  \<open>packages/domain/src/template/parse-template.ts\<close> and \<open>render-template.ts\<close>: a message with named
  placeholders, its parser and its renderer. The parser is the loop over positions of the source;
  the lemmas relate it to the writing of a template, and the renderer to the plain substitution.
\<close>

section \<open>Parsing\<close>

datatype template_node =
    TextNode string
  | VariableNode string nat nat   \<comment> \<open>name, start, end\<close>

record parsed_template =
  pt_nodes :: "template_node list"
  pt_variable_names :: "string list"

datatype template_syntax_code = UnclosedPlaceholder | EmptyPlaceholder | InvalidVariableName

datatype template_syntax_error = TemplateSyntaxError template_syntax_code nat string

definition is_name_character :: "char \<Rightarrow> bool" where
  "is_name_character c = (is_alphanumeric c \<or> c = CHR ''_'')"

definition template_variable_name_pattern :: "string \<Rightarrow> bool" where
  "template_variable_name_pattern s =
     (case s of
        [] \<Rightarrow> False
      | c # cs \<Rightarrow> is_letter c \<and> length cs \<le> 63 \<and> list_all is_name_character cs)"

definition placeholder_open :: string where
  "placeholder_open = ''{{''"

definition placeholder_close :: string where
  "placeholder_close = ''}}''"

definition escaped_open :: string where
  "escaped_open = CHR 0x5C # ''{{''"

definition index_of_from :: "string \<Rightarrow> string \<Rightarrow> nat \<Rightarrow> nat option" where
  "index_of_from s p start = map_option ((+) start) (index_of (drop start s) p)"

definition flush_text :: "string \<Rightarrow> template_node list \<Rightarrow> template_node list" where
  "flush_text text_buffer nodes =
     (if text_buffer = [] then nodes else nodes @ [TextNode text_buffer])"

definition unclosed_placeholder :: "nat \<Rightarrow> template_syntax_error" where
  "unclosed_placeholder i = TemplateSyntaxError UnclosedPlaceholder i
     (''A placeholder opened at position '' @ string_of_nat i @ '' is never closed with \"}}\".'')"

definition empty_placeholder :: "nat \<Rightarrow> template_syntax_error" where
  "empty_placeholder i = TemplateSyntaxError EmptyPlaceholder i
     (''The placeholder at position '' @ string_of_nat i @ '' does not name a variable.'')"

definition invalid_variable_name :: "nat \<Rightarrow> string \<Rightarrow> template_syntax_error" where
  "invalid_variable_name i raw_name = TemplateSyntaxError InvalidVariableName i
     (''\"'' @ raw_name @ ''\" is not a valid variable name. Use letters, digits and underscores, starting with a letter.'')"

function parse_loop ::
  "string \<Rightarrow> template_node list \<Rightarrow> string list \<Rightarrow> string \<Rightarrow> nat
     \<Rightarrow> template_syntax_error + parsed_template" where
  "parse_loop body nodes names text_buffer i =
     (if \<not> i < length body
      then Inr \<lparr>pt_nodes = flush_text text_buffer nodes, pt_variable_names = names\<rparr>
      else if starts_with (drop i body) escaped_open
      then parse_loop body nodes names (text_buffer @ placeholder_open) (i + length escaped_open)
      else if \<not> starts_with (drop i body) placeholder_open
      then parse_loop body nodes names (text_buffer @ [body ! i]) (i + 1)
      else (case index_of_from body placeholder_close (i + length placeholder_open) of
         None \<Rightarrow> Inl (unclosed_placeholder i)
       | Some close \<Rightarrow>
           let raw_name = js_trim (take (close - (i + length placeholder_open))
                 (drop (i + length placeholder_open) body))
           in if raw_name = [] then Inl (empty_placeholder i)
              else if \<not> template_variable_name_pattern raw_name
              then Inl (invalid_variable_name i raw_name)
              else parse_loop body
                     (flush_text text_buffer nodes
                        @ [VariableNode raw_name i (close + length placeholder_close)])
                     (if raw_name \<in> set names then names else names @ [raw_name])
                     [] (close + length placeholder_close)))"
  by pat_completeness auto

lemma index_of_from_ge: "index_of_from s p start = Some k \<Longrightarrow> start \<le> k"
  by (auto simp: index_of_from_def)

text \<open>Every turn of the loop moves the position forward.\<close>

termination parse_loop
  by (relation "measure (\<lambda>(body, nodes, names, text_buffer, i). length body - i)")
    (auto simp: escaped_open_def placeholder_close_def dest!: index_of_from_ge)

declare parse_loop.simps [simp del]

definition parse_template :: "string \<Rightarrow> template_syntax_error + parsed_template" where
  "parse_template body = parse_loop body [] [] [] 0"

section \<open>Rendering\<close>

record variable_declaration =
  vd_name :: string
  vd_required :: bool
  vd_default_value :: "string option"
  vd_description :: "string option"

text \<open>
  A supplied value is \<open>undefined\<close> or a JSON value; the members of the object are given in the order
  of \<open>Object.entries\<close>. How a number is written is \<open>String\<close> of the runtime, a parameter.
\<close>

datatype supplied = Undefined | Supplied json

definition maximum_rendered_body_length :: nat where
  "maximum_rendered_body_length = 4096"

definition maximum_variable_value_length :: nat where
  "maximum_variable_value_length = 1024"

datatype template_render_error =
    TemplateVariableUnknown string "string list"
  | TemplateVariableInvalidType string "(string \<times> string) list"
  | TemplateVariableTooLong string "string list"
  | TemplateVariableMissing string "string list"
  | RenderedBodyTooLong string nat

record render_result =
  rd_rendered_body :: string
  rd_character_count :: nat
  rd_variables_used :: "string list"
  rd_optional_variables_defaulted :: "string list"

fun describe_type :: "supplied \<Rightarrow> string" where
  "describe_type Undefined = ''undefined''"
| "describe_type (Supplied JNull) = ''null''"
| "describe_type (Supplied (JArr _)) = ''array''"
| "describe_type (Supplied (JObj _)) = ''object''"
| "describe_type (Supplied (JStr _)) = ''string''"
| "describe_type (Supplied (JNum _)) = ''number''"
| "describe_type (Supplied (JBool _)) = ''boolean''"

fun is_supported_value :: "supplied \<Rightarrow> bool" where
  "is_supported_value (Supplied (JStr _)) = True"
| "is_supported_value (Supplied (JNum _)) = True"
| "is_supported_value (Supplied (JBool _)) = True"
| "is_supported_value _ = False"

fun value_text :: "(rat \<Rightarrow> string) \<Rightarrow> supplied \<Rightarrow> string" where
  "value_text number_text (Supplied (JStr s)) = s"
| "value_text number_text (Supplied (JNum x)) = number_text x"
| "value_text number_text (Supplied (JBool b)) = (if b then ''true'' else ''false'')"
| "value_text number_text _ = []"

definition assert_no_unknown_variables ::
  "variable_declaration list \<Rightarrow> (string \<times> supplied) list \<Rightarrow> template_render_error + unit" where
  "assert_no_unknown_variables declarations values =
     (let declared_names = set (map vd_name declarations);
          unknown_variables = filter (\<lambda>name. name \<notin> declared_names) (map fst values)
      in if unknown_variables = [] then Inr ()
         else Inl (TemplateVariableUnknown
           (''The template does not declare: '' @ join '', '' unknown_variables @ ''.'')
           unknown_variables))"

definition assert_value_types ::
  "(string \<times> supplied) list \<Rightarrow> template_render_error + unit" where
  "assert_value_types values =
     (let invalid_variables = map (\<lambda>(name, v). (name, describe_type v))
            (filter (\<lambda>(_, v). v \<noteq> Undefined \<and> v \<noteq> Supplied JNull \<and> \<not> is_supported_value v) values)
      in if invalid_variables = [] then Inr ()
         else Inl (TemplateVariableInvalidType
           ''Template variables must be a string, number or boolean.'' invalid_variables))"

definition assert_value_lengths ::
  "(string \<times> string) list \<Rightarrow> template_render_error + unit" where
  "assert_value_lengths resolved =
     (let too_long_variables =
            map fst (filter (\<lambda>(_, v). length v > maximum_variable_value_length) resolved)
      in if too_long_variables = [] then Inr ()
         else Inl (TemplateVariableTooLong
           (''Template variable values may be at most ''
            @ string_of_nat maximum_variable_value_length @ '' characters.'') too_long_variables))"

record resolution =
  rs_resolved :: "(string \<times> string) list"
  rs_defaulted :: "string list"
  rs_missing :: "string list"

definition supplied_value :: "(string \<times> supplied) list \<Rightarrow> string \<Rightarrow> supplied" where
  "supplied_value values name = (case map_of values name of None \<Rightarrow> Undefined | Some v \<Rightarrow> v)"

text \<open>One turn of the loop over the declarations.\<close>

definition resolve_declaration ::
  "(rat \<Rightarrow> string) \<Rightarrow> (string \<times> supplied) list \<Rightarrow> variable_declaration \<Rightarrow> resolution
     \<Rightarrow> resolution" where
  "resolve_declaration number_text values d st =
     (let v = supplied_value values (vd_name d)
      in if is_supported_value v
         then st\<lparr>rs_resolved := AList.update (vd_name d) (value_text number_text v) (rs_resolved st)\<rparr>
         else if vd_required d then st\<lparr>rs_missing := rs_missing st @ [vd_name d]\<rparr>
         else st\<lparr>rs_resolved := AList.update (vd_name d)
                   (case vd_default_value d of Some t \<Rightarrow> t | None \<Rightarrow> []) (rs_resolved st),
                 rs_defaulted := rs_defaulted st @ [vd_name d]\<rparr>)"

definition resolve_variables ::
  "(rat \<Rightarrow> string) \<Rightarrow> variable_declaration list \<Rightarrow> (string \<times> supplied) list
     \<Rightarrow> template_render_error + resolution" where
  "resolve_variables number_text declarations values =
     (let st = fold (resolve_declaration number_text values) declarations
            \<lparr>rs_resolved = [], rs_defaulted = [], rs_missing = []\<rparr>
      in if rs_missing st \<noteq> []
         then Inl (TemplateVariableMissing
           (''Missing required template variables: '' @ join '', '' (rs_missing st) @ ''.'')
           (rs_missing st))
         else Inr st)"

fun render_node :: "(string \<times> string) list \<Rightarrow> template_node \<Rightarrow> string" where
  "render_node resolved (TextNode v) = v"
| "render_node resolved (VariableNode name s e) =
     (case map_of resolved name of Some v \<Rightarrow> v | None \<Rightarrow> [])"

definition render_template ::
  "(rat \<Rightarrow> string) \<Rightarrow> parsed_template \<Rightarrow> variable_declaration list \<Rightarrow> (string \<times> supplied) list
     \<Rightarrow> template_render_error + render_result" where
  "render_template number_text parsed declarations values =
     (case assert_no_unknown_variables declarations values of Inl e \<Rightarrow> Inl e | Inr _ \<Rightarrow>
     (case assert_value_types values of Inl e \<Rightarrow> Inl e | Inr _ \<Rightarrow>
     (case resolve_variables number_text declarations values of Inl e \<Rightarrow> Inl e | Inr st \<Rightarrow>
     (case assert_value_lengths (rs_resolved st) of Inl e \<Rightarrow> Inl e | Inr _ \<Rightarrow>
       let rendered_body = concat (map (render_node (rs_resolved st)) (pt_nodes parsed))
       in if length rendered_body > maximum_rendered_body_length
          then Inl (RenderedBodyTooLong
            (''The rendered message is '' @ string_of_nat (length rendered_body)
             @ '' characters, above the '' @ string_of_nat maximum_rendered_body_length
             @ '' character limit.'') (length rendered_body))
          else Inr \<lparr>rd_rendered_body = rendered_body, rd_character_count = length rendered_body,
            rd_variables_used = pt_variable_names parsed,
            rd_optional_variables_defaulted =
              filter (\<lambda>name. name \<in> set (pt_variable_names parsed)) (rs_defaulted st)\<rparr>))))"

section \<open>Writing a template\<close>

text \<open>The writing of a list of nodes: braces in a text are escaped, a variable is put in braces.\<close>

fun escape_text :: "string \<Rightarrow> string" where
  "escape_text [] = []"
| "escape_text [c] = [c]"
| "escape_text (c # d # s) =
     (if c = CHR ''{'' \<and> d = CHR ''{'' then escaped_open @ escape_text s
      else c # escape_text (d # s))"

fun write_node :: "template_node \<Rightarrow> string" where
  "write_node (TextNode t) = escape_text t"
| "write_node (VariableNode name s e) = placeholder_open @ name @ placeholder_close"

definition write_template :: "template_node list \<Rightarrow> string" where
  "write_template nodes = concat (map write_node nodes)"

text \<open>
  What can be written: names of variables, texts that are not empty and not next to each other. The
  language has no writing for a backslash or a single brace right before a placeholder.
\<close>

fun is_text_node :: "template_node \<Rightarrow> bool" where
  "is_text_node (TextNode t) = True"
| "is_text_node (VariableNode name s e) = False"

fun writable :: "template_node list \<Rightarrow> bool" where
  "writable [] = True"
| "writable (TextNode t # ns) =
     (t \<noteq> [] \<and> (ns \<noteq> [] \<longrightarrow> \<not> is_text_node (hd ns) \<and> last t \<notin> {CHR 0x5C, CHR ''{''}) \<and> writable ns)"
| "writable (VariableNode name s e # ns) = (template_variable_name_pattern name \<and> writable ns)"

text \<open>The same nodes, each variable with the position it is written at.\<close>

fun positioned :: "nat \<Rightarrow> template_node list \<Rightarrow> template_node list" where
  "positioned i [] = []"
| "positioned i (TextNode t # ns) = TextNode t # positioned (i + length (escape_text t)) ns"
| "positioned i (VariableNode name s e # ns) =
     VariableNode name i (i + length name + 4) # positioned (i + length name + 4) ns"

fun variable_name :: "template_node \<Rightarrow> string list" where
  "variable_name (TextNode t) = []"
| "variable_name (VariableNode name s e) = [name]"

definition first_appearances :: "string list \<Rightarrow> template_node list \<Rightarrow> string list" where
  "first_appearances names nodes =
     fold (\<lambda>n acc. if n \<in> set acc then acc else acc @ [n]) (concat (map variable_name nodes)) names"

lemma first_appearances_simps [simp]:
  "first_appearances names [] = names"
  "first_appearances names (TextNode t # ns) = first_appearances names ns"
  "first_appearances names (VariableNode n s e # ns)
     = first_appearances (if n \<in> set names then names else names @ [n]) ns"
  by (simp_all add: first_appearances_def)

section \<open>The loop on the rest of the body\<close>

text \<open>Where the braces start is decided by the characters that are left.\<close>

lemma escape_starts_brace: "hd (escape_text (d # s)) = CHR ''{'' \<longleftrightarrow> d = CHR ''{'' \<and> (s = [] \<or> hd s \<noteq> CHR ''{'')"
  by (cases s) (auto simp: escaped_open_def)

lemma escape_text_Nil [simp]: "escape_text s = [] \<longleftrightarrow> s = []"
  by (induction s rule: escape_text.induct) (simp_all add: escaped_open_def)

lemma starts_two: "starts_with s [a, b] \<longleftrightarrow> (\<exists>t. s = a # b # t)"
  by (cases s; cases "tl s") auto

lemma starts_three: "starts_with s [a, b, c] \<longleftrightarrow> (\<exists>t. s = a # b # c # t)"
  by (cases s; cases "tl s"; cases "tl (tl s)") auto

definition ends_plainly :: "string \<Rightarrow> string \<Rightarrow> bool" where
  "ends_plainly t rest = (rest = [] \<or> t \<noteq> [] \<and> last t \<notin> {CHR 0x5C, CHR ''{''})"

lemma escape_rest_starts:
  assumes "ends_plainly (d # s) rest"
  shows "\<not> starts_with (escape_text (d # s) @ rest) placeholder_open"
proof
  assume "starts_with (escape_text (d # s) @ rest) placeholder_open"
  then obtain t where t: "escape_text (d # s) @ rest = CHR ''{'' # CHR ''{'' # t"
    by (auto simp: placeholder_open_def starts_two)
  then have "hd (escape_text (d # s)) = CHR ''{''"
    by (cases "escape_text (d # s)") auto
  then have d: "d = CHR ''{''" and s: "s = [] \<or> hd s \<noteq> CHR ''{''"
    by (simp_all add: escape_starts_brace)
  show False
  proof (cases s)
    case Nil
    with t assms d show False by (auto simp: ends_plainly_def)
  next
    case (Cons c u)
    then have "hd (escape_text (c # u)) = CHR ''{''" and "c \<noteq> CHR ''{''"
      using t d s by (cases "escape_text (c # u)"; auto)+
    then show False by (simp add: escape_starts_brace)
  qed
qed

lemma parse_text:
  assumes "ends_plainly t rest"
  shows "parse_loop (pre @ escape_text t @ rest) nodes names buf (length pre)
    = parse_loop (pre @ escape_text t @ rest) nodes names (buf @ t) (length (pre @ escape_text t))"
  using assms
proof (induction t arbitrary: pre buf rule: escape_text.induct)
  case 1
  then show ?case by simp
next
  case (2 c)
  then have "\<not> starts_with (c # rest) escaped_open" "\<not> starts_with (c # rest) placeholder_open"
    by (auto simp: ends_plainly_def escaped_open_def placeholder_open_def starts_two starts_three)
  then show ?case
    by (subst parse_loop.simps) (simp add: nth_append)
next
  case (3 c d s)
  show ?case
  proof (cases "c = CHR ''{'' \<and> d = CHR ''{''")
    case True
    have "ends_plainly s rest \<or> s = []" using 3(3) by (auto simp: ends_plainly_def split: if_splits)
    moreover have "starts_with (escaped_open @ escape_text s @ rest) escaped_open" by simp
    moreover have "parse_loop (pre @ escape_text (c # d # s) @ rest) nodes names buf (length pre)
        = parse_loop ((pre @ escaped_open) @ escape_text s @ rest) nodes names
            (buf @ placeholder_open) (length (pre @ escaped_open))"
      using True by (subst parse_loop.simps) (simp add: escaped_open_def)
    ultimately show ?thesis
      using 3(1) [OF True, of "pre @ escaped_open" "buf @ placeholder_open"] True
      by (auto simp: placeholder_open_def)
  next
    case False
    have e: "ends_plainly (d # s) rest" using 3(3) by (auto simp: ends_plainly_def)
    then have n: "\<not> starts_with (escape_text (d # s) @ rest) placeholder_open"
      by (rule escape_rest_starts)
    have "\<not> starts_with (c # escape_text (d # s) @ rest) escaped_open"
      using n by (auto simp: escaped_open_def placeholder_open_def)
    moreover have "\<not> starts_with (c # escape_text (d # s) @ rest) placeholder_open"
    proof
      assume "starts_with (c # escape_text (d # s) @ rest) placeholder_open"
      then obtain u where "c = CHR ''{''" "escape_text (d # s) @ rest = CHR ''{'' # u"
        by (auto simp: placeholder_open_def starts_two)
      then have "hd (escape_text (d # s)) = CHR ''{''"
        by (cases "escape_text (d # s)") auto
      with \<open>c = _\<close> False show False by (simp add: escape_starts_brace)
    qed
    ultimately have "parse_loop (pre @ escape_text (c # d # s) @ rest) nodes names buf (length pre)
        = parse_loop ((pre @ [c]) @ escape_text (d # s) @ rest) nodes names (buf @ [c]) (length (pre @ [c]))"
      using False by (subst parse_loop.simps) (auto simp: nth_append)
    then show ?thesis
      using 3(2) [OF False e, of "pre @ [c]" "buf @ [c]"] False by auto
  qed
qed

lemma index_of_absent:
  "CHR ''}'' \<notin> set n \<Longrightarrow> index_of (n @ placeholder_close @ rest) placeholder_close = Some (length n)"
proof (induction n)
  case Nil
  then show ?case by (simp add: placeholder_close_def)
next
  case (Cons c n)
  then have "\<not> starts_with (c # n @ placeholder_close @ rest) placeholder_close"
    by (auto simp: placeholder_close_def)
  with Cons show ?case by simp
qed

lemma name_character_cases:
  "is_name_character c \<Longrightarrow> \<not> is_space c \<and> c \<noteq> CHR ''}''"
  by (auto simp: is_name_character_def is_alphanumeric_def is_letter_def is_digit_def is_space_def
      char_code_def)

lemma valid_name_characters:
  "template_variable_name_pattern n \<Longrightarrow> n \<noteq> [] \<and> (\<forall>c \<in> set n. is_name_character c)"
  by (auto simp: template_variable_name_pattern_def list_all_iff is_name_character_def
      is_alphanumeric_def split: list.splits)

lemma parse_variable:
  assumes n: "template_variable_name_pattern n"
  shows "parse_loop (pre @ placeholder_open @ n @ placeholder_close @ rest) nodes names buf (length pre)
    = parse_loop (pre @ placeholder_open @ n @ placeholder_close @ rest)
        (flush_text buf nodes @ [VariableNode n (length pre) (length pre + length n + 4)])
        (if n \<in> set names then names else names @ [n]) []
        (length (pre @ placeholder_open @ n @ placeholder_close))"
proof -
  note chars = valid_name_characters [OF n]
  have "CHR ''}'' \<notin> set n"
    using chars name_character_cases by blast
  then have find: "index_of (n @ placeholder_close @ rest) placeholder_close = Some (length n)"
    by (rule index_of_absent)
  have trim: "js_trim n = n"
    using chars name_character_cases by (intro js_trim_unchanged) auto
  have skip: "drop (length pre + 2) (pre @ placeholder_open @ n @ placeholder_close @ rest)
      = n @ placeholder_close @ rest"
    by (simp add: placeholder_open_def)
  have "\<not> starts_with (placeholder_open @ n @ placeholder_close @ rest) escaped_open"
    by (simp add: placeholder_open_def escaped_open_def)
  moreover have "index_of_from (pre @ placeholder_open @ n @ placeholder_close @ rest)
      placeholder_close (length pre + length placeholder_open) = Some (length pre + 2 + length n)"
    using find skip by (simp add: index_of_from_def placeholder_open_def)
  ultimately show ?thesis
    using n chars trim skip
    by (subst parse_loop.simps)
      (simp add: Let_def placeholder_open_def placeholder_close_def ac_simps
        eval_nat_numeral)
qed

lemma parse_written:
  "writable ns \<Longrightarrow> parse_loop (pre @ write_template ns) nodes names [] (length pre)
     = Inr \<lparr>pt_nodes = nodes @ positioned (length pre) ns,
            pt_variable_names = first_appearances names ns\<rparr>"
proof (induction ns arbitrary: pre nodes names rule: writable.induct)
  case 1
  then show ?case
    by (subst parse_loop.simps) (simp add: write_template_def flush_text_def)
next
  case (3 n s e ns)
  then show ?case
    using 3(1) [of "pre @ placeholder_open @ n @ placeholder_close"]
      parse_variable [of n pre "write_template ns" nodes names "[]"]
    by (simp add: write_template_def flush_text_def placeholder_open_def placeholder_close_def
        ac_simps eval_nat_numeral)
next
  case (2 t ns)
  then have e: "ends_plainly t (write_template ns)"
    by (cases ns) (auto simp: ends_plainly_def write_template_def)
  note texts = parse_text [OF e, of pre nodes names "[]"]
  let ?pre = "pre @ escape_text t"
  show ?case
  proof (cases ns)
    case Nil
    with texts 2(2) show ?thesis
      by (simp add: write_template_def)
        (subst parse_loop.simps, simp add: flush_text_def)
  next
    case (Cons m ms)
    with 2(2) obtain n s e where m: "m = VariableNode n s e" and n: "template_variable_name_pattern n"
      by (cases m) auto
    have v: "parse_loop (?pre @ write_template ns) nodes' names buf (length ?pre)
        = parse_loop (?pre @ write_template ns)
           (flush_text buf nodes' @ [VariableNode n (length ?pre) (length ?pre + length n + 4)])
           (if n \<in> set names then names else names @ [n]) []
           (length (?pre @ placeholder_open @ n @ placeholder_close))" for buf nodes'
      using parse_variable [OF n, of ?pre "write_template ms" nodes' names buf] Cons m
      by (simp add: write_template_def)
    have "flush_text t nodes = flush_text [] (nodes @ [TextNode t])"
      using 2(2) by (simp add: flush_text_def)
    then have "parse_loop (?pre @ write_template ns) nodes names t (length ?pre)
        = parse_loop (?pre @ write_template ns) (nodes @ [TextNode t]) names [] (length ?pre)"
      by (simp only: v)
    with texts 2(1) [of ?pre "nodes @ [TextNode t]" names] 2(2) show ?thesis
      by (simp add: write_template_def)
  qed
qed

text \<open>
  C27: Parsing undoes writing. Whatever texts and variables are written, with the braces in a text
  escaped, the parser reads the same nodes back, each variable at the position it was written, and
  lists the variables in the order they first appear.
\<close>

theorem template_round_trip:
  assumes "writable nodes"
  shows "parse_template (write_template nodes)
    = Inr \<lparr>pt_nodes = positioned 0 nodes, pt_variable_names = first_appearances [] nodes\<rparr>"
  using parse_written [OF assms, of "[]" "[]" "[]"] by (simp add: parse_template_def)

theorem template_round_trip_witness:
  "parse_template (''Hi '' @ escaped_open @ ''x}} {{name}}'')
    = Inr \<lparr>pt_nodes = [TextNode ''Hi {{x}} '', VariableNode ''name'' 10 18],
           pt_variable_names = [''name'']\<rparr>"
proof -
  let ?nodes = "[TextNode ''Hi {{x}} '', VariableNode ''name'' 0 0]"
  have "writable ?nodes"
    by (simp add: template_variable_name_pattern_def is_name_character_def is_alphanumeric_def
        is_letter_def is_digit_def char_code_def)
  then show ?thesis
    using template_round_trip [of ?nodes] by (simp add: write_template_def placeholder_open_def
        placeholder_close_def escaped_open_def)
qed

section \<open>What the parser returns\<close>

text \<open>A node read from a body: a text that is not empty, or a valid name between its braces.\<close>

fun node_of :: "string \<Rightarrow> template_node \<Rightarrow> bool" where
  "node_of body (TextNode t) = (t \<noteq> [])"
| "node_of body (VariableNode name s e) =
     (template_variable_name_pattern name \<and> s + 4 \<le> e \<and> e \<le> length body
      \<and> starts_with (drop s body) placeholder_open
      \<and> starts_with (drop (e - 2) body) placeholder_close
      \<and> js_trim (take (e - s - 4) (drop (s + 2) body)) = name)"

definition parsed_from :: "string \<Rightarrow> template_node list \<Rightarrow> string list \<Rightarrow> bool" where
  "parsed_from body nodes names =
     (list_all (node_of body) nodes \<and> distinct names
      \<and> set names = set (concat (map variable_name nodes)))"

lemma parsed_from_flush: "parsed_from body nodes names \<Longrightarrow> parsed_from body (flush_text t nodes) names"
  by (simp add: parsed_from_def flush_text_def)

lemma index_of_from_close:
  assumes "index_of_from body placeholder_close (i + 2) = Some k" and "i < length body"
    and "starts_with (drop i body) placeholder_open"
  shows "i + 2 \<le> k" and "k + 2 \<le> length body" and "starts_with (drop k body) placeholder_close"
proof -
  have "i + 2 \<le> length body"
    using assms(2,3) by (cases "drop i body"; cases "tl (drop i body)")
      (auto simp: placeholder_open_def dest: arg_cong [of _ _ length])
  then show "i + 2 \<le> k" "k + 2 \<le> length body" "starts_with (drop k body) placeholder_close"
    using assms(1) by (auto simp: index_of_from_def placeholder_close_def ac_simps
        dest: index_of_bound index_of_Some)
qed

lemma parsed_from_variable:
  assumes "parsed_from body nodes names" and "index_of_from body placeholder_close (i + 2) = Some k"
    and "i < length body" and "starts_with (drop i body) placeholder_open"
    and "template_variable_name_pattern (js_trim (take (k - (i + 2)) (drop (i + 2) body)))"
  shows "parsed_from body
    (nodes @ [VariableNode (js_trim (take (k - (i + 2)) (drop (i + 2) body))) i (k + 2)])
    (if js_trim (take (k - (i + 2)) (drop (i + 2) body)) \<in> set names then names
     else names @ [js_trim (take (k - (i + 2)) (drop (i + 2) body))])"
  using assms index_of_from_close [OF assms(2-4)] by (auto simp: parsed_from_def)

lemma parse_loop_from:
  "parsed_from body nodes names \<Longrightarrow>
     (case parse_loop body nodes names buf i of
        Inr p \<Rightarrow> parsed_from body (pt_nodes p) (pt_variable_names p)
      | Inl (TemplateSyntaxError code offset message) \<Rightarrow>
          offset < length body \<and> starts_with (drop offset body) placeholder_open)"
proof (induction body nodes names buf i rule: parse_loop.induct)
  case (1 body nodes names buf i)
  note step = parse_loop.simps [of body nodes names buf i]
  consider (finished) "\<not> i < length body"
    | (escaped) "i < length body" "starts_with (drop i body) escaped_open"
    | (plain) "i < length body" "\<not> starts_with (drop i body) escaped_open"
        "\<not> starts_with (drop i body) placeholder_open"
    | (unclosed) "i < length body" "\<not> starts_with (drop i body) escaped_open"
        "starts_with (drop i body) placeholder_open"
        "index_of_from body placeholder_close (i + length placeholder_open) = None"
    | (closed) k where "i < length body" "\<not> starts_with (drop i body) escaped_open"
        "starts_with (drop i body) placeholder_open"
        "index_of_from body placeholder_close (i + length placeholder_open) = Some k"
    by blast
  then show ?case
  proof cases
    case finished
    with 1(4) show ?thesis by (simp add: step parsed_from_flush)
  next
    case escaped
    with 1(1,4) show ?thesis by (simp add: step)
  next
    case plain
    with 1(2,4) show ?thesis by (simp add: step)
  next
    case unclosed
    then show ?thesis by (simp add: step unclosed_placeholder_def)
  next
    case closed
    let ?name = "js_trim (take (k - (i + 2)) (drop (i + 2) body))"
    have open2: "length placeholder_open = 2" "length placeholder_close = 2"
      by (simp_all add: placeholder_open_def placeholder_close_def)
    show ?thesis
    proof (cases "?name = [] \<or> \<not> template_variable_name_pattern ?name")
      case True
      with closed show ?thesis
        by (auto simp: step open2 Let_def empty_placeholder_def invalid_variable_name_def)
    next
      case False
      with closed have "parse_loop body nodes names buf i
          = parse_loop body (flush_text buf nodes @ [VariableNode ?name i (k + 2)])
              (if ?name \<in> set names then names else names @ [?name]) [] (k + 2)"
        by (simp add: step open2 Let_def)
      moreover have "parsed_from body (flush_text buf nodes @ [VariableNode ?name i (k + 2)])
          (if ?name \<in> set names then names else names @ [?name])"
        using closed False 1(4) by (intro parsed_from_variable) (simp_all add: open2 parsed_from_flush)
      ultimately show ?thesis
        using 1(3) [of k "?name"] closed False by (simp add: open2)
    qed
  qed
qed

text \<open>
  C28: What the parser returns is typed. It always returns; a parsed template has only valid names,
  each standing between its braces at the reported position, no empty text, and a list of variables
  without repetition that names exactly the variables used; an error points at the opening braces it
  is about.
\<close>

theorem parsed_templates_are_typed:
  "case parse_template body of
     Inr p \<Rightarrow> parsed_from body (pt_nodes p) (pt_variable_names p)
   | Inl (TemplateSyntaxError code offset message) \<Rightarrow>
       offset < length body \<and> starts_with (drop offset body) placeholder_open"
  using parse_loop_from [of body "[]" "[]" "[]" 0]
  by (simp add: parse_template_def parsed_from_def)

section \<open>Rendering is substitution\<close>

text \<open>The meaning of a variable: the supplied value, or else the default of its declaration.\<close>

definition variable_meaning ::
  "(rat \<Rightarrow> string) \<Rightarrow> variable_declaration list \<Rightarrow> (string \<times> supplied) list \<Rightarrow> string \<Rightarrow> string" where
  "variable_meaning number_text declarations values name =
     (case find (\<lambda>d. vd_name d = name) declarations of
        None \<Rightarrow> []
      | Some d \<Rightarrow>
          let v = supplied_value values name
          in if is_supported_value v then value_text number_text v
             else (case vd_default_value d of Some t \<Rightarrow> t | None \<Rightarrow> []))"

fun substitute :: "(string \<Rightarrow> string) \<Rightarrow> template_node \<Rightarrow> string" where
  "substitute meaning (TextNode t) = t"
| "substitute meaning (VariableNode name s e) = meaning name"

definition unresolvable :: "(string \<times> supplied) list \<Rightarrow> variable_declaration \<Rightarrow> bool" where
  "unresolvable values d \<longleftrightarrow> vd_required d \<and> \<not> is_supported_value (supplied_value values (vd_name d))"

lemma missing_variables:
  "rs_missing (fold (resolve_declaration nt values) ds st)
     = rs_missing st @ map vd_name (filter (unresolvable values) ds)"
  by (induction ds arbitrary: st) (simp_all add: resolve_declaration_def Let_def unresolvable_def)

lemma resolved_variables:
  "distinct (map vd_name ds) \<Longrightarrow> filter (unresolvable values) ds = [] \<Longrightarrow>
     map_of (rs_resolved (fold (resolve_declaration nt values) ds st)) name
       = (if name \<in> set (map vd_name ds) then Some (variable_meaning nt ds values name)
          else map_of (rs_resolved st) name)"
proof (induction ds arbitrary: st)
  case Nil
  then show ?case by simp
next
  case (Cons d ds)
  then have "\<not> unresolvable values d" by (auto split: if_splits)
  with Cons show ?case
    by (auto simp: resolve_declaration_def Let_def unresolvable_def variable_meaning_def
        AList.update_conv' split: option.splits)
qed

lemma variable_meaning_undeclared:
  "name \<notin> set (map vd_name ds) \<Longrightarrow> variable_meaning nt ds values name = []"
  by (auto simp: variable_meaning_def find_None_iff split: option.splits dest!: find_Some_iff [THEN iffD1])

lemma render_substitutes:
  assumes "distinct (map vd_name ds)" and "filter (unresolvable values) ds = []"
  shows "render_node (rs_resolved (fold (resolve_declaration nt values) ds
      \<lparr>rs_resolved = [], rs_defaulted = [], rs_missing = []\<rparr>))
    = substitute (variable_meaning nt ds values)"
proof
  show "render_node (rs_resolved (fold (resolve_declaration nt values) ds
      \<lparr>rs_resolved = [], rs_defaulted = [], rs_missing = []\<rparr>)) n
    = substitute (variable_meaning nt ds values) n" for n
    using resolved_variables [OF assms] variable_meaning_undeclared
    by (cases n) (auto split: if_splits)
qed

text \<open>
  A rendered message is complete and its values are inserted literally. If rendering succeeds,
  every required variable was given a string, a number or a boolean, every given variable is
  declared, the message is the parsed text with each placeholder replaced by its meaning - whatever
  braces that value contains, it is not read again - and the message fits into 4096 characters.
\<close>

theorem rendered_messages_are_complete:
  assumes "distinct (map vd_name ds)" and "render_template nt p ds values = Inr r"
  shows "rd_rendered_body r = concat (map (substitute (variable_meaning nt ds values)) (pt_nodes p))
    \<and> length (rd_rendered_body r) \<le> 4096
    \<and> (\<forall>d \<in> set ds. vd_required d \<longrightarrow> is_supported_value (supplied_value values (vd_name d)))
    \<and> fst ` set values \<subseteq> vd_name ` set ds"
proof -
  have missing: "filter (unresolvable values) ds = []"
    using assms(2)
    by (auto simp: render_template_def resolve_variables_def missing_variables Let_def
        split: sum.splits if_splits)
  note render = render_substitutes [OF assms(1) missing]
  have "fst ` set values \<subseteq> vd_name ` set ds"
    using assms(2)
    by (auto simp: render_template_def assert_no_unknown_variables_def Let_def filter_empty_conv
        split: sum.splits if_splits)
  moreover have "\<forall>d \<in> set ds. vd_required d \<longrightarrow> is_supported_value (supplied_value values (vd_name d))"
    using missing by (auto simp: filter_empty_conv unresolvable_def)
  ultimately show ?thesis
    using assms(2)
    by (auto simp: render_template_def resolve_variables_def missing_variables missing render
        maximum_rendered_body_length_def Let_def split: sum.splits if_splits)
qed

text \<open>A value that looks like a placeholder is sent as it is.\<close>

theorem rendered_messages_are_complete_witness:
  "\<exists>r. render_template (\<lambda>x. []) \<lparr>pt_nodes = [TextNode ''Hello '', VariableNode ''name'' 6 14],
        pt_variable_names = [''name'']\<rparr>
      [\<lparr>vd_name = ''name'', vd_required = True, vd_default_value = None, vd_description = None\<rparr>]
      [(''name'', Supplied (JStr ''{{secret}}''))] = Inr r
    \<and> rd_rendered_body r = ''Hello {{secret}}''"
proof -
  let ?p = "\<lparr>pt_nodes = [TextNode ''Hello '', VariableNode ''name'' 6 14],
        pt_variable_names = [''name'']\<rparr>"
  let ?d = "\<lparr>vd_name = ''name'', vd_required = True, vd_default_value = None, vd_description = None\<rparr>"
  let ?v = "[(''name'', Supplied (JStr ''{{secret}}''))]"
  obtain r where r: "render_template (\<lambda>x. []) ?p [?d] ?v = Inr r"
    by (simp add: render_template_def assert_no_unknown_variables_def assert_value_types_def
        resolve_variables_def resolve_declaration_def supplied_value_def assert_value_lengths_def
        maximum_variable_value_length_def maximum_rendered_body_length_def)
  then show ?thesis
    using rendered_messages_are_complete [OF _ r]
    by (simp add: variable_meaning_def supplied_value_def)
qed

text \<open>
  Nothing half-filled is sent. When a required variable has no usable value, rendering fails, and
  unless a check before it refuses the request, the error names exactly the missing variables in the
  order of their declarations.
\<close>

theorem missing_variables_are_refused:
  assumes "d \<in> set ds" and "vd_required d" and "\<not> is_supported_value (supplied_value vals (vd_name d))"
  shows "\<exists>e. render_template nt p ds vals = Inl e
    \<and> (assert_no_unknown_variables ds vals = Inr () \<and> assert_value_types vals = Inr () \<longrightarrow>
         (\<exists>message. e = TemplateVariableMissing message (map vd_name (filter (unresolvable vals) ds))))"
proof -
  have "filter (unresolvable vals) ds \<noteq> []"
    using assms by (auto simp: filter_empty_conv unresolvable_def)
  then show ?thesis
    by (auto simp: render_template_def resolve_variables_def missing_variables Let_def
        split: sum.splits)
qed

theorem missing_variables_are_refused_witness:
  "\<exists>e. render_template (\<lambda>x. []) \<lparr>pt_nodes = [], pt_variable_names = []\<rparr>
     [\<lparr>vd_name = ''a'', vd_required = True, vd_default_value = None, vd_description = None\<rparr>]
     [(''a'', Supplied JNull)] = Inl e"
  using missing_variables_are_refused [where d = "\<lparr>vd_name = ''a'', vd_required = True,
      vd_default_value = None, vd_description = None\<rparr>" and nt = "\<lambda>x. []"
      and ds = "[\<lparr>vd_name = ''a'', vd_required = True, vd_default_value = None, vd_description = None\<rparr>]"
      and vals = "[(''a'', Supplied JNull)]" and p = "\<lparr>pt_nodes = [], pt_variable_names = []\<rparr>"]
  by (auto simp: supplied_value_def)

end
