(* ===== verification/Recovery.thy ===== *)
theory Recovery
  imports Service_Safety
begin

text \<open>
  What the maintenance pass achieves: from any sound state, and alone, it gives every claim whose
  worker died back, offers pg-boss a job for everything that is due, and leaves those rows such that a
  worker taking the job gets the claim.
\<close>

section \<open>Giving claims back\<close>

definition is_stuck :: "config \<Rightarrow> millis \<Rightarrow> notification \<Rightarrow> bool" where
  "is_stuck c now r =
     (n_status r = PROCESSING \<and> claimed_before (now - c_stuck_claim_timeout_seconds c * 1000) r)"

abbreviation released :: "millis \<Rightarrow> notification \<Rightarrow> notification" where
  "released now \<equiv>
     transition_row RETRYING [SetNextAttemptAt (Some now), SetClaimToken None, SetClaimedAt None] now"

lemma released_row [simp]:
  "n_next_attempt_at (released now n) = Some now"
  "n_claim_token (released now n) = None"
  "n_provider_message_id (released now n) = n_provider_message_id n"
  "n_provider_acknowledgement (released now n) = n_provider_acknowledgement n"
  by (simp_all add: transition_row_def apply_changes_def)

lemma release_claim_effect:
  assumes "sound w" and "n \<in> set (w_notifications w)" and "n_status n = PROCESSING"
  shows "\<exists>w'. release_claim c n now w = Inr (True, w')
    \<and> w_notifications w' = sql_update (\<lambda>x. n_id x = n_id n) (released now) (w_notifications w)
    \<and> (\<exists>js. w_jobs w' = w_jobs w @ js) \<and> w_clock w' = w_clock w"
proof -
  have "check_notification (released now n)"
    using assms by (auto simp: sound_def check_notification_def)
  then have moved: "apply_transition (n_application_id n) (n_id n) PROCESSING RETRYING
      [SetNextAttemptAt (Some now), SetClaimToken None, SetClaimedAt None] now w
    = Inr (Some (released now n),
        w\<lparr>w_notifications := sql_update (\<lambda>x. n_id x = n_id n) (released now) (w_notifications w)\<rparr>)"
    using assms by (intro apply_transition_effect) (simp_all add: enforce_status_transition_def)
  have "notification_exists (n_application_id n) (n_id n) (w\<lparr>w_notifications :=
      sql_update (\<lambda>x. n_id x = n_id n) (released now) (w_notifications w), w_next_identifier := j\<rparr>)" for j
    using sql_update_image [OF assms(2), of "\<lambda>x. n_id x = n_id n" "released now"]
    by (auto simp: notification_exists_def list_ex_iff is_notification_def intro!: bexI [of _ "released now n"])
  with moved show ?thesis
    by (simp add: release_claim_def tx_bind_def tx_return_def new_identifier_def append_event_def
        enqueue_dispatch_def enqueue_in_transaction_def)
qed

lemma reap_each_effect:
  assumes "sound w" and "set ns \<subseteq> set (w_notifications w)" and "\<forall>n \<in> set ns. n_status n = PROCESSING"
    and "distinct (map n_id ns)"
  shows "\<exists>w'. run (reap_each c now ns k) env w = (Returned (k + int (length ns)), w') \<and> sound w'
    \<and> w_notifications w' = sql_update (\<lambda>x. n_id x \<in> n_id ` set ns) (released now) (w_notifications w)
    \<and> (\<exists>js. w_jobs w' = w_jobs w @ js) \<and> w_clock w' = w_clock w"
  using assms
proof (induction ns arbitrary: w k)
  case Nil
  then show ?case by (simp add: sql_update_none)
next
  case (Cons n ns)
  obtain v where v: "release_claim c n now w = Inr (True, v)"
    and rows: "w_notifications v = sql_update (\<lambda>x. n_id x = n_id n) (released now) (w_notifications w)"
    and jobs: "\<exists>js. w_jobs v = w_jobs w @ js" and clock: "w_clock v = w_clock w"
    using release_claim_effect [OF Cons.prems(1), of n c now] Cons.prems(2,3) by auto
  have "sound v"
    using upholds_release_claim [of c n now] Cons.prems(1) v by (auto simp: commits_def)
  moreover have "set ns \<subseteq> set (w_notifications v)"
  proof
    fix x assume "x \<in> set ns"
    with Cons.prems(2,4) have "x \<in> set (w_notifications w)" and "n_id x \<noteq> n_id n"
      by (auto simp: image_iff)
    then show "x \<in> set (w_notifications v)"
      using sql_update_image [of x "w_notifications w" "\<lambda>x. n_id x = n_id n" "released now"]
      by (simp add: rows)
  qed
  ultimately obtain w' where w': "run (reap_each c now ns (k + 1)) env v = (Returned (k + 1 + int (length ns)), w')"
    "sound w'" "w_notifications w' = sql_update (\<lambda>x. n_id x \<in> n_id ` set ns) (released now) (w_notifications v)"
    "\<exists>js. w_jobs w' = w_jobs v @ js" "w_clock w' = w_clock v"
    using Cons.IH [of v "k + 1"] Cons.prems(3,4) by auto
  have "sql_update (\<lambda>x. n_id x \<in> n_id ` set ns) (released now) (w_notifications v)
      = sql_update (\<lambda>x. n_id x \<in> n_id ` set (n # ns)) (released now) (w_notifications w)"
    using Cons.prems(4) by (auto simp: rows sql_update_def)
  moreover have "\<exists>js. w_jobs w' = w_jobs w @ js"
    using jobs w'(4) by force
  ultimately show ?case
    using v w' clock by (simp add: step_simps)
qed

text \<open>
  A job for a notification, to start at once, was offered to pg-boss: it is on file now, or pg-boss
  refused it between the two states - which a \<open>stately\<close> queue does while another job with that key waits.
\<close>

definition is_job_for :: "notification \<Rightarrow> millis \<Rightarrow> job \<Rightarrow> bool" where
  "is_job_for n now j =
     (j_queue j = NOTIFICATION_DISPATCH \<and> j_application_id j = Some (n_application_id n)
      \<and> j_subject_id j = n_id n \<and> j_singleton_key j = Some (n_id n) \<and> j_start_after j = Some now)"

definition offered_a_job :: "config \<Rightarrow> notification \<Rightarrow> millis \<Rightarrow> world \<Rightarrow> world \<Rightarrow> bool" where
  "offered_a_job c n now w w' =
     (\<exists>j. is_job_for n now j
        \<and> (j \<in> set (drop (length (w_jobs w)) (w_jobs w'))
            \<or> (\<exists>v. w_notifications v = w_notifications w' \<and> w_clock v = w_clock w'
                  \<and> (\<exists>k \<ge> length (w_jobs w). w_jobs v = take k (w_jobs w'))
                  \<and> c_boss_send c v j = None)))"

lemma is_job_for_maintenance [simp]: "is_job_for n now (maintenance_job n now)"
  by (simp add: is_job_for_def maintenance_job_def)

lemma offered_earlier:
  assumes "offered_a_job c n now v w'" and "w_jobs v = w_jobs w @ js"
  shows "offered_a_job c n now w w'"
proof -
  have "set (drop (length (w_jobs v)) (w_jobs w')) \<subseteq> set (drop (length (w_jobs w)) (w_jobs w'))"
    by (simp add: assms(2) set_drop_subset_set_drop)
  moreover have "length (w_jobs w) \<le> length (w_jobs v)" by (simp add: assms(2))
  ultimately show ?thesis
    using assms(1) unfolding offered_a_job_def by (meson order_trans subsetD)
qed

lemma offered_same:
  assumes "w_jobs v = w_jobs w'" and "w_notifications v = w_notifications w'" and "w_clock v = w_clock w'"
  shows "offered_a_job c n now w v = offered_a_job c n now w w'"
  using assms by (simp add: offered_a_job_def)

lemma requeue_each_effect:
  "\<exists>k' w'. run (requeue_each c now ns k) env w = (Returned k', w')
    \<and> w_notifications w' = w_notifications w \<and> w_clock w' = w_clock w
    \<and> (\<exists>js. w_jobs w' = w_jobs w @ js) \<and> (\<forall>n \<in> set ns. offered_a_job c n now w w')
    \<and> (sound w \<longrightarrow> sound w')"
proof (induction ns arbitrary: w k)
  case Nil
  then show ?case by simp
next
  case (Cons n ns)
  let ?job = "maintenance_job n now"
  let ?k = "if c_boss_send c w ?job \<noteq> None then k + 1 else k"
  define v where "v = (if c_boss_send c w ?job = None then w else w\<lparr>w_jobs := w_jobs w @ [?job]\<rparr>)"
  obtain k' w' js where w': "run (requeue_each c now ns ?k) env v = (Returned k', w')"
    "w_notifications w' = w_notifications v" "w_clock w' = w_clock v" "w_jobs w' = w_jobs v @ js"
    "\<forall>n \<in> set ns. offered_a_job c n now v w'" "sound v \<longrightarrow> sound w'"
    using Cons.IH [of ?k v] by blast
  obtain js' where v: "w_jobs v = w_jobs w @ js'" "w_notifications v = w_notifications w" "w_clock v = w_clock w"
    "sound v = sound w"
    by (cases "c_boss_send c w ?job = None") (simp_all add: v_def)
  have "offered_a_job c n now w w'"
  proof (cases "c_boss_send c w ?job")
    case None
    then have "v = w" by (simp add: v_def)
    with None w' show ?thesis
      unfolding offered_a_job_def by (intro exI [of _ ?job] conjI disjI2 exI [of _ w]) auto
  qed (use w' in \<open>auto simp: offered_a_job_def v_def intro!: exI [of _ ?job]\<close>)
  moreover have "run (requeue_each c now (n # ns) k) env w = (Returned k', w')"
    using w'(1) by (simp add: step_simps enqueue_dispatch_def enqueue_in_transaction_def v_def)
  ultimately show ?case
    using w' v offered_earlier [OF _ v(1)] by auto
qed

section \<open>A due notification can be claimed\<close>

lemma claim_for_dispatch_succeeds:
  assumes "sound w" and n: "n \<in> set (w_notifications w)" and due: "is_claimable now n"
  shows "\<exists>r w'. claim_for_dispatch (n_application_id n) (n_id n) token now w = Inr (Some r, w')
    \<and> n_id r = n_id n \<and> n_status r = PROCESSING"
proof -
  let ?p = "\<lambda>r. is_notification (n_application_id n) (n_id n) r \<and> is_claimable now r"
  let ?f = "\<lambda>r. r\<lparr>n_status := PROCESSING, n_claim_token := Some token, n_claimed_at := Some now,
      n_updated_at := of_date now\<rparr>"
  have "update_notifications ?p ?f w = Inr (map ?f (filter ?p (w_notifications w)),
      w\<lparr>w_notifications := sql_update ?p ?f (w_notifications w)\<rparr>)"
    by (rule update_cannot_fail [OF assms(1)])
      (use assms(1) in \<open>auto simp: is_claimable_def enforce_status_transition_def sound_def check_notification_def\<close>)
  moreover have "n \<in> set (filter ?p (w_notifications w))"
    using n due by (simp add: is_notification_def)
  then obtain y ys where "filter ?p (w_notifications w) = y # ys" and "?p y"
    by (cases "filter ?p (w_notifications w)") (auto simp: filter_eq_Cons_iff)
  ultimately show ?thesis
    by (simp add: claim_for_dispatch_def tx_bind_def tx_return_def first_row_def is_notification_def)
qed

lemma promote_due_scheduled:
  assumes "sound w" and n: "n \<in> set (w_notifications w)" and "n_status n = SCHEDULED"
    and "due_at (n_scheduled_at n) now"
  shows "\<exists>r w'. promote_scheduled (n_application_id n) (n_id n) now w = Inr (Some r, w') \<and> sound w'
    \<and> w_clock w' = w_clock w \<and> (\<exists>n' \<in> set (w_notifications w'). n_id n' = n_id n
        \<and> n_application_id n' = n_application_id n \<and> is_claimable now n')"
proof -
  let ?p = "\<lambda>r. is_notification (n_application_id n) (n_id n) r \<and> n_status r = SCHEDULED
      \<and> due_at (n_scheduled_at r) now"
  let ?f = "\<lambda>r. r\<lparr>n_status := QUEUED, n_updated_at := of_date now\<rparr>"
  let ?w = "w\<lparr>w_notifications := sql_update ?p ?f (w_notifications w)\<rparr>"
  have "update_notifications ?p ?f w = Inr (map ?f (filter ?p (w_notifications w)), ?w)"
    by (rule update_cannot_fail [OF assms(1)])
      (use assms(1) in \<open>auto simp: enforce_status_transition_def sound_def check_notification_def\<close>)
  moreover have "n \<in> set (filter ?p (w_notifications w))"
    using assms by (simp add: is_notification_def)
  then obtain y ys where "filter ?p (w_notifications w) = y # ys" by (cases "filter ?p (w_notifications w)") auto
  ultimately have t: "promote_scheduled (n_application_id n) (n_id n) now w = Inr (Some (?f y), ?w)"
    by (simp add: promote_scheduled_def tx_bind_def tx_return_def first_row_def)
  moreover have "sound ?w"
    using upholds_promote [of "n_application_id n" "n_id n" now] assms(1) t by (auto simp: commits_def)
  moreover have "?f n \<in> set (w_notifications ?w)"
    using sql_update_image [OF n, of ?p ?f] assms(3,4) by (simp add: is_notification_def)
  ultimately show ?thesis
    by (auto simp: is_claimable_def intro!: bexI [of _ "?f n"])
qed

lemma promote_nothing:
  assumes "sound w" and n: "n \<in> set (w_notifications w)" and "n_status n \<noteq> SCHEDULED"
  shows "promote_scheduled (n_application_id n) (n_id n) now w = Inr (None, w)"
proof -
  let ?p = "\<lambda>r. is_notification (n_application_id n) (n_id n) r \<and> n_status r = SCHEDULED
      \<and> due_at (n_scheduled_at r) now"
  have none: "\<not> ?p r" if "r \<in> set (w_notifications w)" for r
    using sound_unique [OF assms(1) that n] assms(3) by (auto simp: is_notification_def)
  then have "filter ?p (w_notifications w) = []" by (simp add: filter_empty_conv)
  moreover have "sql_update ?p f (w_notifications w) = w_notifications w" for f
    using none by (intro sql_update_none) blast
  ultimately show ?thesis
    using assms(1)
    by (simp add: promote_scheduled_def update_notifications_def tx_bind_def tx_return_def Let_def
        first_row_def sound_def)
qed

text \<open>The worker's own step, promotion included, for whatever is due.\<close>

definition takes_the_claim :: "config \<Rightarrow> env \<Rightarrow> notification \<Rightarrow> world \<Rightarrow> bool" where
  "takes_the_claim c env n w =
     (\<forall>token corr. \<exists>r v. run (claim c \<lparr>di_application_id = n_application_id n,
          di_notification_id = n_id n, di_correlation_id = corr\<rparr> token) env w = (Returned (Claimed r), v)
        \<and> n_id r = n_id n \<and> n_status r = PROCESSING)"

lemma due_notifications_are_claimed:
  assumes "sound w" and n: "n \<in> set (w_notifications w)" and due: "is_due_for_dispatch (w_clock w) n"
  shows "takes_the_claim c env n w"
proof (cases "n_status n = SCHEDULED")
  case False
  then have claimable: "is_claimable (w_clock w) n"
    using due by (auto simp: is_due_for_dispatch_def is_claimable_def)
  have "\<exists>r v. run (claim c \<lparr>di_application_id = n_application_id n, di_notification_id = n_id n,
      di_correlation_id = corr\<rparr> token) env w = (Returned (Claimed r), v)
    \<and> n_id r = n_id n \<and> n_status r = PROCESSING" for token corr
  proof -
    obtain r w' where "claim_for_dispatch (n_application_id n) (n_id n) token (w_clock w) w = Inr (Some r, w')"
      and "n_id r = n_id n" "n_status r = PROCESSING"
      using claim_for_dispatch_succeeds [OF assms(1) n claimable, of token] by blast
    with promote_nothing [OF assms(1) n False] show ?thesis by (simp add: claim_def step_simps)
  qed
  then show ?thesis by (simp add: takes_the_claim_def)
next
  case True
  then have "due_at (n_scheduled_at n) (w_clock w)" using due by (simp add: is_due_for_dispatch_def)
  from promote_due_scheduled [OF assms(1) n True this]
  obtain r v n' where t: "promote_scheduled (n_application_id n) (n_id n) (w_clock w) w = Inr (Some r, v)"
    and v: "sound v" "w_clock v = w_clock w" and n': "n' \<in> set (w_notifications v)" "n_id n' = n_id n"
      "n_application_id n' = n_application_id n" "is_claimable (w_clock w) n'" by blast
  have exists: "notification_exists (n_application_id n) (n_id n) (v\<lparr>w_next_identifier := i\<rparr>)" for i
    using n' by (auto simp: notification_exists_def list_ex_iff is_notification_def)
  have claimed: "\<exists>r w'. claim_for_dispatch (n_application_id n) (n_id n) token (w_clock w)
      (v\<lparr>w_next_identifier := i, w_events := es\<rparr>) = Inr (Some r, w') \<and> n_id r = n_id n \<and> n_status r = PROCESSING"
    for token i es
    using claim_for_dispatch_succeeds [of "v\<lparr>w_next_identifier := i, w_events := es\<rparr>" n' "w_clock w" token] v n'
    by simp
  show ?thesis
    unfolding takes_the_claim_def
  proof (intro allI)
    fix token corr
    let ?u = "v\<lparr>w_next_identifier := Suc (w_next_identifier v)\<rparr>"
    obtain r' v' where "claim_for_dispatch (n_application_id n) (n_id n) token (w_clock w)
        (?u\<lparr>w_events := w_events ?u @
          [\<lparr>e_id = c_identifier c (w_next_identifier v), e_application_id = n_application_id n,
            e_notification_id = n_id n, e_event_type = ''notification.queued'', e_from_status = Some SCHEDULED,
            e_to_status = Some QUEUED, e_attempt_number = None, e_payload = [],
            e_correlation_id = Some corr, e_occurred_at = w_db_clock v\<rparr>]\<rparr>) = Inr (Some r', v')"
      and "n_id r' = n_id n" "n_status r' = PROCESSING"
      using claimed by metis
    with t exists show "\<exists>r v. run (claim c \<lparr>di_application_id = n_application_id n,
          di_notification_id = n_id n, di_correlation_id = corr\<rparr> token) env w = (Returned (Claimed r), v)
        \<and> n_id r = n_id n \<and> n_status r = PROCESSING"
      by (simp add: claim_def step_simps append_event_def)
  qed
qed

lemma length_filter_either: "length (filter p xs) \<le> length (filter (\<lambda>x. p x \<or> q x) xs)"
  by (induction xs) simp_all

lemma distinct_stuck: "sound w \<Longrightarrow> distinct (map n_id (find_stuck_claims t k w))"
  by (simp add: find_stuck_claims_def sound_def distinct_take distinct_sql_order_by distinct_map_filter
      flip: take_map)

section \<open>The pass\<close>

text \<open>
  C7: A maintenance pass forgets nothing. Running alone, from any sound state in which no more is stuck
  or due than a batch holds, the pass returns and the tables stay sound; every abandoned claim is given
  back; for every notification that was due or given back a job that starts now was offered to pg-boss -
  it is on file, or pg-boss refused it, as it does while another job of that notification waits - and it is
  left such that a worker, alone, gets the claim, after promoting it if it is SCHEDULED; every other
  notification is left as it was.
\<close>

theorem nothing_due_is_forgotten:
  assumes "sound w"
    and "length (filter (\<lambda>r. is_stuck c (w_clock w) r \<or> is_due_for_dispatch (w_clock w) r)
           (w_notifications w)) \<le> maintenance_batch_size"
  shows "\<exists>report w'. run (run_once c) env w = (Returned report, w') \<and> w_clock w' = w_clock w \<and> sound w'
    \<and> (\<forall>n \<in> set (w_notifications w).
         if is_stuck c (w_clock w) n \<or> is_due_for_dispatch (w_clock w) n
         then \<exists>n' \<in> set (w_notifications w'). n_id n' = n_id n
           \<and> is_due_for_dispatch (w_clock w) n' \<and> n_status n' \<noteq> PROCESSING
           \<and> offered_a_job c n' (w_clock w) w w' \<and> (\<forall>env'. takes_the_claim c env' n' w')
         else n \<in> set (w_notifications w'))"
proof -
  let ?now = "w_clock w"
  let ?stuck = "find_stuck_claims (?now - c_stuck_claim_timeout_seconds c * 1000) maintenance_batch_size w"
  let ?P = "\<lambda>r. is_stuck c ?now r \<or> is_due_for_dispatch ?now r"
  have "length (filter (is_stuck c ?now) (w_notifications w)) \<le> maintenance_batch_size"
    using assms(2) length_filter_either [of "is_stuck c ?now" "w_notifications w" "is_due_for_dispatch ?now"] by linarith
  then have stuck: "set ?stuck = {n \<in> set (w_notifications w). is_stuck c ?now n}"
    using find_stuck_complete [of "?now - c_stuck_claim_timeout_seconds c * 1000" w maintenance_batch_size]
    by (simp add: is_stuck_def [abs_def])
  have ids: "n_id x \<in> n_id ` set ?stuck \<longleftrightarrow> is_stuck c ?now x" if "x \<in> set (w_notifications w)" for x
    using stuck sound_unique [OF assms(1) _ that] that by (auto simp: image_iff) 
  have sub: "set ?stuck \<subseteq> set (w_notifications w)" "\<forall>n \<in> set ?stuck. n_status n = PROCESSING"
    using stuck by (auto simp: is_stuck_def)
  obtain v where v: "run (reap_each c ?now ?stuck 0) env w = (Returned (0 + int (length ?stuck)), v)" "sound v"
    and rows: "w_notifications v
        = sql_update (\<lambda>x. n_id x \<in> n_id ` set ?stuck) (released ?now) (w_notifications w)"
    and jobs: "\<exists>js. w_jobs v = w_jobs w @ js" and clock: "w_clock v = ?now"
    using reap_each_effect [OF assms(1) sub distinct_stuck [OF assms(1)], of c ?now 0 env] by blast
  let ?due = "find_due_for_dispatch ?now maintenance_batch_size v"
  define g where "g = (\<lambda>r. if is_stuck c ?now r then released ?now r else r)"
  have rows': "w_notifications v = map g (w_notifications w)"
    using ids by (simp add: rows sql_update_def g_def)
  have g: "is_due_for_dispatch ?now (g r) \<longleftrightarrow> ?P r" for r
    by (auto simp: g_def is_due_for_dispatch_def due_at_def is_stuck_def)
  have due: "set ?due = {n \<in> set (w_notifications v). is_due_for_dispatch ?now n}"
    using assms(2) by (intro find_due_complete) (simp add: rows' filter_map comp_def g)
  obtain k u where u: "run (requeue_each c ?now ?due 0) env v = (Returned k, u)"
    "w_notifications u = w_notifications v" "w_clock u = ?now" "sound u"
    "\<forall>n \<in> set ?due. offered_a_job c n ?now v u"
    using requeue_each_effect [of c ?now ?due 0 env v] v(2) clock by auto
  obtain pruned w' where w': "prune_rate_limit_buckets (?now - 3600 * 1000) u = Inr (pruned, w')"
    and kept: "w_notifications w' = w_notifications u" "w_clock w' = w_clock u" "w_jobs w' = w_jobs u"
      "sound w' = sound u"
    by (simp add: prune_rate_limit_buckets_def Let_def)
  have same: "w_notifications w' = map g (w_notifications w)" "w_clock w' = ?now" "w_jobs w' = w_jobs u" "sound w'"
    using u rows' kept by simp_all
  have "\<exists>report. run (run_once c) env w = (Returned report, w')"
    using v(1) u(1,3) clock w'
    by (simp add: run_once_def reap_stuck_claims_def requeue_due_notifications_def prune_def step_simps
        run_bind w')
  moreover have "\<exists>n' \<in> set (w_notifications w'). n_id n' = n_id n
       \<and> is_due_for_dispatch ?now n' \<and> n_status n' \<noteq> PROCESSING
       \<and> offered_a_job c n' ?now w w' \<and> (\<forall>env'. takes_the_claim c env' n' w')"
    if "n \<in> set (w_notifications w)" and "?P n" for n
  proof -
    have n': "g n \<in> set (w_notifications w')" "is_due_for_dispatch ?now (g n)" "n_id (g n) = n_id n"
      using that g [of n] by (simp_all add: same) (simp add: g_def)
    then have "g n \<in> set ?due" using due same(1) rows' by simp
    then have "offered_a_job c (g n) ?now v w'"
      using u(5) offered_same [of w' u] kept by simp
    then have "offered_a_job c (g n) ?now w w'"
      using jobs offered_earlier by blast
    moreover have "takes_the_claim c env' (g n) w'" for env'
      using due_notifications_are_claimed [OF same(4) n'(1)] n'(2) same(2) by simp
    moreover have "n_status (g n) \<noteq> PROCESSING"
      using n'(2) by (auto simp: is_due_for_dispatch_def)
    ultimately show ?thesis
      using n' by blast
  qed
  moreover have "n \<in> set (w_notifications w')" if "n \<in> set (w_notifications w)" and "\<not> ?P n" for n
    using that by (auto simp: same g_def image_iff intro!: bexI [of _ n])
  ultimately show ?thesis
    using same(2,4)
    by (elim exE, intro exI conjI ballI) (assumption, assumption, assumption, split if_split, blast)
qed

text \<open>A notification whose worker died long ago, and the pass that finds it.\<close>

definition abandoned_world :: world where
  "abandoned_world = example_world\<lparr>w_notifications :=
     [example_notification\<lparr>n_status := PROCESSING, n_claim_token := Some ''dead'', n_claimed_at := Some 0\<rparr>]\<rparr>"

lemma abandoned_world_sound: "sound abandoned_world"
  by (simp add: abandoned_world_def sound_def unique_message_ids_def check_notification_def
      claim_matches_status_def ledger_matches_def ledger_numbers_def example_notification_def)

theorem nothing_due_is_forgotten_witness:
  "\<exists>report w'. run (run_once example_config) example_env abandoned_world = (Returned report, w')
     \<and> (\<exists>n' \<in> set (w_notifications w'). n_id n' = ''n1'' \<and> n_status n' \<noteq> PROCESSING
          \<and> is_due_for_dispatch 1000000 n' \<and> takes_the_claim example_config example_env n' w'
          \<and> offered_a_job example_config n' 1000000 abandoned_world w')"
proof -
  have stuck: "is_stuck example_config 1000000
      (example_notification\<lparr>n_status := PROCESSING, n_claim_token := Some ''dead'', n_claimed_at := Some 0\<rparr>)"
    by (simp add: is_stuck_def claimed_before_def example_config_def)
  show ?thesis
    using nothing_due_is_forgotten [OF abandoned_world_sound, of example_config example_env] stuck
    by (auto simp: abandoned_world_def example_world_def maintenance_batch_size_def)
qed

end
