(* ===== verification/Request_Properties.thy ===== *)
theory Request_Properties
  imports Service_Safety
begin

text \<open>
  What a client of the API can rely on: accepting a notification is one transaction, repeating a
  request with its idempotency key is harmless, and what is cancelled stays unsent.
\<close>

section \<open>Creating\<close>

text \<open>The identifiers handed out are all that moves when nothing is created.\<close>

definition only_identifiers :: "world \<Rightarrow> world \<Rightarrow> bool" where
  "only_identifiers w w' = (\<exists>j. w' = w\<lparr>w_next_identifier := j\<rparr>)"

lemma only_identifiers_refl [simp]: "only_identifiers w w"
  unfolding only_identifiers_def by (rule exI [of _ "w_next_identifier w"]) simp

lemma only_identifiers_next [simp]:
  "only_identifiers (w\<lparr>w_next_identifier := i\<rparr>) w' = only_identifiers w w'"
  "only_identifiers w (w\<lparr>w_next_identifier := i\<rparr>)"
  by (simp_all add: only_identifiers_def) blast

lemma only_identifiers_trans:
  "only_identifiers u v \<Longrightarrow> only_identifiers v w \<Longrightarrow> only_identifiers u w"
  by (auto simp: only_identifiers_def)

text \<open>
  The connection a request goes over: the one it names, or else one of the application's that no other
  is better than - one that can send before one that is connecting before any other.
\<close>

definition session_rank :: "session \<Rightarrow> nat" where
  "session_rank s =
     (if can_session_send (s_status s) then 0 else if is_session_connecting (s_status s) then 1 else 2)"

definition goes_over :: "uuid \<Rightarrow> uuid option \<Rightarrow> uuid \<Rightarrow> world \<Rightarrow> bool" where
  "goes_over application_id requested session_id w =
     (let sessions = list_sessions_for_application application_id w
      in list_ex (\<lambda>s. s_id s = session_id
           \<and> (case requested of
                Some i \<Rightarrow> session_id = i
              | None \<Rightarrow> list_all (\<lambda>t. session_rank s \<le> session_rank t) sessions)) sessions)"

text \<open>A row nothing has happened to yet.\<close>

definition untouched :: "notification \<Rightarrow> bool" where
  "untouched n =
     (n_attempt_count n = 0 \<and> n_next_attempt_at n = None \<and> n_claim_token n = None \<and> n_claimed_at n = None
      \<and> n_provider_message_id n = None \<and> n_provider_acknowledgement n = 0 \<and> n_sent_at n = None
      \<and> n_delivered_at n = None \<and> n_read_at n = None \<and> n_failed_at n = None \<and> n_cancelled_at n = None
      \<and> n_dead_lettered_at n = None \<and> n_failure_code n = None \<and> n_failure_reason n = None
      \<and> n_failure_classification n = None \<and> n_retry_of_notification_id n = None)"

definition as_asked :: "notification_request \<Rightarrow> string \<Rightarrow> string \<Rightarrow> notification \<Rightarrow> world \<Rightarrow> bool" where
  "as_asked input recipient correlation_id n w =
     (n_application_id n = rq_application_id input \<and> n_rendered_body n = rq_body input
      \<and> n_recipient_phone_number n = recipient \<and> n_correlation_id n = Some correlation_id
      \<and> goes_over (rq_application_id input) (rq_session_id input) (n_session_id n) w
      \<and> n_scheduled_at n = rq_scheduled_at input
      \<and> n_status n = (if rq_scheduled_at input = None then QUEUED else SCHEDULED)
      \<and> n_maximum_attempts n = (case rq_maximum_attempts input of Some m \<Rightarrow> m | None \<Rightarrow> 5)
      \<and> n_metadata n = rq_metadata input
      \<and> (n_idempotency_key_id n = None \<longleftrightarrow> rq_idempotency_key input = None) \<and> untouched n)"

text \<open>The job of a notification, and the jobs on file after it was offered.\<close>

definition first_job :: "notification \<Rightarrow> job \<Rightarrow> bool" where
  "first_job n j =
     (j_queue j = NOTIFICATION_DISPATCH \<and> Some (j_correlation_id j) = n_correlation_id n
      \<and> j_application_id j = Some (n_application_id n) \<and> j_subject_id j = n_id n
      \<and> j_singleton_key j = Some (n_id n) \<and> j_start_after j = n_scheduled_at n)"

definition filed_under_key :: "config \<Rightarrow> job \<Rightarrow> job list \<Rightarrow> job list \<Rightarrow> bool" where
  "filed_under_key c j jobs jobs' =
     (jobs' \<in> {jobs, jobs @ [j]}
      \<and> (refuses_duplicates_only c \<and> (\<forall>held \<in> set jobs. j_singleton_key held \<noteq> j_singleton_key j)
           \<longrightarrow> jobs' = jobs @ [j]))"

lemma enqueue_under_key:
  "\<exists>answer js. enqueue_in_transaction c j w = Inr (answer, w\<lparr>w_jobs := js\<rparr>) \<and> filed_under_key c j (w_jobs w) js"
proof (cases "c_boss_send c w j")
  case None
  with refuses_duplicates_onlyD(1) [of c w j] have "filed_under_key c j (w_jobs w) (w_jobs w)"
    by (auto simp: filed_under_key_def)
  with None show ?thesis by (intro exI [of _ None] exI [of _ "w_jobs w"]) (simp add: enqueue_in_transaction_def)
next
  case (Some i)
  then show ?thesis
    by (intro exI [of _ "Some i"] exI [of _ "w_jobs w @ [j]"])
      (simp add: enqueue_in_transaction_def filed_under_key_def)
qed

text \<open>One notification with one timeline entry and one job is added.\<close>

definition recorded :: "config \<Rightarrow> notification \<Rightarrow> world \<Rightarrow> world \<Rightarrow> bool" where
  "recorded c n w w' =
     (n_id n \<notin> n_id ` set (w_notifications w) \<and> w_notifications w' = w_notifications w @ [n]
      \<and> (\<exists>ev. w_events w' = w_events w @ [ev] \<and> e_notification_id ev = n_id n
            \<and> e_application_id ev = n_application_id n \<and> e_event_type ev = ''notification.created''
            \<and> e_from_status ev = None \<and> e_to_status ev = Some (n_status n)
            \<and> e_correlation_id ev = n_correlation_id n)
      \<and> (\<exists>j. first_job n j \<and> filed_under_key c j (w_jobs w) (w_jobs w')))"

definition created_as_asked ::
  "config \<Rightarrow> notification_request \<Rightarrow> string \<Rightarrow> string \<Rightarrow> notification \<Rightarrow> world \<Rightarrow> world \<Rightarrow> bool" where
  "created_as_asked c input recipient correlation_id n w w' =
     (as_asked input recipient correlation_id n w \<and> n_created_at n = w_db_clock w \<and> recorded c n w w'
      \<and> (\<exists>i ks rows evs jobs. w' = w\<lparr>w_next_identifier := i, w_idempotency_keys := ks,
            w_notifications := rows, w_events := evs, w_jobs := jobs\<rparr>))"

lemma tx_bind_Inr: "t w = Inr (r, w') \<Longrightarrow> tx_bind t k w = k r w'"
  by (simp add: tx_bind_def)

lemma claim_leaves_rows:
  assumes "claim_idempotency_key c input fp now w = Inr (r, w')"
  shows "\<exists>i ks. w' = w\<lparr>w_next_identifier := i, w_idempotency_keys := ks\<rparr>"
    and "(\<exists>i body. r = CompletedKey i body) \<Longrightarrow> only_identifiers w w' \<and> rq_idempotency_key input \<noteq> None"
    and "r = FreshKey key_id token \<Longrightarrow> key_id = None \<longleftrightarrow> rq_idempotency_key input = None"
proof -
  note unfolded = assms [unfolded claim_idempotency_key_def repository_claim_def tx_bind_def tx_return_def
      tx_throw_def new_identifier_def conflicting_claim_def]
  have "\<exists>i ks. w\<lparr>w_next_identifier := j\<rparr> = w\<lparr>w_next_identifier := i, w_idempotency_keys := ks\<rparr>" for j
    by (rule exI [of _ j], rule exI [of _ "w_idempotency_keys w"]) simp
  then show "\<exists>i ks. w' = w\<lparr>w_next_identifier := i, w_idempotency_keys := ks\<rparr>"
    using unfolded by (auto split: option.splits if_splits idempotency_claim.splits sum.splits)
  show "(\<exists>i body. r = CompletedKey i body) \<Longrightarrow> only_identifiers w w' \<and> rq_idempotency_key input \<noteq> None"
    using unfolded by (auto split: option.splits if_splits idempotency_claim.splits sum.splits)
  show "r = FreshKey key_id token \<Longrightarrow> key_id = None \<longleftrightarrow> rq_idempotency_key input = None"
    using unfolded by (auto split: option.splits if_splits idempotency_claim.splits sum.splits)
qed

lemma drafted_row:
  "n_id (drafted_notification d) = nd_id d"
  "n_application_id (drafted_notification d) = rq_application_id (nd_request d)"
  "n_session_id (drafted_notification d) = nd_session_id d"
  "n_correlation_id (drafted_notification d) = Some (nd_correlation_id d)"
  "n_scheduled_at (drafted_notification d) = rq_scheduled_at (nd_request d)"
  by (simp_all add: drafted_notification_def Let_def)

lemma write_leaves:
  assumes "write_notification c draft w = Inr (u, w')"
  shows "recorded c (drafted_notification draft\<lparr>n_created_at := w_db_clock w, n_updated_at := w_db_clock w\<rparr>) w w'"
    and "\<exists>i rows evs jobs. w' = w\<lparr>w_next_identifier := i, w_notifications := rows, w_events := evs,
      w_jobs := jobs\<rparr>"
proof -
  let ?n = "drafted_notification draft\<lparr>n_created_at := w_db_clock w, n_updated_at := w_db_clock w\<rparr>"
  let ?v = "w\<lparr>w_notifications := w_notifications w @ [?n]\<rparr>"
  define e where "e = \<lparr>e_id = c_identifier c (w_next_identifier w),
      e_application_id = rq_application_id (nd_request draft), e_notification_id = nd_id draft,
      e_event_type = ''notification.created'', e_from_status = None,
      e_to_status = Some (n_status (drafted_notification draft)), e_attempt_number = None,
      e_payload = [(''recipient'', JStr (mask_phone_number_for_log (nd_recipient draft))),
        (''scheduled'', JBool (rq_scheduled_at (nd_request draft) \<noteq> None))],
      e_correlation_id = Some (nd_correlation_id draft), e_occurred_at = w_db_clock w\<rparr>"
  define i where "i = Suc (w_next_identifier w)"
  have inserted: "insert_notification (drafted_notification draft) w = Inr (?n, ?v)"
    "n_id ?n \<notin> n_id ` set (w_notifications w)"
    using assms
    by (auto simp: write_notification_def Let_def insert_notification_def drafted_row list_ex_iff image_iff
        elim!: tx_bind_InrE split: if_splits)
  have x: "tx_bind (enqueue_in_transaction c
           \<lparr>j_queue = NOTIFICATION_DISPATCH, j_correlation_id = nd_correlation_id draft,
            j_application_id = Some (rq_application_id (nd_request draft)), j_subject_id = nd_id draft,
            j_singleton_key = Some (nd_id draft), j_start_after = rq_scheduled_at (nd_request draft)\<rparr>)
           (\<lambda>_. tx_return ()) (?v\<lparr>w_next_identifier := i, w_events := w_events w @ [e]\<rparr>) = Inr (u, w')"
    using assms
    unfolding write_notification_def Let_def tx_bind_Inr [where t = "insert_notification _", OF inserted(1)]
    by (simp add: tx_bind_def [of "new_identifier _"] tx_bind_def [of "append_event _"] new_identifier_def
        append_event_def e_def i_def split: if_splits)
  have e: "e_notification_id e = n_id ?n" "e_application_id e = n_application_id ?n"
    "e_event_type e = ''notification.created''" "e_from_status e = None" "e_to_status e = Some (n_status ?n)"
    "e_correlation_id e = n_correlation_id ?n"
    by (simp_all add: e_def drafted_row)
  let ?j = "\<lparr>j_queue = NOTIFICATION_DISPATCH, j_correlation_id = nd_correlation_id draft,
      j_application_id = Some (rq_application_id (nd_request draft)), j_subject_id = nd_id draft,
      j_singleton_key = Some (nd_id draft), j_start_after = rq_scheduled_at (nd_request draft)\<rparr>"
  obtain answer js where q: "enqueue_in_transaction c ?j (?v\<lparr>w_next_identifier := i, w_events := w_events w @ [e]\<rparr>)
      = Inr (answer, ?v\<lparr>w_next_identifier := i, w_events := w_events w @ [e], w_jobs := js\<rparr>)"
    and js: "filed_under_key c ?j (w_jobs w) js"
    using enqueue_under_key [of c ?j "?v\<lparr>w_next_identifier := i, w_events := w_events w @ [e]\<rparr>"] by auto
  then have w': "w' = ?v\<lparr>w_next_identifier := i, w_events := w_events w @ [e], w_jobs := js\<rparr>"
    using x by (simp add: tx_bind_def tx_return_def)
  have "first_job ?n ?j" by (simp add: first_job_def drafted_row)
  then show "recorded c ?n w w'"
    unfolding recorded_def using inserted(2) e js by (auto simp: w')
  show "\<exists>i rows evs jobs. w' = w\<lparr>w_next_identifier := i, w_notifications := rows, w_events := evs,
      w_jobs := jobs\<rparr>"
    unfolding w' by (rule exI [of _ i], rule exI [of _ "w_notifications w @ [?n]"],
      rule exI [of _ "w_events w @ [e]"], rule exI [of _ js]) simp
qed

lemma find_rank:
  assumes "choose_session sessions = Some s"
  shows "s \<in> set sessions \<and> (\<forall>t \<in> set sessions. session_rank s \<le> session_rank t)"
proof (cases "find (\<lambda>s. can_session_send (s_status s)) sessions")
  case (Some x)
  with assms have "x = s" by (simp add: choose_session_def)
  with Some have "s \<in> set sessions" and "can_session_send (s_status s)" by (auto simp: find_Some_iff)
  then show ?thesis by (simp add: session_rank_def)
next
  case None
  then have unable: "\<not> can_session_send (s_status t)" if "t \<in> set sessions" for t
    using that by (auto simp: find_None_iff)
  have hit: "find p xs = Some x \<Longrightarrow> x \<in> set xs \<and> p x" for p xs and x :: session
    by (auto simp: find_Some_iff)
  have last_in: "find_last p xs = Some x \<Longrightarrow> x \<in> set xs \<and> p x" for p xs and x :: session
    using hit [of p "rev xs"] by (simp add: find_last_def)
  show ?thesis
  proof (cases "find_last (\<lambda>s. is_session_connecting (s_status s)) sessions")
    case (Some x)
    with None assms have "x = s" by (simp add: choose_session_def)
    with last_in [OF Some] unable show ?thesis by (auto simp: session_rank_def)
  next
    case none: None
    then have "\<not> is_session_connecting (s_status t)" if "t \<in> set sessions" for t
      using that by (auto simp: find_last_def find_None_iff)
    moreover have "find_last (\<lambda>s. True) sessions = Some s"
      using None none assms by (simp add: choose_session_def)
    ultimately show ?thesis using last_in unable by (auto simp: session_rank_def)
  qed
qed

lemma resolved_goes_over:
  assumes "resolve_session a requested w = Inr (s, w')"
  shows "goes_over a requested (s_id s) w"
proof (cases requested)
  case None
  with assms have "choose_session (list_sessions_for_application a w) = Some s"
    by (auto simp: resolve_session_def Let_def split: option.splits)
  with find_rank None show ?thesis by (auto simp: goes_over_def Let_def list_ex_iff list_all_iff)
next
  case (Some i)
  with assms have "find (\<lambda>s. s_id s = i) (list_sessions_for_application a w) = Some s"
    by (auto simp: resolve_session_def Let_def split: option.splits)
  with Some show ?thesis by (auto simp: goes_over_def Let_def list_ex_iff find_Some_iff)
qed

lemma drafted_as_asked:
  assumes "goes_over (rq_application_id (nd_request d)) (rq_session_id (nd_request d)) (nd_session_id d) w"
    and "nd_idempotency_key_id d = None \<longleftrightarrow> rq_idempotency_key (nd_request d) = None"
  shows "as_asked (nd_request d) (nd_recipient d) (nd_correlation_id d)
    (drafted_notification d\<lparr>n_created_at := t, n_updated_at := t\<rparr>) w"
  using assms by (simp add: as_asked_def untouched_def drafted_notification_def Let_def)

lemma complete_leaves:
  assumes "complete_key key_id token body resource now w = Inr (u, w')"
  shows "\<exists>ks. w' = w\<lparr>w_idempotency_keys := ks\<rparr>"
  using assms
  by (auto simp: complete_key_def repository_complete_def tx_return_def split: option.splits
      intro: exI [of _ "w_idempotency_keys w"])

lemma read_or_fail_Inr: "read_or_fail a i w = Inr (n, w') \<longleftrightarrow> find_by_id a i w = Some n \<and> w' = w"
  by (auto simp: read_or_fail_def split: option.splits)

lemma find_by_id_key: "find_by_id a i w = Some n \<Longrightarrow> n_id n = i"
  by (auto simp: find_by_id_def is_notification_def dest!: sql_first_SomeD)

lemma find_by_id_rows: "w_notifications v = w_notifications w \<Longrightarrow> find_by_id a i v = find_by_id a i w"
  by (simp add: find_by_id_def)

lemma find_appended:
  assumes "w_notifications w = rows @ [n]" and "n_id n \<notin> n_id ` set rows"
  shows "find_by_id (n_application_id n) (n_id n) w = Some n"
  unfolding find_by_id_def assms(1) using assms(2)
  by (intro sql_first_only) (auto simp: is_notification_def image_iff)

lemma resolve_session_reads: "resolve_session a i w = Inr (s, w') \<Longrightarrow> w' = w"
  by (auto simp: resolve_session_def Let_def split: option.splits)

lemma create_transaction_effect:
  assumes "create_transaction c input recipient fp corr i now w = Inr ((n, replayed), w')"
  shows "if replayed
    then only_identifiers w w' \<and> rq_idempotency_key input \<noteq> None
      \<and> find_by_id (rq_application_id input) (n_id n) w = Some n
    else created_as_asked c input recipient corr n w w' \<and> n_id n = i"
proof -
  obtain s where session: "resolve_session (rq_application_id input) (rq_session_id input) w = Inr (s, w)"
    using assms by (auto simp: create_transaction_def dest: resolve_session_reads elim!: tx_bind_InrE)
  note rest = assms [unfolded create_transaction_def tx_bind_Inr [where t = "resolve_session _ _", OF session]]
  obtain claim v where claim: "claim_idempotency_key c input fp now w = Inr (claim, v)"
    using rest by (auto elim!: tx_bind_InrE)
  note rest = rest [unfolded tx_bind_Inr [where t = "claim_idempotency_key _ _ _ _", OF claim]]
  obtain j ks where v: "v = w\<lparr>w_next_identifier := j, w_idempotency_keys := ks\<rparr>"
    using claim_leaves_rows(1) [OF claim] by blast
  show ?thesis
  proof (cases claim)
    case (CompletedKey resource body)
    with claim_leaves_rows(2) [OF claim]
    have "only_identifiers w v" and key: "rq_idempotency_key input \<noteq> None" by auto
    moreover obtain k where k: "resource = Some k"
      using rest CompletedKey by (cases resource) (simp_all add: tx_throw_def)
    have same: "find_by_id (rq_application_id input) k v = Some n" "w' = v" "replayed"
      using rest CompletedKey k
      by (auto simp: tx_bind_def tx_return_def read_or_fail_def split: option.splits)
    moreover have "find_by_id (rq_application_id input) (n_id n) w = Some n"
      using same(1) find_by_id_key [OF same(1)] find_by_id_rows [of v w] by (simp add: v)
    ultimately show ?thesis by simp
  next
    case (FreshKey key_id token)
    define d where "d = \<lparr>nd_id = i, nd_recipient = recipient, nd_session_id = s_id s,
        nd_idempotency_key_id = key_id, nd_correlation_id = corr, nd_request = input\<rparr>"
    obtain u x where u: "write_notification c d v = Inr ((), u)"
      and x: "complete_key key_id token [(''id'', JStr i)] (Some i) now u = Inr ((), x)"
      and found: "find_by_id (rq_application_id input) i x = Some n" and same: "w' = x" "\<not> replayed"
      using rest FreshKey by (auto simp: tx_return_def read_or_fail_Inr d_def elim!: tx_bind_InrE)
    define m where "m = drafted_notification d\<lparr>n_created_at := w_db_clock v, n_updated_at := w_db_clock v\<rparr>"
    have id: "n_id m = i" and app: "n_application_id m = rq_application_id input"
      by (simp_all add: m_def d_def drafted_row)
    have rec: "recorded c m v u" using write_leaves(1) [OF u] by (simp add: m_def)
    obtain j' rows evs jobs where wrote: "u = v\<lparr>w_next_identifier := j', w_notifications := rows, w_events := evs,
        w_jobs := jobs\<rparr>" using write_leaves(2) [OF u] by blast
    obtain ks' where completed: "w' = u\<lparr>w_idempotency_keys := ks'\<rparr>"
      using complete_leaves [OF x] same(1) by blast
    have "goes_over (rq_application_id input) (rq_session_id input) (s_id s) w"
      by (rule resolved_goes_over [OF session])
    then have "as_asked input recipient corr m w"
      using drafted_as_asked [of d w "w_db_clock v"] claim_leaves_rows(3) [OF claim FreshKey]
      by (simp add: m_def d_def)
    moreover have "recorded c m w w'"
      using rec by (simp add: recorded_def completed v)
    moreover have "n_created_at m = w_db_clock w" by (simp add: m_def v)
    ultimately have made: "created_as_asked c input recipient corr m w w'"
      unfolding created_as_asked_def
      by (simp add: exI [of _ j', OF exI [of _ ks', OF exI [of _ rows, OF exI [of _ evs, OF exI [of _ jobs]]]]]
          completed wrote v)
    have "w_notifications w' = w_notifications w @ [m]" "n_id m \<notin> n_id ` set (w_notifications w)"
      using made by (simp_all add: created_as_asked_def recorded_def)
    then have "find_by_id (n_application_id m) (n_id m) w' = Some m" by (rule find_appended)
    then have "n = m" using found same(1) id app by simp
    with made id same(2) show ?thesis by simp
  qed
qed

lemma create_returned:
  assumes "run (create c rt input to) env w = (Returned (n, replayed), w')"
  obtains recipient corr i now u where "parse_phone_number to = Inr recipient"
    and "case rr_correlation_id rt of Some k \<Rightarrow> corr = k | None \<Rightarrow> True" and "only_identifiers w u"
    and "create_transaction c input recipient (fingerprint_request rt input (OneRecipient to)) corr i now u
      = Inr ((n, replayed), w')"
proof (cases "parse_phone_number to")
  case (Inl x)
  with assms show ?thesis by (cases x) (simp add: create_def)
next
  case (Inr recipient)
  show ?thesis
  proof (cases "rr_correlation_id rt")
    case None
    with assms Inr show ?thesis
      by (intro that [of recipient "c_identifier c (w_next_identifier w)"
            "w\<lparr>w_next_identifier := Suc (Suc (w_next_identifier w))\<rparr>"
            "c_identifier c (Suc (w_next_identifier w))" "w_clock w"])
        (auto simp: create_def with_correlation_def step_simps split: sum.splits)
  next
    case (Some k)
    with assms Inr show ?thesis
      by (intro that [of recipient k "w\<lparr>w_next_identifier := Suc (w_next_identifier w)\<rparr>"
            "c_identifier c (w_next_identifier w)" "w_clock w"])
        (auto simp: create_def with_correlation_def step_simps split: sum.splits)
  qed
qed

lemma create_threw:
  assumes "run (create c rt input to) env w = (Threw e, w')"
  shows "only_identifiers w w'"
proof (cases "parse_phone_number to")
  case (Inl x)
  with assms show ?thesis by (cases x) (simp add: create_def)
next
  case (Inr recipient)
  with assms show ?thesis
    by (cases "assert_schedule_is_in_the_future input (w_clock w)"; cases "rr_correlation_id rt")
      (auto simp: create_def with_correlation_def step_simps split: sum.splits)
qed

lemma created_identifiers:
  assumes "only_identifiers w u"
  shows "created_as_asked c input recipient corr n u w' = created_as_asked c input recipient corr n w w'"
proof -
  obtain j where u: "u = w\<lparr>w_next_identifier := j\<rparr>" using assms by (auto simp: only_identifiers_def)
  show ?thesis
    by (simp add: u created_as_asked_def as_asked_def goes_over_def Let_def recorded_def
        list_sessions_for_application_def)
qed

lemma creation_effect:
  "case run (create c rt input to) env w of
     (Threw e, w') \<Rightarrow> only_identifiers w w'
   | (Returned (n, replayed), w') \<Rightarrow>
       if replayed
       then only_identifiers w w' \<and> rq_idempotency_key input \<noteq> None
         \<and> find_by_id (rq_application_id input) (n_id n) w = Some n
       else \<exists>recipient corr. parse_phone_number to = Inr recipient
         \<and> (case rr_correlation_id rt of Some k \<Rightarrow> corr = k | None \<Rightarrow> True)
         \<and> created_as_asked c input recipient corr n w w'"
proof (cases "run (create c rt input to) env w")
  case (Pair out w')
  show ?thesis
  proof (cases out)
    case (Threw e)
    with Pair create_threw show ?thesis by fastforce
  next
    case (Returned x)
    obtain n replayed where x: "x = (n, replayed)" by (cases x)
    obtain recipient corr i now u where parsed: "parse_phone_number to = Inr recipient"
      and corr: "case rr_correlation_id rt of Some k \<Rightarrow> corr = k | None \<Rightarrow> True"
      and u: "only_identifiers w u"
      and t: "create_transaction c input recipient (fingerprint_request rt input (OneRecipient to)) corr i now u
        = Inr ((n, replayed), w')"
      by (rule create_returned [OF Pair [unfolded Returned x]])
    have "find_by_id a k u = find_by_id a k w" for a k
      using u by (auto simp: only_identifiers_def find_by_id_def)
    then show ?thesis
      using create_transaction_effect [OF t] created_identifiers [OF u] parsed corr u Pair Returned x
      by (auto intro: only_identifiers_trans split: if_splits)
  qed
qed

text \<open>
  C9: Creating is all or nothing. A request that fails leaves every table as it was, and so does
  one that is answered from its idempotency key, with the notification on file; a request that
  creates appends exactly one notification, with the text, the recipient, the connection, the schedule,
  the limit of attempts and the metadata asked for, one timeline entry and - on a queue that refuses
  duplicates only - one job for it, and writes no other table but that of the idempotency keys.
\<close>

theorem creation_is_all_or_nothing:
  "case run (create c rt input to) env w of
     (Threw e, w') \<Rightarrow> only_identifiers w w'
   | (Returned (n, replayed), w') \<Rightarrow>
       if replayed
       then only_identifiers w w' \<and> rq_idempotency_key input \<noteq> None
         \<and> find_by_id (rq_application_id input) (n_id n) w = Some n
       else \<exists>recipient corr. parse_phone_number to = Inr recipient
         \<and> (case rr_correlation_id rt of Some k \<Rightarrow> corr = k | None \<Rightarrow> True)
         \<and> created_as_asked c input recipient corr n w w'"
  by (rule creation_effect)

section \<open>Repeating a request\<close>

definition key_reused :: exn where
  "key_reused = DomainError ''idempotency_key_reused''
     ''This Idempotency-Key was already used with a different request body.''"

lemma claim_fresh:
  assumes "claim_idempotency_key c input fp now w = Inr (FreshKey kid token, v)"
    and "rq_idempotency_key input = Some key"
  shows "\<exists>row. kid = Some (k_id row) \<and> is_key (rq_application_id input) key row
    \<and> token = k_lock_token row \<and> k_request_fingerprint row = fp
    \<and> w_idempotency_keys v = w_idempotency_keys w @ [row]
    \<and> (\<forall>k \<in> set (w_idempotency_keys w). \<not> is_key (rq_application_id input) key k)"
  using assms
  by (auto simp: claim_idempotency_key_def repository_claim_def tx_bind_def tx_return_def tx_throw_def
      new_identifier_def conflicting_claim_def is_key_def sql_first_None
      split: option.splits if_splits idempotency_claim.splits sum.splits)

lemma claim_seen:
  assumes "sql_first (is_key (rq_application_id input) key) (w_idempotency_keys w) = Some row"
    and "rq_idempotency_key input = Some key" and "k_state row = COMPLETED"
  shows "claim_idempotency_key c input fp now w =
    (if k_request_fingerprint row = fp
     then Inr (CompletedKey (k_resource_id row) (k_response_body row),
            w\<lparr>w_next_identifier := Suc (w_next_identifier w)\<rparr>)
     else Inl key_reused)"
  using assms
  by (simp add: claim_idempotency_key_def repository_claim_def tx_bind_def tx_return_def tx_throw_def
      new_identifier_def conflicting_claim_def key_reused_def)

lemma write_keeps_keys: "write_notification c d w = Inr (u, w') \<Longrightarrow> w_idempotency_keys w' = w_idempotency_keys w"
  by (drule write_leaves(2)) (elim exE, simp)

text \<open>What a creation leaves behind for its key.\<close>

lemma created_key_is_on_file:
  assumes "create_transaction c input recipient fp corr i now w = Inr ((n, False), w')"
    and key: "rq_idempotency_key input = Some key"
  shows "\<exists>row. sql_first (is_key (rq_application_id input) key) (w_idempotency_keys w') = Some row
    \<and> k_state row = COMPLETED \<and> k_request_fingerprint row = fp \<and> k_resource_id row = Some i"
proof -
  obtain s where "resolve_session (rq_application_id input) (rq_session_id input) w = Inr (s, w)"
    using assms by (auto simp: create_transaction_def dest: resolve_session_reads elim!: tx_bind_InrE)
  note rest = assms(1) [unfolded create_transaction_def tx_bind_Inr [where t = "resolve_session _ _", OF this]]
  obtain claim v where claim: "claim_idempotency_key c input fp now w = Inr (claim, v)"
    using rest by (auto elim!: tx_bind_InrE)
  note rest = rest [unfolded tx_bind_Inr [where t = "claim_idempotency_key _ _ _ _", OF claim]]
  obtain kid token where fresh: "claim = FreshKey kid token"
    using rest by (cases claim) (auto simp: tx_throw_def tx_return_def split: option.splits elim!: tx_bind_InrE)
  obtain row where row: "kid = Some (k_id row)" "is_key (rq_application_id input) key row"
      "token = k_lock_token row" "k_request_fingerprint row = fp"
      "w_idempotency_keys v = w_idempotency_keys w @ [row]"
      "\<forall>k \<in> set (w_idempotency_keys w). \<not> is_key (rq_application_id input) key k"
    using claim_fresh [OF claim [unfolded fresh] key] by blast
  obtain u where "w_idempotency_keys u = w_idempotency_keys v"
    and "complete_key kid token [(''id'', JStr i)] (Some i) now u = Inr ((), w')"
    using rest fresh by (auto simp: tx_return_def read_or_fail_Inr dest: write_keeps_keys elim!: tx_bind_InrE)
  then have keys: "w_idempotency_keys w' = sql_update (\<lambda>k. k_id k = k_id row \<and> k_lock_token k = k_lock_token row)
      (\<lambda>k. k\<lparr>k_state := COMPLETED, k_response_status := Some 202, k_response_body := Some [(''id'', JStr i)],
             k_resource_id := Some i, k_completed_at := Some now\<rparr>) (w_idempotency_keys w @ [row])"
    using row by (auto simp: complete_key_def repository_complete_def)
  let ?f = "\<lambda>k. if k_id k = k_id row \<and> k_lock_token k = k_lock_token row
      then k\<lparr>k_state := COMPLETED, k_response_status := Some 202, k_response_body := Some [(''id'', JStr i)],
             k_resource_id := Some i, k_completed_at := Some now\<rparr> else k"
  have "\<forall>k \<in> set (map ?f (w_idempotency_keys w)). \<not> is_key (rq_application_id input) key k"
    using row(6) by (auto simp: is_key_def)
  then have "sql_first (is_key (rq_application_id input) key) (map ?f (w_idempotency_keys w) @ [?f row]) = Some (?f row)"
    using row(2) by (intro sql_first_only) (auto simp: is_key_def)
  with row(4) show ?thesis by (simp add: keys sql_update_def)
qed

text \<open>
  C11: Repeating a request is harmless. Once a request with an idempotency key has created a
  notification, then as long as its key is on file no request with that key creates another, whatever it
  asks for and whenever it comes: it fails and leaves every table as it was, or it has the same
  fingerprint and is answered with that very notification. It is answered with the notification, if that
  is on file, whenever its schedule still lies in the future, its connection exists and its number is
  one; with another fingerprint it is then refused.
\<close>

theorem repeating_a_request_is_harmless:
  assumes first: "run (create c rt input to) env w = (Returned (n, False), w')"
    and key: "rq_idempotency_key input = Some key"
    and kept: "sql_first (is_key (rq_application_id input) key) (w_idempotency_keys v)
        = sql_first (is_key (rq_application_id input) key) (w_idempotency_keys w')"
    and again: "rq_application_id other = rq_application_id input" "rq_idempotency_key other = Some key"
  shows "(case run (create c rt' other to') env' v of
        (Threw e, v') \<Rightarrow> only_identifiers v v'
      | (Returned (m, replayed), v') \<Rightarrow> replayed \<and> only_identifiers v v' \<and> n_id m = n_id n
          \<and> find_by_id (rq_application_id input) (n_id n) v = Some m
          \<and> fingerprint_request rt' other (OneRecipient to') = fingerprint_request rt input (OneRecipient to))
    \<and> (\<forall>n' recipient s. find_by_id (rq_application_id input) (n_id n) v = Some n'
          \<and> parse_phone_number to' = Inr recipient
          \<and> assert_schedule_is_in_the_future other (w_clock v) = Inr ()
          \<and> resolve_session (rq_application_id other) (rq_session_id other) v = Inr (s, v)
        \<longrightarrow> fst (run (create c rt' other to') env' v) =
          (if fingerprint_request rt' other (OneRecipient to') = fingerprint_request rt input (OneRecipient to)
           then Returned (n', True) else Threw key_reused))"
proof (intro conjI allI impI)
  let ?fp = "fingerprint_request rt input (OneRecipient to)"
  obtain recipient0 corr i now u where u: "create_transaction c input recipient0 ?fp corr i now u = Inr ((n, False), w')"
    by (rule create_returned [OF first])
  obtain row where row: "sql_first (is_key (rq_application_id other) key) (w_idempotency_keys v) = Some row"
    "k_state row = COMPLETED" "k_request_fingerprint row = ?fp" "k_resource_id row = Some (n_id n)"
    using created_key_is_on_file [OF u key] kept(1) create_transaction_effect [OF u] again(1) by auto
  note seen = claim_seen [of other key _ row c, OF _ again(2) row(2)]
  show "case run (create c rt' other to') env' v of
        (Threw e, v') \<Rightarrow> only_identifiers v v'
      | (Returned (m, replayed), v') \<Rightarrow> replayed \<and> only_identifiers v v' \<and> n_id m = n_id n
          \<and> find_by_id (rq_application_id input) (n_id n) v = Some m
          \<and> fingerprint_request rt' other (OneRecipient to') = ?fp"
  proof (cases "run (create c rt' other to') env' v")
    case (Pair out v')
    show ?thesis
    proof (cases out)
      case (Threw e)
      with Pair create_threw show ?thesis by fastforce
    next
      case (Returned x)
      obtain m replayed where x: "x = (m, replayed)" by (cases x)
      obtain recipient corr' i' now' y where y: "only_identifiers v y"
        and t: "create_transaction c other recipient (fingerprint_request rt' other (OneRecipient to')) corr' i' now' y
          = Inr ((m, replayed), v')"
        by (rule create_returned [OF Pair [unfolded Returned x]])
      have on_file: "sql_first (is_key (rq_application_id other) key) (w_idempotency_keys y) = Some row"
        and rows: "w_notifications y = w_notifications v"
        using y row(1) by (auto simp: only_identifiers_def)
      obtain s where "resolve_session (rq_application_id other) (rq_session_id other) y = Inr (s, y)"
        using t by (auto simp: create_transaction_def dest: resolve_session_reads elim!: tx_bind_InrE)
      with t seen [OF on_file] row(3,4) find_by_id_rows [OF rows] again(1)
      have "fingerprint_request rt' other (OneRecipient to') = ?fp" and "replayed"
        and found: "find_by_id (rq_application_id input) (n_id n) v = Some m"
        and "only_identifiers y v'"
        by (auto simp: create_transaction_def tx_bind_def tx_return_def read_or_fail_def find_by_id_def
            split: if_splits option.splits)
      with Pair Returned x find_by_id_key [OF found] y show ?thesis
        by (auto intro: only_identifiers_trans)
    qed
  qed
  fix n' recipient s
  assume valid: "find_by_id (rq_application_id input) (n_id n) v = Some n'
      \<and> parse_phone_number to' = Inr recipient
      \<and> assert_schedule_is_in_the_future other (w_clock v) = Inr ()
      \<and> resolve_session (rq_application_id other) (rq_session_id other) v = Inr (s, v)"
  have transaction: "create_transaction c other recipient fp corr i now (v\<lparr>w_next_identifier := j\<rparr>)
      = (if fp = ?fp then Inr ((n', True), v\<lparr>w_next_identifier := Suc j\<rparr>) else Inl key_reused)"
    for fp corr i now j
  proof -
    have "resolve_session (rq_application_id other) (rq_session_id other) (v\<lparr>w_next_identifier := j\<rparr>)
        = Inr (s, v\<lparr>w_next_identifier := j\<rparr>)"
      using valid by (auto simp: resolve_session_def Let_def list_sessions_for_application_def
          split: option.splits)
    then show ?thesis
      using valid again(1) row seen [of "v\<lparr>w_next_identifier := j\<rparr>" fp now]
      by (auto simp: create_transaction_def tx_bind_def tx_return_def read_or_fail_def find_by_id_def)
  qed
  show "fst (run (create c rt' other to') env' v) =
      (if fingerprint_request rt' other (OneRecipient to') = ?fp then Returned (n', True) else Threw key_reused)"
    using valid transaction
    by (cases "rr_correlation_id rt'") (simp_all add: create_def with_correlation_def run_steps)
qed

section \<open>Cancelling\<close>

lemma no_claim_when_closed:
  assumes "sound w" and n: "n \<in> set (w_notifications w)" and closed: "\<not> is_claimable now n"
  shows "claim_for_dispatch a (n_id n) token now w = Inr (None, w)"
proof -
  have none: "\<not> (is_notification a (n_id n) r \<and> is_claimable now r)" if "r \<in> set (w_notifications w)" for r
    using sound_unique [OF assms(1) that n] closed by (auto simp: is_notification_def)
  then have "filter (\<lambda>r. is_notification a (n_id n) r \<and> is_claimable now r) (w_notifications w) = []"
    by (simp add: filter_empty_conv)
  moreover have "sql_update (\<lambda>r. is_notification a (n_id n) r \<and> is_claimable now r) f (w_notifications w)
      = w_notifications w" for f
    using none by (intro sql_update_none) blast
  ultimately show ?thesis
    using assms(1)
    by (simp add: claim_for_dispatch_def update_notifications_def tx_bind_def tx_return_def Let_def
        first_row_def sound_def)
qed

lemma cancelled_row_checks:
  assumes "check_notification n"
  shows "check_notification (transition_row CANCELLED [SetCancelledAt (Some now)] now n)"
  using assms by (simp add: check_notification_def transition_row_def apply_changes_def)

text \<open>
  C19: What is cancelled is not sent. Alone, from a sound state, cancelling a notification of the
  application that waits returns it as CANCELLED, leaves every other notification as it was, and no
  worker can claim it afterwards; cancelling anything else is refused and changes nothing.
\<close>

theorem cancelled_notifications_cannot_be_claimed:
  assumes "sound w" and found: "find_by_id a i w = Some n"
  shows "if is_cancellable_notification_status (n_status n)
    then \<exists>n' w'. run (cancel c corr a i) env w = (Returned n', w') \<and> n_id n' = i
      \<and> n_status n' = CANCELLED \<and> n' \<in> set (w_notifications w')
      \<and> (\<forall>m \<in> set (w_notifications w). n_id m \<noteq> i \<longrightarrow> m \<in> set (w_notifications w'))
      \<and> (\<forall>token now. claim_for_dispatch a i token now w' = Inr (None, w'))
    else \<exists>message. run (cancel c corr a i) env w = (Threw (not_cancellable message), w)"
proof (cases "is_cancellable_notification_status (n_status n)")
  case False
  then show ?thesis
    using found by (auto simp: cancel_def step_simps query_read_or_fail_def)
next
  case True
  have n: "n \<in> set (w_notifications w)" "n_id n = i" "n_application_id n = a"
    using sql_first_SomeD [OF found [unfolded find_by_id_def]] by (auto simp: is_notification_def)
  let ?f = "transition_row CANCELLED [SetCancelledAt (Some (w_clock w))] (w_clock w)"
  have "can_transition (n_status n) CANCELLED" using True by (auto simp: is_cancellable_iff)
  moreover have "check_notification n" using assms(1) n(1) by (simp add: sound_def)
  ultimately have moved: "apply_transition a i (n_status n) CANCELLED [SetCancelledAt (Some (w_clock w))] (w_clock w) w
      = Inr (Some (?f n), w\<lparr>w_notifications := sql_update (\<lambda>x. n_id x = i) ?f (w_notifications w)\<rparr>)"
    using apply_transition_effect [OF assms(1) n(1) refl, of CANCELLED "[SetCancelledAt (Some (w_clock w))]" "w_clock w"]
      n(2,3) cancelled_row_checks
    by (simp add: enforce_status_transition_def transition_row_def apply_changes_def)
  have row: "?f n \<in> set (sql_update (\<lambda>x. n_id x = i) ?f (w_notifications w))"
    using sql_update_image [OF n(1), of "\<lambda>x. n_id x = i" ?f] n(2) by simp
  then have "notification_exists a i (w\<lparr>w_notifications :=
      sql_update (\<lambda>x. n_id x = i) ?f (w_notifications w), w_next_identifier := j\<rparr>)" for j
    using n by (auto simp: notification_exists_def list_ex_iff is_notification_def intro!: bexI [of _ "?f n"])
  then obtain w' where run: "run (cancel c corr a i) env w = (Returned (?f n), w')"
    and rows: "w_notifications w' = sql_update (\<lambda>x. n_id x = i) ?f (w_notifications w)"
    using found True moved
    by (simp add: cancel_def cancel_transaction_def step_simps query_read_or_fail_def tx_bind_def
        tx_return_def new_identifier_def append_event_def)
  have "sound w'"
    using safe_run_state [OF blind_sound safely_cancel assms(1), of c corr a i env] run by simp
  moreover have "\<not> is_claimable now (?f n)" for now
    by (simp add: is_claimable_def)
  ultimately have "claim_for_dispatch a i token now w' = Inr (None, w')" for token now
    using no_claim_when_closed [of w' "?f n" now a token] row rows n(2) by simp
  moreover have "m \<in> set (w_notifications w')" if "m \<in> set (w_notifications w)" "n_id m \<noteq> i" for m
    using sql_update_image [OF that(1), of "\<lambda>x. n_id x = i" ?f] that(2) by (simp add: rows)
  ultimately show ?thesis
    using True run row rows n(2) by (auto intro!: exI [of _ "?f n"] exI [of _ w'])
qed

lemma cancelled_events_effect:
  "\<exists>es j. tx_for_each (cancelled_event c corr a) xs w = Inr (es, w\<lparr>w_next_identifier := j\<rparr>)
    \<and> (\<forall>e \<in> set es. e_application_id e = a \<and> e_notification_id e \<in> fst ` set xs)"
proof (induction xs arbitrary: w)
  case Nil
  show ?case by (simp add: tx_return_def exI [of _ "w_next_identifier w"])
next
  case (Cons x xs)
  from Cons.IH [of "w\<lparr>w_next_identifier := Suc (w_next_identifier w)\<rparr>"] show ?case
    by (auto simp: cancelled_event_def tx_bind_def tx_return_def new_identifier_def)
qed

lemma append_events_effect:
  assumes "\<forall>e \<in> set es. notification_exists (e_application_id e) (e_notification_id e) w"
  shows "\<exists>evs. append_events es w = Inr ((), w\<lparr>w_events := evs\<rparr>)"
proof -
  have "\<exists>us evs. tx_for_each append_event es w = Inr (us, w\<lparr>w_events := evs\<rparr>)"
    using assms
  proof (induction es arbitrary: w)
    case Nil
    show ?case by (simp add: tx_return_def exI [of _ "w_events w"])
  next
    case (Cons e es)
    let ?v = "w\<lparr>w_events := w_events w @ [e\<lparr>e_occurred_at := w_db_clock w\<rparr>]\<rparr>"
    have "\<forall>e \<in> set es. notification_exists (e_application_id e) (e_notification_id e) ?v"
      using Cons.prems by (simp add: notification_exists_def)
    from Cons.IH [OF this] Cons.prems show ?case
      by (auto simp: append_event_def tx_bind_def tx_return_def)
  qed
  then show ?thesis by (auto simp: append_events_def tx_bind_def tx_return_def)
qed

text \<open>
  Cancelling everything that waits cancels exactly that. For an application, or one of its
  connections, it cancels the notifications that are QUEUED or RETRYING there and that nobody else holds
  locked, leaves every other notification of the platform as it was, and answers with their number.
\<close>

theorem cancel_waiting_cancels_what_waits:
  fixes a :: uuid and connection :: "uuid option" and c :: config and w :: world
  defines "waits \<equiv> \<lambda>r. n_application_id r = a \<and> n_status r \<in> {QUEUED, RETRYING}
      \<and> (connection = None \<or> connection = Some (n_session_id r)) \<and> \<not> c_locked_elsewhere c w (n_id r)"
  assumes "sound w" and known: "\<And>s. connection = Some s \<Longrightarrow> find_session a s w \<noteq> None"
  shows "\<exists>w'. run (cancel_waiting c corr a connection) env w
      = (Returned (int (length (filter waits (w_notifications w)))), w')
    \<and> w_notifications w' = map (\<lambda>r. if waits r
        then r\<lparr>n_status := CANCELLED, n_cancelled_at := Some (w_clock w),
               n_updated_at := of_date (w_clock w), n_next_attempt_at := None\<rparr> else r) (w_notifications w)"
proof -
  let ?f = "\<lambda>r. r\<lparr>n_status := CANCELLED, n_cancelled_at := Some (w_clock w),
      n_updated_at := of_date (w_clock w), n_next_attempt_at := None\<rparr>"
  let ?xs = "map (\<lambda>r. (n_id r, n_status r)) (filter waits (w_notifications w))"
  let ?v = "w\<lparr>w_notifications := sql_update waits ?f (w_notifications w)\<rparr>"
  have p: "(\<lambda>r. n_application_id r = a \<and> n_status r \<in> {QUEUED, RETRYING}
      \<and> (connection = None \<or> Some (n_session_id r) = connection) \<and> \<not> c_locked_elsewhere c w (n_id r)) = waits"
    by (auto simp: waits_def fun_eq_iff)
  have "update_notifications waits ?f w = Inr (map ?f (filter waits (w_notifications w)), ?v)"
    by (rule update_cannot_fail [OF assms(2)])
      (use assms(2) in \<open>auto simp: waits_def enforce_status_transition_def sound_def check_notification_def\<close>)
  then have cancelled: "repository_cancel_waiting c a connection (w_clock w) w = Inr (?xs, ?v)"
    by (simp only: repository_cancel_waiting_def Let_def p tx_bind_def tx_return_def sum.case prod.case)
  obtain es j where es: "tx_for_each (cancelled_event c corr a) ?xs ?v = Inr (es, ?v\<lparr>w_next_identifier := j\<rparr>)"
    and about: "\<forall>e \<in> set es. e_application_id e = a \<and> e_notification_id e \<in> fst ` set ?xs"
    using cancelled_events_effect [of c corr a ?xs ?v] by blast
  have "notification_exists (e_application_id e) (e_notification_id e) (?v\<lparr>w_next_identifier := j\<rparr>)"
    if e: "e \<in> set es" for e
  proof -
    obtain r where r: "r \<in> set (w_notifications w)" "waits r" "n_id r = e_notification_id e"
      using about e by auto
    with sql_update_image [OF r(1), of waits ?f] about e show ?thesis
      by (auto simp: notification_exists_def list_ex_iff is_notification_def waits_def
          intro!: bexI [of _ "?f r"])
  qed
  then obtain evs where "append_events es (?v\<lparr>w_next_identifier := j\<rparr>)
      = Inr ((), ?v\<lparr>w_next_identifier := j, w_events := evs\<rparr>)"
    using append_events_effect [of es "?v\<lparr>w_next_identifier := j\<rparr>"] by auto
  then have "cancel_waiting_transaction c corr a connection (w_clock w) w
      = Inr (int (length ?xs), ?v\<lparr>w_next_identifier := j, w_events := evs\<rparr>)"
    using cancelled es by (simp add: cancel_waiting_transaction_def tx_bind_def tx_return_def)
  moreover have "case connection of None \<Rightarrow> True | Some s \<Rightarrow> find_session a s w \<noteq> None"
    using known by (simp split: option.splits)
  ultimately show ?thesis
    by (simp add: cancel_waiting_def step_simps sql_update_def)
qed


section \<open>Examples\<close>

definition example_request :: notification_request where
  "example_request =
     \<lparr>rq_application_id = ''app'', rq_body = ''Hello'', rq_session_id = None, rq_scheduled_at = None,
      rq_maximum_attempts = None, rq_metadata = [], rq_idempotency_key = Some ''order-1'',
      rq_request_path = ''/v1/notifications''\<rparr>"

definition example_runtime :: request_runtime where
  "example_runtime =
     \<lparr>rr_digest = (\<lambda>j. ''digest''), rr_collates_before = (\<lambda>a b. True), rr_correlation_id = Some ''corr''\<rparr>"

lemma example_creation:
  "case run (create example_config example_runtime example_request ''+5511999998888'') example_env example_world of
     (Returned (n, replayed), w') \<Rightarrow> \<not> replayed
       \<and> (case resolve_session ''app'' None w' of Inr _ \<Rightarrow> True | Inl _ \<Rightarrow> False)
   | _ \<Rightarrow> False"
  by code_simp

theorem creation_is_all_or_nothing_witness:
  "\<exists>n w' recipient corr. run (create example_config example_runtime example_request ''+5511999998888'')
      example_env example_world = (Returned (n, False), w')
    \<and> created_as_asked example_config example_request recipient corr n example_world w'
    \<and> length (w_jobs w') = 1"
proof -
  obtain n w' where run: "run (create example_config example_runtime example_request ''+5511999998888'')
      example_env example_world = (Returned (n, False), w')"
    using example_creation by (auto split: prod.splits outcome.splits)
  with creation_is_all_or_nothing [where c = example_config and rt = example_runtime and input = example_request
      and to = "''+5511999998888''" and env = example_env and w = example_world]
  obtain recipient corr where "created_as_asked example_config example_request recipient corr n example_world w'"
    by auto
  moreover from this have "length (w_jobs w') = 1"
    by (auto simp: created_as_asked_def recorded_def filed_under_key_def example_queue_keeps_the_rule example_world_def)
  ultimately show ?thesis using run by blast
qed

theorem repeating_a_request_is_harmless_witness:
  "\<exists>n w'. run (create example_config example_runtime example_request ''+5511999998888'')
      example_env example_world = (Returned (n, False), w')
    \<and> fst (run (create example_config example_runtime example_request ''+5511999998888'') example_env w')
      = Returned (n, True)"
proof -
  obtain n w' where first: "run (create example_config example_runtime example_request ''+5511999998888'')
      example_env example_world = (Returned (n, False), w')"
    and session: "case resolve_session ''app'' None w' of Inr _ \<Rightarrow> True | Inl _ \<Rightarrow> False"
    using example_creation by (auto split: prod.splits outcome.splits)
  obtain recipient corr where parsed: "parse_phone_number ''+5511999998888'' = Inr recipient"
    and made: "created_as_asked example_config example_request recipient corr n example_world w'"
    using creation_effect [where c = example_config and rt = example_runtime and input = example_request
        and to = "''+5511999998888''" and env = example_env and w = example_world] first by auto
  have "find_by_id (n_application_id n) (n_id n) w' = Some n"
    using made by (intro find_appended [of w' "w_notifications example_world"])
      (simp_all add: created_as_asked_def recorded_def)
  then have found: "find_by_id (rq_application_id example_request) (n_id n) w' = Some n"
    using made by (simp add: created_as_asked_def as_asked_def)
  obtain s where "resolve_session (rq_application_id example_request) (rq_session_id example_request) w' = Inr (s, w')"
    using session by (auto simp: example_request_def dest: resolve_session_reads split: sum.splits)
  moreover have "assert_schedule_is_in_the_future example_request (w_clock w') = Inr ()"
    by (simp add: assert_schedule_is_in_the_future_def example_request_def)
  ultimately show ?thesis
    using repeating_a_request_is_harmless [OF first _ refl refl,
        of "''order-1''" example_runtime "''+5511999998888''" example_env] first found parsed
    by (auto simp: example_request_def)
qed

theorem cancelled_notifications_cannot_be_claimed_witness:
  "\<exists>n' w'. run (cancel example_config None ''app'' ''n1'') example_env example_world = (Returned n', w')
     \<and> n_status n' = CANCELLED \<and> (\<forall>token now. claim_for_dispatch ''app'' ''n1'' token now w' = Inr (None, w'))"
  using cancelled_notifications_cannot_be_claimed [OF example_sound, where a = "''app''" and i = "''n1''"
      and n = example_notification and c = example_config and corr = None and env = example_env]
  by (auto simp: find_by_id_def sql_first_def is_notification_def is_cancellable_iff)

lemma example_connection: "Some ''s1'' = Some s \<Longrightarrow> find_session ''app'' s example_world \<noteq> None"
  by (auto simp: find_session_def sql_first_def example_session_def)

lemma example_waits:
  "n_session_id example_notification = ''s1''" "\<not> c_locked_elsewhere example_config w i"
  by (simp_all add: example_notification_def example_config_def)

theorem cancel_waiting_cancels_what_waits_witness:
  "\<exists>w'. run (cancel_waiting example_config None ''app'' (Some ''s1'')) example_env example_world
     = (Returned 1, w') \<and> map n_status (w_notifications w') = [CANCELLED]"
proof -
  obtain w' where "run (cancel_waiting example_config None ''app'' (Some ''s1'')) example_env example_world
      = (Returned 1, w')" and "w_notifications w' = [example_notification\<lparr>n_status := CANCELLED,
        n_cancelled_at := Some (w_clock example_world), n_updated_at := of_date (w_clock example_world),
        n_next_attempt_at := None\<rparr>]"
    using cancel_waiting_cancels_what_waits [where a = "''app''" and connection = "Some ''s1''",
        OF example_sound example_connection, where c = example_config and corr = None and env = example_env]
    by (auto simp: example_waits)
  then show ?thesis by simp
qed

end
