(* ===== verification/Waha_Provider.thy ===== *)
theory Waha_Provider
  imports Webhook
begin

text \<open>
  The adapter of the provider: \<open>packages/provider-whatsapp/src/classify-failure.ts\<close>, which decides what
  a failed HTTP call means, and \<open>packages/provider-whatsapp/src/waha-provider.ts\<close>, which turns every
  operation of the port into calls of WAHA. The network and \<open>JSON.parse\<close> are parameters: the answer to
  a call may depend on every call before it.
\<close>

section \<open>Numbers in headers\<close>

text \<open>
  \<open>Number(text)\<close>, kept exact; \<^term>\<open>None\<close> where JavaScript answers \<open>NaN\<close> or rounds to an infinity.
\<close>

definition digits_value :: "nat \<Rightarrow> string \<Rightarrow> nat" where
  "digits_value radix ds =
     foldl (\<lambda>n c. n * radix + (if is_digit c then char_code c - 48 else char_code (to_lower c) - 87)) 0 ds"

definition scaled :: "nat \<Rightarrow> int \<Rightarrow> rat" where
  "scaled n e = (if 0 \<le> e then of_nat n * 10 ^ nat e else of_nat n / 10 ^ nat (- e))"

definition signed_digits :: "string \<Rightarrow> int option" where
  "signed_digits s =
     (let (negative, ds) = (case s of [] \<Rightarrow> (False, [])
            | c # cs \<Rightarrow> if c = CHR ''-'' then (True, cs) else if c = CHR ''+'' then (False, cs)
                        else (False, c # cs))
      in if ds = [] \<or> \<not> list_all is_digit ds then None
         else Some (if negative then - int (digits_value 10 ds) else int (digits_value 10 ds)))"

definition read_exponent :: "string \<Rightarrow> int option" where
  "read_exponent s =
     (case s of
        [] \<Rightarrow> Some 0
      | c # cs \<Rightarrow> if c = CHR ''e'' \<or> c = CHR ''E'' then signed_digits cs else None)"

definition unsigned_decimal :: "string \<Rightarrow> rat option" where
  "unsigned_decimal s =
     (let whole = takeWhile is_digit s;
          rest = dropWhile is_digit s;
          has_point = (rest \<noteq> [] \<and> hd rest = CHR ''.'');
          fraction = (if has_point then takeWhile is_digit (tl rest) else []);
          tail = (if has_point then dropWhile is_digit (tl rest) else rest)
      in if whole = [] \<and> fraction = [] then None
         else map_option (\<lambda>e. scaled (digits_value 10 (whole @ fraction)) (e - int (length fraction)))
                (read_exponent tail))"

definition radix_literal :: "nat \<Rightarrow> string \<Rightarrow> rat option" where
  "radix_literal radix ds =
     (let ok = (\<lambda>c. is_digit c \<and> char_code c - 48 < radix
                    \<or> 97 \<le> char_code (to_lower c) \<and> char_code (to_lower c) - 87 < radix)
      in if ds = [] \<or> \<not> list_all ok ds then None else Some (of_nat (digits_value radix ds)))"

fun numeric_literal :: "string \<Rightarrow> rat option" where
  "numeric_literal [] = Some 0"
| "numeric_literal (c # cs) =
     (if c = CHR ''-'' then map_option uminus (unsigned_decimal cs)
      else if c = CHR ''+'' then unsigned_decimal cs
      else if c = CHR ''0'' \<and> cs \<noteq> [] \<and> to_lower (hd cs) = CHR ''x'' then radix_literal 16 (tl cs)
      else if c = CHR ''0'' \<and> cs \<noteq> [] \<and> to_lower (hd cs) = CHR ''o'' then radix_literal 8 (tl cs)
      else if c = CHR ''0'' \<and> cs \<noteq> [] \<and> to_lower (hd cs) = CHR ''b'' then radix_literal 2 (tl cs)
      else unsigned_decimal (c # cs))"

text \<open>Magnitudes from \<open>2 ^ 1024 - 2 ^ 970\<close> on round to an infinity.\<close>

definition finite_number :: "string \<Rightarrow> rat option" where
  "finite_number text =
     (case numeric_literal (js_trim text) of
        None \<Rightarrow> None
      | Some x \<Rightarrow> if abs x < 2 ^ 1024 - 2 ^ 970 then Some x else None)"

definition read_retry_after_seconds :: "string option \<Rightarrow> rat option" where
  "read_retry_after_seconds header =
     (case header of
        None \<Rightarrow> None
      | Some value \<Rightarrow>
          let raw = js_trim value
          in if raw = [] then None
             else (case finite_number raw of
                     None \<Rightarrow> None
                   | Some seconds \<Rightarrow> if seconds < 0 then None else Some seconds))"

section \<open>Patterns\<close>

definition lower_case :: "string \<Rightarrow> string" where
  "lower_case s = map to_lower s"

definition is_word_char :: "char \<Rightarrow> bool" where
  "is_word_char c = (is_alphanumeric c \<or> c = CHR ''_'')"

text \<open>\<open>\b<word>\b\<close>, after a word character or not\<close>

fun has_bounded_word :: "bool \<Rightarrow> string \<Rightarrow> string \<Rightarrow> bool" where
  "has_bounded_word after_word w [] = False"
| "has_bounded_word after_word w (c # cs) =
     ((\<not> after_word \<and> starts_with (c # cs) w
       \<and> (case drop (length w) (c # cs) of [] \<Rightarrow> True | d # ds \<Rightarrow> \<not> is_word_char d))
      \<or> has_bounded_word (is_word_char c) w cs)"

text \<open>The dot of a pattern stops at the end of a line.\<close>

definition text_lines :: "string \<Rightarrow> string list" where
  "text_lines s = split_on (char_of (10 :: nat))
     (map (\<lambda>c. if char_code c = 13 then char_of (10 :: nat) else c) s)"

definition session_state_words :: "string list" where
  "session_state_words =
     [''not connected'', ''not ready'', ''not working'', ''starting'', ''stopped'', ''scan'']"

definition mentions_session_state :: "string \<Rightarrow> bool" where
  "mentions_session_state message =
     list_ex (\<lambda>line. case index_of line ''session'' of
         None \<Rightarrow> False
       | Some i \<Rightarrow> list_ex (includes_text (drop (i + length ''session'') line)) session_state_words)
       (text_lines (lower_case message))"

definition mentions_reachout_timelock :: "string \<Rightarrow> bool" where
  "mentions_reachout_timelock message =
     (has_bounded_word False ''463'' message
      \<or> list_ex (includes_text (lower_case message)) [''reachout'', ''reach-out'', ''timelock'', ''time-lock''])"

definition mentions_message_capping :: "string \<Rightarrow> bool" where
  "mentions_message_capping message =
     (has_bounded_word False ''475'' message
      \<or> list_ex (includes_text (lower_case message)) [''capping'', ''capped''])"

section \<open>Classifying failures\<close>

definition code_by_status :: "(int \<times> provider_failure_code) list" where
  "code_by_status =
     [(401, ProviderUnauthorized), (403, ProviderUnauthorized), (404, SessionMissing),
      (422, ProviderInvalidRequest), (429, ProviderRateLimited), (500, ProviderServerError),
      (502, ProviderServerError), (503, ProviderServerError), (504, ProviderServerError)]"

definition read_code :: "int \<Rightarrow> string \<Rightarrow> provider_failure_code" where
  "read_code status message =
     (if mentions_reachout_timelock message then ConnectionRestricted
      else if mentions_message_capping message then NewChatQuotaExceeded
      else if status = 422 \<and> mentions_session_state message then SessionNotReady
      else (case map_of code_by_status status of Some code \<Rightarrow> code | None \<Rightarrow> ProviderUnknownError))"

definition refusal_reasons :: "(provider_failure_code \<times> string) list" where
  "refusal_reasons =
     [(ConnectionRestricted, ''WhatsApp refused the message because this number is temporarily restricted from starting conversations with new contacts. Sending from it is paused until the restriction lifts.''),
      (NewChatQuotaExceeded, ''WhatsApp refused the message because this number has used up its monthly allowance of messages to people who have not replied to it.'')]"

definition classify_http_status :: "int \<Rightarrow> string \<Rightarrow> string option \<Rightarrow> provider_failure" where
  "classify_http_status status message retry_after_header =
     (let code = read_code status message
      in create_provider_failure code
           (case map_of refusal_reasons code of Some reason \<Rightarrow> reason | None \<Rightarrow> message)
           (read_retry_after_seconds retry_after_header) (Some status))"

text \<open>What is thrown: its name and message when it is an \<open>Error\<close>, its system code and its cause's.\<close>

record js_error =
  je_error :: "(string \<times> string) option"
  je_code :: "string option"
  je_cause_code :: "string option"

definition pre_connection_error_codes :: "string list" where
  "pre_connection_error_codes =
     [''ECONNREFUSED'', ''ENOTFOUND'', ''EAI_AGAIN'', ''EHOSTUNREACH'', ''ENETUNREACH'']"

definition abort_error_names :: "string list" where
  "abort_error_names = [''AbortError'', ''TimeoutError'']"

definition read_system_error_code :: "js_error \<Rightarrow> string option" where
  "read_system_error_code error =
     (case je_code error of Some code \<Rightarrow> Some code | None \<Rightarrow> je_cause_code error)"

definition classify_transport_error :: "js_error \<Rightarrow> bool \<Rightarrow> provider_failure" where
  "classify_transport_error error was_aborted =
     (let name = (case je_error error of Some (n, m) \<Rightarrow> n | None \<Rightarrow> []);
          message = (case je_error error of Some (n, m) \<Rightarrow> m | None \<Rightarrow> ''The provider request failed.'')
      in create_provider_failure
           (if was_aborted then ProviderAborted
            else if name \<in> set abort_error_names then ProviderTimeout
            else (case read_system_error_code error of
                    Some code \<Rightarrow> if code \<in> set pre_connection_error_codes then ProviderUnreachable
                                 else ProviderConnectionLost
                  | None \<Rightarrow> ProviderConnectionLost))
           message None None)"

section \<open>The provider's own account of a failure\<close>

definition is_address_char :: "char \<Rightarrow> bool" where
  "is_address_char c = (is_word_char c \<or> c = CHR ''.'' \<or> c = CHR ''-'')"

definition address_hosts :: "string list" where
  "address_hosts = [''c.us'', ''s.whatsapp.net'', ''lid'', ''g.us'', ''newsletter'', ''broadcast'']"

definition after_host :: "string \<Rightarrow> string option" where
  "after_host rest =
     (case rest of
        [] \<Rightarrow> None
      | c # cs \<Rightarrow>
          if c \<noteq> CHR ''@'' then None
          else map_option (\<lambda>host. drop (length host) cs) (find (starts_with cs) address_hosts))"

text \<open>
  \<open>replaceAll(CHAT_ADDRESS_PATTERN, 'a chat')\<close>: the longest run of characters of an address that
  holds a digit and is followed by a host.
\<close>

function mask_chat_addresses :: "string \<Rightarrow> string" where
  "mask_chat_addresses [] = []"
| "mask_chat_addresses (c # cs) =
     (if \<not> is_address_char c then c # mask_chat_addresses cs
      else
        let run = takeWhile is_address_char (c # cs); rest = dropWhile is_address_char (c # cs)
        in case (if list_ex is_digit run then after_host rest else None) of
             Some beyond \<Rightarrow> ''a chat'' @ mask_chat_addresses beyond
           | None \<Rightarrow> run @ mask_chat_addresses rest)"
  by pat_completeness auto

lemma after_host_shorter: "after_host rest = Some beyond \<Longrightarrow> length beyond < length rest"
  by (auto simp: after_host_def split: list.splits if_splits)

termination mask_chat_addresses
proof (relation "measure length")
  fix c cs run rest beyond
  assume "\<not> \<not> is_address_char c" and "run = takeWhile is_address_char (c # cs)"
    and rest: "rest = dropWhile is_address_char (c # cs)"
    and beyond: "(if list_ex is_digit run then after_host rest else None) = Some beyond"
  then have "length rest \<le> length cs" by (simp add: length_dropWhile_le)
  moreover have "length beyond < length rest"
    using beyond by (auto dest: after_host_shorter split: if_splits)
  ultimately show "(beyond, c # cs) \<in> measure length" by simp
qed (auto simp: length_dropWhile_le le_imp_less_Suc)

function collapse_spaces :: "string \<Rightarrow> string" where
  "collapse_spaces [] = []"
| "collapse_spaces (c # cs) =
     (if is_space c then CHR '' '' # collapse_spaces (dropWhile is_space cs)
      else c # collapse_spaces cs)"
  by pat_completeness auto

termination collapse_spaces
  by (relation "measure length") (auto simp: length_dropWhile_le le_imp_less_Suc)

definition maximum_error_message_length :: nat where
  "maximum_error_message_length = 200"

definition error_text :: "json option \<Rightarrow> string parsed" where
  "error_text value =
     (case value of
        None \<Rightarrow> Absent
      | Some (JStr s) \<Rightarrow> if s = [] then Malformed else Present s
      | Some (JArr items) \<Rightarrow>
          if list_all (\<lambda>j. case j of JStr _ \<Rightarrow> True | _ \<Rightarrow> False) items
          then Present (join ''; '' (map (\<lambda>j. case j of JStr s \<Rightarrow> s | _ \<Rightarrow> []) items))
          else Malformed
      | Some _ \<Rightarrow> Malformed)"

definition exception_text :: "json option \<Rightarrow> string parsed" where
  "exception_text value =
     (case value of
        None \<Rightarrow> Absent
      | Some (JObj members) \<Rightarrow>
          (case error_text (json_field ''message'' members) of Present m \<Rightarrow> Present m | _ \<Rightarrow> Malformed)
      | Some _ \<Rightarrow> Malformed)"

definition error_body_message :: "json \<Rightarrow> string option" where
  "error_body_message body =
     (case body of
        JObj members \<Rightarrow>
          (case (exception_text (json_field ''exception'' members), error_text (json_field ''message'' members)) of
             (Malformed, _) \<Rightarrow> None
           | (_, Malformed) \<Rightarrow> None
           | (Present m, _) \<Rightarrow> Some m
           | (Absent, m) \<Rightarrow> parsed_option m)
      | _ \<Rightarrow> None)"

definition read_message :: "(string \<Rightarrow> js_error + json) \<Rightarrow> string \<Rightarrow> string option" where
  "read_message parse_json text =
     (case parse_json text of Inl e \<Rightarrow> Some text | Inr body \<Rightarrow> error_body_message body)"

definition to_safe_error_message :: "(string \<Rightarrow> js_error + json) \<Rightarrow> string \<Rightarrow> string option" where
  "to_safe_error_message parse_json text =
     (case read_message parse_json text of
        None \<Rightarrow> None
      | Some message \<Rightarrow>
          let safe_text = js_trim (collapse_spaces (mask_chat_addresses message))
          in if safe_text = [] then None else Some (take maximum_error_message_length safe_text))"

section \<open>Calls\<close>

datatype http_method = HttpGet | HttpPost | HttpDelete

record http_request =
  hr_method :: http_method
  hr_path :: string
  hr_headers :: "(string \<times> string) list"
  hr_body :: "json option"

record http_response =
  hp_status :: int
  hp_status_text :: string
  hp_text :: "js_error + string"
  hp_retry_after :: "string option"

text \<open>What a call comes to, and whether the caller's signal is aborted when a failure is caught.\<close>

record http_exchange =
  hx_outcome :: "js_error + http_response"
  hx_aborted :: bool

record waha_options =
  wo_api_key :: string
  wo_exchange :: "http_request list \<Rightarrow> http_exchange"    \<comment> \<open>the calls so far, the last being the one answered\<close>
  wo_parse_json :: "string \<Rightarrow> js_error + json"

type_synonym 'a call = "http_request list \<Rightarrow> 'a \<times> http_request list"

record request_options =
  ro_method :: http_method
  ro_path :: string
  ro_body :: "json option"
  ro_abortable :: bool
  ro_accept_json :: bool

definition request_headers :: "waha_options \<Rightarrow> request_options \<Rightarrow> (string \<times> string) list" where
  "request_headers wo r =
     [(''x-api-key'', wo_api_key wo)]
     @ (if ro_body r \<noteq> None then [(''content-type'', ''application/json'')] else [])
     @ (if ro_accept_json r then [(''accept'', ''application/json'')] else [])"

definition is_ok :: "http_response \<Rightarrow> bool" where
  "is_ok response = (200 \<le> hp_status response \<and> hp_status response \<le> 299)"

definition read_error_message :: "waha_options \<Rightarrow> http_response \<Rightarrow> string" where
  "read_error_message wo response =
     (case hp_text response of
        Inl e \<Rightarrow> hp_status_text response
      | Inr body \<Rightarrow>
          if body = [] then hp_status_text response
          else (case to_safe_error_message (wo_parse_json wo) body of
                  None \<Rightarrow> hp_status_text response
                | Some message \<Rightarrow> message))"

definition interpret_response :: "waha_options \<Rightarrow> http_response \<Rightarrow> js_error + json option provider_result" where
  "interpret_response wo response =
     (if \<not> is_ok response
      then Inr (Failed (classify_http_status (hp_status response) (read_error_message wo response)
                          (hp_retry_after response)))
      else case hp_text response of
             Inl e \<Rightarrow> Inl e
           | Inr body \<Rightarrow>
               if body = [] then Inr (Succeeded None)
               else (case wo_parse_json wo body of
                       Inl e \<Rightarrow> Inl e
                     | Inr value \<Rightarrow> Inr (Succeeded (Some value))))"

definition waha_request :: "waha_options \<Rightarrow> request_options \<Rightarrow> json option provider_result call" where
  "waha_request wo r calls =
     (let calls' = calls @ [\<lparr>hr_method = ro_method r, hr_path = ro_path r,
                         hr_headers = request_headers wo r, hr_body = ro_body r\<rparr>];
          exchange = wo_exchange wo calls';
          was_aborted = (ro_abortable r \<and> hx_aborted exchange)
      in (case hx_outcome exchange of
            Inl e \<Rightarrow> Failed (classify_transport_error e was_aborted)
          | Inr response \<Rightarrow>
              (case interpret_response wo response of
                 Inl e \<Rightarrow> Failed (classify_transport_error e was_aborted)
               | Inr result \<Rightarrow> result), calls'))"

definition call_with :: "http_method \<Rightarrow> string \<Rightarrow> json option \<Rightarrow> request_options" where
  "call_with verb path body =
     \<lparr>ro_method = verb, ro_path = path, ro_body = body, ro_abortable = False, ro_accept_json = False\<rparr>"

section \<open>Paths\<close>

text \<open>\<open>encodeURIComponent\<close> of the characters below 256, in UTF-8\<close>

definition hex_upper :: "nat \<Rightarrow> char" where
  "hex_upper d = (if d < 10 then char_of (48 + d) else char_of (55 + d))"

definition percent :: "nat \<Rightarrow> string" where
  "percent b = [CHR ''%'', hex_upper (b div 16), hex_upper (b mod 16)]"

definition encode_char :: "char \<Rightarrow> string" where
  "encode_char c =
     (let n = char_code c
      in if is_alphanumeric c \<or> c \<in> set ''-_.!~*()'' \<or> n = 39 then [c]
         else if n < 128 then percent n
         else percent (192 + n div 64) @ percent (128 + n mod 64))"

definition encode_uri_component :: "string \<Rightarrow> string" where
  "encode_uri_component s = concat (map encode_char s)"

definition session_path :: "string \<Rightarrow> string" where
  "session_path session_name = ''/api/sessions/'' @ encode_uri_component session_name"

section \<open>Reading responses\<close>

definition waha_phone_number :: "string option \<Rightarrow> string option" where
  "waha_phone_number provider_identifier =
     (case provider_identifier of
        None \<Rightarrow> None
      | Some i \<Rightarrow>
          let digits = hd (split_on CHR ''@'' i)
          in if digits = [] then None else Some (CHR ''+'' # digits))"

definition unrecognised :: "provider_failure_code \<Rightarrow> string \<Rightarrow> 'v provider_result" where
  "unrecognised code message = Failed (create_provider_failure code message None None)"

text \<open>\<open>me\<close>: nothing, or an object whose members have the right types.\<close>

definition read_me :: "json option \<Rightarrow> (string option \<times> string option \<times> json) parsed" where
  "read_me value =
     (case value of
        None \<Rightarrow> Absent
      | Some JNull \<Rightarrow> Absent
      | Some (JObj members) \<Rightarrow>
          (case (json_field ''id'' members, nullish_string (json_field ''pushName'' members)) of
             (_, Malformed) \<Rightarrow> Malformed
           | (None, push_name) \<Rightarrow> Present (None, parsed_option push_name, JObj members)
           | (Some (JStr i), push_name) \<Rightarrow> Present (Some i, parsed_option push_name, JObj members)
           | _ \<Rightarrow> Malformed)
      | Some _ \<Rightarrow> Malformed)"

definition parse_session :: "json option \<Rightarrow> provider_session provider_result" where
  "parse_session value =
     (let failure = unrecognised ProviderUnknownError ''The session response was unrecognised.''
      in case value of
           Some (JObj members) \<Rightarrow>
             (case (json_field ''name'' members, json_field ''status'' members,
                    read_me (json_field ''me'' members)) of
                (Some (JStr name), Some (JStr status), Absent) \<Rightarrow>
                  Succeeded \<lparr>ps_name = name, ps_status = to_provider_session_status status,
                    ps_phone_number = None, ps_push_name = None, ps_account_limits = None\<rparr>
              | (Some (JStr name), Some (JStr status), Present (i, push_name, me)) \<Rightarrow>
                  Succeeded \<lparr>ps_name = name, ps_status = to_provider_session_status status,
                    ps_phone_number = waha_phone_number i, ps_push_name = push_name,
                    ps_account_limits = Some (read_account_limits (Some me))\<rparr>
              | _ \<Rightarrow> failure)
         | _ \<Rightarrow> failure)"

definition nonempty_string :: "json option \<Rightarrow> string option" where
  "nonempty_string value =
     (case value of Some (JStr s) \<Rightarrow> if s = [] then None else Some s | _ \<Rightarrow> None)"

definition member_of :: "string \<Rightarrow> json option \<Rightarrow> json option" where
  "member_of name value = (case value of Some (JObj members) \<Rightarrow> json_field name members | _ \<Rightarrow> None)"

definition sent_message_identifier :: "json option \<Rightarrow> string option" where
  "sent_message_identifier value =
     (case nonempty_string (member_of ''id'' (member_of ''key'' value)) of
        Some i \<Rightarrow> Some i
      | None \<Rightarrow>
          (case nonempty_string (member_of ''id'' value) of
             Some i \<Rightarrow> Some i
           | None \<Rightarrow> nonempty_string (member_of ''_serialized'' (member_of ''id'' value))))"

section \<open>The operations of the port\<close>

definition request_session :: "waha_options \<Rightarrow> request_options \<Rightarrow> provider_session provider_result call" where
  "request_session wo r calls =
     (case waha_request wo r calls of
        (Failed failure, calls') \<Rightarrow> (Failed failure, calls')
      | (Succeeded value, calls') \<Rightarrow> (parse_session value, calls'))"

definition default_webhook_events :: "string list" where
  "default_webhook_events = [''session.status'', ''message.ack'', ''state.change'']"

definition waha_create_session :: "waha_options \<Rightarrow> create_session_input \<Rightarrow> provider_session provider_result call" where
  "waha_create_session wo input =
     request_session wo (call_with HttpPost ''/api/sessions''
       (Some (JObj [(''name'', JStr (ci_session_name input)), (''start'', JBool (ci_start input)),
          (''config'', JObj [(''webhooks'', JArr [JObj
             [(''url'', JStr (ci_webhook_url input)),
              (''events'', JArr (map JStr default_webhook_events)),
              (''hmac'', JObj [(''key'', JStr (ci_webhook_signing_key input))]),
              (''retries'', JObj [(''policy'', JStr ''exponential''), (''attempts'', JNum 5),
                 (''delaySeconds'', JNum 2)])]])])])))"

definition waha_get_session :: "waha_options \<Rightarrow> string \<Rightarrow> provider_session option provider_result call" where
  "waha_get_session wo session_name calls =
     (case waha_request wo (call_with HttpGet (session_path session_name) None) calls of
        (Failed failure, calls') \<Rightarrow>
          (if f_provider_status_code failure = Some 404 then Succeeded None else Failed failure, calls')
      | (Succeeded value, calls') \<Rightarrow>
          (case parse_session value of Succeeded s \<Rightarrow> Succeeded (Some s) | Failed f \<Rightarrow> Failed f, calls'))"

definition waha_stop_session :: "waha_options \<Rightarrow> string \<Rightarrow> provider_session provider_result call" where
  "waha_stop_session wo session_name =
     request_session wo (call_with HttpPost (session_path session_name @ ''/stop'') None)"

definition waha_start_session :: "waha_options \<Rightarrow> string \<Rightarrow> provider_session provider_result call" where
  "waha_start_session wo session_name calls =
     (let start = request_session wo (call_with HttpPost (session_path session_name @ ''/start'') None)
      in case start calls of
           (Failed failure, calls') \<Rightarrow> (Failed failure, calls')
         | (Succeeded live, calls') \<Rightarrow>
             if ps_status live \<noteq> SESSION_FAILED then (Succeeded live, calls')
             else (case request_session wo
                          (call_with HttpPost (session_path session_name @ ''/stop'') None) calls' of
                     (Failed failure, calls'') \<Rightarrow> (Failed failure, calls'')
                   | (Succeeded stopped, calls'') \<Rightarrow> start calls''))"

definition waha_logout_session :: "waha_options \<Rightarrow> string \<Rightarrow> provider_session provider_result call" where
  "waha_logout_session wo session_name =
     request_session wo (call_with HttpPost (session_path session_name @ ''/logout'') None)"

definition waha_delete_session :: "waha_options \<Rightarrow> string \<Rightarrow> unit provider_result call" where
  "waha_delete_session wo session_name calls =
     (case waha_request wo (call_with HttpDelete (session_path session_name) None) calls of
        (Failed failure, calls') \<Rightarrow> (Failed failure, calls')
      | (Succeeded value, calls') \<Rightarrow> (Succeeded (), calls'))"

definition waha_get_qr_code :: "waha_options \<Rightarrow> string \<Rightarrow> provider_qr_code provider_result call" where
  "waha_get_qr_code wo session_name calls =
     (case waha_request wo ((call_with HttpGet
              (''/api/'' @ encode_uri_component session_name @ ''/auth/qr'') None)
              \<lparr>ro_accept_json := True\<rparr>) calls of
        (Failed failure, calls') \<Rightarrow> (Failed failure, calls')
      | (Succeeded value, calls') \<Rightarrow>
          (case (member_of ''mimetype'' value, member_of ''data'' value) of
             (Some (JStr mime), Some (JStr d)) \<Rightarrow> Succeeded \<lparr>qr_mime_type = mime, qr_data = d\<rparr>
           | _ \<Rightarrow> unrecognised ProviderUnknownError ''The QR code response was unrecognised.'', calls'))"

definition waha_resolve_recipient ::
  "waha_options \<Rightarrow> string \<Rightarrow> string \<Rightarrow> resolved_recipient provider_result call" where
  "waha_resolve_recipient wo session_name phone_number calls =
     (case waha_request wo (call_with HttpGet
              (''/api/contacts/check-exists?phone='' @ encode_uri_component (filter is_digit phone_number)
               @ ''&session='' @ encode_uri_component session_name) None) calls of
        (Failed failure, calls') \<Rightarrow>
          (Failed (if \<not> is_retryable failure then failure
                   else create_provider_failure RecipientCheckFailed (f_message failure) None
                          (f_provider_status_code failure)), calls')
      | (Succeeded value, calls') \<Rightarrow>
          (case (member_of ''numberExists'' value, nullish_string (member_of ''chatId'' value)) of
             (Some (JBool exists), chat) \<Rightarrow>
               if chat = Malformed
               then unrecognised RecipientCheckFailed ''The recipient lookup was unrecognised.''
               else Succeeded \<lparr>rr_is_registered = exists, rr_chat_identifier = parsed_option chat\<rparr>
           | _ \<Rightarrow> unrecognised RecipientCheckFailed ''The recipient lookup was unrecognised.'', calls'))"

definition waha_fetch_account_limits :: "waha_options \<Rightarrow> string \<Rightarrow> account_limits provider_result call" where
  "waha_fetch_account_limits wo session_name calls =
     (let (timelock, calls1) = waha_request wo (call_with HttpGet (session_path session_name @ ''/timelock'') None) calls;
          (capping, calls2) = waha_request wo (call_with HttpGet (session_path session_name @ ''/capping'') None) calls1
      in (case (timelock, capping) of
            (Failed failure, Failed _) \<Rightarrow> Failed failure
          | _ \<Rightarrow> Succeeded
              \<lparr>al_reachout_timelock = (case timelock of Succeeded v \<Rightarrow> read_reachout_timelock v | Failed _ \<Rightarrow> None),
               al_new_chat_quota = (case capping of Succeeded v \<Rightarrow> read_new_chat_quota v | Failed _ \<Rightarrow> None)\<rparr>,
          calls2))"

definition waha_show_typing :: "waha_options \<Rightarrow> string \<Rightarrow> string \<Rightarrow> bool \<Rightarrow> unit provider_result call" where
  "waha_show_typing wo session_name chat_identifier abortable calls =
     (let chat = Some (JObj [(''session'', JStr session_name), (''chatId'', JStr chat_identifier)]);
          (seen, calls1) = waha_request wo ((call_with HttpPost ''/api/sendSeen'' chat)\<lparr>ro_abortable := abortable\<rparr>) calls;
          (started, calls2) = waha_request wo ((call_with HttpPost ''/api/startTyping'' chat)\<lparr>ro_abortable := abortable\<rparr>) calls1
      in case started of
           Failed failure \<Rightarrow> (Failed failure, calls2)
         | Succeeded _ \<Rightarrow>
             (case waha_request wo (call_with HttpPost ''/api/stopTyping'' chat) calls2 of
                (Failed failure, calls3) \<Rightarrow> (Failed failure, calls3)
              | (Succeeded _, calls3) \<Rightarrow> (Succeeded (), calls3)))"

definition waha_send_text_message ::
  "waha_options \<Rightarrow> string \<Rightarrow> string \<Rightarrow> string \<Rightarrow> bool \<Rightarrow> sent_message provider_result call" where
  "waha_send_text_message wo session_name chat_identifier text_body abortable calls =
     (case waha_request wo ((call_with HttpPost ''/api/sendText''
              (Some (JObj [(''session'', JStr session_name), (''chatId'', JStr chat_identifier),
                 (''text'', JStr text_body), (''linkPreview'', JBool False)])))
              \<lparr>ro_abortable := abortable\<rparr>) calls of
        (Failed failure, calls') \<Rightarrow> (Failed failure, calls')
      | (Succeeded value, calls') \<Rightarrow>
          (case sent_message_identifier value of
             None \<Rightarrow> unrecognised ProviderResponseUnreadable
               ''The provider accepted the message and answered in a shape this version cannot read.''
           | Some i \<Rightarrow> Succeeded \<lparr>sm_provider_message_id = normalize_provider_message_id i\<rparr>, calls'))"

end
