(* ===== verification/Provider_Properties.thy ===== *)
theory Provider_Properties
  imports Waha_Provider Examples
begin

text \<open>
  What the rest of the platform relies on in the provider's adapter: a send is one call, the outcome of
  a failed one is marked as open unless the call was answered or never made, every failure carries the
  classification of its code, and no failure message names a chat.
\<close>

section \<open>Every failure is classified by its code\<close>

definition classified :: "'v provider_result \<Rightarrow> bool" where
  "classified result = (case result of Failed f \<Rightarrow> well_classified f | Succeeded _ \<Rightarrow> True)"

lemma classified_simps [simp]:
  "classified (Succeeded v)"
  "classified (Failed f) = well_classified f"
  "classified (unrecognised code message)"
  by (simp_all add: classified_def unrecognised_def)

lemma classify_well_classified [simp]:
  "well_classified (classify_http_status status message header)"
  "well_classified (classify_transport_error e aborted)"
  by (simp_all add: classify_http_status_def classify_transport_error_def Let_def)

lemma classified_request: "classified (fst (waha_request wo r calls))"
  by (auto simp: waha_request_def interpret_response_def Let_def split: sum.splits if_splits
      prod.splits) 

lemma classified_parse: "classified (parse_session v)"
  by (auto simp: parse_session_def Let_def split: option.splits json.splits parsed.splits prod.splits)

lemma failed_request: "waha_request wo r calls = (Failed f, calls') \<Longrightarrow> well_classified f"
  using classified_request [of wo r calls] by simp

lemma classified_session_call: "classified (fst (request_session wo r calls))"
  by (auto simp: request_session_def classified_parse dest: failed_request
      split: prod.splits provider_result.splits)

section \<open>Sending\<close>

text \<open>
  What happened to a call: no connection was made, so nothing was written; or it was answered, with
  success or not; or it broke off, and nobody knows.
\<close>

definition never_connected :: "bool \<Rightarrow> http_exchange \<Rightarrow> bool" where
  "never_connected abortable exchange =
     (case hx_outcome exchange of
        Inr response \<Rightarrow> False
      | Inl e \<Rightarrow>
          \<not> (abortable \<and> hx_aborted exchange)
          \<and> (case je_error e of
                Some (name, message) \<Rightarrow> name \<noteq> ''AbortError'' \<and> name \<noteq> ''TimeoutError''
              | None \<Rightarrow> True)
          \<and> (case read_system_error_code e of
                Some code \<Rightarrow> code \<in> {''ECONNREFUSED'', ''ENOTFOUND'', ''EAI_AGAIN'', ''EHOSTUNREACH'', ''ENETUNREACH''}
              | None \<Rightarrow> False))"

definition answered_without_success :: "http_exchange \<Rightarrow> bool" where
  "answered_without_success exchange =
     (case hx_outcome exchange of Inr response \<Rightarrow> \<not> (200 \<le> hp_status response \<and> hp_status response \<le> 299) | Inl e \<Rightarrow> False)"

lemma transport_error_outcome:
  assumes "hx_outcome exchange = Inl e"
  shows "has_unknown_outcome (classify_transport_error e (abortable \<and> hx_aborted exchange))
    \<longleftrightarrow> \<not> never_connected abortable exchange"
  using assms
  by (auto simp: classify_transport_error_def has_unknown_outcome_def unknown_outcome_codes_def Let_def
      never_connected_def pre_connection_error_codes_def abort_error_names_def split: option.splits if_splits)

lemma status_outcome_is_known: "\<not> has_unknown_outcome (classify_http_status status message header)"
proof -
  have "map_of code_by_status status = Some code \<Longrightarrow> code \<notin> set unknown_outcome_codes" for code
    by (auto simp: code_by_status_def unknown_outcome_codes_def split: if_splits)
  then show ?thesis
    by (auto simp: classify_http_status_def has_unknown_outcome_def Let_def read_code_def unknown_outcome_codes_def
        split: option.splits)
qed

lemma carried_status: "f_provider_status_code (classify_http_status status message header) = Some status"
  by (simp add: classify_http_status_def Let_def)

lemma ok_response_is_never_definite:
  assumes "is_ok response"
  shows "case interpret_response wo response of Inl e \<Rightarrow> True
    | Inr (Succeeded v) \<Rightarrow> True | Inr (Failed f) \<Rightarrow> False"
  using assms by (auto simp: interpret_response_def split: sum.splits)

text \<open>
  Documented behaviour of \<open>fetch\<close> and \<open>JSON.parse\<close>: an error while a body is read or parsed comes after
  the connection was made, so it is none of the errors of making one.
\<close>

definition bodies_come_after_connecting :: "waha_options \<Rightarrow> bool" where
  "bodies_come_after_connecting wo =
     (\<forall>calls response e.
        hx_outcome (wo_exchange wo calls) = Inr response
        \<and> (hp_text response = Inl e \<or> (\<exists>body. hp_text response = Inr body \<and> wo_parse_json wo body = Inl e))
        \<longrightarrow> (case read_system_error_code e of
              None \<Rightarrow> True | Some code \<Rightarrow> code \<notin> set pre_connection_error_codes))"

lemma unreadable_answer_is_unknown:
  assumes "case read_system_error_code e of None \<Rightarrow> True | Some code \<Rightarrow> code \<notin> set pre_connection_error_codes"
  shows "has_unknown_outcome (classify_transport_error e aborted)"
  using assms
  by (auto simp: classify_transport_error_def has_unknown_outcome_def unknown_outcome_codes_def Let_def
      split: option.splits)

text \<open>How a failure tells what happened to the call.\<close>

definition marked_by_outcome :: "bool \<Rightarrow> http_exchange \<Rightarrow> provider_failure \<Rightarrow> bool" where
  "marked_by_outcome abortable exchange f =
     (has_unknown_outcome f = (\<not> never_connected abortable exchange \<and> \<not> answered_without_success exchange)
      \<and> (answered_without_success exchange \<longrightarrow>
           (case hx_outcome exchange of
              Inr response \<Rightarrow> f_provider_status_code f = Some (hp_status response) | Inl e \<Rightarrow> False)))"

lemma request_outcome:
  assumes "bodies_come_after_connecting wo"
  shows "\<exists>call. snd (waha_request wo r calls) = calls @ [call] \<and> hr_path call = ro_path r \<and> hr_body call = ro_body r
    \<and> hr_method call = ro_method r
    \<and> (case fst (waha_request wo r calls) of
         Succeeded v \<Rightarrow> \<exists>response. hx_outcome (wo_exchange wo (calls @ [call])) = Inr response \<and> is_ok response
       | Failed f \<Rightarrow> marked_by_outcome (ro_abortable r) (wo_exchange wo (calls @ [call])) f)"
proof -
  let ?call = "\<lparr>hr_method = ro_method r, hr_path = ro_path r, hr_headers = request_headers wo r, hr_body = ro_body r\<rparr>"
  let ?exchange = "wo_exchange wo (calls @ [?call])"
  have "case fst (waha_request wo r calls) of
         Succeeded v \<Rightarrow> \<exists>response. hx_outcome ?exchange = Inr response \<and> is_ok response
       | Failed f \<Rightarrow> marked_by_outcome (ro_abortable r) ?exchange f"
  proof (cases "hx_outcome ?exchange")
    case (Inl e)
    then show ?thesis
      using transport_error_outcome [OF Inl, of "ro_abortable r"]
      by (simp add: waha_request_def Let_def marked_by_outcome_def answered_without_success_def)
  next
    case (Inr response)
    have late: "has_unknown_outcome (classify_transport_error e aborted)"
      if "interpret_response wo response = Inl e" for e aborted
    proof (rule unreadable_answer_is_unknown)
      have "hp_text response = Inl e \<or> (\<exists>body. hp_text response = Inr body \<and> wo_parse_json wo body = Inl e)"
        using that by (auto simp: interpret_response_def split: sum.splits if_splits)
      with assms Inr show "case read_system_error_code e of
          None \<Rightarrow> True | Some code \<Rightarrow> code \<notin> set pre_connection_error_codes"
        unfolding bodies_come_after_connecting_def by blast
    qed
    show ?thesis
    proof (cases "is_ok response")
      case True
      with Inr late ok_response_is_never_definite [OF True, of wo] show ?thesis
        by (auto simp: waha_request_def Let_def marked_by_outcome_def answered_without_success_def
            never_connected_def is_ok_def split: sum.splits provider_result.splits)
    next
      case False
      with Inr show ?thesis
        by (auto simp: waha_request_def Let_def interpret_response_def marked_by_outcome_def
            answered_without_success_def is_ok_def status_outcome_is_known carried_status)
    qed
  qed
  then show ?thesis
    by (intro exI [of _ ?call]) (simp add: waha_request_def Let_def)
qed

text \<open>
  C8: A send is one call, and a failed one tells what became of it. Sending makes exactly one call of
  WAHA, with the chat and the text as they were given; when it succeeds, the call was answered with
  success and the answer named the message. When it fails, the failure is classified by its code, and its
  outcome is marked as unknown exactly when the call may have broken off halfway: not when no connection
  was made, and not when it was answered without success, in which case the failure carries the status
  of the answer. What is marked as known includes the answers 502 and 504 a proxy gives for WAHA, although
  the message may have been sent then.
\<close>

theorem failed_sends_are_marked_by_what_came_back:
  assumes "bodies_come_after_connecting wo"
  shows "\<exists>call. snd (waha_send_text_message wo session_name chat text_body abortable calls) = calls @ [call]
    \<and> hr_path call = ''/api/sendText'' \<and> hr_method call = HttpPost
    \<and> member_of ''session'' (hr_body call) = Some (JStr session_name)
    \<and> member_of ''chatId'' (hr_body call) = Some (JStr chat)
    \<and> member_of ''text'' (hr_body call) = Some (JStr text_body)
    \<and> (case fst (waha_send_text_message wo session_name chat text_body abortable calls) of
         Succeeded m \<Rightarrow> \<exists>response. hx_outcome (wo_exchange wo (calls @ [call])) = Inr response
             \<and> 200 \<le> hp_status response \<and> hp_status response \<le> 299
       | Failed f \<Rightarrow> well_classified f \<and> marked_by_outcome abortable (wo_exchange wo (calls @ [call])) f)"
proof -
  let ?r = "(call_with HttpPost ''/api/sendText''
              (Some (JObj [(''session'', JStr session_name), (''chatId'', JStr chat),
                 (''text'', JStr text_body), (''linkPreview'', JBool False)])))\<lparr>ro_abortable := abortable\<rparr>"
  obtain call where call: "snd (waha_request wo ?r calls) = calls @ [call]" "hr_path call = ro_path ?r"
      "hr_body call = ro_body ?r" "hr_method call = ro_method ?r"
    and result: "case fst (waha_request wo ?r calls) of
         Succeeded v \<Rightarrow> \<exists>response. hx_outcome (wo_exchange wo (calls @ [call])) = Inr response \<and> is_ok response
       | Failed f \<Rightarrow> marked_by_outcome (ro_abortable ?r) (wo_exchange wo (calls @ [call])) f"
    using request_outcome [OF assms, of ?r calls] by blast
  have unreadable: "marked_by_outcome abortable (wo_exchange wo (calls @ [call]))
      (create_provider_failure ProviderResponseUnreadable m ra st)"
    if "hx_outcome (wo_exchange wo (calls @ [call])) = Inr response" "is_ok response" for m ra st response
    using that by (simp add: marked_by_outcome_def has_unknown_outcome_def unknown_outcome_codes_def
        never_connected_def answered_without_success_def is_ok_def)
  have body: "member_of ''session'' (hr_body call) = Some (JStr session_name)"
    "member_of ''chatId'' (hr_body call) = Some (JStr chat)"
    "member_of ''text'' (hr_body call) = Some (JStr text_body)" "hr_path call = ''/api/sendText''"
    "hr_method call = HttpPost"
    using call by (simp_all add: call_with_def member_of_def json_field_def)
  show ?thesis
  proof (cases "waha_request wo ?r calls")
    case (Pair outcome calls')
    show ?thesis
    proof (cases outcome)
      case (Failed f)
      with Pair call(1) body result failed_request [of wo ?r calls f calls'] show ?thesis
        by (intro exI [of _ call]) (simp add: waha_send_text_message_def call_with_def)
    next
      case (Succeeded v)
      with Pair result obtain response where "hx_outcome (wo_exchange wo (calls @ [call])) = Inr response" "is_ok response"
        by auto
      with Pair call(1) body Succeeded unreadable show ?thesis
        by (intro exI [of _ call])
          (simp add: waha_send_text_message_def call_with_def unrecognised_def is_ok_def split: option.splits)
    qed
  qed
qed

section \<open>Failure messages name no chat\<close>

definition is_chat_address :: "string \<Rightarrow> bool" where
  "is_chat_address p =
     (\<exists>d run host. p = d # run @ CHR ''@'' # host \<and> is_digit d \<and> list_all is_address_char run
        \<and> host \<in> set address_hosts)"

definition occurs_in :: "string \<Rightarrow> string \<Rightarrow> bool" where
  "occurs_in p s = (\<exists>before after. s = before @ p @ after)"

lemma occurs_in_trans: "occurs_in p s \<Longrightarrow> occurs_in s t \<Longrightarrow> occurs_in p t"
proof -
  assume "occurs_in p s" and "occurs_in s t"
  then obtain a b c d where "s = a @ p @ b" and "t = c @ s @ d" by (auto simp: occurs_in_def)
  then have "t = (c @ a) @ p @ (b @ d)" by simp
  then show ?thesis unfolding occurs_in_def by blast
qed

lemma occurs_in_take: "occurs_in (take n s) s"
  unfolding occurs_in_def by (rule exI [of _ "[]"], rule exI [of _ "drop n s"]) simp

lemma occurs_in_trim: "occurs_in (js_trim s) s"
proof -
  have "s = takeWhile is_space s @ dropWhile is_space s" by simp
  moreover have "dropWhile is_space s = js_trim s @ rev (takeWhile is_space (rev (dropWhile is_space s)))"
    unfolding js_trim_def by (metis rev_append rev_rev_ident takeWhile_dropWhile_id)
  ultimately show ?thesis unfolding occurs_in_def by metis
qed

lemma occurs_in_cons: "occurs_in p s \<Longrightarrow> occurs_in p (c # s)"
  unfolding occurs_in_def by (metis append_Cons)

lemma occurs_in_collapse_prefix:
  "collapse_spaces s = p @ b \<Longrightarrow> \<forall>c \<in> set p. \<not> is_space c \<Longrightarrow> \<exists>b'. s = p @ b'"
proof (induction s arbitrary: p rule: collapse_spaces.induct)
  case (2 c cs)
  show ?case
  proof (cases p)
    case (Cons d p')
    have "\<not> is_space c"
    proof
      assume "is_space c"
      with 2 Cons have "d = CHR '' ''" by simp
      with 2 Cons show False by (simp add: is_space_codes)
    qed
    with 2 Cons show ?thesis by auto
  qed simp
qed simp

lemma occurs_in_collapse:
  "collapse_spaces s = a @ p @ b \<Longrightarrow> p \<noteq> [] \<Longrightarrow> \<forall>c \<in> set p. \<not> is_space c \<Longrightarrow> occurs_in p s"
proof (induction s arbitrary: a rule: collapse_spaces.induct)
  case 1
  then show ?case by simp
next
  case (2 c cs)
  show ?case
  proof (cases a)
    case Nil
    then have "collapse_spaces (c # cs) = p @ b" using "2.prems"(1) by simp
    from occurs_in_collapse_prefix [OF this "2.prems"(3)] show ?thesis
      unfolding occurs_in_def by (metis append_Nil)
  next
    case (Cons d a')
    show ?thesis
    proof (cases "is_space c")
      case True
      with Cons "2.prems" have "occurs_in p (dropWhile is_space cs)" by (intro "2.IH"(1)) simp_all
      moreover have "occurs_in (dropWhile is_space cs) cs"
        unfolding occurs_in_def by (metis append_Nil2 takeWhile_dropWhile_id)
      ultimately show ?thesis by (blast intro: occurs_in_trans occurs_in_cons)
    next
      case False
      with Cons "2.prems" have "occurs_in p cs" by (intro "2.IH"(2)) simp_all
      then show ?thesis by (rule occurs_in_cons)
    qed
  qed
qed

lemma address_chars_not_space: "is_address_char c \<Longrightarrow> \<not> is_space c"
  by (auto simp: is_address_char_def is_word_char_def is_alphanumeric_def is_letter_def is_digit_def
      is_space_def char_code_def)

lemma digit_is_address_char [simp]: "is_digit c \<Longrightarrow> is_address_char c"
  by (simp add: is_address_char_def is_word_char_def is_alphanumeric_def)

lemma at_sign [simp]: "\<not> is_address_char CHR ''@''" "\<not> is_space CHR ''@''"
  by (simp_all add: is_address_char_def is_word_char_def is_alphanumeric_def is_letter_def is_digit_def
      is_space_def char_code_def)

lemma hosts_are_address_chars:
  "host \<in> set address_hosts \<Longrightarrow> list_all is_address_char host \<and> host \<noteq> [] \<and> hd host \<noteq> CHR ''a''"
  by (auto simp: address_hosts_def is_address_char_def is_word_char_def is_alphanumeric_def
      is_letter_def is_digit_def char_code_def)

lemma chat_address_not_space: "is_chat_address p \<Longrightarrow> p \<noteq> [] \<and> (\<forall>c \<in> set p. \<not> is_space c)"
  by (auto simp: is_chat_address_def list_all_iff is_digit_not_space dest!: hosts_are_address_chars
      dest: address_chars_not_space) (blast dest: address_chars_not_space)+

lemma after_host_found:
  assumes "host \<in> set address_hosts" and "starts_with cs host"
  shows "after_host (CHR ''@'' # cs) \<noteq> None"
  using assms by (auto simp: after_host_def find_None_iff)

text \<open>A run of address characters at the start of a text survives the masking or is a mask.\<close>

lemma mask_starts:
  assumes "starts_with (mask_chat_addresses s) p" and "list_all is_address_char p"
    and "p \<noteq> []" and "hd p \<noteq> CHR ''a''"
  shows "starts_with s p"
  using assms
proof (induction s rule: mask_chat_addresses.induct)
  case 1
  then show ?case by simp
next
  case (2 c cs)
  let ?run = "takeWhile is_address_char (c # cs)"
  let ?rest = "dropWhile is_address_char (c # cs)"
  obtain q ps where p: "p = q # ps" and q: "is_address_char q" using "2.prems"(2,3) by (cases p) auto
  show ?case
  proof (cases "is_address_char c")
    case False
    with "2.prems"(1) p q show ?thesis by auto
  next
    case True
    show ?thesis
    proof (cases "if list_ex is_digit ?run then after_host ?rest else None")
      case (Some beyond)
      then have "mask_chat_addresses (c # cs) = ''a chat'' @ mask_chat_addresses beyond"
        using True by (simp add: Let_def del: takeWhile.simps dropWhile.simps)
      with "2.prems"(1,4) p show ?thesis by simp
    next
      case None
      then have mask: "mask_chat_addresses (c # cs) = ?run @ mask_chat_addresses ?rest"
        using True by (simp add: Let_def del: takeWhile.simps dropWhile.simps)
      have edge: "mask_chat_addresses ?rest = [] \<or> \<not> is_address_char (hd (mask_chat_addresses ?rest))"
        using hd_dropWhile [of is_address_char "c # cs"] by (cases ?rest) auto
      have "length p \<le> length ?run"
      proof (rule ccontr)
        assume long: "\<not> length p \<le> length ?run"
        have "take (length p) (?run @ mask_chat_addresses ?rest) = p"
          using "2.prems"(1) by (simp only: mask starts_with_take)
        then have cut: "p = ?run @ take (length p - length ?run) (mask_chat_addresses ?rest)"
          using long by simp
        with long have "mask_chat_addresses ?rest \<noteq> []" by auto
        then obtain x xs where "mask_chat_addresses ?rest = x # xs" "\<not> is_address_char x"
          using edge by (cases "mask_chat_addresses ?rest") auto
        obtain k where "length p - length ?run = Suc k"
          using long by (metis not_le Suc_diff_Suc)
        then have "x \<in> set (?run @ take (length p - length ?run) (mask_chat_addresses ?rest))"
          using \<open>mask_chat_addresses ?rest = x # xs\<close> by simp
        then have "x \<in> set p" by (simp only: cut [symmetric])
        with \<open>\<not> is_address_char x\<close> "2.prems"(2) show False by (auto simp: list_all_iff)
      qed
      moreover have "take (length p) (?run @ mask_chat_addresses ?rest) = p"
        using "2.prems"(1) by (simp only: mask starts_with_take)
      ultimately have "take (length p) (?run @ ?rest) = p"
        by (simp del: takeWhile.simps dropWhile.simps takeWhile_dropWhile_id)
      then show ?thesis by (simp only: takeWhile_dropWhile_id starts_with_take)
    qed
  qed
qed

lemma append_overlap: "xs @ m = a @ y \<Longrightarrow> length xs \<le> length a \<Longrightarrow> m = drop (length xs) a @ y"
  by (auto simp: append_eq_append_conv2)

lemma digit_in_mask: "is_digit d \<Longrightarrow> d \<notin> set ''a chat''"
  by (auto simp: is_digit_def char_code_def)

lemma prefix_of_mask:
  assumes "''a chat'' @ t = a @ d # u" and "is_digit d"
  shows "\<exists>a'. t = a' @ d # u"
proof -
  have "\<not> length a < length ''a chat''"
  proof
    assume short: "length a < length ''a chat''"
    have "(''a chat'' @ t) ! length a = d" unfolding assms(1) by simp
    then have "''a chat'' ! length a = d" using short by (simp only: nth_append if_True)
    with short nth_mem [OF short] digit_in_mask [OF assms(2)] show False by simp
  qed
  then have "drop (length ''a chat'') (a @ d # u) = drop (length ''a chat'') a @ d # u" by simp
  then have "t = drop (length ''a chat'') a @ d # u" by (simp flip: assms(1))
  then show ?thesis by blast
qed

lemma masked_text_has_no_address: "is_chat_address p \<Longrightarrow> mask_chat_addresses s \<noteq> a @ p @ b"
proof (induction s arbitrary: a rule: mask_chat_addresses.induct)
  case 1
  then show ?case by (auto simp: is_chat_address_def)
next
  case (2 c cs)
  let ?run = "takeWhile is_address_char (c # cs)"
  let ?rest = "dropWhile is_address_char (c # cs)"
  obtain d r host where p: "p = d # r @ CHR ''@'' # host" and d: "is_digit d"
    and r: "list_all is_address_char r" and host: "host \<in> set address_hosts"
    using "2.prems" by (auto simp: is_chat_address_def)
  show ?case
  proof (cases "is_address_char c")
    case False
    have "c \<noteq> d" using False d by auto
    with False "2.IH"(1) [OF _ "2.prems", of "tl a"] p show ?thesis
      by (cases a) auto
  next
    case True
    show ?thesis
    proof (cases "if list_ex is_digit ?run then after_host ?rest else None")
      case (Some beyond)
      then have mask: "mask_chat_addresses (c # cs) = ''a chat'' @ mask_chat_addresses beyond"
        using True by (simp add: Let_def del: takeWhile.simps dropWhile.simps)
      show ?thesis
      proof
        assume "mask_chat_addresses (c # cs) = a @ p @ b"
        then have "''a chat'' @ mask_chat_addresses beyond = a @ d # (r @ CHR ''@'' # host @ b)"
          by (simp only: mask p append_Cons append_assoc)
        from prefix_of_mask [OF this d] obtain a' where "mask_chat_addresses beyond = a' @ p @ b"
          by (auto simp: p)
        with "2.IH"(3) [OF _ refl refl Some "2.prems"] True show False by blast
      qed
    next
      case None
      then have mask: "mask_chat_addresses (c # cs) = ?run @ mask_chat_addresses ?rest"
        using True by (simp add: Let_def del: takeWhile.simps dropWhile.simps)
      note below = "2.IH"(2) [OF _ refl refl None "2.prems"]
      show ?thesis
      proof
        assume occurs: "mask_chat_addresses (c # cs) = a @ p @ b"
        show False
        proof (cases "length ?run \<le> length a")
          case True
          from occurs have "?run @ mask_chat_addresses ?rest = a @ p @ b" by (simp only: mask)
          then have "mask_chat_addresses ?rest = drop (length ?run) a @ p @ b"
            using True by (rule append_overlap)
          with below \<open>is_address_char c\<close> show False by blast
        next
          case False
          define v where "v = drop (length a) ?run"
          have v: "v @ mask_chat_addresses ?rest = d # r @ CHR ''@'' # host @ b" and "v \<noteq> []"
          proof -
            from occurs have both: "?run @ mask_chat_addresses ?rest = a @ p @ b" by (simp only: mask)
            have "drop (length a) (?run @ mask_chat_addresses ?rest) = p @ b" unfolding both by simp
            then show "v @ mask_chat_addresses ?rest = d # r @ CHR ''@'' # host @ b"
              using False by (simp add: v_def p)
            show "v \<noteq> []" using False by (simp add: v_def)
          qed
          let ?m = "mask_chat_addresses ?rest"
          have edge: "?m = [] \<or> \<not> is_address_char (hd ?m)"
            using hd_dropWhile [of is_address_char "c # cs"] by (cases ?rest) auto
          have in_run: "set v \<subseteq> set ?run" unfolding v_def by (rule set_drop_subset)
          then have "\<forall>x \<in> set v. is_address_char x" by (meson set_takeWhileD subsetD)
          then have "takeWhile is_address_char (v @ ?m) = v"
            using edge by (cases ?m) (simp_all add: takeWhile_append1 takeWhile_append2)
          moreover have "takeWhile is_address_char (d # r @ CHR ''@'' # host @ b) = d # r"
            using d r by (simp add: takeWhile_append2 list_all_iff)
          ultimately have v_eq: "v = d # r" using v(1) by simp
          then have m: "?m = CHR ''@'' # host @ b" using v(1) by simp
          then obtain x xs where rest: "?rest = x # xs" by (cases ?rest) auto
          then have "\<not> is_address_char x" using hd_dropWhile [of is_address_char "c # cs"] by auto
          with m rest have "x = CHR ''@''" and "mask_chat_addresses xs = host @ b" by simp_all
          moreover from this(2) have "starts_with xs host"
            using mask_starts [of xs host] hosts_are_address_chars [OF host] by simp
          ultimately have "after_host ?rest \<noteq> None" using after_host_found [OF host] rest by simp
          moreover have "list_ex is_digit ?run"
            using d in_run v_eq by (auto simp: list_ex_iff simp del: takeWhile.simps)
          ultimately show False using None by simp
        qed
      qed
    qed
  qed
qed

lemma safe_message_names_no_chat:
  assumes "to_safe_error_message parse_json body = Some message"
  shows "message \<noteq> [] \<and> length message \<le> 200
    \<and> \<not> (\<exists>address. is_chat_address address \<and> occurs_in address message)"
proof -
  from assms obtain raw where message: "message = take 200 (js_trim (collapse_spaces (mask_chat_addresses raw)))"
    and nonempty: "js_trim (collapse_spaces (mask_chat_addresses raw)) \<noteq> []"
    by (auto simp: to_safe_error_message_def maximum_error_message_length_def Let_def
        split: option.splits if_splits)
  have "\<not> occurs_in address message" if address: "is_chat_address address" for address
  proof
    assume "occurs_in address message"
    then have "occurs_in address (collapse_spaces (mask_chat_addresses raw))"
      unfolding message by (blast intro: occurs_in_trans occurs_in_take occurs_in_trim)
    then obtain a b where "collapse_spaces (mask_chat_addresses raw) = a @ address @ b"
      unfolding occurs_in_def by blast
    then have "occurs_in address (mask_chat_addresses raw)"
      using chat_address_not_space [OF address] by (intro occurs_in_collapse) simp_all
    then show False
      using masked_text_has_no_address [OF address] by (auto simp: occurs_in_def)
  qed
  then show ?thesis using nonempty by (auto simp: message)
qed

text \<open>
  Failure messages name no chat. The message of the failure a refused call becomes is one of the
  platform's own, or the status line, or what is kept of the answer: not empty, of at most 200
  characters, and without any address of a chat - no run of address characters that begins with a
  digit and is followed by one of WhatsApp's hosts.
\<close>

theorem failure_messages_name_no_chat:
  assumes "interpret_response wo response = Inr (Failed failure)"
  shows "f_message failure \<in> snd ` set refusal_reasons
    \<or> f_message failure = hp_status_text response
    \<or> (f_message failure \<noteq> [] \<and> length (f_message failure) \<le> 200
       \<and> \<not> (\<exists>address. is_chat_address address \<and> occurs_in address (f_message failure)))"
proof -
  let ?message = "read_error_message wo response"
  have "?message = hp_status_text response \<or> (?message \<noteq> [] \<and> length ?message \<le> 200
       \<and> \<not> (\<exists>address. is_chat_address address \<and> occurs_in address ?message))"
    by (auto simp: read_error_message_def split: sum.splits option.splits
        dest: safe_message_names_no_chat)
  moreover have "failure = classify_http_status (hp_status response) ?message (hp_retry_after response)"
    using assms by (auto simp: interpret_response_def split: if_splits sum.splits)
  then have "f_message failure = ?message \<or> f_message failure \<in> snd ` set refusal_reasons"
    by (auto simp: classify_http_status_def Let_def image_iff split: option.splits dest!: map_of_SomeD)
      fastforce
  ultimately show ?thesis by auto
qed

section \<open>Examples\<close>

definition refusing_waha :: waha_options where
  "refusing_waha =
     \<lparr>wo_api_key = ''key'', wo_exchange = (\<lambda>calls. \<lparr>hx_outcome = Inr \<lparr>hp_status = 422,
        hp_status_text = ''Unprocessable Entity'',
        hp_text = Inr ''session is not connected: 5511999998888@c.us'', hp_retry_after = None\<rparr>,
        hx_aborted = False\<rparr>),
      wo_parse_json = (\<lambda>text. Inl \<lparr>je_error = Some (''SyntaxError'', ''Unexpected token''),
        je_code = None, je_cause_code = None\<rparr>)\<rparr>"

lemma refusal_is_classified:
  "fst (waha_send_text_message refusing_waha ''wnp-s1'' ''5511999998888@c.us'' ''Hello'' False [])
     = Failed (create_provider_failure SessionNotReady ''session is not connected: a chat'' None (Some 422))"
  by code_simp

lemma refusal_response:
  "interpret_response refusing_waha \<lparr>hp_status = 422, hp_status_text = ''Unprocessable Entity'',
        hp_text = Inr ''session is not connected: 5511999998888@c.us'', hp_retry_after = None\<rparr>
     = Inr (Failed (create_provider_failure SessionNotReady ''session is not connected: a chat'' None (Some 422)))"
  by code_simp

theorem failed_sends_are_marked_by_what_came_back_witness:
  "marked_by_outcome False
     (wo_exchange refusing_waha (snd (waha_send_text_message refusing_waha ''wnp-s1'' ''5511999998888@c.us'' ''Hello'' False [])))
     (create_provider_failure SessionNotReady ''session is not connected: a chat'' None (Some 422))"
proof -
  have "bodies_come_after_connecting refusing_waha"
    by (simp add: bodies_come_after_connecting_def refusing_waha_def read_system_error_code_def)
  from failed_sends_are_marked_by_what_came_back [OF this, of "''wnp-s1''" "''5511999998888@c.us''" "''Hello''" False "[]"]
  show ?thesis
    by (auto simp: refusal_is_classified)
qed

theorem failure_messages_name_no_chat_witness:
  "let f = create_provider_failure SessionNotReady ''session is not connected: a chat'' None (Some 422)
   in f_message f \<in> snd ` set refusal_reasons \<or> f_message f = ''Unprocessable Entity''
     \<or> (f_message f \<noteq> [] \<and> length (f_message f) \<le> 200
        \<and> \<not> (\<exists>address. is_chat_address address \<and> occurs_in address (f_message f)))"
  using failure_messages_name_no_chat [of refusing_waha "\<lparr>hp_status = 422,
        hp_status_text = ''Unprocessable Entity'',
        hp_text = Inr ''session is not connected: 5511999998888@c.us'', hp_retry_after = None\<rparr>"
      "create_provider_failure SessionNotReady ''session is not connected: a chat'' None (Some 422)"]
    refusal_response
  by (simp add: Let_def)

end
