(* ===== verification/Api_Access.thy ===== *)
theory Api_Access
  imports Http_Examples
begin

text \<open>
  Who gets past the guards. Every route of the public API but the callbacks starts with the API key
  guard and the rate limiter, every route of the dashboard but signing up and in with the session
  guard: the first lemmas bring the routes into that shape once, the properties then speak of every
  such route.
\<close>

section \<open>Running guarded programs\<close>

lemma run_guarded:
  "run (guarded ht h headers p k) env w =
     (case run p env w of
        (Returned x, w') \<Rightarrow> run (k x) env w'
      | (Threw e, w') \<Rightarrow> run (refuse ht h headers e) env w')"
  by (simp add: guarded_def run_bind run_attempt split: prod.splits outcome.splits)

text \<open>What the filter answers to an exception of the guards.\<close>

definition refusal :: "http_runtime \<Rightarrow> http_input \<Rightarrow> (string \<times> string) list \<Rightarrow> int \<Rightarrow> string \<Rightarrow> string \<Rightarrow> 'b http_reply" where
  "refusal ht h headers status error message =
     \<lparr>rp_status = status, rp_headers = headers, rp_cookie = None,
      rp_body = ProblemBody \<lparr>pd_type = problem_type ht (string_of_int status), pd_title = error,
        pd_status = status, pd_detail = message, pd_instance = hi_url h,
        pd_correlation_id = Some (resolve_correlation_id h)\<rparr>\<rparr>"

lemma refuse_http: "refuse ht h headers (HttpException status error m) = Done (refusal ht h headers status error m)"
  by (simp add: refuse_def to_problem_details_def refusal_def Let_def)

lemma refusal_status [simp]: "rp_status (refusal ht h headers status error m) = status"
  "rp_headers (refusal ht h headers status error m) = headers"
  by (simp_all add: refusal_def)

lemma run_parse_body:
  "run (parse_body ht h) env w = (Threw e, w') \<Longrightarrow> w' = w \<and> (\<exists>m. e = bad_request m)"
  "run (parse_body ht h) env w = (Returned j, w') \<Longrightarrow> w' = w"
  by (auto simp: parse_body_def split: option.splits sum.splits if_splits)

section \<open>Wrapping goes inside\<close>

lemma wrap_refuse: "wrap f (refuse ht h headers e) = refuse ht h headers e"
  by (simp add: wrap_def refuse_def split: option.splits)

lemma wrap_bind: "wrap f (bind p k) = bind p (\<lambda>x. wrap f (k x))"
  by (simp add: wrap_def bind_assoc)

lemma wrap_guarded: "wrap f (guarded ht h headers p k) = guarded ht h headers p (\<lambda>x. wrap f (k x))"
  by (simp add: guarded_def wrap_bind wrap_refuse sum.case_distrib [of "wrap f"] cong: sum.case_cong)

lemma wrap_receive: "wrap f (receive ht h k) = receive ht h (\<lambda>headers j. wrap f (k headers j))"
  by (simp add: receive_def wrap_guarded)

lemma wrap_with_api_key:
  "wrap f (with_api_key ht h headers scopes k)
     = with_api_key ht h headers scopes (\<lambda>headers caller. wrap f (k headers caller))"
  by (simp add: with_api_key_def wrap_guarded wrap_refuse Let_def if_distrib [of "wrap f"] cong: if_cong)

lemma wrap_with_session:
  "wrap f (with_session ht h headers k) = with_session ht h headers (\<lambda>caller. wrap f (k caller))"
  by (simp add: with_session_def wrap_guarded)

section \<open>Routes behind an API key\<close>

text \<open>The scope each route of the public API requires by its decorator.\<close>

fun required_scope :: "route \<Rightarrow> api_key_scope option" where
  "required_scope PostNotification = Some NOTIFICATIONS_WRITE"
| "required_scope PostNotificationBatch = Some NOTIFICATIONS_WRITE"
| "required_scope GetNotifications = Some NOTIFICATIONS_READ"
| "required_scope (GetNotification i) = Some NOTIFICATIONS_READ"
| "required_scope (GetNotificationEvents i) = Some NOTIFICATIONS_READ"
| "required_scope (PostNotificationCancel i) = Some NOTIFICATIONS_WRITE"
| "required_scope GetCurrentApplication = Some NOTIFICATIONS_READ"
| "required_scope _ = None"

lemma serve_behind_key:
  assumes "required_scope route = Some s"
  obtains k where "serve ht dr h route =
    receive ht h (\<lambda>headers j. with_api_key ht h headers [s] (k j))"
proof -
  have "\<exists>k. serve ht dr h route = receive ht h (\<lambda>headers j. with_api_key ht h headers [s] (k j))"
    using assms
    by (cases route)
       (simp_all add: notifications_create_def notifications_create_batch_def notifications_list_def
         notifications_get_def notifications_list_events_def notifications_cancel_def
         applications_current_def wrap_receive wrap_with_api_key, (rule exI, rule refl)+)
  with that show thesis by blast
qed

text \<open>The request carries a key that is good in this state and has the scope.\<close>

definition presents :: "http_runtime \<Rightarrow> world \<Rightarrow> http_input \<Rightarrow> api_key \<Rightarrow> application \<Rightarrow> bool" where
  "presents ht w h k a =
     (\<exists>token. hi_authorization h = Some (bearer_prefix @ token) \<and> opens (ht_keys ht) w token k a)"

lemma scope_name_known: "is_api_key_scope (scope_name s)"
  by (cases s) (simp_all add: is_api_key_scope_def api_key_scopes_def)

lemma principal_has_scope: "has_scope (kp_scopes (key_principal k a)) s \<longleftrightarrow> scope_name s \<in> set (ak_scopes k)"
  by (simp add: has_scope_def key_principal_def scope_name_known)

lemma run_guard_absent:
  assumes "\<And>k a. \<not> presents ht w h k a"
  shows "\<exists>m. run (api_key_guard (ht_keys ht) [s] h) env w = (Threw (unauthorized m), w)"
proof (cases "hi_authorization h")
  case None
  then show ?thesis by (auto simp: api_key_guard_def Let_def)
next
  case (Some header)
  show ?thesis
  proof (cases "starts_with header bearer_prefix")
    case False
    with Some show ?thesis by (auto simp: api_key_guard_def Let_def)
  next
    case True
    then have header: "header = bearer_prefix @ drop (length bearer_prefix) header"
      by (metis append_take_drop_id starts_with_take)
    have "run (authenticate_key (ht_keys ht) (drop (length bearer_prefix) header)) env w = (Returned None, w)"
      by (rule authenticate_bad) (use assms header Some in \<open>auto simp: presents_def\<close>)
    with Some True show ?thesis by (auto simp: api_key_guard_def Let_def run_bind)
  qed
qed

lemma run_guard_present:
  assumes "distinct (map ak_key_identifier (w_api_keys w))" and "distinct (map ap_id (w_applications w))"
    and "presents ht w h k a"
  shows "run (api_key_guard (ht_keys ht) [s] h) env w =
    (if scope_name s \<in> set (ak_scopes k) then Returned (key_principal k a)
     else Threw (HttpException 403 ''Forbidden''
       (''This API key is missing the required scope: '' @ scope_name s @ ''.'')),
     touch_last_used (ak_id k) (w_clock w) w)"
proof -
  obtain token where "hi_authorization h = Some (bearer_prefix @ token)" and "opens (ht_keys ht) w token k a"
    using assms(3) by (auto simp: presents_def)
  with authenticate_good [OF assms(1,2) this(2), of env] show ?thesis
    by (simp add: api_key_guard_def Let_def run_bind principal_has_scope)
qed

text \<open>
  C13: Only a good key with the scope gets in. A request for any route of the public API that does not
  carry a key that is on file, unrevoked, unexpired, of an active application and with the required
  scope is refused with 400 (a body that cannot be read), 401 or 403, and no table changes but for
  the stamp of the last use of a good key without the scope.
\<close>

theorem only_good_keys_get_in:
  assumes "distinct (map ak_key_identifier (w_api_keys w))" and "distinct (map ap_id (w_applications w))"
    and route: "required_scope route = Some s"
    and refused: "\<And>k a. presents ht w h k a \<Longrightarrow> scope_name s \<notin> set (ak_scopes k)"
  shows "\<exists>reply w'. run (serve ht dr h route) env w = (Returned reply, w')
    \<and> rp_status reply = (if \<forall>j. parse_body ht h \<noteq> Done j then 400
         else if \<exists>k a. presents ht w h k a then 403 else 401)
    \<and> (w' = w \<or> (\<exists>k a. presents ht w h k a \<and> w' = touch_last_used (ak_id k) (w_clock w) w))"
proof -
  obtain k where serve: "serve ht dr h route = receive ht h (\<lambda>headers j. with_api_key ht h headers [s] (k j))"
    by (rule serve_behind_key [OF route])
  show ?thesis
  proof (cases "run (parse_body ht h) env w")
    case (Pair out w1)
    show ?thesis
    proof (cases out)
      case (Threw e)
      with Pair obtain m where "e = bad_request m" "w1 = w"
        using run_parse_body(1) by blast
      moreover have "\<forall>j. parse_body ht h \<noteq> Done j"
        using Pair Threw by auto
      ultimately show ?thesis
        using Pair Threw by (simp add: serve receive_def run_guarded bad_request_def refuse_http)
    next
      case (Returned j)
      with Pair have w1: "w1 = w" using run_parse_body(2) by blast
      have readable: "\<exists>j. parse_body ht h = Done j"
        using Pair Returned by (auto simp: parse_body_def split: option.splits sum.splits if_splits)
      show ?thesis
      proof (cases "\<exists>k a. presents ht w h k a")
        case True
        then obtain key a where p: "presents ht w h key a" by blast
        with refused have "scope_name s \<notin> set (ak_scopes key)" by blast
        with Pair Returned w1 readable p show ?thesis
          using run_guard_present [OF assms(1,2) p, of s env]
          by (auto simp: serve receive_def run_guarded with_api_key_def refuse_http)
      next
        case False
        with run_guard_absent [of ht w h s env] obtain m
          where "run (api_key_guard (ht_keys ht) [s] h) env w = (Threw (unauthorized m), w)" by blast
        with Pair Returned w1 readable False show ?thesis
          by (simp add: serve receive_def run_guarded with_api_key_def unauthorized_def refuse_http)
      qed
    qed
  qed
qed

section \<open>Throttled requests\<close>

text \<open>Waiting for the seconds the header names is enough to be on pace again.\<close>

definition waiting_seconds :: "rate_limit_policy \<Rightarrow> bucket \<Rightarrow> micros \<Rightarrow> int" where
  "waiting_seconds policy b requested_at =
     ceiling (max 0 (seconds (max (b_theoretical_arrival_at b) requested_at + emission_interval policy
       - delay_tolerance policy - requested_at)))"

lemma waiting_is_enough:
  assumes "valid_policy policy" and "granted_arrival policy (Some b) t = None"
  shows "granted_arrival policy (Some b) (t + waiting_seconds policy b t * 1000000) \<noteq> None"
    and "0 < waiting_seconds policy b t"
proof -
  define us where "us = b_theoretical_arrival_at b + emission_interval policy - delay_tolerance policy - t"
  have late: "t < b_theoretical_arrival_at b" and us: "0 < us"
    using assms(2) tolerance_ge_interval [OF assms(1)]
    by (auto simp: granted_arrival_def Let_def us_def max_def split: if_splits)
  have n: "waiting_seconds policy b t = ceiling (seconds us)"
    using late us by (simp add: waiting_seconds_def us_def max_def seconds_def)
  have "(of_int us :: rat) \<le> of_int (ceiling (seconds us)) * 1000000"
    unfolding seconds_def by (rule pos_divide_le_eq [THEN iffD1, OF _ le_of_int_ceiling]) simp
  also have "\<dots> = of_int (ceiling (seconds us) * 1000000)" by simp
  finally have "us \<le> ceiling (seconds us) * 1000000" by (simp only: of_int_le_iff)
  then show "granted_arrival policy (Some b) (t + waiting_seconds policy b t * 1000000) \<noteq> None"
    using tolerance_ge_interval [OF assms(1)] late
    by (auto simp: granted_arrival_def Let_def n us_def max_def)
  show "0 < waiting_seconds policy b t"
    using us by (simp add: n seconds_def)
qed

definition key_policy :: "application \<Rightarrow> rate_limit_policy" where
  "key_policy a =
     \<lparr>rl_requests_per_period = ap_rate_limit_per_minute a,
      rl_burst_allowance = ap_rate_limit_burst a, rl_period_seconds = 60\<rparr>"

lemma key_policy_valid: "check_application a \<Longrightarrow> valid_policy (key_policy a)"
  by (simp add: check_application_def valid_policy_def key_policy_def)

lemma run_read_policy:
  assumes "distinct (map ap_id (w_applications w))" and "presents ht w h k a"
  shows "run (read_policy (ap_organization_id a) (ap_id a)) env (touch_last_used i now w)
    = (Returned (key_policy a), touch_last_used i now w)"
proof -
  have "find_application (ap_organization_id a) (ap_id a) (touch_last_used i now w) = Some a"
    unfolding find_application_def touch_last_used_def
    by (rule sql_first_only)
       (use assms row_by_key [OF assms(1)] in \<open>auto simp: presents_def opens_def is_own_application_def\<close>)
  then show ?thesis
    by (simp add: read_policy_def get_application_or_fail_def step_simps key_policy_def)
qed

lemma consume_refused:
  assumes "valid_policy policy" and "find_bucket subject (w_buckets w) = Some b"
    and "granted_arrival policy (Some b) (of_date now) = None"
  obtains outcome where "consume_attempt subject policy True now w = Inr (outcome, w)"
    and "\<not> rd_is_allowed (ro_decision outcome)"
    and "ceiling (rd_retry_after_seconds (ro_decision outcome)) = waiting_seconds policy b (of_date now)"
  using assms
  by (simp add: consume_attempt_def consume_rate_limit_def Let_def valid_policy_def waiting_seconds_def)

lemma limited_reply: "refuse ht h headers (api_key_limited outcome) = Done (refusal ht h headers 429
    ''Too Many Requests'' (case api_key_limited outcome of HttpException st er m \<Rightarrow> m | _ \<Rightarrow> []))"
  by (simp add: api_key_limited_def refuse_http)

text \<open>
  C14: A client that is too fast gets no service. When the bucket of the key is used up and the limiter
  works, a request with a good key and the scope is refused with 429 before any handler runs: no
  table changes but for the stamp of the key's last use. The answer names a number of seconds in
  the header retry-after, after which the bucket grants a request again.
\<close>

theorem throttled_requests_reach_no_handler:
  assumes "distinct (map ak_key_identifier (w_api_keys w))" and "distinct (map ap_id (w_applications w))"
    and "required_scope route = Some s" and "presents ht w h k a" and "scope_name s \<in> set (ak_scopes k)"
    and "parse_body ht h = Done j" and "check_application a" and "ht_limiter_reachable ht"
    and "find_bucket (''apikey:'' @ ak_id k) (w_buckets w) = Some b"
    and "granted_arrival (key_policy a) (Some b) (of_date (w_clock w)) = None"
  shows "\<exists>reply n. run (serve ht dr h route) env w
        = (Returned reply, touch_last_used (ak_id k) (w_clock w) w)
    \<and> rp_status reply = 429 \<and> (''retry-after'', string_of_int n) \<in> set (rp_headers reply) \<and> 0 < n
    \<and> granted_arrival (key_policy a) (Some b) (of_date (w_clock w) + n * 1000000) \<noteq> None"
proof -
  note valid = key_policy_valid [OF assms(7)]
  obtain q where serve: "serve ht dr h route = receive ht h (\<lambda>headers j. with_api_key ht h headers [s] (q j))"
    by (rule serve_behind_key [OF assms(3)])
  let ?w = "touch_last_used (ak_id k) (w_clock w) w"
  have "w_clock ?w = w_clock w" and bucket: "find_bucket (''apikey:'' @ ak_id k) (w_buckets ?w) = Some b"
    using assms(9) by (simp_all add: touch_last_used_def)
  obtain outcome where consume: "consume_attempt (''apikey:'' @ ak_id k) (key_policy a) True (w_clock w) ?w = Inr (outcome, ?w)"
    and refused: "\<not> rd_is_allowed (ro_decision outcome)"
    and wait: "ceiling (rd_retry_after_seconds (ro_decision outcome)) = waiting_seconds (key_policy a) b (of_date (w_clock w))"
    by (rule consume_refused [OF valid bucket assms(10)])
  have "kp_api_key_id (key_principal k a) = ak_id k" "kp_application_id (key_principal k a) = ap_id a"
    "kp_organization_id (key_principal k a) = ap_organization_id a"
    by (simp_all add: key_principal_def)
  then have "run (api_key_rate_limit_guard ht (key_principal k a)) env ?w = (Returned outcome, ?w)"
    using run_read_policy [OF assms(2,4)] assms(8) consume \<open>w_clock ?w = w_clock w\<close>
    by (simp add: api_key_rate_limit_guard_def run_bind consume_def step_simps)
  then have "\<exists>headers m. run (serve ht dr h route) env w = (Returned (refusal ht h
      (headers @ retry_after_header outcome) 429 ''Too Many Requests'' m), ?w)"
    using assms(5,6) run_guard_present [OF assms(1,2,4), of s env] refused
    by (auto simp: serve receive_def run_guarded with_api_key_def Let_def limited_reply
        simp del: append_assoc)
  moreover have "retry_after_header outcome =
      [(''retry-after'', string_of_int (waiting_seconds (key_policy a) b (of_date (w_clock w))))]"
    by (simp add: retry_after_header_def string_of_ceiling_def wait)
  ultimately show ?thesis
    using waiting_is_enough [OF valid assms(10)] by fastforce
qed

section \<open>Instances\<close>

theorem only_good_keys_get_in_witness:
  "\<exists>reply w'. run (serve example_http example_draws bare_call GetNotifications) example_env keys_world
      = (Returned reply, w') \<and> rp_status reply = 401"
proof -
  have none: "\<not> presents example_http keys_world bare_call k a" for k a
    by (simp add: presents_def bare_call_def)
  have "required_scope GetNotifications = Some NOTIFICATIONS_READ" by simp
  from only_good_keys_get_in [OF keys_world_unique this, of example_http bare_call example_draws example_env] none
  show ?thesis by fastforce
qed

definition throttled_world :: world where
  "throttled_world = keys_world\<lparr>w_buckets := [\<lparr>b_subject = ''apikey:k1'',
     b_theoretical_arrival_at = 1000000000 + 12000000, b_updated_at = 0\<rparr>]\<rparr>"

theorem throttled_requests_reach_no_handler_witness:
  "\<exists>reply. run (serve example_http example_draws keyed_call PostNotification) example_env throttled_world
      = (Returned reply, touch_last_used ''k1'' 1000000 throttled_world) \<and> rp_status reply = 429"
proof -
  have opens: "opens example_key_runtime throttled_world example_token example_key example_application"
    using example_key_opens by (simp add: opens_def throttled_world_def)
  then have presents: "presents example_http throttled_world keyed_call example_key example_application"
    by (auto simp: presents_def keyed_call_def)
  have clock: "w_clock throttled_world = 1000000" and id: "ak_id example_key = ''k1''"
    by (simp_all add: throttled_world_def keys_world_def example_world_def example_key_def)
  have refused: "granted_arrival (key_policy example_application) (Some \<lparr>b_subject = ''apikey:k1'',
     b_theoretical_arrival_at = 1000000000 + 12000000, b_updated_at = 0\<rparr>) (of_date 1000000) = None"
    by (simp add: granted_arrival_def key_policy_def example_application_def emission_interval_def
        delay_tolerance_def round_half_even_def of_date_def Let_def)
  have unique: "distinct (map ak_key_identifier (w_api_keys throttled_world))"
      "distinct (map ap_id (w_applications throttled_world))"
    using keys_world_unique by (simp_all add: throttled_world_def)
  have bucket: "find_bucket (''apikey:'' @ ak_id example_key) (w_buckets throttled_world) = Some \<lparr>b_subject = ''apikey:k1'',
     b_theoretical_arrival_at = 1000000000 + 12000000, b_updated_at = 0\<rparr>"
    by (simp add: id throttled_world_def find_bucket_def sql_first_def)
  have good: "check_application example_application" "scope_name NOTIFICATIONS_WRITE \<in> set (ak_scopes example_key)"
    by (simp_all add: check_application_def example_application_def example_key_def)
  have scope: "required_scope PostNotification = Some NOTIFICATIONS_WRITE" by simp
  note throttled_requests_reach_no_handler [OF unique scope presents good(2) calls_have_no_body(2) good(1)
      example_http_simps(3) bucket, unfolded clock, OF refused, of example_draws example_env]
  then show ?thesis unfolding id by blast
qed

end
