(* ===== verification/Dashboard_Access.thy ===== *)
theory Dashboard_Access
  imports Api_Access
begin

text \<open>
  What keeps the dashboard's tenants apart and its sessions safe: every route below an application asks
  for it in the organization of the signed-in person first, and every request that is not a read
  carries the token derived from its session.
\<close>

section \<open>The session guard\<close>

text \<open>Only the table of the dashboard's sessions moved: their idle expiry.\<close>

definition only_sessions :: "world \<Rightarrow> world \<Rightarrow> bool" where
  "only_sessions w w' = (\<exists>xs. w' = w\<lparr>w_user_sessions := xs\<rparr>)"

lemma only_sessions_refl [simp]: "only_sessions w w"
  unfolding only_sessions_def by (rule exI [of _ "w_user_sessions w"]) simp

lemma only_sessions_applications: "only_sessions w w' \<Longrightarrow> w_applications w' = w_applications w"
  by (auto simp: only_sessions_def)

lemma run_resolve_user: "\<exists>found w'. run (resolve_user_session au token) env w = (Returned found, w') \<and> only_sessions w w'"
  by (auto simp: resolve_user_session_def step_simps Let_def touch_session_def only_sessions_def
      split: option.splits intro: exI [of _ "w_user_sessions w"])

text \<open>Who the cookie of a request stands for in this state, if its session is alive.\<close>

definition signed_in_as :: "http_runtime \<Rightarrow> env \<Rightarrow> world \<Rightarrow> http_input \<Rightarrow> authenticated_principal option" where
  "signed_in_as ht env w h =
     (case hi_session_cookie h of
        None \<Rightarrow> None
      | Some token \<Rightarrow>
          if token = [] then None
          else (case run (resolve_user_session (ht_auth ht) token) env w of
                  (Returned found, w') \<Rightarrow> found | _ \<Rightarrow> None))"

definition carries_token_of :: "http_runtime \<Rightarrow> http_input \<Rightarrow> authenticated_principal \<Rightarrow> bool" where
  "carries_token_of ht h p =
     (hi_csrf_headers h \<noteq> [] \<and> hd (hi_csrf_headers h) = derive_csrf_token ht (pr_session_id p))"

lemma run_session_guard:
  obtains (refused) st er m w' where
      "run (dashboard_session_guard ht (ht_auth ht) h) env w = (Threw (HttpException st er m), w')"
      "st \<in> {401, 403}" "only_sessions w w'"
      "signed_in_as ht env w h = None \<longleftrightarrow> st = 401"
      "st = 403 \<Longrightarrow> hi_method h \<notin> set safe_methods \<and> \<not> carries_token_of ht h (the (signed_in_as ht env w h))"
  | (passed) p w' where
      "run (dashboard_session_guard ht (ht_auth ht) h) env w = (Returned p, w')"
      "signed_in_as ht env w h = Some p" "only_sessions w w'"
      "hi_method h \<in> set safe_methods \<or> carries_token_of ht h p"
proof (cases "hi_session_cookie h")
  case None
  then show thesis
    by (intro refused) (auto simp: dashboard_session_guard_def unauthorized_def signed_in_as_def)
next
  case (Some token)
  show thesis
  proof (cases "token = []")
    case True
    with Some show thesis
      by (intro refused) (auto simp: dashboard_session_guard_def unauthorized_def signed_in_as_def)
  next
    case False
    obtain found w' where r: "run (resolve_user_session (ht_auth ht) token) env w = (Returned found, w')"
      and kept: "only_sessions w w'"
      using run_resolve_user by blast
    have who: "signed_in_as ht env w h = found"
      using Some False r by (simp add: signed_in_as_def)
    show thesis
    proof (cases found)
      case None
      with Some False r who kept show thesis
        by (intro refused [of 401]) (auto simp: dashboard_session_guard_def unauthorized_def run_bind)
    next
      case p: (Some p)
      show thesis
      proof (cases "hi_method h \<in> set safe_methods \<or> carries_token_of ht h p")
        case True
        with Some False r who kept p show thesis
          by (intro passed) (auto simp: dashboard_session_guard_def run_bind Let_def carries_token_of_def
              is_csrf_token_valid_def split: list.splits)
      next
        case forged: False
        with Some False r who kept p show thesis
          by (intro refused [of 403]) (auto simp: dashboard_session_guard_def run_bind Let_def
              carries_token_of_def is_csrf_token_valid_def split: list.splits)
      qed
    qed
  qed
qed

section \<open>Routes behind a session\<close>

fun behind_session :: "route \<Rightarrow> bool" where
  "behind_session PostLogout = True"
| "behind_session GetSessionRoute = True"
| "behind_session GetApplications = True"
| "behind_session PostApplication = True"
| "behind_session (GetApplication a) = True"
| "behind_session (PatchApplication a) = True"
| "behind_session (DeleteApplication a) = True"
| "behind_session (GetApiKeys a) = True"
| "behind_session (PostApiKey a) = True"
| "behind_session (DeleteApiKey a i) = True"
| "behind_session (DashboardGetNotifications a) = True"
| "behind_session (DashboardPostNotification a) = True"
| "behind_session (DashboardPostCancelWaiting a) = True"
| "behind_session (DashboardGetNotification a i) = True"
| "behind_session (DashboardGetNotificationEvents a i) = True"
| "behind_session (DashboardPostNotificationCancel a i) = True"
| "behind_session (GetConnections a) = True"
| "behind_session (PostConnection a) = True"
| "behind_session (GetConnection a i) = True"
| "behind_session (GetConnectionQrCode a i) = True"
| "behind_session (PostConnectionStart a i) = True"
| "behind_session (PostConnectionStop a i) = True"
| "behind_session (PostConnectionLogout a i) = True"
| "behind_session (DeleteConnection a i) = True"
| "behind_session _ = False"

lemmas session_routes =
  auth_logout_def auth_session_def applications_list_def applications_create_def
  applications_get_def applications_update_def applications_archive_def api_keys_list_def
  api_keys_create_def api_keys_revoke_def dashboard_notifications_list_def
  dashboard_notifications_create_def dashboard_notifications_cancel_waiting_def
  dashboard_notifications_get_def dashboard_notifications_list_events_def
  dashboard_notifications_cancel_def connections_list_def connections_create_def
  connections_get_def connections_get_qr_code_def connections_start_def connections_stop_def
  connections_logout_def connections_remove_def

lemma serve_behind_session:
  assumes "behind_session route"
  obtains k where "serve ht dr h route =
    receive ht h (\<lambda>headers j. with_session ht h headers (k headers j))"
proof -
  have "\<exists>k. serve ht dr h route = receive ht h (\<lambda>headers j. with_session ht h headers (k headers j))"
    using assms
    by (cases route)
       (simp_all add: session_routes with_row_id_def wrap_receive wrap_with_session, (rule exI, rule refl)+)
  with that show thesis by blast
qed

text \<open>
  C15: A forged request changes nothing. A request for any route behind the session guard that is not
  signed in, or is not a read and does not carry the token derived from the very session of its
  cookie, is refused with 400 (a body that cannot be read), 401 or 403, and no table changes but for
  the expiry of dashboard sessions.
\<close>

theorem forged_requests_change_nothing:
  assumes "behind_session route"
    and forged: "\<And>p. signed_in_as ht env w h = Some p \<Longrightarrow>
      hi_method h \<notin> set safe_methods \<and> \<not> carries_token_of ht h p"
  shows "\<exists>reply w'. run (serve ht dr h route) env w = (Returned reply, w')
    \<and> rp_status reply = (if \<forall>j. parse_body ht h \<noteq> Done j then 400
         else if signed_in_as ht env w h = None then 401 else 403)
    \<and> only_sessions w w'"
proof -
  obtain k where serve: "serve ht dr h route = receive ht h (\<lambda>headers j. with_session ht h headers (k headers j))"
    by (rule serve_behind_session [OF assms(1)])
  show ?thesis
  proof (cases "\<exists>j. parse_body ht h = Done j")
    case False
    then obtain m where "parse_body ht h = Raise (bad_request m)"
      by (auto simp: parse_body_def split: option.splits sum.splits if_splits)
    with False show ?thesis
      by (simp add: serve receive_def run_guarded bad_request_def refuse_http)
  next
    case True
    then obtain j where j: "parse_body ht h = Done j" by blast
    show ?thesis
    proof (rule run_session_guard [of ht h env w])
      fix st er m w'
      assume "run (dashboard_session_guard ht (ht_auth ht) h) env w = (Threw (HttpException st er m), w')"
        "st \<in> {401, 403}" "only_sessions w w'" "signed_in_as ht env w h = None \<longleftrightarrow> st = 401"
      with j show ?thesis
        by (auto simp: serve receive_def run_guarded with_session_def refuse_http)
    next
      fix p w' assume "signed_in_as ht env w h = Some p"
        "hi_method h \<in> set safe_methods \<or> carries_token_of ht h p"
      with forged show ?thesis by blast
    qed
  qed
qed

section \<open>Applications of other organizations\<close>

fun application_of :: "route \<Rightarrow> string option" where
  "application_of (GetApplication a) = Some a"
| "application_of (PatchApplication a) = Some a"
| "application_of (DeleteApplication a) = Some a"
| "application_of (GetApiKeys a) = Some a"
| "application_of (PostApiKey a) = Some a"
| "application_of (DeleteApiKey a i) = Some a"
| "application_of (DashboardGetNotifications a) = Some a"
| "application_of (DashboardPostNotification a) = Some a"
| "application_of (DashboardPostCancelWaiting a) = Some a"
| "application_of (DashboardGetNotification a i) = Some a"
| "application_of (DashboardGetNotificationEvents a i) = Some a"
| "application_of (DashboardPostNotificationCancel a i) = Some a"
| "application_of (GetConnections a) = Some a"
| "application_of (PostConnection a) = Some a"
| "application_of (GetConnection a i) = Some a"
| "application_of (GetConnectionQrCode a i) = Some a"
| "application_of (PostConnectionStart a i) = Some a"
| "application_of (PostConnectionStop a i) = Some a"
| "application_of (PostConnectionLogout a i) = Some a"
| "application_of (DeleteConnection a i) = Some a"
| "application_of _ = None"

text \<open>A program that is answered with a problem of one of these statuses and changes nothing.\<close>

definition turned_away :: "int set \<Rightarrow> env \<Rightarrow> world \<Rightarrow> 'b http_reply prog \<Rightarrow> bool" where
  "turned_away statuses env w p =
     (\<exists>reply problem. run p env w = (Returned reply, w) \<and> rp_body reply = ProblemBody problem
        \<and> rp_status reply \<in> statuses)"

definition owns :: "authenticated_principal \<Rightarrow> uuid \<Rightarrow> world \<Rightarrow> bool" where
  "owns p a w = list_ex (is_own_application (pr_organization_id p) a) (w_applications w)"

lemma turned_away_http: "st \<in> statuses \<Longrightarrow> turned_away statuses env w (refuse ht h headers (HttpException st er m))"
  by (simp add: turned_away_def refuse_http refusal_def)

lemma turned_away_wrap: "turned_away statuses env w p \<Longrightarrow> turned_away statuses env w (wrap f p)"
  by (auto simp: turned_away_def wrap_def run_bind)

lemma turned_away_pipe:
  assumes "\<And>x. turned_away statuses env w (k x)" and "400 \<in> statuses"
  shows "turned_away statuses env w (guarded ht h headers (zod_validation_pipe subject schema j) k)"
  using assms by (cases "schema j")
    (simp_all add: turned_away_def zod_validation_pipe_def validation_failed_def run_guarded refuse_http refusal_def)

lemma turned_away_parameter:
  assumes "turned_away statuses env w (k v)" and "400 \<in> statuses"
  shows "turned_away statuses env w (guarded ht h headers (uuid_parameter_pipe fm nm v) k)"
  using assms by (cases "fm_is_uuid fm v")
    (simp_all add: turned_away_def uuid_parameter_pipe_def validation_failed_def run_guarded refuse_http refusal_def)

lemma turned_away_throwing:
  assumes "run p env w = (Threw application_not_found, w)" and "404 \<in> statuses"
  shows "turned_away statuses env w (guarded ht h headers p k)"
  using assms by (simp add: turned_away_def run_guarded refuse_def to_problem_details_def
      application_not_found_def status_by_domain_error_code_def)

lemma not_owner_services:
  assumes "\<not> owns p a w"
  shows "run (bind (authorize p a) q) env w = (Threw application_not_found, w)"
    and "run (bind (get_application_or_fail (pr_organization_id p) a) q') env w = (Threw application_not_found, w)"
    and "run (bind (update_application (pr_organization_id p) a ua) q'') env w = (Threw application_not_found, w)"
    and "run (archive_application (pr_organization_id p) a) env w = (Threw application_not_found, w)"
proof -
  have none: "\<forall>x \<in> set (w_applications w). \<not> is_own_application (pr_organization_id p) a x"
    using assms by (auto simp: owns_def list_ex_iff)
  note simps = step_simps Let_def run_bind sql_first_None [THEN iffD2, OF none]
    sql_returning_None [THEN iffD2, OF none] sql_update_none [OF none]
  show "run (bind (authorize p a) q) env w = (Threw application_not_found, w)"
    and "run (bind (get_application_or_fail (pr_organization_id p) a) q') env w = (Threw application_not_found, w)"
    by (simp_all add: authorize_def get_application_or_fail_def find_application_def simps)
  have "filter (is_own_application (pr_organization_id p) a) (w_applications w) = []"
    using none by (simp add: filter_empty_conv)
  then show "run (bind (update_application (pr_organization_id p) a ua) q'') env w = (Threw application_not_found, w)"
    by (simp add: update_application_def repository_update_application_def simps)
  have "\<not> list_ex (is_own_application (pr_organization_id p) a) (w_applications w)"
    using assms by (simp add: owns_def)
  then show "run (archive_application (pr_organization_id p) a) env w = (Threw application_not_found, w)"
    by (simp add: archive_application_def repository_archive_application_def simps)
qed

lemma turned_away_services:
  assumes "\<not> owns p a w" and "404 \<in> statuses"
  shows "turned_away statuses env w (guarded ht h headers (bind (authorize p a) q) k)"
    and "turned_away statuses env w (guarded ht h headers
      (bind (get_application_or_fail (pr_organization_id p) a) q') k)"
    and "turned_away statuses env w (guarded ht h headers
      (bind (update_application (pr_organization_id p) a ua) q'') k)"
    and "turned_away statuses env w (guarded ht h headers (archive_application (pr_organization_id p) a) k')"
  by (rule turned_away_throwing [OF _ assms(2)], rule not_owner_services [OF assms(1)])+

lemmas turning_away = turned_away_wrap turned_away_pipe turned_away_parameter turned_away_services

lemma serve_below_application:
  assumes "application_of route = Some a"
  obtains k where "serve ht dr h route =
      receive ht h (\<lambda>headers j. with_session ht h headers (k headers j))"
    and "\<And>headers j p env w. \<not> owns p a w \<Longrightarrow> turned_away {400, 404} env w (k headers j p)"
proof -
  have "\<exists>k. serve ht dr h route = receive ht h (\<lambda>headers j. with_session ht h headers (k headers j))
      \<and> (\<forall>headers j p env w. \<not> owns p a w \<longrightarrow> turned_away {400, 404} env w (k headers j p))"
    using assms
    by (cases route)
       (simp_all add: session_routes with_row_id_def wrap_receive wrap_with_session,
        (rule exI, rule conjI, rule refl,
         auto simp: with_application_id_def reply_with_def intro!: turning_away)+)
  with that show thesis by blast
qed

text \<open>
  C16: Tenants of the dashboard are apart. Whatever route below an application is asked for, by whom and
  in whatever state: unless the person is signed in and the application is one of their
  organization's, not archived, the answer is a problem with status 400, 401, 403 or 404, the same
  as for an application that does not exist, and no table changes but for the expiry of dashboard
  sessions.
\<close>

theorem other_organizations_see_nothing:
  assumes "application_of route = Some a"
    and "\<And>p. signed_in_as ht env w h = Some p \<Longrightarrow> \<not> owns p a w"
  shows "\<exists>reply problem w'. run (serve ht dr h route) env w = (Returned reply, w')
    \<and> rp_body reply = ProblemBody problem \<and> rp_status reply \<in> {400, 401, 403, 404}
    \<and> only_sessions w w'"
proof -
  obtain k where serve: "serve ht dr h route = receive ht h (\<lambda>headers j. with_session ht h headers (k headers j))"
    and away: "\<And>headers j p env w. \<not> owns p a w \<Longrightarrow> turned_away {400, 404} env w (k headers j p)"
    using serve_below_application [OF assms(1)] by blast
  show ?thesis
  proof (cases "\<exists>j. parse_body ht h = Done j")
    case False
    then obtain m where "parse_body ht h = Raise (bad_request m)"
      by (auto simp: parse_body_def split: option.splits sum.splits if_splits)
    then show ?thesis
      by (auto simp: serve receive_def run_guarded bad_request_def refuse_http refusal_def
          intro: only_sessions_refl)
  next
    case True
    then obtain j where j: "parse_body ht h = Done j" by blast
    show ?thesis
    proof (rule run_session_guard [of ht h env w])
      fix st er m w'
      assume "run (dashboard_session_guard ht (ht_auth ht) h) env w = (Threw (HttpException st er m), w')"
        "st \<in> {401, 403}" "only_sessions w w'"
      with j show ?thesis
        by (auto simp: serve receive_def run_guarded with_session_def refuse_http refusal_def)
    next
      fix p w' assume p: "signed_in_as ht env w h = Some p" "only_sessions w w'"
        and r: "run (dashboard_session_guard ht (ht_auth ht) h) env w = (Returned p, w')"
      have "\<not> owns p a w'"
        using assms(2) [OF p(1)] only_sessions_applications [OF p(2)] by (simp add: owns_def)
      from away [OF this, of env "correlation_headers h" j] show ?thesis
        using j r p(2) by (auto simp: turned_away_def serve receive_def run_guarded with_session_def)
    qed
  qed
qed

section \<open>Instances\<close>

lemma nobody_signed_in: "signed_in_as ht env w bare_call = None"
  by (simp add: signed_in_as_def bare_call_def)

theorem forged_requests_change_nothing_witness:
  "\<exists>reply w'. run (serve example_http example_draws bare_call (DeleteApplication ''app'')) example_env example_world
      = (Returned reply, w') \<and> rp_status reply = 401 \<and> only_sessions example_world w'"
proof -
  have "behind_session (DeleteApplication ''app'')" by simp
  from forged_requests_change_nothing [OF this, of example_http example_env example_world bare_call example_draws]
  show ?thesis by (simp add: nobody_signed_in)
qed

theorem other_organizations_see_nothing_witness:
  "\<exists>reply problem w'. run (serve example_http example_draws bare_call (GetApiKeys ''app'')) example_env example_world
      = (Returned reply, w') \<and> rp_body reply = ProblemBody problem \<and> rp_status reply \<in> {400, 401, 403, 404}
      \<and> only_sessions example_world w'"
  by (rule other_organizations_see_nothing) (simp_all add: nobody_signed_in)

end
