(* ===== verification/Api_Acceptance.thy ===== *)
theory Api_Acceptance
  imports Dashboard_Access Request_Properties
begin

text \<open>
  What the status of an answer means for the tables: 202 says that a notification is on file and
  queued, anything else that nothing was created. The guards, the pipes and the service are walked
  through in the order the route has them.
\<close>

section \<open>Walking through a route\<close>

definition ends :: "env \<Rightarrow> world \<Rightarrow> ('b http_reply \<Rightarrow> world \<Rightarrow> bool) \<Rightarrow> 'b http_reply prog \<Rightarrow> bool" where
  "ends env w post p =
     (case run p env w of (Returned reply, w') \<Rightarrow> post reply w' | (Threw e, w') \<Rightarrow> False)"

text \<open>A problem, with the status of an error.\<close>

definition is_problem :: "'b http_reply \<Rightarrow> bool" where
  "is_problem reply = ((\<exists>problem. rp_body reply = ProblemBody problem) \<and> 400 \<le> rp_status reply)"

lemma ends_refuse:
  assumes "answerable e" and "\<And>reply. is_problem reply \<Longrightarrow> post reply w"
  shows "ends env w post (refuse ht h headers e)"
  using assms
  by (cases e) (auto simp: ends_def refuse_def to_problem_details_def is_problem_def answerable_def
      Let_def split: option.splits dest: table_statuses)

lemma ends_guarded:
  assumes "\<And>x w'. run p env w = (Returned x, w') \<Longrightarrow> ends env w' post (k x)"
    and "\<And>e w' reply. run p env w = (Threw e, w') \<Longrightarrow> is_problem reply \<Longrightarrow> post reply w'"
    and "answers_for p"
  shows "ends env w post (guarded ht h headers p k)"
proof (cases "run p env w")
  case (Pair out w')
  show ?thesis
  proof (cases out)
    case (Returned x)
    with Pair assms(1) show ?thesis by (simp add: ends_def run_guarded)
  next
    case (Threw e)
    have "answerable e"
      using safe_run_exn [OF _ assms(3), where w = w and env = env and e = e] Pair Threw by (simp add: blind_to_calls_def)
    moreover have "\<And>reply. is_problem reply \<Longrightarrow> post reply w'"
      using assms(2) Pair Threw by blast
    ultimately show ?thesis
      using Pair Threw ends_refuse [of e post w' env ht h headers] by (simp add: ends_def run_guarded)
  qed
qed

section \<open>What does not create\<close>

text \<open>The tables a creation writes to are as they were.\<close>

definition nothing_created :: "world \<Rightarrow> world \<Rightarrow> bool" where
  "nothing_created w w' =
     (w_notifications w' = w_notifications w \<and> w_events w' = w_events w \<and> w_jobs w' = w_jobs w
      \<and> w_sessions w' = w_sessions w)"

lemma nothing_created_touch [simp]: "nothing_created w (touch_last_used i now w)"
  by (simp add: nothing_created_def touch_last_used_def)

lemma nothing_created_identifiers: "only_identifiers w w' \<Longrightarrow> nothing_created w w'"
  by (auto simp: only_identifiers_def nothing_created_def)

lemma nothing_created_trans: "nothing_created u v \<Longrightarrow> nothing_created v w \<Longrightarrow> nothing_created u w"
  by (simp add: nothing_created_def)

lemma run_rate_guard:
  "nothing_created w (snd (run (api_key_rate_limit_guard ht caller) env w))"
proof -
  have "nothing_created w w'" if "consume_attempt subject policy ok now w = Inr (x, w')" for subject policy ok now x w'
    using that by (auto simp: consume_attempt_def consume_rate_limit_def Let_def nothing_created_def
        split: if_splits option.splits sum.splits)
  moreover have "nothing_created w w" by (simp add: nothing_created_def)
  ultimately show ?thesis
    by (auto simp: api_key_rate_limit_guard_def read_policy_def get_application_or_fail_def run_bind
        consume_def step_simps split: option.splits sum.splits outcome.splits)
qed

lemma run_api_key_guard:
  assumes "distinct (map ak_key_identifier (w_api_keys w))" and "distinct (map ap_id (w_applications w))"
    and "run (api_key_guard (ht_keys ht) [s] h) env w = (out, w')"
  shows "nothing_created w w'"
    and "out = Returned caller \<Longrightarrow> \<exists>k a. presents ht w h k a \<and> caller = key_principal k a"
proof -
  have kept: "nothing_created w w" by (simp add: nothing_created_def)
  show "nothing_created w w'"
  proof (cases "\<exists>k a. presents ht w h k a")
    case True
    with run_guard_present [OF assms(1,2)] assms(3) show ?thesis by (auto split: if_splits)
  next
    case False
    with run_guard_absent [of ht w h s env] assms(3) kept show ?thesis by auto
  qed
  show "\<exists>k a. presents ht w h k a \<and> caller = key_principal k a" if "out = Returned caller"
  proof (rule ccontr)
    assume none: "\<not> (\<exists>k a. presents ht w h k a \<and> caller = key_principal k a)"
    show False
    proof (cases "\<exists>k a. presents ht w h k a")
      case True
      then obtain k a where p: "presents ht w h k a" by blast
      with run_guard_present [OF assms(1,2) p, of s env] assms(3) that none show False
        by (auto split: if_splits)
    next
      case False
      with run_guard_absent [of ht w h s env] assms(3) that show False by auto
    qed
  qed
qed

lemma run_pipes:
  "run (zod_validation_pipe subject schema j) env w = (Returned x, w') \<longleftrightarrow> schema j = Some x \<and> w' = w"
  "run (zod_validation_pipe subject schema j) env w = (Threw e, w') \<Longrightarrow> w' = w"
  "run (idempotency_key_pipe key) env w = (Returned y, w') \<Longrightarrow> w' = w"
  "run (idempotency_key_pipe key) env w = (Threw e, w') \<Longrightarrow> w' = w"
  by (auto simp: zod_validation_pipe_def idempotency_key_pipe_def split: option.splits)

section \<open>Accepted means recorded\<close>

definition was_replayed :: "'b http_reply \<Rightarrow> bool" where
  "was_replayed reply = ((''idempotent-replayed'', ''true'') \<in> set (rp_headers reply))"

text \<open>
  The reply tells what became of a request to create: with 202 and not marked as a replay, one
  notification of the key's application was appended, with the recipient, the text, the connection, the
  schedule, the limit of attempts and the metadata of the body, and with a job of its own where the queue
  refuses duplicates only; the reply shows it. With anything else nothing was created.
\<close>

definition told_truly ::
  "http_runtime \<Rightarrow> http_input \<Rightarrow> json option \<Rightarrow> world \<Rightarrow> notification_response http_reply \<Rightarrow> world \<Rightarrow> bool" where
  "told_truly ht h content w reply w' =
     (if rp_status reply = 202 \<and> \<not> was_replayed reply
      then \<exists>n k a recipient body input. rp_body reply = Payload (to_notification_response n)
        \<and> presents ht w h k a
        \<and> notification_creation_request_schema (ht_formats ht) content = Some (recipient, body)
        \<and> rq_application_id input = ap_id a \<and> rq_body input = mr_body body
        \<and> rq_session_id input = mr_session_id body
        \<and> rq_scheduled_at input = map_option (fm_read_date (ht_formats ht)) (mr_scheduled_at body)
        \<and> rq_maximum_attempts input = mr_maximum_attempts body \<and> rq_metadata input = mr_metadata body
        \<and> as_asked input recipient (resolve_correlation_id h) n w \<and> recorded (ht_config ht) n w w'
      else nothing_created w w')"

lemma told_truly_problem: "is_problem reply \<Longrightarrow> nothing_created w w' \<Longrightarrow> told_truly ht h content w reply w'"
  by (auto simp: told_truly_def is_problem_def)

lemma as_asked_kept: "nothing_created w v \<Longrightarrow> as_asked input recipient corr n v = as_asked input recipient corr n w"
  by (simp add: nothing_created_def as_asked_def goes_over_def Let_def list_sessions_for_application_def)

lemma recorded_kept: "nothing_created w v \<Longrightarrow> recorded c n v w' = recorded c n w w'"
  by (simp add: nothing_created_def recorded_def)

lemma told_truly_accepted:
  assumes "presents ht w h k a" and "nothing_created w w1"
    and schema: "notification_creation_request_schema (ht_formats ht) content = Some (recipient, body)"
    and run: "run (create (ht_config ht) (in_scope_of ht h)
        (to_creation_input (ht_formats ht) (ap_id a) body key path) recipient) env w1
      = (Returned (n, replayed), w')"
    and headers: "(''idempotent-replayed'', ''true'') \<notin> set headers"
  shows "ends env w' (told_truly ht h content w) (accepted headers (to_notification_response n, replayed))"
proof -
  let ?input = "to_creation_input (ht_formats ht) (ap_id a) body key path"
  have parsed: "parse_phone_number recipient = Inr recipient"
    using schema by (auto simp: notification_creation_request_schema_def object_Some bind_eq_Some_conv
        required_Some intro: recipient_schema_parses)
  have effect: "if replayed then only_identifiers w1 w' else
      created_as_asked (ht_config ht) ?input recipient (resolve_correlation_id h) n w1 w'"
    using creation_effect [where c = "ht_config ht" and rt = "in_scope_of ht h" and input = ?input
        and to = recipient and env = env and w = w1] run parsed
    by (auto simp: in_scope_of_def split: if_splits)
  show ?thesis
  proof (cases replayed)
    case True
    with effect have "nothing_created w w'"
      using nothing_created_trans [OF assms(2) nothing_created_identifiers] by simp
    with True show ?thesis
      by (simp add: ends_def accepted_def answer_def told_truly_def was_replayed_def replay_headers_def)
  next
    case False
    with effect have row: "as_asked ?input recipient (resolve_correlation_id h) n w" "recorded (ht_config ht) n w w'"
      using as_asked_kept [OF assms(2)] recorded_kept [OF assms(2)] by (simp_all add: created_as_asked_def)
    have "told_truly ht h content w (answer 202 headers (to_notification_response n)) w'"
      using assms(1) schema headers row
      by (auto simp: told_truly_def answer_def was_replayed_def to_creation_input_def
          intro!: exI [of _ n] exI [of _ k] exI [of _ a] exI [of _ recipient] exI [of _ body] exI [of _ ?input])
    with False show ?thesis
      by (simp add: ends_def accepted_def replay_headers_def)
  qed
qed

lemma headers_not_replayed:
  "(''idempotent-replayed'', ''true'') \<notin> set (correlation_headers h @ rate_limit_headers outcome)"
  by (simp add: correlation_headers_def rate_limit_headers_def)

lemma answers_rate_guard: "answers_for (api_key_rate_limit_guard ht caller)"
  by (auto simp: api_key_rate_limit_guard_def read_policy_def
      intro!: answers_bind answers_find_application answers_consume)

text \<open>The stages of the route, from the last to the first.\<close>

lemma truly_created:
  assumes "presents ht w h k a" and "nothing_created w w1"
    and "notification_creation_request_schema (ht_formats ht) content = Some (recipient, body)"
    and "(''idempotent-replayed'', ''true'') \<notin> set headers"
  shows "ends env w1 (told_truly ht h content w) (guarded ht h headers
    (create (ht_config ht) (in_scope_of ht h) (to_creation_input (ht_formats ht) (ap_id a) body key path) recipient)
    (\<lambda>(n, replayed). accepted headers (to_notification_response n, replayed)))"
proof (rule ends_guarded [OF _ _ answers_create])
  fix x w'
  assume r: "run (create (ht_config ht) (in_scope_of ht h) (to_creation_input (ht_formats ht) (ap_id a) body key path) recipient) env w1 = (Returned x, w')"
  obtain n replayed where x: "x = (n, replayed)" by (cases x)
  show "ends env w' (told_truly ht h content w)
      (case x of (n, replayed) \<Rightarrow> accepted headers (to_notification_response n, replayed))"
    unfolding x prod.case by (rule told_truly_accepted [OF assms(1-3) r [unfolded x] assms(4)])
next
  fix e w' and reply :: "notification_response http_reply"
  assume "run (create (ht_config ht) (in_scope_of ht h) (to_creation_input (ht_formats ht) (ap_id a) body key path) recipient) env w1 = (Threw e, w')"
    and problem: "is_problem reply"
  then have "nothing_created w1 w'"
    using creation_effect [where c = "ht_config ht" and rt = "in_scope_of ht h"
          and input = "to_creation_input (ht_formats ht) (ap_id a) body key path"
        and to = recipient and env = env and w = w1] by (simp add: nothing_created_identifiers)
  then show "told_truly ht h content w reply w'"
    by (rule told_truly_problem [OF problem nothing_created_trans [OF assms(2)]])
qed

lemma truly_validated:
  assumes "presents ht w h k a" and kept: "nothing_created w w1"
    and headers: "(''idempotent-replayed'', ''true'') \<notin> set headers"
  shows "ends env w1 (told_truly ht h content w)
    (guarded ht h headers (zod_validation_pipe subject
        (notification_creation_request_schema (ht_formats ht)) content) (\<lambda>(recipient, body).
     guarded ht h headers (idempotency_key_pipe supplied) (\<lambda>key.
     guarded ht h headers (create (ht_config ht) (in_scope_of ht h) (to_creation_input (ht_formats ht) (ap_id a) body key path) recipient)
       (\<lambda>(n, replayed). accepted headers (to_notification_response n, replayed)))))"
proof (rule ends_guarded [OF _ _ answers_pipes(1)])
  fix x w' assume "run (zod_validation_pipe subject
    (notification_creation_request_schema (ht_formats ht)) content) env w1 = (Returned x, w')"
  then obtain recipient body where w': "w' = w1" and x: "x = (recipient, body)"
    and read: "notification_creation_request_schema (ht_formats ht) content = Some (recipient, body)"
    by (cases x) (simp add: run_pipes)
  show "ends env w' (told_truly ht h content w) (case x of (recipient, body) \<Rightarrow>
     guarded ht h headers (idempotency_key_pipe supplied) (\<lambda>key.
     guarded ht h headers (create (ht_config ht) (in_scope_of ht h) (to_creation_input (ht_formats ht) (ap_id a) body key path) recipient)
       (\<lambda>(n, replayed). accepted headers (to_notification_response n, replayed))))"
    unfolding w' x prod.case
    by (rule ends_guarded [OF _ _ answers_pipes(3)])
       (use truly_created [OF assms(1) kept read headers] told_truly_problem [OF _ kept] in
          \<open>auto dest: run_pipes(3,4)\<close>)
qed (use told_truly_problem [OF _ kept] in \<open>auto dest: run_pipes(2)\<close>)

lemma truly_limited:
  assumes "presents ht w h k a" and kept: "nothing_created w w1"
    and k: "\<And>outcome w'. nothing_created w w' \<Longrightarrow> ends env w' (told_truly ht h content w)
      (q (correlation_headers h @ rate_limit_headers outcome))"
  shows "ends env w1 (told_truly ht h content w)
    (guarded ht h (correlation_headers h) (api_key_rate_limit_guard ht caller) (\<lambda>outcome.
     let metered = correlation_headers h @ rate_limit_headers outcome
     in if rd_is_allowed (ro_decision outcome) then q metered
        else refuse ht h (metered @ retry_after_header outcome) (api_key_limited outcome)))"
proof (rule ends_guarded [OF _ _ answers_rate_guard])
  have after: "nothing_created w w'" if "run (api_key_rate_limit_guard ht caller) env w1 = (out, w')" for out w'
    using run_rate_guard [of w1 ht caller env] that nothing_created_trans [OF kept] by simp
  show "ends env w' (told_truly ht h content w)
    (let metered = correlation_headers h @ rate_limit_headers x
     in if rd_is_allowed (ro_decision x) then q metered
        else refuse ht h (metered @ retry_after_header x) (api_key_limited x))"
    if "run (api_key_rate_limit_guard ht caller) env w1 = (Returned x, w')" for x w'
    using k [OF after [OF that]] told_truly_problem [OF _ after [OF that]]
    by (auto simp: Let_def api_key_limited_def intro!: ends_refuse)
  show "told_truly ht h content w reply w'"
    if "run (api_key_rate_limit_guard ht caller) env w1 = (Threw e, w')" and "is_problem reply" for e w' reply
    using told_truly_problem [OF that(2) after [OF that(1)]] .
qed

text \<open>
  C17: The status tells the truth. The route that creates a notification, running alone, always answers,
  and when it answers 202 and does not mark the answer as a replay, exactly one notification was appended:
  for the application of a good key the request carries, over the connection the body names or else the best
  of that application, with the recipient, the text, the schedule, the limit of attempts and the metadata the
  schema read from the body, together with one timeline entry and - on a queue that refuses duplicates
  only - one job to send it, and the answer shows that notification. With any other answer no
  notification, no timeline entry and no job was written.
\<close>

theorem accepted_notifications_are_recorded:
  assumes "distinct (map ak_key_identifier (w_api_keys w))" and "distinct (map ap_id (w_applications w))"
  shows "\<exists>reply w'. run (notifications_create ht h) env w = (Returned reply, w')
    \<and> told_truly ht h (case parse_body ht h of Done j \<Rightarrow> j | _ \<Rightarrow> None) w reply w'"
proof -
  define content where "content = (case parse_body ht h of Done j \<Rightarrow> j | _ \<Rightarrow> None)"
  have none: "nothing_created w w" by (simp add: nothing_created_def)
  have "ends env w (told_truly ht h content w) (notifications_create ht h)"
    unfolding notifications_create_def receive_def with_api_key_def
  proof (rule ends_guarded [OF _ _ answers_parse], goal_cases)
    case (1 j w0)
    then have w0: "w0 = w" and j: "j = content"
      by (auto simp: content_def parse_body_def split: option.splits sum.splits if_splits)
    show ?case
      unfolding w0 j
    proof (rule ends_guarded [OF _ _ answers_api_key_guard], goal_cases)
      case (1 caller w1)
      note guard = run_api_key_guard [OF assms 1]
      from guard(2) [OF refl] obtain k a where p: "presents ht w h k a" and caller: "caller = key_principal k a"
        by blast
      have id: "kp_application_id caller = ap_id a" by (simp add: caller key_principal_def)
      show ?case
        by (rule truly_limited [OF p guard(1)], unfold id)
           (rule truly_validated [OF p _ headers_not_replayed])
    next
      case (2 e w1 reply)
      show ?case by (rule told_truly_problem [OF 2(2) run_api_key_guard(1) [OF assms 2(1)]])
    qed
  next
    case (2 e w1 reply)
    with run_parse_body(1) told_truly_problem [OF 2(2) none] show ?case by blast
  qed
  then show ?thesis
    by (auto simp: ends_def content_def split: prod.splits outcome.splits)
qed

section \<open>A request that is accepted\<close>

definition posted_body :: json where
  "posted_body = JObj [(''recipient'', JStr ''+5511999998888''), (''body'', JStr ''Hello''),
     (''maximumAttempts'', JNum 3), (''metadata'', JObj [(''order'', JStr ''7'')])]"

definition posting_http :: http_runtime where
  "posting_http = example_http\<lparr>ht_limiter_reachable := False, ht_parse_json := (\<lambda>s. Inr posted_body)\<rparr>"

definition posting_call :: http_input where
  "posting_call = keyed_call\<lparr>hi_content := Some ''{}''\<rparr>"

definition posted_message :: message_request where
  "posted_message = \<lparr>mr_body = ''Hello'', mr_session_id = None, mr_scheduled_at = None,
     mr_maximum_attempts = Some 3, mr_metadata = [(''order'', ''7'')]\<rparr>"

lemma posted_schema:
  "notification_creation_request_schema example_formats (Some posted_body) = Some (''+5511999998888'', posted_message)"
  by code_simp

lemma posted_creation:
  "case run (create example_config (in_scope_of posting_http posting_call)
       (to_creation_input example_formats ''app'' posted_message None ''/v1/notifications'') ''+5511999998888'')
       example_env (touch_last_used ''k1'' 1000000 keys_world) of
     (Returned (n, replayed), w') \<Rightarrow> \<not> replayed | _ \<Rightarrow> False"
  by code_simp

lemma run_caught: "run p env w = (Returned x, w') \<Longrightarrow> run (caught p) env w = (Returned (Inr x), w')"
  by (induction p arbitrary: w) simp_all

lemma run_past_guard:
  assumes "run p env w = (Returned x, w')"
  shows "run (guarded ht h headers p k) env w = run (k x) env w'"
  using run_caught [OF assms] by (simp add: guarded_def run_bind)

lemma posting_simps:
  "ht_keys posting_http = example_key_runtime" "ht_config posting_http = example_config"
  "ht_formats posting_http = example_formats" "\<not> ht_limiter_reachable posting_http"
  "parse_body posting_http posting_call = Done (Some posted_body)" "hi_idempotency_key posting_call = None"
  by (simp_all add: posting_http_def posting_call_def parse_body_def keyed_call_def bare_call_def example_http_def)

lemma posted_is_accepted:
  "\<exists>reply w'. run (notifications_create posting_http posting_call) example_env keys_world = (Returned reply, w')
    \<and> rp_status reply = 202 \<and> \<not> was_replayed reply"
proof -
  let ?w = "touch_last_used ''k1'' 1000000 keys_world"
  have presents: "presents posting_http keys_world posting_call example_key example_application"
    using example_key_opens by (auto simp: presents_def posting_simps posting_call_def keyed_call_def)
  have clock: "w_clock keys_world = 1000000" by (simp add: keys_world_def example_world_def)
  have guard: "run (api_key_guard example_key_runtime [NOTIFICATIONS_WRITE] posting_call) example_env keys_world
      = (Returned (key_principal example_key example_application), ?w)"
    using run_guard_present [OF keys_world_unique presents, of NOTIFICATIONS_WRITE example_env]
    by (simp add: posting_simps clock) (simp add: example_key_def)
  obtain outcome where limit: "run (api_key_rate_limit_guard posting_http (key_principal example_key example_application))
      example_env ?w = (Returned outcome, ?w)" and allowed: "rd_is_allowed (ro_decision outcome)"
  proof -
    have "w_applications ?w = [example_application]"
      by (simp add: touch_last_used_def keys_world_def example_world_def)
    then have "find_application ''org'' ''app'' ?w = Some example_application"
      by (simp add: find_application_def is_own_application_def sql_first_def example_application_def)
    then show thesis
      using that
      by (simp add: api_key_rate_limit_guard_def read_policy_def get_application_or_fail_def run_bind consume_def
          step_simps consume_attempt_def posting_simps Let_def key_principal_def example_application_def)
  qed
  obtain n w' where created: "run (create example_config (in_scope_of posting_http posting_call)
       (to_creation_input example_formats ''app'' posted_message None ''/v1/notifications'') ''+5511999998888'')
       example_env ?w = (Returned (n, False), w')"
    using posted_creation by (auto split: prod.splits outcome.splits)
  have app: "kp_application_id (key_principal example_key example_application) = ''app''"
    by (simp add: key_principal_def example_application_def)
  have schema: "run (zod_validation_pipe ''request body'' (notification_creation_request_schema example_formats)
      (Some posted_body)) example_env ?w = (Returned (''+5511999998888'', posted_message), ?w)"
    by (simp add: zod_validation_pipe_def posted_schema)
  have key: "run (idempotency_key_pipe None) example_env ?w = (Returned None, ?w)"
    by (simp add: idempotency_key_pipe_def zod_validation_pipe_def idempotency_key_schema_def optional_def)
  have parsed: "run (Done (Some posted_body)) example_env keys_world = (Returned (Some posted_body), keys_world)"
    by simp
  have "run (notifications_create posting_http posting_call) example_env keys_world
      = (Returned (answer 202 (correlation_headers posting_call @ rate_limit_headers outcome) (to_notification_response n)), w')"
    unfolding notifications_create_def receive_def with_api_key_def posting_simps
    unfolding run_past_guard [OF parsed] run_past_guard [OF guard] run_past_guard [OF limit] Let_def
    using allowed
    by (simp add: run_past_guard [OF schema] run_past_guard [OF key] run_past_guard [OF created] app accepted_def
        replay_headers_def)
  then show ?thesis
    using headers_not_replayed by (simp add: answer_def was_replayed_def)
qed

theorem accepted_notifications_are_recorded_witness:
  "\<exists>reply w' n. run (notifications_create posting_http posting_call) example_env keys_world = (Returned reply, w')
    \<and> rp_status reply = 202 \<and> w_notifications w' = w_notifications keys_world @ [n]
    \<and> n_maximum_attempts n = 3 \<and> n_metadata n = [(''order'', ''7'')]
    \<and> n_session_id n = ''s1'' \<and> length (w_jobs w') = 1"
proof -
  obtain reply w' where run: "run (notifications_create posting_http posting_call) example_env keys_world = (Returned reply, w')"
    and status: "rp_status reply = 202" "\<not> was_replayed reply"
    using posted_is_accepted by blast
  then have "told_truly posting_http posting_call (Some posted_body) keys_world reply w'"
    using accepted_notifications_are_recorded [OF keys_world_unique, of posting_http posting_call example_env]
    by (simp add: posting_simps)
  with status obtain n recipient body and input :: notification_request and a :: application where
    read: "notification_creation_request_schema example_formats (Some posted_body) = Some (recipient, body)"
    and input: "rq_session_id input = mr_session_id body" "rq_maximum_attempts input = mr_maximum_attempts body"
      "rq_metadata input = mr_metadata body" "rq_application_id input = ap_id a"
    and row: "as_asked input recipient (resolve_correlation_id posting_call) n keys_world"
    and rec: "recorded example_config n keys_world w'"
    unfolding told_truly_def posting_simps by simp blast
  have body: "rq_session_id input = None" "rq_maximum_attempts input = Some 3" "rq_metadata input = [(''order'', ''7'')]"
    using input read posted_schema by (auto simp: posted_message_def)
  have none: "w_jobs keys_world = []" and sessions: "w_sessions keys_world = [example_session]"
    by (simp_all add: keys_world_def example_world_def)
  have "n_session_id n = ''s1''"
    using row by (auto simp: as_asked_def goes_over_def Let_def list_sessions_for_application_def sessions
        list_ex_iff example_session_def split: if_splits)
  moreover have "length (w_jobs w') = 1"
    using rec by (auto simp: recorded_def none filed_under_key_def example_queue_keeps_the_rule)
  ultimately show ?thesis
    using run status row rec body by (auto simp: as_asked_def recorded_def)
qed

end
