(* ===== verification/Tenant_Isolation.thy ===== *)
theory Tenant_Isolation
  imports Api_Acceptance
begin

text \<open>
  What a request with an API key can touch: the rows of the key's own application. First that every
  effect of every service it reaches confines itself to that application, in every interleaving;
  then that what it reads does not depend on the rows of any other.
\<close>

section \<open>The frame\<close>

text \<open>
  Everything that belongs to another application stays: its notifications, their timelines and
  idempotency keys; and the tables a key cannot write at all stay as they are, but for the stamp of
  the last use of the key itself and the rate limiter's bucket of that key. New jobs are for the application.
\<close>

definition unstamped :: "uuid \<Rightarrow> api_key \<Rightarrow> api_key" where
  "unstamped kid k = (if ak_id k = kid then k\<lparr>ak_last_used_at := None\<rparr> else k)"

definition tenant_only :: "uuid \<Rightarrow> uuid \<Rightarrow> world \<Rightarrow> world \<Rightarrow> bool" where
  "tenant_only a kid w w' =
     (filter (\<lambda>r. n_application_id r \<noteq> a) (w_notifications w')
        = filter (\<lambda>r. n_application_id r \<noteq> a) (w_notifications w)
      \<and> filter (\<lambda>e. e_application_id e \<noteq> a) (w_events w') = filter (\<lambda>e. e_application_id e \<noteq> a) (w_events w)
      \<and> filter (\<lambda>k. k_application_id k \<noteq> a) (w_idempotency_keys w')
        = filter (\<lambda>k. k_application_id k \<noteq> a) (w_idempotency_keys w)
      \<and> w_attempts w' = w_attempts w \<and> w_sessions w' = w_sessions w \<and> w_deliveries w' = w_deliveries w
      \<and> w_applications w' = w_applications w \<and> w_organizations w' = w_organizations w
      \<and> w_users w' = w_users w \<and> w_user_sessions w' = w_user_sessions w
      \<and> map (unstamped kid) (w_api_keys w') = map (unstamped kid) (w_api_keys w)
      \<and> filter (\<lambda>b. b_subject b \<noteq> ''apikey:'' @ kid) (w_buckets w')
        = filter (\<lambda>b. b_subject b \<noteq> ''apikey:'' @ kid) (w_buckets w)
      \<and> (\<exists>js. w_jobs w' = w_jobs w @ js \<and> (\<forall>j \<in> set js. j_application_id j = Some a)))"

text \<open>
  The identifier is that of one key, which is the application's; the locks of idempotency claims are identifiers
  handed out before; the ones reserved by a transaction are on keys of the application only.
\<close>

definition pinned :: "config \<Rightarrow> string \<Rightarrow> uuid \<Rightarrow> uuid \<Rightarrow> uuid set \<Rightarrow> world \<Rightarrow> bool" where
  "pinned c i kid a reserved w =
     ((\<forall>k \<in> set (w_api_keys w). ak_key_identifier k = i \<longrightarrow> ak_id k = kid \<and> ak_application_id k = a)
      \<and> reserved \<subseteq> c_identifier c ` {..< w_next_identifier w}
      \<and> (\<forall>k \<in> set (w_idempotency_keys w). k_lock_token k \<in> c_identifier c ` {..< w_next_identifier w}
           \<and> (k_lock_token k \<in> reserved \<longrightarrow> k_application_id k = a)))"

lemma tenant_only_refl [simp]: "tenant_only a kid w w"
  by (simp add: tenant_only_def)

lemma tenant_only_trans: "tenant_only a kid u v \<Longrightarrow> tenant_only a kid v w \<Longrightarrow> tenant_only a kid u w"
  by (auto simp: tenant_only_def)

interpretation isolation: effect_frame "pinned c i kid a reserved" "tenant_only a kid" answerable for c i kid a reserved
  by unfold_locales (auto intro: tenant_only_trans)

context effect_frame
begin

lemma commits_bind_of:
  assumes t: "commits I G E t"
    and k: "\<And>w r w'. I w \<Longrightarrow> t w = Inr (r, w') \<Longrightarrow> commits I G E (k r)"
  shows "commits I G E (tx_bind t k)"
proof (rule commitsI)
  fix w r w' assume w: "I w" and "tx_bind t k w = Inr (r, w')"
  then obtain q v where qv: "t w = Inr (q, v)" "k q v = Inr (r, w')"
    by (elim tx_bind_InrE)
  with commitsD(1) [OF t w] have v: "I v" "G w v" by auto
  from commitsD(1) [OF k [OF w qv(1)] v(1) qv(2)] v(2) show "I w' \<and> G w w'"
    using further by blast
next
  fix w e assume w: "I w" and e: "tx_bind t k w = Inl e"
  show "E e"
  proof (cases "t w")
    case (Inl e')
    with e commitsD(2) [OF t w] show ?thesis by (simp add: tx_bind_def)
  next
    case (Inr p)
    then obtain q v where qv: "t w = Inr (q, v)" by (cases p) auto
    with commitsD(1) [OF t w] have "I v" by auto
    with e qv commitsD(2) [OF k [OF w qv]] show ?thesis by (simp add: tx_bind_def)
  qed
qed

lemma commits_for_each: "(\<And>x. x \<in> set xs \<Longrightarrow> commits I G E (f x)) \<Longrightarrow> commits I G E (tx_for_each f xs)"
  by (induction xs) (auto intro!: commits_bind)

end

abbreviation confined :: "config \<Rightarrow> string \<Rightarrow> uuid \<Rightarrow> uuid \<Rightarrow> uuid set \<Rightarrow> 'r tx \<Rightarrow> bool" where
  "confined c i kid a reserved \<equiv> commits (pinned c i kid a reserved) (tenant_only a kid) answerable"

lemma filter_update_other:
  assumes "\<And>r. r \<in> set rows \<Longrightarrow> p r \<Longrightarrow> q r = a \<and> q (f r) = a"
  shows "filter (\<lambda>r. q r \<noteq> a) (sql_update p f rows) = filter (\<lambda>r. q r \<noteq> a) rows"
  using assms by (induction rows) (auto simp: sql_update_def)

lemma pinned_identifier: "pinned c i kid a T w \<Longrightarrow> pinned c i kid a T (w\<lparr>w_next_identifier := Suc (w_next_identifier w)\<rparr>)"
  by (auto simp: pinned_def lessThan_Suc)

lemma confined_identifier [simp]: "confined c i kid a T (new_identifier c)"
  by (auto simp: commits_def new_identifier_def pinned_identifier tenant_only_def)

lemma confined_update:
  assumes "\<And>r. p r \<Longrightarrow> n_application_id r = a \<and> n_application_id (f r) = a"
  shows "confined c i kid a T (update_notifications p f)"
proof (rule commitsI)
  fix w r w' assume w: "pinned c i kid a T w" and "update_notifications p f w = Inr (r, w')"
  then have "w' = w\<lparr>w_notifications := sql_update p f (w_notifications w)\<rparr>"
    by (blast dest: update_notifications_Inr(2))
  with w filter_update_other [where q = n_application_id and a = a and rows = "w_notifications w", OF assms]
  show "pinned c i kid a T w' \<and> tenant_only a kid w w'" by (simp add: tenant_only_def pinned_def)
qed (rule update_answerable)

lemma confined_statements:
  "n_application_id n = a \<Longrightarrow> confined c i kid a T (insert_notification n)"
  "e_application_id e = a \<Longrightarrow> confined c i kid a T (append_event e)"
  "j_application_id j = Some a \<Longrightarrow> confined c i kid a T (enqueue_in_transaction c j)"
  by (rule commitsI;
      auto simp: insert_notification_def append_event_def enqueue_in_transaction_def Let_def
        tenant_only_def pinned_def split: if_splits)+

section \<open>A reserved lock\<close>

text \<open>
  A transaction that claims a key draws a lock first. The lock is new, so no key of another application
  has it: from there on the transaction runs with the lock reserved.
\<close>

lemma pinned_reserve:
  assumes "pinned c i kid a {} w" and "inj (c_identifier c)"
  shows "pinned c i kid a {c_identifier c (w_next_identifier w)}
    (w\<lparr>w_next_identifier := Suc (w_next_identifier w)\<rparr>)"
proof -
  have "c_identifier c (w_next_identifier w) \<notin> c_identifier c ` {..< w_next_identifier w}"
    using assms(2) by (auto dest: injD)
  then have "k_lock_token k \<noteq> c_identifier c (w_next_identifier w)" if "k \<in> set (w_idempotency_keys w)" for k
    using assms(1) that unfolding pinned_def by metis
  then show ?thesis
    using assms(1) by (auto simp: pinned_def lessThan_Suc)
qed

lemma pinned_release: "pinned c i kid a T w \<Longrightarrow> pinned c i kid a {} w"
  by (auto simp: pinned_def)

lemma confined_reserving:
  assumes "inj (c_identifier c)" and "\<And>lock. confined c i kid a {lock} (k lock)"
  shows "confined c i kid a {} (tx_bind (new_identifier c) k)"
  unfolding commits_def
proof (intro allI impI)
  fix w assume w: "pinned c i kid a {} w"
  let ?w = "w\<lparr>w_next_identifier := Suc (w_next_identifier w)\<rparr>"
  have "case k (c_identifier c (w_next_identifier w)) ?w of Inl e \<Rightarrow> answerable e
      | Inr (r, w') \<Rightarrow> pinned c i kid a {c_identifier c (w_next_identifier w)} w' \<and> tenant_only a kid ?w w'"
    using assms(2) pinned_reserve [OF w assms(1)] unfolding commits_def by blast
  moreover have "tenant_only a kid ?w w' \<Longrightarrow> tenant_only a kid w w'" for w'
    by (simp add: tenant_only_def)
  ultimately show "case tx_bind (new_identifier c) k w of Inl e \<Rightarrow> answerable e
      | Inr (r, w') \<Rightarrow> pinned c i kid a {} w' \<and> tenant_only a kid w w'"
    by (auto simp: tx_bind_def new_identifier_def split: sum.splits dest: pinned_release)
qed

lemma tx_bind_assoc: "tx_bind (tx_bind t f) g = tx_bind t (\<lambda>x. tx_bind (f x) g)"
  by (auto simp: tx_bind_def fun_eq_iff split: sum.splits)

lemma confined_claim:
  assumes "ic_application_id input = a" and "ic_lock_token input \<in> T"
  shows "confined c i kid a T (repository_claim c input)"
proof (rule commitsI)
  fix w r w' assume w: "pinned c i kid a T w" and r: "repository_claim c input w = Inr (r, w')"
  have "ic_lock_token input \<in> c_identifier c ` {..< w_next_identifier w}"
    using w assms(2) by (auto simp: pinned_def)
  then show "pinned c i kid a T w' \<and> tenant_only a kid w w'"
    using w r assms(1)
    by (auto simp: repository_claim_def tx_bind_def new_identifier_def pinned_def tenant_only_def
        lessThan_Suc split: option.splits if_splits)
qed (rule commitsD(2) [OF fails_well_statements(5)], simp_all)

lemma claim_token:
  "repository_claim c input w = Inr (KeyClaimed key_id lock, w') \<Longrightarrow> lock = ic_lock_token input"
  by (auto simp: repository_claim_def tx_bind_def new_identifier_def conflicting_claim_def
      split: option.splits if_splits)

lemma confined_complete:
  assumes "lock \<in> T"
  shows "confined c i kid a T (repository_complete key_id lock st body res now)"
proof (rule commitsI)
  fix w r w' assume w: "pinned c i kid a T w" and r: "repository_complete key_id lock st body res now w = Inr (r, w')"
  have "\<And>k. k \<in> set (w_idempotency_keys w) \<Longrightarrow> k_lock_token k = lock \<Longrightarrow> k_application_id k = a"
    using w assms by (auto simp: pinned_def)
  then have "filter (\<lambda>k. k_application_id k \<noteq> a) (sql_update (\<lambda>k. k_id k = key_id \<and> k_lock_token k = lock)
      (\<lambda>k. k\<lparr>k_state := COMPLETED, k_response_status := Some st, k_response_body := Some body,
             k_resource_id := res, k_completed_at := Some now\<rparr>) (w_idempotency_keys w))
      = filter (\<lambda>k. k_application_id k \<noteq> a) (w_idempotency_keys w)"
    by (intro filter_update_other) auto
  with w r show "pinned c i kid a T w' \<and> tenant_only a kid w w'"
    by (auto simp: repository_complete_def pinned_def tenant_only_def sql_update_def)
qed (simp add: repository_complete_def)

lemmas confined_intros =
  isolation.commits_bind confined_identifier confined_statements confined_claim confined_complete
  confined_update

lemma confined_reads:
  "confined c i kid a T (resolve_session b s)" "confined c i kid a T (read_or_fail b n)"
  "confined c i kid a T (read_all_or_fail b ns)" "confined c i kid a T (query_read_or_fail b n)"
proof -
  have one: "confined c i kid a T (read_or_fail b n)" for n
    by (rule commitsI) (auto simp: read_or_fail_def split: option.splits)
  show "confined c i kid a T (resolve_session b s)"
    by (rule commitsI) (auto simp: resolve_session_def Let_def split: option.splits)
  show "confined c i kid a T (read_or_fail b n)" by (rule one)
  show "confined c i kid a T (read_all_or_fail b ns)"
    unfolding read_all_or_fail_def by (intro isolation.commits_for_each one)
  show "confined c i kid a T (query_read_or_fail b n)"
    by (rule commitsI) (auto simp: query_read_or_fail_def split: option.splits)
qed

lemma confined_throw: "answerable e \<Longrightarrow> confined c i kid a T (tx_throw e)"
  by (simp add: commits_def tx_throw_def)

lemma confined_write:
  "rq_application_id (nd_request d) = a \<Longrightarrow> confined c i kid a T (write_notification c d)"
  unfolding write_notification_def Let_def
  by (intro confined_intros isolation.commits_return) (simp_all add: drafted_notification_def Let_def)

lemma confined_complete_key: "lock \<in> T \<Longrightarrow> confined c i kid a T (complete_key key_id lock body res now)"
  by (auto simp: complete_key_def split: option.splits intro: confined_complete)

text \<open>
  Claiming, then whatever follows: what follows sees the reserved lock when the claim is fresh.
\<close>

lemma confined_claiming:
  assumes "inj (c_identifier c)" and app: "rq_application_id input = a"
    and completed: "\<And>T res body. confined c i kid a T (k (CompletedKey res body))"
    and fresh: "\<And>lock key_id. confined c i kid a {lock} (k (FreshKey key_id lock))"
  shows "confined c i kid a {} (tx_bind (claim_idempotency_key c input fp now) k)"
  unfolding claim_idempotency_key_def tx_bind_assoc
proof (rule confined_reserving [OF assms(1)])
  fix lock
  show "confined c i kid a {lock} (tx_bind (case rq_idempotency_key input of
       None \<Rightarrow> tx_return (FreshKey None lock)
     | Some key \<Rightarrow> tx_bind (repository_claim c
           \<lparr>ic_application_id = rq_application_id input, ic_key = key,
            ic_request_method = ''POST'', ic_request_path = rq_request_path input,
            ic_request_fingerprint = fp, ic_lock_token = lock,
            ic_expires_at = now + idempotency_window_hours * 3600000\<rparr>) (\<lambda>claim.
         case claim of
           KeyClaimed key_id token \<Rightarrow> tx_return (FreshKey (Some key_id) token)
         | KeyExists record \<Rightarrow>
             if k_request_fingerprint record \<noteq> fp
             then tx_throw (DomainError ''idempotency_key_reused''
               ''This Idempotency-Key was already used with a different request body.'')
             else if k_state record = COMPLETED
             then tx_return (CompletedKey (k_resource_id record) (k_response_body record))
             else tx_throw (DomainError ''idempotency_key_in_flight''
               ''A request with this Idempotency-Key is already being processed. Retry shortly.''))) k)"
  proof (cases "rq_idempotency_key input")
    case None
    with fresh show ?thesis by simp
  next
    case (Some key)
    show ?thesis
      unfolding Some option.case tx_bind_assoc
      by (rule isolation.commits_bind_of)
         (auto simp: app completed fresh confined_throw intro!: confined_claim
           dest: claim_token split: idempotency_claim.splits)
  qed
qed

lemma confined_create:
  assumes "inj (c_identifier c)" and "rq_application_id input = a"
  shows "confined c i kid a {} (create_transaction c input r fp corr n now)"
  unfolding create_transaction_def
  by (rule isolation.commits_bind [OF confined_reads(1)], rule confined_claiming [OF assms])
     (auto split: option.splits intro!: isolation.commits_bind confined_reads confined_throw
       confined_write confined_complete_key simp: assms(2))

lemma confined_create_batch:
  assumes "inj (c_identifier c)" and "rq_application_id input = a"
  shows "confined c i kid a {} (create_batch_transaction c input ds fp corr now)"
  unfolding create_batch_transaction_def
  by (rule isolation.commits_bind [OF confined_reads(1)], rule confined_claiming [OF assms])
     (auto split: sum.splits intro!: isolation.commits_bind isolation.commits_for_each confined_reads
       confined_throw confined_write confined_complete_key simp: assms(2) batch_ids_answerable)

lemma confined_cancel: "confined c i kid a T (cancel_transaction c corr a n st now)"
  unfolding cancel_transaction_def apply_transition_def not_cancellable_def
  by (auto split: option.splits simp: is_notification_def
      intro!: isolation.commits_bind confined_update confined_statements confined_throw)

section \<open>Services\<close>

abbreviation stays :: "config \<Rightarrow> string \<Rightarrow> uuid \<Rightarrow> uuid \<Rightarrow> ('a \<Rightarrow> bool) \<Rightarrow> 'a prog \<Rightarrow> bool" where
  "stays c i kid a \<equiv> safe (pinned c i kid a {}) (tenant_only a kid) answerable"

abbreviation stays_quietly :: "config \<Rightarrow> string \<Rightarrow> uuid \<Rightarrow> uuid \<Rightarrow> 'a prog \<Rightarrow> bool" where
  "stays_quietly c i kid a \<equiv> stays c i kid a (\<lambda>x. True)"

lemma stays_identified: "(\<And>n. stays c i kid a Q (k n)) \<Longrightarrow> stays c i kid a Q (next_identifier c k)"
  unfolding next_identifier_def by (rule isolation.safe_commits [OF confined_identifier])

lemma stays_correlated: "(\<And>n. stays c i kid a Q (k n)) \<Longrightarrow> stays c i kid a Q (with_correlation c rt k)"
  by (auto simp: with_correlation_def split: option.splits intro: stays_identified)

lemma touch_confined:
  assumes "pinned c i kid a {} w"
  shows "pinned c i kid a {} (touch_last_used kid now w) \<and> tenant_only a kid w (touch_last_used kid now w)"
  using assms by (auto simp: pinned_def tenant_only_def touch_last_used_def sql_update_def unstamped_def)

lemma stays_authenticate:
  assumes "try_parse_api_key token = Some parsed"
  shows "stays c (pk_identifier parsed) kid a
    (\<lambda>found. \<forall>p. found = Some p \<longrightarrow> kp_application_id p = a \<and> kp_api_key_id p = kid) (authenticate_key kr token)"
proof -
  have own: "ar_application_id r = a \<and> ar_id r = kid"
    if "pinned c (pk_identifier parsed) kid a {} w"
      and "find_active_by_identifier (pk_identifier parsed) now w = Some r" for w now r
    using that by (auto simp: pinned_def is_usable_key_def elim!: find_active_opens)
  have "stays c (pk_identifier parsed) kid a Q (writing (touch_last_used kid now) q)"
    if "stays c (pk_identifier parsed) kid a Q q" for now Q and q :: "api_key_principal option prog"
    by (rule safe_writing [OF touch_confined that])
  then show ?thesis
    unfolding authenticate_key_def assms option.case
    by (intro isolation.safe_clock safe_reading) (auto split: option.splits simp: own)
qed

lemma upsert_bucket_other:
  "filter (\<lambda>b. b_subject b \<noteq> s) (upsert_bucket s arrival asked_at buckets) = filter (\<lambda>b. b_subject b \<noteq> s) buckets"
  by (simp add: upsert_bucket_def filter_update_other)

lemma stays_consume: "stays_quietly c i kid a (consume (''apikey:'' @ kid) pol reachable)"
proof -
  have "confined c i kid a {} (consume_attempt (''apikey:'' @ kid) pol reachable now)" for now
    by (rule commitsI)
       (auto simp: consume_attempt_def consume_rate_limit_def Let_def pinned_def tenant_only_def
         upsert_bucket_other split: if_splits option.splits sum.splits)
  then show ?thesis
    unfolding consume_def by (intro isolation.safe_clock isolation.safe_commits) auto
qed

lemma stays_find_application: "stays_quietly c i kid a (get_application_or_fail g b)"
  by (auto simp: get_application_or_fail_def application_not_found_def split: option.splits
      intro!: isolation.safe_read)

lemma stays_create:
  assumes "inj (c_identifier c)" and "rq_application_id input = a"
  shows "stays_quietly c i kid a (create c rt input r)" and "stays_quietly c i kid a (create_batch c rt input rs)"
proof -
  show "stays_quietly c i kid a (create c rt input r)"
    unfolding create_def
    by (auto simp: schedule_answerable split: sum.splits invalid_phone_number.splits
        intro!: isolation.safe_clock stays_correlated stays_identified isolation.safe_commits
          confined_create assms)
  have draft: "stays_quietly c i kid a (draft_recipients c rs k)" if "\<And>ds. stays_quietly c i kid a (k ds)"
    for rs and k :: "(uuid \<times> string) list \<Rightarrow> (notification list \<times> bool) prog"
    using that by (induction rs arbitrary: k)
      (auto split: sum.splits invalid_phone_number.splits intro!: stays_identified)
  show "stays_quietly c i kid a (create_batch c rt input rs)"
    unfolding create_batch_def
    by (rule draft)
       (auto simp: schedule_answerable split: sum.splits
         intro!: isolation.safe_clock stays_correlated isolation.safe_commits confined_create_batch assms)
qed

lemma stays_reads:
  "stays_quietly c i kid a (get_or_fail b n)" "stays_quietly c i kid a (query_list_events b n)"
  "stays_quietly c i kid a (query_list cc b q)"
proof -
  show "stays_quietly c i kid a (get_or_fail b n)"
    unfolding get_or_fail_def by (intro isolation.safe_commits confined_reads) simp
  show "stays_quietly c i kid a (query_list_events b n)"
    unfolding query_list_events_def
    by (intro isolation.safe_commits isolation.commits_bind confined_reads) simp_all
  have "answerable e" if "decode_cursor cc cursor = Inl e" for cursor e
    using that by (auto simp: decode_cursor_def invalid_cursor_def Let_def
        split: option.splits list.splits if_splits json.splits js_date.splits)
  then show "stays_quietly c i kid a (query_list cc b q)"
    unfolding query_list_def by (auto split: sum.splits intro!: isolation.safe_read)
qed

lemma stays_cancel: "stays_quietly c i kid a (cancel c corr a n)"
  unfolding cancel_def
  by (rule isolation.safe_commits [OF confined_reads(4)])
     (auto simp: not_cancellable_def intro!: isolation.safe_clock isolation.safe_commits confined_cancel)

section \<open>Routes\<close>

abbreviation replies :: "config \<Rightarrow> string \<Rightarrow> uuid \<Rightarrow> uuid \<Rightarrow> http_input \<Rightarrow> 'b http_reply prog \<Rightarrow> bool" where
  "replies c i kid a h \<equiv> safe (pinned c i kid a {}) (tenant_only a kid) (\<lambda>e. False) (well_formed_reply h)"

lemma stays_parse: "stays_quietly c i kid a (parse_body ht h)"
  by (auto simp: parse_body_def bad_request_def split: option.splits sum.splits)

lemma stays_pipes:
  "stays_quietly c i kid a (zod_validation_pipe subject schema j)" "stays_quietly c i kid a (uuid_parameter_pipe fm nm v)"
  "stays_quietly c i kid a (idempotency_key_pipe key)"
  by (auto simp: idempotency_key_pipe_def zod_validation_pipe_def uuid_parameter_pipe_def
      validation_failed_def split: option.splits)

lemma replies_wrap: "replies c i kid a h p \<Longrightarrow> replies c i kid a h (wrap f p)"
  unfolding wrap_def
  by (erule safe_bind) (auto simp: well_formed_reply_def split: reply_body.splits elim!: wrap_body.elims)

lemmas replies_anyway = safe_guarded [where Q = "\<lambda>x. True"]

lemma replies_with: "stays_quietly c i kid a p \<Longrightarrow> correlated h headers \<Longrightarrow> replies c i kid a h (reply_with ht h headers st p)"
  unfolding reply_with_def by (rule replies_anyway) simp_all

lemma stays_bind: "stays_quietly c i kid a p \<Longrightarrow> (\<And>x. stays_quietly c i kid a (k x)) \<Longrightarrow> stays_quietly c i kid a (bind p k)"
  by (rule safe_bind)

lemma stays_guard:
  assumes "hi_authorization h = Some (bearer_prefix @ token)" and "try_parse_api_key token = Some parsed"
  shows "stays c (pk_identifier parsed) kid a (\<lambda>p. kp_application_id p = a \<and> kp_api_key_id p = kid)
    (api_key_guard kr scopes h)"
  unfolding api_key_guard_def assms(1) Let_def
  by (auto simp: unauthorized_def split: option.splits
      intro!: safe_bind [OF stays_authenticate [OF assms(2)]])

lemma replies_behind_key:
  assumes "hi_authorization h = Some (bearer_prefix @ token)" and "try_parse_api_key token = Some parsed"
    and k: "\<And>headers j p. correlated h headers \<Longrightarrow> kp_application_id p = a \<Longrightarrow>
      replies c (pk_identifier parsed) kid a h (k j headers p)"
  shows "replies c (pk_identifier parsed) kid a h (receive ht h (\<lambda>headers j. with_api_key ht h headers scopes (k j)))"
proof -
  have "stays_quietly c (pk_identifier parsed) kid a (api_key_rate_limit_guard ht p)" if "kp_api_key_id p = kid" for p
    unfolding api_key_rate_limit_guard_def read_policy_def that
    by (intro stays_bind stays_find_application stays_consume) simp
  then have limited: "replies c (pk_identifier parsed) kid a h (guarded ht h headers (api_key_rate_limit_guard ht p) (\<lambda>outcome.
     let metered = headers @ rate_limit_headers outcome
     in if rd_is_allowed (ro_decision outcome) then k j metered p
        else refuse ht h (metered @ retry_after_header outcome) (api_key_limited outcome)))"
    if "correlated h headers" and "kp_application_id p = a" and "kp_api_key_id p = kid" for headers j p
    using that k by (auto simp: Let_def api_key_limited_def intro!: replies_anyway safe_refusal)
  show ?thesis
    unfolding receive_def with_api_key_def
    by (intro replies_anyway safe_guarded [OF stays_guard [OF assms(1,2)]] stays_parse limited) simp_all
qed

text \<open>
  C10: A key's requests stay in its application. Whatever route of the public API is called with a key,
  in every interleaving with other requests, workers and callbacks, as long as the identifier in the key
  is that of one key, which belongs to the application: every effect of the request leaves the
  notifications, timelines and idempotency keys of all other applications as they are, queues jobs for its
  own application only, and writes no other table at all, but for the stamp of last use of that very key
  and its own bucket in the rate limiter.
\<close>

theorem requests_stay_in_their_tenant:
  assumes "inj (c_identifier (ht_config ht))" and "required_scope route = Some s"
    and "hi_authorization h = Some (bearer_prefix @ token)" and "try_parse_api_key token = Some parsed"
  shows "safe (pinned (ht_config ht) (pk_identifier parsed) kid a {}) (tenant_only a kid) (\<lambda>e. False)
    (well_formed_reply h) (serve ht dr h route)"
  using assms(2)
  by (cases route)
     (auto simp: notifications_create_def notifications_create_batch_def notifications_list_def
       notifications_get_def notifications_list_events_def notifications_cancel_def
       applications_current_def accepted_def reply_with_def to_creation_input_def
       intro!: replies_wrap replies_behind_key [OF assms(3,4)] replies_anyway stays_pipes stays_create [OF assms(1)]
         stays_reads stays_cancel stays_bind stays_find_application)

theorem requests_stay_in_their_tenant_witness:
  "safe (pinned example_config (replicate 12 CHR ''a'') (ak_id example_key) ''app'' {}) (tenant_only ''app'' (ak_id example_key)) (\<lambda>e. False)
     (well_formed_reply keyed_call) (serve example_http example_draws keyed_call PostNotification)
   \<and> pinned example_config (replicate 12 CHR ''a'') (ak_id example_key) ''app'' {} keys_world"
proof
  have "hi_authorization keyed_call = Some (bearer_prefix @ example_token)"
    by (simp add: keyed_call_def)
  from requests_stay_in_their_tenant [of example_http PostNotification NOTIFICATIONS_WRITE,
      OF _ _ this example_token_parses, where a = "''app''" and kid = "ak_id example_key" and dr = example_draws]
  show "safe (pinned example_config (replicate 12 CHR ''a'') (ak_id example_key) ''app'' {}) (tenant_only ''app'' (ak_id example_key)) (\<lambda>e. False)
     (well_formed_reply keyed_call) (serve example_http example_draws keyed_call PostNotification)"
    using example_identifiers_injective by simp
  show "pinned example_config (replicate 12 CHR ''a'') (ak_id example_key) ''app'' {} keys_world"
    by (simp add: pinned_def keys_world_def example_key_def example_world_def)
qed

end
