(* ===== verification/Tenant_Reads.thy ===== *)
theory Tenant_Reads
  imports Tenant_Isolation
begin

text \<open>
  What a request with an API key can learn: nothing about other tenants. Every route that reads
  answers as it would if the tables held the rows of the key's application alone.
\<close>

section \<open>The world of one application\<close>

definition own_world :: "uuid \<Rightarrow> world \<Rightarrow> world" where
  "own_world a w =
     w\<lparr>w_notifications := filter (\<lambda>r. n_application_id r = a) (w_notifications w),
       w_events := filter (\<lambda>e. e_application_id e = a) (w_events w),
       w_attempts := [], w_deliveries := [], w_jobs := [], w_sends := [],
       w_sessions := filter (\<lambda>s. s_application_id s = a) (w_sessions w),
       w_applications := filter (\<lambda>x. ap_id x = a) (w_applications w),
       w_idempotency_keys := filter (\<lambda>k. k_application_id k = a) (w_idempotency_keys w),
       w_organizations := [], w_users := [], w_user_sessions := [],
       w_api_keys := filter (\<lambda>k. ak_application_id k = a) (w_api_keys w)\<rparr>"

lemma own_world_simps [simp]:
  "w_notifications (own_world a w) = filter (\<lambda>r. n_application_id r = a) (w_notifications w)"
  "w_events (own_world a w) = filter (\<lambda>e. e_application_id e = a) (w_events w)"
  "w_applications (own_world a w) = filter (\<lambda>x. ap_id x = a) (w_applications w)"
  "w_api_keys (own_world a w) = filter (\<lambda>k. ak_application_id k = a) (w_api_keys w)"
  "w_clock (own_world a w) = w_clock w" "w_buckets (own_world a w) = w_buckets w"
  by (simp_all add: own_world_def)

section \<open>Programs that do not look further\<close>

definition blinkered :: "uuid \<Rightarrow> 'a prog \<Rightarrow> bool" where
  "blinkered a p = (\<forall>env w. run p env (own_world a w) = (fst (run p env w), own_world a (snd (run p env w))))"

lemma blinkered_simple [simp]: "blinkered a (Done x)" "blinkered a (Raise e)"
  by (simp_all add: blinkered_def)

lemma blinkered_reading:
  "(\<And>w. f (own_world a w) = f w) \<Longrightarrow> (\<And>x. blinkered a (k x)) \<Longrightarrow> blinkered a (reading f k)"
  by (simp add: blinkered_def step_simps)

lemma blinkered_clock: "(\<And>t. blinkered a (k t)) \<Longrightarrow> blinkered a (clock_now k)"
  by (simp add: blinkered_def step_simps)

lemma blinkered_bind: "blinkered a p \<Longrightarrow> (\<And>x. blinkered a (k x)) \<Longrightarrow> blinkered a (bind p k)"
  unfolding blinkered_def run_bind by (auto split: prod.splits outcome.splits)

lemma blinkered_atomically:
  assumes "\<And>w. t (own_world a w) = (case t w of Inl e \<Rightarrow> Inl e | Inr (r, w') \<Rightarrow> Inr (r, own_world a w'))"
    and "\<And>x. blinkered a (k x)"
  shows "blinkered a (atomically t k)"
  using assms by (auto simp: blinkered_def step_simps split: sum.splits prod.splits)

lemma blinkered_refuse: "blinkered a (refuse ht h headers e)"
  by (auto simp: refuse_def split: option.splits)

lemma blinkered_attempt: "blinkered a p \<Longrightarrow> blinkered a (caught p)"
  by (auto simp: blinkered_def run_attempt split: prod.splits outcome.splits)

lemma blinkered_guarded:
  assumes "blinkered a p" and "\<And>x. blinkered a (k x)"
  shows "blinkered a (guarded ht h headers p k)"
  unfolding guarded_def using assms
  by (auto intro!: blinkered_bind blinkered_attempt blinkered_refuse split: sum.splits)

lemma sql_first_filter:
  "(\<And>x. x \<in> set xs \<Longrightarrow> p x \<Longrightarrow> q x) \<Longrightarrow> sql_first p (filter q xs) = sql_first p xs"
  by (induction xs) (auto simp: sql_first_def)

lemma blinkered_services:
  "blinkered a (get_or_fail a n)" "blinkered a (query_list_events a n)"
  "blinkered a (query_list cc a q)" "blinkered a (get_application_or_fail g a)"
  "blinkered a (consume subject pol ok)"
proof -
  have find: "find_by_id a n (own_world a w) = find_by_id a n w" for n w
    unfolding find_by_id_def own_world_simps by (rule sql_first_filter) (simp add: is_notification_def)
  show "blinkered a (get_or_fail a n)"
    unfolding get_or_fail_def
    by (rule blinkered_atomically) (auto simp: query_read_or_fail_def find split: option.splits)
  have events: "list_events a n (own_world a w) = list_events a n w" for n w
    by (simp add: list_events_def conj_commute cong: filter_cong conj_cong)
  show "blinkered a (query_list_events a n)"
    unfolding query_list_events_def
    by (rule blinkered_atomically)
       (auto simp: query_read_or_fail_def tx_bind_def tx_read_def find events split: option.splits)
  have pages: "repository_list a fs cursor limit (own_world a w) = repository_list a fs cursor limit w" for fs cursor limit w
    unfolding repository_list_def own_world_simps filter_filter
    by (simp add: matches_filters_def cong: filter_cong conj_cong)
  show "blinkered a (query_list cc a q)"
    unfolding query_list_def
    by (auto split: sum.splits intro!: blinkered_reading pages)
  have "find_application g a (own_world a w) = find_application g a w" for w
    unfolding find_application_def own_world_simps
    by (rule sql_first_filter) (simp add: is_own_application_def)
  then show "blinkered a (get_application_or_fail g a)"
    unfolding get_application_or_fail_def by (auto split: option.splits intro!: blinkered_reading)
  show "blinkered a (consume subject pol ok)"
    unfolding consume_def
    by (rule blinkered_clock, rule blinkered_atomically)
       (auto simp: consume_attempt_def consume_rate_limit_def Let_def own_world_def split: option.splits)
qed

section \<open>The key of the request\<close>

lemma product_filter:
  "List.product (filter p xs) (filter q ys) = filter (\<lambda>(x, y). p x \<and> q y) (List.product xs ys)"
  by (induction xs) (auto simp: filter_map comp_def)

lemma find_active_own:
  assumes "\<And>k. k \<in> set (w_api_keys w) \<Longrightarrow> ak_key_identifier k = i \<Longrightarrow> ak_application_id k = a"
  shows "find_active_by_identifier i now (own_world a w) = find_active_by_identifier i now w"
  unfolding find_active_by_identifier_def own_world_simps product_filter
  by (subst sql_first_filter) (auto simp: is_usable_key_def dest: assms)

lemma run_authenticate_own:
  assumes "try_parse_api_key token = Some parsed"
    and "\<And>k. k \<in> set (w_api_keys w) \<Longrightarrow> ak_key_identifier k = pk_identifier parsed \<Longrightarrow> ak_application_id k = a"
  shows "run (authenticate_key kr token) env (own_world a w)
    = (fst (run (authenticate_key kr token) env w), own_world a (snd (run (authenticate_key kr token) env w)))"
    and "run (authenticate_key kr token) env w = (Returned (Some p), w') \<Longrightarrow> kp_application_id p = a"
proof -
  have touch: "touch_last_used n now (own_world a w) = own_world a (touch_last_used n now w)" for n now
  proof -
    have "sql_update q f (filter r xs) = filter r (sql_update q f xs)"
      if "\<And>x. r (f x) = r x" for q f r and xs :: "api_key list"
      using that by (induction xs) (auto simp: sql_update_def)
    then show ?thesis by (simp add: touch_last_used_def own_world_def)
  qed
  show "run (authenticate_key kr token) env (own_world a w)
    = (fst (run (authenticate_key kr token) env w), own_world a (snd (run (authenticate_key kr token) env w)))"
    using find_active_own [of w "pk_identifier parsed" a "w_clock w", OF assms(2)]
    by (auto simp: authenticate_key_def assms(1) step_simps touch split: option.splits)
  show "kp_application_id p = a"
    if "run (authenticate_key kr token) env w = (Returned (Some p), w')"
    using that assms(2)
    by (auto simp: authenticate_key_def assms(1) step_simps is_usable_key_def split: option.splits if_splits
        elim!: find_active_opens)
qed

lemma run_guard_own:
  assumes "hi_authorization h = Some (bearer_prefix @ token)" and "try_parse_api_key token = Some parsed"
    and "\<And>k. k \<in> set (w_api_keys w) \<Longrightarrow> ak_key_identifier k = pk_identifier parsed \<Longrightarrow> ak_application_id k = a"
  shows "run (api_key_guard kr scopes h) env (own_world a w)
    = (fst (run (api_key_guard kr scopes h) env w), own_world a (snd (run (api_key_guard kr scopes h) env w)))"
    and "run (api_key_guard kr scopes h) env w = (Returned p, w') \<Longrightarrow> kp_application_id p = a"
proof -
  note found = run_authenticate_own [OF assms(2,3), where kr = kr and env = env]
  show "run (api_key_guard kr scopes h) env (own_world a w)
    = (fst (run (api_key_guard kr scopes h) env w), own_world a (snd (run (api_key_guard kr scopes h) env w)))"
    using found(1) by (auto simp: api_key_guard_def assms(1) Let_def run_bind
        split: prod.splits outcome.splits option.splits)
  show "run (api_key_guard kr scopes h) env w = (Returned p, w') \<Longrightarrow> kp_application_id p = a"
    using found(2) by (auto simp: api_key_guard_def assms(1) Let_def run_bind
        split: prod.splits outcome.splits option.splits if_splits)
qed

lemma blinkered_wrap: "blinkered a p \<Longrightarrow> blinkered a (wrap f p)"
  unfolding wrap_def by (rule blinkered_bind) simp_all

lemma blinkered_pipes:
  "blinkered a (zod_validation_pipe subject schema j)" "blinkered a (uuid_parameter_pipe fm nm v)"
  "blinkered a (parse_body ht h)"
  by (auto simp: zod_validation_pipe_def uuid_parameter_pipe_def parse_body_def
      split: option.splits sum.splits)

lemma blinkered_limit:
  assumes "kp_application_id p = a" and "\<And>headers. blinkered a (k headers p)"
  shows "blinkered a (guarded ht h headers (api_key_rate_limit_guard ht p) (\<lambda>outcome.
     let metered = headers @ rate_limit_headers outcome
     in if rd_is_allowed (ro_decision outcome) then k metered p
        else refuse ht h (metered @ retry_after_header outcome) (api_key_limited outcome)))"
  using assms(2)
  by (auto simp: api_key_rate_limit_guard_def read_policy_def assms(1) Let_def
      intro!: blinkered_guarded blinkered_bind blinkered_services blinkered_refuse)

lemma serve_reading:
  assumes "required_scope route = Some NOTIFICATIONS_READ"
  obtains k where "serve ht dr h route =
      receive ht h (\<lambda>headers j. with_api_key ht h headers [NOTIFICATIONS_READ] (k j))"
    and "\<And>headers j p. blinkered (kp_application_id p) (k j headers p)"
proof -
  have "\<exists>k. serve ht dr h route =
      receive ht h (\<lambda>headers j. with_api_key ht h headers [NOTIFICATIONS_READ] (k j))
    \<and> (\<forall>headers j p. blinkered (kp_application_id p) (k j headers p))"
    using assms
    by (cases route)
       (simp_all add: notifications_list_def notifications_get_def notifications_list_events_def
         applications_current_def wrap_receive wrap_with_api_key,
        (rule exI, rule conjI, rule refl,
         auto simp: reply_with_def intro!: blinkered_wrap blinkered_guarded blinkered_pipes
           blinkered_bind blinkered_services)+)
  with that show thesis by blast
qed

text \<open>
  C12: A key reads its own tenant only. Whatever a route that reads is asked with a key, the answer,
  headers and all, is the one it would give if every other application, its keys, notifications,
  timelines and connections, and every person and organization did not exist.
\<close>

theorem reads_see_their_tenant_only:
  assumes "required_scope route = Some NOTIFICATIONS_READ"
    and "hi_authorization h = Some (bearer_prefix @ token)" and "try_parse_api_key token = Some parsed"
    and "\<And>k. k \<in> set (w_api_keys w) \<Longrightarrow> ak_key_identifier k = pk_identifier parsed \<Longrightarrow> ak_application_id k = a"
  shows "fst (run (serve ht dr h route) env (own_world a w)) = fst (run (serve ht dr h route) env w)"
proof -
  obtain k where serve: "serve ht dr h route =
      receive ht h (\<lambda>headers j. with_api_key ht h headers [NOTIFICATIONS_READ] (k j))"
    and k: "\<And>headers j p. blinkered (kp_application_id p) (k j headers p)"
    using serve_reading [OF assms(1)] by blast
  note guard = run_guard_own [OF assms(2-4), where kr = "ht_keys ht" and scopes = "[NOTIFICATIONS_READ]" and env = env]
  have keyed: "fst (run (with_api_key ht h headers [NOTIFICATIONS_READ] (k j)) env (own_world a w))
      = fst (run (with_api_key ht h headers [NOTIFICATIONS_READ] (k j)) env w)" for headers j
  proof (cases "run (api_key_guard (ht_keys ht) [NOTIFICATIONS_READ] h) env w")
    case (Pair out w')
    show ?thesis
    proof (cases out)
      case (Returned p)
      with Pair guard(2) have "kp_application_id p = a" by blast
      with k [of p] blinkered_limit [of p a "k j" ht h headers] Pair Returned guard(1) show ?thesis
        by (simp add: with_api_key_def run_guarded blinkered_def)
    next
      case (Threw e)
      with Pair guard(1) show ?thesis
        by (auto simp: with_api_key_def run_guarded refuse_def split: option.splits)
    qed
  qed
  show ?thesis
    using keyed by (auto simp: serve receive_def run_guarded parse_body_def refuse_def
        split: option.splits sum.splits)
qed

theorem reads_see_their_tenant_only_witness:
  "fst (run (serve example_http example_draws keyed_call (GetNotification ''n1'')) example_env (own_world ''app'' keys_world))
     = fst (run (serve example_http example_draws keyed_call (GetNotification ''n1'')) example_env keys_world)"
proof -
  have "hi_authorization keyed_call = Some (bearer_prefix @ example_token)"
    by (simp add: keyed_call_def)
  from reads_see_their_tenant_only [OF _ this example_token_parses, of "GetNotification ''n1''" keys_world "''app''"]
  show ?thesis by (simp add: keys_world_def example_key_def)
qed

end
