(* ===== verification/Number_Text.thy ===== *)
theory Number_Text
  imports Prelude
begin

text \<open>
  A number written as text is read back: what \<open>Number\<close> makes of the digits \<open>String\<close> writes.
\<close>

section \<open>Numbers as text\<close>

lemma char_code_digit [simp]: "d < 10 \<Longrightarrow> char_code (digit_char d) = 48 + d"
  by (simp add: digit_char_def char_code_def)

lemma is_digit_char [simp]: "d < 10 \<Longrightarrow> is_digit (digit_char d)"
  by (simp add: is_digit_def)

lemma digit_value_char [simp]: "d < 10 \<Longrightarrow> digit_value (digit_char d) = Some d"
  by (simp add: digit_value_def to_lower_def)

lemma string_of_nat_not_Nil [simp]: "string_of_nat n \<noteq> []"
  by (subst string_of_nat.simps) simp

lemma digits_of_nat: "list_all is_digit (string_of_nat n)"
  by (induction n rule: string_of_nat.induct) (subst string_of_nat.simps, simp)

lemma read_digits_append:
  "read_digits base acc (xs @ ys) = Option.bind (read_digits base acc xs) (\<lambda>a. read_digits base a ys)"
  by (induction xs arbitrary: acc) (auto split: option.splits)

lemma read_digits_string [simp]: "read_digits 10 0 (string_of_nat n) = Some n"
proof (induction n rule: string_of_nat.induct)
  case (1 n)
  then show ?case
    by (subst string_of_nat.simps) (auto simp: read_digits_append)
qed

lemma digits_hd:
  assumes "list_all is_digit s" and "is_digit c \<Longrightarrow> False"
  shows "c \<notin> set s"
  using assms by (auto simp: list_all_iff)

lemma no_digit [simp]:
  "\<not> is_digit CHR ''x''" "\<not> is_digit CHR ''X''" "\<not> is_digit CHR ''o''" "\<not> is_digit CHR ''O''"
  "\<not> is_digit CHR ''b''" "\<not> is_digit CHR ''B''" "\<not> is_digit CHR ''-''" "\<not> is_digit CHR ''+''"
  by (simp_all add: is_digit_def char_code_def)

lemma digits_no_base:
  assumes "list_all is_digit s" and "\<not> is_digit c"
  shows "\<not> starts_with s [CHR ''0'', c]"
proof -
  have "c \<notin> set s" using assms by (auto simp: list_all_iff)
  then show ?thesis by (cases s; cases "tl s") auto
qed

lemma js_number_string_of_nat:
  assumes "n < 2 ^ 1024"
  shows "js_number (string_of_nat n) = Some (of_nat n)"
proof -
  let ?s = "string_of_nat n"
  have "\<not> is_space (hd ?s) \<and> \<not> is_space (last ?s)"
    using digits_of_nat [of n] is_digit_not_space by (auto simp: list_all_iff)
  then have trim: "js_trim ?s = ?s" by (simp add: js_trim_unchanged)
  have "hd ?s \<noteq> CHR ''-'' \<and> hd ?s \<noteq> CHR ''+''"
    using digits_of_nat [of n] by (metis list.set_sel(1) list_all_iff no_digit(7,8) string_of_nat_not_Nil)
  then have sign: "signed_part ?s = (1, ?s)"
    by (cases ?s) (auto simp: signed_part_def)
  have whole: "takeWhile is_digit ?s = ?s" "dropWhile is_digit ?s = []"
    using digits_of_nat [of n] by (auto simp: list_all_iff takeWhile_eq_all_conv dropWhile_eq_Nil_conv)
  have "read_decimal ?s = Some (of_nat n)"
    by (simp add: read_decimal_def sign whole read_exponent_def power_of_ten_def)
  moreover have "\<bar>of_nat n\<bar> < (2 :: rat) ^ 1024"
    using assms by (metis abs_of_nat of_nat_less_iff of_nat_numeral of_nat_power)
  ultimately show ?thesis
    by (simp add: js_number_def trim digits_no_base digits_of_nat del: of_nat_less_iff)
qed

end
