(* ===== verification/Configuration_Properties.thy ===== *)
theory Configuration_Properties
  imports Configuration Number_Text
begin

text \<open>
  What an accepted configuration guarantees, whatever the environment: that
  what is read fits its kind, and what that means for the configuration.
\<close>

section \<open>Values fit their kinds\<close>

fun fits_kind :: "variable_kind \<Rightarrow> env_value \<Rightarrow> bool" where
  "fits_kind (OneOf allowed) (VText s) = (s \<in> set allowed)"
| "fits_kind Port (VNumber i) = (1 \<le> i \<and> i \<le> 65535)"
| "fits_kind PositiveInteger (VNumber i) = (1 \<le> i)"
| "fits_kind (AtLeast n) (VText s) = (n \<le> length s)"
| "fits_kind Url (VText s) = True"
| "fits_kind (StartingWith p) (VText s) = starts_with s p"
| "fits_kind (Base64Key n) (VText s) = is_base64_key n s"
| "fits_kind Flag (VFlag b) = True"
| "fits_kind _ _ = False"

lemma integer_at_least_Some: "integer_at_least low j = Some i \<Longrightarrow> low \<le> i"
  by (cases "(low, j)" rule: integer_at_least.cases) (auto split: if_splits)

lemma coerced_integer_Some:
  assumes "coerced_integer low high s = Some x"
  obtains i where "x = VNumber i" and "low \<le> i" and "\<And>h. high = Some h \<Longrightarrow> i \<le> h"
  using assms
  by (auto simp: coerced_integer_def bind_eq_Some_conv dest!: integer_at_least_Some
      split: if_splits option.splits)

lemma read_value_fits: "read_value is_url kind s = Some x \<Longrightarrow> fits_kind kind x"
  by (cases kind) (auto split: if_splits elim!: coerced_integer_Some)

lemma standard_values_fit:
  "list_all (\<lambda>v. case standard_value v of None \<Rightarrow> True | Some x \<Rightarrow> fits_kind (ev_kind v) x) environment_schema"
  by code_simp

lemma read_variable_fits:
  "read_variable is_url v supplied = Some x \<Longrightarrow> v \<in> set environment_schema \<Longrightarrow> fits_kind (ev_kind v) x"
  using standard_values_fit
  by (auto simp: read_variable_def list_all_iff read_value_fits split: option.splits)

lemma schema_names: "distinct (map ev_name environment_schema)"
  by code_simp

definition kind_of :: "string \<Rightarrow> variable_kind option" where
  "kind_of name = map_option ev_kind (find (\<lambda>v. ev_name v = name) environment_schema)"

lemma parsed_fits:
  assumes "refused_variables zl env = []" and "kind_of name = Some kind"
  obtains x where "parsed zl env name = Some x" and "fits_kind kind x"
proof -
  obtain v where v: "find (\<lambda>v. ev_name v = name) environment_schema = Some v" and kind: "ev_kind v = kind"
    using assms(2) by (auto simp: kind_of_def)
  then have "v \<in> set environment_schema" and name: "ev_name v = name"
    by (auto simp: find_Some_iff)
  with assms(1) obtain x where x: "read_variable (zl_is_url zl) v (env name) = Some x"
    by (auto simp: refused_variables_def filter_empty_conv)
  with read_variable_fits [OF x \<open>v \<in> _\<close>] v kind that show thesis
    by (simp add: parsed_def)
qed

lemma parsed_number:
  assumes "refused_variables zl env = []"
  shows "kind_of name = Some PositiveInteger \<Longrightarrow> 1 \<le> number_at (parsed zl env) name"
    and "kind_of name = Some Port \<Longrightarrow>
      1 \<le> number_at (parsed zl env) name \<and> number_at (parsed zl env) name \<le> 65535"
proof -
  show "1 \<le> number_at (parsed zl env) name" if "kind_of name = Some PositiveInteger"
    by (rule parsed_fits [OF assms that], rename_tac x, case_tac x) (simp_all add: number_at_def)
  show "1 \<le> number_at (parsed zl env) name \<and> number_at (parsed zl env) name \<le> 65535"
    if "kind_of name = Some Port"
    by (rule parsed_fits [OF assms that], rename_tac x, case_tac x) (simp_all add: number_at_def)
qed

lemma parsed_text:
  assumes "refused_variables zl env = []"
  shows "kind_of name = Some (Base64Key n) \<Longrightarrow> is_base64_key n (text_at (parsed zl env) name)"
    and "kind_of name = Some (AtLeast n) \<Longrightarrow> n \<le> length (text_at (parsed zl env) name)"
    and "kind_of name = Some (OneOf allowed) \<Longrightarrow> text_at (parsed zl env) name \<in> set allowed"
proof -
  show "is_base64_key n (text_at (parsed zl env) name)" if "kind_of name = Some (Base64Key n)"
    by (rule parsed_fits [OF assms that], rename_tac x, case_tac x) (simp_all add: text_at_def)
  show "n \<le> length (text_at (parsed zl env) name)" if "kind_of name = Some (AtLeast n)"
    by (rule parsed_fits [OF assms that], rename_tac x, case_tac x) (simp_all add: text_at_def)
  show "text_at (parsed zl env) name \<in> set allowed" if "kind_of name = Some (OneOf allowed)"
    by (rule parsed_fits [OF assms that], rename_tac x, case_tac x) (simp_all add: text_at_def)
qed

lemma kinds:
  "kind_of ''NODE_ENV'' = Some (OneOf [''development'', ''test'', ''production''])"
  "kind_of ''HTTP_PORT'' = Some Port"
  "kind_of ''HTTP_BODY_LIMIT_BYTES'' = Some PositiveInteger"
  "kind_of ''DATABASE_MAX_POOL_SIZE'' = Some PositiveInteger"
  "kind_of ''DATABASE_STATEMENT_TIMEOUT_MILLISECONDS'' = Some PositiveInteger"
  "kind_of ''QUEUE_CONCURRENCY'' = Some PositiveInteger"
  "kind_of ''QUEUE_POLLING_INTERVAL_SECONDS'' = Some PositiveInteger"
  "kind_of ''QUEUE_SHUTDOWN_TIMEOUT_SECONDS'' = Some PositiveInteger"
  "kind_of ''DELIVERY_MAXIMUM_LIFETIME_HOURS'' = Some PositiveInteger"
  "kind_of ''DELIVERY_MAXIMUM_CONNECTION_WAIT_MINUTES'' = Some PositiveInteger"
  "kind_of ''DELIVERY_STUCK_CLAIM_TIMEOUT_SECONDS'' = Some PositiveInteger"
  "kind_of ''DELIVERY_RESTRICTION_FALLBACK_PAUSE_HOURS'' = Some PositiveInteger"
  "kind_of ''WAHA_API_KEY'' = Some (AtLeast 16)"
  "kind_of ''WAHA_REQUEST_TIMEOUT_MILLISECONDS'' = Some PositiveInteger"
  "kind_of ''WAHA_WEBHOOK_TOLERANCE_SECONDS'' = Some PositiveInteger"
  "kind_of ''SECURITY_API_KEY_PEPPER'' = Some (Base64Key 32)"
  "kind_of ''SECURITY_ENCRYPTION_KEY'' = Some (Base64Key 32)"
  "kind_of ''SECURITY_CURSOR_SIGNING_KEY'' = Some (Base64Key 32)"
  "kind_of ''SECURITY_SESSION_ABSOLUTE_LIFETIME_SECONDS'' = Some PositiveInteger"
  "kind_of ''SECURITY_SESSION_IDLE_LIFETIME_SECONDS'' = Some PositiveInteger"
  "kind_of ''LOG_RECIPIENT_SALT'' = Some (Base64Key 32)"
  by code_simp+

lemma placeholder_is_no_key: "is_base64_key 32 s \<Longrightarrow> s \<noteq> placeholder_secret"
proof -
  have "\<not> is_base64_key 32 placeholder_secret" by code_simp
  then show "is_base64_key 32 s \<Longrightarrow> s \<noteq> placeholder_secret" by blast
qed

lemma parse_configuration_Inr:
  assumes "parse_configuration zl env = Inr c"
  obtains "refused_variables zl (treat_empty_values_as_unset env) = []"
    and "c = to_application_configuration (parsed zl (treat_empty_values_as_unset env))"
    and "collect_production_issues c = []"
  using assms by (auto simp: parse_configuration_def Let_def split: if_splits)

section \<open>What is accepted\<close>

lemma configured_numbers:
  "hc_port (ac_http (to_application_configuration p)) = number_at p ''HTTP_PORT''"
  "hc_body_limit_bytes (ac_http (to_application_configuration p)) = number_at p ''HTTP_BODY_LIMIT_BYTES''"
  "db_maximum_pool_size (ac_database (to_application_configuration p)) = number_at p ''DATABASE_MAX_POOL_SIZE''"
  "qc_concurrency (ac_queue (to_application_configuration p)) = number_at p ''QUEUE_CONCURRENCY''"
  "qc_polling_interval_seconds (ac_queue (to_application_configuration p))
     = number_at p ''QUEUE_POLLING_INTERVAL_SECONDS''"
  "qc_shutdown_timeout_seconds (ac_queue (to_application_configuration p))
     = number_at p ''QUEUE_SHUTDOWN_TIMEOUT_SECONDS''"
  "dc_maximum_lifetime_hours (ac_delivery (to_application_configuration p))
     = number_at p ''DELIVERY_MAXIMUM_LIFETIME_HOURS''"
  "dc_maximum_connection_wait_minutes (ac_delivery (to_application_configuration p))
     = number_at p ''DELIVERY_MAXIMUM_CONNECTION_WAIT_MINUTES''"
  "dc_stuck_claim_timeout_seconds (ac_delivery (to_application_configuration p))
     = number_at p ''DELIVERY_STUCK_CLAIM_TIMEOUT_SECONDS''"
  "dc_restriction_fallback_pause_hours (ac_delivery (to_application_configuration p))
     = number_at p ''DELIVERY_RESTRICTION_FALLBACK_PAUSE_HOURS''"
  "pc_request_timeout_milliseconds (ac_whatsapp_provider (to_application_configuration p))
     = number_at p ''WAHA_REQUEST_TIMEOUT_MILLISECONDS''"
  "pc_webhook_tolerance_seconds (ac_whatsapp_provider (to_application_configuration p))
     = number_at p ''WAHA_WEBHOOK_TOLERANCE_SECONDS''"
  "sc_session_absolute_lifetime_seconds (ac_security (to_application_configuration p))
     = number_at p ''SECURITY_SESSION_ABSOLUTE_LIFETIME_SECONDS''"
  "sc_session_idle_lifetime_seconds (ac_security (to_application_configuration p))
     = number_at p ''SECURITY_SESSION_IDLE_LIFETIME_SECONDS''"
  by (simp_all add: to_application_configuration_def)

lemma configured_texts:
  "configured_secrets (to_application_configuration p) =
     map (\<lambda>name. (name, text_at p name))
       [''SECURITY_API_KEY_PEPPER'', ''SECURITY_ENCRYPTION_KEY'', ''SECURITY_CURSOR_SIGNING_KEY'',
        ''LOG_RECIPIENT_SALT'', ''WAHA_API_KEY'']"
  by (simp add: configured_secrets_def to_application_configuration_def)

lemma production_is_checked:
  assumes "collect_production_issues c = []" and "ac_node_environment c = ''production''"
  shows "sc_cookie_secure (ac_security c)"
    and "db_application_url (ac_database c) \<noteq> db_system_url (ac_database c)"
    and "(name, s) \<in> set (configured_secrets c) \<Longrightarrow> s \<noteq> placeholder_secret"
  using assms by (auto simp: collect_production_issues_def filter_empty_conv split: if_splits)

text \<open>
  C32: A process never starts with an unsafe configuration. Whatever the environment, what
  parseConfiguration accepts has a port that exists, limits, lifetimes and timeouts of at least one,
  and keys of exactly 32 bytes, never the placeholder of the example file; in production its cookies
  are only sent over HTTPS, the connection strings of the two database roles are not the same, and no
  secret is a placeholder.
\<close>

theorem accepted_configurations_are_safe:
  assumes "parse_configuration zl env = Inr c"
  shows "1 \<le> hc_port (ac_http c) \<and> hc_port (ac_http c) \<le> 65535
    \<and> (\<forall>i \<in> {hc_body_limit_bytes (ac_http c), db_maximum_pool_size (ac_database c),
           qc_concurrency (ac_queue c), qc_polling_interval_seconds (ac_queue c),
           qc_shutdown_timeout_seconds (ac_queue c), dc_maximum_lifetime_hours (ac_delivery c),
           dc_maximum_connection_wait_minutes (ac_delivery c),
           dc_stuck_claim_timeout_seconds (ac_delivery c),
           dc_restriction_fallback_pause_hours (ac_delivery c),
           pc_request_timeout_milliseconds (ac_whatsapp_provider c),
           pc_webhook_tolerance_seconds (ac_whatsapp_provider c),
           sc_session_absolute_lifetime_seconds (ac_security c),
           sc_session_idle_lifetime_seconds (ac_security c)}. 1 \<le> i)
    \<and> (\<forall>(name, s) \<in> set (configured_secrets c). name \<noteq> ''WAHA_API_KEY'' \<longrightarrow>
         is_base64_key 32 s \<and> s \<noteq> placeholder_secret)
    \<and> (ac_node_environment c = ''production'' \<longrightarrow>
         sc_cookie_secure (ac_security c)
         \<and> db_application_url (ac_database c) \<noteq> db_system_url (ac_database c)
         \<and> pc_api_key (ac_whatsapp_provider c) \<noteq> placeholder_secret)"
proof (rule parse_configuration_Inr [OF assms])
  let ?p = "parsed zl (treat_empty_values_as_unset env)"
  assume ok: "refused_variables zl (treat_empty_values_as_unset env) = []"
    and c: "c = to_application_configuration ?p" and production: "collect_production_issues c = []"
  note numbers = parsed_number [OF ok] and texts = parsed_text [OF ok]
  have "is_base64_key 32 s \<and> s \<noteq> placeholder_secret"
    if "(name, s) \<in> set (configured_secrets c)" "name \<noteq> ''WAHA_API_KEY''" for name s
    using that texts(1) [OF kinds(16)] texts(1) [OF kinds(17)] texts(1) [OF kinds(18)]
      texts(1) [OF kinds(21)] placeholder_is_no_key
    by (auto simp: c configured_texts)
  moreover have "pc_api_key (ac_whatsapp_provider c) \<noteq> placeholder_secret"
    if "ac_node_environment c = ''production''"
    using production_is_checked(3) [OF production that, of "''WAHA_API_KEY''"]
    by (simp add: configured_secrets_def)
  moreover have "1 \<le> hc_port (ac_http c) \<and> hc_port (ac_http c) \<le> 65535"
    using numbers(2) [OF kinds(2)] by (simp only: c configured_numbers)
  moreover have "\<forall>i \<in> {hc_body_limit_bytes (ac_http c), db_maximum_pool_size (ac_database c),
      qc_concurrency (ac_queue c), qc_polling_interval_seconds (ac_queue c),
      qc_shutdown_timeout_seconds (ac_queue c), dc_maximum_lifetime_hours (ac_delivery c),
      dc_maximum_connection_wait_minutes (ac_delivery c), dc_stuck_claim_timeout_seconds (ac_delivery c),
      dc_restriction_fallback_pause_hours (ac_delivery c),
      pc_request_timeout_milliseconds (ac_whatsapp_provider c),
      pc_webhook_tolerance_seconds (ac_whatsapp_provider c),
      sc_session_absolute_lifetime_seconds (ac_security c),
      sc_session_idle_lifetime_seconds (ac_security c)}. 1 \<le> i"
    using numbers(1) [OF kinds(3)] numbers(1) [OF kinds(4)] numbers(1) [OF kinds(6)]
      numbers(1) [OF kinds(7)] numbers(1) [OF kinds(8)] numbers(1) [OF kinds(9)]
      numbers(1) [OF kinds(10)] numbers(1) [OF kinds(11)] numbers(1) [OF kinds(12)]
      numbers(1) [OF kinds(14)] numbers(1) [OF kinds(15)] numbers(1) [OF kinds(19)]
      numbers(1) [OF kinds(20)]
    by (simp only: c configured_numbers ball_simps simp_thms)
  ultimately show ?thesis
    using production_is_checked(1,2) [OF production] by blast
qed

end
