(* ===== verification/Local_Setup.thy ===== *)
theory Local_Setup
  imports Configuration_Properties
begin

text \<open>
  The example file and the setup script fit the schema they are made from: every line of the generated
  example reads back, the script replaces the placeholders and nothing else, and what it writes is
  accepted.
\<close>

section \<open>The example file\<close>

lemma split_join:
  "(\<And>l. l \<in> set ls \<Longrightarrow> sep \<notin> set l) \<Longrightarrow> ls \<noteq> [] \<Longrightarrow> split_on sep (join [sep] ls) = ls"
proof (induction ls rule: join.induct [where P = "\<lambda>_ ls. P ls" for P])
  case (2 separator x)
  then show ?case by (simp add: split_on_absent)
next
  case (3 separator x y ys)
  then show ?case by (simp add: split_on_append)
qed simp

lemma split_join_more:
  "(\<And>l. l \<in> set ls \<Longrightarrow> sep \<notin> set l) \<Longrightarrow> ls \<noteq> [] \<Longrightarrow>
     split_on sep (join [sep] ls @ sep # s) = ls @ split_on sep s"
proof (induction ls rule: join.induct [where P = "\<lambda>_ ls. P ls" for P])
  case (2 separator x)
  then show ?case by (simp add: split_on_append)
next
  case (3 separator x y ys)
  then show ?case by (simp add: split_on_append)
qed simp

lemma map_filter_append: "List.map_filter f (xs @ ys) = List.map_filter f xs @ List.map_filter f ys"
  by (simp add: List.map_filter_def)

text \<open>A variable whose lines read back, and whose value is not empty.\<close>

definition plain_name :: "string \<Rightarrow> bool" where
  "plain_name name = (name \<noteq> [] \<and> (\<forall>c \<in> set name. c \<noteq> CHR ''='' \<and> c \<noteq> CHR ''#'' \<and> c \<noteq> newline))"

definition plain_text :: "string \<Rightarrow> bool" where
  "plain_text s = (s \<noteq> [] \<and> newline \<notin> set s)"

definition documented :: "variable \<Rightarrow> bool" where
  "documented v =
     (plain_name (ev_name v) \<and> plain_text (ev_description v)
      \<and> (case ev_default v of
           Some (VText s) \<Rightarrow> plain_text s
         | Some (VNumber i) \<Rightarrow> 1 \<le> i
         | Some (VFlag b) \<Rightarrow> True
         | None \<Rightarrow> (case ev_example v of None \<Rightarrow> False | Some s \<Rightarrow> plain_text s)))"

lemma schema_is_documented: "list_all documented environment_schema"
  by code_simp

lemma plain_number: "1 \<le> i \<Longrightarrow> plain_text (string_of_int i)"
  using digits_hd [OF digits_of_nat, of newline "nat i"]
  by (auto simp: plain_text_def string_of_int_def newline_def is_digit_def char_code_def)

lemma plain_flags: "plain_text ''true''" "plain_text ''false''"
  by (simp_all add: plain_text_def newline_def)

lemma documented_value: "documented v \<Longrightarrow> plain_text (example_value v)"
  by (auto simp: documented_def example_value_def read_default_value_def plain_number plain_flags
      split: option.splits env_value.splits)

lemma read_plain_assignment [simp]:
  assumes "plain_name name"
  shows "read_assignment (name @ CHR ''='' # s) = Some (name, s)"
proof -
  have no: "\<forall>c \<in> set name. c \<noteq> CHR ''='' \<and> c \<noteq> CHR ''#''"
    using assms by (auto simp: plain_name_def)
  then have "takeWhile (\<lambda>c. c \<noteq> CHR ''='') (name @ CHR ''='' # s) = name"
    "dropWhile (\<lambda>c. c \<noteq> CHR ''='') (name @ CHR ''='' # s) = CHR ''='' # s"
    by (simp_all add: takeWhile_append2 dropWhile_append2)
  moreover have "\<not> starts_with (name @ CHR ''='' # s) ''#''"
    using no assms by (cases name) (auto simp: plain_name_def)
  ultimately show ?thesis
    by (simp add: read_assignment_def)
qed

lemma read_comment [simp]: "read_assignment (CHR ''#'' # s) = None" "read_assignment [] = None"
  by (simp_all add: read_assignment_def)

definition set_up_value :: "drawn_secrets \<Rightarrow> variable \<Rightarrow> string" where
  "set_up_value d v =
     (case generated_secrets d (ev_name v) of
        Some s \<Rightarrow> if example_value v = placeholder_secret then s else example_value v
      | None \<Rightarrow> example_value v)"

lemma setup_entry:
  assumes "documented v"
  shows "List.map_filter read_assignment (map (setup_line d) (example_entry v)) = [(ev_name v, set_up_value d v)]"
    and "List.map_filter read_assignment (example_entry v) = [(ev_name v, example_value v)]"
  using assms documented_value [OF assms]
  by (auto simp: plain_text_def example_entry_def setup_line_def set_up_value_def documented_def List.map_filter_def
      split: option.splits)

lemma entries_read:
  "list_all documented vs \<Longrightarrow>
    List.map_filter read_assignment (map (setup_line d) (concat (map example_entry vs)))
      = map (\<lambda>v. (ev_name v, set_up_value d v)) vs"
  "list_all documented vs \<Longrightarrow>
    List.map_filter read_assignment (concat (map example_entry vs)) = map (\<lambda>v. (ev_name v, example_value v)) vs"
  by (induction vs) (simp_all add: map_filter_append setup_entry)

lemma header_reads:
  "List.map_filter read_assignment (map (setup_line d) example_header) = []"
  "List.map_filter read_assignment example_header = []"
  by (simp_all add: example_header_def setup_line_def List.map_filter_def)

lemma header_plain: "list_all (\<lambda>l. newline \<notin> set l) example_header"
  by code_simp

lemma newline_differs [simp]:
  "newline \<noteq> CHR ''=''" "newline \<noteq> CHR ''#''" "newline \<noteq> CHR '' ''"
  by (simp_all add: newline_def)

lemma entry_lines_plain:
  assumes "documented v"
  shows "list_all (\<lambda>l. newline \<notin> set l) (example_entry v)"
proof -
  have "newline \<notin> set (ev_name v)" "newline \<notin> set (ev_description v)" "newline \<notin> set (example_value v)"
    using assms documented_value [OF assms] by (auto simp: documented_def plain_name_def plain_text_def)
  then show ?thesis
    by (simp add: example_entry_def newline_def)
qed

lemma example_lines_plain: "l \<in> set example_lines \<Longrightarrow> newline \<notin> set l"
  using schema_is_documented header_plain entry_lines_plain
  by (fastforce simp: example_lines_def list_all_iff)

lemma split_example: "split_on newline generate_environment_example = example_lines"
  unfolding generate_environment_example_def
  by (rule split_join) (use example_lines_plain in \<open>simp_all add: example_lines_def example_header_def\<close>)

lemma example_environment:
  "environment_of generate_environment_example = map_of (map (\<lambda>v. (ev_name v, example_value v)) environment_schema)"
  using entries_read(2) [OF schema_is_documented]
  by (simp add: environment_of_def split_example example_lines_def map_filter_append header_reads)

section \<open>After the setup\<close>

definition usable_secrets :: "drawn_secrets \<Rightarrow> bool" where
  "usable_secrets d =
     ((\<forall>s \<in> {dw_api_key_pepper d, dw_encryption_key d, dw_cursor_signing_key d, dw_recipient_salt d}.
         is_base64_key 32 s)
      \<and> 16 \<le> length (dw_waha_api_key d) \<and> newline \<notin> set (dw_waha_api_key d))"

lemma base64_key_characters:
  assumes "is_base64_key 32 s" and "c \<in> set s"
  shows "is_base64_character c \<or> c = CHR ''=''"
proof -
  have "c \<in> set (takeWhile is_base64_character s) \<or> c \<in> set (dropWhile is_base64_character s)"
    using assms(2) by (metis Un_iff set_append takeWhile_dropWhile_id)
  with assms(1) show ?thesis
    by (auto simp: is_base64_key_def list_all_iff Let_def dest: set_takeWhileD)
qed

lemma base64_key_plain:
  assumes "is_base64_key 32 s"
  shows "s \<noteq> []" and "newline \<notin> set s" and "\<not> is_space (last s)"
proof -
  show s: "s \<noteq> []" using assms by (auto simp: is_base64_key_def Let_def)
  have no: "\<not> is_space c \<and> c \<noteq> newline" if "is_base64_character c \<or> c = CHR ''=''" for c
    using that by (auto simp: is_base64_character_def is_alphanumeric_def is_letter_def is_digit_def
        is_space_def newline_def char_code_def)
  show "newline \<notin> set s" and "\<not> is_space (last s)"
    using no base64_key_characters [OF assms] s by auto
qed

lemma setup_line_plain:
  assumes "usable_secrets d" and "newline \<notin> set l"
  shows "newline \<notin> set (setup_line d l)"
proof -
  have "newline \<notin> set s" if "generated_secrets d name = Some s" for name s
    using that assms(1) base64_key_plain(2)
    by (auto simp: generated_secrets_def usable_secrets_def split: if_splits)
  moreover have "newline \<notin> set name" if "read_assignment l = Some (name, s)" for name s
    using that assms(2) by (auto simp: read_assignment_def split: if_splits dest: set_takeWhileD)
  ultimately show ?thesis
    using assms(2) by (auto simp: setup_line_def newline_def split: option.splits)
qed

lemma trim_end_newline: "s \<noteq> [] \<Longrightarrow> \<not> is_space (last s) \<Longrightarrow> trim_end (s @ [newline]) = s"
  by (cases s rule: rev_cases) (auto simp: trim_end_def newline_def is_space_def char_code_def)

lemma join_snoc: "ls \<noteq> [] \<Longrightarrow> join sep (ls @ [l]) = join sep ls @ sep @ l"
  by (induction sep ls rule: join.induct) simp_all

lemma last_join: "l \<noteq> [] \<Longrightarrow> last (join sep (ls @ [l])) = last l"
  by (cases "ls = []") (simp_all add: join_snoc)

lemma last_variable:
  "environment_schema = butlast environment_schema @ [last environment_schema]"
  by (simp add: environment_schema_def)

lemma last_entry:
  "map (setup_line d) (example_entry (last environment_schema)) =
     [''# '' @ ev_description (last environment_schema), ''# Required.'',
      ''LOG_RECIPIENT_SALT='' @ dw_recipient_salt d, []]"
  by (simp add: environment_schema_def variable_def example_entry_def read_default_value_def
      example_value_def setup_line_def generated_secrets_def read_plain_assignment [of "''LOG_RECIPIENT_SALT''", simplified]
      plain_name_def newline_def)

lemma set_up_shape:
  obtains front where "map (setup_line d) example_lines
    = front @ [''LOG_RECIPIENT_SALT='' @ dw_recipient_salt d, []]"
proof -
  have "concat (map example_entry environment_schema) =
      concat (map example_entry (butlast environment_schema)) @ example_entry (last environment_schema)"
    using arg_cong [OF last_variable, of "\<lambda>vs. concat (map example_entry vs)"] by simp
  then have "\<exists>front. map (setup_line d) example_lines
      = front @ [''LOG_RECIPIENT_SALT='' @ dw_recipient_salt d, []]"
    by (simp add: example_lines_def last_entry)
  with that show thesis by blast
qed

lemma set_up_lines:
  assumes "usable_secrets d"
  shows "split_on newline (set_up_environment d generate_environment_example)
    = butlast (map (setup_line d) example_lines) @ split_on newline compose_section"
proof (rule set_up_shape [of d])
  fix front assume lines: "map (setup_line d) example_lines
    = front @ [''LOG_RECIPIENT_SALT='' @ dw_recipient_salt d, []]"
  let ?ls = "front @ [''LOG_RECIPIENT_SALT='' @ dw_recipient_salt d]"
  have salt: "is_base64_key 32 (dw_recipient_salt d)" using assms by (simp add: usable_secrets_def)
  have "join [newline] (map (setup_line d) example_lines) = join [newline] ?ls @ [newline]"
    using join_snoc [of ?ls "[newline]" "[]"] by (simp add: lines)
  moreover have "join [newline] ?ls \<noteq> []" and "last (join [newline] ?ls) = last (dw_recipient_salt d)"
    using last_join [of "''LOG_RECIPIENT_SALT='' @ dw_recipient_salt d" "[newline]" front]
      base64_key_plain(1) [OF salt]
    by (cases "front = []", simp_all add: join_snoc)
  ultimately have trimmed: "trim_end (join [newline] (map (setup_line d) example_lines)) = join [newline] ?ls"
    using trim_end_newline base64_key_plain(3) [OF salt] by simp
  have plain: "newline \<notin> set l" if "l \<in> set ?ls" for l
  proof -
    from that have "l \<in> set (map (setup_line d) example_lines)" unfolding lines by auto
    then show ?thesis using setup_line_plain [OF assms example_lines_plain] by auto
  qed
  have "split_on newline (join [newline] ?ls @ newline # compose_section)
      = ?ls @ split_on newline compose_section"
    using plain by (rule split_join_more) simp_all
  then show ?thesis
    by (simp add: set_up_environment_def split_example trimmed) (simp add: lines butlast_append)
qed

lemma compose_reads:
  "List.map_filter read_assignment (split_on newline compose_section) = [(''COMPOSE_PROFILES'', ''whatsapp'')]"
  by code_simp

lemma set_up_environment_of:
  assumes "usable_secrets d"
  shows "environment_of (set_up_environment d generate_environment_example)
    = map_of (map (\<lambda>v. (ev_name v, set_up_value d v)) environment_schema @ [(''COMPOSE_PROFILES'', ''whatsapp'')])"
proof (rule set_up_shape [of d])
  fix front assume "map (setup_line d) example_lines
    = front @ [''LOG_RECIPIENT_SALT='' @ dw_recipient_salt d, []]"
  then have "List.map_filter read_assignment (butlast (map (setup_line d) example_lines))
      = List.map_filter read_assignment (map (setup_line d) example_lines)"
    by (simp only: butlast_append map_filter_append) (simp add: List.map_filter_def)
  also have "\<dots> = map (\<lambda>v. (ev_name v, set_up_value d v)) environment_schema"
    using entries_read(1) [OF schema_is_documented, of d]
    by (simp only: example_lines_def map_append map_filter_append header_reads append.simps)
  finally show ?thesis
    by (simp only: environment_of_def set_up_lines [OF assms] map_filter_append compose_reads)
qed

text \<open>The examples and defaults are accepted as they are, but for the secrets.\<close>

definition secret_names :: "string list" where
  "secret_names = [''SECURITY_API_KEY_PEPPER'', ''SECURITY_ENCRYPTION_KEY'', ''SECURITY_CURSOR_SIGNING_KEY'',
     ''LOG_RECIPIENT_SALT'']"

definition example_fits :: "variable \<Rightarrow> bool" where
  "example_fits v =
     (if ev_name v \<in> set secret_names
      then ev_kind v = Base64Key 32 \<and> ev_default v = None \<and> ev_example v = Some placeholder_secret
      else if ev_name v = ''WAHA_API_KEY''
      then ev_kind v = AtLeast 16 \<and> ev_default v = None \<and> ev_example v = Some placeholder_secret
      else (case (ev_kind v, ev_default v, ev_example v) of
          (Port, Some (VNumber i), _) \<Rightarrow> 1 \<le> i \<and> i \<le> 65535
        | (PositiveInteger, Some (VNumber i), _) \<Rightarrow> 1 \<le> i \<and> i \<le> 9007199254740991
        | (Url, None, Some s) \<Rightarrow> s \<in> set [''http://localhost:8080'', ''http://waha:3000'', ''http://api:3000'']
        | (StartingWith p, None, Some s) \<Rightarrow> starts_with s p
        | (AtLeast n, Some (VText s), _) \<Rightarrow> n \<le> length s
        | (OneOf allowed, Some (VText s), _) \<Rightarrow> s \<in> set allowed
        | (Flag, Some (VText s), _) \<Rightarrow> s = ''true'' \<or> s = ''false''
        | _ \<Rightarrow> False))"

lemma examples_fit: "list_all example_fits environment_schema"
  by code_simp

lemma coerced_string_of_int:
  assumes "low \<le> i" and "0 \<le> i" and "i \<le> 9007199254740991" and "\<And>h. high = Some h \<Longrightarrow> i \<le> h"
  shows "coerced_integer low high (string_of_int i) = Some (VNumber i)"
proof -
  have "(9007199254740991 :: nat) < 2 ^ 53" by simp
  moreover have "(2 :: nat) ^ 53 \<le> 2 ^ 1024" by (rule power_increasing) simp_all
  ultimately have "nat i < 2 ^ 1024" using assms(3) by (simp add: nat_less_iff)
  from js_number_string_of_nat [OF this] assms(2) have "js_number (string_of_int i) = Some (of_int i)"
    by (simp add: string_of_int_def)
  with assms show ?thesis
    by (auto simp: coerced_integer_def is_safe_integer_def split: option.splits)
qed

definition knows_example_urls :: "zod_library \<Rightarrow> bool" where
  "knows_example_urls zl =
     list_all (zl_is_url zl) [''http://localhost:8080'', ''http://waha:3000'', ''http://api:3000'']"

lemma coerced_examples:
  "1 \<le> i \<Longrightarrow> i \<le> 65535 \<Longrightarrow> coerced_integer 1 (Some 65535) (string_of_int i) = Some (VNumber i)"
  "1 \<le> i \<Longrightarrow> i \<le> 9007199254740991 \<Longrightarrow> coerced_integer 1 None (string_of_int i) = Some (VNumber i)"
  by (rule coerced_string_of_int; simp)+

lemma ordinary_example_accepted:
  assumes "example_fits v" and "ev_name v \<notin> set secret_names" and "ev_name v \<noteq> ''WAHA_API_KEY''"
    and "knows_example_urls zl"
  shows "read_value (zl_is_url zl) (ev_kind v) (example_value v) \<noteq> None"
  using assms
  by (auto simp: example_fits_def example_value_def read_default_value_def knows_example_urls_def
      coerced_examples split: if_splits variable_kind.splits option.splits env_value.splits)

lemma secret_example: "example_fits v \<Longrightarrow> ev_name v \<in> set secret_names \<or> ev_name v = ''WAHA_API_KEY'' \<Longrightarrow>
    example_value v = placeholder_secret"
  by (auto simp: example_fits_def example_value_def read_default_value_def split: if_splits)

lemma secrets_drawn: "generated_secrets d name = None \<longleftrightarrow> name \<notin> set secret_names \<and> name \<noteq> ''WAHA_API_KEY''"
  by (auto simp: generated_secrets_def secret_names_def)

lemma set_up_accepted:
  assumes "v \<in> set environment_schema" and "usable_secrets d" and "knows_example_urls zl"
  shows "read_value (zl_is_url zl) (ev_kind v) (set_up_value d v) \<noteq> None"
proof -
  have fits: "example_fits v" using examples_fit assms(1) by (simp add: list_all_iff)
  show ?thesis
  proof (cases "generated_secrets d (ev_name v)")
    case None
    then have "ev_name v \<notin> set secret_names" "ev_name v \<noteq> ''WAHA_API_KEY''"
      using secrets_drawn by blast+
    with ordinary_example_accepted [OF fits _ _ assms(3)] None show ?thesis
      by (simp add: set_up_value_def)
  next
    case (Some s)
    with secrets_drawn [of d "ev_name v"] secret_example [OF fits] have "set_up_value d v = s"
      by (simp add: set_up_value_def)
    with Some assms(2) fits show ?thesis
      by (auto simp: generated_secrets_def usable_secrets_def example_fits_def secret_names_def split: if_splits)
  qed
qed

lemma find_by_name:
  "v \<in> set vs \<Longrightarrow> distinct (map ev_name vs) \<Longrightarrow> find (\<lambda>x. ev_name x = ev_name v) vs = Some v"
  by (induction vs) auto

lemma map_of_names:
  assumes "v \<in> set vs" and "distinct (map ev_name vs)"
  shows "map_of (map (\<lambda>v. (ev_name v, f v)) vs @ rest) (ev_name v) = Some (f v)"
proof -
  from assms have "map_of (map (\<lambda>v. (ev_name v, f v)) vs) (ev_name v) = Some (f v)"
    by (intro map_of_is_SomeI) (auto simp: o_def)
  then show ?thesis by simp
qed

lemma set_up_lookup:
  assumes "v \<in> set environment_schema" and "usable_secrets d"
  shows "treat_empty_values_as_unset (environment_of (set_up_environment d generate_environment_example)) (ev_name v)
    = Some (set_up_value d v)"
proof -
  have "set_up_value d v \<noteq> []"
    using assms documented_value schema_is_documented base64_key_plain(1)
    by (auto simp: set_up_value_def generated_secrets_def usable_secrets_def plain_text_def list_all_iff
        split: option.splits if_splits)
  then show ?thesis
    by (simp only: treat_empty_values_as_unset_def set_up_environment_of [OF assms(2)]
        map_of_names [OF assms(1) schema_names]) simp
qed

lemma set_up_parses:
  assumes "usable_secrets d" and "knows_example_urls zl"
  defines "env \<equiv> treat_empty_values_as_unset (environment_of (set_up_environment d generate_environment_example))"
  shows "refused_variables zl env = []"
    and "v \<in> set environment_schema \<Longrightarrow>
      parsed zl env (ev_name v) = read_value (zl_is_url zl) (ev_kind v) (set_up_value d v)"
  using set_up_lookup [OF _ assms(1)] set_up_accepted [OF _ assms(1,2)] find_by_name [OF _ schema_names]
  by (auto simp: refused_variables_def parsed_def env_def read_variable_def filter_empty_conv)

lemma parsed_by_name:
  assumes "usable_secrets d" and "knows_example_urls zl" and "kind_of name = Some kind"
    and "generated_secrets d name = Some s"
  shows "parsed zl (treat_empty_values_as_unset (environment_of
    (set_up_environment d generate_environment_example))) name = read_value (zl_is_url zl) kind s"
proof -
  from assms(3) obtain v where v: "v \<in> set environment_schema" "ev_name v = name" "ev_kind v = kind"
    by (auto simp: kind_of_def find_Some_iff intro: nth_mem)
  then have "example_fits v" using examples_fit by (simp add: list_all_iff)
  then have "example_value v = placeholder_secret"
    using secret_example secrets_drawn [of d name] assms(4) v(2) by fastforce
  with v set_up_parses(2) [OF assms(1,2) v(1)] assms(4) show ?thesis
    by (simp add: set_up_value_def)
qed

lemma set_up_secrets:
  assumes "usable_secrets d" and "knows_example_urls zl"
  shows "configured_secrets (to_application_configuration (parsed zl (treat_empty_values_as_unset
      (environment_of (set_up_environment d generate_environment_example)))))
    = [(''SECURITY_API_KEY_PEPPER'', dw_api_key_pepper d), (''SECURITY_ENCRYPTION_KEY'', dw_encryption_key d),
       (''SECURITY_CURSOR_SIGNING_KEY'', dw_cursor_signing_key d), (''LOG_RECIPIENT_SALT'', dw_recipient_salt d),
       (''WAHA_API_KEY'', dw_waha_api_key d)]"
  using parsed_by_name [OF assms kinds(16)] parsed_by_name [OF assms kinds(17)]
    parsed_by_name [OF assms kinds(18)] parsed_by_name [OF assms kinds(21)] parsed_by_name [OF assms kinds(13)]
    assms(1)
  by (simp add: configured_texts text_at_def generated_secrets_def usable_secrets_def)

lemma development_by_default:
  assumes "usable_secrets d" and "knows_example_urls zl"
  shows "ac_node_environment (to_application_configuration (parsed zl (treat_empty_values_as_unset
      (environment_of (set_up_environment d generate_environment_example))))) = ''development''"
proof -
  let ?v = "hd environment_schema"
  have v: "?v \<in> set environment_schema" "ev_name ?v = ''NODE_ENV''" "ev_kind ?v = OneOf [''development'', ''test'', ''production'']"
    and e: "example_value ?v = ''development''"
    by (simp_all add: environment_schema_def variable_def example_value_def read_default_value_def)
  have "generated_secrets d ''NODE_ENV'' = None" by (simp add: generated_secrets_def)
  with set_up_parses(2) [OF assms v(1)] v e show ?thesis
    by (simp add: to_application_configuration_def text_at_def set_up_value_def)
qed

lemma example_refused:
  assumes "knows_example_urls zl"
  shows "map ev_name (refused_variables zl (treat_empty_values_as_unset (environment_of generate_environment_example)))
    = filter (\<lambda>name. name \<in> set secret_names) (map ev_name environment_schema)"
proof -
  have "read_variable (zl_is_url zl) v (treat_empty_values_as_unset
      (environment_of generate_environment_example) (ev_name v)) = None \<longleftrightarrow> ev_name v \<in> set secret_names"
    if v: "v \<in> set environment_schema" for v
  proof -
    have "example_value v \<noteq> []" and fits: "example_fits v"
      using v documented_value schema_is_documented examples_fit by (auto simp: plain_text_def list_all_iff)
    then have "treat_empty_values_as_unset (environment_of generate_environment_example) (ev_name v) = Some (example_value v)"
      using map_of_names [OF v schema_names, of example_value "[]"]
      by (simp add: treat_empty_values_as_unset_def example_environment)
    moreover have "\<not> is_base64_key 32 placeholder_secret" "16 \<le> length placeholder_secret"
      using placeholder_is_no_key by (auto simp: placeholder_secret_def)
    ultimately show ?thesis
      using ordinary_example_accepted [OF fits _ _ assms] secret_example [OF fits] fits
      by (cases "ev_name v \<in> set secret_names"; cases "ev_name v = ''WAHA_API_KEY''")
         (auto simp: read_variable_def example_fits_def)
  qed
  then show ?thesis
    by (simp add: refused_variables_def filter_map o_def cong: filter_cong)
qed

lemma issue_names:
  assumes "\<And>v. v \<in> set vs \<Longrightarrow> ms v \<noteq> []"
  shows "ci_variable_name ` set (concat (map (\<lambda>v. map (issue (ev_name v)) (ms v)) vs)) = set (map ev_name vs)"
  using assms
proof (induction vs)
  case (Cons v vs)
  have "ci_variable_name ` set (map (issue (ev_name v)) (ms v)) = {ev_name v}"
    using Cons.prems [of v] by (cases "ms v") (auto simp: issue_def)
  with Cons show ?case by (simp add: image_Un)
qed simp

lemma refused_configuration:
  assumes "refused_variables zl (treat_empty_values_as_unset env) \<noteq> []"
    and "\<And>kind s. zl_messages zl kind s \<noteq> []"
  shows "\<exists>issues. parse_configuration zl env = Inl issues
    \<and> set (map ci_variable_name issues)
      = set (map ev_name (refused_variables zl (treat_empty_values_as_unset env)))"
proof (intro exI conjI)
  let ?env = "treat_empty_values_as_unset env"
  let ?ms = "\<lambda>v. zl_messages zl (ev_kind v) (?env (ev_name v))"
  let ?vs = "refused_variables zl ?env"
  show "parse_configuration zl env = Inl (concat (map (\<lambda>v. map (issue (ev_name v)) (?ms v)) ?vs))"
    using assms(1) by (simp add: parse_configuration_def Let_def)
  show "set (map ci_variable_name (concat (map (\<lambda>v. map (issue (ev_name v)) (?ms v)) ?vs)))
      = set (map ev_name ?vs)"
    using issue_names [of ?vs ?ms] assms(2) by (simp only: set_map [of ci_variable_name]) simp
qed

text \<open>
  The committed example never runs as it is, and the setup script makes it run. The file generated
  from the schema is refused, and the issues name exactly the four keys that hold the placeholder;
  the file the script writes from it is accepted, in development, with the secrets that were drawn -
  given only that the secrets have the sizes the script asks for, that the addresses of the example
  are URLs and that the schema library says something about a value it refuses.
\<close>

theorem setup_makes_the_example_run:
  assumes "usable_secrets d" and "knows_example_urls zl" and "\<And>kind s. zl_messages zl kind s \<noteq> []"
  shows "(\<exists>issues. parse_configuration zl (environment_of generate_environment_example) = Inl issues
      \<and> set (map ci_variable_name issues) = {''SECURITY_API_KEY_PEPPER'', ''SECURITY_ENCRYPTION_KEY'',
           ''SECURITY_CURSOR_SIGNING_KEY'', ''LOG_RECIPIENT_SALT''})
    \<and> (\<exists>c. parse_configuration zl (environment_of
             (set_up_environment d generate_environment_example)) = Inr c
      \<and> ac_node_environment c = ''development''
      \<and> map snd (configured_secrets c) = [dw_api_key_pepper d, dw_encryption_key d,
           dw_cursor_signing_key d, dw_recipient_salt d, dw_waha_api_key d])"
proof (rule conjI)
  let ?env = "environment_of generate_environment_example"
  have "set secret_names \<subseteq> set (map ev_name environment_schema)" by code_simp
  then have names: "set (map ev_name (refused_variables zl (treat_empty_values_as_unset ?env))) = set secret_names"
    unfolding example_refused [OF assms(2)] by auto
  moreover have "secret_names \<noteq> []" by (simp add: secret_names_def)
  ultimately have "refused_variables zl (treat_empty_values_as_unset ?env) \<noteq> []"
    by (metis list.simps(8) set_empty)
  from refused_configuration [OF this assms(3)]
  show "\<exists>issues. parse_configuration zl ?env = Inl issues
      \<and> set (map ci_variable_name issues) = {''SECURITY_API_KEY_PEPPER'', ''SECURITY_ENCRYPTION_KEY'',
           ''SECURITY_CURSOR_SIGNING_KEY'', ''LOG_RECIPIENT_SALT''}"
    unfolding names by (simp only: secret_names_def list.set)
next
  show "\<exists>c. parse_configuration zl (environment_of (set_up_environment d generate_environment_example)) = Inr c
      \<and> ac_node_environment c = ''development''
      \<and> map snd (configured_secrets c) = [dw_api_key_pepper d, dw_encryption_key d,
           dw_cursor_signing_key d, dw_recipient_salt d, dw_waha_api_key d]"
    using development_by_default [OF assms(1,2)]
    by (simp add: parse_configuration_def Let_def set_up_parses(1) [OF assms(1,2)]
        collect_production_issues_def set_up_secrets [OF assms(1,2)])
qed

section \<open>Instances\<close>

definition example_zod :: zod_library where
  "example_zod = \<lparr>zl_is_url = (\<lambda>s. starts_with s ''http''), zl_messages = (\<lambda>kind s. [''Invalid input''])\<rparr>"

definition example_draw :: "char \<Rightarrow> string" where
  "example_draw c = replicate 43 c @ ''=''"

definition example_secrets :: drawn_secrets where
  "example_secrets =
     \<lparr>dw_api_key_pepper = example_draw CHR ''a'', dw_encryption_key = example_draw CHR ''b'',
      dw_cursor_signing_key = example_draw CHR ''c'', dw_recipient_salt = example_draw CHR ''d'',
      dw_waha_api_key = replicate 48 CHR ''e''\<rparr>"

lemma example_secrets_usable: "usable_secrets example_secrets"
proof -
  have "\<not> is_base64_character CHR ''=''" by code_simp
  then have "is_base64_key 32 (example_draw c)" if "is_base64_character c" for c
    using that by (simp add: example_draw_def is_base64_key_def base64_byte_length_def
        takeWhile_append dropWhile_append)
  moreover have "list_all is_base64_character ''abcd''" by code_simp
  ultimately show ?thesis
    by (simp add: usable_secrets_def example_secrets_def newline_def)
qed

theorem setup_makes_the_example_run_witness:
  "\<exists>c. parse_configuration example_zod (environment_of
     (set_up_environment example_secrets generate_environment_example)) = Inr c
   \<and> sc_encryption_key (ac_security c) = example_draw CHR ''b''"
proof -
  have "knows_example_urls example_zod" by (simp add: knows_example_urls_def example_zod_def)
  from setup_makes_the_example_run [OF example_secrets_usable this]
  show ?thesis by (auto simp: example_zod_def example_secrets_def configured_secrets_def)
qed

theorem accepted_configurations_are_safe_witness:
  "\<exists>c. parse_configuration example_zod (environment_of
     (set_up_environment example_secrets generate_environment_example)) = Inr c
   \<and> sc_encryption_key (ac_security c) \<noteq> placeholder_secret \<and> 1 \<le> hc_port (ac_http c)"
proof -
  have urls: "knows_example_urls example_zod" by (simp add: knows_example_urls_def example_zod_def)
  let ?c = "to_application_configuration (parsed example_zod (treat_empty_values_as_unset
      (environment_of (set_up_environment example_secrets generate_environment_example))))"
  have ok: "parse_configuration example_zod (environment_of
      (set_up_environment example_secrets generate_environment_example)) = Inr ?c"
    by (simp add: parse_configuration_def Let_def set_up_parses(1) [OF example_secrets_usable urls]
        collect_production_issues_def development_by_default [OF example_secrets_usable urls])
  from accepted_configurations_are_safe [OF this] ok show ?thesis
    by (auto simp: configured_secrets_def)
qed

end
