(* ===== verification/Waha_Stub.thy ===== *)
theory Waha_Stub
  imports Waha_Provider Api_Routes
begin

text \<open>
  The stand-in for WAHA the platform is developed and tested against, \<open>tools/waha-stub/src/\<close>: the
  sessions it keeps (\<open>session-store.ts\<close>), the failures it can be told to answer with
  (\<open>failure-modes.ts\<close>), the callbacks it makes (\<open>webhook-sender.ts\<close>) and its routes
  (\<open>create-stub-server.ts\<close>). Requests carry members of the types their interfaces declare; a member of
  another type reads as a missing one.
\<close>

section \<open>Failures on demand\<close>

datatype failure_mode =
    NoFailure | ServerErrorMode | UnauthorizedMode | RateLimitedMode | InvalidRequestMode
  | TimeoutMode | ConnectionResetMode | ReachoutTimelockMode | MessageCappingMode

definition failure_modes :: "(string \<times> failure_mode) list" where
  "failure_modes =
     [(''none'', NoFailure), (''server_error'', ServerErrorMode), (''unauthorized'', UnauthorizedMode),
      (''rate_limited'', RateLimitedMode), (''invalid_request'', InvalidRequestMode),
      (''timeout'', TimeoutMode), (''connection_reset'', ConnectionResetMode),
      (''reachout_timelock'', ReachoutTimelockMode), (''message_capping'', MessageCappingMode)]"

definition failure_by_number_suffix :: "(string \<times> failure_mode) list" where
  "failure_by_number_suffix =
     [(''0500'', ServerErrorMode), (''0401'', UnauthorizedMode), (''0429'', RateLimitedMode),
      (''0422'', InvalidRequestMode), (''0408'', TimeoutMode), (''0499'', ConnectionResetMode),
      (''0463'', ReachoutTimelockMode), (''0475'', MessageCappingMode)]"

definition unregistered_number_suffix :: string where
  "unregistered_number_suffix = ''0404''"

definition failure_mode_for_recipient :: "string \<Rightarrow> failure_mode" where
  "failure_mode_for_recipient chat_identifier =
     (case map_of failure_by_number_suffix (slice_last 4 (filter is_digit chat_identifier)) of
        Some mode \<Rightarrow> mode
      | None \<Rightarrow> NoFailure)"

definition is_unregistered_number :: "string \<Rightarrow> bool" where
  "is_unregistered_number phone_number =
     (let digits = filter is_digit phone_number
      in length unregistered_number_suffix \<le> length digits
         \<and> slice_last (length unregistered_number_suffix) digits = unregistered_number_suffix)"

record failure_response =
  fr_status_code :: int
  fr_body :: json
  fr_retry_after :: "string option"

definition rate_limited_retry_after_seconds :: string where
  "rate_limited_retry_after_seconds = ''90''"

definition engine_error_body :: "string \<Rightarrow> string \<Rightarrow> json" where
  "engine_error_body message chat_identifier =
     JObj [(''statusCode'', JNum 500),
       (''timestamp'', JStr (to_iso_string 0)),
       (''exception'', JObj [(''message'', JStr message), (''name'', JStr ''Error''),
          (''stack'', JStr (''Error: '' @ message @ [CHR 0x0A]
             @ ''    at WhatsappSessionWebJS.sendText (/app/dist/core/engines/webjs/session.webjs.core.js:1:1)''))]),
       (''request'', JObj [(''path'', JStr ''/api/sendText''), (''method'', JStr ''POST''),
          (''body'', JObj [(''session'', JStr ''default''), (''chatId'', JStr chat_identifier),
             (''text'', JStr ''The message text'')])])]"

definition stub_message :: "string \<Rightarrow> json" where
  "stub_message message = JObj [(''message'', JStr message)]"

fun response_for_failure_mode :: "failure_mode \<Rightarrow> failure_response option" where
  "response_for_failure_mode ServerErrorMode =
     Some \<lparr>fr_status_code = 500, fr_body = stub_message ''Internal engine failure.'', fr_retry_after = None\<rparr>"
| "response_for_failure_mode UnauthorizedMode =
     Some \<lparr>fr_status_code = 401, fr_body = stub_message ''Unauthorized'', fr_retry_after = None\<rparr>"
| "response_for_failure_mode RateLimitedMode =
     Some \<lparr>fr_status_code = 429, fr_body = stub_message ''Too many requests.'',
           fr_retry_after = Some rate_limited_retry_after_seconds\<rparr>"
| "response_for_failure_mode InvalidRequestMode =
     Some \<lparr>fr_status_code = 422, fr_body = stub_message ''The request payload is invalid.'', fr_retry_after = None\<rparr>"
| "response_for_failure_mode ReachoutTimelockMode =
     Some \<lparr>fr_status_code = 500,
           fr_body = engine_error_body ''server returned error 463'' ''5511999990463@c.us'',
           fr_retry_after = None\<rparr>"
| "response_for_failure_mode MessageCappingMode =
     Some \<lparr>fr_status_code = 500,
           fr_body = engine_error_body ''server returned error 475'' ''5511999990475@c.us'',
           fr_retry_after = None\<rparr>"
| "response_for_failure_mode NoFailure = None"
| "response_for_failure_mode TimeoutMode = None"
| "response_for_failure_mode ConnectionResetMode = None"

section \<open>Sessions\<close>

record stub_reachout_timelock =
  rt_enforcement_type :: string
  rt_is_active :: bool
  rt_time_enforcement_ends :: "int option"   \<comment> \<open>Unix seconds\<close>

record stub_message_capping =
  mc_capping_status :: string
  mc_total_quota :: rat
  mc_used_quota :: rat
  mc_cycle_start :: "int option"
  mc_cycle_end :: "int option"

text \<open>
  The status of a session is one of the first five of the port's statuses. A webhook is kept as the
  object it was registered with.
\<close>

record stub_session =
  su_name :: string
  su_status :: provider_session_status
  su_phone_number :: "string option"
  su_push_name :: "string option"
  su_qr_attempt :: nat
  su_qr_expires_at :: "millis option"
  su_webhooks :: "json list"
  su_failure_reason :: "string option"
  su_reachout_timelock :: stub_reachout_timelock
  su_message_capping :: stub_message_capping

definition maximum_qr_attempts :: nat where
  "maximum_qr_attempts = 6"

definition first_qr_lifetime_milliseconds :: int where
  "first_qr_lifetime_milliseconds = 60000"

definition subsequent_qr_lifetime_milliseconds :: int where
  "subsequent_qr_lifetime_milliseconds = 20000"

definition new_stub_session :: "string \<Rightarrow> json list \<Rightarrow> stub_session" where
  "new_stub_session name webhooks =
     \<lparr>su_name = name, su_status = STOPPED, su_phone_number = None, su_push_name = None,
      su_qr_attempt = 0, su_qr_expires_at = None, su_webhooks = webhooks, su_failure_reason = None,
      su_reachout_timelock = \<lparr>rt_enforcement_type = ''DEFAULT'', rt_is_active = False,
        rt_time_enforcement_ends = None\<rparr>,
      su_message_capping = \<lparr>mc_capping_status = ''NONE'', mc_total_quota = -1, mc_used_quota = 0,
        mc_cycle_start = None, mc_cycle_end = None\<rparr>\<rparr>"

definition start_stub_session :: "millis \<Rightarrow> stub_session \<Rightarrow> stub_session" where
  "start_stub_session now s =
     (if su_phone_number s \<noteq> None then s\<lparr>su_status := WORKING\<rparr>
      else s\<lparr>su_status := SCAN_QR_CODE, su_qr_attempt := 1,
             su_qr_expires_at := Some (now + first_qr_lifetime_milliseconds)\<rparr>)"

definition issue_next_qr_code :: "millis \<Rightarrow> stub_session \<Rightarrow> stub_session" where
  "issue_next_qr_code now s =
     (if maximum_qr_attempts \<le> su_qr_attempt s
      then s\<lparr>su_status := SESSION_FAILED, su_failure_reason := Some ''QR_ATTEMPTS_EXHAUSTED'',
             su_qr_expires_at := None\<rparr>
      else s\<lparr>su_qr_attempt := su_qr_attempt s + 1,
             su_qr_expires_at := Some (now + subsequent_qr_lifetime_milliseconds)\<rparr>)"

definition complete_scan :: "string \<Rightarrow> string \<Rightarrow> stub_session \<Rightarrow> stub_session" where
  "complete_scan phone_number push_name s =
     s\<lparr>su_status := WORKING, su_phone_number := Some phone_number, su_push_name := Some push_name,
       su_qr_expires_at := None, su_failure_reason := None\<rparr>"

definition logout_stub_session :: "stub_session \<Rightarrow> stub_session" where
  "logout_stub_session s =
     s\<lparr>su_status := STOPPED, su_phone_number := None, su_push_name := None, su_qr_attempt := 0,
       su_qr_expires_at := None\<rparr>"

section \<open>Restrictions of the account\<close>

definition number_member :: "string \<Rightarrow> json option \<Rightarrow> rat option" where
  "number_member name body = (case member_of name body of Some (JNum x) \<Rightarrow> Some x | _ \<Rightarrow> None)"

definition text_member :: "string \<Rightarrow> json option \<Rightarrow> string option" where
  "text_member name body = (case member_of name body of Some (JStr s) \<Rightarrow> Some s | _ \<Rightarrow> None)"

definition text_or :: "string \<Rightarrow> string option \<Rightarrow> string" where
  "text_or standard value = (case value of Some s \<Rightarrow> s | None \<Rightarrow> standard)"

definition math_round :: "rat \<Rightarrow> int" where
  "math_round x = \<lfloor>x + 1 / 2\<rfloor>"

definition apply_timelock_without_end :: "json option \<Rightarrow> stub_session \<Rightarrow> stub_session" where
  "apply_timelock_without_end body s =
     (if member_of ''timelockWithoutEnd'' body \<noteq> Some (JBool True) then s
      else s\<lparr>su_reachout_timelock :=
        \<lparr>rt_enforcement_type = text_or (rt_enforcement_type (su_reachout_timelock s)) (text_member ''enforcementType'' body),
         rt_is_active = True, rt_time_enforcement_ends = None\<rparr>\<rparr>)"

definition apply_timelock_minutes :: "millis \<Rightarrow> json option \<Rightarrow> stub_session \<Rightarrow> stub_session" where
  "apply_timelock_minutes now body s =
     (case number_member ''timelockMinutes'' body of
        None \<Rightarrow> s
      | Some minutes \<Rightarrow> s\<lparr>su_reachout_timelock :=
          \<lparr>rt_enforcement_type = text_or (rt_enforcement_type (su_reachout_timelock s)) (text_member ''enforcementType'' body),
           rt_is_active = (0 < minutes),
           rt_time_enforcement_ends =
             (if 0 < minutes then Some (now div 1000 + math_round (minutes * 60)) else None)\<rparr>\<rparr>)"

definition apply_capping :: "millis \<Rightarrow> json option \<Rightarrow> stub_session \<Rightarrow> stub_session" where
  "apply_capping now body s =
     (case text_member ''cappingStatus'' body of
        None \<Rightarrow> s
      | Some status \<Rightarrow> s\<lparr>su_message_capping :=
          (let capping = su_message_capping s
           in \<lparr>mc_capping_status = status,
               mc_total_quota = (case number_member ''totalQuota'' body of Some q \<Rightarrow> q | None \<Rightarrow> mc_total_quota capping),
               mc_used_quota = (case number_member ''usedQuota'' body of Some q \<Rightarrow> q | None \<Rightarrow> mc_used_quota capping),
               mc_cycle_start = Some (now div 1000),
               mc_cycle_end = Some (now div 1000 + 30 * 24 * 3600)\<rparr>)\<rparr>)"

definition apply_restriction :: "millis \<Rightarrow> json option \<Rightarrow> stub_session \<Rightarrow> stub_session" where
  "apply_restriction now body s =
     apply_capping now body (apply_timelock_minutes now body (apply_timelock_without_end body s))"

section \<open>What the stub reports\<close>

definition json_int :: "int option \<Rightarrow> json" where
  "json_int value = (case value of None \<Rightarrow> JNull | Some i \<Rightarrow> JNum (of_int i))"

definition json_text :: "string option \<Rightarrow> json" where
  "json_text value = (case value of None \<Rightarrow> JNull | Some s \<Rightarrow> JStr s)"

definition timelock_json :: "stub_reachout_timelock \<Rightarrow> json" where
  "timelock_json t =
     JObj [(''enforcementType'', JStr (rt_enforcement_type t)), (''isActive'', JBool (rt_is_active t)),
       (''timeEnforcementEnds'', json_int (rt_time_enforcement_ends t))]"

definition capping_json :: "stub_message_capping \<Rightarrow> json" where
  "capping_json c =
     JObj [(''cappingStatus'', JStr (mc_capping_status c)), (''totalQuota'', JNum (mc_total_quota c)),
       (''usedQuota'', JNum (mc_used_quota c)), (''cycleStart'', json_int (mc_cycle_start c)),
       (''cycleEnd'', json_int (mc_cycle_end c)), (''mvStatus'', JNull), (''oteStatus'', JNull)]"

definition is_capped :: "stub_session \<Rightarrow> bool" where
  "is_capped s = (mc_capping_status (su_message_capping s) \<noteq> ''NONE'')"

definition to_restriction_data :: "stub_session \<Rightarrow> json" where
  "to_restriction_data s =
     (let data = (if rt_is_active (su_reachout_timelock s)
                  then [(''reachoutTimelock'', timelock_json (su_reachout_timelock s))] else [])
               @ (if is_capped s then [(''messageCapping'', capping_json (su_message_capping s))] else [])
      in if data = [] then JNull else JObj data)"

definition to_stub_session_response :: "stub_session \<Rightarrow> json" where
  "to_stub_session_response s =
     JObj [(''name'', JStr (su_name s)), (''status'', JStr (session_status_name (su_status s))),
       (''me'',
        case su_phone_number s of
          None \<Rightarrow> JNull
        | Some phone_number \<Rightarrow>
            JObj [(''id'', JStr (phone_number @ ''@c.us'')), (''pushName'', json_text (su_push_name s)),
              (''reachoutTimelock'', if rt_is_active (su_reachout_timelock s)
                 then timelock_json (su_reachout_timelock s) else JNull),
              (''messageCapping'', if is_capped s then capping_json (su_message_capping s) else JNull)])]"

text \<open>The raw object of a session, as the control plane shows it.\<close>

definition session_object :: "stub_session \<Rightarrow> json" where
  "session_object s =
     JObj [(''name'', JStr (su_name s)), (''status'', JStr (session_status_name (su_status s))),
       (''phoneNumber'', json_text (su_phone_number s)), (''pushName'', json_text (su_push_name s)),
       (''qrAttempt'', JNum (of_nat (su_qr_attempt s))), (''qrExpiresAt'', json_int (su_qr_expires_at s)),
       (''webhooks'', JArr (su_webhooks s)), (''failureReason'', json_text (su_failure_reason s)),
       (''reachoutTimelock'', timelock_json (su_reachout_timelock s)),
       (''messageCapping'', capping_json (su_message_capping s))]"

text \<open>What a send answers: the message as one engine or the other describes it.\<close>

datatype response_engine = WEBJS | NOWEB

definition response_engine_of :: "string \<Rightarrow> response_engine option" where
  "response_engine_of candidate =
     (if candidate = ''WEBJS'' then Some WEBJS else if candidate = ''NOWEB'' then Some NOWEB else None)"

fun engine_name :: "response_engine \<Rightarrow> string" where
  "engine_name WEBJS = ''WEBJS''"
| "engine_name NOWEB = ''NOWEB''"

definition to_webjs_sent_message :: "string \<Rightarrow> string \<Rightarrow> string \<Rightarrow> string \<Rightarrow> int \<Rightarrow> json" where
  "to_webjs_sent_message chat_identifier message_identifier message_text sender_phone_number sent_at_seconds =
     JObj [(''id'', JObj [(''fromMe'', JBool True), (''remote'', JStr chat_identifier),
          (''id'', JStr message_identifier),
          (''_serialized'', JStr (''true_'' @ chat_identifier @ ''_'' @ message_identifier))]),
       (''ack'', JNum 0), (''body'', JStr message_text), (''type'', JStr ''chat''),
       (''timestamp'', JNum (of_int sent_at_seconds)), (''from'', JStr (sender_phone_number @ ''@c.us'')),
       (''to'', JStr chat_identifier), (''hasMedia'', JBool False)]"

definition replace_first :: "string \<Rightarrow> string \<Rightarrow> string \<Rightarrow> string" where
  "replace_first old new s =
     (case index_of s old of None \<Rightarrow> s | Some i \<Rightarrow> take i s @ new @ drop (i + length old) s)"

definition to_noweb_sent_message :: "string \<Rightarrow> string \<Rightarrow> string \<Rightarrow> string \<Rightarrow> int \<Rightarrow> json" where
  "to_noweb_sent_message chat_identifier message_identifier message_text sender_phone_number sent_at_seconds =
     JObj [(''key'', JObj [(''remoteJid'', JStr (replace_first ''@c.us'' ''@s.whatsapp.net'' chat_identifier)),
          (''fromMe'', JBool True), (''id'', JStr message_identifier)]),
       (''message'', JObj [(''extendedTextMessage'', JObj [(''text'', JStr message_text)])]),
       (''messageTimestamp'', JStr (string_of_int sent_at_seconds)), (''status'', JStr ''PENDING'')]"

fun sent_message_by_engine :: "response_engine \<Rightarrow> string \<Rightarrow> string \<Rightarrow> string \<Rightarrow> string \<Rightarrow> int \<Rightarrow> json" where
  "sent_message_by_engine WEBJS = to_webjs_sent_message"
| "sent_message_by_engine NOWEB = to_noweb_sent_message"

definition linked_device_identifier :: string where
  "linked_device_identifier = ''165515288932355@lid''"

section \<open>The state of the stub and its surroundings\<close>

datatype chat_action = Seen | TypingStarted | TypingStopped | Sent

record delivered_webhook =
  dw_url :: string
  dw_envelope :: json
  dw_result :: "string + int"               \<comment> \<open>the error, or the status of the answer\<close>

record stub =
  sb_sessions :: "(string \<times> stub_session) list"
  sb_delivered :: "delivered_webhook list"
  sb_forced_failure_mode :: failure_mode
  sb_sent_message_counter :: nat
  sb_recipient_lookup_count :: nat
  sb_response_engine :: response_engine
  sb_is_account_limits_lookup_unavailable :: bool
  sb_chat_activity :: "(chat_action \<times> string) list"
  sb_send_delay_milliseconds :: rat
  sb_identifiers :: nat                     \<comment> \<open>how many random identifiers were drawn\<close>

definition initial_stub :: stub where
  "initial_stub =
     \<lparr>sb_sessions = [], sb_delivered = [], sb_forced_failure_mode = NoFailure,
      sb_sent_message_counter = 0, sb_recipient_lookup_count = 0, sb_response_engine = WEBJS,
      sb_is_account_limits_lookup_unavailable = False, sb_chat_activity = [],
      sb_send_delay_milliseconds = 0, sb_identifiers = 0\<rparr>"

record callback =
  cb_url :: string
  cb_headers :: "(string \<times> string) list"
  cb_body :: string

text \<open>
  What is not the stub's own: the random identifiers, the digest, the text of a JSON value, the
  receiver of its callbacks, the drawing of a QR code, and how the framework reads a path segment
  and a query.
\<close>

record stub_runtime =
  sr_api_key :: string
  sr_identifier :: "nat \<Rightarrow> string"
  sr_hmac_hex :: "string \<Rightarrow> string \<Rightarrow> string"      \<comment> \<open>the key, the body\<close>
  sr_stringify :: "json \<Rightarrow> string"
  sr_receive :: "callback \<Rightarrow> string + int"
  sr_render_qr :: "string \<Rightarrow> string"
  sr_decode_segment :: "string \<Rightarrow> string"
  sr_query :: "string \<Rightarrow> string \<rightharpoonup> string"

definition find_stub_session :: "string \<Rightarrow> stub \<Rightarrow> stub_session option" where
  "find_stub_session name sb = map_of (sb_sessions sb) name"

definition put_stub_session :: "stub_session \<Rightarrow> stub \<Rightarrow> stub" where
  "put_stub_session s sb = sb\<lparr>sb_sessions := AList.update (su_name s) s (sb_sessions sb)\<rparr>"

definition remove_stub_session :: "string \<Rightarrow> stub \<Rightarrow> stub" where
  "remove_stub_session name sb = sb\<lparr>sb_sessions := AList.delete name (sb_sessions sb)\<rparr>"

definition maximum_recorded_chat_activity :: nat where
  "maximum_recorded_chat_activity = 200"

definition record_chat_activity :: "chat_action \<Rightarrow> string \<Rightarrow> stub \<Rightarrow> stub" where
  "record_chat_activity action chat_id sb =
     (let activity = sb_chat_activity sb @ [(action, chat_id)]
      in sb\<lparr>sb_chat_activity := drop (length activity - maximum_recorded_chat_activity) activity\<rparr>)"

section \<open>Callbacks\<close>

definition webhook_subscribed :: "string \<Rightarrow> json \<Rightarrow> bool" where
  "webhook_subscribed event webhook =
     (case member_of ''events'' (Some webhook) of
        Some (JArr events) \<Rightarrow> JStr event \<in> set events \<or> JStr ''*'' \<in> set events
      | _ \<Rightarrow> False)"

definition webhook_signing_key :: "json \<Rightarrow> string option" where
  "webhook_signing_key webhook = text_member ''key'' (member_of ''hmac'' (Some webhook))"

definition callback_envelope :: "string \<Rightarrow> millis \<Rightarrow> string \<Rightarrow> string \<Rightarrow> json \<Rightarrow> json \<Rightarrow> json" where
  "callback_envelope identifier now session_name event payload me =
     JObj [(''id'', JStr identifier), (''timestamp'', JNum (of_int now)), (''session'', JStr session_name),
       (''event'', JStr event), (''payload'', payload), (''engine'', JStr ''WEBJS''),
       (''environment'', JObj [(''tier'', JStr ''CORE''), (''version'', JStr ''stub'')]), (''me'', me)]"

definition callback_for :: "stub_runtime \<Rightarrow> string \<Rightarrow> millis \<Rightarrow> json \<Rightarrow> json \<Rightarrow> callback" where
  "callback_for rt request_id now envelope webhook =
     (let raw_body = sr_stringify rt envelope;
          signature = (case webhook_signing_key webhook of
              Some key \<Rightarrow> if key = [] then []
                else [(''x-webhook-hmac'', sr_hmac_hex rt key raw_body), (''x-webhook-hmac-algorithm'', ''sha512'')]
            | None \<Rightarrow> [])
      in \<lparr>cb_url = text_or [] (text_member ''url'' (Some webhook)),
          cb_headers = [(''content-type'', ''application/json''), (''x-webhook-request-id'', request_id),
              (''x-webhook-timestamp'', string_of_int now)] @ signature,
          cb_body = raw_body\<rparr>)"

definition deliver_webhook :: "stub_runtime \<Rightarrow> millis \<Rightarrow> json \<Rightarrow> json \<Rightarrow> stub \<Rightarrow> stub" where
  "deliver_webhook rt now envelope webhook sb =
     (let callback = callback_for rt (sr_identifier rt (sb_identifiers sb)) now envelope webhook
      in sb\<lparr>sb_identifiers := sb_identifiers sb + 1,
            sb_delivered := sb_delivered sb @ [\<lparr>dw_url = cb_url callback, dw_envelope = envelope,
              dw_result = sr_receive rt callback\<rparr>]\<rparr>)"

text \<open>The callbacks of one event are made side by side; here they finish in their order.\<close>

definition send_webhooks ::
  "stub_runtime \<Rightarrow> millis \<Rightarrow> stub_session \<Rightarrow> string \<Rightarrow> json \<Rightarrow> json \<Rightarrow> stub \<Rightarrow> stub" where
  "send_webhooks rt now s event payload me sb =
     (let envelope = callback_envelope (sr_identifier rt (sb_identifiers sb)) now (su_name s) event payload me
      in fold (deliver_webhook rt now envelope) (filter (webhook_subscribed event) (su_webhooks s))
           (sb\<lparr>sb_identifiers := sb_identifiers sb + 1\<rparr>))"

definition status_payload :: "stub_session \<Rightarrow> json" where
  "status_payload s = JObj [(''name'', JStr (su_name s)), (''status'', JStr (session_status_name (su_status s)))]"

definition announce_status :: "stub_runtime \<Rightarrow> millis \<Rightarrow> stub_session \<Rightarrow> stub \<Rightarrow> stub" where
  "announce_status rt now s = send_webhooks rt now s ''session.status'' (status_payload s) JNull"

definition announce_restrictions :: "stub_runtime \<Rightarrow> millis \<Rightarrow> stub_session \<Rightarrow> stub \<Rightarrow> stub" where
  "announce_restrictions rt now s =
     send_webhooks rt now s ''session.status''
       (JObj [(''name'', JStr (su_name s)), (''status'', JStr (session_status_name (su_status s))),
          (''statuses'', JArr [JObj [(''status'', JStr (session_status_name (su_status s))),
             (''timestamp'', JNum (of_int now))]]),
          (''data'', to_restriction_data s)])
       (case su_phone_number s of
          None \<Rightarrow> JNull
        | Some phone_number \<Rightarrow> JObj [(''id'', JStr (phone_number @ ''@c.us'')),
            (''pushName'', JStr (text_or [] (su_push_name s)))])"

section \<open>Answers\<close>

text \<open>What becomes of a request: an answer with its \<open>retry-after\<close>, none at all, or a broken connection.\<close>

datatype stub_outcome = Replied int "json option" "string option" | NeverAnswers | SocketDestroyed

definition replied :: "int \<Rightarrow> json \<Rightarrow> stub_outcome" where
  "replied status body = Replied status (Some body) None"

definition refused :: "int \<Rightarrow> string \<Rightarrow> stub_outcome" where
  "refused status message = replied status (stub_message message)"

definition failed_with :: "failure_response \<Rightarrow> stub_outcome" where
  "failed_with f = Replied (fr_status_code f) (Some (fr_body f)) (fr_retry_after f)"

text \<open>A handler that reads a member of a body that is not there throws, which the framework answers.\<close>

definition with_body ::
  "string \<Rightarrow> json option \<Rightarrow> (json option \<Rightarrow> stub \<Rightarrow> stub_outcome \<times> stub) \<Rightarrow> stub \<Rightarrow> stub_outcome \<times> stub" where
  "with_body first_member body k sb =
     (if body = None \<or> body = Some JNull
      then (replied 500 (JObj [(''statusCode'', JNum 500), (''error'', JStr ''Internal Server Error''),
              (''message'', JStr (''Cannot read properties of '' @ (if body = None then ''undefined'' else ''null'')
                 @ '' (reading '' @ [CHR 0x27] @ first_member @ [CHR 0x27] @ '')''))]), sb)
      else k body sb)"

definition with_stub_session ::
  "string \<Rightarrow> (stub_session \<Rightarrow> stub \<Rightarrow> stub_outcome \<times> stub) \<Rightarrow> stub \<Rightarrow> stub_outcome \<times> stub" where
  "with_stub_session name k sb =
     (case find_stub_session name sb of
        None \<Rightarrow> (refused 404 ''Session not found.'', sb)
      | Some s \<Rightarrow> k s sb)"

section \<open>The sessions' routes\<close>

definition post_stub_session :: "stub_runtime \<Rightarrow> millis \<Rightarrow> json option \<Rightarrow> stub \<Rightarrow> stub_outcome \<times> stub" where
  "post_stub_session rt now request_body =
     with_body ''name'' request_body (\<lambda>body sb.
       let name = text_or ''default'' (text_member ''name'' body)
       in if find_stub_session name sb \<noteq> None
          then (refused 422 (''Session '' @ name @ '' already exists.''), sb)
          else
            let webhooks = (case member_of ''webhooks'' (member_of ''config'' body) of
                              Some (JArr ws) \<Rightarrow> ws | _ \<Rightarrow> []);
                created = new_stub_session name webhooks
            in if member_of ''start'' body = Some (JBool True)
               then let started = start_stub_session now created
                    in (replied 201 (to_stub_session_response started),
                        announce_status rt now started (put_stub_session started sb))
               else (replied 201 (to_stub_session_response created), put_stub_session created sb))"

definition get_stub_sessions :: "stub \<Rightarrow> stub_outcome \<times> stub" where
  "get_stub_sessions sb = (replied 200 (JArr (map (to_stub_session_response \<circ> snd) (sb_sessions sb))), sb)"

definition get_stub_session :: "string \<Rightarrow> stub \<Rightarrow> stub_outcome \<times> stub" where
  "get_stub_session name = with_stub_session name (\<lambda>s sb. (replied 200 (to_stub_session_response s), sb))"

definition get_me :: "string \<Rightarrow> stub \<Rightarrow> stub_outcome \<times> stub" where
  "get_me name sb =
     (case Option.bind (find_stub_session name sb) (\<lambda>s. map_option (Pair s) (su_phone_number s)) of
        None \<Rightarrow> (Replied 200 None None, sb)
      | Some (s, phone_number) \<Rightarrow>
          (replied 200 (JObj [(''id'', JStr (phone_number @ ''@c.us'')), (''pushName'', json_text (su_push_name s))]), sb))"

definition get_live_limit :: "(stub_session \<Rightarrow> json) \<Rightarrow> string \<Rightarrow> stub \<Rightarrow> stub_outcome \<times> stub" where
  "get_live_limit report name =
     with_stub_session name (\<lambda>s sb.
       if sb_is_account_limits_lookup_unavailable sb
       then (refused 501 ''Not implemented by this engine.'', sb)
       else (replied 200 (report s), sb))"

datatype session_action = StartAction | StopAction | LogoutAction | RestartAction

text \<open>Starting a session whose codes ran out answers 201 on the real server and changes nothing.\<close>

fun apply_action :: "session_action \<Rightarrow> millis \<Rightarrow> stub_session \<Rightarrow> stub_session" where
  "apply_action StartAction now s = (if su_status s = SESSION_FAILED then s else start_stub_session now s)"
| "apply_action RestartAction now s = start_stub_session now s"
| "apply_action StopAction now s = s\<lparr>su_status := STOPPED\<rparr>"
| "apply_action LogoutAction now s = logout_stub_session s"

definition post_action :: "stub_runtime \<Rightarrow> millis \<Rightarrow> session_action \<Rightarrow> string \<Rightarrow> stub \<Rightarrow> stub_outcome \<times> stub" where
  "post_action rt now action name =
     with_stub_session name (\<lambda>s sb.
       let s' = apply_action action now s
       in (replied 200 (to_stub_session_response s'), announce_status rt now s' (put_stub_session s' sb)))"

definition delete_stub_session :: "string \<Rightarrow> stub \<Rightarrow> stub_outcome \<times> stub" where
  "delete_stub_session name sb = (replied 200 (JObj []), remove_stub_session name sb)"

definition get_qr :: "stub_runtime \<Rightarrow> string \<Rightarrow> string option \<Rightarrow> stub \<Rightarrow> stub_outcome \<times> stub" where
  "get_qr rt name format =
     with_stub_session name (\<lambda>s sb.
       if su_status s \<noteq> SCAN_QR_CODE
       then (refused 422 ''The session is not waiting for a QR code.'', sb)
       else
         let code = ''2@stub-'' @ su_name s @ ''-'' @ string_of_nat (su_qr_attempt s)
         in if format = Some ''raw'' then (replied 200 (JObj [(''value'', JStr code)]), sb)
            else (replied 200 (JObj [(''mimetype'', JStr ''image/png''), (''data'', JStr (sr_render_qr rt code))]), sb))"

section \<open>Messages\<close>

definition check_exists :: "string \<Rightarrow> stub \<Rightarrow> stub_outcome \<times> stub" where
  "check_exists phone sb =
     (let counted = sb\<lparr>sb_recipient_lookup_count := sb_recipient_lookup_count sb + 1\<rparr>
      in case response_for_failure_mode (sb_forced_failure_mode sb) of
           Some failure \<Rightarrow> (failed_with failure, counted)
         | None \<Rightarrow>
             if is_unregistered_number phone
             then (replied 200 (JObj [(''numberExists'', JBool False), (''chatId'', JNull)]), counted)
             else (replied 200 (JObj [(''numberExists'', JBool True),
                     (''chatId'', JStr (filter is_digit phone @ ''@c.us''))]), counted))"

definition failure_mode_of_send :: "stub \<Rightarrow> string \<Rightarrow> failure_mode" where
  "failure_mode_of_send sb chat_identifier =
     (if sb_forced_failure_mode sb = NoFailure then failure_mode_for_recipient chat_identifier
      else sb_forced_failure_mode sb)"

text \<open>A refusal for reaching out also changes what the account reports.\<close>

definition restrict_after :: "stub_runtime \<Rightarrow> millis \<Rightarrow> failure_mode \<Rightarrow> stub_session \<Rightarrow> stub \<Rightarrow> stub" where
  "restrict_after rt now mode s sb =
     (let restriction = (case mode of
            ReachoutTimelockMode \<Rightarrow> Some (JObj [(''timelockMinutes'', JNum 60)])
          | MessageCappingMode \<Rightarrow> Some (JObj [(''cappingStatus'', JStr ''CAPPED''), (''usedQuota'', JNum 50),
              (''totalQuota'', JNum 50)])
          | _ \<Rightarrow> None)
      in case restriction of
           None \<Rightarrow> sb
         | Some body \<Rightarrow>
             let s' = apply_restriction now (Some body) s
             in announce_restrictions rt now s' (put_stub_session s' sb))"

text \<open>
  A send up to the delay a test may have asked for, and after it; other requests may be served in
  between, and what counts then is the status the session has afterwards.
\<close>

definition begin_send ::
  "stub_runtime \<Rightarrow> millis \<Rightarrow> json option \<Rightarrow> stub \<Rightarrow> (stub_outcome + stub_session) \<times> stub" where
  "begin_send rt now body sb =
     (let chat_identifier = text_or [] (text_member ''chatId'' body);
          name = text_or ''default'' (text_member ''session'' body)
      in case find_stub_session name sb of
           None \<Rightarrow> (Inl (refused 404
             (''We didn'' @ [CHR 0x27] @ ''t find a session with name '' @ [CHR 0x27] @ name @ [CHR 0x27] @ ''.'')), sb)
         | Some s \<Rightarrow>
             let mode = failure_mode_of_send sb chat_identifier
             in if mode = TimeoutMode then (Inl NeverAnswers, sb)
                else if mode = ConnectionResetMode then (Inl SocketDestroyed, sb)
                else (case response_for_failure_mode mode of
                        Some failure \<Rightarrow> (Inl (failed_with failure), restrict_after rt now mode s sb)
                      | None \<Rightarrow> (Inr s, sb)))"

definition message_identifier :: "nat \<Rightarrow> string" where
  "message_identifier n = ''STUB'' @ pad_left 6 (string_of_nat n)"

definition finish_send :: "millis \<Rightarrow> json option \<Rightarrow> stub_session \<Rightarrow> stub \<Rightarrow> stub_outcome \<times> stub" where
  "finish_send now body s sb =
     (if su_status s \<noteq> WORKING then (refused 422 ''The session is not connected.'', sb)
      else
        let chat_identifier = text_or [] (text_member ''chatId'' body);
            n = sb_sent_message_counter sb + 1
        in (replied 200 (sent_message_by_engine (sb_response_engine sb) chat_identifier
              (message_identifier n) (text_or [] (text_member ''text'' body))
              (text_or [] (su_phone_number s)) (now div 1000)),
            record_chat_activity Sent chat_identifier (sb\<lparr>sb_sent_message_counter := n\<rparr>)))"

definition send_text :: "stub_runtime \<Rightarrow> millis \<Rightarrow> json option \<Rightarrow> stub \<Rightarrow> stub_outcome \<times> stub" where
  "send_text rt now request_body =
     with_body ''chatId'' request_body (\<lambda>body sb.
       case begin_send rt now body sb of
         (Inl outcome, sb') \<Rightarrow> (outcome, sb')
       | (Inr s, sb') \<Rightarrow> finish_send now body s sb')"

definition post_chat_action :: "chat_action \<Rightarrow> json option \<Rightarrow> stub \<Rightarrow> stub_outcome \<times> stub" where
  "post_chat_action action request_body sb =
     (case response_for_failure_mode (sb_forced_failure_mode sb) of
        Some failure \<Rightarrow> (replied (fr_status_code failure) (fr_body failure), sb)
      | None \<Rightarrow>
          with_body ''session'' request_body (\<lambda>body sb.
            if map_option su_status (find_stub_session (text_or ''default'' (text_member ''session'' body)) sb) \<noteq> Some WORKING
            then (refused 422 ''The session is not connected.'', sb)
            else (replied 201 (JObj []), record_chat_activity action (text_or [] (text_member ''chatId'' body)) sb)) sb)"

section \<open>The control plane\<close>

definition reset_stub :: "stub \<Rightarrow> stub_outcome \<times> stub" where
  "reset_stub sb = (replied 200 (JObj [(''reset'', JBool True)]), initial_stub\<lparr>sb_identifiers := sb_identifiers sb\<rparr>)"

definition post_send_delay :: "json option \<Rightarrow> stub \<Rightarrow> stub_outcome \<times> stub" where
  "post_send_delay request_body =
     with_body ''milliseconds'' request_body (\<lambda>body sb.
       let asked = (case number_member ''milliseconds'' body of Some x \<Rightarrow> x | None \<Rightarrow> 0);
           delay = max 0 (min asked 30000)
       in (replied 200 (JObj [(''sendDelayMilliseconds'', JNum delay)]), sb\<lparr>sb_send_delay_milliseconds := delay\<rparr>))"

definition post_engine :: "json option \<Rightarrow> stub \<Rightarrow> stub_outcome \<times> stub" where
  "post_engine request_body =
     with_body ''engine'' request_body (\<lambda>body sb.
       let engine = text_or ''WEBJS'' (text_member ''engine'' body)
       in case response_engine_of engine of
            None \<Rightarrow> (refused 400 (''Unknown engine: '' @ engine), sb)
          | Some e \<Rightarrow> (replied 200 (JObj [(''engine'', JStr engine)]), sb\<lparr>sb_response_engine := e\<rparr>))"

definition post_restrict :: "stub_runtime \<Rightarrow> millis \<Rightarrow> string \<Rightarrow> json option \<Rightarrow> stub \<Rightarrow> stub_outcome \<times> stub" where
  "post_restrict rt now name request_body =
     with_stub_session name (\<lambda>s.
       with_body ''timelockWithoutEnd'' request_body (\<lambda>body sb.
         let s' = apply_restriction now body s;
             unavailable = (case member_of ''lookupUnavailable'' body of
                 Some (JBool b) \<Rightarrow> b | _ \<Rightarrow> sb_is_account_limits_lookup_unavailable sb)
         in (replied 200 (JObj [(''reachoutTimelock'', timelock_json (su_reachout_timelock s')),
               (''messageCapping'', capping_json (su_message_capping s'))]),
             announce_restrictions rt now s'
               ((put_stub_session s' sb)\<lparr>sb_is_account_limits_lookup_unavailable := unavailable\<rparr>))))"

definition post_failure_mode :: "json option \<Rightarrow> stub \<Rightarrow> stub_outcome \<times> stub" where
  "post_failure_mode request_body =
     with_body ''mode'' request_body (\<lambda>body sb.
       let mode = text_or ''none'' (text_member ''mode'' body)
       in case map_of failure_modes mode of
            None \<Rightarrow> (refused 400 (''Unknown failure mode: '' @ mode), sb)
          | Some m \<Rightarrow> (replied 200 (JObj [(''mode'', JStr mode)]), sb\<lparr>sb_forced_failure_mode := m\<rparr>))"

definition post_scan :: "stub_runtime \<Rightarrow> millis \<Rightarrow> string \<Rightarrow> json option \<Rightarrow> stub \<Rightarrow> stub_outcome \<times> stub" where
  "post_scan rt now name request_body =
     with_stub_session name (\<lambda>s.
       with_body ''phoneNumber'' request_body (\<lambda>body sb.
         let phone_number = text_or ''5511999990000'' (text_member ''phoneNumber'' body);
             s' = complete_scan phone_number ''Stub Account'' s
         in (replied 200 (to_stub_session_response s'),
             send_webhooks rt now s' ''session.status'' (status_payload s')
               (JObj [(''id'', JStr (phone_number @ ''@c.us'')), (''pushName'', JStr ''Stub Account'')])
               (put_stub_session s' sb))))"

definition post_expire_qr :: "stub_runtime \<Rightarrow> millis \<Rightarrow> string \<Rightarrow> stub \<Rightarrow> stub_outcome \<times> stub" where
  "post_expire_qr rt now name =
     with_stub_session name (\<lambda>s sb.
       let s' = issue_next_qr_code now s
       in (replied 200 (JObj [(''status'', JStr (session_status_name (su_status s'))),
             (''qrAttempt'', JNum (of_nat (su_qr_attempt s'))),
             (''maximumQrAttempts'', JNum (of_nat maximum_qr_attempts))]),
           announce_status rt now s' (put_stub_session s' sb)))"

definition acknowledgement_names :: "string list" where
  "acknowledgement_names = [''ERROR'', ''PENDING'', ''SERVER'', ''DEVICE'', ''READ'', ''PLAYED'']"

text \<open>The member \<open>ackName\<close> is left out of the JSON text when the level has no name.\<close>

definition acknowledgement_payload :: "string \<Rightarrow> rat \<Rightarrow> json" where
  "acknowledgement_payload message_id acknowledgement =
     JObj ([(''id'', JStr (''true_'' @ linked_device_identifier @ ''_'' @ message_id)),
       (''from'', JStr linked_device_identifier), (''fromMe'', JBool True), (''ack'', JNum acknowledgement)]
       @ (let i = \<lfloor>acknowledgement\<rfloor> + 1
          in if of_int i = acknowledgement + 1 \<and> 0 \<le> i \<and> i < int (length acknowledgement_names)
             then [(''ackName'', JStr (acknowledgement_names ! nat i))] else []))"

definition post_acknowledge :: "stub_runtime \<Rightarrow> millis \<Rightarrow> string \<Rightarrow> json option \<Rightarrow> stub \<Rightarrow> stub_outcome \<times> stub" where
  "post_acknowledge rt now name request_body =
     with_stub_session name (\<lambda>s.
       with_body ''messageId'' request_body (\<lambda>body sb.
         let message_id = text_or [] (text_member ''messageId'' body);
             acknowledgement = (case number_member ''ack'' body of Some x \<Rightarrow> x | None \<Rightarrow> 2)
         in (replied 200 (JObj [(''delivered'', JBool True)]),
             send_webhooks rt now s ''message.ack'' (acknowledgement_payload message_id acknowledgement) JNull sb)))"

fun chat_action_name :: "chat_action \<Rightarrow> string" where
  "chat_action_name Seen = ''seen''"
| "chat_action_name TypingStarted = ''typing_started''"
| "chat_action_name TypingStopped = ''typing_stopped''"
| "chat_action_name Sent = ''sent''"

definition get_webhooks :: "stub \<Rightarrow> stub_outcome \<times> stub" where
  "get_webhooks sb =
     (replied 200 (JObj [(''deliveries'', JArr (map (\<lambda>d.
        JObj [(''url'', JStr (dw_url d)), (''envelope'', dw_envelope d),
          (''statusCode'', case dw_result d of Inl _ \<Rightarrow> JNull | Inr status \<Rightarrow> JNum (of_int status)),
          (''error'', case dw_result d of Inl e \<Rightarrow> JStr e | Inr _ \<Rightarrow> JNull)]) (sb_delivered sb)))]), sb)"

definition failure_mode_name :: "failure_mode \<Rightarrow> string" where
  "failure_mode_name mode = (case find (\<lambda>p. snd p = mode) failure_modes of Some p \<Rightarrow> fst p | None \<Rightarrow> [])"

definition get_state :: "stub \<Rightarrow> stub_outcome \<times> stub" where
  "get_state sb =
     (replied 200 (JObj [(''sessions'', JArr (map (session_object \<circ> snd) (sb_sessions sb))),
        (''forcedFailureMode'', JStr (failure_mode_name (sb_forced_failure_mode sb))),
        (''sentMessageCount'', JNum (of_nat (sb_sent_message_counter sb))),
        (''recipientLookupCount'', JNum (of_nat (sb_recipient_lookup_count sb))),
        (''responseEngine'', JStr (engine_name (sb_response_engine sb))),
        (''chatActivity'', JArr (map (\<lambda>(action, chat_id).
           JObj [(''action'', JStr (chat_action_name action)), (''chatId'', JStr chat_id)]) (sb_chat_activity sb)))]), sb)"

section \<open>Serving a request\<close>

datatype stub_route =
    PingRoute | VersionRoute | PostSessionRoute | GetSessionsRoute | GetSessionByName string
  | GetMeRoute string | GetTimelockRoute string | GetCappingRoute string
  | PostActionRoute session_action string | DeleteSessionRoute string | GetQrRoute string
  | CheckExistsRoute | SendTextRoute | ChatActionRoute chat_action
  | ResetRoute | SendDelayRoute | EngineRoute | RestrictRoute string | FailureModeRoute
  | ScanRoute string | ExpireQrRoute string | AcknowledgeRoute string | WebhooksRoute | StateRoute

definition stub_routes :: "(http_method \<times> path_segment list \<times> (string list \<Rightarrow> stub_route)) list" where
  "stub_routes =
     (let sessions = [Fixed ''api'', Fixed ''sessions''];
          session_called = (\<lambda>rest. sessions @ [Param] @ map Fixed rest);
          controlled = (\<lambda>action. [Fixed ''__stub'', Fixed ''sessions'', Param, Fixed action])
      in [(HttpGet, [Fixed ''ping''], \<lambda>_. PingRoute),
          (HttpGet, [Fixed ''api'', Fixed ''server'', Fixed ''version''], \<lambda>_. VersionRoute),
          (HttpPost, sessions, \<lambda>_. PostSessionRoute),
          (HttpGet, sessions, \<lambda>_. GetSessionsRoute),
          (HttpGet, session_called [], \<lambda>ps. GetSessionByName (ps ! 0)),
          (HttpGet, session_called [''me''], \<lambda>ps. GetMeRoute (ps ! 0)),
          (HttpGet, session_called [''timelock''], \<lambda>ps. GetTimelockRoute (ps ! 0)),
          (HttpGet, session_called [''capping''], \<lambda>ps. GetCappingRoute (ps ! 0)),
          (HttpPost, session_called [''start''], \<lambda>ps. PostActionRoute StartAction (ps ! 0)),
          (HttpPost, session_called [''stop''], \<lambda>ps. PostActionRoute StopAction (ps ! 0)),
          (HttpPost, session_called [''logout''], \<lambda>ps. PostActionRoute LogoutAction (ps ! 0)),
          (HttpPost, session_called [''restart''], \<lambda>ps. PostActionRoute RestartAction (ps ! 0)),
          (HttpDelete, session_called [], \<lambda>ps. DeleteSessionRoute (ps ! 0)),
          (HttpGet, [Fixed ''api'', Fixed ''contacts'', Fixed ''check-exists''], \<lambda>_. CheckExistsRoute),
          (HttpGet, [Fixed ''api'', Param, Fixed ''auth'', Fixed ''qr''], \<lambda>ps. GetQrRoute (ps ! 0)),
          (HttpPost, [Fixed ''api'', Fixed ''sendText''], \<lambda>_. SendTextRoute),
          (HttpPost, [Fixed ''api'', Fixed ''sendSeen''], \<lambda>_. ChatActionRoute Seen),
          (HttpPost, [Fixed ''api'', Fixed ''startTyping''], \<lambda>_. ChatActionRoute TypingStarted),
          (HttpPost, [Fixed ''api'', Fixed ''stopTyping''], \<lambda>_. ChatActionRoute TypingStopped),
          (HttpPost, [Fixed ''__stub'', Fixed ''reset''], \<lambda>_. ResetRoute),
          (HttpPost, [Fixed ''__stub'', Fixed ''send-delay''], \<lambda>_. SendDelayRoute),
          (HttpPost, [Fixed ''__stub'', Fixed ''engine''], \<lambda>_. EngineRoute),
          (HttpPost, controlled ''restrict'', \<lambda>ps. RestrictRoute (ps ! 0)),
          (HttpPost, [Fixed ''__stub'', Fixed ''failure-mode''], \<lambda>_. FailureModeRoute),
          (HttpPost, controlled ''scan'', \<lambda>ps. ScanRoute (ps ! 0)),
          (HttpPost, controlled ''expire-qr'', \<lambda>ps. ExpireQrRoute (ps ! 0)),
          (HttpPost, controlled ''acknowledge'', \<lambda>ps. AcknowledgeRoute (ps ! 0)),
          (HttpGet, [Fixed ''__stub'', Fixed ''webhooks''], \<lambda>_. WebhooksRoute),
          (HttpGet, [Fixed ''__stub'', Fixed ''state''], \<lambda>_. StateRoute)])"

definition url_path :: "string \<Rightarrow> string" where
  "url_path url = takeWhile (\<lambda>c. c \<noteq> CHR ''?'') url"

definition url_query :: "string \<Rightarrow> string" where
  "url_query url = drop 1 (dropWhile (\<lambda>c. c \<noteq> CHR ''?'') url)"

definition stub_route_of :: "stub_runtime \<Rightarrow> http_method \<Rightarrow> string \<Rightarrow> stub_route option" where
  "stub_route_of rt verb url =
     (let segments = map (sr_decode_segment rt) (tl (split_on CHR ''/'' (url_path url)))
      in map_option (\<lambda>(_, pattern, make). make (path_parameters pattern segments))
           (find (\<lambda>(v, pattern, _). v = verb \<and> fits pattern segments) stub_routes))"

fun serve_route ::
  "stub_runtime \<Rightarrow> millis \<Rightarrow> stub_route \<Rightarrow> (string \<rightharpoonup> string) \<Rightarrow> json option \<Rightarrow> stub \<Rightarrow> stub_outcome \<times> stub"
where
  "serve_route rt now PingRoute query body sb = (replied 200 (stub_message ''pong''), sb)"
| "serve_route rt now VersionRoute query body sb =
     (replied 200 (JObj [(''version'', JStr ''stub''), (''engine'', JStr ''WEBJS''), (''tier'', JStr ''CORE''),
        (''browser'', JStr ''/usr/bin/chromium'')]), sb)"
| "serve_route rt now PostSessionRoute query body sb = post_stub_session rt now body sb"
| "serve_route rt now GetSessionsRoute query body sb = get_stub_sessions sb"
| "serve_route rt now (GetSessionByName name) query body sb = get_stub_session name sb"
| "serve_route rt now (GetMeRoute name) query body sb = get_me name sb"
| "serve_route rt now (GetTimelockRoute name) query body sb =
     get_live_limit (timelock_json \<circ> su_reachout_timelock) name sb"
| "serve_route rt now (GetCappingRoute name) query body sb =
     get_live_limit (capping_json \<circ> su_message_capping) name sb"
| "serve_route rt now (PostActionRoute action name) query body sb = post_action rt now action name sb"
| "serve_route rt now (DeleteSessionRoute name) query body sb = delete_stub_session name sb"
| "serve_route rt now (GetQrRoute name) query body sb = get_qr rt name (query ''format'') sb"
| "serve_route rt now CheckExistsRoute query body sb = check_exists (text_or [] (query ''phone'')) sb"
| "serve_route rt now SendTextRoute query body sb = send_text rt now body sb"
| "serve_route rt now (ChatActionRoute action) query body sb = post_chat_action action body sb"
| "serve_route rt now ResetRoute query body sb = reset_stub sb"
| "serve_route rt now SendDelayRoute query body sb = post_send_delay body sb"
| "serve_route rt now EngineRoute query body sb = post_engine body sb"
| "serve_route rt now (RestrictRoute name) query body sb = post_restrict rt now name body sb"
| "serve_route rt now FailureModeRoute query body sb = post_failure_mode body sb"
| "serve_route rt now (ScanRoute name) query body sb = post_scan rt now name body sb"
| "serve_route rt now (ExpireQrRoute name) query body sb = post_expire_qr rt now name sb"
| "serve_route rt now (AcknowledgeRoute name) query body sb = post_acknowledge rt now name body sb"
| "serve_route rt now WebhooksRoute query body sb = get_webhooks sb"
| "serve_route rt now StateRoute query body sb = get_state sb"

definition is_authorized :: "stub_runtime \<Rightarrow> http_request \<Rightarrow> bool" where
  "is_authorized rt r =
     (starts_with (hr_path r) ''/ping'' \<or> starts_with (hr_path r) ''/__stub''
      \<or> map_of (hr_headers r) ''x-api-key'' = Some (sr_api_key rt))"

fun verb_name :: "http_method \<Rightarrow> string" where
  "verb_name HttpGet = ''GET''"
| "verb_name HttpPost = ''POST''"
| "verb_name HttpDelete = ''DELETE''"

definition stub_serve :: "stub_runtime \<Rightarrow> millis \<Rightarrow> http_request \<Rightarrow> stub \<Rightarrow> stub_outcome \<times> stub" where
  "stub_serve rt now r sb =
     (if \<not> is_authorized rt r then (refused 401 ''Unauthorized'', sb)
      else (case stub_route_of rt (hr_method r) (hr_path r) of
              None \<Rightarrow> (replied 404 (JObj [(''message'', JStr (''Route '' @ verb_name (hr_method r) @ '':'' @ hr_path r @ '' not found'')),
                  (''error'', JStr ''Not Found''), (''statusCode'', JNum 404)]), sb)
            | Some route \<Rightarrow> serve_route rt now route (sr_query rt (url_query (hr_path r))) (hr_body r) sb))"

section \<open>The stub as the network of the adapter\<close>

text \<open>
  Requests one after the other, each at its time. The adapter sees an answer, its own timeout, or a
  connection that broke under it.
\<close>

fun stub_after :: "stub_runtime \<Rightarrow> (nat \<Rightarrow> millis) \<Rightarrow> stub \<Rightarrow> http_request list \<Rightarrow> stub" where
  "stub_after rt clock sb [] = sb"
| "stub_after rt clock sb (r # rs) = stub_after rt (\<lambda>n. clock (Suc n)) (snd (stub_serve rt (clock 0) r sb)) rs"

definition timeout_error :: js_error where
  "timeout_error = \<lparr>je_error = Some (''TimeoutError'', ''The operation was aborted due to timeout''),
     je_code = None, je_cause_code = None\<rparr>"

definition reset_error :: js_error where
  "reset_error = \<lparr>je_error = Some (''TypeError'', ''fetch failed''), je_code = None,
     je_cause_code = Some ''UND_ERR_SOCKET''\<rparr>"

fun outcome_seen :: "stub_runtime \<Rightarrow> stub_outcome \<Rightarrow> js_error + http_response" where
  "outcome_seen rt (Replied status body retry_after) =
     Inr \<lparr>hp_status = status, hp_status_text = [],
          hp_text = Inr (case body of None \<Rightarrow> [] | Some j \<Rightarrow> sr_stringify rt j), hp_retry_after = retry_after\<rparr>"
| "outcome_seen rt NeverAnswers = Inl timeout_error"
| "outcome_seen rt SocketDestroyed = Inl reset_error"

definition stub_exchange ::
  "stub_runtime \<Rightarrow> (nat \<Rightarrow> millis) \<Rightarrow> stub \<Rightarrow> http_request list \<Rightarrow> http_exchange" where
  "stub_exchange rt clock sb calls =
     \<lparr>hx_outcome = outcome_seen rt (fst (stub_serve rt (clock (length calls - 1)) (last calls)
        (stub_after rt clock sb (butlast calls)))),
      hx_aborted = False\<rparr>"

definition stub_options ::
  "stub_runtime \<Rightarrow> (string \<Rightarrow> js_error + json) \<Rightarrow> (nat \<Rightarrow> millis) \<Rightarrow> stub \<Rightarrow> waha_options" where
  "stub_options rt parse_json clock sb =
     \<lparr>wo_api_key = sr_api_key rt, wo_exchange = stub_exchange rt clock sb, wo_parse_json = parse_json\<rparr>"

end
