(* ===== verification/Stub_Messages.thy ===== *)
theory Stub_Messages
  imports Waha_Stub Number_Text
begin

text \<open>
  The conversation of the adapter and the stub: how a request of the adapter is routed, and what the
  adapter makes of an answer, of the messages the stub refuses with above all.
\<close>

section \<open>Requests of the adapter\<close>

lemma stub_after_append [simp]:
  "stub_after rt clock sb (rs @ [r]) = snd (stub_serve rt (clock (length rs)) r (stub_after rt clock sb rs))"
  by (induction rs arbitrary: sb clock) simp_all

definition reads_back :: "stub_runtime \<Rightarrow> (string \<Rightarrow> js_error + json) \<Rightarrow> bool" where
  "reads_back rt parse_json = (\<forall>j. sr_stringify rt j \<noteq> [] \<and> parse_json (sr_stringify rt j) = Inr j)"

definition body_message :: "json \<Rightarrow> string" where
  "body_message body =
     (case error_body_message body of
        None \<Rightarrow> []
      | Some message \<Rightarrow>
          take maximum_error_message_length (js_trim (collapse_spaces (mask_chat_addresses message))))"

fun seen_by_adapter :: "stub_outcome \<Rightarrow> json option provider_result" where
  "seen_by_adapter (Replied status body retry_after) =
     (if 200 \<le> status \<and> status \<le> 299 then Succeeded body
      else Failed (classify_http_status status (case body of None \<Rightarrow> [] | Some j \<Rightarrow> body_message j) retry_after))"
| "seen_by_adapter NeverAnswers =
     Failed (create_provider_failure ProviderTimeout ''The operation was aborted due to timeout'' None None)"
| "seen_by_adapter SocketDestroyed =
     Failed (create_provider_failure ProviderConnectionLost ''fetch failed'' None None)"

definition adapter_call :: "stub_runtime \<Rightarrow> request_options \<Rightarrow> http_request" where
  "adapter_call rt r =
     \<lparr>hr_method = ro_method r, hr_path = ro_path r,
      hr_headers = request_headers (stub_options rt (\<lambda>_. Inr JNull) (\<lambda>_. 0) initial_stub) r, hr_body = ro_body r\<rparr>"

lemma error_message_seen:
  assumes "reads_back rt parse_json"
  shows "read_error_message (stub_options rt parse_json clock sb)
     \<lparr>hp_status = status, hp_status_text = [], hp_text = Inr (case body of None \<Rightarrow> [] | Some j \<Rightarrow> sr_stringify rt j),
      hp_retry_after = retry_after\<rparr>
    = (case body of None \<Rightarrow> [] | Some j \<Rightarrow> body_message j)"
  using assms
  by (auto simp: read_error_message_def to_safe_error_message_def read_message_def body_message_def
      stub_options_def reads_back_def Let_def maximum_error_message_length_def split: option.splits)

lemma adapter_request:
  assumes "reads_back rt parse_json"
  shows "waha_request (stub_options rt parse_json clock sb) r calls
    = (seen_by_adapter (fst (stub_serve rt (clock (length calls)) (adapter_call rt r) (stub_after rt clock sb calls))),
       calls @ [adapter_call rt r])"
proof -
  let ?outcome = "fst (stub_serve rt (clock (length calls)) (adapter_call rt r) (stub_after rt clock sb calls))"
  have call: "\<lparr>hr_method = ro_method r, hr_path = ro_path r,
      hr_headers = request_headers (stub_options rt parse_json clock sb) r, hr_body = ro_body r\<rparr> = adapter_call rt r"
    by (simp add: adapter_call_def request_headers_def stub_options_def)
  have exchange: "wo_exchange (stub_options rt parse_json clock sb) (calls @ [adapter_call rt r])
      = \<lparr>hx_outcome = outcome_seen rt ?outcome, hx_aborted = False\<rparr>"
    by (simp add: stub_options_def stub_exchange_def)
  have parse: "wo_parse_json (stub_options rt parse_json clock sb) = parse_json" by (simp add: stub_options_def)
  show ?thesis
  proof (cases ?outcome)
    case (Replied status body retry_after)
    then show ?thesis
      using assms error_message_seen [OF assms, of clock sb status body retry_after]
      by (auto simp: waha_request_def call exchange Let_def interpret_response_def is_ok_def reads_back_def
          parse split: option.splits)
  qed (simp_all add: waha_request_def call exchange Let_def classify_transport_error_def timeout_error_def
      reset_error_def abort_error_names_def read_system_error_code_def pre_connection_error_codes_def)
qed

section \<open>Paths\<close>

text \<open>
  Documented behaviour of the framework: a segment that was encoded is decoded, and a segment of
  letters, digits and hyphens is left as it is.
\<close>

definition is_plain :: "string \<Rightarrow> bool" where
  "is_plain s = list_all (\<lambda>c. is_alphanumeric c \<or> c = CHR ''-'' \<or> c = CHR ''_'') s"

definition understands :: "stub_runtime \<Rightarrow> string \<Rightarrow> bool" where
  "understands rt name =
     (sr_decode_segment rt (encode_uri_component name) = name
      \<and> (\<forall>s. is_plain s \<longrightarrow> sr_decode_segment rt s = s))"

lemma hex_upper_code: "d < 16 \<Longrightarrow> char_code (hex_upper d) \<in> {48..57} \<union> {65..70}"
  by (auto simp: hex_upper_def char_code_def)

lemma char_code_neq: "char_code c \<noteq> char_code d \<Longrightarrow> c \<noteq> d"
  by auto

lemma percent_plain: "b < 256 \<Longrightarrow> CHR ''/'' \<notin> set (percent b) \<and> CHR ''?'' \<notin> set (percent b)"
proof -
  assume "b < 256"
  then have "b div 16 < 16" "b mod 16 < 16" by auto
  then have "char_code (hex_upper d) \<noteq> char_code CHR ''/''" "char_code (hex_upper d) \<noteq> char_code CHR ''?''"
    if "d = b div 16 \<or> d = b mod 16" for d
    using hex_upper_code [of d] that by (auto simp: char_code_def)
  then show ?thesis
    unfolding percent_def by (auto dest: arg_cong [where f = char_code] simp: char_code_def)
qed

lemma encode_char_plain: "CHR ''/'' \<notin> set (encode_char c) \<and> CHR ''?'' \<notin> set (encode_char c)"
proof -
  have "char_code c < 256" by (simp add: char_code_def)
  then have "192 + char_code c div 64 < 256" "128 + char_code c mod 64 < (256::nat)" by auto
  moreover have "\<not> is_alphanumeric CHR ''/''" "\<not> is_alphanumeric CHR ''?''" by code_simp+
  ultimately show ?thesis
    using percent_plain \<open>char_code c < 256\<close> unfolding encode_char_def Let_def
    by (auto simp: char_code_def)
qed

lemma encoded_plain [simp]:
  "CHR ''/'' \<notin> set (encode_uri_component s)" "CHR ''?'' \<notin> set (encode_uri_component s)"
  using encode_char_plain by (auto simp: encode_uri_component_def)

lemma plain_words:
  "list_all is_plain [''api'', ''sessions'', ''start'', ''stop'', ''logout'', ''timelock'', ''capping'', ''sendText'']"
  by code_simp

lemma decoded_words:
  assumes "understands rt name"
  shows "sr_decode_segment rt ''api'' = ''api''" "sr_decode_segment rt ''sessions'' = ''sessions''"
    "sr_decode_segment rt ''start'' = ''start''" "sr_decode_segment rt ''stop'' = ''stop''"
    "sr_decode_segment rt ''logout'' = ''logout''" "sr_decode_segment rt ''timelock'' = ''timelock''"
    "sr_decode_segment rt ''capping'' = ''capping''" "sr_decode_segment rt ''sendText'' = ''sendText''"
    "sr_decode_segment rt (encode_uri_component name) = name"
  using assms plain_words by (simp_all add: understands_def)

lemma url_path_plain: "CHR ''?'' \<notin> set s \<Longrightarrow> url_path s = s"
  by (induction s) (auto simp: url_path_def)

lemma session_segments:
  "split_on CHR ''/'' (url_path (session_path name)) = [[], ''api'', ''sessions'', encode_uri_component name]"
  "CHR ''/'' \<notin> set action \<Longrightarrow> CHR ''?'' \<notin> set action \<Longrightarrow>
   split_on CHR ''/'' (url_path (session_path name @ CHR ''/'' # action))
     = [[], ''api'', ''sessions'', encode_uri_component name, action]"
  by (simp_all add: session_path_def url_path_plain split_on_absent split_on_append)

lemma session_routes:
  assumes "understands rt name"
  shows "stub_route_of rt HttpGet (session_path name) = Some (GetSessionByName name)"
    and "stub_route_of rt HttpDelete (session_path name) = Some (DeleteSessionRoute name)"
    and "stub_route_of rt HttpPost (session_path name @ ''/start'') = Some (PostActionRoute StartAction name)"
    and "stub_route_of rt HttpPost (session_path name @ ''/stop'') = Some (PostActionRoute StopAction name)"
    and "stub_route_of rt HttpPost (session_path name @ ''/logout'') = Some (PostActionRoute LogoutAction name)"
    and "stub_route_of rt HttpPost ''/api/sendText'' = Some SendTextRoute"
    and "stub_route_of rt HttpPost ''/api/sessions'' = Some PostSessionRoute"
  using decoded_words [OF assms]
  by (simp_all add: stub_route_of_def session_segments url_path_plain stub_routes_def Let_def)

section \<open>What the adapter reads in a refusal\<close>

lemma mask_plain: "CHR ''@'' \<notin> set s \<Longrightarrow> mask_chat_addresses s = s"
proof (induction s rule: length_induct)
  case (1 s)
  show ?case
  proof (cases s)
    case (Cons c cs)
    let ?rest = "dropWhile is_address_char s"
    have "CHR ''@'' \<notin> set ?rest" using 1(2) by (metis set_dropWhileD)
    then have alone: "after_host ?rest = None" by (auto simp: after_host_def split: list.splits)
    have "mask_chat_addresses cs = cs" using 1 Cons by simp
    moreover have "mask_chat_addresses ?rest = ?rest" if "is_address_char c"
    proof -
      have "length ?rest < length s" using that Cons by (simp add: length_dropWhile_le le_imp_less_Suc)
      with 1(1) \<open>CHR ''@'' \<notin> set ?rest\<close> show ?thesis by blast
    qed
    ultimately show ?thesis
      using alone Cons by (cases "is_address_char c") (auto simp: Let_def)
  qed simp
qed

fun spaced :: "string \<Rightarrow> bool" where
  "spaced [] = True"
| "spaced (c # cs) = ((is_space c \<longrightarrow> c = CHR '' '' \<and> (cs = [] \<or> \<not> is_space (hd cs))) \<and> spaced cs)"

lemma collapse_plain: "spaced s \<Longrightarrow> collapse_spaces s = s"
proof (induction s rule: collapse_spaces.induct)
  case (2 c cs)
  then have "is_space c \<Longrightarrow> dropWhile is_space cs = cs" by (cases cs) auto
  with 2 show ?case by simp
qed simp

lemma trim_plain: "s \<noteq> [] \<Longrightarrow> \<not> is_space (hd s) \<Longrightarrow> \<not> is_space (last s) \<Longrightarrow> js_trim s = s"
proof -
  assume "s \<noteq> []" "\<not> is_space (hd s)" "\<not> is_space (last s)"
  then have "dropWhile is_space s = s" "dropWhile is_space (rev s) = rev s"
    by (cases s, simp_all) (cases s rule: rev_cases, simp_all)
  then show ?thesis by (simp add: js_trim_def)
qed

lemma plain_text_kept:
  assumes "s \<noteq> []" and "length s \<le> 200" and "CHR ''@'' \<notin> set s" and "spaced s"
    and "\<not> is_space (hd s)" and "\<not> is_space (last s)"
  shows "take maximum_error_message_length (js_trim (collapse_spaces (mask_chat_addresses s))) = s"
  using assms by (simp add: mask_plain collapse_plain trim_plain maximum_error_message_length_def)

lemma message_kept:
  assumes "s \<noteq> []" and "length s \<le> 200" and "CHR ''@'' \<notin> set s" and "spaced s"
    and "\<not> is_space (hd s)" and "\<not> is_space (last s)"
  shows "body_message (stub_message s) = s" and "body_message (engine_error_body s chat) = s"
  using plain_text_kept [OF assms] assms(1)
  by (simp_all add: body_message_def stub_message_def engine_error_body_def error_body_message_def
      exception_text_def error_text_def json_field_def)

lemma message_texts:
  "body_message (stub_message ''Session not found.'') = ''Session not found.''"
  "body_message (stub_message ''Unauthorized'') = ''Unauthorized''"
  "body_message (stub_message ''Internal engine failure.'') = ''Internal engine failure.''"
  "body_message (stub_message ''Too many requests.'') = ''Too many requests.''"
  "body_message (stub_message ''The request payload is invalid.'') = ''The request payload is invalid.''"
  "body_message (engine_error_body ''server returned error 463'' ''5511999990463@c.us'') = ''server returned error 463''"
  "body_message (engine_error_body ''server returned error 475'' ''5511999990475@c.us'') = ''server returned error 475''"
  by (rule message_kept; simp add: is_space_def char_code_def)+

lemma starts_with_subset: "starts_with s p \<Longrightarrow> set p \<subseteq> set s"
  by (induction s p rule: starts_with.induct) auto

lemma starts_with_member: "starts_with (c # cs) p \<Longrightarrow> x \<in> set p \<Longrightarrow> x \<notin> set cs \<Longrightarrow> x = c"
  using starts_with_subset [of "c # cs" p] by auto

lemma includes_subset: "includes_text s p \<Longrightarrow> set p \<subseteq> set s"
proof -
  have "index_of s p = Some n \<Longrightarrow> set p \<subseteq> set s" for n
    by (induction s arbitrary: n) (auto split: if_splits dest: starts_with_member)
  then show "includes_text s p \<Longrightarrow> set p \<subseteq> set s" by auto
qed

lemma bounded_word_subset: "has_bounded_word b w s \<Longrightarrow> set w \<subseteq> set s"
  by (induction b w s rule: has_bounded_word.induct) (auto dest: starts_with_member)

text \<open>A message of these characters only says nothing of a restriction.\<close>

lemma unrestricted_message:
  assumes "CHR ''c'' \<notin> set (lower_case s)" and "CHR ''4'' \<notin> set s"
  shows "\<not> mentions_reachout_timelock s" and "\<not> mentions_message_capping s"
proof -
  have "\<not> includes_text (lower_case s) p" if "CHR ''c'' \<in> set p" for p
    using assms(1) includes_subset that by blast
  moreover have "\<not> has_bounded_word False w s" if "CHR ''4'' \<in> set w" for w
    using assms(2) bounded_word_subset that by blast
  ultimately show "\<not> mentions_reachout_timelock s" and "\<not> mentions_message_capping s"
    by (simp_all add: mentions_reachout_timelock_def mentions_message_capping_def)
qed

lemma no_c_in_messages:
  "list_all (\<lambda>s. CHR ''c'' \<notin> set (lower_case s))
     [''Internal engine failure.'', ''Unauthorized'', ''Too many requests.'', ''The request payload is invalid.'']"
  by code_simp

lemma intended_codes:
  "read_code 500 ''Internal engine failure.'' = ProviderServerError"
  "read_code 401 ''Unauthorized'' = ProviderUnauthorized"
  "read_code 429 ''Too many requests.'' = ProviderRateLimited"
  using no_c_in_messages by (simp_all add: read_code_def unrestricted_message code_by_status_def)

lemma intended_request_code: "read_code 422 ''The request payload is invalid.'' = ProviderInvalidRequest"
proof -
  have "text_lines (lower_case ''The request payload is invalid.'') = [''the request payload is invalid.'']"
    by code_simp
  moreover have "index_of ''the request payload is invalid.'' ''session'' = None" by simp
  ultimately have "\<not> mentions_session_state ''The request payload is invalid.''"
    by (simp add: mentions_session_state_def)
  then show ?thesis
    using no_c_in_messages by (simp add: read_code_def unrestricted_message code_by_status_def)
qed

lemma intended_restriction_codes:
  "read_code 500 ''server returned error 463'' = ConnectionRestricted"
  "read_code 500 ''server returned error 475'' = NewChatQuotaExceeded"
proof -
  have "has_bounded_word False ''463'' ''server returned error 463''" "has_bounded_word False ''475'' ''server returned error 475''"
    by (simp_all add: is_word_char_def is_alphanumeric_def is_letter_def is_digit_def char_code_def)
  moreover have "\<not> mentions_reachout_timelock ''server returned error 475''"
    using bounded_word_subset [of False "''463''" "''server returned error 475''"]
      includes_subset [of "lower_case ''server returned error 475''"]
    by (fastforce simp: mentions_reachout_timelock_def lower_case_def to_lower_def char_code_def)
  ultimately show "read_code 500 ''server returned error 463'' = ConnectionRestricted"
    "read_code 500 ''server returned error 475'' = NewChatQuotaExceeded"
    by (simp_all add: read_code_def mentions_reachout_timelock_def mentions_message_capping_def)
qed

lemma ninety: "read_retry_after_seconds (Some ''90'') = Some 90"
  by (simp add: read_retry_after_seconds_def js_trim_def is_space_def char_code_def finite_number_def
      unsigned_decimal_def is_digit_def read_exponent_def digits_value_def scaled_def)

end
