(* ===== verification/Stub_Properties.thy ===== *)
theory Stub_Properties
  imports Stub_Messages
begin

text \<open>
  What the stand-in for the provider keeps true of its sessions, and that the platform's adapter and
  the stub understand each other: every failure it provokes is classified as it is meant to be, every
  operation on a session leaves and reports the same state, and a receipt it signs is accepted and
  names the message the send named.
\<close>

section \<open>What is always true of the stub\<close>

definition session_sound :: "stub_session \<Rightarrow> bool" where
  "session_sound s =
     (su_status s \<in> {STOPPED, SCAN_QR_CODE, WORKING, SESSION_FAILED}
      \<and> (su_status s = WORKING \<longrightarrow> su_phone_number s \<noteq> None)
      \<and> (su_status s = SCAN_QR_CODE \<longrightarrow> su_phone_number s = None \<and> 1 \<le> su_qr_attempt s)
      \<and> (su_status s = SESSION_FAILED \<longrightarrow> su_qr_attempt s = maximum_qr_attempts \<and> su_qr_expires_at s = None)
      \<and> su_qr_attempt s \<le> maximum_qr_attempts)"

definition sends_recorded :: "stub \<Rightarrow> nat" where
  "sends_recorded sb = length (filter (\<lambda>(action, chat_id). action = Sent) (sb_chat_activity sb))"

definition stub_sound :: "stub \<Rightarrow> bool" where
  "stub_sound sb =
     ((\<forall>name s. find_stub_session name sb = Some s \<longrightarrow> su_name s = name \<and> session_sound s)
      \<and> length (sb_chat_activity sb) \<le> maximum_recorded_chat_activity
      \<and> sends_recorded sb \<le> sb_sent_message_counter sb)"

text \<open>
  Any request at any time, and a send that was held open: it begins in one state and finishes in a
  later one, with the session as it is then.
\<close>

inductive stub_reaches :: "stub_runtime \<Rightarrow> stub \<Rightarrow> bool" for rt where
  stub_starts: "stub_reaches rt initial_stub"
| stub_serves: "stub_reaches rt sb \<Longrightarrow> stub_reaches rt (snd (stub_serve rt now r sb))"
| stub_holds: "stub_reaches rt sb \<Longrightarrow> stub_reaches rt (snd (begin_send rt now body sb))"
| stub_finishes: "stub_reaches rt sb \<Longrightarrow> stub_reaches rt (snd (finish_send now body s sb))"

lemma session_sound_steps [intro]:
  "session_sound (new_stub_session name webhooks)"
  "session_sound s \<Longrightarrow> session_sound (start_stub_session now s)"
  "session_sound s \<Longrightarrow> session_sound (issue_next_qr_code now s)"
  "session_sound s \<Longrightarrow> session_sound (complete_scan phone_number push_name s)"
  "session_sound s \<Longrightarrow> session_sound (apply_action action now s)"
  by (cases action; auto simp: session_sound_def new_stub_session_def start_stub_session_def
      issue_next_qr_code_def complete_scan_def logout_stub_session_def maximum_qr_attempts_def)+

lemma restriction_fields [simp]:
  "su_name (apply_restriction now body s) = su_name s"
  "su_status (apply_restriction now body s) = su_status s"
  "su_phone_number (apply_restriction now body s) = su_phone_number s"
  "su_qr_attempt (apply_restriction now body s) = su_qr_attempt s"
  "su_qr_expires_at (apply_restriction now body s) = su_qr_expires_at s"
  by (simp_all add: apply_restriction_def apply_capping_def apply_timelock_minutes_def
      apply_timelock_without_end_def split: option.splits)

lemma session_sound_restriction [intro]: "session_sound s \<Longrightarrow> session_sound (apply_restriction now body s)"
  by (simp add: session_sound_def)

lemma step_names [simp]:
  "su_name (new_stub_session name webhooks) = name"
  "su_name (start_stub_session now s) = su_name s"
  "su_name (issue_next_qr_code now s) = su_name s"
  "su_name (complete_scan phone_number push_name s) = su_name s"
  "su_name (apply_action action now s) = su_name s"
  by (cases action; simp add: new_stub_session_def start_stub_session_def issue_next_qr_code_def
      complete_scan_def logout_stub_session_def)+

lemma send_webhooks_keeps [simp]:
  "sb_sessions (send_webhooks rt now s event payload me sb) = sb_sessions sb"
  "sb_chat_activity (send_webhooks rt now s event payload me sb) = sb_chat_activity sb"
  "sb_sent_message_counter (send_webhooks rt now s event payload me sb) = sb_sent_message_counter sb"
  "sb_forced_failure_mode (send_webhooks rt now s event payload me sb) = sb_forced_failure_mode sb"
proof -
  have "sb_sessions (fold (deliver_webhook rt now envelope) ws b) = sb_sessions b
    \<and> sb_chat_activity (fold (deliver_webhook rt now envelope) ws b) = sb_chat_activity b
    \<and> sb_sent_message_counter (fold (deliver_webhook rt now envelope) ws b) = sb_sent_message_counter b
    \<and> sb_forced_failure_mode (fold (deliver_webhook rt now envelope) ws b) = sb_forced_failure_mode b" for envelope ws b
    by (induction ws arbitrary: b) (simp_all add: deliver_webhook_def Let_def)
  then show
    "sb_sessions (send_webhooks rt now s event payload me sb) = sb_sessions sb"
    "sb_chat_activity (send_webhooks rt now s event payload me sb) = sb_chat_activity sb"
    "sb_sent_message_counter (send_webhooks rt now s event payload me sb) = sb_sent_message_counter sb"
    "sb_forced_failure_mode (send_webhooks rt now s event payload me sb) = sb_forced_failure_mode sb"
    by (simp_all add: send_webhooks_def Let_def)
qed

lemma find_after_webhooks [simp]:
  "find_stub_session name (send_webhooks rt now s event payload me sb) = find_stub_session name sb"
  "find_stub_session name (announce_status rt now s sb) = find_stub_session name sb"
  "find_stub_session name (announce_restrictions rt now s sb) = find_stub_session name sb"
  by (simp_all add: find_stub_session_def announce_status_def announce_restrictions_def)

lemma find_put_session [simp]:
  "find_stub_session name (put_stub_session s sb) = (if name = su_name s then Some s else find_stub_session name sb)"
  by (simp add: find_stub_session_def put_stub_session_def update_conv')

lemma find_remove_session:
  "find_stub_session name (remove_stub_session other sb) = (if name = other then None else find_stub_session name sb)"
  by (simp add: find_stub_session_def remove_stub_session_def delete_conv')

lemma stub_sound_webhooks [simp]:
  "stub_sound (send_webhooks rt now s event payload me sb) = stub_sound sb"
  "stub_sound (announce_status rt now s sb) = stub_sound sb"
  "stub_sound (announce_restrictions rt now s sb) = stub_sound sb"
  by (simp_all add: stub_sound_def sends_recorded_def announce_status_def announce_restrictions_def)

lemma stub_sound_put [intro]: "stub_sound sb \<Longrightarrow> session_sound s \<Longrightarrow> stub_sound (put_stub_session s sb)"
  by (auto simp: stub_sound_def sends_recorded_def put_stub_session_def find_stub_session_def update_conv')

lemma stub_sound_remove [intro]: "stub_sound sb \<Longrightarrow> stub_sound (remove_stub_session name sb)"
  by (auto simp: stub_sound_def sends_recorded_def remove_stub_session_def find_stub_session_def delete_conv'
      split: if_splits)

lemma filter_drop_le: "length (filter P (drop n xs)) \<le> length (filter P xs)"
  by (metis append_take_drop_id filter_append le_add2 length_append)

lemma stub_sound_activity:
  assumes "stub_sound sb" and "action = Sent \<Longrightarrow> sends_recorded sb < sb_sent_message_counter sb"
  shows "stub_sound (record_chat_activity action chat_id sb)"
proof -
  let ?activity = "sb_chat_activity sb @ [(action, chat_id)]"
  let ?P = "\<lambda>(a, c). a = Sent"
  have "length (filter ?P (drop (length ?activity - maximum_recorded_chat_activity) ?activity))
      \<le> length (filter ?P ?activity)"
    by (rule filter_drop_le)
  moreover have "length (filter ?P ?activity) \<le> sb_sent_message_counter sb"
    using assms by (auto simp: stub_sound_def sends_recorded_def)
  ultimately show ?thesis
    using assms(1) by (auto simp: stub_sound_def sends_recorded_def record_chat_activity_def find_stub_session_def Let_def)
qed

lemma stub_sound_settings [simp]:
  "stub_sound (sb\<lparr>sb_recipient_lookup_count := n\<rparr>) = stub_sound sb"
  "stub_sound (sb\<lparr>sb_send_delay_milliseconds := delay\<rparr>) = stub_sound sb"
  "stub_sound (sb\<lparr>sb_response_engine := e\<rparr>) = stub_sound sb"
  "stub_sound (sb\<lparr>sb_forced_failure_mode := m\<rparr>) = stub_sound sb"
  "stub_sound (sb\<lparr>sb_is_account_limits_lookup_unavailable := b\<rparr>) = stub_sound sb"
  "stub_sound (initial_stub\<lparr>sb_identifiers := i\<rparr>)" "stub_sound initial_stub"
  by (simp_all add: stub_sound_def sends_recorded_def find_stub_session_def initial_stub_def)

lemma stub_soundD: "stub_sound sb \<Longrightarrow> find_stub_session name sb = Some s \<Longrightarrow> su_name s = name \<and> session_sound s"
  by (simp add: stub_sound_def)

lemma finish_send_sound: "stub_sound sb \<Longrightarrow> stub_sound (snd (finish_send now body s sb))"
  by (auto simp: finish_send_def Let_def intro!: stub_sound_activity)
     (auto simp: stub_sound_def sends_recorded_def find_stub_session_def)

lemma begin_send_sound: "stub_sound sb \<Longrightarrow> stub_sound (snd (begin_send rt now body sb))"
  by (auto simp: begin_send_def restrict_after_def Let_def dest: stub_soundD
      split: option.splits failure_mode.splits)

lemma send_text_sound: "stub_sound sb \<Longrightarrow> stub_sound (snd (send_text rt now body sb))"
proof -
  assume sound: "stub_sound sb"
  show ?thesis
  proof (cases "begin_send rt now body sb")
    case (Pair r sb')
    with begin_send_sound [OF sound, of rt now body] have "stub_sound sb'" by simp
    with Pair sound show ?thesis
      by (cases r) (auto simp: send_text_def with_body_def finish_send_sound)
  qed
qed

lemma serve_route_sound:
  "stub_sound sb \<Longrightarrow> route \<noteq> ChatActionRoute Sent \<Longrightarrow> stub_sound (snd (serve_route rt now route query body sb))"
  by (cases route)
    (auto simp: post_stub_session_def get_stub_sessions_def get_stub_session_def get_me_def get_live_limit_def
      post_action_def delete_stub_session_def get_qr_def check_exists_def send_text_sound post_chat_action_def
      reset_stub_def post_send_delay_def post_engine_def post_restrict_def post_failure_mode_def post_scan_def
      post_expire_qr_def post_acknowledge_def get_webhooks_def get_state_def with_body_def with_stub_session_def
      Let_def dest: stub_soundD intro!: stub_sound_activity split: option.splits json.splits)

lemma no_sent_action: "stub_route_of rt verb url \<noteq> Some (ChatActionRoute Sent)"
proof -
  have "\<forall>(v, pattern, make) \<in> set stub_routes. \<forall>ps. make ps \<noteq> ChatActionRoute Sent"
    by (simp add: stub_routes_def Let_def)
  then show ?thesis
    by (auto simp: stub_route_of_def Let_def find_Some_iff in_set_conv_nth dest: bspec [OF _ nth_mem])
qed

lemma stub_serve_sound: "stub_sound sb \<Longrightarrow> stub_sound (snd (stub_serve rt now r sb))"
  using no_sent_action [of rt "hr_method r" "hr_path r"]
  by (auto simp: stub_serve_def serve_route_sound split: option.splits)

lemma reachable_stub_sound: "stub_reaches rt sb \<Longrightarrow> stub_sound sb"
  by (induction rule: stub_reaches.induct)
    (simp_all add: stub_serve_sound begin_send_sound finish_send_sound)

text \<open>
  The stand-in never leaves the life cycle of the real engine. In every state it can reach, by any
  requests of the platform or of a test in any order, a session that works has a phone number, one
  that shows a code has none and has shown at least one, none ever shows more than six, and one that
  failed has used all of them and shows none; it records at most its last two hundred acts in chats,
  and no more sends than it counted.
\<close>

theorem stub_keeps_the_life_cycle:
  assumes "stub_reaches rt sb"
  shows "(\<forall>name s. find_stub_session name sb = Some s \<longrightarrow>
      su_name s = name \<and> su_status s \<in> {STOPPED, SCAN_QR_CODE, WORKING, SESSION_FAILED}
      \<and> (su_status s = WORKING \<longrightarrow> su_phone_number s \<noteq> None)
      \<and> (su_status s = SCAN_QR_CODE \<longrightarrow> su_phone_number s = None \<and> 1 \<le> su_qr_attempt s)
      \<and> (su_status s = SESSION_FAILED \<longrightarrow> su_qr_attempt s = 6 \<and> su_qr_expires_at s = None)
      \<and> su_qr_attempt s \<le> 6)
    \<and> length (sb_chat_activity sb) \<le> 200
    \<and> sends_recorded sb \<le> sb_sent_message_counter sb"
  using reachable_stub_sound [OF assms]
  by (simp add: stub_sound_def session_sound_def maximum_qr_attempts_def maximum_recorded_chat_activity_def)

section \<open>Sessions through the adapter\<close>

text \<open>What the platform is told of a session of the stub.\<close>

definition seconds_date :: "int option \<Rightarrow> js_date option" where
  "seconds_date ends = from_unix_seconds (map_option of_int ends)"

definition limits_reported :: "stub_session \<Rightarrow> account_limits" where
  "limits_reported s =
     \<lparr>al_reachout_timelock =
        (if rt_is_active (su_reachout_timelock s)
         then Some \<lparr>tl_is_active = True, tl_ends_at = seconds_date (rt_time_enforcement_ends (su_reachout_timelock s)),
                    tl_enforcement_type = Some (rt_enforcement_type (su_reachout_timelock s))\<rparr>
         else None),
      al_new_chat_quota =
        (let c = su_message_capping s
         in if mc_capping_status c \<in> {[], ''NONE''} then None
            else Some \<lparr>q_status = mc_capping_status c, q_total = mc_total_quota c, q_used = mc_used_quota c,
                       q_cycle_ends_at = seconds_date (mc_cycle_end c)\<rparr>)\<rparr>"

definition session_reported :: "stub_session \<Rightarrow> provider_session" where
  "session_reported s =
     \<lparr>ps_name = su_name s, ps_status = su_status s,
      ps_phone_number = Option.bind (su_phone_number s) (\<lambda>p. waha_phone_number (Some (p @ ''@c.us''))),
      ps_push_name = (case su_phone_number s of None \<Rightarrow> None | Some _ \<Rightarrow> su_push_name s),
      ps_account_limits = map_option (\<lambda>_. limits_reported s) (su_phone_number s)\<rparr>"

lemma status_name_round_trip [simp]: "to_provider_session_status (session_status_name status) = status"
  by (cases status) (simp_all add: to_provider_session_status_def provider_session_statuses_def)

lemma field_simps [simp]:
  "json_field name [] = None"
  "json_field name (xs @ [(other, v)]) = (if other = name then Some v else json_field name xs)"
  by (simp_all add: json_field_def)

lemma json_field_Cons:
  "json_field name ((other, v) # xs) = (case json_field name xs of Some x \<Rightarrow> Some x | None \<Rightarrow> if other = name then Some v else None)"
  by (simp add: json_field_def map_add_def split: option.splits)

lemma timelock_read:
  "read_reachout_timelock (Some (timelock_json t))
    = Some \<lparr>tl_is_active = rt_is_active t, tl_ends_at = seconds_date (rt_time_enforcement_ends t),
            tl_enforcement_type = Some (rt_enforcement_type t)\<rparr>"
  by (simp add: timelock_json_def json_field_Cons json_int_def seconds_date_def split: option.splits)

lemma capping_read:
  "read_new_chat_quota (Some (capping_json c))
    = (if mc_capping_status c = [] then None
       else Some \<lparr>q_status = mc_capping_status c, q_total = mc_total_quota c, q_used = mc_used_quota c,
                  q_cycle_ends_at = seconds_date (mc_cycle_end c)\<rparr>)"
  by (simp add: capping_json_def json_field_Cons json_int_def seconds_date_def split: option.splits)

lemma session_response_read: "parse_session (Some (to_stub_session_response s)) = Succeeded (session_reported s)"
proof (cases "su_phone_number s")
  case None
  then show ?thesis
    by (simp add: parse_session_def to_stub_session_response_def json_field_Cons read_me_def session_reported_def)
next
  case (Some p)
  let ?me = "[(''id'', JStr (p @ ''@c.us'')), (''pushName'', json_text (su_push_name s)),
      (''reachoutTimelock'', if rt_is_active (su_reachout_timelock s)
         then timelock_json (su_reachout_timelock s) else JNull),
      (''messageCapping'', if is_capped s then capping_json (su_message_capping s) else JNull)]"
  have "read_account_limits (Some (JObj ?me)) = limits_reported s"
    using timelock_read [of "su_reachout_timelock s"] capping_read [of "su_message_capping s"]
    by (auto simp: read_account_limits_def json_field_Cons limits_reported_def is_capped_def Let_def)
  moreover have "read_me (Some (JObj ?me)) = Present (Some (p @ ''@c.us''), su_push_name s, JObj ?me)"
    by (simp add: read_me_def json_field_Cons json_text_def split: option.splits)
  ultimately show ?thesis
    using Some by (simp add: parse_session_def to_stub_session_response_def json_field_Cons session_reported_def)
qed

lemma adapter_served:
  assumes "stub_route_of rt (ro_method r) (ro_path r) = Some route"
  shows "stub_serve rt now (adapter_call rt r) sb
    = serve_route rt now route (sr_query rt (url_query (ro_path r))) (ro_body r) sb"
  using assms by (simp add: stub_serve_def is_authorized_def adapter_call_def request_headers_def stub_options_def)

text \<open>One call on a session: the adapter reports what the stub holds afterwards.\<close>

lemma action_through_adapter:
  assumes "reads_back rt parse_json"
    and "stub_route_of rt HttpPost path = Some (PostActionRoute action name)"
    and "find_stub_session name (stub_after rt clock sb calls) = Some s"
    and "su_name s = name"
  defines "call \<equiv> adapter_call rt (call_with HttpPost path None)"
    and "s' \<equiv> apply_action action (clock (length calls)) s"
  shows "request_session (stub_options rt parse_json clock sb) (call_with HttpPost path None) calls
      = (Succeeded (session_reported s'), calls @ [call])
    \<and> find_stub_session name (stub_after rt clock sb (calls @ [call])) = Some s'"
  using assms(2,3,4) adapter_served [of rt "call_with HttpPost path None"]
  by (simp add: request_session_def adapter_request [OF assms(1)] call_with_def call_def s'_def
      post_action_def with_stub_session_def Let_def session_response_read replied_def)

lemma started_session:
  "su_phone_number (start_stub_session now s) = su_phone_number s
    \<and> (if su_phone_number s = None
       then su_status (start_stub_session now s) = SCAN_QR_CODE \<and> su_qr_attempt (start_stub_session now s) = 1
       else su_status (start_stub_session now s) = WORKING)"
  by (simp add: start_stub_session_def)

text \<open>A session whose codes ran out is stopped and started again.\<close>

lemma start_through_adapter:
  assumes json: "reads_back rt parse_json" and paths: "understands rt name"
    and found: "find_stub_session name (stub_after rt clock sb calls) = Some s" and named: "su_name s = name"
  shows "\<exists>calls' now s'. waha_start_session (stub_options rt parse_json clock sb) name calls = (Succeeded (session_reported s'), calls')
    \<and> find_stub_session name (stub_after rt clock sb calls') = Some s'
    \<and> (s' = start_stub_session now s \<or> s' = start_stub_session now (s\<lparr>su_status := STOPPED\<rparr>))"
proof -
  let ?path = "session_path name"
  let ?start = "request_session (stub_options rt parse_json clock sb) (call_with HttpPost (?path @ ''/start'') None)"
  let ?started = "adapter_call rt (call_with HttpPost (?path @ ''/start'') None)"
  let ?stopped = "adapter_call rt (call_with HttpPost (?path @ ''/stop'') None)"
  note start = action_through_adapter [OF json session_routes(3) [OF paths]]
    and stop = action_through_adapter [OF json session_routes(4) [OF paths]]
  have reported: "ps_status (session_reported x) = su_status x" for x by (simp add: session_reported_def)
  show ?thesis
  proof (cases "su_status s = SESSION_FAILED")
    case False
    then have "?start calls = (Succeeded (session_reported (start_stub_session (clock (length calls)) s)), calls @ [?started])"
      and "find_stub_session name (stub_after rt clock sb (calls @ [?started])) = Some (start_stub_session (clock (length calls)) s)"
      using start [OF found named] by simp_all
    moreover have "su_status (start_stub_session now s) \<noteq> SESSION_FAILED" for now
      by (simp add: start_stub_session_def)
    ultimately show ?thesis
      by (auto simp: waha_start_session_def reported)
  next
    case True
    then have first: "?start calls = (Succeeded (session_reported s), calls @ [?started])"
      and found1: "find_stub_session name (stub_after rt clock sb (calls @ [?started])) = Some s"
      using start [OF found named] by simp_all
    from stop [OF found1 named] have second: "request_session (stub_options rt parse_json clock sb)
        (call_with HttpPost (?path @ ''/stop'') None) (calls @ [?started])
        = (Succeeded (session_reported (s\<lparr>su_status := STOPPED\<rparr>)), (calls @ [?started]) @ [?stopped])"
      and found2: "find_stub_session name (stub_after rt clock sb ((calls @ [?started]) @ [?stopped])) = Some (s\<lparr>su_status := STOPPED\<rparr>)"
      by simp_all
    have "su_name (s\<lparr>su_status := STOPPED\<rparr>) = name" using named by simp
    from start [OF found2 this] True first second show ?thesis
      by (auto simp: waha_start_session_def Let_def reported simp del: append_assoc stub_after_append)
  qed
qed

text \<open>
  The platform sees the sessions of the stand-in as they are. For a session the stub has, in any
  state it can reach, reading it through the adapter reports exactly that session; starting it reports
  the session as it is afterwards, working when a phone is paired and showing a first code when none
  is, even if the session had failed because its codes ran out, where the real engine's own start
  changes nothing; stopping and unpairing report the stopped session.
\<close>

theorem sessions_are_reported_as_they_are:
  fixes clock :: "nat \<Rightarrow> millis"
  assumes json: "reads_back rt parse_json" and paths: "understands rt name" and "stub_reaches rt sb"
    and found: "find_stub_session name (stub_after rt clock sb calls) = Some s"
  defines "wo \<equiv> stub_options rt parse_json clock sb"
    and "held \<equiv> \<lambda>calls. find_stub_session name (stub_after rt clock sb calls)"
  shows "(\<exists>calls'. waha_get_session wo name calls = (Succeeded (Some (session_reported s)), calls') \<and> held calls' = Some s)
    \<and> (\<exists>calls' s'. waha_start_session wo name calls = (Succeeded (session_reported s'), calls') \<and> held calls' = Some s'
         \<and> su_phone_number s' = su_phone_number s
         \<and> (if su_phone_number s = None then su_status s' = SCAN_QR_CODE \<and> su_qr_attempt s' = 1
            else su_status s' = WORKING))
    \<and> (\<exists>calls'. waha_stop_session wo name calls = (Succeeded (session_reported (s\<lparr>su_status := STOPPED\<rparr>)), calls')
         \<and> held calls' = Some (s\<lparr>su_status := STOPPED\<rparr>))
    \<and> (\<exists>calls'. waha_logout_session wo name calls = (Succeeded (session_reported (logout_stub_session s)), calls')
         \<and> held calls' = Some (logout_stub_session s))"
proof -
  have "stub_reaches rt (stub_after rt clock sb calls)" for clock :: "nat \<Rightarrow> millis"
    using assms(3) by (induction calls arbitrary: sb clock) (auto intro: stub_reaches.intros)
  then have named: "su_name s = name"
    using found reachable_stub_sound stub_soundD by blast
  note act = action_through_adapter [OF json]
  note routes = session_routes [OF paths]
  have get: "waha_get_session wo name calls = (Succeeded (Some (session_reported s)),
      calls @ [adapter_call rt (call_with HttpGet (session_path name) None)])
    \<and> held (calls @ [adapter_call rt (call_with HttpGet (session_path name) None)]) = Some s"
    using found adapter_served [of rt "call_with HttpGet (session_path name) None"] routes(1)
    by (simp add: waha_get_session_def wo_def held_def adapter_request [OF json] call_with_def
        get_stub_session_def with_stub_session_def session_response_read replied_def)
  have stop: "request_session wo (call_with HttpPost (session_path name @ ''/stop'') None) calls
      = (Succeeded (session_reported (s\<lparr>su_status := STOPPED\<rparr>)), calls @ [adapter_call rt (call_with HttpPost (session_path name @ ''/stop'') None)])
    \<and> held (calls @ [adapter_call rt (call_with HttpPost (session_path name @ ''/stop'') None)]) = Some (s\<lparr>su_status := STOPPED\<rparr>)"
    using act [OF routes(4) found named] by (simp add: wo_def held_def)
  have logout: "request_session wo (call_with HttpPost (session_path name @ ''/logout'') None) calls
      = (Succeeded (session_reported (logout_stub_session s)), calls @ [adapter_call rt (call_with HttpPost (session_path name @ ''/logout'') None)])
    \<and> held (calls @ [adapter_call rt (call_with HttpPost (session_path name @ ''/logout'') None)]) = Some (logout_stub_session s)"
    using act [OF routes(5) found named] by (simp add: wo_def held_def)
  have start: "\<exists>calls' s'. waha_start_session wo name calls = (Succeeded (session_reported s'), calls') \<and> held calls' = Some s'
         \<and> su_phone_number s' = su_phone_number s
         \<and> (if su_phone_number s = None then su_status s' = SCAN_QR_CODE \<and> su_qr_attempt s' = 1
            else su_status s' = WORKING)"
    using start_through_adapter [OF json paths found named] started_session
    unfolding wo_def held_def by fastforce
  show ?thesis
    using get stop logout start by (simp add: waha_stop_session_def waha_logout_session_def)
qed

section \<open>Failures on demand\<close>

fun intended_code :: "failure_mode \<Rightarrow> provider_failure_code" where
  "intended_code ServerErrorMode = ProviderServerError"
| "intended_code UnauthorizedMode = ProviderUnauthorized"
| "intended_code RateLimitedMode = ProviderRateLimited"
| "intended_code InvalidRequestMode = ProviderInvalidRequest"
| "intended_code TimeoutMode = ProviderTimeout"
| "intended_code ConnectionResetMode = ProviderConnectionLost"
| "intended_code ReachoutTimelockMode = ConnectionRestricted"
| "intended_code MessageCappingMode = NewChatQuotaExceeded"
| "intended_code NoFailure = ProviderUnknownError"

definition send_options :: "string \<Rightarrow> string \<Rightarrow> string \<Rightarrow> bool \<Rightarrow> request_options" where
  "send_options name chat message_text abortable =
     (call_with HttpPost ''/api/sendText''
        (Some (JObj [(''session'', JStr name), (''chatId'', JStr chat), (''text'', JStr message_text),
           (''linkPreview'', JBool False)])))\<lparr>ro_abortable := abortable\<rparr>"

lemma send_served:
  assumes "understands rt name"
  shows "stub_serve rt now (adapter_call rt (send_options name chat message_text abortable)) sb
    = send_text rt now (ro_body (send_options name chat message_text abortable)) sb"
  using session_routes(6) [OF assms] adapter_served [of rt "send_options name chat message_text abortable" SendTextRoute]
  by (simp add: send_options_def call_with_def)

lemma send_body:
  "text_member ''session'' (ro_body (send_options name chat message_text abortable)) = Some name"
  "text_member ''chatId'' (ro_body (send_options name chat message_text abortable)) = Some chat"
  "text_member ''text'' (ro_body (send_options name chat message_text abortable)) = Some message_text"
  "ro_body (send_options name chat message_text abortable) \<noteq> None"
  "ro_body (send_options name chat message_text abortable) \<noteq> Some JNull"
  by (simp_all add: send_options_def call_with_def text_member_def member_of_def json_field_Cons)

lemma send_reached:
  fixes chat message_text :: string and abortable :: bool
  assumes "understands rt name" and "find_stub_session name sb = Some s"
  defines "body \<equiv> ro_body (send_options name chat message_text abortable)"
    and "mode \<equiv> failure_mode_of_send sb chat"
  shows "stub_serve rt now (adapter_call rt (send_options name chat message_text abortable)) sb
    = (if mode = TimeoutMode then (NeverAnswers, sb)
       else if mode = ConnectionResetMode then (SocketDestroyed, sb)
       else (case response_for_failure_mode mode of
               Some failure \<Rightarrow> (failed_with failure, restrict_after rt now mode s sb)
             | None \<Rightarrow> finish_send now body s sb))"
  using assms(2) send_body [of name chat message_text abortable]
  by (auto simp: send_served [OF assms(1)] send_text_def with_body_def begin_send_def text_or_def
      body_def mode_def Let_def split: option.splits)

lemma restrict_after_counter [simp]:
  "sb_sent_message_counter (restrict_after rt now mode s sb) = sb_sent_message_counter sb"
  by (cases mode) (simp_all add: restrict_after_def announce_restrictions_def put_stub_session_def Let_def)

lemma no_header: "read_retry_after_seconds None = None"
  by (simp add: read_retry_after_seconds_def)

lemma provoked_failure:
  assumes "mode \<noteq> NoFailure"
  shows "\<exists>f. seen_by_adapter (if mode = TimeoutMode then NeverAnswers
      else if mode = ConnectionResetMode then SocketDestroyed
      else (case response_for_failure_mode mode of Some failure \<Rightarrow> failed_with failure | None \<Rightarrow> SocketDestroyed)) = Failed f
    \<and> f_code f = intended_code mode
    \<and> f_retry_after_seconds f = (if mode = RateLimitedMode then Some 90 else None)
    \<and> (has_unknown_outcome f \<longleftrightarrow> mode = TimeoutMode \<or> mode = ConnectionResetMode)"
  using assms
  by (cases mode)
    (simp_all add: failed_with_def classify_http_status_def message_texts intended_codes intended_request_code
      intended_restriction_codes ninety rate_limited_retry_after_seconds_def has_unknown_outcome_def
      unknown_outcome_codes_def Let_def no_header)

text \<open>
  Every failure the stand-in can be told to provoke is what the platform means by it. For a session
  the stub has and any recipient and forced mode that ask for a failure, a send through the adapter
  fails with the code of that mode; it carries the seconds to wait exactly when the stub says how long;
  its outcome is unknown exactly when the call was never answered or the connection broke; and no
  message was sent.
\<close>

theorem provoked_failures_are_classified:
  fixes clock :: "nat \<Rightarrow> millis"
  assumes "reads_back rt parse_json" and "understands rt name"
    and "find_stub_session name (stub_after rt clock sb calls) = Some s"
    and "failure_mode_of_send (stub_after rt clock sb calls) chat \<noteq> NoFailure"
  defines "mode \<equiv> failure_mode_of_send (stub_after rt clock sb calls) chat"
    and "sent \<equiv> \<lambda>calls. sb_sent_message_counter (stub_after rt clock sb calls)"
  shows "\<exists>f calls'. waha_send_text_message (stub_options rt parse_json clock sb) name chat message_text abortable calls
      = (Failed f, calls')
    \<and> f_code f = intended_code mode
    \<and> f_retry_after_seconds f = (if mode = RateLimitedMode then Some 90 else None)
    \<and> (has_unknown_outcome f \<longleftrightarrow> mode = TimeoutMode \<or> mode = ConnectionResetMode)
    \<and> sent calls' = sent calls"
proof -
  let ?r = "send_options name chat message_text abortable"
  let ?after = "stub_after rt clock sb calls"
  let ?outcome = "if mode = TimeoutMode then NeverAnswers
      else if mode = ConnectionResetMode then SocketDestroyed
      else (case response_for_failure_mode mode of Some failure \<Rightarrow> failed_with failure | None \<Rightarrow> SocketDestroyed)"
  note served = send_reached [OF assms(2,3), of _ chat message_text abortable, folded mode_def]
  have responds: "response_for_failure_mode mode \<noteq> None" if "mode \<noteq> TimeoutMode" "mode \<noteq> ConnectionResetMode"
    using that assms(4) by (cases mode) (auto simp: mode_def)
  then have outcome: "fst (stub_serve rt now (adapter_call rt ?r) ?after) = ?outcome"
    and kept: "sb_sent_message_counter (snd (stub_serve rt now (adapter_call rt ?r) ?after)) = sb_sent_message_counter ?after" for now
    by (auto simp: served split: option.splits)
  from provoked_failure [of mode] assms(4) obtain f where "seen_by_adapter ?outcome = Failed f"
    "f_code f = intended_code mode" "f_retry_after_seconds f = (if mode = RateLimitedMode then Some 90 else None)"
    "has_unknown_outcome f \<longleftrightarrow> mode = TimeoutMode \<or> mode = ConnectionResetMode"
    by (auto simp: mode_def)
  then show ?thesis
    using kept [of "clock (length calls)"]
    by (simp add: waha_send_text_message_def adapter_request [OF assms(1)] outcome sent_def flip: send_options_def)
qed

end
