(* ===== verification/Stub_Receipts.thy ===== *)
theory Stub_Receipts
  imports Stub_Properties "HOL-Library.Countable"
begin

text \<open>
  From a send to its receipt: the identifier the adapter keeps of a message the stub accepted is the
  one the stub's acknowledgement carries once the platform has read it, and the callback passes the
  platform's checks.
\<close>

section \<open>Identifiers\<close>

lemma split_on_separator: "split_on sep (a @ sep # b) = split_on sep a @ split_on sep b"
proof (induction a)
  case (Cons c a)
  obtain x xs where "split_on sep a = x # xs" by (cases "split_on sep a") simp_all
  with Cons show ?case by simp
qed simp

lemma last_segment: "sep \<notin> set b \<Longrightarrow> last (split_on sep (a @ sep # b)) = b"
  by (simp add: split_on_separator split_on_absent)

lemma normalized:
  assumes "CHR ''_'' \<notin> set i" and "i \<noteq> []"
  shows "normalize_provider_message_id i = i"
    and "normalize_provider_message_id (prefix @ CHR ''_'' # i) = i"
  using assms by (simp_all add: normalize_provider_message_id_def last_segment split_on_absent Let_def)

lemma identifier_plain: "CHR ''_'' \<notin> set (message_identifier n)" "message_identifier n \<noteq> []"
proof -
  have "CHR ''_'' \<notin> set (string_of_nat n)"
    using digits_of_nat [of n] by (auto simp: list_all_iff is_digit_def char_code_def)
  then show "CHR ''_'' \<notin> set (message_identifier n)" "message_identifier n \<noteq> []"
    by (auto simp: message_identifier_def pad_left_def)
qed

lemma sent_identifier:
  "\<exists>i. sent_message_identifier (Some (sent_message_by_engine e chat (message_identifier n) message_text phone secs)) = Some i
    \<and> normalize_provider_message_id i = message_identifier n"
proof (cases e)
  case WEBJS
  have "normalize_provider_message_id ((''true_'' @ chat) @ CHR ''_'' # message_identifier n) = message_identifier n"
    by (rule normalized(2) [OF identifier_plain])
  with WEBJS show ?thesis
    by (simp add: to_webjs_sent_message_def sent_message_identifier_def member_of_def nonempty_string_def json_field_Cons)
next
  case NOWEB
  then show ?thesis
    using identifier_plain normalized(1) [OF identifier_plain]
    by (simp add: to_noweb_sent_message_def sent_message_identifier_def member_of_def nonempty_string_def json_field_Cons)
qed

section \<open>Callbacks\<close>

lemma timestamp_accepted:
  assumes "100000000000 \<le> sent" and "sent \<le> max_time_value" and "\<bar>now - sent\<bar> \<le> tolerance * 1000"
  shows "is_webhook_timestamp_acceptable (Some (string_of_int sent)) now tolerance"
proof -
  have "nat sent < 2 ^ 1024"
    using assms(2) by (simp add: max_time_value_def nat_less_iff)
  then have "js_number (string_of_int sent) = Some (of_int sent)"
    using assms(1) js_number_string_of_nat [of "nat sent"] by (simp add: string_of_int_def)
  moreover have "(100000000000 :: rat) \<le> of_int sent" using assms(1) by linarith
  moreover have "\<bar>of_int now - of_int sent :: rat\<bar> \<le> of_int (tolerance * 1000)"
    using assms(3) by (metis of_int_abs of_int_diff of_int_le_iff)
  moreover have "string_of_int sent \<noteq> []" using assms(1) by (simp add: string_of_int_def)
  ultimately show ?thesis
    by (simp add: is_webhook_timestamp_acceptable_def Let_def)
qed

lemma callback_headers:
  assumes "webhook_signing_key webhook = Some key" and "key \<noteq> []"
  shows "map_of (cb_headers (callback_for rt request_id now envelope webhook)) ''x-webhook-hmac''
      = Some (sr_hmac_hex rt key (cb_body (callback_for rt request_id now envelope webhook)))"
    and "map_of (cb_headers (callback_for rt request_id now envelope webhook)) ''x-webhook-timestamp'' = Some (string_of_int now)"
    and "cb_body (callback_for rt request_id now envelope webhook) = sr_stringify rt envelope"
  using assms by (simp_all add: callback_for_def Let_def)

lemma acknowledgement_of_fields:
  assumes "json_field ''id'' members = Some (JStr i)" and "json_field ''ack'' members = Some (JNum (of_int (ack_value level)))"
    and "json_field ''fromMe'' members = Some (JBool True)" and "i \<noteq> []" and "normalize_provider_message_id i = name"
  shows "acknowledgement_event members = MessageAcknowledgement name level True"
  using assms by (simp add: acknowledgement_event_def)

lemma acknowledgement_read:
  assumes "event_id \<noteq> []" and "name \<noteq> []"
  shows "\<exists>envelope. parse_webhook_envelope (Some (callback_envelope event_id now name ''message.ack''
        (acknowledgement_payload (message_identifier n) (of_int (ack_value level))) JNull)) = Some envelope
    \<and> we_session envelope = name
    \<and> to_provider_event envelope = MessageAcknowledgement (message_identifier n) level True"
proof -
  let ?payload = "[(''id'', JStr (''true_'' @ linked_device_identifier @ ''_'' @ message_identifier n)),
       (''from'', JStr linked_device_identifier), (''fromMe'', JBool True), (''ack'', JNum (of_int (ack_value level)))]
     @ (let i = \<lfloor>of_int (ack_value level) :: rat\<rfloor> + 1
        in if of_int i = (of_int (ack_value level) :: rat) + 1 \<and> 0 \<le> i \<and> i < int (length acknowledgement_names)
           then [(''ackName'', JStr (acknowledgement_names ! nat i))] else [])"
  have payload: "acknowledgement_payload (message_identifier n) (of_int (ack_value level)) = JObj ?payload"
    by (simp only: acknowledgement_payload_def)
  have fields: "json_field ''id'' ?payload = Some (JStr (''true_'' @ linked_device_identifier @ ''_'' @ message_identifier n))"
    "json_field ''ack'' ?payload = Some (JNum (of_int (ack_value level)))"
    "json_field ''fromMe'' ?payload = Some (JBool True)"
    by (simp_all add: Let_def json_field_Cons)
  have "normalize_provider_message_id ((''true_'' @ linked_device_identifier) @ CHR ''_'' # message_identifier n) = message_identifier n"
    by (rule normalized(2) [OF identifier_plain])
  then have event: "acknowledgement_event ?payload = MessageAcknowledgement (message_identifier n) level True"
    by (intro acknowledgement_of_fields [OF fields]) simp_all
  show ?thesis
    using assms event unfolding payload callback_envelope_def
    by (simp add: json_field_Cons to_provider_event_def)
qed

section \<open>The stub reports\<close>

text \<open>A test, or the person at the control plane, has the stub report a level for a message.\<close>

definition acknowledge_request :: "string \<Rightarrow> string \<Rightarrow> delivery_ack \<Rightarrow> http_request" where
  "acknowledge_request name message_id level =
     \<lparr>hr_method = HttpPost, hr_path = ''/__stub/sessions/'' @ encode_uri_component name @ ''/acknowledge'',
      hr_headers = [],
      hr_body = Some (JObj [(''messageId'', JStr message_id), (''ack'', JNum (of_int (ack_value level)))])\<rparr>"

lemma acknowledge_route:
  assumes "understands rt name"
  shows "stub_route_of rt HttpPost (''/__stub/sessions/'' @ encode_uri_component name @ ''/acknowledge'')
    = Some (AcknowledgeRoute name)"
proof -
  have "list_all is_plain [''__stub'', ''acknowledge'']" by code_simp
  then have "sr_decode_segment rt ''__stub'' = ''__stub''" "sr_decode_segment rt ''acknowledge'' = ''acknowledge''"
    using assms by (simp_all add: understands_def)
  moreover have "split_on CHR ''/'' (url_path (''/__stub/sessions/'' @ encode_uri_component name @ ''/acknowledge''))
      = [[], ''__stub'', ''sessions'', encode_uri_component name, ''acknowledge'']"
    by (simp add: url_path_plain split_on_absent split_on_append)
  ultimately show ?thesis
    using decoded_words [OF assms] by (simp add: stub_route_of_def stub_routes_def Let_def)
qed

lemma fold_delivers:
  "sb_delivered (fold (deliver_webhook rt now envelope) webhooks sb) = sb_delivered sb
     @ map (\<lambda>(i, webhook). let callback = callback_for rt (sr_identifier rt i) now envelope webhook
         in \<lparr>dw_url = cb_url callback, dw_envelope = envelope, dw_result = sr_receive rt callback\<rparr>)
       (enumerate (sb_identifiers sb) webhooks)"
  by (induction webhooks arbitrary: sb) (simp_all add: deliver_webhook_def Let_def)

lemma enumerated: "x \<in> set xs \<Longrightarrow> \<exists>i. (i, x) \<in> set (enumerate n xs)"
  by (metis in_set_conv_nth length_enumerate nth_enumerate_eq)

lemma acknowledgement_delivered:
  assumes "understands rt name" and "find_stub_session name sb = Some s"
    and "webhook \<in> set (su_webhooks s)" and "webhook_subscribed ''message.ack'' webhook"
  shows "\<exists>i j cb. cb = callback_for rt (sr_identifier rt i) now
        (callback_envelope (sr_identifier rt j) now (su_name s) ''message.ack''
          (acknowledgement_payload message_id (of_int (ack_value level))) JNull) webhook
      \<and> stub_serve rt now (acknowledge_request name message_id level) sb
        = (replied 200 (JObj [(''delivered'', JBool True)]), snd (stub_serve rt now (acknowledge_request name message_id level) sb))
      \<and> (\<exists>d \<in> set (drop (length (sb_delivered sb))
            (sb_delivered (snd (stub_serve rt now (acknowledge_request name message_id level) sb)))).
          dw_url d = cb_url cb \<and> dw_result d = sr_receive rt cb)"
proof -
  let ?e = "callback_envelope (sr_identifier rt (sb_identifiers sb)) now (su_name s) ''message.ack''
    (acknowledgement_payload message_id (of_int (ack_value level))) JNull"
  have serve: "stub_serve rt now (acknowledge_request name message_id level) sb
      = (replied 200 (JObj [(''delivered'', JBool True)]),
         send_webhooks rt now s ''message.ack'' (acknowledgement_payload message_id (of_int (ack_value level))) JNull sb)"
    using acknowledge_route [OF assms(1)] assms(2)
    by (simp add: stub_serve_def is_authorized_def acknowledge_request_def post_acknowledge_def with_stub_session_def
        with_body_def text_member_def number_member_def member_of_def json_field_Cons text_or_def Let_def)
  have "webhook \<in> set (filter (webhook_subscribed ''message.ack'') (su_webhooks s))" using assms(3,4) by simp
  from enumerated [OF this] obtain i where "(i, webhook) \<in> set (enumerate (sb_identifiers sb + 1)
      (filter (webhook_subscribed ''message.ack'') (su_webhooks s)))" by blast
  then have "\<exists>d \<in> set (drop (length (sb_delivered sb)) (sb_delivered
        (send_webhooks rt now s ''message.ack'' (acknowledgement_payload message_id (of_int (ack_value level))) JNull sb))).
      dw_url d = cb_url (callback_for rt (sr_identifier rt i) now ?e webhook)
      \<and> dw_result d = sr_receive rt (callback_for rt (sr_identifier rt i) now ?e webhook)"
    by (force simp: send_webhooks_def fold_delivers Let_def)
  with serve show ?thesis by auto
qed

text \<open>
  What the platform checks and reads of a callback: the digest of the body under the key of the
  connection, the time it was made, and the acknowledgement in it.
\<close>

definition reads_as_receipt ::
  "webhook_crypto \<Rightarrow> string \<Rightarrow> millis \<Rightarrow> string \<Rightarrow> string \<Rightarrow> delivery_ack \<Rightarrow> callback \<Rightarrow> bool" where
  "reads_as_receipt crypto key sent_at name message_id level cb =
     ((\<exists>signature. map_of (cb_headers cb) ''x-webhook-hmac'' = Some signature
         \<and> is_webhook_signature_valid (wc_hmac_hex crypto) (cb_body cb) signature key)
      \<and> (\<forall>now tolerance. \<bar>now - sent_at\<bar> \<le> tolerance * 1000 \<longrightarrow>
           is_webhook_timestamp_acceptable (map_of (cb_headers cb) ''x-webhook-timestamp'') now tolerance)
      \<and> (\<exists>envelope. parse_webhook_envelope (wc_parse_json crypto (cb_body cb)) = Some envelope
           \<and> we_session envelope = name
           \<and> to_provider_event envelope = MessageAcknowledgement message_id level True))"

lemma callback_reads_as_receipt:
  assumes key: "webhook_signing_key webhook = Some key" "key \<noteq> []"
    and "wc_hmac_hex crypto = sr_hmac_hex rt" and "\<And>j. wc_parse_json crypto (sr_stringify rt j) = Some j"
    and "event_id \<noteq> []" and "name \<noteq> []"
    and time: "100000000000 \<le> sent_at" "sent_at \<le> max_time_value"
  shows "reads_as_receipt crypto key sent_at name (message_identifier n) level
    (callback_for rt request_id sent_at (callback_envelope event_id sent_at name ''message.ack''
       (acknowledgement_payload (message_identifier n) (of_int (ack_value level))) JNull) webhook)"
  using callback_headers [OF key, of rt request_id sent_at] assms(3,4) timestamp_accepted [OF time]
    acknowledgement_read [OF \<open>event_id \<noteq> []\<close> \<open>name \<noteq> []\<close>, of sent_at n level]
  by (simp add: reads_as_receipt_def is_webhook_signature_valid_def)

lemma finish_send_keeps_sessions: "find_stub_session name (snd (finish_send now body s sb)) = find_stub_session name sb"
  by (simp add: finish_send_def find_stub_session_def record_chat_activity_def Let_def)

text \<open>
  C33: A receipt finds the message it is for. When the platform sends through the adapter on a working
  session of the stand-in that has a subscribed, signed webhook - to a recipient the stub does not fail on
  purpose: no failure mode is forced and the number is none of those reserved for one - the send
  succeeds, whichever engine is imitated. When the stub is then told to acknowledge the identifier the
  send returned, with any level, it answers 200 and has made, for that webhook's address, a callback
  that is signed so that the platform's check accepts it, that carries a time the platform accepts as
  long as it is not older than the tolerance, and that is read as an acknowledgement of that level for
  exactly that identifier - although the stub names the message differently in the two places.
\<close>

theorem receipts_find_their_message:
  fixes clock :: "nat \<Rightarrow> millis" and level :: delivery_ack
  assumes json: "reads_back rt parse_json" and paths: "understands rt name"
    and "stub_reaches rt sb"
    and found: "find_stub_session name (stub_after rt clock sb calls) = Some s"
    and "su_status s = WORKING" and "failure_mode_of_send (stub_after rt clock sb calls) chat = NoFailure"
    and webhook: "webhook \<in> set (su_webhooks s)" "webhook_subscribed ''message.ack'' webhook"
    and key: "webhook_signing_key webhook = Some key" "key \<noteq> []"
    and crypto: "wc_hmac_hex crypto = sr_hmac_hex rt" "\<And>j. wc_parse_json crypto (sr_stringify rt j) = Some j"
    and identifiers: "\<And>n. sr_identifier rt n \<noteq> []" and "name \<noteq> []"
    and time: "100000000000 \<le> sent_at" "sent_at \<le> max_time_value"
  shows "\<exists>m calls' sb'. waha_send_text_message (stub_options rt parse_json clock sb) name chat message_text abortable calls
      = (Succeeded m, calls')
    \<and> stub_serve rt sent_at (acknowledge_request name (sm_provider_message_id m) level) (stub_after rt clock sb calls')
      = (replied 200 (JObj [(''delivered'', JBool True)]), sb')
    \<and> (\<exists>d \<in> set (drop (length (sb_delivered (stub_after rt clock sb calls'))) (sb_delivered sb')). \<exists>cb.
         dw_url d = cb_url cb \<and> dw_result d = sr_receive rt cb
         \<and> cb_url cb = text_or [] (text_member ''url'' (Some webhook))
         \<and> reads_as_receipt crypto key sent_at name (sm_provider_message_id m) level cb)"
proof -
  let ?r = "send_options name chat message_text abortable"
  let ?after = "stub_after rt clock sb calls"
  let ?n = "sb_sent_message_counter ?after + 1"
  let ?calls' = "calls @ [adapter_call rt ?r]"
  have "stub_reaches rt (stub_after rt clock sb calls)" for clock :: "nat \<Rightarrow> millis"
    using assms(3) by (induction calls arbitrary: sb clock) (auto intro: stub_reaches.intros)
  then have named: "su_name s = name"
    using found reachable_stub_sound stub_soundD by blast
  note served = send_reached [OF paths found, of _ chat message_text abortable]
  have accepted: "fst (stub_serve rt now (adapter_call rt ?r) ?after)
      = replied 200 (sent_message_by_engine (sb_response_engine ?after) chat (message_identifier ?n) message_text
          (text_or [] (su_phone_number s)) (now div 1000))" for now
    using assms(5,6) send_body [of name chat message_text abortable]
    by (simp add: served finish_send_def text_or_def record_chat_activity_def Let_def)
  obtain i where i: "sent_message_identifier (Some (sent_message_by_engine (sb_response_engine ?after) chat
        (message_identifier ?n) message_text (text_or [] (su_phone_number s)) (clock (length calls) div 1000))) = Some i"
      "normalize_provider_message_id i = message_identifier ?n"
    using sent_identifier by blast
  have sent: "waha_send_text_message (stub_options rt parse_json clock sb) name chat message_text abortable calls
      = (Succeeded \<lparr>sm_provider_message_id = message_identifier ?n\<rparr>, ?calls')"
    using i by (simp add: waha_send_text_message_def adapter_request [OF json] accepted replied_def flip: send_options_def)
  have still: "find_stub_session name (stub_after rt clock sb ?calls') = Some s"
    using assms(5,6) found by (simp add: served finish_send_keeps_sessions)
  have url: "cb_url (callback_for rt request_id now envelope webhook) = text_or [] (text_member ''url'' (Some webhook))"
    for request_id now envelope by (simp add: callback_for_def Let_def)
  note receipt = callback_reads_as_receipt [OF key crypto identifiers \<open>name \<noteq> []\<close> time, of ?n level]
  from acknowledgement_delivered [OF paths still webhook, of sent_at "message_identifier ?n" level] sent
  show ?thesis
    unfolding named using url receipt by fastforce
qed

section \<open>Instances\<close>

text \<open>JSON values are countable, so they have some text they can be read back from.\<close>

instance json :: countable
  by countable_datatype

definition example_runtime :: stub_runtime where
  "example_runtime =
     \<lparr>sr_api_key = ''key'', sr_identifier = (\<lambda>n. ''id'' @ string_of_nat n), sr_hmac_hex = (\<lambda>key body. key @ body),
      sr_stringify = (\<lambda>j. replicate (Suc (to_nat j)) CHR ''x''), sr_receive = (\<lambda>_. Inr 202),
      sr_render_qr = (\<lambda>code. code), sr_decode_segment = (\<lambda>s. s), sr_query = (\<lambda>_ _. None)\<rparr>"

definition example_parse :: "string \<Rightarrow> js_error + json" where
  "example_parse s = Inr (from_nat (length s - 1))"

lemma example_reads_back: "reads_back example_runtime example_parse"
  by (simp add: reads_back_def example_runtime_def example_parse_def)

lemma example_understands: "understands example_runtime ''main''"
proof -
  have "encode_uri_component ''main'' = ''main''" by code_simp
  then show ?thesis by (simp add: understands_def example_runtime_def)
qed

definition example_webhook :: json where
  "example_webhook = JObj [(''url'', JStr ''http://api:3000/webhooks/whatsapp/1''), (''events'', JArr [JStr ''message.ack'']),
     (''hmac'', JObj [(''key'', JStr ''secret'')])]"

definition example_session :: stub_session where
  "example_session = new_stub_session ''main'' [example_webhook]"

text \<open>The state after a session was created and its code was scanned.\<close>

definition example_requests :: "http_request list" where
  "example_requests =
     [\<lparr>hr_method = HttpPost, hr_path = ''/api/sessions'', hr_headers = [(''x-api-key'', ''key'')],
       hr_body = Some (JObj [(''name'', JStr ''main''), (''start'', JBool False),
         (''config'', JObj [(''webhooks'', JArr [example_webhook])])])\<rparr>,
      \<lparr>hr_method = HttpPost, hr_path = ''/__stub/sessions/main/scan'', hr_headers = [],
       hr_body = Some (JObj [(''phoneNumber'', JStr ''5511999990000'')])\<rparr>]"

definition example_stub :: stub where
  "example_stub = stub_after example_runtime (\<lambda>_. 0) initial_stub example_requests"

lemma example_reached: "stub_reaches example_runtime example_stub"
  by (simp add: example_stub_def example_requests_def stub_reaches.intros)

lemma example_routes:
  "stub_route_of example_runtime HttpPost ''/api/sessions'' = Some PostSessionRoute"
  "stub_route_of example_runtime HttpPost ''/__stub/sessions/main/scan'' = Some (ScanRoute ''main'')"
  by (simp_all add: stub_route_of_def stub_routes_def example_runtime_def url_path_def Let_def)

lemma example_found:
  "find_stub_session ''main'' example_stub = Some (complete_scan ''5511999990000'' ''Stub Account'' example_session)"
  "sb_forced_failure_mode example_stub = NoFailure"
  using example_routes
  by (simp_all add: example_stub_def example_requests_def stub_serve_def is_authorized_def post_stub_session_def
      post_scan_def with_body_def with_stub_session_def text_member_def member_of_def json_field_Cons text_or_def
      example_session_def put_stub_session_def initial_stub_def find_stub_session_def Let_def)
     (simp_all add: example_runtime_def)

lemma example_modes:
  "failure_mode_of_send example_stub ''5511999990429@c.us'' = RateLimitedMode"
  "failure_mode_of_send example_stub ''5511988887777@c.us'' = NoFailure"
proof -
  have "filter is_digit ''5511999990429@c.us'' = ''5511999990429''" "filter is_digit ''5511988887777@c.us'' = ''5511988887777''"
    by code_simp+
  then show "failure_mode_of_send example_stub ''5511999990429@c.us'' = RateLimitedMode"
    "failure_mode_of_send example_stub ''5511988887777@c.us'' = NoFailure"
    by (simp_all add: failure_mode_of_send_def example_found failure_mode_for_recipient_def slice_last_def
        failure_by_number_suffix_def)
qed

lemma example_working:
  "su_status (complete_scan ''5511999990000'' ''Stub Account'' example_session) = WORKING"
  "su_phone_number (complete_scan ''5511999990000'' ''Stub Account'' example_session) = Some ''5511999990000''"
  by (simp_all add: complete_scan_def)

theorem stub_keeps_the_life_cycle_witness:
  "\<exists>s. find_stub_session ''main'' example_stub = Some s \<and> su_phone_number s \<noteq> None
    \<and> su_qr_attempt s \<le> 6 \<and> sends_recorded example_stub \<le> sb_sent_message_counter example_stub"
  using stub_keeps_the_life_cycle [OF example_reached] example_found(1) example_working by blast

theorem sessions_are_reported_as_they_are_witness:
  "\<exists>calls' s'. waha_start_session (stub_options example_runtime example_parse (\<lambda>_. 0) example_stub) ''main'' []
      = (Succeeded (session_reported s'), calls') \<and> su_status s' = WORKING"
  using sessions_are_reported_as_they_are [OF example_reads_back example_understands example_reached,
      of "\<lambda>_. 0" "[]"] example_found(1) example_working by fastforce

theorem provoked_failures_are_classified_witness:
  "\<exists>f calls'. waha_send_text_message (stub_options example_runtime example_parse (\<lambda>_. 0) example_stub) ''main''
      ''5511999990429@c.us'' ''Hello'' False [] = (Failed f, calls')
    \<and> f_code f = ProviderRateLimited \<and> f_retry_after_seconds f = Some 90"
  using provoked_failures_are_classified [OF example_reads_back example_understands, of "\<lambda>_. 0" example_stub "[]" _
      "''5511999990429@c.us''" "''Hello''" False] example_found(1) example_modes(1) by fastforce

definition example_callback_crypto :: webhook_crypto where
  "example_callback_crypto =
     \<lparr>wc_hmac_hex = (\<lambda>key body. key @ body), wc_decrypt = Some, wc_parse_json = (\<lambda>s. Some (from_nat (length s - 1)))\<rparr>"

theorem receipts_find_their_message_witness:
  "\<exists>m calls' sb' d cb. waha_send_text_message (stub_options example_runtime example_parse (\<lambda>_. 0) example_stub) ''main''
      ''5511988887777@c.us'' ''Hello'' False [] = (Succeeded m, calls')
    \<and> stub_serve example_runtime 1700000000000 (acknowledge_request ''main'' (sm_provider_message_id m) AckRead)
        (stub_after example_runtime (\<lambda>_. 0) example_stub calls') = (replied 200 (JObj [(''delivered'', JBool True)]), sb')
    \<and> d \<in> set (sb_delivered sb') \<and> dw_url d = ''http://api:3000/webhooks/whatsapp/1'' \<and> dw_result d = sr_receive example_runtime cb
    \<and> reads_as_receipt example_callback_crypto ''secret'' 1700000000000 ''main'' (sm_provider_message_id m) AckRead cb"
proof -
  have crypto: "wc_hmac_hex example_callback_crypto = sr_hmac_hex example_runtime"
    "\<And>j. wc_parse_json example_callback_crypto (sr_stringify example_runtime j) = Some j"
    "\<And>n. sr_identifier example_runtime n \<noteq> []"
    and webhook: "webhook_signing_key example_webhook = Some ''secret''"
      "webhook_subscribed ''message.ack'' example_webhook"
      "text_or [] (text_member ''url'' (Some example_webhook)) = ''http://api:3000/webhooks/whatsapp/1''"
    by (simp_all add: example_callback_crypto_def example_runtime_def webhook_signing_key_def example_webhook_def
        text_member_def member_of_def json_field_Cons webhook_subscribed_def text_or_def)
  have registered: "example_webhook \<in> set (su_webhooks (complete_scan ''5511999990000'' ''Stub Account'' example_session))"
    by (simp add: complete_scan_def example_session_def new_stub_session_def)
  have time: "100000000000 \<le> (1700000000000 :: int)" "(1700000000000 :: int) \<le> max_time_value"
    by (simp_all add: max_time_value_def)
  have found: "find_stub_session ''main'' (stub_after example_runtime (\<lambda>_. 0) example_stub [])
      = Some (complete_scan ''5511999990000'' ''Stub Account'' example_session)"
    "failure_mode_of_send (stub_after example_runtime (\<lambda>_. 0) example_stub []) ''5511988887777@c.us'' = NoFailure"
    using example_found(1) example_modes(2) by simp_all
  note receipts_find_their_message [OF example_reads_back example_understands example_reached found(1) example_working(1)
      found(2) registered webhook(2,1) _ crypto _ time, of "''Hello''" False AckRead]
  then show ?thesis
    unfolding webhook(3) by (fastforce dest: in_set_dropD)
qed

end
