(* ===== verification/Dashboard_Client.thy ===== *)
theory Dashboard_Client
  imports Worker Waha_Provider
begin

text \<open>
  The dashboard's access to the API, \<open>apps/web/src/api/\<close>: how a request is made and its answer read
  (\<open>client.ts\<close>), and the queries and mutations of the pages (\<open>queries.ts\<close>), each with the path it asks
  for, the key it is cached under and what its success does to the cache. The cache itself belongs to
  TanStack Query: when a key falls under another is a parameter.
\<close>

section \<open>Failures\<close>

record api_error =
  ae_status :: int
  ae_problem :: "json option"
  ae_message :: string

datatype client_error = ApiFailure api_error | OtherFailure string

definition is_unauthenticated :: "api_error \<Rightarrow> bool" where
  "is_unauthenticated e = (ae_status e = 401)"

definition problem_errors :: "api_error \<Rightarrow> json list" where
  "problem_errors e = (case member_of ''errors'' (ae_problem e) of Some (JArr errors) \<Rightarrow> errors | _ \<Rightarrow> [])"

definition text_of :: "string \<Rightarrow> json option \<Rightarrow> string option" where
  "text_of name value = (case member_of name value of Some (JStr s) \<Rightarrow> Some s | _ \<Rightarrow> None)"

definition message_for :: "string \<Rightarrow> api_error \<Rightarrow> string option" where
  "message_for field e =
     Option.bind (find (\<lambda>entry. text_of ''path'' (Some entry) = Some field) (problem_errors e))
       (\<lambda>entry. text_of ''message'' (Some entry))"

definition is_validation_failure :: "api_error \<Rightarrow> bool" where
  "is_validation_failure e = (problem_errors e \<noteq> [])"

fun field_error :: "client_error \<Rightarrow> string \<Rightarrow> string option" where
  "field_error (ApiFailure e) field = message_for field e"
| "field_error (OtherFailure _) field = None"

fun is_field_level :: "client_error \<Rightarrow> bool" where
  "is_field_level (ApiFailure e) = is_validation_failure e"
| "is_field_level (OtherFailure _) = False"

section \<open>Requests\<close>

definition csrf_header :: string where
  "csrf_header = ''x-csrf-token''"

record call_options =
  co_method :: string
  co_path :: string
  co_body :: "json option"

text \<open>What is handed to \<open>fetch\<close>; the session's cookie goes with it by itself.\<close>

record fetch_request =
  fe_method :: string
  fe_path :: string
  fe_headers :: "(string \<times> string) list"
  fe_body :: "json option"

text \<open>An answer: its status, and its body as JSON unless it is none.\<close>

record fetch_response =
  fs_status :: int
  fs_json :: "json option"

definition to_fetch :: "string option \<Rightarrow> call_options \<Rightarrow> fetch_request" where
  "to_fetch csrf_token options =
     \<lparr>fe_method = co_method options, fe_path = co_path options,
      fe_headers =
        (if co_body options \<noteq> None then [(''content-type'', ''application/json'')] else [])
        @ (case csrf_token of
             Some token \<Rightarrow> if co_method options \<noteq> ''GET'' then [(csrf_header, token)] else []
           | None \<Rightarrow> []),
      fe_body = co_body options\<rparr>"

definition failure_detail :: "string \<Rightarrow> fetch_response \<Rightarrow> string" where
  "failure_detail path response =
     (case text_of ''detail'' (fs_json response) of
        Some detail \<Rightarrow> detail
      | None \<Rightarrow> ''The request to '' @ path @ '' failed with status '' @ string_of_int (fs_status response) @ ''.'')"

text \<open>Nothing comes of a 204; an answer that is not JSON, or none at all, is a failure of another kind.\<close>

definition read_answer :: "string \<Rightarrow> string + fetch_response \<Rightarrow> client_error + json option" where
  "read_answer path outcome =
     (case outcome of
        Inl e \<Rightarrow> Inl (OtherFailure e)
      | Inr response \<Rightarrow>
          if \<not> (200 \<le> fs_status response \<and> fs_status response \<le> 299)
          then Inl (ApiFailure \<lparr>ae_status = fs_status response, ae_problem = fs_json response,
                      ae_message = failure_detail path response\<rparr>)
          else if fs_status response = 204 then Inr None
          else (case fs_json response of
                  None \<Rightarrow> Inl (OtherFailure ''SyntaxError'')
                | Some j \<Rightarrow> Inr (Some j)))"

section \<open>Query strings\<close>

datatype query_value = QueryText string | QueryNumber int | QueryTexts "string list"

text \<open>The encoding of \<open>URLSearchParams\<close>, for the characters below 256.\<close>

definition form_char :: "char \<Rightarrow> string" where
  "form_char c =
     (let n = char_code c
      in if is_alphanumeric c \<or> c \<in> set ''*-._'' then [c]
         else if c = CHR '' '' then ''+''
         else if n < 128 then percent n
         else percent (192 + n div 64) @ percent (128 + n mod 64))"

definition form_encode :: "string \<Rightarrow> string" where
  "form_encode s = concat (map form_char s)"

definition query_pair :: "string \<Rightarrow> string \<Rightarrow> string" where
  "query_pair name value = form_encode name @ ''='' @ form_encode value"

fun query_pairs :: "string \<times> query_value option \<Rightarrow> string list" where
  "query_pairs (name, None) = []"
| "query_pairs (name, Some (QueryText s)) = (if s = [] then [] else [query_pair name s])"
| "query_pairs (name, Some (QueryNumber n)) = [query_pair name (string_of_int n)]"
| "query_pairs (name, Some (QueryTexts entries)) = map (query_pair name) entries"

text \<open>The names are those of an object: each once.\<close>

definition to_query_string :: "(string \<times> query_value option) list \<Rightarrow> string" where
  "to_query_string parameters =
     (let query = join ''&'' (concat (map query_pairs parameters))
      in if query = [] then [] else CHR ''?'' # query)"

section \<open>The calls of the pages\<close>

record notification_filters =
  nf_status :: "notification_status option"
  nf_recipient :: "string option"
  nf_cursor :: "string option"

datatype connection_action = ActionStart | ActionStop | ActionLogout

fun connection_action_name :: "connection_action \<Rightarrow> string" where
  "connection_action_name ActionStart = ''start''"
| "connection_action_name ActionStop = ''stop''"
| "connection_action_name ActionLogout = ''logout''"

datatype dashboard_call =
    CallSession | CallLogin json | CallRegister json | CallLogout
  | CallApplications | CallApplication string | CallCreateApplication json
  | CallApiKeys string | CallCreateApiKey string json | CallRevokeApiKey string string
  | CallConnections string | CallConnection string string | CallCreateConnection string json
  | CallConnectionAction string string connection_action | CallDeleteConnection string string
  | CallQrCode string string
  | CallNotifications string notification_filters | CallNotification string string
  | CallNotificationEvents string string | CallSendNotification string json
  | CallCancelWaiting string json | CallCancelNotification string string
  | CallReadiness

definition application_path :: "string \<Rightarrow> string" where
  "application_path application_id = ''/dashboard/applications/'' @ application_id"

definition getting :: "string \<Rightarrow> call_options" where
  "getting path = \<lparr>co_method = ''GET'', co_path = path, co_body = None\<rparr>"

definition posting :: "string \<Rightarrow> json option \<Rightarrow> call_options" where
  "posting path body = \<lparr>co_method = ''POST'', co_path = path, co_body = body\<rparr>"

definition deleting :: "string \<Rightarrow> call_options" where
  "deleting path = \<lparr>co_method = ''DELETE'', co_path = path, co_body = None\<rparr>"

definition notification_query :: "notification_filters \<Rightarrow> string" where
  "notification_query filters =
     to_query_string [(''status'', map_option (QueryText \<circ> status_name) (nf_status filters)),
       (''recipient'', map_option QueryText (nf_recipient filters)),
       (''cursor'', map_option QueryText (nf_cursor filters)), (''limit'', Some (QueryNumber 25))]"

fun options_of :: "dashboard_call \<Rightarrow> call_options" where
  "options_of CallSession = getting ''/dashboard/auth/session''"
| "options_of (CallLogin body) = posting ''/dashboard/auth/login'' (Some body)"
| "options_of (CallRegister body) = posting ''/dashboard/auth/register'' (Some body)"
| "options_of CallLogout = posting ''/dashboard/auth/logout'' None"
| "options_of CallApplications = getting ''/dashboard/applications''"
| "options_of (CallApplication a) = getting (application_path a)"
| "options_of (CallCreateApplication body) = posting ''/dashboard/applications'' (Some body)"
| "options_of (CallApiKeys a) = getting (application_path a @ ''/api-keys'')"
| "options_of (CallCreateApiKey a body) = posting (application_path a @ ''/api-keys'') (Some body)"
| "options_of (CallRevokeApiKey a k) = deleting (application_path a @ ''/api-keys/'' @ k)"
| "options_of (CallConnections a) = getting (application_path a @ ''/whatsapp-sessions'')"
| "options_of (CallConnection a c) = getting (application_path a @ ''/whatsapp-sessions/'' @ c)"
| "options_of (CallCreateConnection a body) = posting (application_path a @ ''/whatsapp-sessions'') (Some body)"
| "options_of (CallConnectionAction a c action) =
     posting (application_path a @ ''/whatsapp-sessions/'' @ c @ ''/'' @ connection_action_name action) None"
| "options_of (CallDeleteConnection a c) = deleting (application_path a @ ''/whatsapp-sessions/'' @ c)"
| "options_of (CallQrCode a c) = getting (application_path a @ ''/whatsapp-sessions/'' @ c @ ''/qr-code'')"
| "options_of (CallNotifications a filters) = getting (application_path a @ ''/notifications'' @ notification_query filters)"
| "options_of (CallNotification a n) = getting (application_path a @ ''/notifications/'' @ n)"
| "options_of (CallNotificationEvents a n) = getting (application_path a @ ''/notifications/'' @ n @ ''/events'')"
| "options_of (CallSendNotification a body) = posting (application_path a @ ''/notifications'') (Some body)"
| "options_of (CallCancelWaiting a body) = posting (application_path a @ ''/notifications/cancel-waiting'') (Some body)"
| "options_of (CallCancelNotification a n) = posting (application_path a @ ''/notifications/'' @ n @ ''/cancel'') None"
| "options_of CallReadiness = getting ''/ready''"

section \<open>Keys and the cache\<close>

datatype key_part = KeyText string | KeyFilters notification_filters

type_synonym query_key = "key_part list"

definition session_key :: query_key where
  "session_key = [KeyText ''session'']"

definition applications_key :: query_key where
  "applications_key = [KeyText ''applications'']"

definition application_key :: "string \<Rightarrow> query_key" where
  "application_key a = [KeyText ''applications'', KeyText a]"

definition api_keys_key :: "string \<Rightarrow> query_key" where
  "api_keys_key a = application_key a @ [KeyText ''api-keys'']"

definition connections_key :: "string \<Rightarrow> query_key" where
  "connections_key a = application_key a @ [KeyText ''connections'']"

definition connection_key :: "string \<Rightarrow> string \<Rightarrow> query_key" where
  "connection_key a c = connections_key a @ [KeyText c]"

definition qr_code_key :: "string \<Rightarrow> string \<Rightarrow> query_key" where
  "qr_code_key a c = connection_key a c @ [KeyText ''qr-code'']"

definition notifications_key :: "string \<Rightarrow> query_key" where
  "notifications_key a = application_key a @ [KeyText ''notifications'']"

definition notification_list_key :: "string \<Rightarrow> notification_filters \<Rightarrow> query_key" where
  "notification_list_key a filters = notifications_key a @ [KeyText ''list'', KeyFilters filters]"

definition notification_key :: "string \<Rightarrow> string \<Rightarrow> query_key" where
  "notification_key a n = notifications_key a @ [KeyText n]"

definition notification_events_key :: "string \<Rightarrow> string \<Rightarrow> query_key" where
  "notification_events_key a n = notification_key a n @ [KeyText ''events'']"

definition readiness_key :: query_key where
  "readiness_key = [KeyText ''readiness'']"

text \<open>The key a query is cached under; a mutation has none.\<close>

fun key_of :: "dashboard_call \<Rightarrow> query_key option" where
  "key_of CallSession = Some session_key"
| "key_of CallApplications = Some applications_key"
| "key_of (CallApplication a) = Some (application_key a)"
| "key_of (CallApiKeys a) = Some (api_keys_key a)"
| "key_of (CallConnections a) = Some (connections_key a)"
| "key_of (CallConnection a c) = Some (connection_key a c)"
| "key_of (CallQrCode a c) = Some (qr_code_key a c)"
| "key_of (CallNotifications a filters) = Some (notification_list_key a filters)"
| "key_of (CallNotification a n) = Some (notification_key a n)"
| "key_of (CallNotificationEvents a n) = Some (notification_events_key a n)"
| "key_of CallReadiness = Some readiness_key"
| "key_of _ = None"

record cached_query =
  cq_key :: query_key
  cq_data :: json
  cq_stale :: bool

record browser =
  bw_csrf_token :: "string option"
  bw_queries :: "cached_query list"

text \<open>Whether a key falls under another, as the cache of TanStack Query decides it.\<close>

type_synonym key_matching = "query_key \<Rightarrow> query_key \<Rightarrow> bool"

definition set_query_data :: "query_key \<Rightarrow> json \<Rightarrow> browser \<Rightarrow> browser" where
  "set_query_data key data b =
     b\<lparr>bw_queries := filter (\<lambda>q. cq_key q \<noteq> key) (bw_queries b) @ [\<lparr>cq_key = key, cq_data = data, cq_stale = False\<rparr>]\<rparr>"

definition invalidate_queries :: "key_matching \<Rightarrow> query_key \<Rightarrow> browser \<Rightarrow> browser" where
  "invalidate_queries falls_under key b =
     b\<lparr>bw_queries := map (\<lambda>q. if falls_under key (cq_key q) then q\<lparr>cq_stale := True\<rparr> else q) (bw_queries b)\<rparr>"

definition remove_queries :: "(query_key \<Rightarrow> bool) \<Rightarrow> browser \<Rightarrow> browser" where
  "remove_queries removes b = b\<lparr>bw_queries := filter (\<lambda>q. \<not> removes (cq_key q)) (bw_queries b)\<rparr>"

definition remember_csrf_token :: "string \<Rightarrow> browser \<Rightarrow> browser" where
  "remember_csrf_token token b = b\<lparr>bw_csrf_token := Some token\<rparr>"

definition forget_csrf_token :: "browser \<Rightarrow> browser" where
  "forget_csrf_token b = b\<lparr>bw_csrf_token := None\<rparr>"

section \<open>What an answer does\<close>

text \<open>
  The answers that carry a session: who is signed in, and the token of their mutations. The session
  storage keeps strings, a member that is missing as well.
\<close>

definition session_token_of :: "json option \<Rightarrow> string" where
  "session_token_of session = (case text_of ''csrfToken'' session of Some token \<Rightarrow> token | None \<Rightarrow> ''undefined'')"

text \<open>Not signed in is an answer: whatever the failure, the session is nobody's.\<close>

definition session_answered :: "client_error + json option \<Rightarrow> browser \<Rightarrow> browser" where
  "session_answered result b =
     (case result of
        Inr (Some session) \<Rightarrow>
          if session = JNull then set_query_data session_key JNull (forget_csrf_token b)
          else set_query_data session_key session (remember_csrf_token (session_token_of (Some session)) b)
      | _ \<Rightarrow> set_query_data session_key JNull (forget_csrf_token b))"

definition sign_in_answered :: "client_error + json option \<Rightarrow> browser \<Rightarrow> browser" where
  "sign_in_answered result b =
     (case result of
        Inr (Some session) \<Rightarrow>
          if session = JNull then b
          else set_query_data session_key session (remember_csrf_token (session_token_of (Some session)) b)
      | _ \<Rightarrow> b)"

definition logout_answered :: "client_error + json option \<Rightarrow> browser \<Rightarrow> browser" where
  "logout_answered result b =
     (case result of
        Inr _ \<Rightarrow> remove_queries (\<lambda>key. take 1 key \<noteq> take 1 session_key)
                   (set_query_data session_key JNull (forget_csrf_token b))
      | Inl _ \<Rightarrow> b)"

text \<open>What a successful mutation declares stale.\<close>

fun invalidates :: "dashboard_call \<Rightarrow> query_key option" where
  "invalidates (CallCreateApplication body) = Some applications_key"
| "invalidates (CallCreateApiKey a body) = Some (api_keys_key a)"
| "invalidates (CallRevokeApiKey a k) = Some (api_keys_key a)"
| "invalidates (CallCreateConnection a body) = Some (connections_key a)"
| "invalidates (CallConnectionAction a c action) = Some (connections_key a)"
| "invalidates (CallDeleteConnection a c) = Some (connections_key a)"
| "invalidates (CallSendNotification a body) = Some (notifications_key a)"
| "invalidates (CallCancelWaiting a body) = Some (notifications_key a)"
| "invalidates (CallCancelNotification a n) = Some (notifications_key a)"
| "invalidates _ = None"

definition mutation_answered :: "key_matching \<Rightarrow> dashboard_call \<Rightarrow> client_error + json option \<Rightarrow> browser \<Rightarrow> browser" where
  "mutation_answered falls_under call result b =
     (case (result, invalidates call) of
        (Inr _, Some key) \<Rightarrow> invalidate_queries falls_under key b
      | _ \<Rightarrow> b)"

text \<open>A list is unwrapped, everything else is kept as it came.\<close>

fun is_wrapped :: "dashboard_call \<Rightarrow> bool" where
  "is_wrapped CallApplications = True"
| "is_wrapped (CallApiKeys a) = True"
| "is_wrapped (CallConnections a) = True"
| "is_wrapped (CallNotificationEvents a n) = True"
| "is_wrapped _ = False"

definition query_answered :: "dashboard_call \<Rightarrow> client_error + json option \<Rightarrow> browser \<Rightarrow> browser" where
  "query_answered call result b =
     (case (result, key_of call) of
        (Inr content, Some key) \<Rightarrow>
          (case (if is_wrapped call then member_of ''data'' content else content) of
             Some data \<Rightarrow> set_query_data key data b
           | None \<Rightarrow> b)
      | _ \<Rightarrow> b)"

definition answered :: "key_matching \<Rightarrow> dashboard_call \<Rightarrow> client_error + json option \<Rightarrow> browser \<Rightarrow> browser" where
  "answered falls_under call result =
     (case call of
        CallSession \<Rightarrow> session_answered result
      | CallLogin _ \<Rightarrow> sign_in_answered result
      | CallRegister _ \<Rightarrow> sign_in_answered result
      | CallLogout \<Rightarrow> logout_answered result
      | _ \<Rightarrow> if key_of call = None then mutation_answered falls_under call result else query_answered call result)"

section \<open>Polling\<close>

text \<open>Milliseconds until the next request, from the status last seen; \<^term>\<open>None\<close> when there is none.\<close>

definition connection_refetch_interval :: "string option \<Rightarrow> int" where
  "connection_refetch_interval status =
     (if status = Some ''SCAN_QR_CODE'' \<or> status = Some ''STARTING'' then 2000
      else if status = Some ''WORKING'' then 30000 else 10000)"

definition notification_refetch_interval :: "string option \<Rightarrow> int option" where
  "notification_refetch_interval status =
     (case status of
        None \<Rightarrow> Some 3000
      | Some s \<Rightarrow> if s = ''FAILED'' \<or> s = ''CANCELLED'' then None else Some 3000)"

definition qr_code_refetch_interval :: "bool \<Rightarrow> int option" where
  "qr_code_refetch_interval is_scannable = (if is_scannable then Some 15000 else None)"

section \<open>A whole call\<close>

text \<open>A probe that says the platform is not ready is an answer as well.\<close>

definition read_readiness :: "string + fetch_response \<Rightarrow> client_error + json option" where
  "read_readiness outcome =
     (case outcome of
        Inl e \<Rightarrow> Inl (OtherFailure e)
      | Inr response \<Rightarrow>
          (case fs_json response of
             None \<Rightarrow> Inl (OtherFailure (''The API answered '' @ string_of_int (fs_status response)
                @ '' without a readiness report.''))
           | Some j \<Rightarrow> Inr (Some j)))"

definition read_result :: "dashboard_call \<Rightarrow> string + fetch_response \<Rightarrow> client_error + json option" where
  "read_result call outcome =
     (if call = CallReadiness then read_readiness outcome
      else read_answer (co_path (options_of call)) outcome)"

definition call_api ::
  "key_matching \<Rightarrow> (fetch_request \<Rightarrow> string + fetch_response) \<Rightarrow> dashboard_call \<Rightarrow> browser
     \<Rightarrow> (client_error + json option) \<times> browser" where
  "call_api falls_under api call b =
     (let result = read_result call (api (to_fetch (bw_csrf_token b) (options_of call)))
      in (result, answered falls_under call result b))"

end
