(* ===== verification/Routing.thy ===== *)
theory Routing
  imports Api_Routes
begin

text \<open>Finding a route: the table is searched entry by entry.\<close>

lemma find_miss: "\<not> P x \<Longrightarrow> find P xs = r \<Longrightarrow> find P (x # xs) = r"
  by simp

lemma find_hit: "P x \<Longrightarrow> find P (x # xs) = Some x"
  by simp

lemma route_found:
  "find (\<lambda>(v, pattern, _). v = verb \<and> fits pattern segments) routes = Some (v, pattern, build)
     \<Longrightarrow> build (path_parameters pattern segments) = r \<Longrightarrow> route_of verb segments = Some r"
  by (simp add: route_of_def)

lemma find_SomeD: "find P xs = Some x \<Longrightarrow> x \<in> set xs \<and> P x"
  by (induction xs) (auto split: if_splits)

lemma route_entry:
  assumes "route_of verb segments = Some r"
  shows "\<exists>pattern build. (verb, pattern, build) \<in> set routes \<and> fits pattern segments
    \<and> r = build (path_parameters pattern segments)"
  using assms by (fastforce simp: route_of_def dest: find_SomeD)

lemma fits_iff [simp]:
  "fits [] xs \<longleftrightarrow> xs = []"
  "fits (Fixed name # ps) xs \<longleftrightarrow> (\<exists>ys. xs = name # ys \<and> fits ps ys)"
  "fits (Param # ps) xs \<longleftrightarrow> (\<exists>x ys. xs = x # ys \<and> fits ps ys)"
  by (cases xs; auto)+

end
