(* ===== verification/Api_Document.thy ===== *)
theory Api_Document
  imports Api_Access
begin

text \<open>
  The description of the API, \<open>packages/contracts/src/openapi.ts\<close>: the document as the JSON that is served,
  one definition per described operation. The schemas \<open>zod\<close> writes from those that validate requests are
  its own, and parameters here. Text outside ASCII is written in UTF-8, as the document is sent.
\<close>

section \<open>Parts\<close>

record generated_schemas =
  gs_idempotency_key :: json
  gs_notification_status :: json
  gs_notification_creation_request :: json
  gs_notification_batch_creation_request :: json
  gs_notification :: json
  gs_notification_batch :: json
  gs_notification_list :: json
  gs_notification_event :: json

definition em_dash :: string where
  "em_dash = [CHR 0xE2, CHR 0x80, CHR 0x94]"

definition ellipsis :: string where
  "ellipsis = [CHR 0xE2, CHR 0x80, CHR 0xA6]"

definition schema_ref :: "string \<Rightarrow> json" where
  "schema_ref name = JObj [(''$ref'', JStr (''#/components/schemas/'' @ name))]"

definition problem_schema :: json where
  "problem_schema =
    JObj [
      (''type'', JStr ''object''),
      (''properties'', JObj [
          (''type'', JObj [(''type'', JStr ''string''), (''format'', JStr ''uri'')]),
          (''title'', JObj [(''type'', JStr ''string'')]),
          (''status'', JObj [(''type'', JStr ''integer'')]),
          (''detail'', JObj [(''type'', JStr ''string'')]),
          (''instance'', JObj [(''type'', JStr ''string'')]),
          (''correlationId'', JObj [
              (''type'', JStr ''string''),
              (''description'', JStr ''Quote this when reporting a failure; it identifies the request in the logs.'')]),
          (''errors'', JObj [
              (''type'', JStr ''array''),
              (''description'', JStr ''Present on a validation failure: which field was rejected, and why.''),
              (''items'', JObj [
                  (''type'', JStr ''object''),
                  (''properties'', JObj [
                      (''path'', JObj [(''type'', JStr ''string'')]),
                      (''code'', JObj [(''type'', JStr ''string'')]),
                      (''message'', JObj [(''type'', JStr ''string'')])]),
                  (''required'', JArr [JStr ''path'', JStr ''code'', JStr ''message''])])])]),
      (''required'', JArr [JStr ''type'', JStr ''title'', JStr ''status'', JStr ''detail''])]"

definition problem_response :: "string \<Rightarrow> json" where
  "problem_response description = JObj
     [(''description'', JStr description),
      (''content'', JObj [(''application/problem+json'', JObj [(''schema'', schema_ref ''Problem'')])])]"

definition callback_response :: "string \<Rightarrow> json" where
  "callback_response description = JObj
     [(''description'', JStr description),
      (''content'', JObj [(''application/json'', JObj [(''schema'', JObj
         [(''type'', JStr ''object''),
          (''properties'', JObj [(''accepted'', JObj [(''type'', JStr ''boolean'')])]),
          (''required'', JArr [JStr ''accepted''])])])])]"

definition notification_identifier_parameter :: json where
  "notification_identifier_parameter =
    JObj [
      (''name'', JStr ''notificationId''),
      (''in'', JStr ''path''),
      (''required'', JBool True),
      (''schema'', JObj [(''type'', JStr ''string''), (''format'', JStr ''uuid'')])]"

definition documented_rate_limit_headers :: "(string \<times> json) list" where
  "documented_rate_limit_headers =
    [
      (''ratelimit-limit'', JObj [
          (''schema'', JObj [(''type'', JStr ''integer'')]),
          (''description'', JStr ''Requests allowed per period.'')]),
      (''ratelimit-remaining'', JObj [
          (''schema'', JObj [(''type'', JStr ''integer'')]),
          (''description'', JStr ''Requests still available.'')]),
      (''ratelimit-reset'', JObj [
          (''schema'', JObj [(''type'', JStr ''integer'')]),
          (''description'', JStr ''Seconds until the allowance is replenished.'')])]"

definition api_version :: string where
  "api_version = ''1.0.0''"

section \<open>Operations\<close>

definition create_notification_operation :: "generated_schemas \<Rightarrow> json" where
  "create_notification_operation gs =
    JObj [
      (''tags'', JArr [JStr ''Notifications'']),
      (''summary'', JStr ''Accept a notification for delivery''),
      (''description'', JStr (''Answers 202, not 200: the notification is persisted and queued, not delivered. '' @
           ''Nothing on this path contacts WhatsApp, which is why it answers in milliseconds.'')),
      (''operationId'', JStr ''createNotification''),
      (''parameters'', JArr [JObj [
            (''name'', JStr ''Idempotency-Key''),
            (''in'', JStr ''header''),
            (''required'', JBool False),
            (''schema'', gs_idempotency_key gs),
            (''description'', JStr ''Makes a retry safe. Scoped to the application, and valid for 24 hours.'')]]),
      (''requestBody'', JObj [
          (''required'', JBool True),
          (''content'', JObj [
              (''application/json'', JObj [(''schema'', schema_ref ''NotificationCreationRequest'')])])]),
      (''responses'', JObj [
          (''202'', JObj [
              (''description'', JStr ''Accepted for delivery.''),
              (''headers'', JObj (documented_rate_limit_headers @ [
                  (''idempotent-replayed'', JObj [
                      (''schema'', JObj [(''type'', JStr ''string''), (''enum'', JArr [JStr ''true''])]),
                      (''description'', JStr ''Present when this response replays an earlier identical request.'')])])),
              (''content'', JObj [(''application/json'', JObj [(''schema'', schema_ref ''Notification'')])])]),
          (''400'', problem_response (''The request body could not be parsed, a field failed validation '' @ em_dash @ '' an invalid '' @
               ''recipient among them '' @ em_dash @ '' or the Idempotency-Key header is empty or too long.'')),
          (''401'', problem_response ''The API key is missing or not valid.''),
          (''403'', problem_response ''The API key lacks the notifications:write scope.''),
          (''404'', problem_response ''The whatsAppSessionId does not belong to this application.''),
          (''409'', problem_response (''A request with this Idempotency-Key is still in flight, or the application has '' @
               ''no connected WhatsApp session to send from.'')),
          (''422'', problem_response (''The request is well formed but cannot be acted on '' @ em_dash @ '' a schedule in the past, or '' @
               ''an Idempotency-Key already used with a different body.'')),
          (''429'', problem_response ''The rate limit was exceeded. See retry-after.'')])]"

definition list_notifications_operation :: "json" where
  "list_notifications_operation =
    JObj [
      (''tags'', JArr [JStr ''Notifications'']),
      (''summary'', JStr ''List notifications''),
      (''description'', JStr (''Newest first, paginated by an opaque signed cursor. Pass the nextCursor from the '' @
           ''previous page; a tampered cursor is rejected rather than executed.'')),
      (''operationId'', JStr ''listNotifications''),
      (''parameters'', JArr [JObj [
            (''name'', JStr ''status''),
            (''in'', JStr ''query''),
            (''required'', JBool False),
            (''description'', JStr ''Repeat the parameter to filter on several statuses.''),
            (''schema'', JObj [
                (''oneOf'', JArr [schema_ref ''NotificationStatus'', JObj [
                      (''type'', JStr ''array''),
                      (''items'', schema_ref ''NotificationStatus'')]])])], JObj [
            (''name'', JStr ''recipient''),
            (''in'', JStr ''query''),
            (''required'', JBool False),
            (''schema'', JObj [(''type'', JStr ''string'')])], JObj [
            (''name'', JStr ''cursor''),
            (''in'', JStr ''query''),
            (''required'', JBool False),
            (''schema'', JObj [(''type'', JStr ''string'')])], JObj [
            (''name'', JStr ''limit''),
            (''in'', JStr ''query''),
            (''required'', JBool False),
            (''schema'', JObj [
                (''type'', JStr ''integer''),
                (''minimum'', JNum 1),
                (''maximum'', JNum 100),
                (''default'', JNum 25)])]]),
      (''responses'', JObj [
          (''200'', JObj [
              (''description'', JStr ''One page of notifications.''),
              (''headers'', JObj documented_rate_limit_headers),
              (''content'', JObj [
                  (''application/json'', JObj [(''schema'', schema_ref ''NotificationList'')])])]),
          (''400'', problem_response ''The cursor, or one of the query filters, is not valid.''),
          (''401'', problem_response ''The API key is missing or not valid.''),
          (''403'', problem_response ''The API key lacks the notifications:read scope.''),
          (''429'', problem_response ''The rate limit was exceeded. See retry-after.'')])]"

definition create_notification_batch_operation :: "generated_schemas \<Rightarrow> json" where
  "create_notification_batch_operation gs =
    JObj [
      (''tags'', JArr [JStr ''Notifications'']),
      (''summary'', JStr ''Accept one message for several recipients''),
      (''description'', JStr (''Creates one notification per recipient -- up to '' @ string_of_int maximum_batch_recipients @ '' -- '' @
           ''in a single transaction, and answers with all of them in the order the recipients '' @
           ''were given. Each is delivered, retried and acknowledged on its own. Sends from one '' @
           ''WhatsApp connection are paced to avoid a ban, so the messages arrive in sequence '' @
           ''rather than at once.'')),
      (''operationId'', JStr ''createNotificationBatch''),
      (''parameters'', JArr [JObj [
            (''name'', JStr ''Idempotency-Key''),
            (''in'', JStr ''header''),
            (''required'', JBool False),
            (''schema'', gs_idempotency_key gs),
            (''description'', JStr (''Covers the whole batch: a retry replays every notification the first request '' @
                 ''created. Scoped to the application, and valid for 24 hours.''))]]),
      (''requestBody'', JObj [
          (''required'', JBool True),
          (''content'', JObj [
              (''application/json'', JObj [(''schema'', schema_ref ''NotificationBatchCreationRequest'')])])]),
      (''responses'', JObj [
          (''202'', JObj [
              (''description'', JStr ''Every notification in the batch, accepted for delivery.''),
              (''headers'', JObj (documented_rate_limit_headers @ [
                  (''idempotent-replayed'', JObj [
                      (''schema'', JObj [(''type'', JStr ''string''), (''enum'', JArr [JStr ''true''])]),
                      (''description'', JStr ''Present when this response replays an earlier identical request.'')])])),
              (''content'', JObj [
                  (''application/json'', JObj [(''schema'', schema_ref ''NotificationBatch'')])])]),
          (''400'', problem_response (''The body could not be parsed or failed validation -- an invalid or repeated '' @
               ''recipient, or too many of them -- or the Idempotency-Key header is empty or too long.'')),
          (''401'', problem_response ''The API key is missing or not valid.''),
          (''403'', problem_response ''The API key lacks the notifications:write scope.''),
          (''404'', problem_response ''The whatsAppSessionId does not belong to this application.''),
          (''409'', problem_response (''A request with this Idempotency-Key is still in flight, or the application has '' @
               ''no connected WhatsApp session to send from.'')),
          (''422'', problem_response (''The request is well formed but cannot be acted on '' @ em_dash @ '' a schedule in the past, or '' @
               ''an Idempotency-Key already used with a different body.'')),
          (''429'', problem_response ''The rate limit was exceeded. See retry-after.'')])]"

definition get_notification_operation :: "json" where
  "get_notification_operation =
    JObj [
      (''tags'', JArr [JStr ''Notifications'']),
      (''summary'', JStr ''Read one notification''),
      (''operationId'', JStr ''getNotification''),
      (''parameters'', JArr [notification_identifier_parameter]),
      (''responses'', JObj [
          (''200'', JObj [
              (''description'', JStr ''The notification.''),
              (''headers'', JObj documented_rate_limit_headers),
              (''content'', JObj [(''application/json'', JObj [(''schema'', schema_ref ''Notification'')])])]),
          (''400'', problem_response ''The notificationId in the path is not a valid identifier.''),
          (''401'', problem_response ''The API key is missing or not valid.''),
          (''403'', problem_response ''The API key lacks the notifications:read scope.''),
          (''404'', problem_response (''No such notification for this application. A notification belonging to another '' @
               ''tenant answers the same way, so the API cannot be used to discover identifiers.'')),
          (''429'', problem_response ''The rate limit was exceeded. See retry-after.'')])]"

definition list_notification_events_operation :: "json" where
  "list_notification_events_operation =
    JObj [
      (''tags'', JArr [JStr ''Notifications'']),
      (''summary'', JStr ''Read the delivery timeline''),
      (''description'', JStr (''Every state change, in order, including each attempt and the acknowledgements the '' @
           ''provider reported. A missing read receipt is not a failure: recipients can turn '' @
           ''read receipts off.'')),
      (''operationId'', JStr ''listNotificationEvents''),
      (''parameters'', JArr [notification_identifier_parameter]),
      (''responses'', JObj [
          (''200'', JObj [
              (''description'', JStr ''The timeline, oldest first.''),
              (''headers'', JObj documented_rate_limit_headers),
              (''content'', JObj [
                  (''application/json'', JObj [
                      (''schema'', JObj [
                          (''type'', JStr ''object''),
                          (''properties'', JObj [
                              (''data'', JObj [
                                  (''type'', JStr ''array''),
                                  (''items'', schema_ref ''NotificationEvent'')])]),
                          (''required'', JArr [JStr ''data''])])])])]),
          (''400'', problem_response ''The notificationId in the path is not a valid identifier.''),
          (''401'', problem_response ''The API key is missing or not valid.''),
          (''403'', problem_response ''The API key lacks the notifications:read scope.''),
          (''404'', problem_response ''No such notification for this application.''),
          (''429'', problem_response ''The rate limit was exceeded. See retry-after.'')])]"

definition cancel_notification_operation :: "json" where
  "cancel_notification_operation =
    JObj [
      (''tags'', JArr [JStr ''Notifications'']),
      (''summary'', JStr ''Cancel a notification that has not been handed to the provider''),
      (''description'', JStr (''A notification already being dispatched cannot be cancelled: the provider call may '' @
           ''be in flight, and a sent WhatsApp message cannot be recalled.'')),
      (''operationId'', JStr ''cancelNotification''),
      (''parameters'', JArr [notification_identifier_parameter]),
      (''responses'', JObj [
          (''200'', JObj [
              (''description'', JStr ''Cancelled.''),
              (''headers'', JObj documented_rate_limit_headers),
              (''content'', JObj [(''application/json'', JObj [(''schema'', schema_ref ''Notification'')])])]),
          (''400'', problem_response ''The notificationId in the path is not a valid identifier.''),
          (''401'', problem_response ''The API key is missing or not valid.''),
          (''403'', problem_response ''The API key lacks the notifications:write scope.''),
          (''404'', problem_response ''No such notification for this application.''),
          (''409'', problem_response ''The notification can no longer be cancelled.''),
          (''429'', problem_response ''The rate limit was exceeded. See retry-after.'')])]"

definition get_current_application_operation :: "json" where
  "get_current_application_operation =
    JObj [
      (''tags'', JArr [JStr ''Applications'']),
      (''summary'', JStr ''Describe the application this key belongs to''),
      (''description'', JStr (''Lets an integrator confirm which application a key belongs to and what it may do, '' @
           ''without sending a real message to find out.'')),
      (''operationId'', JStr ''getCurrentApplication''),
      (''responses'', JObj [
          (''200'', JObj [
              (''description'', JStr ''The application and the scopes carried by this key.''),
              (''headers'', JObj documented_rate_limit_headers),
              (''content'', JObj [
                  (''application/json'', JObj [
                      (''schema'', JObj [
                          (''type'', JStr ''object''),
                          (''properties'', JObj [
                              (''id'', JObj [(''type'', JStr ''string''), (''format'', JStr ''uuid'')]),
                              (''name'', JObj [(''type'', JStr ''string'')]),
                              (''slug'', JObj [(''type'', JStr ''string'')]),
                              (''status'', JObj [(''type'', JStr ''string'')]),
                              (''scopes'', JObj [
                                  (''type'', JStr ''array''),
                                  (''items'', JObj [(''type'', JStr ''string'')])])]),
                          (''required'', JArr [JStr ''id'', JStr ''name'', JStr ''slug'', JStr ''status'', JStr ''scopes''])])])])]),
          (''401'', problem_response ''The API key is missing or not valid.''),
          (''403'', problem_response ''The API key lacks the notifications:read scope.''),
          (''429'', problem_response ''The rate limit was exceeded. See retry-after.'')])]"

definition receive_provider_callback_operation :: "json" where
  "receive_provider_callback_operation =
    JObj [
      (''tags'', JArr [JStr ''Callbacks'']),
      (''summary'', JStr ''Receive a provider callback''),
      (''description'', JStr (''Called by the WhatsApp provider, not by an integrator. Deliberately outside /v1: '' @
           ''it is authenticated by a signature over the raw request body rather than by an API '' @
           ''key, so mixing it into the public API would put a route with entirely different '' @
           ''authentication behind the same guard. It answers 202 for anything it records, '' @
           ''including a redelivery of an event already filed, because the provider retries '' @
           ''whatever is not answered quickly.'')),
      (''operationId'', JStr ''receiveProviderCallback''),
      (''security'', JArr []),
      (''parameters'', JArr [JObj [
            (''name'', JStr ''whatsAppSessionId''),
            (''in'', JStr ''path''),
            (''required'', JBool True),
            (''schema'', JObj [(''type'', JStr ''string''), (''format'', JStr ''uuid'')])], JObj [
            (''name'', JStr ''x-webhook-hmac''),
            (''in'', JStr ''header''),
            (''required'', JBool True),
            (''schema'', JObj [(''type'', JStr ''string'')]),
            (''description'', JStr ''HMAC-SHA512 over the exact bytes of the body, in lowercase hex.'')], JObj [
            (''name'', JStr ''x-webhook-timestamp''),
            (''in'', JStr ''header''),
            (''required'', JBool False),
            (''schema'', JObj [(''type'', JStr ''string'')]),
            (''description'', JStr ''Seconds since the epoch. Outside the tolerance window it is refused.'')]]),
      (''requestBody'', JObj [
          (''required'', JBool True),
          (''content'', JObj [
              (''application/json'', JObj [(''schema'', JObj [(''type'', JStr ''object'')])])])]),
      (''responses'', JObj [
          (''202'', JObj [
              (''description'', JStr ''Recorded. Says nothing about whether it could be applied.''),
              (''content'', JObj [
                  (''application/json'', JObj [
                      (''schema'', JObj [
                          (''type'', JStr ''object''),
                          (''properties'', JObj [(''accepted'', JObj [(''type'', JStr ''boolean'')])]),
                          (''required'', JArr [JStr ''accepted''])])])])]),
          (''400'', callback_response (''The callback had no body, a body that could not be parsed, or a session '' @
               ''identifier in the path that is not a valid identifier.'')),
          (''401'', callback_response ''The signature did not verify, or the timestamp was outside the tolerance window.'')])]"

definition get_openapi_document_operation :: "json" where
  "get_openapi_document_operation =
    JObj [
      (''tags'', JArr [JStr ''Applications'']),
      (''summary'', JStr ''This document''),
      (''description'', JStr ''Unauthenticated: a description of the API is not a secret.''),
      (''operationId'', JStr ''getOpenApiDocument''),
      (''security'', JArr []),
      (''responses'', JObj [(''200'', JObj [(''description'', JStr ''The OpenAPI document.'')])])]"

definition documented_paths :: "generated_schemas \<Rightarrow> json" where
  "documented_paths gs = JObj
     [(''/v1/notifications'', JObj [(''post'', create_notification_operation gs), (''get'', list_notifications_operation)]),
      (''/v1/notifications/batch'', JObj [(''post'', create_notification_batch_operation gs)]),
      (''/v1/notifications/{notificationId}'', JObj [(''get'', get_notification_operation)]),
      (''/v1/notifications/{notificationId}/events'', JObj [(''get'', list_notification_events_operation)]),
      (''/v1/notifications/{notificationId}/cancel'', JObj [(''post'', cancel_notification_operation)]),
      (''/v1/applications/current'', JObj [(''get'', get_current_application_operation)]),
      (''/webhooks/whatsapp/{whatsAppSessionId}'', JObj [(''post'', receive_provider_callback_operation)]),
      (''/v1/openapi.json'', JObj [(''get'', get_openapi_document_operation)])]"

section \<open>The document\<close>

definition document_description :: string where
  "document_description = join [CHR 0x0A]
     [''Send WhatsApp notifications and follow what happens to them.'',
      [],
      ''Delivery is at-least-once. The provider behind this API accepts no'',
      ''idempotency key of its own, so a worker killed between the provider'',
      ''accepting a message and the outcome being committed leaves a window'',
      ''that cannot be closed from this side. Duplicate suppression is strong'',
      ''and the guarantee is stated honestly rather than overclaimed.'',
      [],
      ''Send an Idempotency-Key with every creation request. A repeated key'',
      ''with an identical body replays the original response; with a different'',
      ''body it is refused. Keys expire after twenty-four hours.'']"

definition document_tags :: json where
  "document_tags = JArr
     [JObj [(''name'', JStr ''Notifications''),
        (''description'', JStr ''Creating notifications and following their delivery'')],
      JObj [(''name'', JStr ''Applications''),
        (''description'', JStr ''What the presented key is allowed to do'')],
      JObj [(''name'', JStr ''Callbacks''),
        (''description'', JStr ''Called by the WhatsApp provider, authenticated by signature rather than key'')]]"

definition document_components :: "generated_schemas \<Rightarrow> json" where
  "document_components gs = JObj
     [(''securitySchemes'', JObj [(''apiKey'', JObj
        [(''type'', JStr ''http''), (''scheme'', JStr ''bearer''),
         (''description'', JStr (''An API key issued in the dashboard, sent as `Bearer wnp_live_'' @ ellipsis @ ''`.''))])]),
      (''schemas'', JObj
        [(''Problem'', problem_schema),
         (''NotificationStatus'', gs_notification_status gs),
         (''NotificationCreationRequest'', gs_notification_creation_request gs),
         (''NotificationBatchCreationRequest'', gs_notification_batch_creation_request gs),
         (''Notification'', gs_notification gs),
         (''NotificationBatch'', gs_notification_batch gs),
         (''NotificationList'', gs_notification_list gs),
         (''NotificationEvent'', gs_notification_event gs)])]"

definition build_openapi_document :: "generated_schemas \<Rightarrow> string \<Rightarrow> json" where
  "build_openapi_document gs public_base_url = JObj
     [(''openapi'', JStr ''3.1.0''),
      (''info'', JObj
        [(''title'', JStr ''WhatsApp Notification Platform''), (''version'', JStr api_version),
         (''description'', JStr document_description)]),
      (''servers'', JArr [JObj [(''url'', JStr public_base_url)]]),
      (''tags'', document_tags),
      (''components'', document_components gs),
      (''security'', JArr [JObj [(''apiKey'', JArr [])]]),
      (''paths'', documented_paths gs)]"

text \<open>\<open>openapi.controller.ts\<close>: no guard, and an answer that may be cached.\<close>

definition read_openapi_document ::
  "http_runtime \<Rightarrow> generated_schemas \<Rightarrow> string \<Rightarrow> http_input \<Rightarrow> json http_reply prog" where
  "read_openapi_document ht gs public_base_url h =
     receive ht h (\<lambda>headers content. Done (answer 200
       (headers @ [(''cache-control'', ''public, max-age=300'')]) (build_openapi_document gs public_base_url)))"

section \<open>Reading the document\<close>

text \<open>As a client reads it: an operation is a verb below a path.\<close>

fun members :: "json option \<Rightarrow> (string \<times> json) list" where
  "members (Some (JObj ms)) = ms"
| "members _ = []"

fun elements :: "json option \<Rightarrow> json list" where
  "elements (Some (JArr xs)) = xs"
| "elements _ = []"

definition member :: "string \<Rightarrow> json \<Rightarrow> json option" where
  "member name j = json_field name (members (Some j))"

definition described :: "json \<Rightarrow> (string \<times> string \<times> json) list" where
  "described document =
     concat (map (\<lambda>(path, item). map (\<lambda>(verb, operation). (path, verb, operation)) (members (Some item)))
       (members (member ''paths'' document)))"

fun template_segment :: "string \<Rightarrow> path_segment" where
  "template_segment (c # name) = (if c = CHR ''{'' then Param else Fixed (c # name))"
| "template_segment [] = Fixed []"

definition path_template :: "string \<Rightarrow> path_segment list" where
  "path_template path = map template_segment (tl (split_on CHR ''/'' path))"

definition method_of :: "string \<Rightarrow> string" where
  "method_of verb = (if verb = ''get'' then ''GET'' else if verb = ''post'' then ''POST'' else verb)"

text \<open>An operation's own \<open>security\<close> takes the place of the document's.\<close>

definition needs_key :: "json \<Rightarrow> json \<Rightarrow> bool" where
  "needs_key document operation =
     (elements (case member ''security'' operation of None \<Rightarrow> member ''security'' document | own \<Rightarrow> own) \<noteq> [])"

definition documented_statuses :: "json \<Rightarrow> string list" where
  "documented_statuses operation = map fst (members (member ''responses'' operation))"

definition response_description :: "json \<Rightarrow> string \<Rightarrow> json option" where
  "response_description operation status =
     Option.bind (Option.bind (member ''responses'' operation) (member status)) (member ''description'')"

end
