(* ===== verification/Documented_Api.thy ===== *)
theory Documented_Api
  imports Api_Document Http_Safety Routing Http_Examples
begin

text \<open>
  The document and the API: what is described is what is routed, what the document says of keys and
  scopes is what the guards ask for, and the statuses it lists are those a request can end with.
\<close>

section \<open>Which statuses an exception is answered with\<close>

definition status_of_exn :: "exn \<Rightarrow> int" where
  "status_of_exn e =
     (case e of
        DomainError code m \<Rightarrow> (case map_of status_by_domain_error_code code of Some (status, title) \<Rightarrow> status | None \<Rightarrow> 500)
      | HttpException status error m \<Rightarrow> status
      | _ \<Rightarrow> 500)"

text \<open>
  An exception of one of the given statuses, or one of the two that any request can meet: an internal
  error, and an application that is archived under the request.
\<close>

definition stated :: "int set \<Rightarrow> exn \<Rightarrow> bool" where
  "stated S e = (answerable e \<and> (status_of_exn e \<in> insert 500 S \<or> (\<exists>m. e = DomainError ''application_not_found'' m)))"

lemma stated_plain [simp]:
  "stated S (ThrownError m)" "stated S RangeError" "stated S (ConstraintViolation n)"
  "stated S (InvalidPhoneNumberError v)"
  "stated S (HttpException status error m) \<longleftrightarrow> 400 \<le> status \<and> status < 500 \<and> status \<in> S"
  by (auto simp: stated_def status_of_exn_def)

lemma stated_codes [simp]:
  "stated S (DomainError ''application_not_found'' m)"
  "stated S (DomainError ''invalid_schedule'' m) \<longleftrightarrow> 422 \<in> S"
  "stated S (DomainError ''no_whatsapp_session'' m) \<longleftrightarrow> 409 \<in> S"
  "stated S (DomainError ''whatsapp_session_not_found'' m) \<longleftrightarrow> 404 \<in> S"
  "stated S (DomainError ''notification_not_found'' m) \<longleftrightarrow> 404 \<in> S"
  "stated S (DomainError ''notification_not_cancellable'' m) \<longleftrightarrow> 409 \<in> S"
  "stated S (DomainError ''idempotency_key_reused'' m) \<longleftrightarrow> 422 \<in> S"
  "stated S (DomainError ''idempotency_key_in_flight'' m) \<longleftrightarrow> 409 \<in> S"
  "stated S (DomainError ''invalid_cursor'' m) \<longleftrightarrow> 400 \<in> S"
  by (simp_all add: stated_def status_of_exn_def answerable_def status_by_domain_error_code_def)

interpretation stating: session_frame "\<lambda>w. True" "\<lambda>v w. True" "stated S" for S
  by unfold_locales simp_all

abbreviation throws :: "int set \<Rightarrow> 'a prog \<Rightarrow> bool" where
  "throws S \<equiv> safe (\<lambda>w. True) (\<lambda>v w. True) (stated S) (\<lambda>x. True)"

abbreviation fails_in :: "int set \<Rightarrow> 'r tx \<Rightarrow> bool" where
  "fails_in S \<equiv> commits (\<lambda>w. True) (\<lambda>v w. True) (stated S)"

lemma fails_inI: "(\<And>w e. t w = Inl e \<Longrightarrow> stated S e) \<Longrightarrow> fails_in S t"
  by (rule commitsI) auto

lemma throws_writing: "throws S p \<Longrightarrow> throws S (writing f p)"
  by (simp add: writing_def)

lemma throws_bind: "throws S p \<Longrightarrow> (\<And>x. throws S (k x)) \<Longrightarrow> throws S (bind p k)"
  by (rule safe_bind)

lemma fails_in_throw [simp]: "fails_in S (tx_throw e) \<longleftrightarrow> stated S e"
  by (simp add: commits_def tx_throw_def)

lemma fails_in_for_each: "(\<And>x. fails_in S (f x)) \<Longrightarrow> fails_in S (tx_for_each f xs)"
  by (induction xs) (auto intro!: stating.commits_bind)

lemmas throw_intros =
  stating.commits_bind stating.safe_commits stating.safe_clock stating.safe_read
  throws_writing throws_bind fails_in_for_each

lemma fails_in_identifier [simp]: "fails_in S (new_identifier c)"
  by (simp add: commits_def new_identifier_def)

lemma throws_identified: "(\<And>i. throws S (k i)) \<Longrightarrow> throws S (next_identifier c k)"
  unfolding next_identifier_def by (intro throw_intros fails_in_identifier)

lemma throws_correlated: "(\<And>i. throws S (k i)) \<Longrightarrow> throws S (with_correlation c rt k)"
  by (auto simp: with_correlation_def split: option.splits intro: throws_identified)

lemma fails_in_statements [simp]:
  "fails_in S (update_notifications p f)" "fails_in S (insert_notification n)"
  "fails_in S (append_event e)" "fails_in S (enqueue_in_transaction c j)"
  "fails_in S (repository_claim c input)" "fails_in S (repository_complete i t st bd rs now)"
  "fails_in S (record_delivery dl)" "fails_in S (consume_attempt sb pol ok now)"
  by (rule fails_inI,
      auto simp: update_notifications_def insert_notification_def append_event_def
        enqueue_in_transaction_def repository_claim_def repository_complete_def
        record_delivery_def consume_attempt_def tx_bind_def new_identifier_def Let_def
      split: if_splits option.splits sum.splits)+

section \<open>The services of the public API\<close>

lemma throws_key: "throws S (authenticate_key kr token)"
  by (auto simp: authenticate_key_def Let_def split: option.splits intro!: throw_intros)

lemma throws_find_application: "throws S (get_application_or_fail g a)"
  by (auto simp: get_application_or_fail_def application_not_found_def split: option.splits intro!: throw_intros)

lemma throws_consume: "throws S (consume s pol reachable)"
  by (auto simp: consume_def intro!: throw_intros)

lemma fails_in_creation:
  assumes "{404, 409, 422} \<subseteq> S"
  shows "fails_in S (resolve_session a i)" "fails_in S (claim_idempotency_key c input fp now)"
    "fails_in S (write_notification c d)" "fails_in S (complete_key key_id token body res now)"
    "fails_in S (read_or_fail a n)" "fails_in S (read_all_or_fail a ns)"
proof -
  have S: "404 \<in> S" "409 \<in> S" "422 \<in> S" using assms by auto
  show "fails_in S (resolve_session a i)"
    by (rule fails_inI) (auto simp: S resolve_session_def Let_def split: option.splits)
  show "fails_in S (claim_idempotency_key c input fp now)"
    by (auto simp: S claim_idempotency_key_def split: option.splits idempotency_claim.splits intro!: throw_intros)
  show "fails_in S (write_notification c d)"
    by (auto simp: write_notification_def Let_def intro!: throw_intros)
  show "fails_in S (complete_key key_id token body res now)"
    by (auto simp: complete_key_def split: option.splits)
  have read: "fails_in S (read_or_fail a i)" for i
    by (rule fails_inI) (auto simp: read_or_fail_def split: option.splits)
  then show "fails_in S (read_or_fail a n)" .
  show "fails_in S (read_all_or_fail a ns)"
    unfolding read_all_or_fail_def by (intro throw_intros read)
qed

lemma throws_create:
  assumes "{404, 409, 422} \<subseteq> S"
  shows "throws S (create c rt input r)"
proof -
  have "fails_in S (create_transaction c input r fp corr i now)" for r fp corr i now
    unfolding create_transaction_def
    by (intro stating.commits_bind fails_in_creation [OF assms])
      (auto split: key_claim_result.splits option.splits
        intro!: stating.commits_bind fails_in_creation [OF assms])
  moreover have "assert_schedule_is_in_the_future input now = Inl e \<Longrightarrow> stated S e" for now e
    using assms by (auto simp: assert_schedule_is_in_the_future_def split: option.splits if_splits)
  ultimately show ?thesis
    by (auto simp: create_def split: sum.splits invalid_phone_number.splits
        intro!: stating.safe_clock throws_correlated throws_identified stating.safe_commits)
qed

lemma batch_ids_stated: "read_batch_notification_ids body = Inl e \<Longrightarrow> stated S e"
  by (auto simp: read_batch_notification_ids_def Let_def split: option.splits json.splits if_splits)

lemma throws_draft: "(\<And>ds. throws S (k ds)) \<Longrightarrow> throws S (draft_recipients c rs k)"
  by (induction rs arbitrary: k)
     (auto split: sum.splits invalid_phone_number.splits intro!: throws_identified)

lemma throws_create_batch:
  assumes "{404, 409, 422} \<subseteq> S"
  shows "throws S (create_batch c rt input rs)"
proof -
  have "fails_in S (create_batch_transaction c input ds fp corr now)" for ds fp corr now
    unfolding create_batch_transaction_def
    by (intro stating.commits_bind fails_in_creation [OF assms])
      (auto simp: batch_ids_stated split: key_claim_result.splits sum.splits
        intro!: stating.commits_bind fails_in_for_each fails_in_creation [OF assms])
  moreover have "assert_schedule_is_in_the_future input now = Inl e \<Longrightarrow> stated S e" for now e
    using assms by (auto simp: assert_schedule_is_in_the_future_def split: option.splits if_splits)
  ultimately show ?thesis
    unfolding create_batch_def
    by (intro throws_draft stating.safe_clock)
      (auto split: sum.splits intro!: throws_correlated stating.safe_commits)
qed

lemma throws_reads:
  assumes "404 \<in> S"
  shows "throws S (get_or_fail a i)" "throws S (query_list_events a i)"
proof -
  have found: "fails_in S (query_read_or_fail a i)"
    using assms by (intro fails_inI) (auto simp: query_read_or_fail_def split: option.splits)
  show "throws S (get_or_fail a i)"
    unfolding get_or_fail_def by (intro throw_intros found) simp
  show "throws S (query_list_events a i)"
    unfolding query_list_events_def
    by (intro stating.safe_commits stating.commits_bind found) simp_all
qed

lemma throws_list:
  assumes "400 \<in> S"
  shows "throws S (query_list cc a q)"
proof -
  have "stated S e" if "decode_cursor cc cursor = Inl e" for cursor e
    using that assms
    by (auto simp: decode_cursor_def invalid_cursor_def Let_def
        split: option.splits list.splits if_splits json.splits js_date.splits)
  then show ?thesis
    unfolding query_list_def by (auto split: sum.splits intro!: throw_intros)
qed

lemma throws_cancel:
  assumes "404 \<in> S" and "409 \<in> S"
  shows "throws S (cancel c corr a i)"
proof -
  have "fails_in S (query_read_or_fail a i)"
    using assms by (intro fails_inI) (auto simp: query_read_or_fail_def split: option.splits)
  moreover have "fails_in S (cancel_transaction c corr a i st now)" for st now
    unfolding cancel_transaction_def apply_transition_def not_cancellable_def
    using assms by (intro stating.commits_bind) (auto split: option.splits intro!: stating.commits_bind)
  ultimately show ?thesis
    unfolding cancel_def not_cancellable_def
    using assms by (intro stating.safe_commits) (auto intro!: throw_intros)
qed

lemma throws_ingest: "throws S (ingest c crypto input)"
proof -
  have "fails_in S (ingest_transaction c s e d corr now)" for s e d now corr
    unfolding ingest_transaction_def
    by (intro stating.commits_bind) (auto split: option.splits intro!: stating.commits_bind)
  then show ?thesis
    unfolding ingest_def
    by (auto split: option.splits
        intro!: stating.safe_read stating.safe_clock throws_identified stating.safe_commits)
qed

section \<open>Replies\<close>

text \<open>A reply of one of the statuses, of an internal error, or of an application archived meanwhile.\<close>

definition ends_in :: "http_runtime \<Rightarrow> int set \<Rightarrow> 'b http_reply \<Rightarrow> bool" where
  "ends_in ht S reply =
     (rp_status reply \<in> insert 500 S
      \<or> rp_status reply = 404
        \<and> (\<exists>p. rp_body reply = ProblemBody p \<and> pd_type p = problem_type ht ''application_not_found''))"

abbreviation ends :: "http_runtime \<Rightarrow> int set \<Rightarrow> 'b http_reply prog \<Rightarrow> bool" where
  "ends ht S \<equiv> safe (\<lambda>w. True) (\<lambda>v w. True) (\<lambda>e. False) (ends_in ht S)"

lemma ends_in_answer [simp]:
  "status \<in> S \<Longrightarrow> ends_in ht S (answer status headers x)"
  by (simp add: ends_in_def answer_def)

lemma archived_entry: "map_of status_by_domain_error_code ''application_not_found'' = Some (404, ''Not Found'')"
  by (simp add: status_by_domain_error_code_def)

lemma ends_refusal:
  assumes "stated S e"
  shows "ends ht S (refuse ht h headers e)"
  using assms
  by (cases e) (auto simp: refuse_def to_problem_details_def ends_in_def stated_def status_of_exn_def
      answerable_def Let_def archived_entry split: option.splits)

lemma guards_end:
  assumes "throws S p" and "\<And>x. ends ht S (k x)"
  shows "ends ht S (guarded ht h headers p k)"
  unfolding guarded_def
proof (rule safe_bind)
  show "safe (\<lambda>w. True) (\<lambda>v w. True) (\<lambda>e. False) (\<lambda>r. case r of Inl e \<Rightarrow> stated S e | Inr x \<Rightarrow> True) (caught p)"
    by (rule safe_attempt [OF assms(1)]) simp_all
  show "ends ht S (case r of Inl e \<Rightarrow> refuse ht h headers e | Inr x \<Rightarrow> k x)"
    if "case r of Inl e \<Rightarrow> stated S e | Inr x \<Rightarrow> True" for r
    using that assms(2) ends_refusal by (auto split: sum.splits)
qed

lemma ends_reply: "throws S p \<Longrightarrow> status \<in> S \<Longrightarrow> ends ht S (reply_with ht h headers status p)"
  unfolding reply_with_def by (rule guards_end) simp_all

lemma ends_receive:
  assumes "hi_content h = None \<or> 400 \<in> S" and "\<And>headers content. ends ht S (k headers content)"
  shows "ends ht S (receive ht h k)"
  unfolding receive_def
  using assms by (intro guards_end) (auto simp: parse_body_def bad_request_def split: option.splits sum.splits)

lemma ends_with_api_key:
  assumes "{401, 403, 429} \<subseteq> S" and "\<And>headers caller. ends ht S (k headers caller)"
  shows "ends ht S (with_api_key ht h headers scopes k)"
proof -
  have "throws S (api_key_rate_limit_guard ht caller)" for caller
    by (auto simp: api_key_rate_limit_guard_def read_policy_def
        intro!: throws_bind throws_find_application throws_consume)
  moreover have "throws S (api_key_guard (ht_keys ht) scopes h)"
    using assms(1)
    by (auto simp: api_key_guard_def unauthorized_def Let_def split: option.splits intro!: throws_bind throws_key)
  ultimately show ?thesis
    using assms unfolding with_api_key_def
    by (auto simp: Let_def api_key_limited_def intro!: guards_end ends_refusal)
qed

lemma throws_pipes:
  assumes "400 \<in> S"
  shows "throws S (zod_validation_pipe subject schema j)" "throws S (uuid_parameter_pipe fm nm v)"
    "throws S (idempotency_key_pipe key)"
  using assms by (auto simp: idempotency_key_pipe_def zod_validation_pipe_def uuid_parameter_pipe_def
      validation_failed_def split: option.splits)

lemma ends_wrap: "ends ht S p \<Longrightarrow> ends ht S (wrap f p)"
  unfolding wrap_def by (erule safe_bind) (auto simp: ends_in_def)

lemmas end_intros = guards_end ends_reply ends_receive ends_with_api_key ends_wrap throws_bind
  throws_pipes throws_create throws_create_batch throws_reads throws_list throws_cancel throws_ingest
  throws_find_application

lemma creations_end:
  "ends ht {202, 400, 401, 403, 404, 409, 422, 429} (notifications_create ht h)"
  "ends ht {202, 400, 401, 403, 404, 409, 422, 429} (notifications_create_batch ht h)"
  by (auto simp: notifications_create_def notifications_create_batch_def accepted_def intro!: end_intros)

lemma readings_end:
  "ends ht {200, 400, 401, 403, 429} (notifications_list ht h)"
  "ends ht {200, 400, 401, 403, 404, 429} (notifications_get ht h i)"
  "ends ht {200, 400, 401, 403, 404, 429} (notifications_list_events ht h i)"
  "ends ht {200, 400, 401, 403, 404, 409, 429} (notifications_cancel ht h i)"
  by (auto simp: notifications_list_def notifications_get_def notifications_list_events_def
      notifications_cancel_def intro!: end_intros)

lemma current_ends: "hi_content h = None \<Longrightarrow> ends ht {200, 401, 403, 429} (applications_current ht h)"
  by (auto simp: applications_current_def intro!: end_intros)

lemma callbacks_end: "ends ht {202, 400, 401} (webhook_receive ht h i)"
  by (auto simp: webhook_receive_def ingestion_reply_def split: option.splits ingestion_result.splits
      intro!: end_intros)

section \<open>What is described\<close>

text \<open>A described operation is the one a request with this method and these segments asks for.\<close>

definition described_by :: "json \<Rightarrow> string \<Rightarrow> string list \<Rightarrow> json \<Rightarrow> bool" where
  "described_by document verb segments operation =
     (\<exists>path v. (path, v, operation) \<in> set (described document) \<and> method_of v = verb
        \<and> fits (path_template path) segments)"

lemmas read_document = member_def json_field_def

lemma described_document:
  "described (build_openapi_document gs url) =
     [(''/v1/notifications'', ''post'', create_notification_operation gs),
      (''/v1/notifications'', ''get'', list_notifications_operation),
      (''/v1/notifications/batch'', ''post'', create_notification_batch_operation gs),
      (''/v1/notifications/{notificationId}'', ''get'', get_notification_operation),
      (''/v1/notifications/{notificationId}/events'', ''get'', list_notification_events_operation),
      (''/v1/notifications/{notificationId}/cancel'', ''post'', cancel_notification_operation),
      (''/v1/applications/current'', ''get'', get_current_application_operation),
      (''/webhooks/whatsapp/{whatsAppSessionId}'', ''post'', receive_provider_callback_operation),
      (''/v1/openapi.json'', ''get'', get_openapi_document_operation)]"
  by (simp add: described_def read_document build_openapi_document_def documented_paths_def)

lemma templates:
  "path_template ''/v1/notifications'' = [Fixed ''v1'', Fixed ''notifications'']"
  "path_template ''/v1/notifications/batch'' = [Fixed ''v1'', Fixed ''notifications'', Fixed ''batch'']"
  "path_template ''/v1/notifications/{notificationId}'' = [Fixed ''v1'', Fixed ''notifications'', Param]"
  "path_template ''/v1/notifications/{notificationId}/events'' =
     [Fixed ''v1'', Fixed ''notifications'', Param, Fixed ''events'']"
  "path_template ''/v1/notifications/{notificationId}/cancel'' =
     [Fixed ''v1'', Fixed ''notifications'', Param, Fixed ''cancel'']"
  "path_template ''/v1/applications/current'' = [Fixed ''v1'', Fixed ''applications'', Fixed ''current'']"
  "path_template ''/webhooks/whatsapp/{whatsAppSessionId}'' = [Fixed ''webhooks'', Fixed ''whatsapp'', Param]"
  "path_template ''/v1/openapi.json'' = [Fixed ''v1'', Fixed ''openapi.json'']"
  by (simp_all add: path_template_def)

lemma described_by_list:
  "described_by document verb segments operation =
     list_ex (\<lambda>(path, v, o'). method_of v = verb \<and> fits (path_template path) segments \<and> o' = operation) (described document)"
  by (fastforce simp: described_by_def list_ex_iff)

lemma fits_templates:
  "fits [Fixed a, Fixed b] xs \<longleftrightarrow> xs = [a, b]"
  "fits [Fixed a, Fixed b, Fixed c] xs \<longleftrightarrow> xs = [a, b, c]"
  "fits [Fixed a, Fixed b, Param] xs \<longleftrightarrow> (\<exists>i. xs = [a, b, i])"
  "fits [Fixed a, Fixed b, Param, Fixed c] xs \<longleftrightarrow> (\<exists>i. xs = [a, b, i, c])"
  by auto

lemma described_by_cases:
  "described_by (build_openapi_document gs url) verb segments operation \<longleftrightarrow>
     ''POST'' = verb \<and> segments = [''v1'', ''notifications''] \<and> create_notification_operation gs = operation
   \<or> ''GET'' = verb \<and> segments = [''v1'', ''notifications''] \<and> list_notifications_operation = operation
   \<or> ''POST'' = verb \<and> segments = [''v1'', ''notifications'', ''batch''] \<and> create_notification_batch_operation gs = operation
   \<or> ''GET'' = verb \<and> (\<exists>i. segments = [''v1'', ''notifications'', i]) \<and> get_notification_operation = operation
   \<or> ''GET'' = verb \<and> (\<exists>i. segments = [''v1'', ''notifications'', i, ''events'']) \<and> list_notification_events_operation = operation
   \<or> ''POST'' = verb \<and> (\<exists>i. segments = [''v1'', ''notifications'', i, ''cancel'']) \<and> cancel_notification_operation = operation
   \<or> ''GET'' = verb \<and> segments = [''v1'', ''applications'', ''current''] \<and> get_current_application_operation = operation
   \<or> ''POST'' = verb \<and> (\<exists>i. segments = [''webhooks'', ''whatsapp'', i]) \<and> receive_provider_callback_operation = operation
   \<or> ''GET'' = verb \<and> segments = [''v1'', ''openapi.json''] \<and> get_openapi_document_operation = operation"
  unfolding described_by_list described_document
  by (simp add: templates method_of_def fits_templates del: fits_iff)

section \<open>What is routed\<close>

lemma public_routes:
  "route_of ''POST'' [''v1'', ''notifications''] = Some PostNotification"
  "route_of ''GET'' [''v1'', ''notifications''] = Some GetNotifications"
  "route_of ''POST'' [''v1'', ''notifications'', ''batch''] = Some PostNotificationBatch"
  "route_of ''GET'' [''v1'', ''notifications'', i] = Some (GetNotification i)"
  "route_of ''GET'' [''v1'', ''notifications'', i, ''events''] = Some (GetNotificationEvents i)"
  "route_of ''POST'' [''v1'', ''notifications'', i, ''cancel''] = Some (PostNotificationCancel i)"
  "route_of ''GET'' [''v1'', ''applications'', ''current''] = Some GetCurrentApplication"
  "route_of ''POST'' [''webhooks'', ''whatsapp'', i] = Some (PostCallback i)"
  by (rule route_found, unfold routes_def, ((rule find_miss, (simp; fail))+)?, rule find_hit, simp, simp)+

lemma document_not_routed: "route_of ''GET'' [''v1'', ''openapi.json''] = None"
  by (simp add: route_of_def routes_def)

text \<open>The routes a client or the provider calls: those that want a key, and the callback.\<close>

definition is_public :: "route \<Rightarrow> bool" where
  "is_public route = (required_scope route \<noteq> None \<or> (\<exists>i. route = PostCallback i))"

definition public_patterns :: "(string \<times> path_segment list) list" where
  "public_patterns =
     [(''POST'', [Fixed ''v1'', Fixed ''notifications'']),
      (''GET'', [Fixed ''v1'', Fixed ''notifications'']),
      (''POST'', [Fixed ''v1'', Fixed ''notifications'', Fixed ''batch'']),
      (''GET'', [Fixed ''v1'', Fixed ''notifications'', Param]),
      (''GET'', [Fixed ''v1'', Fixed ''notifications'', Param, Fixed ''events'']),
      (''POST'', [Fixed ''v1'', Fixed ''notifications'', Param, Fixed ''cancel'']),
      (''GET'', [Fixed ''v1'', Fixed ''applications'', Fixed ''current'']),
      (''POST'', [Fixed ''webhooks'', Fixed ''whatsapp'', Param])]"

lemma public_entries:
  "list_all (\<lambda>(v, pattern, build). \<forall>ps. is_public (build ps) \<longrightarrow> (v, pattern) \<in> set public_patterns) routes"
  by (simp add: routes_def is_public_def public_patterns_def)

lemma scope_names: "scope_name NOTIFICATIONS_WRITE = ''notifications:write''" "scope_name NOTIFICATIONS_READ = ''notifications:read''"
  by simp_all

lemma document_wants_keys: "member ''security'' (build_openapi_document gs url) = Some (JArr [JObj [(''apiKey'', JArr [])]])"
  by (simp add: read_document build_openapi_document_def)

lemmas operation_defs =
  create_notification_operation_def list_notifications_operation_def create_notification_batch_operation_def
  get_notification_operation_def list_notification_events_operation_def cancel_notification_operation_def
  get_current_application_operation_def receive_provider_callback_operation_def

lemma keys_wanted:
  "needs_key (build_openapi_document gs url) (create_notification_operation gs)"
  "needs_key (build_openapi_document gs url) list_notifications_operation"
  "needs_key (build_openapi_document gs url) (create_notification_batch_operation gs)"
  "needs_key (build_openapi_document gs url) get_notification_operation"
  "needs_key (build_openapi_document gs url) list_notification_events_operation"
  "needs_key (build_openapi_document gs url) cancel_notification_operation"
  "needs_key (build_openapi_document gs url) get_current_application_operation"
  "\<not> needs_key (build_openapi_document gs url) receive_provider_callback_operation"
  unfolding needs_key_def document_wants_keys
  by (simp_all add: read_document operation_defs)

lemma scopes_said:
  "response_description (create_notification_operation gs) ''403'' = Some (JStr ''The API key lacks the notifications:write scope.'')"
  "response_description list_notifications_operation ''403'' = Some (JStr ''The API key lacks the notifications:read scope.'')"
  "response_description (create_notification_batch_operation gs) ''403'' = Some (JStr ''The API key lacks the notifications:write scope.'')"
  "response_description get_notification_operation ''403'' = Some (JStr ''The API key lacks the notifications:read scope.'')"
  "response_description list_notification_events_operation ''403'' = Some (JStr ''The API key lacks the notifications:read scope.'')"
  "response_description cancel_notification_operation ''403'' = Some (JStr ''The API key lacks the notifications:write scope.'')"
  "response_description get_current_application_operation ''403'' = Some (JStr ''The API key lacks the notifications:read scope.'')"
  "response_description receive_provider_callback_operation ''403'' = None"
  by (simp_all add: response_description_def read_document operation_defs problem_response_def)

lemma statuses_said:
  "documented_statuses (create_notification_operation gs) = [''202'', ''400'', ''401'', ''403'', ''404'', ''409'', ''422'', ''429'']"
  "documented_statuses list_notifications_operation = [''200'', ''400'', ''401'', ''403'', ''429'']"
  "documented_statuses (create_notification_batch_operation gs) = [''202'', ''400'', ''401'', ''403'', ''404'', ''409'', ''422'', ''429'']"
  "documented_statuses get_notification_operation = [''200'', ''400'', ''401'', ''403'', ''404'', ''429'']"
  "documented_statuses list_notification_events_operation = [''200'', ''400'', ''401'', ''403'', ''404'', ''429'']"
  "documented_statuses cancel_notification_operation = [''200'', ''400'', ''401'', ''403'', ''404'', ''409'', ''429'']"
  "documented_statuses get_current_application_operation = [''200'', ''401'', ''403'', ''429'']"
  "documented_statuses receive_provider_callback_operation = [''202'', ''400'', ''401'']"
  by (simp_all add: documented_statuses_def read_document operation_defs)

lemma statuses_written:
  "string_of_int 200 = ''200''" "string_of_int 202 = ''202''" "string_of_int 400 = ''400''"
  "string_of_int 401 = ''401''" "string_of_int 403 = ''403''" "string_of_int 404 = ''404''"
  "string_of_int 409 = ''409''" "string_of_int 422 = ''422''" "string_of_int 429 = ''429''"
  by (simp_all add: string_of_int_def string_of_nat.simps digit_char_def char_of_def bit_0)

section \<open>The document and the API\<close>

lemma described_cases:
  assumes "described_by (build_openapi_document gs url) verb segments operation"
  obtains
    (create) "route_of verb segments = Some PostNotification" "operation = create_notification_operation gs"
  | (list) "route_of verb segments = Some GetNotifications" "operation = list_notifications_operation"
  | (batch) "route_of verb segments = Some PostNotificationBatch" "operation = create_notification_batch_operation gs"
  | (get) i where "route_of verb segments = Some (GetNotification i)" "operation = get_notification_operation"
  | (events) i where "route_of verb segments = Some (GetNotificationEvents i)"
      "operation = list_notification_events_operation"
  | (cancel) i where "route_of verb segments = Some (PostNotificationCancel i)" "operation = cancel_notification_operation"
  | (current) "verb = ''GET''" "route_of verb segments = Some GetCurrentApplication"
      "operation = get_current_application_operation"
  | (callback) i where "route_of verb segments = Some (PostCallback i)" "operation = receive_provider_callback_operation"
  | (document) "route_of verb segments = None" "verb = ''GET''" "segments = [''v1'', ''openapi.json'']"
  using assms unfolding described_by_cases
  by (elim disjE exE conjE; clarify)
    (rule create list batch get events cancel current callback document; simp add: public_routes document_not_routed)+

lemma public_routes_described:
  assumes "route_of verb segments = Some route" and "is_public route"
  shows "\<exists>operation. described_by (build_openapi_document gs url) verb segments operation"
proof -
  obtain pattern build where entry: "(verb, pattern, build) \<in> set routes" "fits pattern segments"
    "route = build (path_parameters pattern segments)"
    using route_entry [OF assms(1)] by blast
  then have "(verb, pattern) \<in> set public_patterns"
    using public_entries assms(2) by (fastforce simp: list_all_iff)
  with entry(2) show ?thesis
    by (auto simp: public_patterns_def described_by_cases fits_templates simp del: fits_iff)
qed

text \<open>
  C36: The description of the API is complete and exact. A method and a path are described by an operation
  of the document exactly when they reach a route that wants an API key or the route of the provider's
  callbacks - the description itself apart -, so there is no public route a client cannot find in it and
  nothing in it that does not exist.
\<close>

theorem every_public_route_is_described:
  "(\<exists>operation. described_by (build_openapi_document gs url) verb segments operation)
     = ((\<exists>route. route_of verb segments = Some route \<and> is_public route)
        \<or> verb = ''GET'' \<and> segments = [''v1'', ''openapi.json''])"
proof
  assume "\<exists>operation. described_by (build_openapi_document gs url) verb segments operation"
  then obtain operation where "described_by (build_openapi_document gs url) verb segments operation" by blast
  then show "(\<exists>route. route_of verb segments = Some route \<and> is_public route)
      \<or> verb = ''GET'' \<and> segments = [''v1'', ''openapi.json'']"
    by (cases rule: described_cases) (simp_all add: is_public_def)
next
  assume "(\<exists>route. route_of verb segments = Some route \<and> is_public route)
      \<or> verb = ''GET'' \<and> segments = [''v1'', ''openapi.json'']"
  then show "\<exists>operation. described_by (build_openapi_document gs url) verb segments operation"
  proof (elim disjE exE conjE)
    assume "verb = ''GET''" and "segments = [''v1'', ''openapi.json'']"
    then show ?thesis by (intro exI [of _ get_openapi_document_operation]) (simp add: described_by_cases)
  qed (rule public_routes_described)
qed

text \<open>
  C37: The description says truly what a key needs. An operation is described as needing a key exactly when
  its route asks for one, and its answer 403 names the very scope the route's guard looks for.
\<close>

theorem scopes_are_described_as_required:
  assumes "route_of verb segments = Some route"
    and "described_by (build_openapi_document gs url) verb segments operation"
  shows "needs_key (build_openapi_document gs url) operation = (required_scope route \<noteq> None)
    \<and> response_description operation ''403''
        = map_option (\<lambda>s. JStr (''The API key lacks the '' @ scope_name s @ '' scope.'')) (required_scope route)"
  using assms(2)
  by (cases rule: described_cases) (use assms(1) in \<open>simp_all add: keys_wanted scopes_said\<close>)

text \<open>
  C38: The statuses a client has to expect are all described. Whatever others do meanwhile, a request to a
  described operation - a GET carrying no body - is answered with a status the document lists for it; the
  exceptions are an internal error, and 404 when the application of the key is archived between the two guards that look at it.
\<close>

theorem replies_are_described:
  assumes "route_of verb segments = Some route"
    and "described_by (build_openapi_document gs url) verb segments operation"
    and "verb = ''GET'' \<Longrightarrow> hi_content h = None"
  shows "safe (\<lambda>w. True) (\<lambda>v w. True) (\<lambda>e. False)
      (\<lambda>reply. string_of_int (rp_status reply) \<in> set (documented_statuses operation) \<or> rp_status reply = 500
         \<or> rp_status reply = 404
           \<and> (\<exists>p. rp_body reply = ProblemBody p \<and> pd_type p = problem_type ht ''application_not_found''))
      (serve ht dr h route)"
proof -
  have described: ?thesis
    if "ends ht S (serve ht dr h route)" and "string_of_int ` S \<subseteq> set (documented_statuses operation)" for S
    using that by (elim safe_weaken) (auto simp: ends_in_def)
  show ?thesis
    using assms(2)
  proof (cases rule: described_cases)
    case create
    show ?thesis
      by (rule described [of "{202, 400, 401, 403, 404, 409, 422, 429}"])
        (use create(1) assms(1) in \<open>simp add: ends_wrap creations_end\<close>, simp add: create(2) statuses_said statuses_written)
  next
    case list
    show ?thesis
      by (rule described [of "{200, 400, 401, 403, 429}"])
        (use list(1) assms(1) in \<open>simp add: ends_wrap readings_end\<close>, simp add: list(2) statuses_said statuses_written)
  next
    case batch
    show ?thesis
      by (rule described [of "{202, 400, 401, 403, 404, 409, 422, 429}"])
        (use batch(1) assms(1) in \<open>simp add: ends_wrap creations_end\<close>, simp add: batch(2) statuses_said statuses_written)
  next
    case (get i)
    show ?thesis
      by (rule described [of "{200, 400, 401, 403, 404, 429}"])
        (use get(1) assms(1) in \<open>simp add: ends_wrap readings_end\<close>, simp add: get(2) statuses_said statuses_written)
  next
    case (events i)
    show ?thesis
      by (rule described [of "{200, 400, 401, 403, 404, 429}"])
        (use events(1) assms(1) in \<open>simp add: ends_wrap readings_end\<close>, simp add: events(2) statuses_said statuses_written)
  next
    case (cancel i)
    show ?thesis
      by (rule described [of "{200, 400, 401, 403, 404, 409, 429}"])
        (use cancel(1) assms(1) in \<open>simp add: ends_wrap readings_end\<close>, simp add: cancel(2) statuses_said statuses_written)
  next
    case current
    show ?thesis
      by (rule described [of "{200, 401, 403, 429}"])
        (use current(2) assms(1) assms(3) [OF current(1)] in \<open>simp add: ends_wrap current_ends\<close>, simp add: current(3) statuses_said statuses_written)
  next
    case (callback i)
    show ?thesis
      by (rule described [of "{202, 400, 401}"])
        (use callback(1) assms(1) in \<open>simp add: ends_wrap callbacks_end\<close>, simp add: callback(2) statuses_said statuses_written)
  next
    case document
    with assms(1) show ?thesis by simp
  qed
qed

text \<open>
  One shape is described that is not sent: a callback that cannot be parsed, or whose session is no
  identifier, is refused by the filter with a problem, where the document promises \<open>accepted\<close>.
\<close>

lemma unreadable_callbacks_get_a_problem:
  assumes "\<forall>j. parse_body ht h \<noteq> Done j"
  shows "\<exists>reply p. run (webhook_receive ht h i) env w = (Returned reply, w) \<and> rp_status reply = 400
    \<and> rp_body reply = ProblemBody p"
proof (cases "run (parse_body ht h) env w")
  case (Pair out v)
  show ?thesis
  proof (cases out)
    case (Threw e)
    with Pair obtain m where "e = bad_request m" "v = w" using run_parse_body(1) by blast
    with Pair Threw show ?thesis
      by (simp add: webhook_receive_def receive_def run_guarded bad_request_def refuse_http refusal_def)
  next
    case (Returned j)
    with Pair assms show ?thesis
      by (auto simp: parse_body_def split: option.splits sum.splits if_splits)
  qed
qed

lemma refused_callbacks_are_described_as_accepted:
  "map fst (members (Option.bind (Option.bind (member ''responses'' receive_provider_callback_operation)
     (member ''400'')) (member ''content''))) = [''application/json'']"
  by (simp add: read_document receive_provider_callback_operation_def callback_response_def)

section \<open>Applied\<close>

definition example_schemas :: generated_schemas where
  "example_schemas =
     \<lparr>gs_idempotency_key = JNull, gs_notification_status = JNull, gs_notification_creation_request = JNull,
      gs_notification_batch_creation_request = JNull, gs_notification = JNull, gs_notification_batch = JNull,
      gs_notification_list = JNull, gs_notification_event = JNull\<rparr>"

lemma example_described:
  "described_by (build_openapi_document example_schemas ''https://api.example'') ''GET''
     [''v1'', ''notifications'', ''n1''] get_notification_operation"
  by (simp add: described_by_cases)

theorem scopes_are_described_as_required_witness:
  "response_description get_notification_operation ''403''
     = Some (JStr ''The API key lacks the notifications:read scope.'')"
  using scopes_are_described_as_required [OF public_routes(4) example_described]
  by simp

theorem replies_are_described_witness:
  "safe (\<lambda>w. True) (\<lambda>v w. True) (\<lambda>e. False)
      (\<lambda>reply. string_of_int (rp_status reply) \<in> set (documented_statuses get_notification_operation)
         \<or> rp_status reply = 500
         \<or> rp_status reply = 404 \<and> (\<exists>p. rp_body reply = ProblemBody p
            \<and> pd_type p = problem_type example_http ''application_not_found''))
      (serve example_http example_draws bare_call (GetNotification ''n1''))"
  by (rule replies_are_described [OF public_routes(4) example_described]) (simp add: bare_call_def)

end
