(* ===== verification/Dashboard_Pages.thy ===== *)
theory Dashboard_Pages
  imports Dashboard_Client Dashboard_Api
begin

text \<open>
  The pages of the dashboard, \<open>apps/web/src/routes/\<close> and \<open>apps/web/src/components/\<close>: what they keep while they
  are open, what a click does to it, what they offer and what they say of the records they show. The
  markup is left out, and so is how a browser writes a time. A dash beyond the characters below 256 is
  written in UTF-8.
\<close>

section \<open>The list of notifications\<close>

text \<open>\<open>routes/notifications.tsx\<close>: the filters with the cursor of the page shown, and where earlier pages started.\<close>

record pager =
  pa_filters :: notification_filters
  pa_cursor_history :: "string list"

definition first_pager :: pager where
  "first_pager =
     \<lparr>pa_filters = \<lparr>nf_status = None, nf_recipient = None, nf_cursor = None\<rparr>, pa_cursor_history = []\<rparr>"

datatype filter_change = ChangeStatus "notification_status option" | ChangeRecipient "string option"

fun changed_filters :: "filter_change \<Rightarrow> notification_filters \<Rightarrow> notification_filters" where
  "changed_filters (ChangeStatus status) filters = filters\<lparr>nf_status := status\<rparr>"
| "changed_filters (ChangeRecipient recipient) filters = filters\<lparr>nf_recipient := recipient\<rparr>"

definition apply_filter :: "filter_change \<Rightarrow> pager \<Rightarrow> pager" where
  "apply_filter change s =
     \<lparr>pa_filters = (changed_filters change (pa_filters s))\<lparr>nf_cursor := None\<rparr>, pa_cursor_history = []\<rparr>"

text \<open>What leaving the field of the recipient applies.\<close>

definition entered_recipient :: "string \<Rightarrow> filter_change" where
  "entered_recipient text = ChangeRecipient (if text = [] then None else Some text)"

definition press_previous :: "pager \<Rightarrow> pager" where
  "press_previous s =
     \<lparr>pa_filters = (pa_filters s)\<lparr>nf_cursor :=
        (if 1 < length (pa_cursor_history s) then Some (last (pa_cursor_history s)) else None)\<rparr>,
      pa_cursor_history = butlast (pa_cursor_history s)\<rparr>"

text \<open>The cursor the answer for the page shown carries, when there is an answer and it carries one.\<close>

definition press_next :: "string option \<Rightarrow> pager \<Rightarrow> pager" where
  "press_next next_cursor s =
     (case next_cursor of
        None \<Rightarrow> s
      | Some cursor \<Rightarrow>
          \<lparr>pa_filters = (pa_filters s)\<lparr>nf_cursor := Some cursor\<rparr>,
           pa_cursor_history = pa_cursor_history s
             @ [case nf_cursor (pa_filters s) of Some c \<Rightarrow> c | None \<Rightarrow> []]\<rparr>)"

definition previous_disabled :: "pager \<Rightarrow> bool" where
  "previous_disabled s = (pa_cursor_history s = [])"

definition is_anything_waiting :: "notification_status list \<Rightarrow> bool" where
  "is_anything_waiting shown = list_ex (\<lambda>s. s = QUEUED \<or> s = RETRYING) shown"

section \<open>Cancelling everything that waits\<close>

text \<open>
  \<open>components/cancel-waiting.tsx\<close>: whether it is asking, whether a request is under way, and what it
  reports. The last component is not the page's: the requests it has made.
\<close>

record waiting_panel =
  wp_is_confirming :: bool
  wp_is_pending :: bool
  wp_result :: "(string + int) option"
  wp_requests :: nat

definition opened_panel :: waiting_panel where
  "opened_panel = \<lparr>wp_is_confirming = False, wp_is_pending = False, wp_result = None, wp_requests = 0\<rparr>"

datatype panel_event = PressCancelEverything | PressConfirm | PressKeep | Settled "string + int"

text \<open>A button that is not shown, or is busy, cannot be pressed.\<close>

definition can_happen :: "waiting_panel \<Rightarrow> panel_event \<Rightarrow> bool" where
  "can_happen s event =
     (case event of
        PressCancelEverything \<Rightarrow> \<not> wp_is_confirming s
      | PressConfirm \<Rightarrow> wp_is_confirming s \<and> \<not> wp_is_pending s
      | PressKeep \<Rightarrow> wp_is_confirming s
      | Settled result \<Rightarrow> wp_is_pending s)"

fun panel_step :: "panel_event \<Rightarrow> waiting_panel \<Rightarrow> waiting_panel" where
  "panel_step PressCancelEverything s =
     s\<lparr>wp_is_confirming := True, wp_is_pending := False, wp_result := None\<rparr>"
| "panel_step PressConfirm s = s\<lparr>wp_is_pending := True, wp_result := None, wp_requests := Suc (wp_requests s)\<rparr>"
| "panel_step PressKeep s = s\<lparr>wp_is_confirming := False\<rparr>"
| "panel_step (Settled result) s = s\<lparr>wp_is_confirming := False, wp_is_pending := False, wp_result := Some result\<rparr>"

definition cancelled_text :: "int \<Rightarrow> string" where
  "cancelled_text n =
     (if n = 0 then ''Nothing was waiting to be sent.''
      else ''Cancelled '' @ string_of_int n @ '' '' @ (if n = 1 then ''notification'' else ''notifications'')
        @ ''. None of them will be sent.'')"

section \<open>One notification\<close>

text \<open>\<open>routes/notification.tsx\<close> offers to cancel, \<open>components/timeline.tsx\<close> tells the history.\<close>

definition offers_cancellation :: "notification_status \<Rightarrow> bool" where
  "offers_cancellation status = (status \<in> set [SCHEDULED, QUEUED, RETRYING])"

record attempt_group =
  ag_attempt_number :: "int option"
  ag_events :: "event_response list"

definition add_to_groups :: "attempt_group list \<Rightarrow> event_response \<Rightarrow> attempt_group list" where
  "add_to_groups groups event =
     (if groups \<noteq> [] \<and> ag_attempt_number (last groups) = er_attempt_number event
      then butlast groups @ [\<lparr>ag_attempt_number = ag_attempt_number (last groups),
             ag_events = ag_events (last groups) @ [event]\<rparr>]
      else groups @ [\<lparr>ag_attempt_number = er_attempt_number event, ag_events = [event]\<rparr>])"

definition group_by_attempt :: "event_response list \<Rightarrow> attempt_group list" where
  "group_by_attempt events = foldl add_to_groups [] events"

definition event_labels :: "(string \<times> string) list" where
  "event_labels =
     [(''notification.created'', ''Accepted''),
      (''notification.queued'', ''Scheduled time reached''),
      (''notification.sent'', ''Handed to WhatsApp''),
      (''notification.retry_scheduled'', ''Retry scheduled''),
      (''notification.failed'', ''Failed''),
      (''notification.cancelled'', ''Cancelled''),
      (''notification.acknowledged'', ''Acknowledged by WhatsApp''),
      (''notification.claim_reaped'', ''Recovered from an interrupted attempt'')]"

definition event_label :: "event_response \<Rightarrow> string" where
  "event_label event =
     (case map_of event_labels (er_event_type event) of Some label \<Rightarrow> label | None \<Rightarrow> er_event_type event)"

text \<open>The parts of a payload a person is told; the browser writes the time and the number.\<close>

definition payload_text :: "string \<Rightarrow> event_response \<Rightarrow> string option" where
  "payload_text name event = (case json_field name (er_payload event) of Some (JStr s) \<Rightarrow> Some s | _ \<Rightarrow> None)"

definition payload_number :: "string \<Rightarrow> event_response \<Rightarrow> rat option" where
  "payload_number name event = (case json_field name (er_payload event) of Some (JNum r) \<Rightarrow> Some r | _ \<Rightarrow> None)"

definition optional_part :: "('a \<Rightarrow> string) \<Rightarrow> 'a option \<Rightarrow> string list" where
  "optional_part write value = (case value of Some x \<Rightarrow> [write x] | None \<Rightarrow> [])"

definition describe_payload :: "(string \<Rightarrow> string) \<Rightarrow> (rat \<Rightarrow> string) \<Rightarrow> event_response \<Rightarrow> string option" where
  "describe_payload local_time write_number event =
     (let parts = optional_part (\<lambda>s. s) (payload_text ''failureCode'' event)
            @ optional_part (\<lambda>s. ''acknowledgement '' @ s) (payload_text ''acknowledgement'' event)
            @ optional_part (\<lambda>s. ''next attempt '' @ local_time s) (payload_text ''nextAttemptAt'' event)
            @ optional_part (\<lambda>r. ''provider status '' @ write_number r) (payload_number ''providerStatusCode'' event)
      in if parts = [] then None else Some (join [CHR '' '', CHR 0xB7, CHR '' ''] parts))"

definition acknowledgement_steps :: "notification_response \<Rightarrow> (string \<times> string option) list" where
  "acknowledgement_steps n =
     [(''Accepted'', Some (nr_created_at n)), (''Sent'', nr_sent_at n), (''Delivered'', nr_delivered_at n),
      (''Read'', nr_read_at n)]"

definition says_no_read_receipt :: "notification_response \<Rightarrow> bool" where
  "says_no_read_receipt n = (nr_delivered_at n \<noteq> None \<and> nr_read_at n = None)"

section \<open>Statuses\<close>

text \<open>\<open>components/status.tsx\<close>; the glyphs beside the labels are left out.\<close>

datatype tone = Neutral | Positive | Caution | Negative | Accent

record status_presentation =
  pn_label :: string
  pn_tone :: tone
  pn_meaning :: string

fun notification_presentation :: "notification_status \<Rightarrow> status_presentation" where
  "notification_presentation SCHEDULED =
     \<lparr>pn_label = ''Scheduled'', pn_tone = Neutral, pn_meaning = ''Waiting for the time it was scheduled for.''\<rparr>"
| "notification_presentation QUEUED =
     \<lparr>pn_label = ''Queued'', pn_tone = Neutral, pn_meaning = ''Accepted and waiting for a worker to pick it up.''\<rparr>"
| "notification_presentation PROCESSING =
     \<lparr>pn_label = ''Processing'', pn_tone = Accent, pn_meaning = ''A worker is handing it to WhatsApp right now.''\<rparr>"
| "notification_presentation RETRYING =
     \<lparr>pn_label = ''Retrying'', pn_tone = Caution, pn_meaning = ''An attempt did not succeed and another is scheduled.''\<rparr>"
| "notification_presentation SENT =
     \<lparr>pn_label = ''Sent'', pn_tone = Accent, pn_meaning = ''WhatsApp accepted it. Nobody has received it yet.''\<rparr>"
| "notification_presentation DELIVERED =
     \<lparr>pn_label = ''Delivered'', pn_tone = Positive, pn_meaning = ''It reached the recipient's device.''\<rparr>"
| "notification_presentation FAILED =
     \<lparr>pn_label = ''Failed'', pn_tone = Negative, pn_meaning = ''It will not be attempted again.''\<rparr>"
| "notification_presentation CANCELLED =
     \<lparr>pn_label = ''Cancelled'', pn_tone = Neutral, pn_meaning = ''Cancelled before it was handed to WhatsApp.''\<rparr>"

definition notification_status_order :: "notification_status list" where
  "notification_status_order = [SCHEDULED, QUEUED, PROCESSING, RETRYING, SENT, DELIVERED, FAILED, CANCELLED]"

fun connection_presentation :: "provider_session_status \<Rightarrow> status_presentation" where
  "connection_presentation STOPPED =
     \<lparr>pn_label = ''Stopped'', pn_tone = Neutral, pn_meaning = ''Not running. Starting it resumes the existing pairing.''\<rparr>"
| "connection_presentation STARTING = \<lparr>pn_label = ''Starting'', pn_tone = Accent, pn_meaning = ''Coming up.''\<rparr>"
| "connection_presentation SCAN_QR_CODE =
     \<lparr>pn_label = ''Waiting for a scan'', pn_tone = Caution, pn_meaning = ''Ready to pair with a phone.''\<rparr>"
| "connection_presentation WORKING =
     \<lparr>pn_label = ''Connected'', pn_tone = Positive, pn_meaning = ''Paired and able to send.''\<rparr>"
| "connection_presentation SESSION_FAILED =
     \<lparr>pn_label = ''Failed'', pn_tone = Negative, pn_meaning = ''The connection could not be established.''\<rparr>"
| "connection_presentation UNKNOWN =
     \<lparr>pn_label = ''Unrecognised'', pn_tone = Caution,
      pn_meaning = ''The provider reported a state this version does not know.''\<rparr>"

section \<open>Connections\<close>

text \<open>
  \<open>components/account-limits.tsx\<close>, \<open>components/qr-panel.tsx\<close> and \<open>routes/connection.tsx\<close>: what stands in the
  way of sending, what can be done about it. \<open>Date.parse\<close> is the argument \<open>read_date\<close>.
\<close>

definition is_connection_paused :: "(string \<Rightarrow> js_date) \<Rightarrow> millis \<Rightarrow> connection_response \<Rightarrow> bool" where
  "is_connection_paused read_date now c =
     (case cn_sending_paused_until c of
        None \<Rightarrow> False
      | Some paused_until \<Rightarrow> (case read_date paused_until of Date t \<Rightarrow> now < t | InvalidDate \<Rightarrow> False))"

definition describe_timelock :: "(string option \<Rightarrow> string) \<Rightarrow> account_limits_response option \<Rightarrow> string" where
  "describe_timelock write_time limits =
     (case Option.bind limits lr_reachout_timelock of
        Some timelock \<Rightarrow> if st_is_active timelock then ''Restricted until '' @ write_time (st_ends_at timelock)
                        else ''No restriction reported''
      | None \<Rightarrow> ''No restriction reported'')"

definition describe_quota :: "(rat \<Rightarrow> string) \<Rightarrow> account_limits_response option \<Rightarrow> string" where
  "describe_quota write_number limits =
     (case Option.bind limits lr_new_chat_quota of
        None \<Rightarrow> ''No limit reported''
      | Some quota \<Rightarrow>
          if sq_total quota < 0 then ''No limit reported''
          else let usage = write_number (sq_used quota) @ '' of '' @ write_number (sq_total quota) @ '' used''
               in if sq_status quota = ''NONE'' then usage
                  else usage @ [CHR '' '', CHR 0xE2, CHR 0x80, CHR 0x94] @ '' WhatsApp warns: '' @ sq_status quota)"

definition to_chat_link :: "string \<Rightarrow> string" where
  "to_chat_link phone_number = ''https://wa.me/'' @ filter is_digit phone_number"

definition shows_account_limits :: "connection_response \<Rightarrow> bool" where
  "shows_account_limits c = (cn_status c = WORKING \<or> cn_account_limits c \<noteq> None)"

definition offers_cancel_waiting :: "(string \<Rightarrow> js_date) \<Rightarrow> millis \<Rightarrow> connection_response \<Rightarrow> bool" where
  "offers_cancel_waiting read_date now c = (cn_status c \<noteq> WORKING \<or> is_connection_paused read_date now c)"

text \<open>The buttons of \<open>ConnectionActions\<close>, and whether a code is asked for.\<close>

definition is_running :: "connection_response \<Rightarrow> bool" where
  "is_running c = (cn_status c \<noteq> STOPPED \<and> cn_status c \<noteq> SESSION_FAILED)"

definition offered_actions :: "connection_response \<Rightarrow> connection_action list" where
  "offered_actions c = [if is_running c then ActionStop else ActionStart, ActionLogout]"

definition is_scannable :: "connection_response \<Rightarrow> bool" where
  "is_scannable c = (cn_status c = SCAN_QR_CODE)"

definition asks_for_code :: "bool \<Rightarrow> connection_response \<Rightarrow> bool" where
  "asks_for_code is_attentive c = (is_scannable c \<and> is_attentive)"

section \<open>API keys\<close>

text \<open>\<open>components/scopes.ts\<close> and \<open>routes/api-keys.tsx\<close>.\<close>

fun describe_scope :: "api_key_scope \<Rightarrow> string" where
  "describe_scope NOTIFICATIONS_WRITE = ''Send notifications and cancel ones that have not gone out yet.''"
| "describe_scope NOTIFICATIONS_READ = ''Read notifications and their delivery history.''"
| "describe_scope TEMPLATES_WRITE = ''Create and change message templates.''"
| "describe_scope TEMPLATES_READ = ''Read message templates.''"
| "describe_scope SESSIONS_READ = ''Read the state of the WhatsApp connections.''"

definition scopes_without_an_endpoint :: "api_key_scope list" where
  "scopes_without_an_endpoint = [TEMPLATES_WRITE, TEMPLATES_READ, SESSIONS_READ]"

definition available_scopes :: "api_key_scope list" where
  "available_scopes =
     filter (\<lambda>s. s \<notin> set scopes_without_an_endpoint)
       [NOTIFICATIONS_WRITE, NOTIFICATIONS_READ, TEMPLATES_WRITE, TEMPLATES_READ, SESSIONS_READ]"

definition suggested_scopes :: "api_key_scope list" where
  "suggested_scopes = [NOTIFICATIONS_WRITE, NOTIFICATIONS_READ]"

record key_form =
  kf_name :: string
  kf_scopes :: "api_key_scope list"
  kf_created :: "string option"    \<comment> \<open>the key in plain text\<close>

definition opened_key_form :: key_form where
  "opened_key_form = \<lparr>kf_name = [], kf_scopes = suggested_scopes, kf_created = None\<rparr>"

text \<open>A box that is ticked becomes empty, and the other way round.\<close>

definition toggle_scope :: "api_key_scope \<Rightarrow> key_form \<Rightarrow> key_form" where
  "toggle_scope scope s =
     s\<lparr>kf_scopes := (if scope \<in> set (kf_scopes s) then filter (\<lambda>current. current \<noteq> scope) (kf_scopes s)
                    else kf_scopes s @ [scope])\<rparr>"

definition type_key_name :: "string \<Rightarrow> key_form \<Rightarrow> key_form" where
  "type_key_name text s = s\<lparr>kf_name := text\<rparr>"

definition key_created :: "string \<Rightarrow> key_form \<Rightarrow> key_form" where
  "key_created plaintext_key s = s\<lparr>kf_created := Some plaintext_key, kf_name := []\<rparr>"

definition key_dismissed :: "key_form \<Rightarrow> key_form" where
  "key_dismissed s = s\<lparr>kf_created := None\<rparr>"

definition can_create_key :: "bool \<Rightarrow> key_form \<Rightarrow> bool" where
  "can_create_key is_pending s = (\<not> is_pending \<and> kf_scopes s \<noteq> [] \<and> kf_name s \<noteq> [])"

definition key_request_body :: "key_form \<Rightarrow> json" where
  "key_request_body s =
     JObj [(''name'', JStr (kf_name s)), (''scopes'', JArr (map (JStr \<circ> scope_name) (kf_scopes s)))]"

section \<open>Applications\<close>

text \<open>
  \<open>routes/applications.tsx\<close>. \<open>toLowerCase\<close> is an argument: whatever it answers, only small letters and
  digits are left of it.
\<close>

definition is_slug_char :: "char \<Rightarrow> bool" where
  "is_slug_char c = (is_digit c \<or> is_letter c \<and> to_lower c = c)"

fun hyphenated :: "bool \<Rightarrow> string \<Rightarrow> string" where
  "hyphenated in_run [] = []"
| "hyphenated in_run (c # cs) =
     (if is_slug_char c then c # hyphenated False cs
      else if in_run then hyphenated True cs else CHR ''-'' # hyphenated True cs)"

definition trim_hyphens :: "string \<Rightarrow> string" where
  "trim_hyphens s = rev (dropWhile (\<lambda>c. c = CHR ''-'') (rev (dropWhile (\<lambda>c. c = CHR ''-'') s)))"

definition to_slug_suggestion :: "(string \<Rightarrow> string) \<Rightarrow> string \<Rightarrow> string" where
  "to_slug_suggestion lower name = take 64 (trim_hyphens (hyphenated False (lower name)))"

record application_form =
  af_is_creating :: bool
  af_name :: string
  af_slug :: string

definition application_request_body :: "(string \<Rightarrow> string) \<Rightarrow> application_form \<Rightarrow> json" where
  "application_request_body lower s =
     JObj [(''name'', JStr (af_name s)),
           (''slug'', JStr (if af_slug s \<noteq> [] then af_slug s else to_slug_suggestion lower (af_name s)))]"

definition application_created :: "application_form \<Rightarrow> application_form" where
  "application_created s = \<lparr>af_is_creating = False, af_name = [], af_slug = []\<rparr>"

section \<open>Signing in\<close>

text \<open>\<open>routes/sign-in.tsx\<close>: which call the form makes, from the fields it shows.\<close>

datatype sign_in_mode = SignIn | CreateAccount

fun other_mode :: "sign_in_mode \<Rightarrow> sign_in_mode" where
  "other_mode SignIn = CreateAccount"
| "other_mode CreateAccount = SignIn"

definition read_form_field :: "(string \<times> string) list \<Rightarrow> string \<Rightarrow> string" where
  "read_form_field form name = (case map_of form name of Some value \<Rightarrow> value | None \<Rightarrow> [])"

definition sign_in_call :: "sign_in_mode \<Rightarrow> (string \<times> string) list \<Rightarrow> dashboard_call" where
  "sign_in_call mode form =
     (let text = (\<lambda>name. JStr (read_form_field form name))
      in case mode of
           SignIn \<Rightarrow> CallLogin (JObj [(''email'', text ''email''), (''password'', text ''password'')])
         | CreateAccount \<Rightarrow> CallRegister (JObj
             [(''organizationName'', text ''organizationName''), (''name'', text ''name''),
              (''email'', text ''email''), (''password'', text ''password'')]))"

section \<open>Sending\<close>

text \<open>\<open>routes/send.tsx\<close>.\<close>

definition send_body :: "string \<Rightarrow> string \<Rightarrow> json" where
  "send_body recipient body = JObj [(''recipient'', JStr recipient), (''body'', JStr body), (''metadata'', JObj [])]"

definition warns_not_connected :: "connection_response list option \<Rightarrow> bool" where
  "warns_not_connected connections =
     (case connections of Some cs \<Rightarrow> \<not> list_ex (\<lambda>c. cn_status c = WORKING) cs | None \<Rightarrow> False)"

section \<open>Which page is shown\<close>

text \<open>
  \<open>app.tsx\<close>: nothing but the form to sign in for somebody who is not, and never that form for somebody who
  is. The session's query is pending, or has an answer that may be nobody.
\<close>

datatype page =
    CheckingSession | SignInPage | ApplicationsPage | OverviewPage string | NotificationsPage string
  | NotificationPage string string | SendPage string | ConnectionsPage string
  | ConnectionPage string string | ApiKeysPage string | SystemStatusPage string
  | NavigateTo string

fun signed_in_page :: "string list \<Rightarrow> page" where
  "signed_in_page [a] = (if a = ''applications'' then ApplicationsPage else NavigateTo ''/applications'')"
| "signed_in_page [a, i] = (if a = ''applications'' then OverviewPage i else NavigateTo ''/applications'')"
| "signed_in_page [a, i, section] =
     (if a \<noteq> ''applications'' then NavigateTo ''/applications''
      else if section = ''notifications'' then NotificationsPage i
      else if section = ''send'' then SendPage i
      else if section = ''connections'' then ConnectionsPage i
      else if section = ''api-keys'' then ApiKeysPage i
      else if section = ''status'' then SystemStatusPage i
      else NavigateTo ''/applications'')"
| "signed_in_page [a, i, section, j] =
     (if a = ''applications'' \<and> section = ''notifications'' then NotificationPage i j
      else if a = ''applications'' \<and> section = ''connections'' then ConnectionPage i j
      else NavigateTo ''/applications'')"
| "signed_in_page _ = NavigateTo ''/applications''"

definition page_for :: "bool \<Rightarrow> json option \<Rightarrow> string list \<Rightarrow> page" where
  "page_for is_pending session segments =
     (if is_pending then CheckingSession
      else if session = None \<or> session = Some JNull
      then (if segments = [''sign-in''] then SignInPage else NavigateTo ''/sign-in'')
      else signed_in_page segments)"

section \<open>Shared controls\<close>

text \<open>\<open>components/ui.tsx\<close>.\<close>

definition button_disabled :: "bool \<Rightarrow> bool \<Rightarrow> bool" where
  "button_disabled is_busy disabled = (is_busy \<or> disabled)"

definition described_by_ids :: "string \<Rightarrow> string option \<Rightarrow> string option \<Rightarrow> string option" where
  "described_by_ids field_id hint error =
     (let ids = (case hint of Some h \<Rightarrow> [field_id @ ''-hint''] | None \<Rightarrow> [])
            @ (case error of Some e \<Rightarrow> [field_id @ ''-error''] | None \<Rightarrow> [])
      in if ids = [] then None else Some (join '' '' ids))"

definition alert_role :: "tone \<Rightarrow> string" where
  "alert_role t = (if t = Negative then ''alert'' else ''status'')"

end
