(* ===== verification/Page_Properties.thy ===== *)
theory Page_Properties
  imports Dashboard_Pages Api_Access
begin

text \<open>
  What the pages promise: nothing is lost between the pages of a list or the groups of a history, and
  what they offer is what the API accepts.
\<close>

section \<open>Paging\<close>

text \<open>The states a person can bring the list of notifications into; cursors are never empty.\<close>

inductive pager_reachable :: "pager \<Rightarrow> bool" where
  opened: "pager_reachable first_pager"
| filtered: "pager_reachable s \<Longrightarrow> pager_reachable (apply_filter change s)"
| forward: "pager_reachable s \<Longrightarrow> next_cursor \<noteq> Some [] \<Longrightarrow> pager_reachable (press_next next_cursor s)"
| backward: "pager_reachable s \<Longrightarrow> \<not> previous_disabled s \<Longrightarrow> pager_reachable (press_previous s)"

text \<open>
  The history remembers the first page as an empty cursor and every other page by its cursor; only the
  first page has no cursor.
\<close>

definition remembers_pages :: "pager \<Rightarrow> bool" where
  "remembers_pages s =
     ((pa_cursor_history s = []) = (nf_cursor (pa_filters s) = None)
      \<and> nf_cursor (pa_filters s) \<noteq> Some []
      \<and> (pa_cursor_history s = [] \<or> [] \<notin> set (tl (pa_cursor_history s)) \<and> hd (pa_cursor_history s) = []))"

lemma changed_filters_cursor [simp]: "nf_cursor (changed_filters change filters) = nf_cursor filters"
  by (cases change) simp_all

lemma last_tl_in: "1 < length xs \<Longrightarrow> last xs \<in> set (tl xs)"
  by (cases xs) (auto split: if_splits)

lemma hd_butlast_long: "1 < length xs \<Longrightarrow> hd (butlast xs) = hd xs \<and> butlast xs \<noteq> []"
  by (cases xs) auto

lemma reachable_pagers_remember: "pager_reachable s \<Longrightarrow> remembers_pages s"
proof (induction rule: pager_reachable.induct)
  case opened
  show ?case by (simp add: first_pager_def remembers_pages_def)
next
  case (filtered s change)
  show ?case by (simp add: apply_filter_def remembers_pages_def)
next
  case (forward s next_cursor)
  then show ?case
    by (cases "pa_cursor_history s") (auto simp: press_next_def remembers_pages_def split: option.splits)
next
  case (backward s)
  show ?case
  proof (cases "1 < length (pa_cursor_history s)")
    case True
    with backward.IH last_tl_in [OF True] hd_butlast_long [OF True] show ?thesis
      by (auto simp: press_previous_def remembers_pages_def butlast_tl [symmetric] dest: in_set_butlastD)
  next
    case False
    then have "butlast (pa_cursor_history s) = []"
      by (cases "pa_cursor_history s") auto
    with False show ?thesis by (simp add: press_previous_def remembers_pages_def)
  qed
qed

text \<open>
  Going back undoes going on. From every state of the list a person can reach, pressing Next and then
  Previous shows the page that was there, with the same filters and the same way back.
\<close>

theorem previous_undoes_next:
  assumes "pager_reachable s" and "next_cursor = Some c"
  shows "press_previous (press_next next_cursor s) = s"
proof -
  have "remembers_pages s" by (rule reachable_pagers_remember [OF assms(1)])
  then show ?thesis
    using assms(2)
    by (cases "nf_cursor (pa_filters s)") (auto simp: press_next_def press_previous_def remembers_pages_def)
qed

text \<open>The query of the list, and what is on the screen while Next is pressed until it is greyed out.\<close>

definition query_of_pager :: "pager \<Rightarrow> list_query" where
  "query_of_pager s =
     \<lparr>lq_statuses = map_option (\<lambda>status. [status]) (nf_status (pa_filters s)),
      lq_recipient = nf_recipient (pa_filters s), lq_cursor = nf_cursor (pa_filters s), lq_limit = 25\<rparr>"

primrec browsed :: "nat \<Rightarrow> cursor_codec \<Rightarrow> uuid \<Rightarrow> pager \<Rightarrow> env \<Rightarrow> world \<Rightarrow> notification list" where
  "browsed 0 cc a s env w = []"
| "browsed (Suc pages) cc a s env w =
     (case fst (run (query_list cc a (query_of_pager s)) env w) of
        Returned (items, next_cursor) \<Rightarrow>
          items @ (if next_cursor = None then [] else browsed pages cc a (press_next next_cursor s) env w)
      | Threw e \<Rightarrow> [])"

definition filters_of_pager :: "pager \<Rightarrow> list_filters" where
  "filters_of_pager s =
     \<lparr>lf_statuses = map_option (\<lambda>status. [status]) (nf_status (pa_filters s)),
      lf_recipient_phone_number = nf_recipient (pa_filters s), lf_template_id = None, lf_created_before = None\<rparr>"

lemma run_list:
  assumes "decode_cursor cc (nf_cursor (pa_filters s)) = Inr cursor"
  shows "fst (run (query_list cc a (query_of_pager s)) env w) =
    (let page = repository_list a (filters_of_pager s) cursor 25 w
     in Returned (fst page, map_option (encode_cursor cc) (snd page)))"
  using assms by (simp add: query_list_def query_of_pager_def filters_of_pager_def step_simps Let_def)

lemma listed_cursor:
  assumes "repository_list a filters cursor limit w = (items, Some k)"
  shows "\<exists>r \<in> set (w_notifications w). k = cursor_at r"
proof -
  have "repository_list a filters cursor limit w = (items, Some k)
    \<Longrightarrow> set items \<subseteq> set (w_notifications w) \<and> items \<noteq> [] \<and> k = cursor_at (last items)"
    by (auto simp: repository_list_def Let_def cursor_at_def split: if_splits dest: in_set_takeD)
  with assms show ?thesis by (meson last_in_set subsetD)
qed

lemma browsed_pages:
  assumes "\<forall>r \<in> set (w_notifications w). decode_cursor cc (Some (encode_cursor cc (cursor_at r))) = Inr (Some (cursor_at r))"
  shows "decode_cursor cc (nf_cursor (pa_filters s)) = Inr cursor
    \<Longrightarrow> browsed pages cc a s env w = page_through pages a (filters_of_pager s) 25 cursor w"
proof (induction pages arbitrary: s cursor)
  case (Suc pages)
  obtain items following where page: "repository_list a (filters_of_pager s) cursor 25 w = (items, following)"
    by (cases "repository_list a (filters_of_pager s) cursor 25 w")
  show ?case
  proof (cases following)
    case None
    with page Suc.prems show ?thesis by (simp add: run_list Let_def)
  next
    case (Some k)
    with page listed_cursor assms have "decode_cursor cc (Some (encode_cursor cc k)) = Inr (Some k)" by blast
    then have "browsed pages cc a (press_next (Some (encode_cursor cc k)) s) env w
        = page_through pages a (filters_of_pager (press_next (Some (encode_cursor cc k)) s)) 25 (Some k) w"
      by (intro Suc.IH) (simp add: press_next_def)
    moreover have "filters_of_pager (press_next (Some (encode_cursor cc k)) s) = filters_of_pager s"
      by (simp add: filters_of_pager_def press_next_def)
    ultimately show ?thesis
      using page Some Suc.prems by (simp add: run_list Let_def)
  qed
qed simp

text \<open>
  C39: Nothing falls between the pages of the dashboard. Whatever the filters, somebody who starts at the
  first page and presses Next until it is greyed out has been shown every notification that matches,
  each once and newest first. It takes cursors that can be read back, and that a cursor tells the rows
  apart: a cursor holds whole milliseconds where the table holds microseconds, so no two of the rows
  that match may have been created within one millisecond, unless at its very start.
\<close>

theorem pressing_next_shows_everything:
  assumes "distinct (map n_id (w_notifications w))"
    and "told_apart (filter (matches_filters a (filters_of_pager s)) (w_notifications w))"
    and "\<forall>r \<in> set (w_notifications w). codec_reads_back cc (cursor_at r)"
    and "nf_cursor (pa_filters s) = None"
    and "length (filter (matches_filters a (filters_of_pager s)) (w_notifications w)) < pages"
  shows "browsed pages cc a s env w
    = sql_order_by newest_first (filter (matches_filters a (filters_of_pager s)) (w_notifications w))"
proof -
  have "browsed pages cc a s env w = page_through pages a (filters_of_pager s) 25 None w"
    using assms(3) only_signed_cursors_are_read [of cc]
    by (intro browsed_pages) (simp_all add: assms(4) decode_cursor_def)
  moreover have "filter (older_than_cursor None) (listed a (filters_of_pager s) w) = listed a (filters_of_pager s) w"
    by (simp add: older_than_cursor_def)
  moreover have "told_apart (listed a (filters_of_pager s) w)"
    using assms(2) by (simp add: listed_def told_apart_def list_all_iff)
  ultimately show ?thesis
    using page_through_rest [OF assms(1), of a "filters_of_pager s" 25 "[]"] assms(5)
    by (simp add: listed_def)
qed

section \<open>The history of a notification\<close>

definition group_is_whole :: "attempt_group \<Rightarrow> bool" where
  "group_is_whole g = (ag_events g \<noteq> [] \<and> list_all (\<lambda>e. er_attempt_number e = ag_attempt_number g) (ag_events g))"

definition grouped :: "attempt_group list \<Rightarrow> event_response list \<Rightarrow> bool" where
  "grouped groups events =
     (concat (map ag_events groups) = events \<and> list_all group_is_whole groups
      \<and> distinct_adj (map ag_attempt_number groups))"

lemma grouped_step:
  assumes "grouped groups events"
  shows "grouped (add_to_groups groups e) (events @ [e])"
proof (cases groups rule: rev_cases)
  case Nil
  with assms show ?thesis by (simp add: grouped_def add_to_groups_def group_is_whole_def)
next
  case (snoc gs g)
  with assms show ?thesis
    by (auto simp: grouped_def add_to_groups_def group_is_whole_def distinct_adj_append_iff)
qed

text \<open>
  The history of a notification is told completely and by attempt. The groups hold every event once and
  in order, no group is empty or mixes attempts, and two groups that follow each other are of different
  attempts.
\<close>

theorem history_is_grouped_by_attempt: "grouped (group_by_attempt events) events"
proof -
  have "grouped (foldl add_to_groups gs es) (es' @ es)" if "grouped gs es'" for gs es es'
    using that
  proof (induction es arbitrary: gs es')
    case (Cons e es)
    with grouped_step show ?case by fastforce
  qed simp
  from this [of "[]" "[]" events] show ?thesis
    by (simp add: group_by_attempt_def grouped_def)
qed

section \<open>Offers the API accepts\<close>

lemma offers_what_can_be_cancelled: "offers_cancellation status = is_cancellable_notification_status status"
  by (auto simp: offers_cancellation_def is_cancellable_iff)

text \<open>The filter offers every status, each once.\<close>

lemma offered_statuses: "status \<in> set notification_status_order" "distinct notification_status_order"
  by (cases status; simp add: notification_status_order_def) (simp add: notification_status_order_def)

text \<open>A box is shown for a scope exactly when some route asks for it.\<close>

lemma offered_scopes_open_routes:
  "s \<in> set available_scopes \<longleftrightarrow> (\<exists>route. required_scope route = Some s)"
proof
  assume "s \<in> set available_scopes"
  then have "s = NOTIFICATIONS_WRITE \<or> s = NOTIFICATIONS_READ"
    by (auto simp: available_scopes_def scopes_without_an_endpoint_def)
  then show "\<exists>route. required_scope route = Some s"
    using required_scope.simps(1,3) by blast
next
  assume "\<exists>route. required_scope route = Some s"
  then obtain route where "required_scope route = Some s" by blast
  then show "s \<in> set available_scopes"
    by (cases route) (auto simp: available_scopes_def scopes_without_an_endpoint_def)
qed

lemma toggled_scopes_distinct: "distinct (kf_scopes s) \<Longrightarrow> distinct (kf_scopes (toggle_scope scope s))"
  by (simp add: toggle_scope_def)

section \<open>Suggested slugs\<close>

definition slug_text :: "string \<Rightarrow> bool" where
  "slug_text = list_all (\<lambda>c. is_slug_char c \<or> c = CHR ''-'')"

lemma hyphenated_slug: "slug_text (hyphenated in_run s)"
  by (induction in_run s rule: hyphenated.induct) (auto simp: slug_text_def)

lemma slug_text_suffix: "slug_text s \<Longrightarrow> slug_text (dropWhile P s)" "slug_text s \<Longrightarrow> slug_text (take n s)"
  by (auto simp: slug_text_def list_all_iff dest: set_dropWhileD in_set_takeD)

lemma to_slug_text: "slug_text (to_slug_suggestion lower name)"
  unfolding to_slug_suggestion_def trim_hyphens_def
  by (intro slug_text_suffix(2)) (metis slug_text_def list_all_rev hyphenated_slug slug_text_suffix(1))

lemma not_letter: "is_digit c \<Longrightarrow> \<not> is_letter c" "\<not> is_letter CHR ''-''"
  by (simp_all add: is_digit_def is_letter_def char_code_def)

lemma slug_char_not_space: "is_slug_char c \<or> c = CHR ''-'' \<Longrightarrow> \<not> is_space c"
  by (auto simp: is_slug_char_def is_digit_def is_letter_def is_space_def char_code_def)

lemma slug_untrimmed: "slug_text s \<Longrightarrow> js_trim s = s"
  using slug_char_not_space [of "hd s"] slug_char_not_space [of "last s"]
  by (intro js_trim_unchanged) (auto simp: slug_text_def list_all_iff)

text \<open>
  C40: The slug suggested for an application is accepted by the API exactly when it begins with a letter: it
  never has a character the API refuses and is never too long, but a name that begins with a digit gets a
  suggestion that is refused, and a name without small letters and digits none at all.
\<close>

theorem suggested_slugs_need_a_letter:
  "application_slug_schema (JStr (to_slug_suggestion lower name))
     = (if to_slug_suggestion lower name \<noteq> [] \<and> is_letter (hd (to_slug_suggestion lower name)) then Some (to_slug_suggestion lower name) else None)"
proof -
  let ?s = "to_slug_suggestion lower name"
  have "length ?s \<le> 64" by (simp add: to_slug_suggestion_def)
  moreover have "is_application_slug ?s \<longleftrightarrow> ?s \<noteq> [] \<and> is_letter (hd ?s)"
    using to_slug_text [of lower name]
    by (cases ?s) (auto simp: slug_text_def is_slug_char_def list_all_iff not_letter)
  ultimately show ?thesis
    using slug_untrimmed [OF to_slug_text [of lower name]]
    by (cases ?s) (auto simp: application_slug_schema_def)
qed

lemma digit_slug: "to_slug_suggestion (map to_lower) ''3 Apples'' = ''3-apples''"
  by code_simp

section \<open>Nothing is cancelled unasked\<close>

text \<open>What happened to the panel since it was opened.\<close>

inductive panel_runs :: "panel_event list \<Rightarrow> waiting_panel \<Rightarrow> bool" where
  panel_opened: "panel_runs [] opened_panel"
| panel_moved: "panel_runs events s \<Longrightarrow> can_happen s event \<Longrightarrow> panel_runs (events @ [event]) (panel_step event s)"

inductive_cases panel_runs_snoc: "panel_runs (events @ [event]) s"

text \<open>Of asking, keeping and settling, asking came last.\<close>

fun asked :: "panel_event list \<Rightarrow> bool" where
  "asked [] = False"
| "asked (PressCancelEverything # earlier) = True"
| "asked (PressKeep # earlier) = False"
| "asked (Settled result # earlier) = False"
| "asked (PressConfirm # earlier) = asked earlier"

lemma confirming_when_asked: "panel_runs events s \<Longrightarrow> wp_is_confirming s = asked (rev events)"
proof (induction rule: panel_runs.induct)
  case panel_opened
  show ?case by (simp add: opened_panel_def)
next
  case (panel_moved events s event)
  then show ?case by (cases event) simp_all
qed

lemma panel_runs_prefix: "panel_runs (events @ rest) s \<Longrightarrow> \<exists>s'. panel_runs events s'"
proof (induction rest arbitrary: s rule: rev_induct)
  case (snoc event rest)
  then show ?case by (metis append_assoc panel_runs_snoc append1_eq_conv)
qed auto

text \<open>
  Nothing is cancelled unasked. Whatever is clicked and however the answers come in, each request to
  cancel everything that waits is sent by a confirmation that follows the question - after the button was
  pressed, and not after the person chose to keep them or an earlier request was answered.
\<close>

theorem nothing_is_cancelled_unasked:
  assumes "panel_runs events s" and "events = before @ PressConfirm # later"
  shows "asked (rev before)"
proof -
  obtain s' where "panel_runs (before @ [PressConfirm]) s'"
    using panel_runs_prefix [of "before @ [PressConfirm]" later] assms by auto
  then obtain t where "panel_runs before t" and "can_happen t PressConfirm"
    by (cases rule: panel_runs_snoc) auto
  then show ?thesis
    using confirming_when_asked by (auto simp: can_happen_def)
qed

section \<open>Applied\<close>

theorem previous_undoes_next_witness:
  "press_previous (press_next (Some ''c2'') (press_next (Some ''c1'') first_pager)) = press_next (Some ''c1'') first_pager"
  by (rule previous_undoes_next [OF forward [OF opened] refl]) simp

text \<open>
  Twenty-five notifications of one moment and one of a second and some microseconds before: two pages.
\<close>

definition page_row :: "nat \<Rightarrow> notification" where
  "page_row i = example_notification\<lparr>n_id := replicate (Suc i) CHR ''n''\<rparr>"

definition older_row :: notification where
  "older_row = example_notification\<lparr>n_id := ''old'', n_created_at := n_created_at example_notification - 999500\<rparr>"

definition two_pages :: world where
  "two_pages = example_world\<lparr>w_notifications := older_row # map page_row [0..<25]\<rparr>"

text \<open>A codec whose text is the identifier alone.\<close>

definition row_instant :: "string \<Rightarrow> millis" where
  "row_instant i = to_date (if i = ''old'' then n_created_at older_row else n_created_at example_notification)"

definition plain_codec :: cursor_codec where
  "plain_codec =
     \<lparr>cc_sign = (\<lambda>e. ''sig''), cc_encode = (\<lambda>t. t), cc_decode = (\<lambda>e. e),
      cc_stringify = (\<lambda>j. case j of JObj [_, (_, JStr i)] \<Rightarrow> i | _ \<Rightarrow> []),
      cc_parse = (\<lambda>i. Some (payload_of \<lparr>pc_created_at = row_instant i, pc_id = i\<rparr>)),
      cc_read_date = (\<lambda>t. Date (row_instant (if t = to_iso_string (row_instant ''old'') then ''old'' else ''n'')))\<rparr>"

lemma plain_codec_reads_back: "r \<in> set (w_notifications two_pages) \<Longrightarrow> codec_reads_back plain_codec (cursor_at r)"
proof -
  assume r: "r \<in> set (w_notifications two_pages)"
  have apart: "to_iso_string (row_instant ''n'') \<noteq> to_iso_string (row_instant ''old'')" by code_simp
  have instant: "pc_created_at (cursor_at r) = row_instant (n_id r)" and plain: "CHR ''.'' \<notin> set (n_id r)"
    and known: "row_instant (n_id r) = row_instant (if n_id r = ''old'' then ''old'' else ''n'')"
    using r by (auto simp: two_pages_def cursor_at_def row_instant_def page_row_def older_row_def example_notification_def)
  have cursor: "cursor_at r = \<lparr>pc_created_at = row_instant (n_id r), pc_id = n_id r\<rparr>"
    using instant by (simp add: cursor_at_def)
  show ?thesis
    using apart known plain
    by (auto simp: cursor codec_reads_back_def plain_codec_def payload_of_def Let_def split: if_splits)
qed

lemma two_pages_told_apart: "told_apart (w_notifications two_pages)" "distinct (map n_id (w_notifications two_pages))"
proof -
  show "told_apart (w_notifications two_pages)"
    by (auto simp: told_apart_def list_all_iff two_pages_def page_row_def older_row_def example_notification_def to_date_def)
  have "n_id older_row \<noteq> n_id (page_row i)" for i
    by (simp add: page_row_def older_row_def)
  moreover have "inj_on (n_id \<circ> page_row) A" for A
    by (auto simp: inj_on_def page_row_def replicate_eq_replicate)
  ultimately show "distinct (map n_id (w_notifications two_pages))"
    by (auto simp: two_pages_def distinct_map comp_inj_on_iff)
qed

theorem pressing_next_shows_everything_witness:
  "length (browsed 27 plain_codec ''app'' first_pager example_env two_pages) = 26
   \<and> set (browsed 27 plain_codec ''app'' first_pager example_env two_pages) = set (w_notifications two_pages)"
proof -
  have all: "filter (matches_filters ''app'' (filters_of_pager first_pager)) (w_notifications two_pages) = w_notifications two_pages"
    by (auto simp: filter_id_conv two_pages_def page_row_def older_row_def first_pager_def filters_of_pager_def
        matches_filters_def example_notification_def)
  have count: "length (w_notifications two_pages) = 26" by (simp add: two_pages_def)
  have first: "nf_cursor (pa_filters first_pager) = None" by (simp add: first_pager_def)
  have "browsed 27 plain_codec ''app'' first_pager example_env two_pages = sql_order_by newest_first (w_notifications two_pages)"
    using pressing_next_shows_everything [where w = two_pages and cc = plain_codec and s = first_pager and a = "''app''"
        and pages = 27 and env = example_env] two_pages_told_apart plain_codec_reads_back first all count
    by simp
  with count show ?thesis by simp
qed

theorem nothing_is_cancelled_unasked_witness: "asked (rev [PressCancelEverything])"
proof -
  have "panel_runs ([] @ [PressCancelEverything]) (panel_step PressCancelEverything opened_panel)"
    by (intro panel_moved panel_opened) (simp add: can_happen_def opened_panel_def)
  then have "panel_runs (([] @ [PressCancelEverything]) @ [PressConfirm])
      (panel_step PressConfirm (panel_step PressCancelEverything opened_panel))"
    by (rule panel_moved) (simp add: can_happen_def)
  from nothing_is_cancelled_unasked [OF this, of "[PressCancelEverything]" "[]"] show ?thesis by simp
qed

end
