(* ===== verification/Spec2Isabelle.thy ===== *)
theory Spec2Isabelle
  imports Interleaving Callback_Properties Template Api_Key Tenancy Authentication Session_Service Recovery Request_Properties Provider_Properties Tenant_Reads Local_Setup Stub_Receipts Dashboard_Requests Documented_Api Page_Properties
begin

text \<open>
  \<^bold>\<open>A verification of the WhatsApp notification platform.\<close>

  The platform accepts notifications over an API, keeps them in Postgres, hands each one to
  WhatsApp through a provider (WAHA), and follows what becomes of it through callbacks. Its core is
  the delivery pipeline under \<open>packages/\<close>: a request writes a notification, its first timeline entry
  and a job in one transaction; a worker claims the notification, reserves a send slot on the
  connection, counts an attempt in a ledger, calls the provider and records the outcome; failures
  are classified and retried; a maintenance pass repairs what a dead worker left behind; callbacks
  are filed in an inbox and applied later. Everything that is decided under concurrency is decided
  by a conditional update in the database.

  \<^bold>\<open>Representation.\<close> A table is a list of records (\<open>Store\<close>), a statement is a function on it, a
  transaction is a function from the state to an error or a result and a new state, so that it
  commits as a whole or leaves no trace. A service is a program of effects (\<open>Effects\<close>): each node is
  one thing another worker can observe or interleave with. A program is run alone against a
  provider (\<open>run\<close>), or any number of programs take turns (\<open>Interleaving\<close>). Strings are lists of
  characters below 256, a \<open>Date\<close> is a number of milliseconds, a timestamp Postgres fills is a number
  of microseconds. What is not in the repository is a parameter: identifiers, whether pg-boss
  accepts a job (\<open>c_boss_send\<close>; a refused job is not on file, and \<open>refuses_duplicates_only\<close> states the
  documented case), which rows another transaction holds locked, digests, decryption, JSON text, collation.

  \<^bold>\<open>Theories and the code they model.\<close>
    \<^item> \<open>Prelude\<close>: strings, dates, JSON, numbers as text, rows of tables, ordered results.
    \<^item> \<open>Notification_Status\<close>, \<open>Acknowledgement\<close>, \<open>Provider_Failure\<close>, \<open>Retry_Policy\<close>,
      \<open>Account_Limits\<close>, \<open>Phone_Number\<close>: \<open>packages/domain/src\<close>, with the reading of account limits from
      \<open>packages/provider-whatsapp/src/account-limits.ts\<close>.
    \<^item> \<open>Store\<close>, \<open>Notification_Repository\<close>, \<open>Session_Repository\<close>: \<open>packages/database/src\<close>, with the
      constraints of the schema and the status trigger of the second migration.
    \<^item> \<open>Connection\<close>: \<open>connection-limits.service.ts\<close> and \<open>connection-state.service.ts\<close>.
    \<^item> \<open>Dispatch\<close>: \<open>dispatch-notification.service.ts\<close>, one definition per private method.
    \<^item> \<open>Rate_Limit\<close>: the stored function of the sixth migration, its repository and service.
    \<^item> \<open>Maintenance\<close>: \<open>notification-maintenance.service.ts\<close>.
    \<^item> \<open>Webhook\<close>: \<open>webhook.ts\<close> of the provider package, \<open>ingest-webhook.service.ts\<close> and
      \<open>process-webhook.service.ts\<close>.
    \<^item> \<open>Create_Notification\<close>: \<open>create-notification.service.ts\<close> and the idempotency keys.
    \<^item> \<open>Query\<close>: \<open>notification-query.service.ts\<close> and the keyset pagination.
    \<^item> \<open>Session_Service\<close>: \<open>whatsapp-session.service.ts\<close>, the connections a person pairs.
    \<^item> \<open>Waha_Provider\<close>: \<open>packages/provider-whatsapp/src\<close>, the HTTP client of the provider.
    \<^item> \<open>Template\<close>: \<open>packages/domain/src/template\<close>, parsing and rendering.
    \<^item> \<open>Api_Key\<close>, \<open>Tenancy\<close>, \<open>Authentication\<close>: keys and scopes, the applications of an organization,
      users and dashboard sessions (\<open>packages/composition/src/tenancy\<close>, \<open>.../authentication\<close>,
      \<open>packages/security/src\<close> and their repositories).
    \<^item> \<open>Http\<close>: \<open>apps/api/src/http\<close>, the hooks, guards, pipes and the exception filter; \<open>Contracts\<close>:
      \<open>packages/contracts/src\<close>, the schemas of requests; \<open>Public_Api\<close>, \<open>Dashboard_Api\<close>, \<open>Api_Routes\<close>: the
      controllers, and the whole API as one function \<open>serve\<close> from a route to a program.
    \<^item> \<open>Api_Document\<close>: \<open>packages/contracts/src/openapi.ts\<close>, the description of the public API.
    \<^item> \<open>Worker\<close>: \<open>apps/worker/src/jobs\<close> and the queues of \<open>packages/queue/src\<close>.
    \<^item> \<open>Configuration\<close>: \<open>packages/configuration\<close>, with the generated example file and the setup script.
    \<^item> \<open>Waha_Stub\<close>: \<open>tools/waha-stub/src\<close>, the stand-in for WAHA with its control plane.
    \<^item> \<open>Dashboard_Client\<close>: \<open>apps/web/src/api\<close>, what the pages ask of the API and do with its answers;
      \<open>Dashboard_Pages\<close>: \<open>apps/web/src/routes\<close> and \<open>apps/web/src/components\<close>, what the pages keep, offer and say.

  \<^bold>\<open>What is proved.\<close> \<open>Integrity\<close> states what is always true of the tables (\<open>sound\<close>) and how any effect
  may change them (\<open>evolves\<close>). \<open>Dispatch_Frame\<close> and \<open>Connection\<close> traverse the programs once, inside
  locales whose assumptions are what the transactions promise; \<open>Dispatch_Safety\<close>, \<open>Service_Safety\<close>,
  \<open>Http_Safety\<close> and \<open>Api_Safety\<close> interpret them and show that every service, and every route, keeps the
  tables sound in every interleaving. \<open>Send_Budget\<close> shows that no program hands over a message without
  having counted an attempt for it in a transaction that committed before. \<open>Interleaving\<close> concludes,
  for every state the platform can reach while requests, jobs and the schedule run in any order: the
  tables are sound, no notification is sent more often than its maximum, what is sent is what was
  asked for, and final statuses are final. \<open>Recovery\<close> shows that a maintenance pass offers pg-boss
  a job for everything due and leaves it such that a worker gets the claim. \<open>Request_Properties\<close> holds the laws of creating, cancelling and listing;
  \<open>Callback_Properties\<close> those of callbacks; \<open>Provider_Properties\<close> how a failed call of the provider
  is marked by what came back of it. \<open>Api_Access\<close> and \<open>Dashboard_Access\<close> show who gets past the guards,
  \<open>Api_Acceptance\<close> what an accepted request leaves behind, \<open>Tenant_Isolation\<close> and \<open>Tenant_Reads\<close> that a
  request writes and reads in its own organization only. \<open>Configuration_Properties\<close> and \<open>Local_Setup\<close>
  show that what is accepted at start is safe, and that the setup script makes an accepted file.
  \<open>Stub_Properties\<close> and \<open>Stub_Receipts\<close> run the adapter of \<open>Waha_Provider\<close> against the stub: its sessions
  keep their life cycle and are reported as they are, every failure it can provoke is classified as
  meant, and a receipt finds the message it belongs to (\<open>Number_Text\<close> reads back the numbers in it).
  \<open>Documented_Api\<close> compares the description of the API with its routes, the scopes they ask for and the
  statuses they end with (\<open>Routing\<close> holds what is shared of finding a route).
  \<open>Dashboard_Requests\<close> fits the pages to the API: each call reaches its route and, in every course of a
  session (\<open>browsing\<close>) until its limits are over, passes the guard; \<open>Page_Properties\<close> that paging shows
  everything as long as a cursor tells the rows apart (\<open>told_apart\<close>), that a history is told
  completely, and that what a page offers is what the API accepts.
  \<open>Examples\<close> and \<open>Http_Examples\<close> are the concrete states the witnesses use. The component theories
  hold the laws of their own functions: merging acknowledgements, the pause decision, retry delays,
  phone numbers, the pace of the rate limiter, pages and cursors, templates, keys.

  \<^bold>\<open>Bounds.\<close> No definition uses fuel except \<open>page_through\<close>, whose number of pages is at most one more
  than the number of rows that match. Integers are unbounded, as JavaScript's are exact in the
  ranges the code uses; the seconds of a provider are rational.

  \<^bold>\<open>Not modelled.\<close> What is written to the log, the markup of the
  dashboard, and row level security in the database, whose policies repeat what the
  queries already ask for. Of an answer that reports a failed validation the
  list of its issues is left out. Transactions are atomic, except where the code reads before a
  conditional update and another worker may commit in between; there the read is an effect of its
  own. The primary keys of timeline entries, attempts and deliveries are not checked: their identifiers
  are drawn for the row.
\<close>

end
